(* ===== verification/Ipc_Prelude.thy ===== *)
theory Ipc_Prelude
  imports "HOL-Library.Word"
begin

text \<open>
  The shared prelude: the machine types of the arm64 kernel (little endian, 64-bit pointers), the
  error numbers the drivers return, a byte-addressed memory with the little-endian loads and stores
  that \<open>le16_to_cpu\<close>, \<open>le32_to_cpu\<close>, \<open>cpu_to_le16\<close> and \<open>cpu_to_le32\<close> compile to, \<open>memcpy\<close>, the
  kernel's \<open>ALIGN\<close> macro, and the lemmas on them that the components share.
\<close>

unbundle bit_operations_syntax

named_theorems mem_simps \<open>loads and stores at a base pointer plus an offset\<close>
named_theorems frame_simps \<open>what an operation leaves alone\<close>

section \<open>Types\<close>

type_synonym u8 = "8 word"
type_synonym u16 = "16 word"
type_synonym u32 = "32 word"
type_synonym u64 = "64 word"
type_synonym ptr = "64 word"
type_synonym mem = "ptr \<Rightarrow> u8"

text \<open>The negative error numbers of the modelled code; \<open>Errno n\<close> is any other one a callee returns.\<close>

datatype errno =
    EINVAL | EEXIST | ENOSPC | ENOMEM | ENOENT | ENXIO | EPROBE_DEFER | ENODEV | EAGAIN
  | EFAULT | ETOOSMALL | EPIPE | EBUSY | Errno nat

text \<open>
  The result of a fallible call: \<open>Inl e\<close> for \<open>-e\<close> or \<open>ERR_PTR(-e)\<close>, \<open>Inr v\<close> for a success.
\<close>

type_synonym 'a result = "errno + 'a"

lemma map_result_Inr: "map_sum id f x = Inr y \<longleftrightarrow> (\<exists>z. x = Inr z \<and> y = f z)"
  by (cases x) auto

lemma map_result_Inl: "map_sum id f x = Inl e \<longleftrightarrow> x = Inl e"
  by (cases x) auto

section \<open>Little-endian words\<close>

definition le16 :: "u8 \<Rightarrow> u8 \<Rightarrow> u16" where
  "le16 b0 b1 = ucast b0 OR push_bit 8 (ucast b1)"

definition le32 :: "u8 \<Rightarrow> u8 \<Rightarrow> u8 \<Rightarrow> u8 \<Rightarrow> u32" where
  "le32 b0 b1 b2 b3 =
     ucast b0 OR push_bit 8 (ucast b1) OR push_bit 16 (ucast b2) OR push_bit 24 (ucast b3)"

definition load16 :: "mem \<Rightarrow> ptr \<Rightarrow> u16" where
  "load16 m p = le16 (m p) (m (p + 1))"

definition load32 :: "mem \<Rightarrow> ptr \<Rightarrow> u32" where
  "load32 m p = le32 (m p) (m (p + 1)) (m (p + 2)) (m (p + 3))"

definition store16 :: "mem \<Rightarrow> ptr \<Rightarrow> u16 \<Rightarrow> mem" where
  "store16 m p v = m(p := ucast v, p + 1 := ucast (drop_bit 8 v))"

definition store32 :: "mem \<Rightarrow> ptr \<Rightarrow> u32 \<Rightarrow> mem" where
  "store32 m p v =
     m(p := ucast v, p + 1 := ucast (drop_bit 8 v), p + 2 := ucast (drop_bit 16 v),
       p + 3 := ucast (drop_bit 24 v))"

text \<open>\<open>memcpy(p, bs, length bs)\<close> and the \<open>n\<close> bytes at \<open>p\<close>.\<close>

fun memcpy_to :: "mem \<Rightarrow> ptr \<Rightarrow> u8 list \<Rightarrow> mem" where
  "memcpy_to m p [] = m"
| "memcpy_to m p (b # bs) = memcpy_to (m(p := b)) (p + 1) bs"

fun mem_bytes :: "mem \<Rightarrow> ptr \<Rightarrow> nat \<Rightarrow> u8 list" where
  "mem_bytes m p 0 = []"
| "mem_bytes m p (Suc n) = m p # mem_bytes m (p + 1) n"

text \<open>Little-endian fields of a byte buffer; a buffer holds its fields, so the index is in range.\<close>

definition bytes16 :: "u16 \<Rightarrow> u8 list" where
  "bytes16 v = [ucast v, ucast (drop_bit 8 v)]"

definition bytes32 :: "u32 \<Rightarrow> u8 list" where
  "bytes32 v = [ucast v, ucast (drop_bit 8 v), ucast (drop_bit 16 v), ucast (drop_bit 24 v)]"

definition get16 :: "u8 list \<Rightarrow> nat \<Rightarrow> u16" where
  "get16 bs i = le16 (bs ! i) (bs ! (i + 1))"

definition get32 :: "u8 list \<Rightarrow> nat \<Rightarrow> u32" where
  "get32 bs i = le32 (bs ! i) (bs ! (i + 1)) (bs ! (i + 2)) (bs ! (i + 3))"

text \<open>The kernel's \<open>ALIGN(x, a)\<close>: round up to a multiple of the power of two \<open>a\<close>, in the width of \<open>x\<close>.\<close>

definition ALIGN :: "'a::len word \<Rightarrow> 'a word \<Rightarrow> 'a word" where
  "ALIGN x a = (x + (a - 1)) AND NOT (a - 1)"

section \<open>Lemmas on little-endian words\<close>

lemma le16_bytes [simp]: "le16 (ucast v) (ucast (drop_bit 8 v)) = v"
  unfolding le16_def by (rule bit_word_eqI) (auto simp: bit_simps)

lemma le32_bytes [simp]:
  "le32 (ucast v) (ucast (drop_bit 8 v)) (ucast (drop_bit 16 v)) (ucast (drop_bit 24 v)) = v"
proof (rule bit_word_eqI)
  fix n assume "n < LENGTH(32)"
  then consider "n < 8" | "8 \<le> n" "n < 16" | "16 \<le> n" "n < 24" | "24 \<le> n" "n < 32" by fastforce
  then show "bit (le32 (ucast v) (ucast (drop_bit 8 v)) (ucast (drop_bit 16 v)) (ucast (drop_bit 24 v))) n
      = bit v n"
    unfolding le32_def by cases (auto simp: bit_simps)
qed

lemma length_bytes16 [simp]: "length (bytes16 v) = 2" and length_bytes32 [simp]: "length (bytes32 w) = 4"
  by (simp_all add: bytes16_def bytes32_def)

lemma get16_append [simp]: "get16 (bytes16 v @ bs) 0 = v" and get32_append [simp]: "get32 (bytes32 w @ bs) 0 = w"
  by (simp_all add: get16_def bytes16_def get32_def bytes32_def)

lemma get_skip:
  "length as \<le> i \<Longrightarrow> get16 (as @ bs) i = get16 bs (i - length as)"
  "length as \<le> i \<Longrightarrow> get32 (as @ bs) i = get32 bs (i - length as)"
  by (simp_all add: get16_def get32_def nth_append Suc_diff_le)

lemma get_take:
  "i + 2 \<le> n \<Longrightarrow> get16 (take n bs) i = get16 bs i"
  "i + 4 \<le> n \<Longrightarrow> get32 (take n bs) i = get32 bs i"
  by (simp_all add: get16_def get32_def)

lemma load16_store16 [simp]: "load16 (store16 m p v) p = v"
  by (simp add: load16_def store16_def)

lemma load32_store32 [simp]: "load32 (store32 m p v) p = v"
  by (simp add: load32_def store32_def)

lemma unat_ucast_up [simp]:
  "LENGTH('a) \<le> LENGTH('b) \<Longrightarrow> unat (ucast (w :: 'a::len word) :: 'b::len word) = unat w"
  by (simp add: unsigned_ucast_eq take_bit_nat_eq_self unsigned_less power_increasing
      less_le_trans[OF unsigned_less])

lemma unat_ucast_down:
  "unat (w :: 'a::len word) < 2 ^ LENGTH('b) \<Longrightarrow> unat (ucast w :: 'b::len word) = unat w"
  by (simp add: unsigned_ucast_eq take_bit_nat_eq_self)

lemma ucast_of_nat_unat: "(ucast (w :: 'a::len word) :: 'b::len word) = of_nat (unat w)"
  by (rule unsigned_word_eqI[where 'a = nat])
    (simp add: unsigned_ucast_eq unat_of_nat take_bit_eq_mod)

lemma ucast_of_nat_small:
  "n < 2 ^ LENGTH('a) \<Longrightarrow> (ucast (of_nat n :: 'a::len word) :: 'b::len word) = of_nat n"
  by (simp add: ucast_of_nat_unat unat_of_nat)

lemma unat_u8: "unat (w :: u8) < 2 ^ 8" and unat_u16: "unat (h :: u16) < 2 ^ 16"
  and unat_u32: "unat (x :: u32) < 2 ^ 32" and unat_u64: "unat (y :: u64) < 2 ^ 64"
  using unsigned_less[of w] unsigned_less[of h] unsigned_less[of x] unsigned_less[of y] by simp_all

text \<open>The value of a word as an \<open>int\<close> of C.\<close>

lemma sint_u32: "sint (w :: u32) = (if unat w < 2 ^ 31 then int (unat w) else int (unat w) - 2 ^ 32)"
proof -
  have b: "bit (uint w) 31 \<longleftrightarrow> 2 ^ 31 \<le> uint w"
  proof -
    have lt: "uint w < 4294967296" using uint_lt2p[of w] by simp
    have ge: "0 \<le> uint w" by simp
    have "uint w div 2147483648 = (if 2147483648 \<le> uint w then 1 else 0)" using lt ge by auto
    then show ?thesis unfolding bit_iff_odd by simp
  qed
  have s: "sint w = uint w - 2 ^ 32 * of_bool (bit (uint w) 31)"
    using take_bit_int_eq_self[of "uint w" 32] uint_lt2p[of w] by (simp add: sint_uint signed_take_bit_eq_take_bit_minus)
  have u: "int (unat w) = uint w" by simp
  have "unat w < 2147483648 \<longleftrightarrow> uint w < 2147483648" using u by linarith
  then show ?thesis unfolding s b by simp
qed
section \<open>Pointers as a base and an offset\<close>

text \<open>
  The code walks a block by adding byte counts to a base pointer. \<open>byte_at b k\<close> is byte \<open>k\<close> of the block at
  \<open>b\<close>; the constant keeps the offset a natural number until the wrap-around has been excluded.
\<close>

definition byte_at :: "ptr \<Rightarrow> nat \<Rightarrow> ptr" where
  "byte_at b k = b + of_nat k"

lemma at_0 [mem_simps]: "byte_at b 0 = b"
  by (simp add: byte_at_def)

lemma at_add_numeral [mem_simps]: "byte_at b k + numeral w = byte_at b (k + numeral w)"
  by (simp add: byte_at_def)

lemma at_add_one [mem_simps]: "byte_at b k + 1 = byte_at b (k + 1)"
  by (simp add: byte_at_def)

lemma at_at [mem_simps]: "byte_at (byte_at b i) j = byte_at b (i + j)"
  by (simp add: byte_at_def)

lemma at_add_word: "byte_at b k + w = byte_at b (k + unat w)"
  by (simp add: byte_at_def)

lemma byte_at_ucast: "b + ucast (w :: 'a::len word) = byte_at b (unat w)"
  by (simp only: byte_at_def ucast_of_nat_unat)

lemma byte_at_numeral: "b + numeral w = byte_at b (numeral w)"
  by (simp add: byte_at_def)

lemma at_diff_word: "unat w \<le> k \<Longrightarrow> byte_at b k - w = byte_at b (k - unat w)"
  by (simp add: byte_at_def of_nat_diff)

lemma at_eq_iff [mem_simps]:
  assumes "i < 2 ^ 64" "j < 2 ^ 64"
  shows "(byte_at b i = byte_at b j) = (i = j)"
proof -
  have "unat (of_nat i :: ptr) = i" "unat (of_nat j :: ptr) = j"
    using assms by (simp_all add: unat_of_nat)
  then have "((of_nat i :: ptr) = of_nat j) = (i = j)" by metis
  then show ?thesis by (simp add: byte_at_def)
qed

lemma unat_at:
  assumes "unat b + i < 2 ^ 64"
  shows "unat (byte_at b i) = unat b + i"
proof -
  have "unat (of_nat i :: ptr) = i" using assms by (simp add: unat_of_nat)
  then show ?thesis
    using assms unat_add_lem[of b "of_nat i"] by (simp add: byte_at_def)
qed

lemma at_less_iff:
  assumes "unat b + i < 2 ^ 64" "unat b + j < 2 ^ 64"
  shows "(byte_at b i < byte_at b j) = (i < j)"
  using unat_at[OF assms(1)] unat_at[OF assms(2)] by (simp add: word_less_nat_alt)

lemma at_le_iff:
  assumes "unat b + i < 2 ^ 64" "unat b + j < 2 ^ 64"
  shows "(byte_at b i \<le> byte_at b j) = (i \<le> j)"
  using unat_at[OF assms(1)] unat_at[OF assms(2)] by (simp add: word_le_nat_alt)

section \<open>Framing: memories that agree on a range\<close>

definition same_on :: "mem \<Rightarrow> mem \<Rightarrow> ptr \<Rightarrow> nat \<Rightarrow> nat \<Rightarrow> bool" where
  "same_on m m' b i j \<longleftrightarrow> (\<forall>k. i \<le> k \<and> k < j \<longrightarrow> m' (byte_at b k) = m (byte_at b k))"

lemma same_onD: "same_on m m' b i j \<Longrightarrow> i \<le> k \<Longrightarrow> k < j \<Longrightarrow> m' (byte_at b k) = m (byte_at b k)"
  by (simp add: same_on_def)

lemma same_on_refl [simp]: "same_on m m b i j"
  by (simp add: same_on_def)

lemma same_on_trans [trans]: "same_on m m' b i j \<Longrightarrow> same_on m' m'' b i j \<Longrightarrow> same_on m m'' b i j"
  by (simp add: same_on_def)

lemma same_on_mono: "same_on m m' b i j \<Longrightarrow> i \<le> i' \<Longrightarrow> j' \<le> j \<Longrightarrow> same_on m m' b i' j'"
  by (simp add: same_on_def)

lemma load16_same:
  assumes "same_on m m' b i j" "i \<le> k" "k + 2 \<le> j"
  shows "load16 m' (byte_at b k) = load16 m (byte_at b k)"
  unfolding load16_def mem_simps using assms by (simp add: same_onD)

lemma load32_same:
  assumes "same_on m m' b i j" "i \<le> k" "k + 4 \<le> j"
  shows "load32 m' (byte_at b k) = load32 m (byte_at b k)"
  unfolding load32_def mem_simps using assms by (simp add: same_onD)

lemma same_on_store16 [frame_simps]:
  assumes "j \<le> k \<or> k + 2 \<le> i" "j \<le> 2 ^ 64" "k + 2 \<le> 2 ^ 64"
  shows "same_on m (store16 m (byte_at b k) v) b i j"
  unfolding same_on_def store16_def using assms by (auto simp: mem_simps)

lemma same_on_store32 [frame_simps]:
  assumes "j \<le> k \<or> k + 4 \<le> i" "j \<le> 2 ^ 64" "k + 4 \<le> 2 ^ 64"
  shows "same_on m (store32 m (byte_at b k) v) b i j"
  unfolding same_on_def store32_def using assms by (auto simp: mem_simps)

lemma load16_store16_other [frame_simps]:
  assumes "l + 2 \<le> k \<or> k + 2 \<le> l" "l + 2 \<le> 2 ^ 64" "k + 2 \<le> 2 ^ 64"
  shows "load16 (store16 m (byte_at b k) v) (byte_at b l) = load16 m (byte_at b l)"
  using assms by (intro load16_same[where i = l and j = "l + 2"] same_on_store16) auto

lemma load16_store32_other [frame_simps]:
  assumes "l + 2 \<le> k \<or> k + 4 \<le> l" "l + 2 \<le> 2 ^ 64" "k + 4 \<le> 2 ^ 64"
  shows "load16 (store32 m (byte_at b k) v) (byte_at b l) = load16 m (byte_at b l)"
  using assms by (intro load16_same[where i = l and j = "l + 2"] same_on_store32) auto

lemma load32_store16_other [frame_simps]:
  assumes "l + 4 \<le> k \<or> k + 2 \<le> l" "l + 4 \<le> 2 ^ 64" "k + 2 \<le> 2 ^ 64"
  shows "load32 (store16 m (byte_at b k) v) (byte_at b l) = load32 m (byte_at b l)"
  using assms by (intro load32_same[where i = l and j = "l + 4"] same_on_store16) auto

lemma load32_store32_other [frame_simps]:
  assumes "l + 4 \<le> k \<or> k + 4 \<le> l" "l + 4 \<le> 2 ^ 64" "k + 4 \<le> 2 ^ 64"
  shows "load32 (store32 m (byte_at b k) v) (byte_at b l) = load32 m (byte_at b l)"
  using assms by (intro load32_same[where i = l and j = "l + 4"] same_on_store32) auto

section \<open>Byte blocks\<close>

lemma length_mem_bytes [simp]: "length (mem_bytes m p n) = n"
  by (induction n arbitrary: p) auto

lemma nth_mem_bytes: "i < n \<Longrightarrow> mem_bytes m p n ! i = m (byte_at p i)"
proof (induction n arbitrary: p i)
  case (Suc n)
  then show ?case by (cases i) (auto simp: byte_at_def algebra_simps)
qed simp

lemma mem_bytes_add: "mem_bytes m p (i + j) = mem_bytes m p i @ mem_bytes m (byte_at p i) j"
  by (rule nth_equalityI) (auto simp: nth_append nth_mem_bytes mem_simps)

lemma mem_bytes_same:
  assumes "same_on m m' b i j" "i \<le> k" "k + n \<le> j"
  shows "mem_bytes m' (byte_at b k) n = mem_bytes m (byte_at b k) n"
  using assms by (intro nth_equalityI) (auto simp: nth_mem_bytes mem_simps same_onD)

lemma memcpy_to_outside:
  assumes "\<And>i. i < length bs \<Longrightarrow> q \<noteq> byte_at p i"
  shows "memcpy_to m p bs q = m q"
  using assms
proof (induction bs arbitrary: m p)
  case (Cons b bs)
  have "q \<noteq> byte_at (p + 1) i" if "i < length bs" for i
    using Cons.prems[of "Suc i"] that by (simp add: byte_at_def add.assoc)
  then have "memcpy_to (m(p := b)) (p + 1) bs q = (m(p := b)) q" by (rule Cons.IH)
  moreover have "q \<noteq> p" using Cons.prems[of 0] by (simp add: byte_at_def)
  ultimately show ?case by simp
qed simp

lemma memcpy_to_inside:
  assumes "i < length bs" "length bs \<le> 2 ^ 64"
  shows "memcpy_to m p bs (byte_at p i) = bs ! i"
  using assms
proof (induction bs arbitrary: m p i)
  case (Cons b bs)
  have step: "byte_at (p + 1) j = byte_at p (Suc j)" for j by (simp add: byte_at_def add.assoc)
  show ?case
  proof (cases i)
    case 0
    have "p \<noteq> byte_at (p + 1) j" if "j < length bs" for j
      using that Cons.prems at_eq_iff[of 0 "Suc j" p] by (simp add: step at_0)
    then have "memcpy_to (m(p := b)) (p + 1) bs p = b" by (subst memcpy_to_outside) auto
    then show ?thesis using 0 by (simp add: at_0)
  next
    case (Suc j)
    with Cons have "memcpy_to (m(p := b)) (p + 1) bs (byte_at (p + 1) j) = bs ! j" by simp
    then show ?thesis using Suc by (simp add: step)
  qed
qed simp

lemma memcpy_to_at:
  assumes "h + length bs \<le> 2 ^ 64" "k < 2 ^ 64"
  shows "memcpy_to m (byte_at b h) bs (byte_at b k) =
    (if h \<le> k \<and> k < h + length bs then bs ! (k - h) else m (byte_at b k))"
proof (cases "h \<le> k \<and> k < h + length bs")
  case True
  then have "byte_at b k = byte_at (byte_at b h) (k - h)" by (simp add: mem_simps)
  moreover have "memcpy_to m (byte_at b h) bs (byte_at (byte_at b h) (k - h)) = bs ! (k - h)"
    using True assms by (intro memcpy_to_inside) auto
  ultimately show ?thesis using True by simp
next
  case False
  then have "byte_at b k \<noteq> byte_at (byte_at b h) i" if "i < length bs" for i
    using that assms by (simp add: mem_simps) (auto simp: at_eq_iff)
  then show ?thesis using False by (auto simp: memcpy_to_outside)
qed

lemma same_on_memcpy_to [frame_simps]:
  assumes "j \<le> k \<or> k + length bs \<le> i" "j \<le> 2 ^ 64" "k + length bs \<le> 2 ^ 64"
  shows "same_on m (memcpy_to m (byte_at b k) bs) b i j"
  unfolding same_on_def
proof (intro allI impI)
  fix x assume x: "i \<le> x \<and> x < j"
  have "byte_at b x \<noteq> byte_at (byte_at b k) l" if "l < length bs" for l
    using x assms that by (auto simp: mem_simps)
  then show "memcpy_to m (byte_at b k) bs (byte_at b x) = m (byte_at b x)"
    by (rule memcpy_to_outside)
qed

lemma mem_bytes_memcpy_to [simp]:
  "length bs \<le> 2 ^ 64 \<Longrightarrow> mem_bytes (memcpy_to m p bs) p (length bs) = bs"
  by (rule nth_equalityI) (auto simp: nth_mem_bytes memcpy_to_inside)

section \<open>ALIGN\<close>

lemma unat_and_not_mask:
  "unat ((x :: 'a::len word) AND NOT (mask k)) = unat x div 2 ^ k * 2 ^ k"
proof -
  have "x - (x AND mask k) = x AND NOT (x AND mask k)"
    by (rule disjunctive_diff) (auto simp: bit_simps)
  also have "\<dots> = x AND NOT (mask k)"
    by (rule bit_word_eqI) (auto simp: bit_simps)
  finally have "x AND NOT (mask k) = x - (x AND mask k)" ..
  moreover have "x AND mask k \<le> x" by (rule word_and_le2)
  ultimately have "unat (x AND NOT (mask k)) = unat x - unat (take_bit k x)"
    by (simp add: unat_sub take_bit_eq_mask)
  also have "\<dots> = unat x - unat x mod 2 ^ k"
    by (simp only: unsigned_take_bit_eq) (simp add: take_bit_eq_mod)
  finally show ?thesis by (simp add: minus_mod_eq_div_mult)
qed

lemma unat_mask: "k < LENGTH('a) \<Longrightarrow> unat (mask k :: 'a::len word) = 2 ^ k - 1"
  by (simp add: unat_eq_nat_uint uint_mask_eq min_def del: nat_uint_eq)
    (simp add: mask_eq_exp_minus_1 nat_diff_distrib nat_power_eq)

lemma unat_ALIGN_pow2:
  assumes "unat (x :: 'a::len word) + (2 ^ k - 1) < 2 ^ LENGTH('a)" "k < LENGTH('a)"
  shows "unat (ALIGN x (2 ^ k)) = (unat x + (2 ^ k - 1)) div 2 ^ k * 2 ^ k"
proof -
  have "unat (x + mask k) = unat x + (2 ^ k - 1)"
    using assms unat_mask[OF assms(2)] unat_add_lem[of x "mask k"] by simp
  moreover have "ALIGN x (2 ^ k) = (x + mask k) AND NOT (mask k)"
    by (simp add: ALIGN_def mask_eq_exp_minus_1)
  ultimately show ?thesis by (simp add: unat_and_not_mask)
qed

text \<open>\<open>align8 n\<close> is what \<open>ALIGN(n, 8)\<close> computes when it does not wrap.\<close>

definition align8 :: "nat \<Rightarrow> nat" where
  "align8 n = (n + 7) div 8 * 8"

lemma unat_ALIGN8:
  assumes "unat (x :: 'a::len word) + 7 < 2 ^ LENGTH('a)" "3 < LENGTH('a)"
  shows "unat (ALIGN x 8) = align8 (unat x)"
  using unat_ALIGN_pow2[where k = 3 and x = x] assms by (simp add: align8_def)

lemma align8_ge: "n \<le> align8 n" and align8_less: "align8 n < n + 8" and align8_dvd: "8 dvd align8 n"
  unfolding align8_def by presburger+

end
