(* ===== verification/Cmd_Db.thy ===== *)
theory Cmd_Db
  imports Ipc_Prelude "HOL-Library.Monad_Syntax"
begin

text \<open>
  The command database, \<open>drivers/soc/qcom/cmd-db.c\<close>: a table in reserved memory in which drivers look up the address
  and the data of a resource by its name. The region is its list of bytes, a pointer into it an offset, and
  \<open>None\<close> for the result of a function is an access outside of the region or through a null pointer.
\<close>

unbundle bit_operations_syntax

section \<open>Layout\<close>

record entry_header =
  eh_id :: "u8 list"
  eh_addr :: u32
  eh_len :: u16
  eh_offset :: u16

record rsc_hdr =
  slv_id :: u16
  header_offset :: u16
  data_offset :: u16
  rsc_cnt :: u16

abbreviation (input) MAX_SLV_ID :: nat where "MAX_SLV_ID \<equiv> 8"
abbreviation (input) ENTRY_SIZE :: nat where "ENTRY_SIZE \<equiv> 24"
abbreviation (input) DATA :: nat where "DATA \<equiv> 144"
abbreviation (input) CMD_DB_MAGIC :: "u8 list" where "CMD_DB_MAGIC \<equiv> [0xdb, 0x30, 0x03, 0x0c]"
abbreviation (input) CMD_DB_HW_INVALID :: u32 where "CMD_DB_HW_INVALID \<equiv> 0"

text \<open>The \<open>n\<close> bytes at an offset, and the structures there.\<close>

definition fetch :: "u8 list \<Rightarrow> nat \<Rightarrow> nat \<Rightarrow> u8 list option" where
  "fetch db off n = (if off + n \<le> length db then Some (take n (drop off db)) else None)"

definition entry_of :: "u8 list \<Rightarrow> entry_header" where
  "entry_of b = \<lparr>eh_id = take 8 b, eh_addr = get32 b 16, eh_len = get16 b 20, eh_offset = get16 b 22\<rparr>"

definition rsc_of :: "u8 list \<Rightarrow> rsc_hdr" where
  "rsc_of b = \<lparr>slv_id = get16 b 0, header_offset = get16 b 2, data_offset = get16 b 4, rsc_cnt = get16 b 6\<rparr>"

definition entry_at :: "u8 list \<Rightarrow> nat \<Rightarrow> entry_header option" where
  "entry_at db off = map_option entry_of (fetch db off ENTRY_SIZE)"

definition rsc_at :: "u8 list \<Rightarrow> nat \<Rightarrow> rsc_hdr option" where
  "rsc_at db i = map_option rsc_of (fetch db (8 + 16 * i) 16)"

section \<open>Operations\<close>

definition cmd_db_magic_matches :: "u8 list \<Rightarrow> bool option" where
  "cmd_db_magic_matches db = do {m \<leftarrow> fetch db 4 4; Some (m = CMD_DB_MAGIC)}"

definition rsc_to_entry_header :: "rsc_hdr \<Rightarrow> nat" where
  "rsc_to_entry_header hdr = DATA + unat (header_offset hdr)"

definition rsc_offset :: "rsc_hdr \<Rightarrow> entry_header \<Rightarrow> nat" where
  "rsc_offset hdr ent = DATA + unat (data_offset hdr) + unat (eh_offset ent)"

text \<open>The database is \<open>None\<close> before the probe.\<close>

definition cmd_db_ready :: "u8 list option \<Rightarrow> unit result option" where
  "cmd_db_ready header =
     (case header of
        None \<Rightarrow> Some (Inl EPROBE_DEFER)
      | Some db \<Rightarrow> do {ok \<leftarrow> cmd_db_magic_matches db; Some (if ok then Inr () else Inl EINVAL)})"

text \<open>The name of a resource, cut or filled up with zeros to eight bytes (\<open>strncpy\<close>).\<close>

definition query_of :: "u8 list \<Rightarrow> u8 list" where
  "query_of name = take 8 (takeWhile (\<lambda>b. b \<noteq> 0) name @ replicate 8 0)"

text \<open>The inner loop, over the entries \<open>j\<close> to \<open>cnt - 1\<close> of a resource; the result is the index of the entry found.\<close>

function scan_entries :: "u8 list \<Rightarrow> u8 list \<Rightarrow> rsc_hdr \<Rightarrow> nat \<Rightarrow> nat option option" where
  "scan_entries db query hdr j =
     (if j < unat (rsc_cnt hdr) then do {
        ent \<leftarrow> entry_at db (rsc_to_entry_header hdr + ENTRY_SIZE * j);
        if eh_id ent = query then Some (Some j) else scan_entries db query hdr (j + 1)}
      else Some None)"
  by pat_completeness auto
termination by (relation "measure (\<lambda>(db, query, hdr, j). unat (rsc_cnt hdr) - j)") auto

function scan_slaves :: "u8 list \<Rightarrow> u8 list \<Rightarrow> nat \<Rightarrow> (rsc_hdr \<times> entry_header) result option" where
  "scan_slaves db query i =
     (if i < MAX_SLV_ID then do {
        hdr \<leftarrow> rsc_at db i;
        if slv_id hdr = 0 then Some (Inl ENODEV)
        else do {
          found \<leftarrow> scan_entries db query hdr 0;
          case found of
            Some j \<Rightarrow> do {ent \<leftarrow> entry_at db (rsc_to_entry_header hdr + ENTRY_SIZE * j); Some (Inr (hdr, ent))}
          | None \<Rightarrow> scan_slaves db query (i + 1)}}
      else Some (Inl ENODEV))"
  by pat_completeness auto
termination by (relation "measure (\<lambda>(db, query, i). MAX_SLV_ID - i)") auto

declare scan_entries.simps [simp del] scan_slaves.simps [simp del]

definition cmd_db_get_header :: "u8 list option \<Rightarrow> u8 list \<Rightarrow> (rsc_hdr \<times> entry_header) result option" where
  "cmd_db_get_header header name =
     do {rc \<leftarrow> cmd_db_ready header;
         case rc of
           Inl e \<Rightarrow> Some (Inl e)
         | Inr _ \<Rightarrow> do {db \<leftarrow> header; scan_slaves db (query_of name) 0}}"

definition cmd_db_read_addr :: "u8 list option \<Rightarrow> u8 list \<Rightarrow> u32 option" where
  "cmd_db_read_addr header name =
     do {r \<leftarrow> cmd_db_get_header header name;
         Some (case r of Inl _ \<Rightarrow> 0 | Inr (_, ent) \<Rightarrow> eh_addr ent)}"

text \<open>Where the data of a resource is, and its length.\<close>

definition cmd_db_read_aux_data :: "u8 list option \<Rightarrow> u8 list \<Rightarrow> (nat \<times> nat) result option" where
  "cmd_db_read_aux_data header name =
     do {r \<leftarrow> cmd_db_get_header header name;
         Some (case r of Inl e \<Rightarrow> Inl e | Inr (hdr, ent) \<Rightarrow> Inr (rsc_offset hdr ent, unat (eh_len ent)))}"

definition addr_slave :: "u32 \<Rightarrow> u32" where
  "addr_slave addr = drop_bit 16 addr AND 7"

definition cmd_db_read_slave_id :: "u8 list option \<Rightarrow> u8 list \<Rightarrow> u32 option" where
  "cmd_db_read_slave_id header name =
     do {r \<leftarrow> cmd_db_get_header header name;
         Some (case r of Inl _ \<Rightarrow> CMD_DB_HW_INVALID | Inr (_, ent) \<Rightarrow> addr_slave (eh_addr ent))}"

text \<open>The flag is read whatever \<open>cmd_db_ready\<close> says.\<close>

definition cmd_db_is_standalone :: "u8 list option \<Rightarrow> bool option" where
  "cmd_db_is_standalone header =
     do {rc \<leftarrow> cmd_db_ready header;
         db \<leftarrow> header;
         b \<leftarrow> fetch db 140 4;
         Some (rc = Inr () \<and> get32 b 0 AND 1 \<noteq> 0)}"

section \<open>The listing\<close>

text \<open>\<open>cmd_db_start\<close> from slave \<open>i\<close> on, with \<open>before\<close> entries before it; the result is the entry at a position.\<close>

function start_scan :: "u8 list \<Rightarrow> int \<Rightarrow> int \<Rightarrow> nat \<Rightarrow> nat option option" where
  "start_scan db pos before i =
     (if i < MAX_SLV_ID then do {
        hdr \<leftarrow> rsc_at db i;
        let cnt = int (unat (rsc_cnt hdr));
        let ent_idx = sint (word_of_int (pos - before) :: u32);
        if cnt = 0 then start_scan db pos before (i + 1)
        else if ent_idx < cnt then Some (Some (nat (int (rsc_to_entry_header hdr) + int ENTRY_SIZE * ent_idx)))
        else start_scan db pos (before + cnt) (i + 1)}
      else Some None)"
  by pat_completeness auto
termination by (relation "measure (\<lambda>(db, pos, before, i). MAX_SLV_ID - i)") auto

declare start_scan.simps [simp del]

definition cmd_db_start :: "u8 list \<Rightarrow> int \<Rightarrow> nat option option" where
  "cmd_db_start db pos = start_scan db pos 0 0"

definition cmd_db_next :: "u8 list \<Rightarrow> int \<Rightarrow> int \<times> nat option option" where
  "cmd_db_next db pos = (pos + 1, cmd_db_start db (pos + 1))"

text \<open>The slave of an entry, for its data.\<close>

function find_slave :: "u8 list \<Rightarrow> u32 \<Rightarrow> nat \<Rightarrow> rsc_hdr option option" where
  "find_slave db slv k =
     (if k < MAX_SLV_ID then do {
        hdr \<leftarrow> rsc_at db k;
        if ucast (slv_id hdr) = slv then Some (Some hdr) else find_slave db slv (k + 1)}
      else Some None)"
  by pat_completeness auto
termination by (relation "measure (\<lambda>(db, slv, k). MAX_SLV_ID - k)") auto

declare find_slave.simps [simp del]

text \<open>What a line shows: address, name and at most 32 bytes of data.\<close>

definition cmd_db_seq_show :: "u8 list \<Rightarrow> nat option \<Rightarrow> (u32 \<times> u8 list \<times> u8 list) option result option" where
  "cmd_db_seq_show db v =
     (case v of
        None \<Rightarrow> Some (Inr None)
      | Some off \<Rightarrow>
          do {eh \<leftarrow> entry_at db off;
              if eh_len eh = 0 then Some (Inr (Some (eh_addr eh, eh_id eh, [])))
              else do {
                hdr \<leftarrow> find_slave db (addr_slave (eh_addr eh)) 0;
                case hdr of
                  None \<Rightarrow> Some (Inl EINVAL)
                | Some h \<Rightarrow>
                    do {aux \<leftarrow> fetch db (rsc_offset h eh) (min (unat (eh_len eh)) 32);
                        Some (Inr (Some (eh_addr eh, eh_id eh, aux)))}}})"

text \<open>The probe, for the reserved memory and its mapping; the database is set before its magic is checked.\<close>

definition cmd_db_dev_probe :: "bool \<Rightarrow> u8 list option \<Rightarrow> u8 list option \<Rightarrow> (errno option \<times> u8 list option) option" where
  "cmd_db_dev_probe has_rmem mapped header =
     (if \<not> has_rmem then Some (Some EINVAL, header)
      else
        case mapped of
          None \<Rightarrow> Some (Some ENOMEM, None)
        | Some db \<Rightarrow>
            do {ok \<leftarrow> cmd_db_magic_matches db;
                if \<not> ok then Some (Some EINVAL, Some db)
                else do {_ \<leftarrow> cmd_db_is_standalone (Some db); Some (None, Some db)}})"

section \<open>The database as a directory\<close>

text \<open>The resources up to the first one without an id, and all their entries in the order of the table.\<close>

definition slaves :: "u8 list \<Rightarrow> rsc_hdr list" where
  "slaves db = takeWhile (\<lambda>h. slv_id h \<noteq> 0) (map (\<lambda>i. rsc_of (take 16 (drop (8 + 16 * i) db))) [0..<MAX_SLV_ID])"

definition entry_n :: "u8 list \<Rightarrow> rsc_hdr \<Rightarrow> nat \<Rightarrow> entry_header" where
  "entry_n db h j = entry_of (take ENTRY_SIZE (drop (rsc_to_entry_header h + ENTRY_SIZE * j) db))"

definition directory :: "u8 list \<Rightarrow> (rsc_hdr \<times> entry_header) list" where
  "directory db = concat (map (\<lambda>h. map (\<lambda>j. (h, entry_n db h j)) [0..<unat (rsc_cnt h)]) (slaves db))"

text \<open>The region holds the header and every table of entries, and starts with the magic number.\<close>

definition db_wf :: "u8 list \<Rightarrow> bool" where
  "db_wf db \<longleftrightarrow> DATA \<le> length db \<and> take 4 (drop 4 db) = CMD_DB_MAGIC \<and>
     (\<forall>h \<in> set (slaves db). rsc_to_entry_header h + ENTRY_SIZE * unat (rsc_cnt h) \<le> length db)"

definition lookup :: "u8 list \<Rightarrow> u8 list \<Rightarrow> (rsc_hdr \<times> entry_header) option" where
  "lookup db query = find (\<lambda>(h, e). eh_id e = query) (directory db)"

lemma find_append: "find P (xs @ ys) = (case find P xs of None \<Rightarrow> find P ys | Some x \<Rightarrow> Some x)"
  by (induction xs) auto

lemma entry_at_n:
  assumes "rsc_to_entry_header h + ENTRY_SIZE * unat (rsc_cnt h) \<le> length db" "j < unat (rsc_cnt h)"
  shows "entry_at db (rsc_to_entry_header h + ENTRY_SIZE * j) = Some (entry_n db h j)"
proof -
  have "ENTRY_SIZE * j + ENTRY_SIZE \<le> ENTRY_SIZE * unat (rsc_cnt h)" using assms(2) by simp
  then show ?thesis using assms(1) by (simp add: entry_at_def fetch_def entry_n_def)
qed

text \<open>The inner loop finds the first entry with the name.\<close>

lemma scan_entries_find:
  assumes fits: "rsc_to_entry_header h + ENTRY_SIZE * unat (rsc_cnt h) \<le> length db"
  shows "scan_entries db query h j = Some (find (\<lambda>j. eh_id (entry_n db h j) = query) [j..<unat (rsc_cnt h)])"
proof (induction "unat (rsc_cnt h) - j" arbitrary: j)
  case 0
  then show ?case by (simp add: scan_entries.simps[of _ _ _ j])
next
  case (Suc n)
  then have j: "j < unat (rsc_cnt h)" "[j..<unat (rsc_cnt h)] = j # [Suc j..<unat (rsc_cnt h)]" by (simp_all add: upt_conv_Cons)
  show ?case using Suc(1)[of "Suc j"] Suc(2) j entry_at_n[OF fits j(1)] by (simp add: scan_entries.simps[of _ _ _ j])
qed

lemma find_index:
  "find (\<lambda>(h, e). eh_id e = query) (map (\<lambda>j. (h, entry_n db h j)) js) =
    map_option (\<lambda>j. (h, entry_n db h j)) (find (\<lambda>j. eh_id (entry_n db h j) = query) js)"
  by (induction js) auto

text \<open>The outer loop goes through the resources that have an id.\<close>

lemma scan_slaves_find:
  assumes db: "DATA \<le> length db"
  shows "\<forall>h \<in> set (takeWhile (\<lambda>h. slv_id h \<noteq> 0) (map (\<lambda>i. rsc_of (take 16 (drop (8 + 16 * i) db))) [i..<MAX_SLV_ID])).
      rsc_to_entry_header h + ENTRY_SIZE * unat (rsc_cnt h) \<le> length db \<Longrightarrow>
    scan_slaves db query i = Some (case find (\<lambda>(h, e). eh_id e = query)
      (concat (map (\<lambda>h. map (\<lambda>j. (h, entry_n db h j)) [0..<unat (rsc_cnt h)])
        (takeWhile (\<lambda>h. slv_id h \<noteq> 0) (map (\<lambda>i. rsc_of (take 16 (drop (8 + 16 * i) db))) [i..<MAX_SLV_ID])))) of
      None \<Rightarrow> Inl ENODEV | Some x \<Rightarrow> Inr x)"
proof (induction "MAX_SLV_ID - i" arbitrary: i)
  case 0
  then show ?case by (simp add: scan_slaves.simps[of _ _ i])
next
  case (Suc n)
  let ?h = "rsc_of (take 16 (drop (8 + 16 * i) db))"
  have i: "i < MAX_SLV_ID" "[i..<MAX_SLV_ID] = i # [Suc i..<MAX_SLV_ID]" using Suc(2) by (simp_all add: upt_conv_Cons)
  then have r: "rsc_at db i = Some ?h" using db by (simp add: rsc_at_def fetch_def)
  show ?case
  proof (cases "slv_id ?h = 0")
    case True
    then show ?thesis using i r by (simp add: scan_slaves.simps[of _ _ i])
  next
    case False
    then have f: "rsc_to_entry_header ?h + ENTRY_SIZE * unat (rsc_cnt ?h) \<le> length db" using Suc(3) i(2) by simp
    let ?found = "find (\<lambda>j. eh_id (entry_n db ?h j) = query) [0..<unat (rsc_cnt ?h)]"
    have e: "?found = Some j \<Longrightarrow> entry_at db (rsc_to_entry_header ?h + ENTRY_SIZE * j) = Some (entry_n db ?h j)" for j
      by (rule entry_at_n[OF f]) (auto simp: find_Some_iff)
    show ?thesis
    proof (cases ?found)
      case None
      then show ?thesis using Suc(1)[of "Suc i"] Suc(2,3) False i r
        by (simp add: scan_slaves.simps[of _ _ i] scan_entries_find[OF f] find_append find_index)
    next
      case (Some j)
      then show ?thesis using False i r e by (simp add: scan_slaves.simps[of _ _ i] scan_entries_find[OF f] find_append find_index)
    qed
  qed
qed

lemma get_header_lookup:
  assumes "db_wf db"
  shows "cmd_db_get_header (Some db) name = Some (case lookup db (query_of name) of None \<Rightarrow> Inl ENODEV | Some x \<Rightarrow> Inr x)"
  using assms scan_slaves_find[of db 0 "query_of name"]
  by (simp add: db_wf_def cmd_db_get_header_def cmd_db_ready_def cmd_db_magic_matches_def fetch_def lookup_def directory_def slaves_def)

text \<open>C16. In a region that holds the tables its header announces, the drivers of the command database stay inside of the
  region and find exactly the first entry with the name: its address, its slave and the place and length of its data. A
  name without an entry gives the address 0, the invalid slave and \<open>ENODEV\<close>.\<close>

theorem cmd_db_reads_directory:
  assumes "db_wf db"
  shows "cmd_db_read_addr (Some db) name = Some (case lookup db (query_of name) of None \<Rightarrow> 0 | Some (h, e) \<Rightarrow> eh_addr e) \<and>
    cmd_db_read_slave_id (Some db) name = Some (case lookup db (query_of name) of None \<Rightarrow> CMD_DB_HW_INVALID | Some (h, e) \<Rightarrow> addr_slave (eh_addr e)) \<and>
    cmd_db_read_aux_data (Some db) name = Some (case lookup db (query_of name) of None \<Rightarrow> Inl ENODEV
      | Some (h, e) \<Rightarrow> Inr (DATA + unat (data_offset h) + unat (eh_offset e), unat (eh_len e)))"
  using get_header_lookup[OF assms, of name]
  by (auto simp: cmd_db_read_addr_def cmd_db_read_slave_id_def cmd_db_read_aux_data_def rsc_offset_def split: option.splits)

text \<open>A database with two entries of the resource 4: \<open>xo.lvl\<close> without data and \<open>ldoa1\<close> with two bytes of data.\<close>

definition ex_db :: "u8 list" where
  "ex_db = [1, 0, 0, 0] @ CMD_DB_MAGIC @ [4, 0, 0, 0, 48, 0, 2, 0] @ replicate 128 0 @
     [0x78, 0x6f, 0x2e, 0x6c, 0x76, 0x6c, 0, 0] @ replicate 8 0 @ [0x10, 0, 4, 0, 0, 0, 0, 0] @
     [0x6c, 0x64, 0x6f, 0x61, 0x31, 0, 0, 0] @ replicate 8 0 @ [0x20, 0x01, 4, 0, 2, 0, 0, 0] @ [7, 9]"

definition ex_name :: "u8 list" where
  "ex_name = [0x6c, 0x64, 0x6f, 0x61, 0x31]"

lemma ex_db_wf: "db_wf ex_db"
  by code_simp

theorem cmd_db_reads_directory_witness:
  "cmd_db_read_addr (Some ex_db) ex_name = Some 0x40120 \<and> cmd_db_read_slave_id (Some ex_db) ex_name = Some 4 \<and>
   cmd_db_read_aux_data (Some ex_db) ex_name = Some (Inr (192, 2))"
proof -
  have "(case lookup ex_db (query_of ex_name) of None \<Rightarrow> 0 | Some (h, e) \<Rightarrow> eh_addr e) = 0x40120"
    "(case lookup ex_db (query_of ex_name) of None \<Rightarrow> CMD_DB_HW_INVALID | Some (h, e) \<Rightarrow> addr_slave (eh_addr e)) = 4"
    "(case lookup ex_db (query_of ex_name) of None \<Rightarrow> Inl ENODEV
      | Some (h, e) \<Rightarrow> Inr (DATA + unat (data_offset h) + unat (eh_offset e), unat (eh_len e))) = Inr (192, 2)"
    by code_simp+
  then show ?thesis using cmd_db_reads_directory[OF ex_db_wf, of ex_name] by simp
qed

end
