(* ===== verification/Smem.thy ===== *)
theory Smem
  imports Ipc_Prelude
begin

text \<open>
  The shared-memory heap, \<open>drivers/soc/qcom/smem.c\<close>: an allocate-only heap in a memory block that all
  processors of the SoC see. The model keeps the block as bytes: the table of contents of the global
  heap, the partition table, the partition headers and the private entries are read and written at the
  byte offsets of the C structs, with 64-bit pointers and the C expressions' widths.
  The scan loops follow length fields found in shared memory, so they are \<open>partial_function (option)\<close>
  and their termination is a theorem.
\<close>

section \<open>Data\<close>

abbreviation (input) SMEM_ITEM_LAST_FIXED :: u32 where "SMEM_ITEM_LAST_FIXED \<equiv> 8"
abbreviation (input) SMEM_ITEM_COUNT :: u32 where "SMEM_ITEM_COUNT \<equiv> 512"
abbreviation (input) SMEM_HOST_APPS :: u16 where "SMEM_HOST_APPS \<equiv> 0"
abbreviation (input) SMEM_GLOBAL_HOST :: u16 where "SMEM_GLOBAL_HOST \<equiv> 0xfffe"
abbreviation (input) SMEM_HOST_COUNT :: u32 where "SMEM_HOST_COUNT \<equiv> 14"
abbreviation (input) SMEM_GLOBAL_HEAP_VERSION :: u32 where "SMEM_GLOBAL_HEAP_VERSION \<equiv> 11"
abbreviation (input) SMEM_GLOBAL_PART_VERSION :: u32 where "SMEM_GLOBAL_PART_VERSION \<equiv> 12"
abbreviation (input) SMEM_PRIVATE_CANARY :: u16 where "SMEM_PRIVATE_CANARY \<equiv> 0xa5a5"
abbreviation (input) AUX_BASE_MASK :: u32 where "AUX_BASE_MASK \<equiv> 0xfffffffc"

definition SMEM_PTABLE_MAGIC :: "u8 list" where "SMEM_PTABLE_MAGIC = [0x24, 0x54, 0x4f, 0x43]"
definition SMEM_PART_MAGIC :: "u8 list" where "SMEM_PART_MAGIC = [0x24, 0x50, 0x52, 0x54]"
definition SMEM_INFO_MAGIC :: "u8 list" where "SMEM_INFO_MAGIC = [0x53, 0x49, 0x49, 0x49]"

text \<open>\<open>struct smem_region\<close> and \<open>struct qcom_smem\<close>; a null pointer is address 0.\<close>

record smem_region =
  aux_base :: u32
  virt_base :: ptr
  rsize :: u64

record qcom_smem =
  global_partition_entry :: ptr
  ptable_entries :: "ptr list"
  item_count :: u32
  regions :: "smem_region list"

text \<open>\<open>struct smem_ptable_entry\<close> (48 bytes).\<close>

definition pe_offset :: "mem \<Rightarrow> ptr \<Rightarrow> u32" where "pe_offset m e = load32 m e"
definition pe_size :: "mem \<Rightarrow> ptr \<Rightarrow> u32" where "pe_size m e = load32 m (e + 4)"
definition pe_host0 :: "mem \<Rightarrow> ptr \<Rightarrow> u16" where "pe_host0 m e = load16 m (e + 12)"
definition pe_host1 :: "mem \<Rightarrow> ptr \<Rightarrow> u16" where "pe_host1 m e = load16 m (e + 14)"
definition pe_cacheline :: "mem \<Rightarrow> ptr \<Rightarrow> u32" where "pe_cacheline m e = load32 m (e + 16)"

text \<open>\<open>struct smem_ptable\<close>: the entries start at byte 32.\<close>

definition pt_magic :: "mem \<Rightarrow> ptr \<Rightarrow> u8 list" where "pt_magic m p = mem_bytes m p 4"
definition pt_version :: "mem \<Rightarrow> ptr \<Rightarrow> u32" where "pt_version m p = load32 m (p + 4)"
definition pt_num_entries :: "mem \<Rightarrow> ptr \<Rightarrow> u32" where "pt_num_entries m p = load32 m (p + 8)"
definition pt_entry :: "ptr \<Rightarrow> u64 \<Rightarrow> ptr" where "pt_entry p i = p + 32 + 48 * i"

text \<open>\<open>struct smem_partition_header\<close> (32 bytes).\<close>

definition ph_magic :: "mem \<Rightarrow> ptr \<Rightarrow> u8 list" where "ph_magic m p = mem_bytes m p 4"
definition ph_host0 :: "mem \<Rightarrow> ptr \<Rightarrow> u16" where "ph_host0 m p = load16 m (p + 4)"
definition ph_host1 :: "mem \<Rightarrow> ptr \<Rightarrow> u16" where "ph_host1 m p = load16 m (p + 6)"
definition ph_size :: "mem \<Rightarrow> ptr \<Rightarrow> u32" where "ph_size m p = load32 m (p + 8)"
definition ph_free_uncached :: "mem \<Rightarrow> ptr \<Rightarrow> u32" where "ph_free_uncached m p = load32 m (p + 12)"
definition ph_free_cached :: "mem \<Rightarrow> ptr \<Rightarrow> u32" where "ph_free_cached m p = load32 m (p + 16)"

text \<open>\<open>struct smem_private_entry\<close> (16 bytes).\<close>

definition pr_canary :: "mem \<Rightarrow> ptr \<Rightarrow> u16" where "pr_canary m e = load16 m e"
definition pr_item :: "mem \<Rightarrow> ptr \<Rightarrow> u16" where "pr_item m e = load16 m (e + 2)"
definition pr_size :: "mem \<Rightarrow> ptr \<Rightarrow> u32" where "pr_size m e = load32 m (e + 4)"
definition pr_padding_data :: "mem \<Rightarrow> ptr \<Rightarrow> u16" where "pr_padding_data m e = load16 m (e + 8)"
definition pr_padding_hdr :: "mem \<Rightarrow> ptr \<Rightarrow> u16" where "pr_padding_hdr m e = load16 m (e + 10)"

text \<open>\<open>struct smem_header\<close>: four 16-byte \<open>proc_comm\<close> blocks, 32 versions, then the counters and the
  table of contents of 16-byte \<open>struct smem_global_entry\<close>s at byte 208.\<close>

definition sh_version :: "mem \<Rightarrow> ptr \<Rightarrow> u64 \<Rightarrow> u32" where "sh_version m h i = load32 m (h + 64 + 4 * i)"
definition sh_initialized :: "mem \<Rightarrow> ptr \<Rightarrow> u32" where "sh_initialized m h = load32 m (h + 192)"
definition sh_free_offset :: "mem \<Rightarrow> ptr \<Rightarrow> u32" where "sh_free_offset m h = load32 m (h + 196)"
definition sh_available :: "mem \<Rightarrow> ptr \<Rightarrow> u32" where "sh_available m h = load32 m (h + 200)"
definition sh_reserved :: "mem \<Rightarrow> ptr \<Rightarrow> u32" where "sh_reserved m h = load32 m (h + 204)"
definition sh_toc :: "ptr \<Rightarrow> u32 \<Rightarrow> ptr" where "sh_toc h i = h + 208 + 16 * ucast i"
definition ge_allocated :: "mem \<Rightarrow> ptr \<Rightarrow> u32" where "ge_allocated m e = load32 m e"
definition ge_offset :: "mem \<Rightarrow> ptr \<Rightarrow> u32" where "ge_offset m e = load32 m (e + 4)"
definition ge_size :: "mem \<Rightarrow> ptr \<Rightarrow> u32" where "ge_size m e = load32 m (e + 8)"
definition ge_aux_base :: "mem \<Rightarrow> ptr \<Rightarrow> u32" where "ge_aux_base m e = load32 m (e + 12)"

text \<open>\<open>struct smem_info\<close>.\<close>

definition si_magic :: "mem \<Rightarrow> ptr \<Rightarrow> u8 list" where "si_magic m p = mem_bytes m p 4"
definition si_num_items :: "mem \<Rightarrow> ptr \<Rightarrow> u16" where "si_num_items m p = load16 m (p + 16)"

section \<open>Walking a partition\<close>

definition region0 :: "qcom_smem \<Rightarrow> smem_region" where
  "region0 smem = regions smem ! 0"

definition ptable_entry_to_phdr :: "mem \<Rightarrow> qcom_smem \<Rightarrow> ptr \<Rightarrow> ptr" where
  "ptable_entry_to_phdr m smem entry = virt_base (region0 smem) + ucast (pe_offset m entry)"

definition phdr_to_last_uncached_entry :: "mem \<Rightarrow> ptr \<Rightarrow> ptr" where
  "phdr_to_last_uncached_entry m phdr = phdr + ucast (ph_free_uncached m phdr)"

definition phdr_to_first_cached_entry :: "mem \<Rightarrow> ptr \<Rightarrow> u64 \<Rightarrow> ptr" where
  "phdr_to_first_cached_entry m phdr cacheline = phdr + ucast (ph_size m phdr) - ALIGN 16 cacheline"

definition phdr_to_last_cached_entry :: "mem \<Rightarrow> ptr \<Rightarrow> ptr" where
  "phdr_to_last_cached_entry m phdr = phdr + ucast (ph_free_cached m phdr)"

definition phdr_to_first_uncached_entry :: "ptr \<Rightarrow> ptr" where
  "phdr_to_first_uncached_entry phdr = phdr + 32"

definition uncached_entry_next :: "mem \<Rightarrow> ptr \<Rightarrow> ptr" where
  "uncached_entry_next m e = e + 16 + ucast (pr_padding_hdr m e) + ucast (pr_size m e)"

definition cached_entry_next :: "mem \<Rightarrow> ptr \<Rightarrow> u64 \<Rightarrow> ptr" where
  "cached_entry_next m e cacheline = e - ucast (pr_size m e) - ALIGN 16 cacheline"

definition uncached_entry_to_item :: "mem \<Rightarrow> ptr \<Rightarrow> ptr" where
  "uncached_entry_to_item m e = e + 16 + ucast (pr_padding_hdr m e)"

definition cached_entry_to_item :: "mem \<Rightarrow> ptr \<Rightarrow> ptr" where
  "cached_entry_to_item m e = e - ucast (pr_size m e)"

section \<open>Allocation\<close>

text \<open>
  The \<open>while (hdr < end)\<close> loop of \<open>qcom_smem_alloc_private\<close>: \<open>Inl\<close> for its early returns, \<open>Inr hdr\<close>
  when it runs to the end of the list.
\<close>

partial_function (option) alloc_private_scan ::
  "mem \<Rightarrow> u32 \<Rightarrow> ptr \<Rightarrow> ptr \<Rightarrow> ptr result option" where
  "alloc_private_scan m item hdr end_p =
     (if hdr < end_p then
        (if pr_canary m hdr \<noteq> SMEM_PRIVATE_CANARY then Some (Inl EINVAL)
         else if ucast (pr_item m hdr) = item then Some (Inl EEXIST)
         else alloc_private_scan m item (uncached_entry_next m hdr) end_p)
      else Some (Inr hdr))"

text \<open>The header of the new entry, in the order the code writes its fields.\<close>

definition write_private_entry :: "mem \<Rightarrow> ptr \<Rightarrow> u32 \<Rightarrow> u64 \<Rightarrow> mem" where
  "write_private_entry m hdr item sz =
     (let m1 = store16 m hdr SMEM_PRIVATE_CANARY;
          m2 = store16 m1 (hdr + 2) (ucast item);
          m3 = store32 m2 (hdr + 4) (ucast (ALIGN sz 8));
          m4 = store16 m3 (hdr + 8) (ucast (ucast (pr_size m3 hdr) - sz));
          m5 = store16 m4 (hdr + 10) 0
      in m5)"

definition qcom_smem_alloc_private ::
  "mem \<Rightarrow> qcom_smem \<Rightarrow> ptr \<Rightarrow> u32 \<Rightarrow> u64 \<Rightarrow> mem result option" where
  "qcom_smem_alloc_private m smem entry item sz =
     (let phdr = ptable_entry_to_phdr m smem entry;
          p_end = phdr + ucast (pe_size m entry);
          hdr0 = phdr_to_first_uncached_entry phdr;
          end_p = phdr_to_last_uncached_entry m phdr;
          cached = phdr_to_last_cached_entry m phdr
      in if end_p > p_end \<or> cached > p_end then Some (Inl EINVAL)
         else (case alloc_private_scan m item hdr0 end_p of
             None \<Rightarrow> None
           | Some (Inl e) \<Rightarrow> Some (Inl e)
           | Some (Inr hdr) \<Rightarrow>
               if hdr > p_end then Some (Inl EINVAL)
               else
                 let alloc_size = 16 + ALIGN sz 8
                 in if hdr + alloc_size > cached then Some (Inl ENOSPC)
                    else
                      let m' = write_private_entry m hdr item sz
                      in Some (Inr (store32 m' (phdr + 12)
                               (ph_free_uncached m' phdr + ucast alloc_size)))))"

definition qcom_smem_alloc_global :: "mem \<Rightarrow> qcom_smem \<Rightarrow> u32 \<Rightarrow> u64 \<Rightarrow> mem result" where
  "qcom_smem_alloc_global m smem item sz0 =
     (let header = virt_base (region0 smem);
          entry = sh_toc header item
      in if ge_allocated m entry \<noteq> 0 then Inl EEXIST
         else
           let sz = ALIGN sz0 8
           in if sz > ucast (sh_available m header) then Inl ENOMEM
              else
                let m1 = store32 m (entry + 4) (sh_free_offset m header);
                    m2 = store32 m1 (entry + 8) (ucast sz);
                    m3 = store32 m2 entry 1;
                    m4 = store32 m3 (header + 196) (sh_free_offset m3 header + ucast sz);
                    m5 = store32 m4 (header + 200) (sh_available m4 header + ucast (- sz))
                in Inr m5)"

text \<open>
  \<open>smem\<close> is the global \<open>__smem\<close>, \<open>lock\<close> the error \<open>hwspin_lock_timeout_irqsave\<close> returns, if any. The
  choice of the heap is the same in \<open>qcom_smem_alloc\<close>, \<open>qcom_smem_get\<close> and \<open>qcom_smem_get_free_space\<close>.
\<close>

definition select_partition :: "qcom_smem \<Rightarrow> u32 \<Rightarrow> ptr option" where
  "select_partition smem host =
     (if host < SMEM_HOST_COUNT \<and> ptable_entries smem ! unat host \<noteq> 0
      then Some (ptable_entries smem ! unat host)
      else if global_partition_entry smem \<noteq> 0 then Some (global_partition_entry smem)
      else None)"

definition qcom_smem_alloc ::
  "mem \<Rightarrow> qcom_smem option \<Rightarrow> errno option \<Rightarrow> u32 \<Rightarrow> u32 \<Rightarrow> u64 \<Rightarrow> mem result option" where
  "qcom_smem_alloc m smem_opt lock host item sz =
     (case smem_opt of
        None \<Rightarrow> Some (Inl EPROBE_DEFER)
      | Some smem \<Rightarrow>
          if item < SMEM_ITEM_LAST_FIXED then Some (Inl EINVAL)
          else if item \<ge> item_count smem then Some (Inl EINVAL)
          else (case lock of
              Some e \<Rightarrow> Some (Inl e)
            | None \<Rightarrow>
                (case select_partition smem host of
                   Some entry \<Rightarrow> qcom_smem_alloc_private m smem entry item sz
                 | None \<Rightarrow> Some (qcom_smem_alloc_global m smem item sz))))"

section \<open>Lookup\<close>

fun get_global_area :: "mem \<Rightarrow> ptr \<Rightarrow> u32 \<Rightarrow> smem_region list \<Rightarrow> (ptr \<times> u64) result" where
  "get_global_area m entry aux [] = Inl ENOENT"
| "get_global_area m entry aux (area # areas) =
     (if aux_base area = aux \<or> aux = 0 then
        let e_size = ge_size m entry;
            entry_offset = (ucast (ge_offset m entry) :: u64)
        in if ucast e_size + entry_offset > rsize area then Inl EINVAL
           else Inr (virt_base area + entry_offset, ucast e_size)
      else get_global_area m entry aux areas)"

definition qcom_smem_get_global :: "mem \<Rightarrow> qcom_smem \<Rightarrow> u32 \<Rightarrow> (ptr \<times> u64) result" where
  "qcom_smem_get_global m smem item =
     (let header = virt_base (region0 smem);
          entry = sh_toc header item
      in if ge_allocated m entry = 0 then Inl ENXIO
         else get_global_area m entry (ge_aux_base m entry AND AUX_BASE_MASK) (regions smem))"

text \<open>
  The \<open>if (size != NULL)\<close> block both scan loops of \<open>qcom_smem_get_private\<close> run on the entry they find:
  the size without the padding, checked against the partition.
\<close>

definition entry_item_size :: "mem \<Rightarrow> ptr \<Rightarrow> u32 \<Rightarrow> u64 result" where
  "entry_item_size m e partition_size =
     (let e_size = pr_size m e;
          padding_data = (ucast (pr_padding_data m e) :: u32)
      in if e_size < partition_size \<and> padding_data < e_size
         then Inr (ucast (e_size - padding_data))
         else Inl EINVAL)"

text \<open>
  The two scan loops: \<open>Inl (Inl e)\<close> for an error, \<open>Inl (Inr e)\<close> for the entry of the item, \<open>Inr e\<close>
  for the pointer at which the loop ran off the end.
\<close>

partial_function (option) get_uncached_scan ::
  "mem \<Rightarrow> u32 \<Rightarrow> ptr \<Rightarrow> ptr \<Rightarrow> (ptr result + ptr) option" where
  "get_uncached_scan m item e end_p =
     (if e < end_p then
        (if pr_canary m e \<noteq> SMEM_PRIVATE_CANARY then Some (Inl (Inl EINVAL))
         else if ucast (pr_item m e) = item then Some (Inl (Inr e))
         else get_uncached_scan m item (uncached_entry_next m e) end_p)
      else Some (Inr e))"

partial_function (option) get_cached_scan ::
  "mem \<Rightarrow> u32 \<Rightarrow> u64 \<Rightarrow> ptr \<Rightarrow> ptr \<Rightarrow> (ptr result + ptr) option" where
  "get_cached_scan m item cacheline e end_p =
     (if e > end_p then
        (if pr_canary m e \<noteq> SMEM_PRIVATE_CANARY then Some (Inl (Inl EINVAL))
         else if ucast (pr_item m e) = item then Some (Inl (Inr e))
         else get_cached_scan m item cacheline (cached_entry_next m e cacheline) end_p)
      else Some (Inr e))"

text \<open>
  \<open>want_size\<close> is \<open>size != NULL\<close>; the size is part of the result then. The result of the found entry is
  shared by the two lists: the size check, then the check of the item's pointer.
\<close>

definition found_item :: "mem \<Rightarrow> bool \<Rightarrow> u32 \<Rightarrow> ptr \<Rightarrow> ptr \<Rightarrow> bool \<Rightarrow> (ptr \<times> u64 option) result" where
  "found_item m want_size partition_size e item_ptr bad_ptr =
     (case (if want_size then map_sum id Some (entry_item_size m e partition_size) else Inr None) of
        Inl err \<Rightarrow> Inl err
      | Inr n \<Rightarrow> if bad_ptr then Inl EINVAL else Inr (item_ptr, n))"

definition qcom_smem_get_private ::
  "mem \<Rightarrow> qcom_smem \<Rightarrow> ptr \<Rightarrow> u32 \<Rightarrow> bool \<Rightarrow> (ptr \<times> u64 option) result option" where
  "qcom_smem_get_private m smem entry item want_size =
     (let phdr = ptable_entry_to_phdr m smem entry;
          partition_size = pe_size m entry;
          p_end = phdr + ucast partition_size;
          cacheline = (ucast (pe_cacheline m entry) :: u64);
          e0 = phdr_to_first_uncached_entry phdr;
          end0 = phdr_to_last_uncached_entry m phdr
      in if end0 > p_end then Some (Inl EINVAL)
         else (case get_uncached_scan m item e0 end0 of
             None \<Rightarrow> None
           | Some (Inl (Inl err)) \<Rightarrow> Some (Inl err)
           | Some (Inl (Inr e)) \<Rightarrow>
               Some (found_item m want_size partition_size e (uncached_entry_to_item m e)
                       (uncached_entry_to_item m e > p_end))
           | Some (Inr e) \<Rightarrow>
               if e > p_end then Some (Inl EINVAL)
               else
                 let e1 = phdr_to_first_cached_entry m phdr cacheline;
                     end1 = phdr_to_last_cached_entry m phdr
                 in if e1 < phdr \<or> end1 > p_end then Some (Inl EINVAL)
                    else (case get_cached_scan m item cacheline e1 end1 of
                        None \<Rightarrow> None
                      | Some (Inl (Inl err)) \<Rightarrow> Some (Inl err)
                      | Some (Inl (Inr e)) \<Rightarrow>
                          Some (found_item m want_size partition_size e (cached_entry_to_item m e)
                                  (cached_entry_to_item m e < phdr))
                      | Some (Inr e) \<Rightarrow>
                          if e < phdr then Some (Inl EINVAL) else Some (Inl ENOENT))))"

definition qcom_smem_get ::
  "mem \<Rightarrow> qcom_smem option \<Rightarrow> errno option \<Rightarrow> u32 \<Rightarrow> u32 \<Rightarrow> bool \<Rightarrow> (ptr \<times> u64 option) result option" where
  "qcom_smem_get m smem_opt lock host item want_size =
     (case smem_opt of
        None \<Rightarrow> Some (Inl EPROBE_DEFER)
      | Some smem \<Rightarrow>
          if item \<ge> item_count smem then Some (Inl EINVAL)
          else (case lock of
              Some e \<Rightarrow> Some (Inl e)
            | None \<Rightarrow>
                (case select_partition smem host of
                   Some entry \<Rightarrow> qcom_smem_get_private m smem entry item want_size
                 | None \<Rightarrow>
                     Some (map_sum id (\<lambda>(p, sz). (p, if want_size then Some sz else None))
                             (qcom_smem_get_global m smem item)))))"

text \<open>The unsigned result is returned as an \<open>int\<close>.\<close>

definition qcom_smem_get_free_space :: "mem \<Rightarrow> qcom_smem option \<Rightarrow> u32 \<Rightarrow> int result" where
  "qcom_smem_get_free_space m smem_opt host =
     (case smem_opt of
        None \<Rightarrow> Inl EPROBE_DEFER
      | Some smem \<Rightarrow>
          (case select_partition smem host of
             Some entry \<Rightarrow>
               let phdr = ptable_entry_to_phdr m smem entry;
                   ret = ph_free_cached m phdr - ph_free_uncached m phdr
               in if ret > pe_size m entry then Inl EINVAL else Inr (sint ret)
           | None \<Rightarrow>
               let ret = sh_available m (virt_base (region0 smem))
               in if ucast ret > rsize (region0 smem) then Inl EINVAL else Inr (sint ret)))"

fun virt_to_phys_regions :: "ptr \<Rightarrow> smem_region list \<Rightarrow> u64" where
  "virt_to_phys_regions p [] = 0"
| "virt_to_phys_regions p (region # rs) =
     (if p < virt_base region then virt_to_phys_regions p rs
      else if p < virt_base region + rsize region
      then ucast (aux_base region) + (p - virt_base region)
      else virt_to_phys_regions p rs)"

definition qcom_smem_virt_to_phys :: "qcom_smem \<Rightarrow> ptr \<Rightarrow> u64" where
  "qcom_smem_virt_to_phys smem p = virt_to_phys_regions p (regions smem)"

section \<open>Partition discovery\<close>

definition qcom_smem_get_sbl_version :: "mem \<Rightarrow> qcom_smem \<Rightarrow> u32" where
  "qcom_smem_get_sbl_version m smem = sh_version m (virt_base (region0 smem)) 7"

definition qcom_smem_get_ptable :: "mem \<Rightarrow> qcom_smem \<Rightarrow> ptr result" where
  "qcom_smem_get_ptable m smem =
     (let ptable = virt_base (region0 smem) + rsize (region0 smem) - 4096
      in if pt_magic m ptable \<noteq> SMEM_PTABLE_MAGIC then Inl ENOENT
         else if pt_version m ptable \<noteq> 1 then Inl EINVAL
         else Inr ptable)"

text \<open>The index \<open>ptable->num_entries\<close> is used here without a byte swap, as on a little-endian CPU.\<close>

definition qcom_smem_get_item_count :: "mem \<Rightarrow> qcom_smem \<Rightarrow> u32" where
  "qcom_smem_get_item_count m smem =
     (case qcom_smem_get_ptable m smem of
        Inl _ \<Rightarrow> SMEM_ITEM_COUNT
      | Inr ptable \<Rightarrow>
          if ptable = 0 then SMEM_ITEM_COUNT
          else
            let info = pt_entry ptable (ucast (pt_num_entries m ptable))
            in if si_magic m info \<noteq> SMEM_INFO_MAGIC then SMEM_ITEM_COUNT
               else ucast (si_num_items m info))"

definition qcom_smem_partition_header :: "mem \<Rightarrow> qcom_smem \<Rightarrow> ptr \<Rightarrow> u16 \<Rightarrow> u16 \<Rightarrow> ptr option" where
  "qcom_smem_partition_header m smem entry host0 host1 =
     (let header = virt_base (region0 smem) + ucast (pe_offset m entry)
      in if ph_magic m header \<noteq> SMEM_PART_MAGIC then None
         else if host0 \<noteq> ph_host0 m header then None
         else if host1 \<noteq> ph_host1 m header then None
         else
           let part_size = ph_size m header
           in if part_size \<noteq> pe_size m entry then None
              else if ph_free_uncached m header > part_size then None
              else Some header)"

text \<open>
  The \<open>for\<close> loops over \<open>ptable->entry[0 .. num_entries)\<close>; the number of entries left is the recursion
  argument and \<open>i\<close> the loop variable.
\<close>

fun find_global_entry :: "mem \<Rightarrow> ptr \<Rightarrow> nat \<Rightarrow> u64 \<Rightarrow> ptr option" where
  "find_global_entry m ptable 0 i = None"
| "find_global_entry m ptable (Suc n) i =
     (let entry = pt_entry ptable i
      in if pe_offset m entry = 0 then find_global_entry m ptable n (i + 1)
         else if pe_size m entry = 0 then find_global_entry m ptable n (i + 1)
         else if pe_host0 m entry \<noteq> SMEM_GLOBAL_HOST then find_global_entry m ptable n (i + 1)
         else if pe_host1 m entry = SMEM_GLOBAL_HOST then Some entry
         else find_global_entry m ptable n (i + 1))"

definition qcom_smem_set_global_partition :: "mem \<Rightarrow> qcom_smem \<Rightarrow> qcom_smem result" where
  "qcom_smem_set_global_partition m smem =
     (if global_partition_entry smem \<noteq> 0 then Inl EINVAL
      else (case qcom_smem_get_ptable m smem of
          Inl e \<Rightarrow> Inl e
        | Inr ptable \<Rightarrow>
            (case find_global_entry m ptable (unat (pt_num_entries m ptable)) 0 of
               None \<Rightarrow> Inl EINVAL
             | Some entry \<Rightarrow>
                 (case qcom_smem_partition_header m smem entry SMEM_GLOBAL_HOST SMEM_GLOBAL_HOST of
                    None \<Rightarrow> Inl EINVAL
                  | Some _ \<Rightarrow> Inr (smem\<lparr>global_partition_entry := entry\<rparr>)))))"

text \<open>One iteration of the loop of \<open>qcom_smem_enumerate_partitions\<close>; a \<open>continue\<close> is \<open>Inr smem\<close>.\<close>

definition enumerate_entry :: "mem \<Rightarrow> u16 \<Rightarrow> ptr \<Rightarrow> qcom_smem \<Rightarrow> qcom_smem result" where
  "enumerate_entry m local_host entry smem =
     (if pe_offset m entry = 0 then Inr smem
      else if pe_size m entry = 0 then Inr smem
      else
        let host0 = pe_host0 m entry;
            host1 = pe_host1 m entry
        in if host0 \<noteq> local_host \<and> host1 \<noteq> local_host then Inr smem
           else
             let remote_host = (if host0 = local_host then host1 else host0)
             in if (ucast remote_host :: u32) \<ge> SMEM_HOST_COUNT then Inl EINVAL
                else if ptable_entries smem ! unat remote_host \<noteq> 0 then Inl EINVAL
                else (case qcom_smem_partition_header m smem entry host0 host1 of
                    None \<Rightarrow> Inl EINVAL
                  | Some _ \<Rightarrow>
                      Inr (smem\<lparr>ptable_entries := (ptable_entries smem)[unat remote_host := entry]\<rparr>)))"

fun enumerate_entries :: "mem \<Rightarrow> u16 \<Rightarrow> ptr \<Rightarrow> nat \<Rightarrow> u64 \<Rightarrow> qcom_smem \<Rightarrow> errno option \<times> qcom_smem" where
  "enumerate_entries m local_host ptable 0 i smem = (None, smem)"
| "enumerate_entries m local_host ptable (Suc n) i smem =
     (case enumerate_entry m local_host (pt_entry ptable i) smem of
        Inl e \<Rightarrow> (Some e, smem)
      | Inr smem' \<Rightarrow> enumerate_entries m local_host ptable n (i + 1) smem')"

definition qcom_smem_enumerate_partitions :: "mem \<Rightarrow> qcom_smem \<Rightarrow> u16 \<Rightarrow> errno option \<times> qcom_smem" where
  "qcom_smem_enumerate_partitions m smem local_host =
     (case qcom_smem_get_ptable m smem of
        Inl e \<Rightarrow> (Some e, smem)
      | Inr ptable \<Rightarrow>
          enumerate_entries m local_host ptable (unat (pt_num_entries m ptable)) 0 smem)"

section \<open>Probe\<close>

text \<open>
  What the device tree and the kernel give the probe: for each memory phandle its resource (or the
  error of the lookup), \<open>devm_ioremap_wc\<close>, whether the allocation succeeds, the hwspinlock's id and
  whether it can be requested.
\<close>

record smem_platform =
  memory_region :: "(u64 \<times> u64) result"
  rpm_msg_ram :: "(u64 \<times> u64) result option"
  ioremap_wc :: "u64 \<Rightarrow> u64 \<Rightarrow> ptr"
  kzalloc_ok :: bool
  hwlock_id :: "nat result"
  hwlock_request_ok :: bool

definition qcom_smem_map_memory :: "(u64 \<Rightarrow> u64 \<Rightarrow> ptr) \<Rightarrow> (u64 \<times> u64) result \<Rightarrow> smem_region result" where
  "qcom_smem_map_memory ioremap res =
     (case res of
        Inl e \<Rightarrow> Inl e
      | Inr (start, n) \<Rightarrow>
          let base = ioremap start n
          in if base = 0 then Inl ENOMEM
             else Inr \<lparr>aux_base = ucast start, virt_base = base, rsize = n\<rparr>)"

definition probe_regions :: "smem_platform \<Rightarrow> smem_region list result" where
  "probe_regions pf =
     (case qcom_smem_map_memory (ioremap_wc pf) (memory_region pf) of
        Inl e \<Rightarrow> Inl e
      | Inr r0 \<Rightarrow>
          (case rpm_msg_ram pf of
             None \<Rightarrow> Inr [r0]
           | Some res \<Rightarrow>
               (case qcom_smem_map_memory (ioremap_wc pf) res of
                  Inl e \<Rightarrow> Inl e
                | Inr r1 \<Rightarrow> Inr [r0, r1])))"

text \<open>The \<open>switch (version >> 16)\<close> of the probe.\<close>

definition probe_version :: "mem \<Rightarrow> qcom_smem \<Rightarrow> qcom_smem result" where
  "probe_version m smem =
     (let version = drop_bit 16 (qcom_smem_get_sbl_version m smem)
      in if version = SMEM_GLOBAL_PART_VERSION then
           map_sum id (\<lambda>s. s\<lparr>item_count := qcom_smem_get_item_count m s\<rparr>)
             (qcom_smem_set_global_partition m smem)
         else if version = SMEM_GLOBAL_HEAP_VERSION then Inr (smem\<lparr>item_count := SMEM_ITEM_COUNT\<rparr>)
         else Inl EINVAL)"

definition probe_init :: "smem_region list \<Rightarrow> qcom_smem" where
  "probe_init rs =
     \<lparr>global_partition_entry = 0, ptable_entries = replicate 14 0, item_count = 0, regions = rs\<rparr>"

definition qcom_smem_probe :: "mem \<Rightarrow> smem_platform \<Rightarrow> qcom_smem result" where
  "qcom_smem_probe m pf =
     (if \<not> kzalloc_ok pf then Inl ENOMEM
      else (case probe_regions pf of
          Inl e \<Rightarrow> Inl e
        | Inr rs \<Rightarrow>
            let header = virt_base (region0 (probe_init rs))
            in if sh_initialized m header \<noteq> 1 \<or> sh_reserved m header \<noteq> 0 then Inl EINVAL
               else (case probe_version m (probe_init rs) of
                   Inl e \<Rightarrow> Inl e
                 | Inr smem \<Rightarrow>
                     (case qcom_smem_enumerate_partitions m smem SMEM_HOST_APPS of
                        (ret, smem') \<Rightarrow>
                          if ret \<noteq> None \<and> ret \<noteq> Some ENOENT then Inl (the ret)
                          else (case hwlock_id pf of
                              Inl e \<Rightarrow> Inl e
                            | Inr _ \<Rightarrow> if hwlock_request_ok pf then Inr smem' else Inl ENXIO)))))"

text \<open>
  The driver's entry points on the handle \<open>__smem\<close>: the probe publishes it, the removal and the freeze
  before hibernation withdraw it, the restore probes again.
\<close>

definition qcom_smem_remove :: "qcom_smem option \<Rightarrow> qcom_smem option" where
  "qcom_smem_remove handle = None"

definition qcom_smem_freeze :: "qcom_smem option \<Rightarrow> qcom_smem option" where
  "qcom_smem_freeze handle = qcom_smem_remove handle"

definition qcom_smem_restore ::
  "mem \<Rightarrow> smem_platform \<Rightarrow> qcom_smem option \<Rightarrow> errno option \<times> qcom_smem option" where
  "qcom_smem_restore m pf handle =
     (case qcom_smem_probe m pf of Inl e \<Rightarrow> (Some e, handle) | Inr smem \<Rightarrow> (None, Some smem))"

section \<open>The uncached list of a partition, abstractly\<close>

record smem_item =
  it_item :: u16
  it_size :: u32
  it_pad :: u16
  it_hpad :: u16

definition it_len :: "smem_item \<Rightarrow> nat" where
  "it_len it = 16 + unat (it_hpad it) + unat (it_size it)"

definition entry_at :: "mem \<Rightarrow> ptr \<Rightarrow> nat \<Rightarrow> smem_item \<Rightarrow> bool" where
  "entry_at m b k it \<longleftrightarrow>
     pr_canary m (byte_at b k) = 0xa5a5 \<and> pr_item m (byte_at b k) = it_item it \<and>
     pr_size m (byte_at b k) = it_size it \<and> pr_padding_data m (byte_at b k) = it_pad it \<and>
     pr_padding_hdr m (byte_at b k) = it_hpad it"

fun chain :: "mem \<Rightarrow> ptr \<Rightarrow> nat \<Rightarrow> smem_item list \<Rightarrow> nat \<Rightarrow> bool" where
  "chain m b k [] e \<longleftrightarrow> k = e"
| "chain m b k (it # its) e \<longleftrightarrow> entry_at m b k it \<and> chain m b (k + it_len it) its e"

definition uncached_end :: "smem_item list \<Rightarrow> nat" where
  "uncached_end its = 32 + (\<Sum>it\<leftarrow>its. it_len it)"

fun find_off :: "u32 \<Rightarrow> nat \<Rightarrow> smem_item list \<Rightarrow> (nat \<times> smem_item) option" where
  "find_off item k [] = None"
| "find_off item k (it # its) =
     (if ucast (it_item it) = item then Some (k, it) else find_off item (k + it_len it) its)"

lemma it_len_ge: "16 \<le> it_len it"
  by (simp add: it_len_def)

lemma chain_end: "chain m b k its e \<Longrightarrow> e = k + (\<Sum>it\<leftarrow>its. it_len it)"
  by (induction its arbitrary: k) fastforce+

lemma chain_append:
  "chain m b k (its @ its') e \<longleftrightarrow> (\<exists>k'. chain m b k its k' \<and> chain m b k' its' e)"
  by (induction its arbitrary: k) auto

lemma uncached_entry_next_at:
  "entry_at m b k it \<Longrightarrow> uncached_entry_next m (byte_at b k) = byte_at b (k + it_len it)"
  by (simp add: entry_at_def uncached_entry_next_def mem_simps at_add_word it_len_def add.assoc)

lemma alloc_private_scan_chain:
  assumes "chain m b k its e" "unat b + e < 2 ^ 64"
  shows "alloc_private_scan m item (byte_at b k) (byte_at b e) =
    Some (if item \<in> (\<lambda>it. ucast (it_item it)) ` set its then Inl EEXIST else Inr (byte_at b e))"
  using assms
proof (induction its arbitrary: k)
  case Nil
  then show ?case by (simp add: alloc_private_scan.simps)
next
  case (Cons it its)
  have "k < e" using chain_end[OF Cons.prems(1)] it_len_ge[of it] by simp
  then have "byte_at b k < byte_at b e" using Cons.prems(2) by (simp add: at_less_iff)
  moreover have ent: "entry_at m b k it" using Cons.prems(1) by simp
  moreover have "alloc_private_scan m item (byte_at b (k + it_len it)) (byte_at b e) =
    Some (if item \<in> (\<lambda>it. ucast (it_item it)) ` set its then Inl EEXIST else Inr (byte_at b e))"
    using Cons by simp
  ultimately show ?case
    by (subst alloc_private_scan.simps) (auto simp: uncached_entry_next_at entry_at_def)
qed

lemma get_uncached_scan_chain:
  assumes "chain m b k its e" "unat b + e < 2 ^ 64"
  shows "get_uncached_scan m item (byte_at b k) (byte_at b e) =
    Some (case find_off item k its of
        Some (o', it) \<Rightarrow> Inl (Inr (byte_at b o')) | None \<Rightarrow> Inr (byte_at b e))"
  using assms
proof (induction its arbitrary: k)
  case Nil
  then show ?case by (simp add: get_uncached_scan.simps)
next
  case (Cons it its)
  have "k < e" using chain_end[OF Cons.prems(1)] it_len_ge[of it] by simp
  then have "byte_at b k < byte_at b e" using Cons.prems(2) by (simp add: at_less_iff)
  moreover have ent: "entry_at m b k it" using Cons.prems(1) by simp
  moreover have "get_uncached_scan m item (byte_at b (k + it_len it)) (byte_at b e) =
    Some (case find_off item (k + it_len it) its of
        Some (o', it) \<Rightarrow> Inl (Inr (byte_at b o')) | None \<Rightarrow> Inr (byte_at b e))"
    using Cons by simp
  ultimately show ?case
    by (subst get_uncached_scan.simps) (auto simp: uncached_entry_next_at entry_at_def)
qed

lemma entry_at_same:
  assumes "same_on m m' b k (k + 12)" "entry_at m b k it"
  shows "entry_at m' b k it"
  using assms(2) load16_same[OF assms(1)] load32_same[OF assms(1)]
  unfolding entry_at_def pr_canary_def pr_item_def pr_size_def pr_padding_data_def pr_padding_hdr_def
  by (simp add: mem_simps)

lemma chain_same:
  "same_on m m' b k e \<Longrightarrow> chain m b k its e \<Longrightarrow> chain m' b k its e"
proof (induction its arbitrary: k)
  case (Cons it its)
  have "k + it_len it \<le> e" using chain_end[of m b "k + it_len it" its e] Cons.prems(2) by simp
  then have "same_on m m' b k (k + 12)" "same_on m m' b (k + it_len it) e"
    using Cons.prems(1) it_len_ge[of it] by (auto elim!: same_on_mono)
  then show ?case using Cons by (auto intro: entry_at_same)
qed simp


definition partition_ok :: "mem \<Rightarrow> qcom_smem \<Rightarrow> ptr \<Rightarrow> smem_item list \<Rightarrow> bool" where
  "partition_ok m smem entry its \<longleftrightarrow>
     (let b = ptable_entry_to_phdr m smem entry;
          n = unat (pe_size m entry);
          fu = unat (ph_free_uncached m b);
          fc = unat (ph_free_cached m b)
      in unat b + 2 ^ 34 \<le> 2 ^ 64 \<and> n \<le> unat (entry - b) \<and> unat (entry - b) + 48 \<le> 2 ^ 64 \<and>
         chain m b 32 its fu \<and> fu \<le> fc \<and> fc \<le> n)"

definition cached_limit :: "mem \<Rightarrow> qcom_smem \<Rightarrow> ptr \<Rightarrow> nat" where
  "cached_limit m smem entry = unat (ph_free_cached m (ptable_entry_to_phdr m smem entry))"

definition new_item :: "u32 \<Rightarrow> u64 \<Rightarrow> smem_item" where
  "new_item item sz =
     \<lparr>it_item = ucast item, it_size = of_nat (align8 (unat sz)),
      it_pad = of_nat (align8 (unat sz) - unat sz), it_hpad = 0\<rparr>"

definition spec_alloc :: "nat \<Rightarrow> smem_item list \<Rightarrow> u32 \<Rightarrow> u64 \<Rightarrow> smem_item list result" where
  "spec_alloc limit its item sz =
     (if item \<in> (\<lambda>it. ucast (it_item it)) ` set its then Inl EEXIST
      else if uncached_end its + 16 + align8 (unat sz) > limit then Inl ENOSPC
      else Inr (its @ [new_item item sz]))"

lemma uncached_end_chain: "chain m b 32 its e \<Longrightarrow> e = uncached_end its"
  by (simp add: uncached_end_def chain_end)

lemma unat_alloc_size:
  assumes "unat (sz :: u64) < 2 ^ 32 - 8"
  shows "unat (ALIGN sz 8) = align8 (unat sz)" "unat (16 + ALIGN sz 8) = 16 + align8 (unat sz)"
    "align8 (unat sz) < 2 ^ 32"
proof -
  show 1: "unat (ALIGN sz 8) = align8 (unat sz)" using assms by (intro unat_ALIGN8) auto
  show 3: "align8 (unat sz) < 2 ^ 32" using assms align8_less[of "unat sz"] by simp
  show "unat (16 + ALIGN sz 8) = 16 + align8 (unat sz)"
    using 1 3 unat_add_lem[of 16 "ALIGN sz 8"] by simp
qed

text \<open>What the new header reads back as.\<close>

lemma write_private_entry_at:
  assumes "unat sz < 2 ^ 32 - 8" "k + 16 \<le> 2 ^ 64"
  shows "entry_at (write_private_entry m (byte_at b k) item sz) b k (new_item item sz)"
proof -
  have sz: "(ucast (ALIGN sz 8) :: u32) = of_nat (align8 (unat sz))"
    using unat_alloc_size[OF assms(1)] by (simp add: ucast_of_nat_unat)
  have "(ucast (of_nat (align8 (unat sz)) :: u32) :: u64) - sz = of_nat (align8 (unat sz) - unat sz)"
    using unat_alloc_size(3)[OF assms(1)] align8_ge[of "unat sz"]
    by (simp add: ucast_of_nat_small of_nat_diff)
  moreover have "align8 (unat sz) - unat sz < 2 ^ 64" using align8_less[of "unat sz"] by simp
  ultimately have pad: "(ucast ((ucast (of_nat (align8 (unat sz)) :: u32) :: u64) - sz) :: u16) =
      of_nat (align8 (unat sz) - unat sz)"
    by (simp add: ucast_of_nat_small del: of_nat_diff)
  show ?thesis
  using assms pad
  unfolding entry_at_def write_private_entry_def Let_def pr_canary_def pr_item_def pr_size_def
    pr_padding_data_def pr_padding_hdr_def new_item_def
  by (simp add: mem_simps frame_simps sz)
qed

lemma write_private_entry_frame:
  assumes "j \<le> k \<or> k + 12 \<le> i" "j \<le> 2 ^ 64" "k + 12 \<le> 2 ^ 64"
  shows "same_on m (write_private_entry m (byte_at b k) item sz) b i j"
  using assms unfolding write_private_entry_def Let_def mem_simps
  by (intro same_on_trans[OF _ same_on_store16] same_on_trans[OF _ same_on_store32] same_on_refl) auto


lemma partition_okD:
  assumes "partition_ok m smem entry its"
  defines "b \<equiv> ptable_entry_to_phdr m smem entry"
  shows "unat b + 2 ^ 34 \<le> 2 ^ 64" "unat (pe_size m entry) \<le> unat (entry - b)"
    "unat (entry - b) + 48 \<le> 2 ^ 64" "chain m b 32 its (uncached_end its)"
    "unat (ph_free_uncached m b) = uncached_end its" "uncached_end its \<le> cached_limit m smem entry"
    "cached_limit m smem entry \<le> unat (pe_size m entry)" "32 \<le> uncached_end its"
    "cached_limit m smem entry < 2 ^ 32" "unat (pe_size m entry) < 2 ^ 32"
  using assms uncached_end_chain[of m b its] unat_u32[of "pe_size m entry"]
  by (auto simp: partition_ok_def Let_def cached_limit_def uncached_end_def)

lemma alloc_private_eq:
  assumes P: "partition_ok m smem entry its" and sz: "unat sz < 2 ^ 32 - 8"
  defines "b \<equiv> ptable_entry_to_phdr m smem entry"
  shows "qcom_smem_alloc_private m smem entry item sz =
    Some (if item \<in> (\<lambda>it. ucast (it_item it)) ` set its then Inl EEXIST
      else if uncached_end its + 16 + align8 (unat sz) > cached_limit m smem entry then Inl ENOSPC
      else Inr (let m' = write_private_entry m (byte_at b (uncached_end its)) item sz in
             store32 m' (b + 12) (ph_free_uncached m' b + ucast (16 + ALIGN sz 8))))"
proof -
  note D = partition_okD[OF P, folded b_def]
  have lim: "unat (ph_free_cached m b) = cached_limit m smem entry"
    by (simp add: cached_limit_def b_def)
  have scan: "alloc_private_scan m item (byte_at b 32) (byte_at b (uncached_end its)) =
    Some (if item \<in> (\<lambda>it. ucast (it_item it)) ` set its then Inl EEXIST
          else Inr (byte_at b (uncached_end its)))"
    using D by (intro alloc_private_scan_chain) auto
  have add: "byte_at b (uncached_end its) + (16 + ALIGN sz 8) =
      byte_at b (uncached_end its + (16 + align8 (unat sz)))"
    by (simp add: at_add_word unat_alloc_size[OF sz])
  show ?thesis
    unfolding qcom_smem_alloc_private_def Let_def b_def[symmetric] phdr_to_first_uncached_entry_def
      phdr_to_last_uncached_entry_def phdr_to_last_cached_entry_def byte_at_ucast D(5) lim
    using D unat_alloc_size(3)[OF sz]
    by (simp add: scan add at_less_iff byte_at_numeral)
qed


text \<open>A write outside a partition table entry leaves its fields alone.\<close>

lemma pe_fields_same:
  assumes "same_on m m' b i (2 ^ 64)" "i \<le> unat (entry - b)" "unat (entry - b) + 48 \<le> 2 ^ 64"
  shows "pe_offset m' entry = pe_offset m entry" "pe_size m' entry = pe_size m entry"
    "pe_cacheline m' entry = pe_cacheline m entry"
proof -
  obtain d where "entry = byte_at b d" "i \<le> d" "d + 48 \<le> 2 ^ 64"
    using assms by (intro that[of "unat (entry - b)"]) (auto simp: byte_at_def)
  then show "pe_offset m' entry = pe_offset m entry" "pe_size m' entry = pe_size m entry"
    "pe_cacheline m' entry = pe_cacheline m entry"
    by (auto simp: pe_offset_def pe_size_def pe_cacheline_def mem_simps
        intro!: load32_same[OF assms(1)])
qed

text \<open>
  A successful allocation changes the new header and the free offset of the uncached list, nothing
  else of the partition or of its table entry.
\<close>

lemma alloc_private_success:
  assumes P: "partition_ok m smem entry its" and sz: "unat sz < 2 ^ 32 - 8"
    and ret: "qcom_smem_alloc_private m smem entry item sz = Some (Inr m')"
  defines "b \<equiv> ptable_entry_to_phdr m smem entry" and "fu \<equiv> uncached_end its"
  shows "item \<notin> (\<lambda>it. ucast (it_item it)) ` set its"
    "fu + 16 + align8 (unat sz) \<le> cached_limit m smem entry"
    "entry_at m' b fu (new_item item sz)"
    "unat (ph_free_uncached m' b) = fu + 16 + align8 (unat sz)"
    "same_on m m' b 16 fu" "same_on m m' b (fu + 12) (2 ^ 64)" "same_on m m' b 0 12"
proof -
  note D = partition_okD[OF P, folded b_def fu_def]
  define m1 where "m1 = write_private_entry m (byte_at b fu) item sz"
  note eq = ret[unfolded alloc_private_eq[OF P sz] Let_def, folded b_def fu_def m1_def]
  show 1: "item \<notin> (\<lambda>it. ucast (it_item it)) ` set its"
    and 2: "fu + 16 + align8 (unat sz) \<le> cached_limit m smem entry"
    using eq by (auto split: if_splits)
  have m': "m' = store32 m1 (byte_at b 12) (ph_free_uncached m1 b + ucast (16 + ALIGN sz 8))"
    using eq 1 2 by (simp add: byte_at_numeral m1_def)
  have w: "same_on m m1 b i j" if "j \<le> fu \<or> fu + 12 \<le> i" "j \<le> 2 ^ 64" for i j
    using that D unfolding m1_def by (intro write_private_entry_frame) auto
  have s: "same_on m1 m' b i j" if "j \<le> 12 \<or> 16 \<le> i" "j \<le> 2 ^ 64" for i j
    using that unfolding m' by (intro same_on_store32) auto
  show "same_on m m' b 16 fu" "same_on m m' b (fu + 12) (2 ^ 64)" "same_on m m' b 0 12"
    using D by (auto intro!: same_on_trans[OF w s])
  have "entry_at m1 b fu (new_item item sz)"
    unfolding m1_def using sz D by (intro write_private_entry_at) auto
  then show "entry_at m' b fu (new_item item sz)"
    by (rule entry_at_same[rotated]) (use D in \<open>auto intro!: s\<close>)
  have "ph_free_uncached m1 b = ph_free_uncached m b"
    unfolding ph_free_uncached_def byte_at_numeral
    using D by (intro load32_same[OF w[of 16 12]]) auto
  then show "unat (ph_free_uncached m' b) = fu + 16 + align8 (unat sz)"
    using D 2 unat_alloc_size[OF sz]
    by (simp add: m' ph_free_uncached_def byte_at_numeral unat_word_ariths unat_ucast_down)
qed

theorem alloc_private_refines:
  assumes P: "partition_ok m smem entry its" and sz: "unat sz < 2 ^ 32 - 8"
  shows "case spec_alloc (cached_limit m smem entry) its item sz of
      Inl e \<Rightarrow> qcom_smem_alloc_private m smem entry item sz = Some (Inl e)
    | Inr its' \<Rightarrow> \<exists>m'. qcom_smem_alloc_private m smem entry item sz = Some (Inr m') \<and>
        partition_ok m' smem entry its' \<and> cached_limit m' smem entry = cached_limit m smem entry \<and>
        ptable_entry_to_phdr m' smem entry = ptable_entry_to_phdr m smem entry"
proof (cases "spec_alloc (cached_limit m smem entry) its item sz")
  case (Inl e)
  then show ?thesis using alloc_private_eq[OF P sz] by (auto simp: spec_alloc_def split: if_splits)
next
  case (Inr its')
  define b where "b = ptable_entry_to_phdr m smem entry"
  have its': "its' = its @ [new_item item sz]" using Inr by (auto simp: spec_alloc_def split: if_splits)
  obtain m' where ret: "qcom_smem_alloc_private m smem entry item sz = Some (Inr m')"
    using Inr alloc_private_eq[OF P sz] by (auto simp: spec_alloc_def split: if_splits)
  note D = partition_okD[OF P, folded b_def] and S = alloc_private_success[OF P sz ret, folded b_def]
  have fields: "pe_offset m' entry = pe_offset m entry" "pe_size m' entry = pe_size m entry"
    using D S(2) by (auto intro!: pe_fields_same[OF S(6)])
  then have b': "ptable_entry_to_phdr m' smem entry = b" by (simp add: ptable_entry_to_phdr_def b_def)
  have "ph_free_cached m' b = ph_free_cached m b"
    unfolding ph_free_cached_def byte_at_numeral
    using D by (intro load32_same[OF S(5)]) auto
  then have lim: "cached_limit m' smem entry = cached_limit m smem entry"
    by (simp add: cached_limit_def b' b_def)
  have "chain m' b 32 its (uncached_end its)"
    using chain_same[OF same_on_mono[OF S(5)] D(4)] by simp
  moreover have "it_len (new_item item sz) = 16 + align8 (unat sz)"
    using unat_alloc_size[OF sz] by (simp add: it_len_def new_item_def unat_of_nat)
  ultimately have "chain m' b 32 its' (uncached_end its + 16 + align8 (unat sz))"
    using S(3) by (auto simp: its' chain_append add.assoc)
  then have "partition_ok m' smem entry its'"
    using D S lim by (simp add: partition_ok_def Let_def b' fields cached_limit_def)
  then show ?thesis using ret Inr b' lim by (simp add: b_def)
qed


section \<open>Lookup in a partition\<close>

lemma find_off_chain:
  assumes "chain m b k its e" "find_off item k its = Some (o', it)"
  shows "entry_at m b o' it \<and> k \<le> o' \<and> o' + it_len it \<le> e \<and> it \<in> set its \<and> ucast (it_item it) = item"
  using assms
proof (induction its arbitrary: k)
  case (Cons x its)
  show ?case
  proof (cases "ucast (it_item x) = item")
    case True
    then show ?thesis using Cons.prems chain_end[of m b "k + it_len x" its e] by auto
  next
    case False
    then show ?thesis using Cons.IH[of "k + it_len x"] Cons.prems by auto
  qed
qed simp

lemma find_off_None: "find_off item k its = None \<longleftrightarrow> item \<notin> (\<lambda>it. ucast (it_item it)) ` set its"
  by (induction its arbitrary: k) auto

lemma find_off_append:
  "find_off item k (its @ its') =
     (case find_off item k its of None \<Rightarrow> find_off item (k + (\<Sum>it\<leftarrow>its. it_len it)) its' | r \<Rightarrow> r)"
  by (induction its arbitrary: k) (auto simp: add.assoc split: option.split)

lemma get_private_found:
  assumes P: "partition_ok m smem entry its" and f: "find_off item 32 its = Some (o', it)"
  defines "b \<equiv> ptable_entry_to_phdr m smem entry"
  shows "qcom_smem_get_private m smem entry item want =
    Some (if want \<and> \<not> (it_size it < pe_size m entry \<and> ucast (it_pad it) < it_size it) then Inl EINVAL
      else Inr (byte_at b (o' + 16 + unat (it_hpad it)),
             if want then Some (ucast (it_size it - ucast (it_pad it))) else None))"
proof -
  note D = partition_okD[OF P, folded b_def] and F = find_off_chain[OF partition_okD(4)[OF P] f, folded b_def]
  have scan: "get_uncached_scan m item (byte_at b 32) (byte_at b (uncached_end its)) =
      Some (Inl (Inr (byte_at b o')))"
    using D by (subst get_uncached_scan_chain) (auto simp: f)
  have it: "uncached_entry_to_item m (byte_at b o') = byte_at b (o' + 16 + unat (it_hpad it))"
    using F by (simp add: uncached_entry_to_item_def entry_at_def mem_simps byte_at_ucast)
  have "entry_item_size m (byte_at b o') (pe_size m entry) =
      (if it_size it < pe_size m entry \<and> ucast (it_pad it) < it_size it
       then Inr (ucast (it_size it - ucast (it_pad it))) else Inl EINVAL)"
    using F by (simp add: entry_item_size_def entry_at_def Let_def)
  moreover have "\<not> byte_at b (unat (pe_size m entry)) < byte_at b (o' + 16 + unat (it_hpad it))"
    using D F by (simp add: at_less_iff it_len_def)
  moreover have "\<not> byte_at b (unat (pe_size m entry)) < byte_at b (uncached_end its)"
    using D by (simp add: at_less_iff)
  ultimately show ?thesis
    unfolding qcom_smem_get_private_def Let_def b_def[symmetric] phdr_to_first_uncached_entry_def
      phdr_to_last_uncached_entry_def byte_at_ucast D(5)
    by (simp add: byte_at_numeral scan it found_item_def)
qed

lemma it_len_new_item: "unat sz < 2 ^ 32 - 8 \<Longrightarrow> it_len (new_item item sz) = 16 + align8 (unat sz)"
  using unat_alloc_size(3)[of sz] by (simp add: it_len_def new_item_def unat_of_nat)

theorem alloc_then_get:
  assumes P: "partition_ok m smem entry its" and sz: "unat sz < 2 ^ 32 - 8" "0 < sz"
    and item: "item < 2 ^ 16"
    and ret: "qcom_smem_alloc_private m smem entry item sz = Some (Inr m')"
  shows "qcom_smem_get_private m' smem entry item True =
    Some (Inr (byte_at (ptable_entry_to_phdr m smem entry) (uncached_end its + 16), Some sz))"
proof -
  let ?n = "align8 (unat sz)"
  note R = alloc_private_refines[OF P sz(1), of item] and S = alloc_private_success[OF P sz(1) ret]
  have spec: "spec_alloc (cached_limit m smem entry) its item sz = Inr (its @ [new_item item sz])"
    using S by (auto simp: spec_alloc_def)
  then have P': "partition_ok m' smem entry (its @ [new_item item sz])"
    and b': "ptable_entry_to_phdr m' smem entry = ptable_entry_to_phdr m smem entry"
    using R ret by auto
  have "(ucast (ucast item :: u16) :: u32) = item"
    using item by (simp add: word_less_nat_alt word_unat_eq_iff unat_ucast_down)
  moreover have "find_off item 32 its = None" using S(1) by (simp add: find_off_None)
  ultimately have f: "find_off item 32 (its @ [new_item item sz]) =
      Some (uncached_end its, new_item item sz)"
    by (simp add: find_off_append uncached_end_def new_item_def)
  have n: "?n < 2 ^ 32" "unat sz \<le> ?n" "?n < unat sz + 8"
    using unat_alloc_size[OF sz(1)] align8_ge align8_less by auto
  have "0 < unat sz" using sz(2) by (simp add: word_less_nat_alt)
  then have pad: "unat (it_size (new_item item sz)) = ?n"
    "unat (ucast (it_pad (new_item item sz)) :: u32) = ?n - unat sz"
    using n by (simp_all add: new_item_def unat_of_nat del: of_nat_diff)
  have "?n < unat (pe_size m' entry)"
    using partition_okD[OF P'] sz it_len_new_item[OF sz(1)] by (simp add: uncached_end_def)
  then have "it_size (new_item item sz) < pe_size m' entry"
    "ucast (it_pad (new_item item sz)) < it_size (new_item item sz)"
    using pad n \<open>0 < unat sz\<close> by (auto simp: word_less_nat_alt)
  moreover have "(ucast (it_size (new_item item sz) - ucast (it_pad (new_item item sz))) :: u64) = sz"
    using pad n by (simp add: word_unat_eq_iff unat_sub word_le_nat_alt)
  ultimately show ?thesis
    by (subst get_private_found[OF P' f]) (simp add: b' new_item_def)
qed


section \<open>Termination of the scans\<close>

text \<open>
  On any memory contents the scans stop, as long as the partition is not within 16 GiB of the top of
  the address space: each step adds at least the size of an entry header.
\<close>

lemma uncached_entry_next_advances:
  "\<exists>d. 16 \<le> d \<and> d < 2 ^ 33 \<and> uncached_entry_next m (byte_at b k) = byte_at b (k + d)"
proof -
  let ?d = "16 + unat (pr_padding_hdr m (byte_at b k)) + unat (pr_size m (byte_at b k))"
  have "?d < 2 ^ 33"
    using unat_u16[of "pr_padding_hdr m (byte_at b k)"] unat_u32[of "pr_size m (byte_at b k)"] by simp
  then show ?thesis
    by (intro exI[of _ ?d]) (simp add: uncached_entry_next_def mem_simps byte_at_ucast add.assoc)
qed

lemma alloc_private_scan_terminates:
  assumes "unat b + 2 ^ 34 \<le> 2 ^ 64" "k < 2 ^ 33 + 2 ^ 32" "e < 2 ^ 32"
  shows "\<exists>r. alloc_private_scan m item (byte_at b k) (byte_at b e) = Some r"
  using assms
proof (induction "e - k" arbitrary: k rule: less_induct)
  case less
  show ?case
  proof (cases "k < e")
    case True
    obtain d where d: "16 \<le> d" "d < 2 ^ 33"
      "uncached_entry_next m (byte_at b k) = byte_at b (k + d)"
      using uncached_entry_next_advances by blast
    have "\<exists>r. alloc_private_scan m item (byte_at b (k + d)) (byte_at b e) = Some r"
      using less.prems d True by (intro less.hyps) auto
    then show ?thesis by (subst alloc_private_scan.simps) (simp add: d)
  next
    case False
    then have "\<not> byte_at b k < byte_at b e" using less.prems by (simp add: at_less_iff)
    then show ?thesis by (subst alloc_private_scan.simps) simp
  qed
qed

theorem alloc_private_terminates:
  assumes "unat (ptable_entry_to_phdr m smem entry) + 2 ^ 34 \<le> 2 ^ 64"
  shows "\<exists>r. qcom_smem_alloc_private m smem entry item sz = Some r"
proof -
  let ?b = "ptable_entry_to_phdr m smem entry"
  have "\<exists>r. alloc_private_scan m item (byte_at ?b 32) (byte_at ?b (unat (ph_free_uncached m ?b))) = Some r"
    using assms unat_u32[of "ph_free_uncached m ?b"] by (intro alloc_private_scan_terminates) auto
  then show ?thesis
    by (auto simp: qcom_smem_alloc_private_def Let_def phdr_to_first_uncached_entry_def
        phdr_to_last_uncached_entry_def byte_at_ucast byte_at_numeral split: sum.splits)
qed

section \<open>The cached list is out of reach of an allocation\<close>

lemma pr_fields_same:
  assumes "same_on m m' b i j" "i \<le> k" "k + 12 \<le> j"
  shows "pr_canary m' (byte_at b k) = pr_canary m (byte_at b k)"
    "pr_item m' (byte_at b k) = pr_item m (byte_at b k)"
    "pr_size m' (byte_at b k) = pr_size m (byte_at b k)"
    "pr_padding_data m' (byte_at b k) = pr_padding_data m (byte_at b k)"
    "pr_padding_hdr m' (byte_at b k) = pr_padding_hdr m (byte_at b k)"
  using assms(2,3) load16_same[OF assms(1)] load32_same[OF assms(1)]
  unfolding pr_canary_def pr_item_def pr_size_def pr_padding_data_def pr_padding_hdr_def mem_simps
  by auto

lemma above_end:
  assumes "byte_at b c < (e :: ptr)" "unat b + c < 2 ^ 64" "12 \<le> unat b"
  obtains k where "e = byte_at b k" "c \<le> k" "k + 12 \<le> 2 ^ 64"
proof
  have l: "unat b + c < unat e" using assms by (simp add: word_less_nat_alt unat_at)
  have d: "unat (e - b) = unat e - unat b" using l by (simp add: unat_sub word_le_nat_alt)
  show "e = byte_at b (unat (e - b))" by (simp add: byte_at_def)
  show "c \<le> unat (e - b)" using d l by simp
  show "unat (e - b) + 12 \<le> 2 ^ 64" using d l assms(3) unat_u64[of e] by simp
qed

lemma get_cached_scan_mono:
  assumes ret: "get_cached_scan m item cl e end_p = Some r"
    and same: "same_on m m' b c (2 ^ 64)" and end_p: "end_p = byte_at b c"
    and b: "unat b + c < 2 ^ 64" "12 \<le> unat b"
  shows "get_cached_scan m' item cl e end_p = Some r"
proof -
  have "m = m \<longrightarrow> end_p = byte_at b c \<longrightarrow> get_cached_scan m' item cl e end_p = Some r"
  proof (rule get_cached_scan.raw_induct[where P = "\<lambda>m1 item cl e end_p r. m1 = m \<longrightarrow>
      end_p = byte_at b c \<longrightarrow> get_cached_scan m' item cl e end_p = Some r", OF _ ret], intro impI)
  fix f m1 item cl e end_p r
  assume IH: "\<And>m1 item cl e end_p r. f m1 item cl e end_p = Some r \<Longrightarrow> m1 = m \<longrightarrow>
      end_p = byte_at b c \<longrightarrow> get_cached_scan m' item cl e end_p = Some r"
    and eq: "(if end_p < e then if pr_canary m1 e \<noteq> 0xa5a5 then Some (Inl (Inl EINVAL))
        else if ucast (pr_item m1 e) = item then Some (Inl (Inr e))
        else f m1 item cl (cached_entry_next m1 e cl) end_p else Some (Inr e)) = Some r"
    and m1: "m1 = m" and e: "end_p = byte_at b c"
  show "get_cached_scan m' item cl e end_p = Some r"
  proof (cases "end_p < e")
    case True
    then obtain k where "e = byte_at b k" "c \<le> k" "k + 12 \<le> 2 ^ 64"
      using above_end[of b c e] b e by blast
    then have "pr_canary m' e = pr_canary m e" "pr_item m' e = pr_item m e" "pr_size m' e = pr_size m e"
      using pr_fields_same[OF same] by auto
    moreover from this have "cached_entry_next m' e cl = cached_entry_next m e cl"
      by (simp add: cached_entry_next_def)
    ultimately show ?thesis
      using eq True IH[of m item cl "cached_entry_next m e cl" end_p r] e
      by (subst get_cached_scan.simps) (auto simp: m1 split: if_splits)
  next
    case False
    then show ?thesis using eq by (subst get_cached_scan.simps) simp
  qed
  qed
  then show ?thesis by (simp add: end_p)
qed

lemma get_cached_scan_same:
  assumes same: "same_on m m' b c (2 ^ 64)" and b: "unat b + c < 2 ^ 64" "12 \<le> unat b"
  shows "get_cached_scan m' item cl e (byte_at b c) = get_cached_scan m item cl e (byte_at b c)"
proof -
  have "same_on m' m b c (2 ^ 64)" using same by (simp add: same_on_def)
  then show ?thesis
    using get_cached_scan_mono[OF _ same refl b, of item cl e]
      get_cached_scan_mono[OF _ _ refl b, of m' item cl e _ m]
    by (metis not_Some_eq)
qed


text \<open>Allocating an item leaves the lookup of every other item, found or not, as it was.\<close>

lemma get_private_missed:
  assumes P: "partition_ok m smem entry its" and f: "find_off item 32 its = None"
  defines "b \<equiv> ptable_entry_to_phdr m smem entry" and "cl \<equiv> ucast (pe_cacheline m entry)"
  shows "qcom_smem_get_private m smem entry item want =
    (let e1 = phdr_to_first_cached_entry m b cl in
     if e1 < b then Some (Inl EINVAL)
     else case get_cached_scan m item cl e1 (byte_at b (cached_limit m smem entry)) of
         None \<Rightarrow> None
       | Some (Inl (Inl err)) \<Rightarrow> Some (Inl err)
       | Some (Inl (Inr e)) \<Rightarrow> Some (found_item m want (pe_size m entry) e (cached_entry_to_item m e)
            (cached_entry_to_item m e < b))
       | Some (Inr e) \<Rightarrow> if e < b then Some (Inl EINVAL) else Some (Inl ENOENT))"
proof -
  note D = partition_okD[OF P, folded b_def]
  have lim: "unat (ph_free_cached m b) = cached_limit m smem entry"
    by (simp add: cached_limit_def b_def)
  have scan: "get_uncached_scan m item (byte_at b 32) (byte_at b (uncached_end its)) =
      Some (Inr (byte_at b (uncached_end its)))"
    using D by (subst get_uncached_scan_chain) (auto simp: f)
  have "\<not> byte_at b (unat (pe_size m entry)) < byte_at b (uncached_end its)"
    "\<not> byte_at b (unat (pe_size m entry)) < byte_at b (cached_limit m smem entry)"
    using D by (simp_all add: at_less_iff)
  then show ?thesis
    unfolding qcom_smem_get_private_def Let_def b_def[symmetric] phdr_to_first_uncached_entry_def
      phdr_to_last_uncached_entry_def phdr_to_last_cached_entry_def byte_at_ucast D(5) lim cl_def
    by (simp add: byte_at_numeral scan cong: if_cong)
qed

lemma get_cached_scan_entry:
  assumes "get_cached_scan m item cl e end_p = Some (Inl (Inr e'))"
  shows "end_p < e'"
proof -
  have "\<forall>x. Inl (Inr e') = (Inl (Inr x) :: ptr result + ptr) \<longrightarrow> end_p < x"
  proof (rule get_cached_scan.raw_induct[where
        P = "\<lambda>m item cl e end_p r. \<forall>x. r = Inl (Inr x) \<longrightarrow> end_p < x", OF _ assms], intro allI impI)
    fix f m item cl e end_p r x
    assume IH: "\<And>m item cl e end_p r. f m item cl e end_p = Some r \<Longrightarrow>
        \<forall>x. r = Inl (Inr x) \<longrightarrow> end_p < x"
      and eq: "(if end_p < e then if pr_canary m e \<noteq> 0xa5a5 then Some (Inl (Inl EINVAL))
          else if ucast (pr_item m e) = item then Some (Inl (Inr e))
          else f m item cl (cached_entry_next m e cl) end_p else Some (Inr e)) = Some r"
      and r: "r = Inl (Inr x)"
    show "end_p < x" using eq r IH by (auto split: if_splits)
  qed
  then show ?thesis by simp
qed

theorem alloc_preserves_other:
  assumes P: "partition_ok m smem entry its" and sz: "unat sz < 2 ^ 32 - 8"
    and b: "12 \<le> unat (ptable_entry_to_phdr m smem entry)"
    and item: "item < 2 ^ 16" "other \<noteq> item"
    and ret: "qcom_smem_alloc_private m smem entry item sz = Some (Inr m')"
  shows "qcom_smem_get_private m' smem entry other want = qcom_smem_get_private m smem entry other want"
proof -
  define ph where "ph = ptable_entry_to_phdr m smem entry"
  define c where "c = cached_limit m smem entry"
  note R = alloc_private_refines[OF P sz, of item] and S = alloc_private_success[OF P sz ret, folded ph_def c_def]
    and D = partition_okD[OF P, folded ph_def c_def]
  have "spec_alloc (cached_limit m smem entry) its item sz = Inr (its @ [new_item item sz])"
    using S by (auto simp: spec_alloc_def c_def)
  then have P': "partition_ok m' smem entry (its @ [new_item item sz])"
    and b': "ptable_entry_to_phdr m' smem entry = ph" and c': "cached_limit m' smem entry = c"
    using R ret by (auto simp: ph_def c_def)
  have "(ucast (ucast item :: u16) :: u32) = item"
    using item by (simp add: word_less_nat_alt word_unat_eq_iff unat_ucast_down)
  then have f': "find_off other 32 (its @ [new_item item sz]) = find_off other 32 its"
    using item(2) by (auto simp: find_off_append new_item_def split: option.splits)
  have pe: "pe_size m' entry = pe_size m entry" "pe_cacheline m' entry = pe_cacheline m entry"
    using D S(2) by (auto intro!: pe_fields_same[OF S(6)])
  show ?thesis
  proof (cases "find_off other 32 its")
    case (Some r)
    then obtain o' it where f: "find_off other 32 its = Some (o', it)" by (cases r) auto
    show ?thesis
      using get_private_found[OF P f] get_private_found[OF P' f'[unfolded f]] by (simp add: b' pe ph_def)
  next
    case None
    have above: "same_on m m' ph c (2 ^ 64)" using same_on_mono[OF S(6)] S(2) by simp
    have "phdr_to_first_cached_entry m' ph cl = phdr_to_first_cached_entry m ph cl" for cl
      using load32_same[OF S(7), of 8] by (simp add: phdr_to_first_cached_entry_def ph_size_def byte_at_numeral)
    moreover have "get_cached_scan m' other cl e (byte_at ph c) = get_cached_scan m other cl e (byte_at ph c)" for cl e
      using get_cached_scan_same[OF above] D b by (simp add: ph_def)
    moreover have "found_item m' want n e (cached_entry_to_item m' e) (cached_entry_to_item m' e < ph) =
        found_item m want n e (cached_entry_to_item m e) (cached_entry_to_item m e < ph)"
      if lt: "byte_at ph c < e" for n e
    proof -
      obtain k where "e = byte_at ph k" "c \<le> k" "k + 12 \<le> 2 ^ 64"
        using above_end[OF lt] D b by (auto simp: ph_def)
      then show ?thesis
        using pr_fields_same[OF above]
        by (simp add: found_item_def entry_item_size_def cached_entry_to_item_def)
    qed
    ultimately show ?thesis
      unfolding get_private_missed[OF P None] get_private_missed[OF P' f'[unfolded None]]
      by (auto simp: b' c' pe Let_def ph_def[symmetric] c_def[symmetric]
          dest!: get_cached_scan_entry split: option.splits sum.splits)
  qed
qed

section \<open>Requests at the edge of the size type\<close>

lemma ALIGN8_wraps:
  assumes "2 ^ 64 - 8 < unat (sz :: u64)"
  shows "ALIGN sz 8 = 0"
proof -
  have "unat (sz + 7) = unat sz + 7 - 2 ^ 64"
    using assms unat_u64[of sz] by (simp add: unat_word_ariths mod_if)
  then have "unat (sz + 7) div 2 ^ 3 * 2 ^ 3 = 0" using assms unat_u64[of sz] by simp
  moreover have "ALIGN sz 8 = (sz + 7) AND NOT (mask 3)"
    by (simp add: ALIGN_def mask_eq_exp_minus_1)
  ultimately show ?thesis using unat_and_not_mask[of "sz + 7" 3] by (simp add: unat_eq_0)
qed

lemma alloc_private_wraps:
  assumes P: "partition_ok m smem entry its" and sz: "2 ^ 64 - 8 < unat sz"
    and new: "item \<notin> (\<lambda>it. ucast (it_item it)) ` set its"
    and room: "uncached_end its + 16 \<le> cached_limit m smem entry"
  defines "b \<equiv> ptable_entry_to_phdr m smem entry"
  shows "\<exists>m'. qcom_smem_alloc_private m smem entry item sz = Some (Inr m') \<and>
    pr_item m' (byte_at b (uncached_end its)) = ucast item \<and>
    pr_size m' (byte_at b (uncached_end its)) = 0"
proof -
  note D = partition_okD[OF P, folded b_def]
  define fu where "fu = uncached_end its"
  have lim: "unat (ph_free_cached m b) = cached_limit m smem entry"
    by (simp add: cached_limit_def b_def)
  have scan: "alloc_private_scan m item (byte_at b 32) (byte_at b fu) = Some (Inr (byte_at b fu))"
    using D new by (subst alloc_private_scan_chain) (auto simp: fu_def)
  have w: "ALIGN sz 8 = 0" by (rule ALIGN8_wraps[OF sz])
  define m1 where "m1 = write_private_entry m (byte_at b fu) item sz"
  define m2 where "m2 = store32 m1 (byte_at b 12) (ph_free_uncached m1 b + 16)"
  have fu: "32 \<le> fu" "fu + 16 \<le> 2 ^ 64" using D by (auto simp: fu_def)
  have 1: "qcom_smem_alloc_private m smem entry item sz = Some (Inr m2)"
    unfolding qcom_smem_alloc_private_def Let_def b_def[symmetric] phdr_to_first_uncached_entry_def
      phdr_to_last_uncached_entry_def phdr_to_last_cached_entry_def byte_at_ucast D(5) lim
      m2_def m1_def fu_def[symmetric]
    using D room by (simp add: scan[unfolded fu_def] w at_less_iff byte_at_numeral mem_simps fu_def)
  have "pr_item m1 (byte_at b fu) = ucast item" "pr_size m1 (byte_at b fu) = 0"
    using fu unfolding m1_def write_private_entry_def Let_def pr_item_def pr_size_def
    by (simp_all add: mem_simps frame_simps w)
  moreover have "same_on m1 m2 b fu (fu + 12)" unfolding m2_def using fu by (intro same_on_store32) auto
  ultimately show ?thesis using 1 pr_fields_same[of m1 m2 b fu "fu + 12" fu] by (auto simp: fu_def)
qed

lemma alloc_zero_then_get:
  assumes P: "partition_ok m smem entry its" and item: "item < 2 ^ 16"
    and ret: "qcom_smem_alloc_private m smem entry item 0 = Some (Inr m')"
  shows "qcom_smem_get_private m' smem entry item True = Some (Inl EINVAL)"
proof -
  have sz: "unat (0 :: u64) < 2 ^ 32 - 8" by simp
  note R = alloc_private_refines[OF P sz, of item] and S = alloc_private_success[OF P sz ret]
  have "spec_alloc (cached_limit m smem entry) its item 0 = Inr (its @ [new_item item 0])"
    using S by (auto simp: spec_alloc_def)
  then have P': "partition_ok m' smem entry (its @ [new_item item 0])"
    using R ret by auto
  have "(ucast (ucast item :: u16) :: u32) = item"
    using item by (simp add: word_less_nat_alt word_unat_eq_iff unat_ucast_down)
  moreover have "find_off item 32 its = None" using S(1) by (simp add: find_off_None)
  ultimately have f: "find_off item 32 (its @ [new_item item 0]) =
      Some (uncached_end its, new_item item 0)"
    by (simp add: find_off_append uncached_end_def new_item_def)
  then show ?thesis by (subst get_private_found[OF P' f]) (simp add: new_item_def align8_def)
qed

section \<open>Termination of the lookup\<close>

lemma get_uncached_scan_terminates:
  assumes "unat b + 2 ^ 34 \<le> 2 ^ 64" "k < 2 ^ 33 + 2 ^ 32" "e < 2 ^ 32"
  shows "\<exists>r. get_uncached_scan m item (byte_at b k) (byte_at b e) = Some r"
  using assms
proof (induction "e - k" arbitrary: k rule: less_induct)
  case less
  show ?case
  proof (cases "k < e")
    case True
    obtain d where d: "16 \<le> d" "d < 2 ^ 33"
      "uncached_entry_next m (byte_at b k) = byte_at b (k + d)"
      using uncached_entry_next_advances by blast
    have "\<exists>r. get_uncached_scan m item (byte_at b (k + d)) (byte_at b e) = Some r"
      using less.prems d True by (intro less.hyps) auto
    then show ?thesis by (subst get_uncached_scan.simps) (simp add: d)
  next
    case False
    then have "\<not> byte_at b k < byte_at b e" using less.prems by (simp add: at_less_iff)
    then show ?thesis by (subst get_uncached_scan.simps) simp
  qed
qed

text \<open>
  The cached list is walked downwards by the size and the aligned header size, so the walk stops when
  the aligned header size is not 0 and the pointer cannot pass below address 0.
\<close>

lemma get_cached_scan_terminates:
  assumes step: "0 < ALIGN 16 cl" "ALIGN 16 cl < 2 ^ 33" and end_p: "2 ^ 34 \<le> end_p"
  shows "\<exists>r. get_cached_scan m item cl e end_p = Some r"
proof (induction "unat e" arbitrary: e rule: less_induct)
  case less
  show ?case
  proof (cases "end_p < e")
    case True
    let ?s = "ucast (pr_size m e) :: u64"
    have s: "unat ?s < 2 ^ 32" using unat_u32[of "pr_size m e"] by simp
    have a: "0 < unat (ALIGN 16 cl)" "unat (ALIGN 16 cl) < 2 ^ 33"
      using step by (simp_all add: word_less_nat_alt)
    have e: "2 ^ 34 < unat e" using True end_p by (simp add: word_less_nat_alt word_le_nat_alt)
    have 1: "unat (e - ?s) = unat e - unat ?s" using s e by (simp add: unat_sub word_le_nat_alt)
    then have "unat (e - ?s - ALIGN 16 cl) = unat e - unat ?s - unat (ALIGN 16 cl)"
      using s e a by (subst unat_sub) (auto simp: word_le_nat_alt)
    then have "unat (cached_entry_next m e cl) < unat e"
      using s e a by (simp add: cached_entry_next_def)
    from less[OF this] show ?thesis by (subst get_cached_scan.simps) simp
  next
    case False
    then show ?thesis by (subst get_cached_scan.simps) simp
  qed
qed

lemma get_private_terminates:
  assumes b: "2 ^ 34 \<le> unat (ptable_entry_to_phdr m smem entry)"
      "unat (ptable_entry_to_phdr m smem entry) + 2 ^ 34 \<le> 2 ^ 64"
    and cl: "0 < ALIGN 16 (ucast (pe_cacheline m entry) :: u64)"
      "ALIGN 16 (ucast (pe_cacheline m entry) :: u64) < 2 ^ 33"
  shows "\<exists>r. qcom_smem_get_private m smem entry item want = Some r"
proof -
  let ?b = "ptable_entry_to_phdr m smem entry" and ?cl = "ucast (pe_cacheline m entry) :: u64"
  have 1: "\<exists>r. get_uncached_scan m item (byte_at ?b 32) (byte_at ?b (unat (ph_free_uncached m ?b))) = Some r"
    using b unat_u32[of "ph_free_uncached m ?b"] by (intro get_uncached_scan_terminates) auto
  have "2 ^ 34 \<le> byte_at ?b (unat (ph_free_cached m ?b))"
    using b unat_u32[of "ph_free_cached m ?b"] by (simp add: word_le_nat_alt unat_at)
  then have 2: "\<exists>r. get_cached_scan m item ?cl (phdr_to_first_cached_entry m ?b ?cl)
      (byte_at ?b (unat (ph_free_cached m ?b))) = Some r"
    by (rule get_cached_scan_terminates[OF cl])
  show ?thesis
    using 1 2 by (auto simp: qcom_smem_get_private_def Let_def phdr_to_first_uncached_entry_def
        phdr_to_last_uncached_entry_def phdr_to_last_cached_entry_def byte_at_ucast byte_at_numeral
        split: sum.splits option.splits)
qed

text \<open>With a cacheline of 0 an empty cached entry is its own successor.\<close>

lemma get_cached_scan_diverges:
  assumes e: "end_p < e" "pr_canary m e = 0xa5a5" "ucast (pr_item m e) \<noteq> item" "pr_size m e = 0"
  shows "get_cached_scan m item 0 e end_p = None"
proof (rule ccontr)
  assume "get_cached_scan m item 0 e end_p \<noteq> None"
  then obtain r where ret: "get_cached_scan m item 0 e end_p = Some r" by auto
  have "\<not> (0 = (0 :: u64) \<and> end_p < e \<and> pr_canary m e = 0xa5a5 \<and> ucast (pr_item m e) \<noteq> item \<and> pr_size m e = 0)"
  proof (rule get_cached_scan.raw_induct[where P = "\<lambda>m item cl e end_p r.
        \<not> (cl = 0 \<and> end_p < e \<and> pr_canary m e = 0xa5a5 \<and> ucast (pr_item m e) \<noteq> item \<and> pr_size m e = 0)",
        OF _ ret], rule notI)
    fix f m item cl e end_p r
    assume IH: "\<And>m item cl e end_p r. f m item cl e end_p = Some r \<Longrightarrow>
        \<not> (cl = 0 \<and> end_p < e \<and> pr_canary m e = 0xa5a5 \<and> ucast (pr_item m e) \<noteq> item \<and> pr_size m e = 0)"
      and eq: "(if end_p < e then if pr_canary m e \<noteq> 0xa5a5 then Some (Inl (Inl EINVAL))
          else if ucast (pr_item m e) = item then Some (Inl (Inr e))
          else f m item cl (cached_entry_next m e cl) end_p else Some (Inr e)) = Some r"
      and c: "cl = 0 \<and> end_p < e \<and> pr_canary m e = 0xa5a5 \<and> ucast (pr_item m e) \<noteq> item \<and> pr_size m e = 0"
    have "cached_entry_next m e 0 = e" using c by (simp add: cached_entry_next_def ALIGN_def)
    then show False using eq c IH[of m item 0 e end_p r] by auto
  qed
  then show False using e by simp
qed

section \<open>The global heap\<close>

lemma ucast_uminus_down:
  "LENGTH('b) \<le> LENGTH('a) \<Longrightarrow> (ucast (- (w :: 'a::len word)) :: 'b::len word) = - ucast w"
  by transfer (metis take_bit_minus take_bit_take_bit min.absorb1)

lemma sh_toc_at: "sh_toc h i = byte_at h (208 + 16 * unat i)"
  by (simp add: sh_toc_def byte_at_def ac_simps)

text \<open>
  \<open>heap_ok\<close>: the free area \<open>[free_offset, free_offset + available)\<close> lies within the main region.
\<close>

definition heap_ok :: "mem \<Rightarrow> qcom_smem \<Rightarrow> bool" where
  "heap_ok m smem \<longleftrightarrow>
     unat (sh_free_offset m (virt_base (region0 smem))) + unat (sh_available m (virt_base (region0 smem)))
       \<le> unat (rsize (region0 smem)) \<and> regions smem \<noteq> []"

lemma alloc_global_success:
  assumes item: "unat item < 512" and sz: "unat sz < 2 ^ 32 - 8"
    and ret: "qcom_smem_alloc_global m smem item sz = Inr m'"
  defines "h \<equiv> virt_base (region0 smem)" and "t \<equiv> 208 + 16 * unat item"
  shows "ge_allocated m (byte_at h t) = 0" "align8 (unat sz) \<le> unat (sh_available m h)"
    "ge_allocated m' (byte_at h t) = 1" "ge_offset m' (byte_at h t) = sh_free_offset m h"
    "unat (ge_size m' (byte_at h t)) = align8 (unat sz)"
    "ge_aux_base m' (byte_at h t) = ge_aux_base m (byte_at h t)"
    "sh_free_offset m' h = sh_free_offset m h + of_nat (align8 (unat sz))"
    "unat (sh_available m' h) = unat (sh_available m h) - align8 (unat sz)"
    "same_on m m' h 204 t" "same_on m m' h (t + 12) (2 ^ 64)" "same_on m m' h 0 196"
proof -
  note sz' = unat_alloc_size[OF sz]
  have sz32: "(ucast (ALIGN sz 8) :: u32) = of_nat (align8 (unat sz))"
    using sz' by (simp add: ucast_of_nat_unat)
  show 1: "ge_allocated m (byte_at h t) = 0" and 2: "align8 (unat sz) \<le> unat (sh_available m h)"
    using ret sz' by (auto simp: qcom_smem_alloc_global_def Let_def sh_toc_at h_def t_def
        word_less_nat_alt split: if_splits)
  define m1 where "m1 = store32 m (byte_at h (t + 4)) (sh_free_offset m h)"
  define m2 where "m2 = store32 m1 (byte_at h (t + 8)) (of_nat (align8 (unat sz)))"
  define m3 where "m3 = store32 m2 (byte_at h t) 1"
  define m4 where "m4 = store32 m3 (byte_at h 196) (sh_free_offset m3 h + of_nat (align8 (unat sz)))"
  have m': "m' = store32 m4 (byte_at h 200) (sh_available m4 h - of_nat (align8 (unat sz)))"
    using ret 1 2 sz' unfolding m4_def m3_def m2_def m1_def
    by (auto simp: qcom_smem_alloc_global_def Let_def sh_toc_at h_def t_def byte_at_numeral sz32 mem_simps
        ucast_uminus_down word_less_nat_alt split: if_splits)
  have t: "208 \<le> t" "t < 8400" using item by (auto simp: t_def)
  note defs = ge_allocated_def ge_offset_def ge_size_def ge_aux_base_def sh_free_offset_def
    sh_available_def byte_at_numeral m' m4_def m3_def m2_def m1_def
  show "ge_allocated m' (byte_at h t) = 1" "ge_offset m' (byte_at h t) = sh_free_offset m h"
    "ge_aux_base m' (byte_at h t) = ge_aux_base m (byte_at h t)"
    "sh_free_offset m' h = sh_free_offset m h + of_nat (align8 (unat sz))"
    "unat (ge_size m' (byte_at h t)) = align8 (unat sz)"
    using t sz' by (simp_all add: defs mem_simps frame_simps unat_of_nat)
  have "sh_available m' h = sh_available m h - of_nat (align8 (unat sz))"
    using t by (simp add: defs mem_simps frame_simps)
  then show "unat (sh_available m' h) = unat (sh_available m h) - align8 (unat sz)"
    using 2 sz' by (simp add: unat_sub word_le_nat_alt unat_of_nat)
  show "same_on m m' h 204 t" "same_on m m' h (t + 12) (2 ^ 64)" "same_on m m' h 0 196"
    unfolding m' m4_def m3_def m2_def m1_def using t
    by (intro same_on_trans[OF _ same_on_store32] same_on_refl; simp)+
qed

lemma alloc_global_then_get:
  assumes H: "heap_ok m smem" and item: "unat item < 512" and sz: "unat sz < 2 ^ 32 - 8"
    and aux: "ge_aux_base m (sh_toc (virt_base (region0 smem)) item) AND AUX_BASE_MASK = 0"
    and ret: "qcom_smem_alloc_global m smem item sz = Inr m'"
  shows "qcom_smem_get_global m' smem item =
      Inr (virt_base (region0 smem) + ucast (sh_free_offset m (virt_base (region0 smem))), of_nat (align8 (unat sz)))"
    and "heap_ok m' smem"
proof -
  note S = alloc_global_success[OF item sz ret, folded sh_toc_at]
  let ?h = "virt_base (region0 smem)" and ?n = "align8 (unat sz)"
  obtain rs where rs: "regions smem = region0 smem # rs"
    using H by (cases "regions smem") (auto simp: heap_ok_def region0_def)
  have free: "unat (sh_free_offset m ?h) + ?n \<le> unat (rsize (region0 smem))"
    using H S(2) by (simp add: heap_ok_def)
  have n: "?n < 2 ^ 32" using unat_alloc_size[OF sz] by simp
  have f32: "unat (sh_free_offset m ?h) < 2 ^ 32" by (rule unat_u32)
  have "unat ((ucast (ge_size m' (sh_toc ?h item)) :: u64) + ucast (ge_offset m' (sh_toc ?h item))) =
      ?n + unat (sh_free_offset m ?h)"
    using S f32 n by (simp add: unat_word_ariths)
  then have "\<not> rsize (region0 smem) < ucast (ge_size m' (sh_toc ?h item)) + ucast (ge_offset m' (sh_toc ?h item))"
    using free by (simp add: word_less_nat_alt)
  moreover have "(ucast (ge_size m' (sh_toc ?h item)) :: u64) = of_nat ?n"
    using S(5) by (metis ucast_of_nat_unat)
  ultimately show "qcom_smem_get_global m' smem item =
      Inr (?h + ucast (sh_free_offset m ?h), of_nat ?n)"
    using S aux rs by (simp add: qcom_smem_get_global_def Let_def)
  have "unat (sh_free_offset m' ?h) \<le> unat (sh_free_offset m ?h) + ?n"
    using S(7) n by (simp add: unat_word_ariths unat_of_nat)
  then show "heap_ok m' smem" using H S(2,8) unfolding heap_ok_def by linarith
qed


text \<open>A pointer the global lookup returns stays, with its size, inside one of the mapped regions.\<close>

lemma get_global_area_bounds:
  "get_global_area m entry aux rs = Inr (p, n) \<Longrightarrow>
    \<exists>area \<in> set rs. p = virt_base area + ucast (ge_offset m entry) \<and>
      unat (ge_offset m entry) + unat n \<le> unat (rsize area) \<and> (aux = 0 \<or> aux_base area = aux)"
proof (induction rs)
  case (Cons area rs)
  show ?case
  proof (cases "aux_base area = aux \<or> aux = 0")
    case True
    have "unat ((ucast (ge_size m entry) :: u64) + ucast (ge_offset m entry)) =
        unat (ge_size m entry) + unat (ge_offset m entry)"
      using unat_u32[of "ge_size m entry"] unat_u32[of "ge_offset m entry"]
      by (simp add: unat_word_ariths)
    then show ?thesis
      using Cons.prems True by (auto simp: Let_def not_less word_le_nat_alt split: if_splits)
  next
    case False
    then show ?thesis using Cons by auto
  qed
qed simp

section \<open>Partition discovery\<close>

text \<open>
  \<open>valid_partition m smem local h entry\<close>: the table entry names the hosts \<open>local\<close> and \<open>h\<close> and its
  partition header has passed every check of \<open>qcom_smem_partition_header\<close>.
\<close>

definition valid_partition :: "mem \<Rightarrow> qcom_smem \<Rightarrow> u16 \<Rightarrow> nat \<Rightarrow> ptr \<Rightarrow> bool" where
  "valid_partition m smem local_host h entry \<longleftrightarrow>
     (let phdr = ptable_entry_to_phdr m smem entry in
      (pe_host0 m entry = local_host \<and> unat (pe_host1 m entry) = h \<or>
       pe_host1 m entry = local_host \<and> unat (pe_host0 m entry) = h) \<and>
      ph_magic m phdr = SMEM_PART_MAGIC \<and> ph_host0 m phdr = pe_host0 m entry \<and>
      ph_host1 m phdr = pe_host1 m entry \<and> ph_size m phdr = pe_size m entry \<and>
      ph_free_uncached m phdr \<le> ph_size m phdr \<and> pe_size m entry \<noteq> 0 \<and> pe_offset m entry \<noteq> 0)"

definition partitions_valid :: "mem \<Rightarrow> qcom_smem \<Rightarrow> u16 \<Rightarrow> bool" where
  "partitions_valid m smem local_host \<longleftrightarrow>
     length (ptable_entries smem) = 14 \<and>
     (\<forall>h < 14. ptable_entries smem ! h \<noteq> 0 \<longrightarrow>
        valid_partition m smem local_host h (ptable_entries smem ! h))"

lemma ptable_entry_to_phdr_regions:
  "regions smem' = regions smem \<Longrightarrow> ptable_entry_to_phdr m smem' e = ptable_entry_to_phdr m smem e"
  by (simp add: ptable_entry_to_phdr_def region0_def)

lemma qcom_smem_partition_header_Some:
  "qcom_smem_partition_header m smem entry h0 h1 = Some p \<Longrightarrow>
    p = ptable_entry_to_phdr m smem entry \<and> ph_magic m p = SMEM_PART_MAGIC \<and> ph_host0 m p = h0 \<and>
    ph_host1 m p = h1 \<and> ph_size m p = pe_size m entry \<and> ph_free_uncached m p \<le> ph_size m p"
  by (auto simp: qcom_smem_partition_header_def Let_def ptable_entry_to_phdr_def split: if_splits)

lemma enumerate_entry_valid:
  assumes V: "partitions_valid m smem local_host" and ret: "enumerate_entry m local_host entry smem = Inr smem'"
  shows "partitions_valid m smem' local_host \<and> regions smem' = regions smem \<and>
    item_count smem' = item_count smem \<and> global_partition_entry smem' = global_partition_entry smem"
proof (cases "smem' = smem")
  case True
  then show ?thesis using V by simp
next
  case False
  define remote where "remote = (if pe_host0 m entry = local_host then pe_host1 m entry else pe_host0 m entry)"
  have upd: "smem' = smem\<lparr>ptable_entries := (ptable_entries smem)[unat remote := entry]\<rparr>"
    and small: "unat remote < 14"
    and ok: "pe_offset m entry \<noteq> 0" "pe_size m entry \<noteq> 0" "pe_host0 m entry = local_host \<or> pe_host1 m entry = local_host"
    and p: "\<exists>p. qcom_smem_partition_header m smem entry (pe_host0 m entry) (pe_host1 m entry) = Some p"
    using ret False
    by (auto simp: enumerate_entry_def Let_def remote_def word_le_nat_alt split: if_splits option.splits)
  have phdr: "ptable_entry_to_phdr m smem' e = ptable_entry_to_phdr m smem e" for e
    by (simp add: upd ptable_entry_to_phdr_def region0_def)
  have "valid_partition m smem' local_host (unat remote) entry"
    using ok p by (auto simp: valid_partition_def Let_def remote_def phdr dest!: qcom_smem_partition_header_Some)
  moreover have "valid_partition m smem' local_host h e = valid_partition m smem local_host h e" for h e
    by (simp add: valid_partition_def Let_def phdr)
  ultimately show ?thesis
    using V small by (auto simp: partitions_valid_def upd nth_list_update)
qed

lemma enumerate_entries_valid:
  assumes "partitions_valid m smem local_host" "enumerate_entries m local_host ptable n i smem = (ret, smem')"
  shows "partitions_valid m smem' local_host \<and> regions smem' = regions smem \<and>
    item_count smem' = item_count smem \<and> global_partition_entry smem' = global_partition_entry smem"
  using assms
  by (induction n arbitrary: i smem) (force split: sum.splits dest: enumerate_entry_valid)+

text \<open>What a successful probe establishes.\<close>

lemma set_global_partition_Inr:
  assumes "qcom_smem_set_global_partition m smem = Inr smem'"
  shows "\<exists>entry. smem' = smem\<lparr>global_partition_entry := entry\<rparr> \<and>
    qcom_smem_partition_header m smem entry 0xfffe 0xfffe = Some (ptable_entry_to_phdr m smem entry)"
  using assms
  by (auto simp: qcom_smem_set_global_partition_def split: if_splits sum.splits option.splits
      dest: qcom_smem_partition_header_Some)

lemma probe_regions_nonempty: "probe_regions pf = Inr rs \<Longrightarrow> rs \<noteq> [] \<and> (\<forall>r \<in> set rs. virt_base r \<noteq> 0)"
  by (auto simp: probe_regions_def qcom_smem_map_memory_def Let_def
      split: sum.splits option.splits prod.splits if_splits)

lemma partition_header_regions:
  "regions smem' = regions smem \<Longrightarrow>
    qcom_smem_partition_header m smem' e h0 h1 = qcom_smem_partition_header m smem e h0 h1"
  by (simp add: qcom_smem_partition_header_def region0_def)

lemma probe_version_Inr:
  assumes "probe_version m (probe_init rs) = Inr smem"
  shows "regions smem = rs \<and> ptable_entries smem = replicate 14 0 \<and>
    (global_partition_entry smem \<noteq> 0 \<longrightarrow>
       qcom_smem_partition_header m smem (global_partition_entry smem) 0xfffe 0xfffe =
         Some (ptable_entry_to_phdr m smem (global_partition_entry smem)))"
proof -
  consider (part) s where "qcom_smem_set_global_partition m (probe_init rs) = Inr s"
      "smem = s\<lparr>item_count := qcom_smem_get_item_count m s\<rparr>"
    | (heap) "smem = (probe_init rs)\<lparr>item_count := 512\<rparr>"
    using assms by (auto simp: probe_version_def Let_def map_result_Inr split: if_splits)
  then show ?thesis
  proof cases
    case part
    from set_global_partition_Inr[OF part(1)] obtain entry where
      "s = (probe_init rs)\<lparr>global_partition_entry := entry\<rparr>"
      "qcom_smem_partition_header m (probe_init rs) entry 0xfffe 0xfffe =
        Some (ptable_entry_to_phdr m (probe_init rs) entry)" by blast
    moreover from this part(2) have "regions smem = regions (probe_init rs)"
      "global_partition_entry smem = entry" "ptable_entries smem = ptable_entries (probe_init rs)"
      by simp_all
    ultimately show ?thesis
      by (simp add: partition_header_regions[of smem "probe_init rs"]
          ptable_entry_to_phdr_regions[of smem "probe_init rs"]) (simp add: probe_init_def)
  next
    case heap
    then show ?thesis by (simp add: probe_init_def)
  qed
qed

lemma enumerate_partitions_valid:
  assumes "partitions_valid m smem local_host"
    "qcom_smem_enumerate_partitions m smem local_host = (ret, smem')"
  shows "partitions_valid m smem' local_host \<and> regions smem' = regions smem \<and>
    global_partition_entry smem' = global_partition_entry smem"
proof (cases "qcom_smem_get_ptable m smem")
  case (Inl e)
  with assms show ?thesis by (simp add: qcom_smem_enumerate_partitions_def)
next
  case (Inr ptable)
  with assms(2) have
    "enumerate_entries m local_host ptable (unat (pt_num_entries m ptable)) 0 smem = (ret, smem')"
    by (simp add: qcom_smem_enumerate_partitions_def)
  from enumerate_entries_valid[OF assms(1) this] show ?thesis by simp
qed

end
