(* ===== verification/Smem_Heap.thy ===== *)
theory Smem_Heap
  imports Smem
begin

text \<open>
  SMEM as its clients see it, through \<open>qcom_smem_alloc\<close> and \<open>qcom_smem_get\<close> of
  \<open>drivers/soc/qcom/smem.c\<close>. The locale \<open>item_heap\<close> is the interface: laws of one allocation, and
  lemmas on sequences of allocations proved from them once. Both implementations behind the two calls,
  a host's partition and the global heap, are interpretations of it. Then come the bounds of what a
  lookup returns on arbitrary memory contents, an example memory, and the properties of the heap.
\<close>

section \<open>The interface of an allocate-only heap\<close>

text \<open>
  What the drivers on top of SMEM rely on. An item is allocated once and never freed; \<open>granted\<close> is the
  size a lookup reports for an accepted request. Both the partitions and the global heap provide it
  behind \<open>qcom_smem_alloc\<close> and \<open>qcom_smem_get\<close>.
\<close>

fun alloc_all :: "('s \<Rightarrow> 'k \<Rightarrow> 'n \<Rightarrow> 's result option) \<Rightarrow> 's \<Rightarrow> ('k \<times> 'n) list \<Rightarrow> 's result option" where
  "alloc_all alloc s [] = Some (Inr s)"
| "alloc_all alloc s ((k, n) # rs) =
     (case alloc s k n of Some (Inr s') \<Rightarrow> alloc_all alloc s' rs | r \<Rightarrow> r)"

locale item_heap =
  fixes inv :: "'s \<Rightarrow> bool"
    and alloc :: "'s \<Rightarrow> 'k \<Rightarrow> 'n \<Rightarrow> 's result option"
    and get :: "'s \<Rightarrow> 'k \<Rightarrow> ('p \<times> 'n option) result option"
    and valid :: "'n \<Rightarrow> bool"
    and granted :: "'n \<Rightarrow> 'n"
    and taken :: "'s \<Rightarrow> 'k \<Rightarrow> bool"
  assumes alloc_total: "inv s \<Longrightarrow> valid n \<Longrightarrow> \<exists>r. alloc s k n = Some r"
    and alloc_inv: "inv s \<Longrightarrow> valid n \<Longrightarrow> alloc s k n = Some (Inr s') \<Longrightarrow> inv s'"
    and alloc_get: "inv s \<Longrightarrow> valid n \<Longrightarrow> alloc s k n = Some (Inr s') \<Longrightarrow>
      \<exists>p. get s' k = Some (Inr (p, Some (granted n)))"
    and alloc_other: "inv s \<Longrightarrow> valid n \<Longrightarrow> alloc s k n = Some (Inr s') \<Longrightarrow> k' \<noteq> k \<Longrightarrow>
      get s' k' = get s k'"
    and alloc_taken: "inv s \<Longrightarrow> valid n \<Longrightarrow> alloc s k n = Some (Inr s') \<Longrightarrow>
      taken s' k' \<longleftrightarrow> k' = k \<or> taken s k'"
    and taken_refused: "inv s \<Longrightarrow> valid n \<Longrightarrow> taken s k \<Longrightarrow> \<exists>e. alloc s k n = Some (Inl e)"
begin

lemma alloc_all_total:
  "inv s \<Longrightarrow> \<forall>(k, n) \<in> set rs. valid n \<Longrightarrow> \<exists>r. alloc_all alloc s rs = Some r"
proof (induction rs arbitrary: s)
  case (Cons r rs)
  obtain k n where r: "r = (k, n)" by force
  obtain res where "alloc s k n = Some res" using Cons.prems alloc_total[of s n k] r by auto
  then show ?case using Cons r alloc_inv[of s n k] by (cases res) auto
qed simp

lemma alloc_all_frame:
  "inv s \<Longrightarrow> \<forall>(k, n) \<in> set rs. valid n \<Longrightarrow> alloc_all alloc s rs = Some (Inr s') \<Longrightarrow>
    inv s' \<and> (\<forall>k. k \<notin> fst ` set rs \<longrightarrow> get s' k = get s k) \<and>
    distinct (map fst rs) \<and> (\<forall>k \<in> fst ` set rs. \<not> taken s k)"
proof (induction rs arbitrary: s)
  case (Cons r rs)
  obtain k n where r: "r = (k, n)" by force
  with Cons.prems obtain s1 where s1: "alloc s k n = Some (Inr s1)" "alloc_all alloc s1 rs = Some (Inr s')"
    by (auto split: option.splits sum.splits)
  have v: "valid n" "\<forall>(k, n) \<in> set rs. valid n" using Cons.prems(2) r by auto
  note IH = Cons.IH[OF alloc_inv[OF Cons.prems(1) v(1) s1(1)] v(2) s1(2)]
  have "\<not> taken s k" using taken_refused[OF Cons.prems(1) v(1), of k] s1(1) by auto
  then show ?case
    using IH r alloc_other[OF Cons.prems(1) v(1) s1(1)] alloc_taken[OF Cons.prems(1) v(1) s1(1)]
    by (auto simp: image_iff)
qed simp

lemma alloc_all_get:
  "inv s \<Longrightarrow> \<forall>(k, n) \<in> set rs. valid n \<Longrightarrow> alloc_all alloc s rs = Some (Inr s') \<Longrightarrow>
    (k, n) \<in> set rs \<Longrightarrow> \<exists>p. get s' k = Some (Inr (p, Some (granted n)))"
proof (induction rs arbitrary: s)
  case (Cons r rs)
  obtain k0 n0 where r: "r = (k0, n0)" by force
  with Cons.prems obtain s1 where s1: "alloc s k0 n0 = Some (Inr s1)" "alloc_all alloc s1 rs = Some (Inr s')"
    by (auto split: option.splits sum.splits)
  have v: "valid n0" "\<forall>(k, n) \<in> set rs. valid n" using Cons.prems(2) r by auto
  note i1 = alloc_inv[OF Cons.prems(1) v(1) s1(1)]
  show ?case
  proof (cases "(k, n) \<in> set rs")
    case True
    then show ?thesis using Cons.IH[OF i1 v(2) s1(2)] by blast
  next
    case False
    with Cons.prems(4) r have kn: "k = k0" "n = n0" by auto
    have "distinct (map fst (r # rs))" using alloc_all_frame[OF Cons.prems(1-3)] by blast
    then have "get s' k = get s1 k" using alloc_all_frame[OF i1 v(2) s1(2)] kn r by auto
    then show ?thesis using alloc_get[OF Cons.prems(1) v(1) s1(1)] kn by simp
  qed
qed simp

lemma alloc_all_taken:
  "inv s \<Longrightarrow> \<forall>(k, n) \<in> set rs. valid n \<Longrightarrow> alloc_all alloc s rs = Some (Inr s') \<Longrightarrow>
    k \<in> fst ` set rs \<or> taken s k \<Longrightarrow> taken s' k"
proof (induction rs arbitrary: s)
  case (Cons r rs)
  obtain k0 n0 where r: "r = (k0, n0)" by force
  with Cons.prems obtain s1 where s1: "alloc s k0 n0 = Some (Inr s1)" "alloc_all alloc s1 rs = Some (Inr s')"
    by (auto split: option.splits sum.splits)
  have v: "valid n0" "\<forall>(k, n) \<in> set rs. valid n" using Cons.prems(2) r by auto
  show ?case
    using Cons.IH[OF alloc_inv[OF Cons.prems(1) v(1) s1(1)] v(2) s1(2)] Cons.prems(4) r
      alloc_taken[OF Cons.prems(1) v(1) s1(1)] by auto
qed simp

end

section \<open>The partitions provide the interface\<close>

definition part_inv :: "qcom_smem \<Rightarrow> u32 \<Rightarrow> ptr \<Rightarrow> mem \<Rightarrow> bool" where
  "part_inv smem host entry m \<longleftrightarrow>
     select_partition smem host = Some entry \<and> unat (item_count smem) \<le> 2 ^ 16 \<and>
     12 \<le> unat (ptable_entry_to_phdr m smem entry) \<and> (\<exists>its. partition_ok m smem entry its)"

definition part_taken :: "qcom_smem \<Rightarrow> ptr \<Rightarrow> mem \<Rightarrow> u32 \<Rightarrow> bool" where
  "part_taken smem entry m item \<longleftrightarrow>
     (\<exists>its. partition_ok m smem entry its \<and> item \<in> (\<lambda>it. ucast (it_item it)) ` set its)"

definition valid_size :: "u64 \<Rightarrow> bool" where
  "valid_size sz \<longleftrightarrow> 0 < sz \<and> unat sz < 2 ^ 32 - 8"

lemma smem_alloc_part:
  assumes "select_partition smem host = Some entry"
  shows "qcom_smem_alloc m (Some smem) None host item sz =
    (if item < 8 \<or> item \<ge> item_count smem then Some (Inl EINVAL)
     else qcom_smem_alloc_private m smem entry item sz)"
  using assms by (simp add: qcom_smem_alloc_def)

lemma smem_get_part:
  assumes "select_partition smem host = Some entry"
  shows "qcom_smem_get m (Some smem) None host item want =
    (if item \<ge> item_count smem then Some (Inl EINVAL)
     else qcom_smem_get_private m smem entry item want)"
  using assms by (simp add: qcom_smem_get_def)

lemma chain_unique:
  "chain m b k its e \<Longrightarrow> chain m b k its' e \<Longrightarrow> its = its'"
proof (induction its arbitrary: k its')
  case Nil
  then show ?case using chain_end[OF Nil(2)] it_len_ge[of "hd its'"] by (cases its') auto
next
  case (Cons it its)
  then obtain it' its'' where i: "its' = it' # its''"
    using chain_end[OF Cons(2)] it_len_ge[of it] by (cases its') auto
  then have "it = it'" using Cons.prems by (auto simp: entry_at_def)
  then show ?case using Cons i by auto
qed

lemma partition_ok_unique:
  "partition_ok m smem entry its \<Longrightarrow> partition_ok m smem entry its' \<Longrightarrow> its = its'"
  using chain_unique by (auto simp: partition_ok_def Let_def)

lemma part_alloc_cases:
  assumes I: "part_inv smem host entry m" and v: "valid_size sz"
    and ret: "qcom_smem_alloc m (Some smem) None host item sz = Some (Inr m')"
  obtains its where "partition_ok m smem entry its" "partition_ok m' smem entry (its @ [new_item item sz])"
    "ptable_entry_to_phdr m' smem entry = ptable_entry_to_phdr m smem entry"
    "qcom_smem_alloc_private m smem entry item sz = Some (Inr m')"
    "item < item_count smem" "item < 2 ^ 16" "unat sz < 2 ^ 32 - 8" "0 < sz"
    "select_partition smem host = Some entry" "(ucast (ucast item :: u16) :: u32) = item"
proof -
  from I obtain its where sel: "select_partition smem host = Some entry"
    and P: "partition_ok m smem entry its" and cnt: "unat (item_count smem) \<le> 2 ^ 16"
    by (auto simp: part_inv_def)
  have sz: "unat sz < 2 ^ 32 - 8" "0 < sz" using v by (auto simp: valid_size_def)
  have ret': "qcom_smem_alloc_private m smem entry item sz = Some (Inr m')" and item: "item < item_count smem"
    using ret by (auto simp: smem_alloc_part[OF sel] split: if_splits)
  have "spec_alloc (cached_limit m smem entry) its item sz = Inr (its @ [new_item item sz])"
    using alloc_private_success[OF P sz(1) ret'] by (auto simp: spec_alloc_def)
  then have P': "partition_ok m' smem entry (its @ [new_item item sz])"
    and b': "ptable_entry_to_phdr m' smem entry = ptable_entry_to_phdr m smem entry"
    using alloc_private_refines[OF P sz(1), of item] ret' by auto
  have "item < 2 ^ 16" using item cnt by (simp add: word_less_nat_alt)
  moreover from this have "(ucast (ucast item :: u16) :: u32) = item"
    by (simp add: word_less_nat_alt word_unat_eq_iff unat_ucast_down)
  ultimately show thesis using P P' b' ret' item sz sel by (intro that)
qed

interpretation part: item_heap "part_inv smem host entry"
  "\<lambda>m. qcom_smem_alloc m (Some smem) None host"
  "\<lambda>m item. qcom_smem_get m (Some smem) None host item True"
  valid_size "\<lambda>sz. sz" "part_taken smem entry" for smem host entry
proof (unfold_locales, goal_cases)
  case (1 m sz item)
  then obtain its where sel: "select_partition smem host = Some entry" and P: "partition_ok m smem entry its"
    by (auto simp: part_inv_def)
  have "unat sz < 2 ^ 32 - 8" using 1 by (simp add: valid_size_def)
  from alloc_private_eq[OF P this] show ?case by (simp add: smem_alloc_part[OF sel])
next
  case (2 m sz item m')
  from part_alloc_cases[OF this] 2(1) show ?case by (metis part_inv_def)
next
  case (3 m sz item m')
  from part_alloc_cases[OF this] obtain its where its: "partition_ok m smem entry its"
    "qcom_smem_alloc_private m smem entry item sz = Some (Inr m')" "item < item_count smem"
    "item < 2 ^ 16" "unat sz < 2 ^ 32 - 8" "0 < sz" "select_partition smem host = Some entry" by metis
  from alloc_then_get[OF its(1,5,6,4,2)] its(3) show ?case
    by (simp add: smem_get_part[OF its(7)])
next
  case (4 m sz item m' other)
  have b: "12 \<le> unat (ptable_entry_to_phdr m smem entry)" using 4(1) by (simp add: part_inv_def)
  from part_alloc_cases[OF 4(1-3)] obtain its where its: "partition_ok m smem entry its"
    "qcom_smem_alloc_private m smem entry item sz = Some (Inr m')" "item < 2 ^ 16"
    "unat sz < 2 ^ 32 - 8" "select_partition smem host = Some entry" by metis
  from alloc_preserves_other[OF its(1,4) b its(3) 4(4) its(2)] show ?case
    by (simp add: smem_get_part[OF its(5)])
next
  case (5 m sz item m' other)
  from part_alloc_cases[OF this] obtain its where its: "partition_ok m smem entry its"
    "partition_ok m' smem entry (its @ [new_item item sz])" "(ucast (ucast item :: u16) :: u32) = item" by metis
  then have "part_taken smem entry m' other \<longleftrightarrow> other \<in> (\<lambda>it. ucast (it_item it)) ` set (its @ [new_item item sz])"
    "part_taken smem entry m other \<longleftrightarrow> other \<in> (\<lambda>it. ucast (it_item it)) ` set its"
    unfolding part_taken_def using partition_ok_unique by blast+
  then show ?case using its(3) by (auto simp: new_item_def)
next
  case (6 m sz item)
  then obtain its where sel: "select_partition smem host = Some entry" and P: "partition_ok m smem entry its"
    and item: "item \<in> (\<lambda>it. ucast (it_item it)) ` set its"
    unfolding part_inv_def part_taken_def by blast
  have "unat sz < 2 ^ 32 - 8" using 6 by (simp add: valid_size_def)
  from alloc_private_refines[OF P this, of item] item show ?case
    by (simp add: smem_alloc_part[OF sel] spec_alloc_def)
qed

section \<open>The global heap provides the interface\<close>

text \<open>The granted size is the request rounded up to 8.\<close>

definition granted_size :: "u64 \<Rightarrow> u64" where
  "granted_size sz = of_nat (align8 (unat sz))"

definition global_inv :: "qcom_smem \<Rightarrow> u32 \<Rightarrow> mem \<Rightarrow> bool" where
  "global_inv smem host m \<longleftrightarrow>
     select_partition smem host = None \<and> item_count smem \<le> 512 \<and> heap_ok m smem \<and>
     (\<forall>i < 512. ge_allocated m (sh_toc (virt_base (region0 smem)) i) = 0 \<longrightarrow>
        ge_aux_base m (sh_toc (virt_base (region0 smem)) i) AND AUX_BASE_MASK = 0)"

definition global_taken :: "qcom_smem \<Rightarrow> mem \<Rightarrow> u32 \<Rightarrow> bool" where
  "global_taken smem m item \<longleftrightarrow>
     item < 512 \<and> ge_allocated m (sh_toc (virt_base (region0 smem)) item) \<noteq> 0"

lemma global_entry_same:
  assumes item: "unat item < 512" "unat other < 512" "other \<noteq> item" and sz: "unat sz < 2 ^ 32 - 8"
    and ret: "qcom_smem_alloc_global m smem item sz = Inr m'"
  defines "e \<equiv> sh_toc (virt_base (region0 smem)) other"
  shows "ge_allocated m' e = ge_allocated m e" "ge_offset m' e = ge_offset m e"
    "ge_size m' e = ge_size m e" "ge_aux_base m' e = ge_aux_base m e"
proof -
  let ?h = "virt_base (region0 smem)"
  note S = alloc_global_success[OF item(1) sz ret]
  have "same_on m m' ?h (208 + 16 * unat other) (208 + 16 * unat other + 16)"
  proof (cases "unat other < unat item")
    case True
    then show ?thesis by (intro same_on_mono[OF S(9)]) auto
  next
    case False
    then have "unat item < unat other" using item(3) by (metis linorder_neqE_nat word_unat_eq_iff)
    then show ?thesis using item(2) by (intro same_on_mono[OF S(10)]) auto
  qed
  then show "ge_allocated m' e = ge_allocated m e" "ge_offset m' e = ge_offset m e"
    "ge_size m' e = ge_size m e" "ge_aux_base m' e = ge_aux_base m e"
    using item(2) unfolding ge_allocated_def ge_offset_def ge_size_def ge_aux_base_def e_def sh_toc_at
    by (simp_all add: mem_simps load32_same)
qed

lemma get_global_area_same:
  "ge_offset m' e = ge_offset m e \<Longrightarrow> ge_size m' e = ge_size m e \<Longrightarrow>
    get_global_area m' e aux rs = get_global_area m e aux rs"
  by (induction rs) (auto simp: Let_def)

lemma smem_alloc_global:
  assumes "select_partition smem host = None"
  shows "qcom_smem_alloc m (Some smem) None host item sz =
    (if item < 8 \<or> item \<ge> item_count smem then Some (Inl EINVAL)
     else Some (qcom_smem_alloc_global m smem item sz))"
  using assms by (simp add: qcom_smem_alloc_def)

lemma smem_get_global:
  assumes "select_partition smem host = None"
  shows "qcom_smem_get m (Some smem) None host item True =
    (if item \<ge> item_count smem then Some (Inl EINVAL)
     else Some (map_sum id (\<lambda>(p, sz). (p, Some sz)) (qcom_smem_get_global m smem item)))"
  using assms by (simp add: qcom_smem_get_def)

lemma global_alloc_cases:
  assumes I: "global_inv smem host m" and v: "valid_size sz"
    and ret: "qcom_smem_alloc m (Some smem) None host item sz = Some (Inr m')"
  shows "qcom_smem_alloc_global m smem item sz = Inr m'" "item < item_count smem" "unat item < 512"
    "unat sz < 2 ^ 32 - 8" "select_partition smem host = None" "heap_ok m smem" "item_count smem \<le> 512"
    "ge_allocated m (sh_toc (virt_base (region0 smem)) item) = 0"
    "ge_aux_base m (sh_toc (virt_base (region0 smem)) item) AND AUX_BASE_MASK = 0"
proof -
  show sel: "select_partition smem host = None" and H: "heap_ok m smem" and cnt: "item_count smem \<le> 512"
    using I by (auto simp: global_inv_def)
  show sz: "unat sz < 2 ^ 32 - 8" using v by (simp add: valid_size_def)
  show ret': "qcom_smem_alloc_global m smem item sz = Inr m'" and i: "item < item_count smem"
    using ret by (auto simp: smem_alloc_global[OF sel] split: if_splits)
  then have "item < 512" using cnt by (simp add: less_le_trans)
  then show i': "unat item < 512" by (simp add: word_less_nat_alt)
  show a: "ge_allocated m (sh_toc (virt_base (region0 smem)) item) = 0"
    using alloc_global_success(1)[OF i' sz ret'] by (simp add: sh_toc_at)
  show "ge_aux_base m (sh_toc (virt_base (region0 smem)) item) AND AUX_BASE_MASK = 0"
    using I a \<open>item < 512\<close> unfolding global_inv_def by blast
qed

interpretation global: item_heap "global_inv smem host"
  "\<lambda>m. qcom_smem_alloc m (Some smem) None host"
  "\<lambda>m item. qcom_smem_get m (Some smem) None host item True"
  valid_size granted_size "global_taken smem" for smem host
proof (unfold_locales, goal_cases)
  case (1 m sz item)
  then have sel: "select_partition smem host = None" by (simp add: global_inv_def)
  show ?case by (simp add: smem_alloc_global[OF sel])
next
  case (2 m sz item m')
  note C = global_alloc_cases[OF this]
  have "ge_aux_base m' (sh_toc (virt_base (region0 smem)) i) AND AUX_BASE_MASK = 0"
    if i: "i < 512" "ge_allocated m' (sh_toc (virt_base (region0 smem)) i) = 0" for i
  proof (cases "i = item")
    case True
    then show ?thesis using i alloc_global_success(3)[OF C(3,4,1)] by (simp add: sh_toc_at)
  next
    case False
    have "unat i < 512" using i by (simp add: word_less_nat_alt)
    note E = global_entry_same[OF C(3) this False C(4,1)]
    show ?thesis using i 2(1) unfolding E(1,4) global_inv_def by blast
  qed
  then show ?case
    using alloc_global_then_get(2)[OF C(6,3,4,9,1)] C(5,7) by (simp add: global_inv_def)
next
  case (3 m sz item m')
  note C = global_alloc_cases[OF this]
  show ?case
    using alloc_global_then_get(1)[OF C(6,3,4,9,1)] C(2)
    by (simp add: smem_get_global[OF C(5)] granted_size_def)
next
  case (4 m sz item m' other)
  note C = global_alloc_cases[OF 4(1-3)]
  show ?case
  proof (cases "other < item_count smem")
    case True
    then have "unat other < 512" using C(7) by (simp add: word_less_nat_alt word_le_nat_alt)
    note E = global_entry_same[OF C(3) this 4(4) C(4,1)]
    show ?thesis
      by (simp add: smem_get_global[OF C(5)] qcom_smem_get_global_def Let_def E
          get_global_area_same[of m' _ m])
  qed (simp add: smem_get_global[OF C(5)] not_less)
next
  case (5 m sz item m' other)
  note C = global_alloc_cases[OF this]
  show ?case
  proof (cases "other = item")
    case True
    then show ?thesis using alloc_global_success(3)[OF C(3,4,1)] C(3)
      by (simp add: global_taken_def sh_toc_at word_less_nat_alt)
  next
    case False
    then show ?thesis using global_entry_same(1)[OF C(3) _ False C(4,1)]
      by (auto simp: global_taken_def word_less_nat_alt)
  qed
next
  case (6 m sz item)
  then have sel: "select_partition smem host = None" by (simp add: global_inv_def)
  show ?case using 6(3) by (simp add: smem_alloc_global[OF sel] qcom_smem_alloc_global_def global_taken_def Let_def)
qed

section \<open>Where the items lie\<close>

lemma get_uncached_scan_entry:
  assumes "unat b + 2 ^ 34 \<le> 2 ^ 64" "k < 2 ^ 33 + 2 ^ 32" "e < 2 ^ 32"
    "get_uncached_scan m item (byte_at b k) (byte_at b e) = Some (Inl (Inr p))"
  shows "\<exists>j. k \<le> j \<and> j < e \<and> p = byte_at b j"
  using assms
proof (induction "e - k" arbitrary: k rule: less_induct)
  case less
  have lt: "k < e" using less.prems
    by (subst (asm) get_uncached_scan.simps) (auto simp: at_less_iff split: if_splits)
  show ?case
  proof (cases "ucast (pr_item m (byte_at b k)) = item")
    case True
    then show ?thesis using less.prems lt
      by (subst (asm) get_uncached_scan.simps) (auto split: if_splits)
  next
    case False
    obtain d where d: "16 \<le> d" "d < 2 ^ 33" "uncached_entry_next m (byte_at b k) = byte_at b (k + d)"
      using uncached_entry_next_advances by blast
    have "get_uncached_scan m item (byte_at b (k + d)) (byte_at b e) = Some (Inl (Inr p))"
      using less.prems False lt
      by (subst (asm) get_uncached_scan.simps) (auto simp: d at_less_iff split: if_splits)
    moreover have "e - (k + d) < e - k" "k + d < 2 ^ 33 + 2 ^ 32" using lt d less.prems(3) by auto
    ultimately obtain j where "k + d \<le> j" "j < e" "p = byte_at b j"
      using less.prems(1,3) less.hyps[of "k + d"] by blast
    then show ?thesis by (intro exI[of _ j]) simp
  qed
qed

lemma cached_entry_next_below:
  assumes "2 ^ 34 \<le> e" "ALIGN 16 cl < 2 ^ 33"
  shows "unat (cached_entry_next m e cl) = unat e - unat (pr_size m e) - unat (ALIGN 16 cl)"
    "unat (cached_entry_to_item m e) = unat e - unat (pr_size m e)"
proof -
  have s: "unat (ucast (pr_size m e) :: u64) = unat (pr_size m e)" "unat (pr_size m e) < 2 ^ 32"
    using unat_u32[of "pr_size m e"] by simp_all
  show 1: "unat (cached_entry_to_item m e) = unat e - unat (pr_size m e)"
    using s assms by (simp add: cached_entry_to_item_def unat_sub word_le_nat_alt)
  then show "unat (cached_entry_next m e cl) = unat e - unat (pr_size m e) - unat (ALIGN 16 cl)"
    using s assms by (simp add: cached_entry_to_item_def cached_entry_next_def unat_sub word_le_nat_alt
        word_less_nat_alt)
qed

lemma get_cached_scan_bounds:
  assumes "ALIGN 16 cl < 2 ^ 33" "2 ^ 34 \<le> end_p" and ret: "get_cached_scan m item cl e end_p = Some (Inl (Inr p))"
  shows "end_p < p \<and> p \<le> e"
proof -
  let ?P = "\<lambda>m item (cl :: u64) e end_p (r :: ptr result + ptr).
    ALIGN 16 cl < 2 ^ 33 \<longrightarrow> 2 ^ 34 \<le> end_p \<longrightarrow> (\<forall>x. r = Inl (Inr x) \<longrightarrow> x \<le> e)"
  have "?P m item cl e end_p (Inl (Inr p))"
  proof (rule get_cached_scan.raw_induct[where P = ?P, OF _ ret], intro allI impI)
    fix f m item cl e end_p r x
    assume IH: "\<And>m item cl e end_p r. f m item cl e end_p = Some r \<Longrightarrow> ?P m item cl e end_p r"
      and eq: "(if end_p < e then if pr_canary m e \<noteq> 0xa5a5 then Some (Inl (Inl EINVAL))
          else if ucast (pr_item m e) = item then Some (Inl (Inr e))
          else f m item cl (cached_entry_next m e cl) end_p else Some (Inr e)) = Some r"
      and r: "ALIGN 16 cl < 2 ^ 33" "2 ^ 34 \<le> end_p" "r = Inl (Inr x)"
    have "cached_entry_next m e cl \<le> e" if "end_p < e"
    proof -
      have "2 ^ 34 \<le> e" using that r(2) by simp
      from cached_entry_next_below(1)[OF this r(1), of m] show ?thesis by (simp add: word_le_nat_alt)
    qed
    then show "x \<le> e" using eq r IH by (fastforce split: if_splits)
  qed
  then show ?thesis using assms get_cached_scan_entry[OF ret] by simp
qed

lemma cacheline_stride: "ALIGN 16 (ucast (c :: u32) :: u64) < 2 ^ 33"
proof (cases "c = 0")
  case False
  have c: "unat c < 2 ^ 32" by (rule unat_u32)
  have "0 < unat c" using False by (simp add: unat_gt_0)
  then have "unat (ucast c - 1 :: u64) = unat c - 1" by (simp add: unat_sub word_le_nat_alt)
  then have "unat (16 + (ucast c - 1) :: u64) < 2 ^ 33" using c by (simp add: unat_word_ariths)
  moreover have "ALIGN 16 (ucast c :: u64) \<le> 16 + (ucast c - 1)" unfolding ALIGN_def by (rule word_and_le2)
  ultimately show ?thesis by (simp add: word_le_nat_alt word_less_nat_alt)
qed (simp add: ALIGN_def)

lemma found_item_Inr:
  "found_item m want n e q bad = Inr (p, k) \<Longrightarrow>
    \<not> bad \<and> p = q \<and> (if want then \<exists>k'. entry_item_size m e n = Inr k' \<and> k = Some k' else k = None)"
  by (auto simp: found_item_def split: sum.splits if_splits) (auto simp: map_result_Inr)

lemma entry_item_size_Inr:
  assumes "entry_item_size m e n = Inr k"
  shows "0 < unat k \<and> unat k \<le> unat (pr_size m e) \<and> unat (pr_size m e) < unat n"
proof -
  have lt: "pr_size m e < n" "(ucast (pr_padding_data m e) :: u32) < pr_size m e"
    and k: "k = ucast (pr_size m e - ucast (pr_padding_data m e))"
    using assms by (auto simp: entry_item_size_def Let_def split: if_splits)
  then have "unat k = unat (pr_size m e) - unat (pr_padding_data m e)"
    by (simp add: unat_sub order_less_imp_le)
  then show ?thesis using lt by (simp add: word_less_nat_alt)
qed

lemma get_private_bounds:
  assumes b: "2 ^ 34 \<le> unat (ptable_entry_to_phdr m smem entry)"
      "unat (ptable_entry_to_phdr m smem entry) + 2 ^ 34 \<le> 2 ^ 64"
    and hdr: "ph_size m (ptable_entry_to_phdr m smem entry) = pe_size m entry"
    and ret: "qcom_smem_get_private m smem entry item True = Some (Inr (p, Some n))"
  defines "ph \<equiv> ptable_entry_to_phdr m smem entry"
  shows "unat ph \<le> unat p \<and> unat p \<le> unat ph + unat (pe_size m entry) \<and>
    0 < unat n \<and> unat n < unat (pe_size m entry)"
proof -
  let ?cl = "ucast (pe_cacheline m entry) :: u64"
  let ?stop = "ph + ucast (pe_size m entry)"
  have pe: "unat ?stop = unat ph + unat (pe_size m entry)"
    using b unat_u32[of "pe_size m entry"] unfolding ph_def[symmetric] byte_at_ucast
    by (simp add: unat_at)
  consider (unc) e where "get_uncached_scan m item (phdr_to_first_uncached_entry ph) (phdr_to_last_uncached_entry m ph) = Some (Inl (Inr e))"
      "found_item m True (pe_size m entry) e (uncached_entry_to_item m e) (uncached_entry_to_item m e > ?stop) = Inr (p, Some n)"
    | (cac) e where "get_cached_scan m item ?cl (phdr_to_first_cached_entry m ph ?cl) (phdr_to_last_cached_entry m ph) = Some (Inl (Inr e))"
      "found_item m True (pe_size m entry) e (cached_entry_to_item m e) (cached_entry_to_item m e < ph) = Inr (p, Some n)"
    using ret unfolding qcom_smem_get_private_def Let_def ph_def[symmetric]
    by (auto split: if_splits option.splits sum.splits)
  then show ?thesis
  proof cases
    case unc
    have "\<exists>j. 32 \<le> j \<and> j < unat (ph_free_uncached m ph) \<and> e = byte_at ph j"
      using unc(1) b unat_u32[of "ph_free_uncached m ph"]
      by (intro get_uncached_scan_entry[where m = m and item = item])
        (simp_all add: ph_def[symmetric] phdr_to_first_uncached_entry_def phdr_to_last_uncached_entry_def byte_at_ucast byte_at_numeral)
    then obtain j where j: "32 \<le> j" "j < unat (ph_free_uncached m ph)" "e = byte_at ph j" by blast
    have "uncached_entry_to_item m e = byte_at ph (j + 16 + unat (pr_padding_hdr m e))"
      by (simp add: uncached_entry_to_item_def j mem_simps byte_at_ucast add.assoc)
    moreover have "unat (pr_padding_hdr m e) < 2 ^ 16" by (rule unat_u16)
    ultimately have "unat ph \<le> unat (uncached_entry_to_item m e)"
      using j b unat_u32[of "ph_free_uncached m ph"] by (simp add: unat_at ph_def[symmetric])
    then show ?thesis using found_item_Inr[OF unc(2)] pe entry_item_size_Inr
      by (fastforce simp: word_less_nat_alt not_less)
  next
    case cac
    have lo: "2 ^ 34 \<le> phdr_to_last_cached_entry m ph"
      using b unat_u32[of "ph_free_cached m ph"]
      by (simp add: phdr_to_last_cached_entry_def byte_at_ucast word_le_nat_alt unat_at ph_def[symmetric])
    note B = get_cached_scan_bounds[OF cacheline_stride lo cac(1)]
    then have "2 ^ 34 \<le> e" using lo by (meson order.trans order_less_imp_le)
    then have "unat (cached_entry_to_item m e) \<le> unat e"
      using cached_entry_next_below(2)[of e ?cl m] cacheline_stride[of "pe_cacheline m entry"] by simp
    moreover have "unat (phdr_to_first_cached_entry m ph ?cl) = unat ?stop - unat (ALIGN 16 ?cl)"
      using b cacheline_stride[of "pe_cacheline m entry"] pe by (simp add: phdr_to_first_cached_entry_def hdr[folded ph_def] unat_sub
          ph_def[symmetric] word_le_nat_alt word_less_nat_alt)
    ultimately have "unat (cached_entry_to_item m e) \<le> unat ?stop" using B by (simp add: word_le_nat_alt) linarith
    then show ?thesis using found_item_Inr[OF cac(2)] pe entry_item_size_Inr
      by (fastforce simp: word_less_nat_alt not_less)
  qed
qed

lemma find_off_ordered:
  assumes "find_off i1 k its = Some (o1, it1)" "find_off i2 k its = Some (o2, it2)" "i1 \<noteq> i2"
  shows "o1 + it_len it1 \<le> o2 \<or> o2 + it_len it2 \<le> o1"
  using assms
proof (induction its arbitrary: k)
  case (Cons it its)
  have ge: "k' \<le> o'" if "find_off i k' its = Some (o', it')" for i k' o' it'
    using that by (induction its arbitrary: k') (auto split: if_splits dest: order_trans[rotated] add_leD1)
  show ?case using Cons ge by (fastforce split: if_splits)
qed simp

lemma get_private_range:
  assumes P: "partition_ok m smem entry its" and f: "find_off item 32 its = Some (o', it)"
    and ret: "qcom_smem_get_private m smem entry item True = Some (Inr (p, Some n))"
  shows "unat p = unat (ptable_entry_to_phdr m smem entry) + o' + 16 + unat (it_hpad it)"
    "unat n \<le> unat (it_size it)"
proof -
  let ?b = "ptable_entry_to_phdr m smem entry"
  have n: "ucast (it_pad it) < it_size it" "n = ucast (it_size it - ucast (it_pad it))"
    and p: "p = byte_at ?b (o' + 16 + unat (it_hpad it))"
    using ret get_private_found[OF P f, of True] by (auto split: if_splits)
  have "o' + it_len it \<le> uncached_end its" using find_off_chain[OF partition_okD(4)[OF P] f] by simp
  then have "o' + 16 + unat (it_hpad it) < 2 ^ 32" using partition_okD[OF P] by (simp add: it_len_def)
  then show "unat p = unat ?b + o' + 16 + unat (it_hpad it)"
    using partition_okD(1)[OF P] p by (simp add: unat_at)
  show "unat n \<le> unat (it_size it)" using n by (simp add: unat_sub order_less_imp_le)
qed

section \<open>An example memory\<close>

text \<open>
  A 2 MiB region at 16 GiB with an initialised header of version 11, a partition table with one entry
  for the hosts 0 and 1, and a 64 KiB partition at offset \<open>0x10000\<close> whose lists are empty.
\<close>

definition ex_mem :: mem where
  "ex_mem = fold (\<lambda>(a, v) m. m(0x400000000 + a := v))
     [(94, 11), (192, 1), (197, 0x40), (201, 0x10),
      (0x10000, 0x24), (0x10001, 0x50), (0x10002, 0x52), (0x10003, 0x54), (0x10006, 1), (0x1000a, 1),
      (0x1000c, 0x20), (0x10012, 1),
      (0x1ff000, 0x24), (0x1ff001, 0x54), (0x1ff002, 0x4f), (0x1ff003, 0x43), (0x1ff004, 1),
      (0x1ff008, 1), (0x1ff022, 1), (0x1ff026, 1), (0x1ff02e, 1), (0x1ff030, 0x20)]
     (\<lambda>_. 0)"

definition ex_platform :: smem_platform where
  "ex_platform = \<lparr>memory_region = Inr (0x80900000, 0x200000), rpm_msg_ram = None,
     ioremap_wc = (\<lambda>start n. 0x400000000), kzalloc_ok = True, hwlock_id = Inr 3, hwlock_request_ok = True\<rparr>"

definition ex_entry :: ptr where "ex_entry = 0x4001ff020"

definition ex_smem :: qcom_smem where
  "ex_smem = \<lparr>global_partition_entry = 0, ptable_entries = (replicate 14 0)[1 := ex_entry],
     item_count = 512, regions = [\<lparr>aux_base = 0, virt_base = 0x400000000, rsize = 0x200000\<rparr>]\<rparr>"

definition ex_global :: qcom_smem where
  "ex_global = ex_smem\<lparr>ptable_entries := replicate 14 0\<rparr>"

lemma ex_phdr: "ptable_entry_to_phdr ex_mem ex_smem ex_entry = 0x400010000" by code_simp
lemma ex_fields: "pe_size ex_mem ex_entry = 0x10000" "ph_free_uncached ex_mem 0x400010000 = 32"
    "ph_free_cached ex_mem 0x400010000 = 0x10000" "pe_cacheline ex_mem ex_entry = 32"
    "ph_size ex_mem 0x400010000 = 0x10000" "pe_offset ex_mem ex_entry = 0x10000"
  by code_simp+

lemma ex_entry_offset: "unat (ex_entry - 0x400010000) = 0x1ef020"
  by (simp add: ex_entry_def)

lemma ex_partition: "partition_ok ex_mem ex_smem ex_entry []"
  unfolding partition_ok_def Let_def ex_phdr ex_fields by (simp add: ex_entry_def)

lemma ex_select: "select_partition ex_smem 1 = Some ex_entry" "item_count ex_smem = 512"
  by (code_simp, simp add: ex_smem_def)

lemma ex_part_inv: "part_inv ex_smem 1 ex_entry ex_mem"
  using ex_partition unfolding part_inv_def ex_select ex_phdr by auto

lemma ex_limit: "cached_limit ex_mem ex_smem ex_entry = 0x10000"
  by (simp add: cached_limit_def ex_phdr ex_fields)

lemma ex_ALIGN: "ALIGN 16 (ucast (pe_cacheline ex_mem ex_entry) :: u64) = 32"
  unfolding ex_fields by code_simp

lemma ex_alloc_two:
  "\<exists>m'. alloc_all (\<lambda>m. qcom_smem_alloc m (Some ex_smem) None 1) ex_mem [(9, 12), (10, 64)] = Some (Inr m')"
proof -
  obtain m1 where m1: "qcom_smem_alloc ex_mem (Some ex_smem) None 1 9 12 = Some (Inr m1)"
    "partition_ok m1 ex_smem ex_entry [new_item 9 12]" "cached_limit m1 ex_smem ex_entry = 0x10000"
    using alloc_private_refines[OF ex_partition, of 12 9]
    by (auto simp: smem_alloc_part[OF ex_select(1)] ex_select(2) spec_alloc_def ex_limit uncached_end_def align8_def)
  obtain m2 where m2: "qcom_smem_alloc m1 (Some ex_smem) None 1 10 64 = Some (Inr m2)"
    using alloc_private_refines[OF m1(2), of 64 10] m1(3)
    by (auto simp: smem_alloc_part[OF ex_select(1)] ex_select(2) spec_alloc_def uncached_end_def
        align8_def it_len_def new_item_def)
  show ?thesis using m1(1) m2 by simp
qed

section \<open>Properties of the heap\<close>

text \<open>C1. An allocation of less than 2^32 - 8 bytes for an item that is not reserved (8 or more) and below the item count, for a
  host with a well-formed partition, does what the list specification \<open>spec_alloc\<close> says:
  \<open>EEXIST\<close> when the item is on the uncached list, \<open>ENOSPC\<close> when the item and its header do not fit
  below the cached list, and otherwise the new item is appended to the list; the partition stays well
  formed and no byte of it changes but the free offset and the new entry's header.\<close>

theorem smem_alloc_refines:
  assumes "select_partition smem host = Some entry" "partition_ok m smem entry its"
    and "8 \<le> item" "item < item_count smem" "unat sz < 2 ^ 32 - 8"
  defines "b \<equiv> ptable_entry_to_phdr m smem entry" and "fu \<equiv> uncached_end its"
  shows "case spec_alloc (cached_limit m smem entry) its item sz of
      Inl e \<Rightarrow> qcom_smem_alloc m (Some smem) None host item sz = Some (Inl e)
    | Inr its' \<Rightarrow> \<exists>m'. qcom_smem_alloc m (Some smem) None host item sz = Some (Inr m') \<and>
        partition_ok m' smem entry its' \<and> cached_limit m' smem entry = cached_limit m smem entry \<and>
        same_on m m' b 0 12 \<and> same_on m m' b 16 fu \<and> same_on m m' b (fu + 12) (2 ^ 64)"
proof -
  have eq: "qcom_smem_alloc m (Some smem) None host item sz = qcom_smem_alloc_private m smem entry item sz"
    using assms by (simp add: smem_alloc_part not_le[symmetric])
  note R = alloc_private_refines[OF assms(2,5), of item]
    and S = alloc_private_success(5-7)[OF assms(2,5), of item, folded b_def fu_def]
  show ?thesis using R S unfolding eq by (auto split: sum.splits)
qed

theorem smem_alloc_refines_witness:
  "spec_alloc (cached_limit ex_mem ex_smem ex_entry) [] 9 12 = Inr [new_item 9 12] \<and>
   (\<exists>m'. qcom_smem_alloc ex_mem (Some ex_smem) None 1 9 12 = Some (Inr m') \<and>
      partition_ok m' ex_smem ex_entry [new_item 9 12])"
proof -
  have s: "spec_alloc (cached_limit ex_mem ex_smem ex_entry) [] 9 12 = Inr [new_item 9 12]"
    by (simp add: spec_alloc_def ex_limit uncached_end_def align8_def)
  show ?thesis
    using smem_alloc_refines[OF ex_select(1) ex_partition, of 9 12] s by (auto simp: ex_select(2))
qed

text \<open>C12. Allocating any sequence of items of positive sizes below 2^32 - 8 for a host with a well-formed partition returns. If it
  succeeds, the items were pairwise different, every one of them is then found with exactly the size that was asked for,
  and the lookup of any other item, on the uncached or on the cached list, gives what it gave before.\<close>

theorem smem_alloc_sequence:
  assumes "part_inv smem host entry m" "\<forall>(item, sz) \<in> set rs. valid_size sz"
  shows "\<exists>r. alloc_all (\<lambda>m. qcom_smem_alloc m (Some smem) None host) m rs = Some r \<and>
    (\<forall>m'. r = Inr m' \<longrightarrow> distinct (map fst rs) \<and>
      (\<forall>(item, sz) \<in> set rs. \<exists>p. qcom_smem_get m' (Some smem) None host item True = Some (Inr (p, Some sz))) \<and>
      (\<forall>item. item \<notin> fst ` set rs \<longrightarrow>
         qcom_smem_get m' (Some smem) None host item True = qcom_smem_get m (Some smem) None host item True))"
  using part.alloc_all_total[OF assms] part.alloc_all_frame[OF assms] part.alloc_all_get[OF assms]
  by fastforce

theorem smem_alloc_sequence_witness:
  "\<exists>m'. alloc_all (\<lambda>m. qcom_smem_alloc m (Some ex_smem) None 1) ex_mem [(9, 12), (10, 64)] = Some (Inr m') \<and>
    (\<exists>p. qcom_smem_get m' (Some ex_smem) None 1 9 True = Some (Inr (p, Some 12))) \<and>
    (\<exists>p. qcom_smem_get m' (Some ex_smem) None 1 10 True = Some (Inr (p, Some 64)))"
proof -
  have "\<forall>(item, sz) \<in> set [(9 :: u32, 12 :: u64), (10, 64)]. valid_size sz" by (simp add: valid_size_def)
  from smem_alloc_sequence[OF ex_part_inv this] ex_alloc_two show ?thesis by fastforce
qed

text \<open>C7. Two different items on the uncached list of a partition never overlap: the byte ranges their
  lookups return are disjoint.\<close>

theorem smem_items_disjoint:
  assumes "part_inv smem host entry m" "i \<noteq> j" "part_taken smem entry m i" "part_taken smem entry m j"
    and "qcom_smem_get m (Some smem) None host i True = Some (Inr (p, Some n))"
    and "qcom_smem_get m (Some smem) None host j True = Some (Inr (q, Some k))"
  shows "unat p + unat n \<le> unat q \<or> unat q + unat k \<le> unat p"
proof -
  obtain its where its: "partition_ok m smem entry its"
    and tk: "i \<in> (\<lambda>it. ucast (it_item it)) ` set its" "j \<in> (\<lambda>it. ucast (it_item it)) ` set its"
    and sel: "select_partition smem host = Some entry"
    using assms(1,3,4) partition_ok_unique unfolding part_inv_def part_taken_def by metis
  obtain o1 it1 o2 it2 where f: "find_off i 32 its = Some (o1, it1)" "find_off j 32 its = Some (o2, it2)"
    using tk find_off_None[of i 32 its] find_off_None[of j 32 its] by fastforce
  have "qcom_smem_get_private m smem entry i True = Some (Inr (p, Some n))"
    "qcom_smem_get_private m smem entry j True = Some (Inr (q, Some k))"
    using assms(5,6) by (auto simp: smem_get_part[OF sel] split: if_splits)
  from get_private_range[OF its f(1) this(1)] get_private_range[OF its f(2) this(2)]
  show ?thesis using find_off_ordered[OF f assms(2)] by (auto simp: it_len_def)
qed

theorem smem_items_disjoint_witness:
  "\<exists>m p q. qcom_smem_get m (Some ex_smem) None 1 9 True = Some (Inr (p, Some 12)) \<and>
    qcom_smem_get m (Some ex_smem) None 1 10 True = Some (Inr (q, Some 64)) \<and>
    (unat p + 12 \<le> unat q \<or> unat q + 64 \<le> unat p)"
proof -
  obtain m where m: "alloc_all (\<lambda>m. qcom_smem_alloc m (Some ex_smem) None 1) ex_mem [(9, 12), (10, 64)] = Some (Inr m)"
    using ex_alloc_two by blast
  have v: "\<forall>(item, sz) \<in> set [(9 :: u32, 12 :: u64), (10, 64)]. valid_size sz" by (simp add: valid_size_def)
  note F = part.alloc_all_frame[OF ex_part_inv v m] and G = part.alloc_all_get[OF ex_part_inv v m]
  obtain p q where pq: "qcom_smem_get m (Some ex_smem) None 1 9 True = Some (Inr (p, Some 12))"
    "qcom_smem_get m (Some ex_smem) None 1 10 True = Some (Inr (q, Some 64))"
    using G[of 9 12] G[of 10 64] by auto
  have "part_taken ex_smem ex_entry m 9" "part_taken ex_smem ex_entry m 10"
    using part.alloc_all_taken[OF ex_part_inv v m] by auto
  from smem_items_disjoint[OF _ _ this pq] F pq show ?thesis by fastforce
qed

text \<open>C18. On any memory contents, however the other processor scribbled on them, \<open>qcom_smem_alloc\<close> and
  \<open>qcom_smem_get\<close> return, provided that the partition is mapped at least 16 GiB from either end of
  the address space and the cacheline of the partition table entry gives a positive stride.\<close>

theorem smem_calls_return:
  assumes "select_partition smem host = Some entry"
    and "2 ^ 34 \<le> unat (ptable_entry_to_phdr m smem entry)"
      "unat (ptable_entry_to_phdr m smem entry) + 2 ^ 34 \<le> 2 ^ 64"
    and "0 < ALIGN 16 (ucast (pe_cacheline m entry) :: u64)"
      "ALIGN 16 (ucast (pe_cacheline m entry) :: u64) < 2 ^ 33"
  shows "(\<exists>r. qcom_smem_alloc m (Some smem) lock host item sz = Some r) \<and>
    (\<exists>r. qcom_smem_get m (Some smem) lock host item want = Some r)"
  using alloc_private_terminates[OF assms(3)] get_private_terminates[OF assms(2-5)] assms(1)
  by (auto simp: qcom_smem_alloc_def qcom_smem_get_def split: option.split)

theorem smem_calls_return_witness:
  "(\<exists>r. qcom_smem_alloc ex_mem (Some ex_smem) None 1 9 12 = Some r) \<and>
   (\<exists>r. qcom_smem_get ex_mem (Some ex_smem) None 1 9 True = Some r)"
  using smem_calls_return[OF ex_select(1), of ex_mem None 9 12] unfolding ex_phdr ex_ALIGN by simp


text \<open>C17. For a partition that is mapped at least 16 GiB from either end of the address space and whose header still carries the
  size of the partition table entry, whatever else the memory holds: a pointer that \<open>qcom_smem_get\<close> returns is not below the
  start of the partition and not above its end (but may be the end itself), and the size it reports is positive and
  smaller than the partition. Where the item ends is not checked.\<close>

theorem smem_get_bounds:
  assumes "select_partition smem host = Some entry"
    and "2 ^ 34 \<le> unat (ptable_entry_to_phdr m smem entry)"
      "unat (ptable_entry_to_phdr m smem entry) + 2 ^ 34 \<le> 2 ^ 64"
    and "ph_size m (ptable_entry_to_phdr m smem entry) = pe_size m entry"
    and "qcom_smem_get m (Some smem) lock host item True = Some (Inr (p, Some n))"
  shows "unat (ptable_entry_to_phdr m smem entry) \<le> unat p \<and>
    unat p \<le> unat (ptable_entry_to_phdr m smem entry) + unat (pe_size m entry) \<and>
    0 < unat n \<and> unat n < unat (pe_size m entry)"
proof -
  have "qcom_smem_get_private m smem entry item True = Some (Inr (p, Some n))"
    using assms(1,5) by (auto simp: qcom_smem_get_def split: if_splits option.splits)
  then show ?thesis using get_private_bounds[OF assms(2-4)] by blast
qed

theorem smem_get_bounds_witness:
  "\<exists>m p. qcom_smem_get m (Some ex_smem) None 1 9 True = Some (Inr (p, Some 12)) \<and>
    0x400010000 \<le> unat p \<and> unat p \<le> 0x400020000"
proof -
  obtain m where m: "qcom_smem_alloc_private ex_mem ex_smem ex_entry 9 12 = Some (Inr m)"
    using alloc_private_eq[OF ex_partition, of 12 9] by (auto simp: ex_limit uncached_end_def align8_def)
  have g: "qcom_smem_get_private m ex_smem ex_entry 9 True = Some (Inr (0x400010030, Some 12))"
    using alloc_then_get[OF ex_partition _ _ _ m] by (simp add: ex_phdr uncached_end_def byte_at_def)
  note S = alloc_private_success(5-7)[OF ex_partition _ m, unfolded ex_phdr]
  have "pe_size m ex_entry = 0x10000" "pe_cacheline m ex_entry = 32" "pe_offset m ex_entry = 0x10000"
    using pe_fields_same[OF S(2), of ex_entry] by (simp_all add: ex_fields uncached_end_def ex_entry_offset)
  note pe = this
  have ph: "ptable_entry_to_phdr m ex_smem ex_entry = 0x400010000"
    by (simp add: ptable_entry_to_phdr_def pe region0_def ex_smem_def)
  have hs: "ph_size m 0x400010000 = 0x10000"
    using load32_same[OF S(3), of 8] ex_fields(5) by (simp add: ph_size_def byte_at_def)
  have g': "qcom_smem_get m (Some ex_smem) None 1 9 True = Some (Inr (0x400010030, Some 12))"
    using g by (simp add: smem_get_part[OF ex_select(1)] ex_select(2))
  from smem_get_bounds[OF ex_select(1) _ _ _ g'] g' show ?thesis
    by (intro exI[of _ m] exI[of _ "0x400010030"]) (simp add: ph pe hs)
qed

lemma ex_global_fields: "select_partition ex_global 1 = None" "item_count ex_global = 512"
    "virt_base (region0 ex_global) = 0x400000000" "regions ex_global \<noteq> []" "rsize (region0 ex_global) = 0x200000"
  by (code_simp, simp_all add: ex_global_def ex_smem_def region0_def)

lemma ex_global_inv: "global_inv ex_global 1 ex_mem"
proof -
  have "heap_ok ex_mem ex_global"
  proof -
    have "sh_free_offset ex_mem 0x400000000 = 0x4000" "sh_available ex_mem 0x400000000 = 0x1000" by code_simp+
    then show ?thesis by (simp add: heap_ok_def ex_global_fields)
  qed
  moreover have "ge_aux_base ex_mem (sh_toc 0x400000000 i) = 0" if "i < 512" for i
  proof -
    have z: "ex_mem (byte_at 0x400000000 k) = 0" if "208 \<le> k" "k < 0x10000" for k
    proof -
      have "unat (byte_at 0x400000000 k) = 0x400000000 + k" using that by (subst unat_at) auto
      then show ?thesis using that by (auto simp: ex_mem_def word_unat_eq_iff)
    qed
    have "unat i < 512" using that by (simp add: word_less_nat_alt)
    then show ?thesis by (simp add: ge_aux_base_def sh_toc_at load32_def le32_def mem_simps z)
  qed
  ultimately show ?thesis by (simp add: global_inv_def ex_global_fields)
qed

lemma ex_global_alloc:
  "\<exists>m'. alloc_all (\<lambda>m. qcom_smem_alloc m (Some ex_global) None 1) ex_mem [(9, 12)] = Some (Inr m')"
proof -
  have "ge_allocated ex_mem (sh_toc 0x400000000 9) = 0" "ALIGN (12 :: u64) 8 = 16"
    "sh_available ex_mem 0x400000000 = 0x1000" by code_simp+
  then show ?thesis
    by (simp add: smem_alloc_global[OF ex_global_fields(1)] ex_global_fields qcom_smem_alloc_global_def Let_def)
qed

text \<open>C19. Allocating any sequence of items of positive sizes below 2^32 - 8 from the global heap returns. If it succeeds, the items were
  pairwise different, every one of them is then found with the requested size rounded up to 8, and the
  lookup of every other item is unchanged.\<close>

theorem smem_global_sequence:
  assumes "global_inv smem host m" "\<forall>(item, sz) \<in> set rs. valid_size sz"
  shows "\<exists>r. alloc_all (\<lambda>m. qcom_smem_alloc m (Some smem) None host) m rs = Some r \<and>
    (\<forall>m'. r = Inr m' \<longrightarrow> distinct (map fst rs) \<and>
      (\<forall>(item, sz) \<in> set rs. \<exists>p. qcom_smem_get m' (Some smem) None host item True =
         Some (Inr (p, Some (granted_size sz)))) \<and>
      (\<forall>item. item \<notin> fst ` set rs \<longrightarrow>
         qcom_smem_get m' (Some smem) None host item True = qcom_smem_get m (Some smem) None host item True))"
  using global.alloc_all_total[OF assms] global.alloc_all_frame[OF assms] global.alloc_all_get[OF assms]
  by fastforce

theorem smem_global_sequence_witness:
  "\<exists>m' p. alloc_all (\<lambda>m. qcom_smem_alloc m (Some ex_global) None 1) ex_mem [(9, 12)] = Some (Inr m') \<and>
    qcom_smem_get m' (Some ex_global) None 1 9 True = Some (Inr (p, Some 16))"
proof -
  obtain m' where "alloc_all (\<lambda>m. qcom_smem_alloc m (Some ex_global) None 1) ex_mem [(9, 12)] = Some (Inr m')"
    using ex_global_alloc by blast
  moreover have "\<forall>(item, sz) \<in> set [(9 :: u32, 12 :: u64)]. valid_size sz" by (simp add: valid_size_def)
  ultimately show ?thesis
    using smem_global_sequence[OF ex_global_inv, of "[(9, 12)]"] by (auto simp: granted_size_def align8_def)
qed

text \<open>C20. A lookup in the global heap never leaves the mapped regions: the range from the returned pointer
  over the returned size is inside one of the regions, for any table of contents.\<close>

theorem smem_get_global_bounds:
  assumes "select_partition smem host = None"
    and "qcom_smem_get m (Some smem) lock host item True = Some (Inr (p, Some n))"
  shows "\<exists>area \<in> set (regions smem). \<exists>off. p = virt_base area + of_nat off \<and> off + unat n \<le> unat (rsize area)"
proof -
  let ?e = "sh_toc (virt_base (region0 smem)) item"
  have "qcom_smem_get_global m smem item = Inr (p, n)"
    using assms by (auto simp: qcom_smem_get_def map_result_Inr split: if_splits option.splits)
  then have "get_global_area m ?e (ge_aux_base m ?e AND AUX_BASE_MASK) (regions smem) = Inr (p, n)"
    by (auto simp: qcom_smem_get_global_def Let_def split: if_splits)
  from get_global_area_bounds[OF this] obtain area where
    "area \<in> set (regions smem)" "p = virt_base area + ucast (ge_offset m ?e)"
    "unat (ge_offset m ?e) + unat n \<le> unat (rsize area)" by blast
  then show ?thesis by (intro bexI[of _ area] exI[of _ "unat (ge_offset m ?e)"]) simp_all
qed


theorem smem_get_global_bounds_witness:
  "\<exists>m p off. qcom_smem_get m (Some ex_global) None 1 9 True = Some (Inr (p, Some 16)) \<and>
    p = 0x400000000 + of_nat off \<and> off + 16 \<le> 0x200000"
proof -
  obtain m' where m': "alloc_all (\<lambda>m. qcom_smem_alloc m (Some ex_global) None 1) ex_mem [(9, 12)] = Some (Inr m')"
    using ex_global_alloc by blast
  have "\<forall>(item, sz) \<in> set [(9 :: u32, 12 :: u64)]. valid_size sz" by (simp add: valid_size_def)
  from global.alloc_all_get[OF ex_global_inv this m', of 9 12]
  obtain p where p: "qcom_smem_get m' (Some ex_global) None 1 9 True = Some (Inr (p, Some 16))"
    by (auto simp: granted_size_def align8_def)
  show ?thesis using smem_get_global_bounds[OF ex_global_fields(1) p] p
    by (auto simp: ex_global_def ex_smem_def intro!: exI[of _ m'])
qed


text \<open>C15. A successful probe leaves a driver state that every lookup can rely on: the SMEM header is
  initialised, each of the 14 host slots is empty or holds a table entry between this processor and
  that host whose partition header carries the magic, the hosts and the size of the entry, and a global
  partition, if there is one, passed the same checks.\<close>

theorem smem_probe_establishes:
  assumes "qcom_smem_probe m pf = Inr smem"
  shows "partitions_valid m smem SMEM_HOST_APPS \<and> regions smem \<noteq> [] \<and>
    sh_initialized m (virt_base (region0 smem)) = 1 \<and>
    (global_partition_entry smem \<noteq> 0 \<longrightarrow>
       qcom_smem_partition_header m smem (global_partition_entry smem) SMEM_GLOBAL_HOST SMEM_GLOBAL_HOST =
         Some (ptable_entry_to_phdr m smem (global_partition_entry smem)))"
proof -
  obtain rs smem1 ret where rs: "probe_regions pf = Inr rs"
    and ini: "sh_initialized m (virt_base (region0 (probe_init rs))) = 1"
    and v: "probe_version m (probe_init rs) = Inr smem1"
    and en: "qcom_smem_enumerate_partitions m smem1 0 = (ret, smem)"
    using assms unfolding qcom_smem_probe_def Let_def
    by (simp split: if_splits sum.splits prod.splits)
  note v' = probe_version_Inr[OF v]
  then have "partitions_valid m smem1 0" by (simp add: partitions_valid_def)
  from enumerate_partitions_valid[OF this en]
  have e: "partitions_valid m smem 0" "regions smem = rs"
    "global_partition_entry smem = global_partition_entry smem1" using v' by simp_all
  have "regions smem = regions smem1" using e v' by simp
  note same = partition_header_regions[OF this] ptable_entry_to_phdr_regions[OF this]
  have "region0 smem = region0 (probe_init rs)" using e(2) by (simp add: region0_def probe_init_def)
  then show ?thesis
    using v' ini probe_regions_nonempty[OF rs] e by (simp add: same del: One_nat_def)
qed

theorem smem_probe_establishes_witness:
  "\<exists>smem. qcom_smem_probe ex_mem ex_platform = Inr smem \<and> ptable_entries smem ! 1 = ex_entry \<and>
    partitions_valid ex_mem smem 0"
proof -
  have "(case qcom_smem_probe ex_mem ex_platform of Inl e \<Rightarrow> False | Inr smem \<Rightarrow> ptable_entries smem ! 1 = ex_entry)"
    by code_simp
  then obtain smem where "qcom_smem_probe ex_mem ex_platform = Inr smem" "ptable_entries smem ! 1 = ex_entry"
    by (auto split: sum.splits)
  with smem_probe_establishes[OF this(1)] show ?thesis by blast
qed

text \<open>C21. A request within 7 bytes of the largest \<open>size_t\<close> is not refused: \<open>ALIGN(size, 8)\<close> wraps to 0, the
  space check passes and the item is allocated with size 0.\<close>

theorem smem_alloc_wraps:
  assumes "select_partition smem host = Some entry" "partition_ok m smem entry its"
    and "8 \<le> item" "item < item_count smem" "2 ^ 64 - 8 < unat sz"
    and "item \<notin> (\<lambda>it. ucast (it_item it)) ` set its"
    and "uncached_end its + 16 \<le> cached_limit m smem entry"
  shows "\<exists>m'. qcom_smem_alloc m (Some smem) None host item sz = Some (Inr m') \<and>
    pr_item m' (byte_at (ptable_entry_to_phdr m smem entry) (uncached_end its)) = ucast item \<and>
    pr_size m' (byte_at (ptable_entry_to_phdr m smem entry) (uncached_end its)) = 0"
  using alloc_private_wraps[OF assms(2,5-7)] assms(1,3,4)
  by (simp add: smem_alloc_part not_le[symmetric])

theorem smem_alloc_wraps_witness:
  "\<exists>m'. qcom_smem_alloc ex_mem (Some ex_smem) None 1 9 0xfffffffffffffffd = Some (Inr m')"
  using smem_alloc_wraps[OF ex_select(1) ex_partition, of 9 "0xfffffffffffffffd"]
  by (auto simp: ex_select(2) ex_limit uncached_end_def)

text \<open>C22. An item of size 0 can be allocated but never looked up with its size: the check
  \<open>padding_data < e_size\<close> refuses it with \<open>EINVAL\<close>.\<close>

theorem smem_alloc_zero_then_get:
  assumes "part_inv smem host entry m" "qcom_smem_alloc m (Some smem) None host item 0 = Some (Inr m')"
  shows "qcom_smem_get m' (Some smem) None host item True = Some (Inl EINVAL)"
proof -
  obtain its where sel: "select_partition smem host = Some entry" and P: "partition_ok m smem entry its"
    and c: "unat (item_count smem) \<le> 2 ^ 16" using assms(1) by (auto simp: part_inv_def)
  have i: "item < item_count smem" and ret: "qcom_smem_alloc_private m smem entry item 0 = Some (Inr m')"
    using assms(2) by (auto simp: smem_alloc_part[OF sel] split: if_splits)
  have "item < 2 ^ 16" using i c by (simp add: word_less_nat_alt)
  from alloc_zero_then_get[OF P this ret] show ?thesis by (simp add: smem_get_part[OF sel])
qed

theorem smem_alloc_zero_then_get_witness:
  "\<exists>m'. qcom_smem_alloc ex_mem (Some ex_smem) None 1 9 0 = Some (Inr m') \<and>
    qcom_smem_get m' (Some ex_smem) None 1 9 True = Some (Inl EINVAL)"
proof -
  obtain m' where "qcom_smem_alloc ex_mem (Some ex_smem) None 1 9 0 = Some (Inr m')"
    using alloc_private_eq[OF ex_partition, of 0 9]
    by (auto simp: smem_alloc_part[OF ex_select(1)] ex_select(2) ex_limit uncached_end_def align8_def)
  with smem_alloc_zero_then_get[OF ex_part_inv this] show ?thesis by blast
qed

end
