(* ===== verification/Glink_Fifo.thy ===== *)
theory Glink_Fifo
  imports Smem_Heap
begin

text \<open>
  The shared-memory pipes of GLINK, \<open>drivers/rpmsg/qcom_glink_smem.c\<close>. A pipe is a ring buffer in an
  SMEM item with two 32-bit little-endian indices in another item: the writer owns \<open>head\<close>, the reader
  owns \<open>tail\<close>. The operations are functions on the bytes of the shared memory with the widths of the C
  code (\<open>u32\<close> indices, \<open>size_t\<close> lengths); the theorems show that they implement a queue of bytes.
\<close>

section \<open>Pipes\<close>

abbreviation (input) FIFO_FULL_RESERVE :: u32 where "FIFO_FULL_RESERVE \<equiv> 8"
abbreviation (input) TX_BLOCKED_CMD_RESERVE :: u32 where "TX_BLOCKED_CMD_RESERVE \<equiv> 8"
abbreviation (input) SMEM_GLINK_NATIVE_XPRT_DESCRIPTOR :: u32 where "SMEM_GLINK_NATIVE_XPRT_DESCRIPTOR \<equiv> 478"
abbreviation (input) SMEM_GLINK_NATIVE_XPRT_FIFO_0 :: u32 where "SMEM_GLINK_NATIVE_XPRT_FIFO_0 \<equiv> 479"
abbreviation (input) SMEM_GLINK_NATIVE_XPRT_FIFO_1 :: u32 where "SMEM_GLINK_NATIVE_XPRT_FIFO_1 \<equiv> 480"

text \<open>\<open>struct glink_smem_pipe\<close>; \<open>plen\<close> is \<open>native.length\<close>.\<close>

record glink_smem_pipe =
  plen :: u64
  tail_p :: ptr
  head_p :: ptr
  fifo :: ptr
  remote_pid :: u32

definition glink_smem_rx_reset :: "mem \<Rightarrow> glink_smem_pipe \<Rightarrow> mem" where
  "glink_smem_rx_reset m pipe = store32 m (tail_p pipe) 0"

text \<open>The receive fifo is allocated by the remote side, so it is looked up on first use.\<close>

definition rx_fifo_lookup ::
  "mem \<Rightarrow> qcom_smem option \<Rightarrow> errno option \<Rightarrow> glink_smem_pipe \<Rightarrow> glink_smem_pipe result option" where
  "rx_fifo_lookup m smem lock pipe =
     (if fifo pipe = 0 then
        (case qcom_smem_get m smem lock (remote_pid pipe) SMEM_GLINK_NATIVE_XPRT_FIFO_1 True of
           None \<Rightarrow> None
         | Some (Inl e) \<Rightarrow> Some (Inl e)
         | Some (Inr (p, n)) \<Rightarrow> Some (Inr (pipe\<lparr>fifo := p, plen := the n\<rparr>)))
      else Some (Inr pipe))"

definition rx_avail_len :: "mem \<Rightarrow> glink_smem_pipe \<Rightarrow> u64" where
  "rx_avail_len m pipe =
     (let head = load32 m (head_p pipe);
          tail = load32 m (tail_p pipe);
          len = (if head < tail then plen pipe - ucast tail + ucast head else ucast (head - tail))
      in if len > plen pipe then 0 else len)"

definition glink_smem_rx_avail ::
  "mem \<Rightarrow> qcom_smem option \<Rightarrow> errno option \<Rightarrow> glink_smem_pipe \<Rightarrow> (u64 \<times> glink_smem_pipe) option" where
  "glink_smem_rx_avail m smem lock pipe =
     (case rx_fifo_lookup m smem lock pipe of
        None \<Rightarrow> None
      | Some (Inl e) \<Rightarrow> Some (0, pipe)
      | Some (Inr pipe') \<Rightarrow> Some (rx_avail_len m pipe', pipe'))"

text \<open>\<open>None\<close>: the tail is out of range and the caller's buffer is left as it was.\<close>

definition glink_smem_rx_peak :: "mem \<Rightarrow> glink_smem_pipe \<Rightarrow> u32 \<Rightarrow> u64 \<Rightarrow> u8 list option" where
  "glink_smem_rx_peak m pipe offset count =
     (let tail0 = load32 m (tail_p pipe)
      in if ucast tail0 > plen pipe then None
         else
           let tail1 = tail0 + offset;
               tail = (if ucast tail1 \<ge> plen pipe then tail1 - ucast (plen pipe) else tail1);
               len = min count (plen pipe - ucast tail)
           in Some (mem_bytes m (fifo pipe + ucast tail) (unat len) @
                    mem_bytes m (fifo pipe) (unat (count - len))))"

definition glink_smem_rx_advance :: "mem \<Rightarrow> glink_smem_pipe \<Rightarrow> u64 \<Rightarrow> mem" where
  "glink_smem_rx_advance m pipe count =
     (let tail0 = load32 m (tail_p pipe) + ucast count;
          tail = (if ucast tail0 \<ge> plen pipe then ucast ((ucast tail0 :: u64) mod plen pipe) else tail0)
      in store32 m (tail_p pipe) tail)"

definition glink_smem_tx_reset :: "mem \<Rightarrow> glink_smem_pipe \<Rightarrow> mem" where
  "glink_smem_tx_reset m pipe = store32 m (head_p pipe) 0"

definition glink_smem_tx_avail :: "mem \<Rightarrow> glink_smem_pipe \<Rightarrow> u64" where
  "glink_smem_tx_avail m pipe =
     (let head = load32 m (head_p pipe);
          tail = load32 m (tail_p pipe);
          avail0 = (if tail \<le> head then ucast (plen pipe - ucast head + ucast tail) else tail - head);
          avail = (if avail0 < FIFO_FULL_RESERVE + TX_BLOCKED_CMD_RESERVE then 0
                   else avail0 - (FIFO_FULL_RESERVE + TX_BLOCKED_CMD_RESERVE))
      in if ucast avail > plen pipe then 0 else ucast avail)"

definition glink_smem_tx_write_one ::
  "mem \<Rightarrow> glink_smem_pipe \<Rightarrow> u32 \<Rightarrow> u8 list \<Rightarrow> mem \<times> u32" where
  "glink_smem_tx_write_one m pipe head data =
     (if ucast head > plen pipe then (m, head)
      else
        let count = of_nat (length data);
            len = min count (plen pipe - ucast head);
            m1 = memcpy_to m (fifo pipe + ucast head) (take (unat len) data);
            m2 = memcpy_to m1 (fifo pipe) (drop (unat len) data);
            head1 = head + ucast count;
            head2 = (if ucast head1 \<ge> plen pipe then head1 - ucast (plen pipe) else head1)
        in (m2, head2))"

definition glink_smem_tx_write :: "mem \<Rightarrow> glink_smem_pipe \<Rightarrow> u8 list \<Rightarrow> u8 list \<Rightarrow> mem" where
  "glink_smem_tx_write m pipe hdr data =
     (let head0 = load32 m (head_p pipe);
          (m1, head1) = glink_smem_tx_write_one m pipe head0 hdr;
          (m2, head2) = glink_smem_tx_write_one m1 pipe head1 data;
          head3 = ALIGN head2 8;
          head4 = (if ucast head3 \<ge> plen pipe then head3 - ucast (plen pipe) else head3)
      in store32 m2 (head_p pipe) head4)"

section \<open>Registration\<close>

text \<open>
  \<open>qcom_glink_smem_register\<close> up to the call of \<open>qcom_glink_native_probe\<close>: the device registration and
  the device tree give \<open>remote_pid\<close>; \<open>locks\<close> are the results of the hardware spinlock in the four calls
  into SMEM. The result is the memory and the two pipes (receive, transmit).
\<close>

definition smem_alloc_existing ::
  "mem \<Rightarrow> qcom_smem option \<Rightarrow> errno option \<Rightarrow> u32 \<Rightarrow> u32 \<Rightarrow> u64 \<Rightarrow> mem result option" where
  "smem_alloc_existing m smem lock host item sz =
     (case qcom_smem_alloc m smem lock host item sz of
        None \<Rightarrow> None
      | Some (Inl e) \<Rightarrow> if e = EEXIST then Some (Inr m) else Some (Inl e)
      | Some (Inr m') \<Rightarrow> Some (Inr m'))"

definition rx_pipe_init :: "ptr \<Rightarrow> u32 \<Rightarrow> glink_smem_pipe" where
  "rx_pipe_init descs pid =
     \<lparr>plen = 0, tail_p = descs + 8, head_p = descs + 12, fifo = 0, remote_pid = pid\<rparr>"

definition tx_pipe_init :: "ptr \<Rightarrow> ptr \<Rightarrow> u64 \<Rightarrow> u32 \<Rightarrow> glink_smem_pipe" where
  "tx_pipe_init descs f n pid =
     \<lparr>plen = n, tail_p = descs, head_p = descs + 4, fifo = f, remote_pid = pid\<rparr>"

definition qcom_glink_smem_register ::
  "mem \<Rightarrow> qcom_smem option \<Rightarrow> (nat \<Rightarrow> errno option) \<Rightarrow> errno option \<Rightarrow> u32 result \<Rightarrow> bool \<Rightarrow>
   (mem \<times> glink_smem_pipe \<times> glink_smem_pipe) result option" where
  "qcom_glink_smem_register m smem locks dev_err pid_prop alloc_ok =
     (case dev_err of
        Some e \<Rightarrow> Some (Inl e)
      | None \<Rightarrow>
     (case pid_prop of
        Inl e \<Rightarrow> Some (Inl e)
      | Inr pid \<Rightarrow>
     if \<not> alloc_ok then Some (Inl ENOMEM)
     else (case smem_alloc_existing m smem (locks 0) pid SMEM_GLINK_NATIVE_XPRT_DESCRIPTOR 32 of
        None \<Rightarrow> None
      | Some (Inl e) \<Rightarrow> Some (Inl e)
      | Some (Inr m1) \<Rightarrow>
     (case qcom_smem_get m1 smem (locks 1) pid SMEM_GLINK_NATIVE_XPRT_DESCRIPTOR True of
        None \<Rightarrow> None
      | Some (Inl e) \<Rightarrow> Some (Inl e)
      | Some (Inr (descs, sz)) \<Rightarrow>
     if the sz \<noteq> 32 then Some (Inl EINVAL)
     else (case smem_alloc_existing m1 smem (locks 2) pid SMEM_GLINK_NATIVE_XPRT_FIFO_0 0x4000 of
        None \<Rightarrow> None
      | Some (Inl e) \<Rightarrow> Some (Inl e)
      | Some (Inr m2) \<Rightarrow>
     (case qcom_smem_get m2 smem (locks 3) pid SMEM_GLINK_NATIVE_XPRT_FIFO_0 True of
        None \<Rightarrow> None
      | Some (Inl e) \<Rightarrow> Some (Inl e)
      | Some (Inr (f, n)) \<Rightarrow>
          let rx = rx_pipe_init descs pid;
              tx = tx_pipe_init descs f (the n) pid;
              m3 = store32 m2 (tail_p rx) 0;
              m4 = store32 m3 (head_p tx) 0
          in Some (Inr (m4, rx, tx))))))))"

section \<open>The bytes in a pipe\<close>

definition head_of :: "mem \<Rightarrow> glink_smem_pipe \<Rightarrow> nat" where
  "head_of m pipe = unat (load32 m (head_p pipe))"

definition tail_of :: "mem \<Rightarrow> glink_smem_pipe \<Rightarrow> nat" where
  "tail_of m pipe = unat (load32 m (tail_p pipe))"

definition used :: "mem \<Rightarrow> glink_smem_pipe \<Rightarrow> nat" where
  "used m pipe = (head_of m pipe + unat (plen pipe) - tail_of m pipe) mod unat (plen pipe)"

definition cell :: "glink_smem_pipe \<Rightarrow> nat \<Rightarrow> ptr" where
  "cell pipe i = byte_at (fifo pipe) (i mod unat (plen pipe))"

definition content :: "mem \<Rightarrow> glink_smem_pipe \<Rightarrow> u8 list" where
  "content m pipe = map (\<lambda>i. m (cell pipe (tail_of m pipe + i))) [0..<used m pipe]"

text \<open>
  A pipe whose indices are in range, with the buffer and the two index words apart. The size is a
  multiple of 8 and small enough for the sums of the \<open>u32\<close> indices.
\<close>

definition pipe_layout :: "glink_smem_pipe \<Rightarrow> bool" where
  "pipe_layout pipe \<longleftrightarrow>
     16 < unat (plen pipe) \<and> unat (plen pipe) < 2 ^ 31 \<and> 8 dvd unat (plen pipe) \<and> fifo pipe \<noteq> 0 \<and>
     (\<forall>p \<in> {tail_p pipe, head_p pipe}. unat (plen pipe) \<le> unat (p - fifo pipe) \<and>
        unat (p - fifo pipe) + 4 \<le> 2 ^ 64) \<and>
     4 \<le> unat (head_p pipe - tail_p pipe) \<and> unat (head_p pipe - tail_p pipe) + 4 \<le> 2 ^ 64"

definition pipe_ok :: "glink_smem_pipe \<Rightarrow> mem \<Rightarrow> bool" where
  "pipe_ok pipe m \<longleftrightarrow>
     pipe_layout pipe \<and> head_of m pipe < unat (plen pipe) \<and> tail_of m pipe < unat (plen pipe) \<and>
     8 dvd head_of m pipe"

lemma ptr_diff_at:
  assumes "n \<le> unat (p - b)" "unat (p - b) + 4 \<le> 2 ^ 64"
  obtains d where "p = byte_at b d" "n \<le> d" "d + 4 \<le> 2 ^ 64"
  using assms by (intro that[of "unat (p - b)"]) (auto simp: byte_at_def)

lemma pipe_layoutD:
  assumes "pipe_layout pipe"
  shows "16 < unat (plen pipe)" "unat (plen pipe) < 2 ^ 31" "8 dvd unat (plen pipe)"
    "unat (plen pipe) \<le> unat (head_p pipe - fifo pipe)" "unat (head_p pipe - fifo pipe) + 4 \<le> 2 ^ 64"
    "unat (plen pipe) \<le> unat (tail_p pipe - fifo pipe)" "unat (tail_p pipe - fifo pipe) + 4 \<le> 2 ^ 64"
    "4 \<le> unat (head_p pipe - tail_p pipe)" "unat (head_p pipe - tail_p pipe) + 4 \<le> 2 ^ 64"
  using assms by (auto simp: pipe_layout_def)

text \<open>Writing an index leaves the buffer and the other index alone.\<close>

lemma store_index:
  assumes "pipe_layout pipe"
  shows "same_on m (store32 m (head_p pipe) v) (fifo pipe) 0 (unat (plen pipe))"
    "same_on m (store32 m (tail_p pipe) v) (fifo pipe) 0 (unat (plen pipe))"
    "load32 (store32 m (head_p pipe) v) (tail_p pipe) = load32 m (tail_p pipe)"
    "load32 (store32 m (tail_p pipe) v) (head_p pipe) = load32 m (head_p pipe)"
proof -
  note D = pipe_layoutD[OF assms]
  obtain d where d: "head_p pipe = byte_at (fifo pipe) d" "unat (plen pipe) \<le> d" "d + 4 \<le> 2 ^ 64"
    using ptr_diff_at[OF D(4,5)] .
  show "same_on m (store32 m (head_p pipe) v) (fifo pipe) 0 (unat (plen pipe))"
    unfolding d(1) using d D(2) by (intro same_on_store32) auto
  obtain e where e: "tail_p pipe = byte_at (fifo pipe) e" "unat (plen pipe) \<le> e" "e + 4 \<le> 2 ^ 64"
    using ptr_diff_at[OF D(6,7)] .
  show "same_on m (store32 m (tail_p pipe) v) (fifo pipe) 0 (unat (plen pipe))"
    unfolding e(1) using e D(2) by (intro same_on_store32) auto
  obtain k where k: "head_p pipe = byte_at (tail_p pipe) k" "4 \<le> k" "k + 4 \<le> 2 ^ 64"
    using ptr_diff_at[OF D(8,9)] .
  show "load32 (store32 m (head_p pipe) v) (tail_p pipe) = load32 m (tail_p pipe)"
    using load32_store32_other[of 0 k m "tail_p pipe" v] k(2,3) unfolding k(1) at_0 by simp
  show "load32 (store32 m (tail_p pipe) v) (head_p pipe) = load32 m (head_p pipe)"
    using load32_store32_other[of k 0 m "tail_p pipe" v] k(2,3) unfolding k(1) at_0 by simp
qed

lemma cell_same:
  assumes "same_on m m' (fifo pipe) 0 (unat (plen pipe))" "pipe_layout pipe"
  shows "m' (cell pipe i) = m (cell pipe i)"
  using assms pipe_layoutD(1)[OF assms(2)] unfolding cell_def
  by (intro same_onD[OF assms(1)]) (auto intro: mod_less_divisor)

lemma mod_add_lt: "a < L \<Longrightarrow> j < L \<Longrightarrow> (a + j) mod L = (if a + j < L then a + j else a + j - (L :: nat))"
  by (simp add: mod_if)

lemma dist_if: "h < L \<Longrightarrow> t < L \<Longrightarrow> (h + L - t) mod L = (if t \<le> h then h - t else h + L - (t :: nat))"
  by (simp add: mod_if)

lemma mod_skip: "(a + (L + j)) mod L = (a + j) mod (L :: nat)"
  by (metis add.left_commute mod_add_self1)

lemma tx_write_one_eq:
  assumes lay: "pipe_layout pipe" and h: "unat head < unat (plen pipe)" and n: "length data < unat (plen pipe)"
    and ret: "glink_smem_tx_write_one m pipe head data = (m', head')"
  shows "unat head' = (unat head + length data) mod unat (plen pipe)"
    "j < unat (plen pipe) \<Longrightarrow> m' (cell pipe (unat head + j)) =
      (if j < length data then data ! j else m (cell pipe (unat head + j)))"
    "same_on m m' (fifo pipe) (unat (plen pipe)) (2 ^ 64)"
proof -
  define L where "L = unat (plen pipe)"
  define f where "f = fifo pipe"
  define l where "l = min (length data) (L - unat head)"
  have L: "L < 2 ^ 31" "16 < L" using pipe_layoutD[OF lay] by (auto simp: L_def)
  have cnt: "unat (of_nat (length data) :: u64) = length data" "unat (of_nat (length data) :: u32) = length data"
    using n L by (simp_all add: unat_of_nat L_def)
  have len: "unat (min (of_nat (length data)) (plen pipe - ucast head)) = l"
    using h cnt by (simp add: l_def L_def min_def word_le_nat_alt unat_sub)
  have nle: "\<not> plen pipe < ucast head" using h by (simp add: word_less_nat_alt)
  have c32: "(ucast (of_nat (length data) :: u64) :: u32) = of_nat (length data)"
    using n L by (simp add: ucast_of_nat_small L_def)
  have eq: "m' = memcpy_to (memcpy_to m (byte_at f (unat head)) (take l data)) (byte_at f 0) (drop l data)"
    "head' = (if plen pipe \<le> ucast (head + of_nat (length data)) then head + of_nat (length data) - ucast (plen pipe)
              else head + of_nat (length data))"
    using ret nle unfolding glink_smem_tx_write_one_def Let_def len byte_at_ucast c32 f_def at_0 by simp_all
  have sum: "unat (head + of_nat (length data)) = unat head + length data"
    using h n L cnt by (subst unat_add_lem[THEN iffD1]) (auto simp: L_def)
  have pl: "unat (ucast (plen pipe) :: u32) = L" using L by (simp add: unat_ucast_down L_def)
  show "unat head' = (unat head + length data) mod unat (plen pipe)"
    using h n sum pl unfolding eq(2) mod_add_lt[OF h n]
    by (auto simp: word_le_nat_alt L_def unat_sub)
  have b1: "0 + length (drop l data) \<le> 2 ^ 64" and b2: "unat head + length (take l data) \<le> 2 ^ 64"
    using h n L by (simp_all add: L_def)
  have lb: "l \<le> length data" by (simp add: l_def)
  have at: "m' (byte_at f k) = (if k < length data - l then data ! (l + k)
      else if unat head \<le> k \<and> k < unat head + l then data ! (k - unat head) else m (byte_at f k))"
    if "k < 2 ^ 64" for k
    using lb unfolding eq(1) memcpy_to_at[OF b1 that] memcpy_to_at[OF b2 that] by (auto simp: min_def)
  have lc: "l = length data \<and> length data \<le> L - unat head \<or> l = L - unat head \<and> L - unat head < length data"
    by (auto simp: l_def)
  have hn: "unat head < L" "length data < L" using h n by (simp_all add: L_def)
  show "m' (cell pipe (unat head + j)) = (if j < length data then data ! j else m (cell pipe (unat head + j)))"
    if j: "j < unat (plen pipe)"
  proof (cases "unat head + j < L")
    case True
    then have "cell pipe (unat head + j) = byte_at f (unat head + j)" by (simp add: cell_def f_def L_def)
    moreover have "\<not> unat head + j < length data - l" "j < l \<longleftrightarrow> j < length data" using lc hn True by auto
    ultimately show ?thesis using True L(1) by (simp add: at)
  next
    case False
    define k where "k = unat head + j - L"
    have "cell pipe (unat head + j) = byte_at f k"
      using False j h by (simp add: cell_def f_def L_def k_def mod_add_lt)
    moreover have "k < length data - l \<longleftrightarrow> j < length data" "j < length data \<Longrightarrow> l + k = j" "k < unat head"
      using lc hn False j by (auto simp: k_def L_def)
    ultimately show ?thesis using hn(1) L(1) by (simp add: at)
  qed
  have "m' (byte_at f k) = m (byte_at f k)" if "L \<le> k" "k < 2 ^ 64" for k
    using at[OF that(2)] that(1) lc hn by auto
  then show "same_on m m' (fifo pipe) (unat (plen pipe)) (2 ^ 64)"
    unfolding same_on_def f_def[symmetric] L_def[symmetric] by blast
qed

section \<open>The operations on the content\<close>

lemma pipe_okD:
  assumes "pipe_ok pipe m"
  defines "L \<equiv> unat (plen pipe)"
  shows "pipe_layout pipe" "head_of m pipe < L" "tail_of m pipe < L" "8 dvd head_of m pipe"
    "used m pipe < L" "(tail_of m pipe + used m pipe) mod L = head_of m pipe"
proof -
  show "pipe_layout pipe" "head_of m pipe < L" "tail_of m pipe < L" "8 dvd head_of m pipe"
    using assms by (auto simp: pipe_ok_def L_def)
  then show "used m pipe < L" "(tail_of m pipe + used m pipe) mod L = head_of m pipe"
    unfolding used_def L_def[symmetric] by (auto simp: mod_if)
qed

lemma cell_cong: "a mod unat (plen pipe) = b mod unat (plen pipe) \<Longrightarrow> cell pipe a = cell pipe b"
  by (simp add: cell_def)

lemma length_content [simp]: "length (content m pipe) = used m pipe"
  by (simp add: content_def)

lemma nth_content: "i < used m pipe \<Longrightarrow> content m pipe ! i = m (cell pipe (tail_of m pipe + i))"
  by (simp add: content_def)

lemma rx_avail_used:
  assumes "pipe_ok pipe m"
  shows "unat (rx_avail_len m pipe) = used m pipe"
proof -
  note D = pipe_okD[OF assms]
  define hw tw where "hw = load32 m (head_p pipe)" and "tw = load32 m (tail_p pipe)"
  have ht: "unat hw = head_of m pipe" "unat tw = tail_of m pipe"
    by (simp_all add: hw_def tw_def head_of_def tail_of_def)
  have 1: "unat (plen pipe - ucast tw + ucast hw) = unat (plen pipe) - unat tw + unat hw" if "hw < tw"
  proof -
    have "unat (plen pipe - ucast tw) = unat (plen pipe) - unat tw"
      using D(3) ht by (simp add: unat_sub word_le_nat_alt)
    then show ?thesis
      using D(2,3) ht pipe_layoutD(2)[OF D(1)] by (subst unat_add_lem[THEN iffD1]) auto
  qed
  have 2: "unat (hw - tw) = unat hw - unat tw" if "\<not> hw < tw" using that by (simp add: unat_sub)
  show ?thesis
    unfolding rx_avail_len_def Let_def hw_def[symmetric] tw_def[symmetric] used_def ht[symmetric]
    using D(2,3) 1 2 ht by (auto simp: word_less_nat_alt mod_if)
qed

lemma tx_avail_used:
  assumes "pipe_ok pipe m"
  shows "unat (glink_smem_tx_avail m pipe) = unat (plen pipe) - used m pipe - 16"
proof -
  note D = pipe_okD[OF assms] and L = pipe_layoutD(2)[OF pipe_okD(1)[OF assms]]
  define hw tw where "hw = load32 m (head_p pipe)" and "tw = load32 m (tail_p pipe)"
  have ht: "unat hw = head_of m pipe" "unat tw = tail_of m pipe"
    by (simp_all add: hw_def tw_def head_of_def tail_of_def)
  define a where "a = (if tw \<le> hw then ucast (plen pipe - ucast hw + ucast tw) else tw - hw)"
  have "unat (plen pipe - ucast hw + ucast tw) = unat (plen pipe) - unat hw + unat tw" if "tw \<le> hw"
  proof -
    have "unat (plen pipe - ucast hw) = unat (plen pipe) - unat hw"
      using D(2) ht by (simp add: unat_sub word_le_nat_alt)
    then show ?thesis using D(2,3) ht L by (subst unat_add_lem[THEN iffD1]) auto
  qed
  then have a: "unat a = unat (plen pipe) - used m pipe"
    using D(2,3) ht L unfolding a_def used_def ht[symmetric]
    by (auto simp: unat_ucast_down unat_sub word_le_nat_alt mod_if)
  show ?thesis
    unfolding glink_smem_tx_avail_def Let_def hw_def[symmetric] tw_def[symmetric] a_def[symmetric]
    using a by (auto simp: word_less_nat_alt unat_sub word_le_nat_alt)
qed

lemma rx_peak_content:
  assumes P: "pipe_ok pipe m" and n: "unat off + unat count \<le> used m pipe"
  shows "glink_smem_rx_peak m pipe off count = Some (take (unat count) (drop (unat off) (content m pipe)))"
proof -
  note D = pipe_okD[OF P]
  define L t o' c where "L = unat (plen pipe)" and "t = tail_of m pipe" and "o' = unat off" and "c = unat count"
  have L: "L < 2 ^ 31" "t < L" "o' + c \<le> used m pipe" "used m pipe < L" "t + o' < 2 ^ 32"
    using D n pipe_layoutD(2)[OF D(1)] by (auto simp: L_def t_def o'_def c_def)
  define tw where "tw = load32 m (tail_p pipe)"
  have tw: "unat tw = t" by (simp add: tw_def t_def tail_of_def)
  define tl where "tl = (if ucast (tw + off) \<ge> plen pipe then tw + off - ucast (plen pipe) else tw + off)"
  have sum: "unat (tw + off) = t + o'"
    using L tw by (subst unat_add_lem[THEN iffD1]) (auto simp: o'_def)
  have pl: "unat (ucast (plen pipe) :: u32) = L" using L by (simp add: unat_ucast_down L_def)
  have tl: "unat tl = (t + o') mod L"
    using sum pl L by (auto simp: tl_def word_le_nat_alt L_def unat_sub mod_if)
  have tlL: "unat tl < L" using tl L by simp
  define len where "len = min count (plen pipe - ucast tl)"
  have len: "unat len = min c (L - unat tl)"
    using tlL by (simp add: len_def c_def L_def min_def word_le_nat_alt unat_sub)
  have rest: "unat (count - len) = c - unat len"
    by (simp add: len_def c_def unat_sub)
  have "\<not> plen pipe < ucast tw" using L tw by (simp add: word_less_nat_alt L_def)
  then have eq: "glink_smem_rx_peak m pipe off count =
      Some (mem_bytes m (byte_at (fifo pipe) (unat tl)) (unat len) @ mem_bytes m (byte_at (fifo pipe) 0) (c - unat len))"
    unfolding glink_smem_rx_peak_def Let_def tw_def[symmetric] tl_def[symmetric] len_def[symmetric]
      rest byte_at_ucast at_0 by simp
  have "mem_bytes m (byte_at (fifo pipe) (unat tl)) (unat len) @ mem_bytes m (byte_at (fifo pipe) 0) (c - unat len) =
      take c (drop o' (content m pipe))" (is "?l = ?r")
  proof (rule nth_equalityI)
    show "length ?l = length ?r" using len L by simp
    fix i assume "i < length ?l"
    then have i: "i < c" using len by simp
    then have r: "?r ! i = m (byte_at (fifo pipe) ((t + o' + i) mod L))"
      using L by (simp add: nth_content cell_def t_def L_def add.assoc)
    show "?l ! i = ?r ! i"
    proof (cases "i < unat len")
      case True
      then have "(t + o' + i) mod L = unat tl + i" using len tl tlL by (metis mod_add_left_eq mod_less less_diff_conv add.commute min.strict_boundedE)
      then show ?thesis using True r by (simp add: nth_append nth_mem_bytes mem_simps)
    next
      case False
      then have "unat len = L - unat tl" using len i by auto
      moreover have "(t + o' + i) mod L = (unat tl + i) mod L" by (simp add: tl mod_simps)
      ultimately have "(t + o' + i) mod L = i - unat len"
        using False i L(3,4) tlL by (simp add: le_mod_geq)
      then show ?thesis using False i r by (simp add: nth_append nth_mem_bytes mem_simps)
    qed
  qed
  then show ?thesis using eq by (simp add: c_def o'_def)
qed

text \<open>A memory with the same buffer and the tail moved by \<open>n\<close> over bytes of the content.\<close>

lemma content_drop:
  assumes P: "pipe_ok pipe m" and n: "n \<le> used m pipe"
    and same: "same_on m m' (fifo pipe) 0 (unat (plen pipe))"
    and h: "head_of m' pipe = head_of m pipe" and t: "tail_of m' pipe = (tail_of m pipe + n) mod unat (plen pipe)"
  shows "pipe_ok pipe m'" "content m' pipe = drop n (content m pipe)"
proof -
  note D = pipe_okD[OF P]
  define L where "L = unat (plen pipe)"
  have L: "0 < L" using pipe_layoutD(1)[OF D(1)] by (simp add: L_def)
  then show ok: "pipe_ok pipe m'" using D h t by (simp add: pipe_ok_def L_def)
  have u: "used m' pipe = used m pipe - n"
    using D(2,3) n L unfolding used_def h t L_def[symmetric]
    by (cases "tail_of m pipe + n < L") (auto simp: dist_if le_mod_geq split: if_splits)
  show "content m' pipe = drop n (content m pipe)"
  proof (rule nth_equalityI)
    fix i assume "i < length (content m' pipe)"
    then have i: "i < used m pipe - n" using u by simp
    have "cell pipe (tail_of m' pipe + i) = cell pipe (tail_of m pipe + (n + i))"
      unfolding t by (intro cell_cong) (simp add: mod_simps add.assoc)
    then show "content m' pipe ! i = drop n (content m pipe) ! i"
      using i u by (simp add: nth_content cell_same[OF same D(1)])
  qed (simp add: u)
qed

lemma rx_advance_content:
  assumes P: "pipe_ok pipe m" and n: "unat count \<le> used m pipe"
  shows "pipe_ok pipe (glink_smem_rx_advance m pipe count)"
    "content (glink_smem_rx_advance m pipe count) pipe = drop (unat count) (content m pipe)"
proof -
  note D = pipe_okD[OF P] and L = pipe_layoutD(2)[OF pipe_okD(1)[OF P]]
  define tw where "tw = load32 m (tail_p pipe)"
  define tn where "tn = (if ucast (tw + ucast count) \<ge> plen pipe
    then ucast ((ucast (tw + ucast count) :: u64) mod plen pipe) else tw + ucast count)"
  have tw: "unat tw = tail_of m pipe" by (simp add: tw_def tail_of_def)
  have "unat (ucast count :: u32) = unat count" using n D(5) L by (intro unat_ucast_down) simp
  then have sum: "unat (tw + ucast count) = tail_of m pipe + unat count"
    using tw n D(3,5) L by (subst unat_add_lem[THEN iffD1]) auto
  have "unat ((ucast (tw + ucast count) :: u64) mod plen pipe) = (tail_of m pipe + unat count) mod unat (plen pipe)"
    using sum by (simp add: unat_mod)
  moreover from this have "unat (ucast ((ucast (tw + ucast count) :: u64) mod plen pipe) :: u32) =
      unat ((ucast (tw + ucast count) :: u64) mod plen pipe)"
    using L D(3) by (intro unat_ucast_down) (simp add: less_trans[OF mod_less_divisor])
  ultimately have tn: "unat tn = (tail_of m pipe + unat count) mod unat (plen pipe)"
    using sum by (auto simp: tn_def word_le_nat_alt)
  have eq: "glink_smem_rx_advance m pipe count = store32 m (tail_p pipe) tn"
    by (simp add: glink_smem_rx_advance_def Let_def tw_def tn_def)
  note C = content_drop[OF P n store_index(2)[OF D(1)], of tn]
  show "pipe_ok pipe (glink_smem_rx_advance m pipe count)"
    "content (glink_smem_rx_advance m pipe count) pipe = drop (unat count) (content m pipe)"
    unfolding eq using C tn by (simp_all add: head_of_def tail_of_def store_index[OF D(1)])
qed

text \<open>The two writes of a message at the head.\<close>

lemma tx_write_two:
  assumes lay: "pipe_layout pipe" and h: "unat head < unat (plen pipe)"
    and n: "length hdr + length data < unat (plen pipe)"
    and w1: "glink_smem_tx_write_one m pipe head hdr = (m1, head1)"
    and w2: "glink_smem_tx_write_one m1 pipe head1 data = (m2, head2)"
  shows "unat head2 = (unat head + length (hdr @ data)) mod unat (plen pipe)"
    "j < unat (plen pipe) \<Longrightarrow> m2 (cell pipe (unat head + j)) =
      (if j < length (hdr @ data) then (hdr @ data) ! j else m (cell pipe (unat head + j)))"
    "same_on m m2 (fifo pipe) (unat (plen pipe)) (2 ^ 64)"
proof -
  define L where "L = unat (plen pipe)"
  have L: "0 < L" using pipe_layoutD(1)[OF lay] by (simp add: L_def)
  have n1: "length hdr < unat (plen pipe)" and n2: "length data < unat (plen pipe)" using n by auto
  note A = tx_write_one_eq[OF lay h n1 w1]
  have h1: "unat head1 < unat (plen pipe)" using A(1) L by (simp add: L_def)
  note B = tx_write_one_eq[OF lay h1 n2 w2]
  show "unat head2 = (unat head + length (hdr @ data)) mod unat (plen pipe)"
    using A(1) B(1) by (simp add: mod_simps add.assoc)
  show "same_on m m2 (fifo pipe) (unat (plen pipe)) (2 ^ 64)" by (rule same_on_trans[OF A(3) B(3)])
  show "m2 (cell pipe (unat head + j)) =
      (if j < length (hdr @ data) then (hdr @ data) ! j else m (cell pipe (unat head + j)))"
    if j: "j < unat (plen pipe)"
  proof -
    define k where "k = (if length hdr \<le> j then j - length hdr else L - length hdr + j)"
    have k: "k < L" using j n by (auto simp: k_def L_def)
    have "cell pipe (unat head + j) = cell pipe (unat head1 + k)"
      unfolding A(1) using n1 by (intro cell_cong) (auto simp: k_def L_def mod_simps mod_skip)
    moreover have "m2 (cell pipe (unat head1 + k)) = (if k < length data then data ! k else m1 (cell pipe (unat head1 + k)))"
      using B(2) k by (simp add: L_def)
    moreover have "k < length data \<longleftrightarrow> length hdr \<le> j \<and> j < length hdr + length data"
      using n by (auto simp: k_def L_def)
    ultimately show ?thesis using A(2)[OF j] by (auto simp: nth_append k_def)
  qed
qed

text \<open>The content after bytes were put behind the head and the head was moved over them.\<close>

lemma content_append:
  assumes P: "pipe_ok pipe m" and n: "used m pipe + length bs < unat (plen pipe)" and dvd: "8 dvd length bs"
    and cells: "\<And>j. j < unat (plen pipe) \<Longrightarrow> m' (cell pipe (head_of m pipe + j)) =
      (if j < length bs then bs ! j else m (cell pipe (head_of m pipe + j)))"
    and t: "tail_of m' pipe = tail_of m pipe"
    and h: "head_of m' pipe = (head_of m pipe + length bs) mod unat (plen pipe)"
  shows "pipe_ok pipe m'" "content m' pipe = content m pipe @ bs"
proof -
  note D = pipe_okD[OF P]
  define L u where "L = unat (plen pipe)" and "u = used m pipe"
  have L: "0 < L" "8 dvd L" using pipe_layoutD[OF D(1)] by (simp_all add: L_def)
  have "8 dvd head_of m' pipe"
    unfolding h L_def[symmetric] using L(2) dvd D(4) by (simp add: dvd_mod)
  then show "pipe_ok pipe m'" using D L t h by (simp add: pipe_ok_def L_def)
  have u': "used m' pipe = u + length bs"
    using D(2,3) n unfolding used_def h t u_def L_def[symmetric]
    by (cases "head_of m pipe + length bs < L") (auto simp: dist_if le_mod_geq split: if_splits)
  have cu: "cell pipe (tail_of m pipe + (u + j)) = cell pipe (head_of m pipe + j)" for j
    using D(6) by (intro cell_cong) (metis add.assoc mod_add_left_eq u_def)
  show "content m' pipe = content m pipe @ bs"
  proof (rule nth_equalityI)
    fix i assume "i < length (content m' pipe)"
    then have i: "i < u + length bs" using u' by simp
    show "content m' pipe ! i = (content m pipe @ bs) ! i"
    proof (cases "i < u")
      case True
      have "cell pipe (tail_of m pipe + i) = cell pipe (tail_of m pipe + (u + (L - u + i)))"
        using D(5) by (intro cell_cong) (simp add: u_def L_def mod_skip)
      then have "cell pipe (tail_of m pipe + i) = cell pipe (head_of m pipe + (L - u + i))" by (simp only: cu)
      moreover have "L - u + i < L" "\<not> L - u + i < length bs" using True n D(5) by (auto simp: u_def L_def)
      ultimately show ?thesis
        using True u' t cells[of "L - u + i", folded L_def]
        by (simp add: nth_append nth_content del: add_diff_assoc add_diff_assoc2 flip: u_def)
    next
      case False
      define j where "j = i - u"
      have j: "i = u + j" "j < length bs" "j < unat (plen pipe)" using False i n by (auto simp: j_def)
      then show ?thesis
        using u' t cu[of j] cells[OF j(3)] by (simp add: nth_append nth_content flip: u_def)
    qed
  qed (simp add: u' u_def)
qed

lemma align8_mod:
  assumes "8 dvd L" "8 dvd h"
  shows "align8 ((h + n) mod L) mod L = (h + align8 n) mod L"
proof -
  obtain a b where ab: "h = 8 * a" "L = 8 * b" using assms by (auto elim!: dvdE)
  define q r e where "q = n div 8" and "r = n mod 8" and "e = (r + 7) div 8"
  have n: "n = 8 * q + r" "r < 8" by (simp_all add: q_def r_def)
  have al: "align8 (8 * k + r) = 8 * (k + e)" for k by (simp add: align8_def e_def add.assoc)
  have "(h + n) mod L = 8 * ((h + n) div 8 mod b) + (h + n) mod 8" unfolding ab by (rule mod_mult2_eq)
  moreover have "(h + n) div 8 = a + q" "(h + n) mod 8 = r" using n by (simp_all add: ab)
  ultimately have "align8 ((h + n) mod L) = 8 * ((a + q) mod b + e)" by (simp only: al)
  then have "align8 ((h + n) mod L) mod L = 8 * (((a + q) mod b + e) mod b)"
    unfolding ab by (simp only: mult_mod_right)
  also have "\<dots> = 8 * ((a + q + e) mod b)" by (simp only: mod_add_left_eq)
  also have "\<dots> = (8 * (a + q + e)) mod (8 * b)" by (simp only: mult_mod_right)
  also have "8 * (a + q + e) = h + align8 n" using al[of q] n(1) ab(1) by simp
  finally show ?thesis by (simp only: ab)
qed

lemma align8_le: "8 dvd L \<Longrightarrow> n \<le> L \<Longrightarrow> align8 n \<le> L"
  unfolding align8_def by presburger

lemma tx_write_content:
  assumes P: "pipe_ok pipe m" and n: "length hdr + length data \<le> unat (glink_smem_tx_avail m pipe)"
  shows "pipe_ok pipe (glink_smem_tx_write m pipe hdr data)"
    "\<exists>pad. length (hdr @ data @ pad) = align8 (length (hdr @ data)) \<and>
      content (glink_smem_tx_write m pipe hdr data) pipe = content m pipe @ hdr @ data @ pad"
proof -
  note D = pipe_okD[OF P] and L = pipe_layoutD[OF pipe_okD(1)[OF P]]
  define hw where "hw = load32 m (head_p pipe)"
  have hw: "unat hw = head_of m pipe" by (simp add: hw_def head_of_def)
  obtain m1 h1 m2 h2 where w: "glink_smem_tx_write_one m pipe hw hdr = (m1, h1)"
    "glink_smem_tx_write_one m1 pipe h1 data = (m2, h2)" by (metis prod.exhaust)
  have room: "length hdr + length data + 16 + used m pipe \<le> unat (plen pipe) \<or> length hdr + length data = 0"
    using n tx_avail_used[OF P] by linarith
  then have n': "length hdr + length data < unat (plen pipe)" using L(1) by linarith
  have hl: "unat hw < unat (plen pipe)" using hw D(2) by simp
  note W = tx_write_two[OF D(1) hl n' w]
  define h4 where "h4 = (if ucast (ALIGN h2 8) \<ge> plen pipe then ALIGN h2 8 - ucast (plen pipe) else ALIGN h2 8)"
  have eq: "glink_smem_tx_write m pipe hdr data = store32 m2 (head_p pipe) h4"
    using w by (simp add: glink_smem_tx_write_def Let_def hw_def h4_def)
  have h2: "unat h2 = (head_of m pipe + length (hdr @ data)) mod unat (plen pipe)" using W(1) hw by simp
  then have h2L: "unat h2 < unat (plen pipe)" using L(1) by simp
  have al: "unat (ALIGN h2 8) = align8 (unat h2)" using h2L L(2) by (intro unat_ALIGN8) auto
  have pl: "unat (ucast (plen pipe) :: u32) = unat (plen pipe)" using L(2) by (simp add: unat_ucast_down)
  have le: "align8 (unat h2) \<le> unat (plen pipe)"
    using align8_le[OF L(3)] h2L by simp
  have "unat h4 = align8 (unat h2) mod unat (plen pipe)"
    using le al pl L(1) by (auto simp: h4_def word_le_nat_alt unat_sub)
  then have h4: "unat h4 = (head_of m pipe + align8 (length (hdr @ data))) mod unat (plen pipe)"
    unfolding h2 using align8_mod[OF L(3) D(4)] by simp
  define bs where "bs = hdr @ data @ map (\<lambda>j. m (cell pipe (head_of m pipe + j))) [length (hdr @ data)..<align8 (length (hdr @ data))]"
  have lb: "length bs = align8 (length (hdr @ data))" using align8_ge[of "length (hdr @ data)"] by (simp add: bs_def)
  have S: "same_on m2 (store32 m2 (head_p pipe) h4) (fifo pipe) 0 (unat (plen pipe))"
    "load32 (store32 m2 (head_p pipe) h4) (tail_p pipe) = load32 m2 (tail_p pipe)"
    using store_index[OF D(1)] by auto
  obtain e where e: "tail_p pipe = byte_at (fifo pipe) e" "unat (plen pipe) \<le> e" "e + 4 \<le> 2 ^ 64"
    using ptr_diff_at[OF L(6,7)] .
  have tl: "load32 m2 (tail_p pipe) = load32 m (tail_p pipe)"
    unfolding e(1) using e W(3) by (intro load32_same)
  have C: "used m pipe + length bs < unat (plen pipe)" "8 dvd length bs"
    using room lb align8_less[of "length (hdr @ data)"] align8_dvd D(5) by (auto simp: align8_def)
  have cells: "store32 m2 (head_p pipe) h4 (cell pipe (head_of m pipe + j)) =
      (if j < length bs then bs ! j else m (cell pipe (head_of m pipe + j)))" if j: "j < unat (plen pipe)" for j
    using W(2)[OF j] lb unfolding cell_same[OF S(1) D(1)] hw by (auto simp: bs_def nth_append)
  note A = content_append[OF P C cells]
  show "pipe_ok pipe (glink_smem_tx_write m pipe hdr data)"
    unfolding eq by (rule A(1)) (simp_all add: tail_of_def head_of_def S tl h4[unfolded head_of_def] lb)
  have "content (glink_smem_tx_write m pipe hdr data) pipe = content m pipe @ bs"
    unfolding eq by (rule A(2)) (simp_all add: tail_of_def head_of_def S tl h4[unfolded head_of_def] lb)
  then show "\<exists>pad. length (hdr @ data @ pad) = align8 (length (hdr @ data)) \<and>
      content (glink_smem_tx_write m pipe hdr data) pipe = content m pipe @ hdr @ data @ pad"
    using lb unfolding bs_def by blast
qed

section \<open>The interface of a pipe\<close>

text \<open>
  The receiving and the sending side of GLINK use a pipe only through its \<open>avail\<close>, \<open>peak\<close>, \<open>advance\<close> and
  \<open>write\<close> operations. A message is written as a header and a body and padded to a multiple of 8; the
  receiver peeks at it and advances over it and its padding.
\<close>

datatype 'a pipe_event = Send "'a list" "'a list" | Recv nat

text \<open>
  Sender and receiver interleaved. A \<open>Send\<close> without room ends the run with \<open>EAGAIN\<close>, a \<open>Recv\<close> of bytes
  that are not there with \<open>EINVAL\<close>; the result holds the messages received.
\<close>

fun pipe_run ::
  "('s \<Rightarrow> nat) \<Rightarrow> ('s \<Rightarrow> 'a list \<Rightarrow> 'a list \<Rightarrow> 's) \<Rightarrow> ('s \<Rightarrow> nat) \<Rightarrow> ('s \<Rightarrow> nat \<Rightarrow> nat \<Rightarrow> 'a list option) \<Rightarrow>
   ('s \<Rightarrow> nat \<Rightarrow> 's) \<Rightarrow> 's \<Rightarrow> 'a pipe_event list \<Rightarrow> ('s \<times> 'a list list) result" where
  "pipe_run room put avail peek advance s [] = Inr (s, [])"
| "pipe_run room put avail peek advance s (Send h d # es) =
     (if length h + length d \<le> room s then pipe_run room put avail peek advance (put s h d) es
      else Inl EAGAIN)"
| "pipe_run room put avail peek advance s (Recv n # es) =
     (if align8 n \<le> avail s then
        (case peek s 0 n of
           None \<Rightarrow> Inl EINVAL
         | Some msg \<Rightarrow> map_sum id (\<lambda>(s', ms). (s', msg # ms))
                          (pipe_run room put avail peek advance (advance s (align8 n)) es))
      else Inl EINVAL)"

text \<open>The same on a queue of messages.\<close>

fun queue_run :: "'a list list \<Rightarrow> 'a pipe_event list \<Rightarrow> ('a list list \<times> 'a list list) option" where
  "queue_run q [] = Some (q, [])"
| "queue_run q (Send h d # es) = queue_run (q @ [h @ d]) es"
| "queue_run [] (Recv n # es) = None"
| "queue_run (msg # q) (Recv n # es) =
     (if n = length msg then map_option (\<lambda>(q', ms). (q', msg # ms)) (queue_run q es) else None)"

text \<open>A byte string that is the messages of a queue, each padded to a multiple of 8.\<close>

fun framed :: "'a list list \<Rightarrow> 'a list \<Rightarrow> bool" where
  "framed [] bs \<longleftrightarrow> bs = []"
| "framed (msg # q) bs \<longleftrightarrow>
     align8 (length msg) \<le> length bs \<and> take (length msg) bs = msg \<and> framed q (drop (align8 (length msg)) bs)"

lemma framed_append:
  "framed q bs \<Longrightarrow> length (msg @ pad) = align8 (length msg) \<Longrightarrow> framed (q @ [msg]) (bs @ msg @ pad)"
proof (induction q arbitrary: bs)
  case (Cons m q)
  then show ?case using align8_ge[of "length m"] by auto
qed auto

locale byte_pipe =
  fixes ok :: "'s \<Rightarrow> bool"
    and bytes :: "'s \<Rightarrow> 'a list"
    and room :: "'s \<Rightarrow> nat"
    and put :: "'s \<Rightarrow> 'a list \<Rightarrow> 'a list \<Rightarrow> 's"
    and avail :: "'s \<Rightarrow> nat"
    and peek :: "'s \<Rightarrow> nat \<Rightarrow> nat \<Rightarrow> 'a list option"
    and advance :: "'s \<Rightarrow> nat \<Rightarrow> 's"
  assumes avail_bytes: "ok s \<Longrightarrow> avail s = length (bytes s)"
    and peek_bytes: "ok s \<Longrightarrow> i + n \<le> length (bytes s) \<Longrightarrow> peek s i n = Some (take n (drop i (bytes s)))"
    and advance_ok: "ok s \<Longrightarrow> n \<le> length (bytes s) \<Longrightarrow> ok (advance s n)"
    and advance_bytes: "ok s \<Longrightarrow> n \<le> length (bytes s) \<Longrightarrow> bytes (advance s n) = drop n (bytes s)"
    and write_ok: "ok s \<Longrightarrow> length h + length d \<le> room s \<Longrightarrow> ok (put s h d)"
    and write_bytes: "ok s \<Longrightarrow> length h + length d \<le> room s \<Longrightarrow>
      \<exists>pad. length (h @ d @ pad) = align8 (length (h @ d)) \<and> bytes (put s h d) = bytes s @ h @ d @ pad"
begin

lemma run_in_order:
  assumes "ok s" "framed q (bytes s)" "queue_run q es = Some (q', ms)"
  shows "pipe_run room put avail peek advance s es = Inl EAGAIN \<or>
    (\<exists>s'. pipe_run room put avail peek advance s es = Inr (s', ms) \<and> ok s' \<and> framed q' (bytes s'))"
  using assms
proof (induction q es arbitrary: s ms rule: queue_run.induct)
  case (2 q h d es)
  show ?case
  proof (cases "length h + length d \<le> room s")
    case True
    obtain pad where "length (h @ d @ pad) = align8 (length (h @ d))" "bytes (put s h d) = bytes s @ h @ d @ pad"
      using write_bytes[OF 2(2) True] by blast
    then have "framed (q @ [h @ d]) (bytes (put s h d))"
      using framed_append[OF 2(3), of "h @ d" pad] by simp
    then show ?thesis using 2 True write_ok[OF 2(2) True] by simp
  qed simp
next
  case (4 msg q n es)
  then have n: "n = length msg" and q: "\<exists>ms'. queue_run q es = Some (q', ms') \<and> ms = msg # ms'"
    by (auto split: if_splits)
  then obtain ms' where ms: "queue_run q es = Some (q', ms')" "ms = msg # ms'" by blast
  have b: "align8 n \<le> length (bytes s)" "take n (bytes s) = msg" "framed q (drop (align8 n) (bytes s))"
    using 4(3) n by auto
  have "peek s 0 n = Some msg" using peek_bytes[OF 4(2), of 0 n] b align8_ge[of n] by simp
  moreover have "ok (advance s (align8 n))" "bytes (advance s (align8 n)) = drop (align8 n) (bytes s)"
    using advance_ok[OF 4(2) b(1)] advance_bytes[OF 4(2) b(1)] by auto
  ultimately show ?case
    using 4(1)[OF n, of "advance s (align8 n)" ms'] ms b avail_bytes[OF 4(2)] by auto
qed auto

end

interpretation smem_pipe: byte_pipe "pipe_ok pipe" "\<lambda>m. content m pipe"
  "\<lambda>m. unat (glink_smem_tx_avail m pipe)" "\<lambda>m. glink_smem_tx_write m pipe"
  "\<lambda>m. unat (rx_avail_len m pipe)" "\<lambda>m i n. glink_smem_rx_peak m pipe (of_nat i) (of_nat n)"
  "\<lambda>m n. glink_smem_rx_advance m pipe (of_nat n)" for pipe
proof (unfold_locales, goal_cases)
  case (1 m)
  then show ?case by (simp add: rx_avail_used)
next
  case (2 m i n)
  have "used m pipe < 2 ^ 31" using pipe_okD[OF 2(1)] pipe_layoutD(2)[of pipe] by simp
  then have "unat (of_nat i :: u32) = i" "unat (of_nat n :: u64) = n" using 2(2) by (simp_all add: unat_of_nat)
  then show ?case using rx_peak_content[OF 2(1), of "of_nat i" "of_nat n"] 2(2) by simp
next
  case (3 m n)
  have "used m pipe < 2 ^ 31" using pipe_okD[OF 3(1)] pipe_layoutD(2)[of pipe] by simp
  then have "unat (of_nat n :: u64) = n" using 3(2) by (simp add: unat_of_nat)
  then show ?case using rx_advance_content(1)[OF 3(1), of "of_nat n"] 3(2) by simp
next
  case (4 m n)
  have "used m pipe < 2 ^ 31" using pipe_okD[OF 4(1)] pipe_layoutD(2)[of pipe] by simp
  then have "unat (of_nat n :: u64) = n" using 4(2) by (simp add: unat_of_nat)
  then show ?case using rx_advance_content(2)[OF 4(1), of "of_nat n"] 4(2) by simp
next
  case (5 m h d)
  then show ?case using tx_write_content(1) by blast
next
  case (6 m h d)
  then show ?case using tx_write_content(2) by blast
qed

section \<open>Corrupted indices\<close>

text \<open>The remote side can write anything into the index words; the accesses stay inside the buffer.\<close>

lemma tx_write_one_frame:
  assumes L: "unat (plen pipe) < 2 ^ 31" and n: "length data \<le> unat (plen pipe)"
    and ret: "glink_smem_tx_write_one m pipe head data = (m', head')"
  shows "same_on m m' (fifo pipe) (unat (plen pipe)) (2 ^ 64)"
proof (cases "ucast head > plen pipe")
  case True
  then show ?thesis using ret by (simp add: glink_smem_tx_write_one_def)
next
  case False
  define l where "l = min (of_nat (length data)) (plen pipe - ucast head)"
  have h: "unat head \<le> unat (plen pipe)" using False by (simp add: word_less_nat_alt)
  have cnt: "unat (of_nat (length data) :: u64) = length data" using n L by (simp add: unat_of_nat)
  have l: "unat l \<le> unat (plen pipe) - unat head"
    using h cnt by (simp add: l_def min_def word_le_nat_alt unat_sub)
  have m': "m' = memcpy_to (memcpy_to m (byte_at (fifo pipe) (unat head)) (take (unat l) data))
      (byte_at (fifo pipe) 0) (drop (unat l) data)"
    using ret False unfolding glink_smem_tx_write_one_def Let_def l_def[symmetric] byte_at_ucast at_0 by simp
  show ?thesis
    unfolding m' using l h L n by (intro same_on_trans[OF same_on_memcpy_to same_on_memcpy_to]) auto
qed

lemma rx_peak_bytes:
  assumes L: "unat (plen pipe) < 2 ^ 31" and n: "unat off \<le> unat (plen pipe)" "unat count \<le> unat (plen pipe)"
    and ret: "glink_smem_rx_peak m pipe off count = Some bs"
  shows "length bs = unat count \<and> (\<forall>i < length bs. \<exists>k < unat (plen pipe). bs ! i = m (byte_at (fifo pipe) k))"
proof -
  define tw where "tw = load32 m (tail_p pipe)"
  define tl where "tl = (if ucast (tw + off) \<ge> plen pipe then tw + off - ucast (plen pipe) else tw + off)"
  define len where "len = min count (plen pipe - ucast tl)"
  have ok: "\<not> plen pipe < ucast tw"
    and bs: "bs = mem_bytes m (byte_at (fifo pipe) (unat tl)) (unat len) @ mem_bytes m (byte_at (fifo pipe) 0) (unat (count - len))"
    using ret unfolding glink_smem_rx_peak_def Let_def tw_def[symmetric] tl_def[symmetric] len_def[symmetric]
      byte_at_ucast at_0 by (simp_all split: if_splits)
  have sum: "unat (tw + off) = unat tw + unat off"
    using ok n L by (subst unat_add_lem[THEN iffD1]) (auto simp: word_less_nat_alt)
  have pl: "unat (ucast (plen pipe) :: u32) = unat (plen pipe)" using L by (simp add: unat_ucast_down)
  have tl: "unat tl \<le> unat (plen pipe)"
    using ok n sum pl by (auto simp: tl_def word_le_nat_alt word_less_nat_alt unat_sub)
  then have len: "unat len \<le> unat (plen pipe) - unat tl" "unat len \<le> unat count"
    by (auto simp: len_def min_def word_le_nat_alt unat_sub)
  have rest: "unat (count - len) = unat count - unat len" by (simp add: len_def unat_sub)
  show ?thesis
  proof (intro conjI allI impI)
    show "length bs = unat count" using len rest by (simp add: bs)
    fix i assume i: "i < length bs"
    show "\<exists>k < unat (plen pipe). bs ! i = m (byte_at (fifo pipe) k)"
    proof (cases "i < unat len")
      case True
      then show ?thesis using len by (intro exI[of _ "unat tl + i"]) (simp add: bs nth_append nth_mem_bytes mem_simps)
    next
      case False
      then show ?thesis using len rest n i
        by (intro exI[of _ "i - unat len"]) (auto simp: bs nth_append nth_mem_bytes mem_simps)
    qed
  qed
qed

section \<open>A freshly registered edge\<close>

lemma register_layout:
  assumes "unat b + k + 64 + 2 ^ 20 < 2 ^ 64" and f: "f = k + 48"
  shows "pipe_layout (tx_pipe_init (byte_at b k) (byte_at b f) 0x4000 pid)"
proof -
  have d: "byte_at b k - byte_at b (k + 48) = - 48" "byte_at b k + 4 - byte_at b (k + 48) = - 44"
    by (simp_all add: byte_at_def)
  have "unat (byte_at b (k + 48)) = unat b + (k + 48)" using assms by (intro unat_at) simp
  then have "byte_at b (k + 48) \<noteq> 0" by (metis add_is_0 unat_0 zero_neq_numeral)
  then show ?thesis by (simp add: pipe_layout_def tx_pipe_init_def d f)
qed

lemma fresh_alloc:
  assumes P: "partition_ok m smem entry its" and sel: "select_partition smem host = Some entry"
    and item: "8 \<le> item" "item < item_count smem" "item < 2 ^ 16" and sz: "unat sz < 2 ^ 32 - 8" "0 < sz"
    and new: "item \<notin> (\<lambda>it. ucast (it_item it)) ` set its"
    and room: "uncached_end its + 16 + align8 (unat sz) \<le> cached_limit m smem entry"
  obtains m' where "smem_alloc_existing m (Some smem) None host item sz = Some (Inr m')"
    "qcom_smem_get m' (Some smem) None host item True =
       Some (Inr (byte_at (ptable_entry_to_phdr m smem entry) (uncached_end its + 16), Some sz))"
    "partition_ok m' smem entry (its @ [new_item item sz])"
    "cached_limit m' smem entry = cached_limit m smem entry"
    "ptable_entry_to_phdr m' smem entry = ptable_entry_to_phdr m smem entry"
proof -
  have "spec_alloc (cached_limit m smem entry) its item sz = Inr (its @ [new_item item sz])"
    using new room by (simp add: spec_alloc_def)
  with alloc_private_refines[OF P sz(1), of item] obtain m' where
    a: "qcom_smem_alloc_private m smem entry item sz = Some (Inr m')" and
    r: "partition_ok m' smem entry (its @ [new_item item sz])" "cached_limit m' smem entry = cached_limit m smem entry"
      "ptable_entry_to_phdr m' smem entry = ptable_entry_to_phdr m smem entry" by auto
  show thesis
    using that[OF _ _ r] alloc_then_get[OF P sz item(3) a] a item
    by (simp add: smem_alloc_existing_def smem_alloc_part[OF sel] smem_get_part[OF sel] not_le[symmetric])
qed

section \<open>Properties of the pipes\<close>

abbreviation smem_pipe_run ::
  "glink_smem_pipe \<Rightarrow> mem \<Rightarrow> u8 pipe_event list \<Rightarrow> (mem \<times> u8 list list) result" where
  "smem_pipe_run pipe \<equiv>
     pipe_run (\<lambda>m. unat (glink_smem_tx_avail m pipe)) (\<lambda>m. glink_smem_tx_write m pipe)
      (\<lambda>m. unat (rx_avail_len m pipe)) (\<lambda>m i n. glink_smem_rx_peak m pipe (of_nat i) (of_nat n))
      (\<lambda>m n. glink_smem_rx_advance m pipe (of_nat n))"

text \<open>A pipe with a 64-byte buffer and its indices behind it.\<close>

definition ex_pipe :: glink_smem_pipe where
  "ex_pipe = \<lparr>plen = 64, tail_p = 0x1040, head_p = 0x1044, fifo = 0x1000, remote_pid = 1\<rparr>"

lemma ex_pipe_ok: "pipe_ok ex_pipe (\<lambda>_. 0)" "content (\<lambda>_. 0) ex_pipe = []"
  by (simp_all add: pipe_ok_def pipe_layout_def ex_pipe_def head_of_def tail_of_def content_def used_def load32_def le32_def)

text \<open>C4. A pipe carries messages in order and unchanged. Take any interleaving of a sender, who writes a
  message only when \<open>tx_avail\<close> has room for it, and a receiver, who peeks at the next message and
  advances over it and its padding. If the receives are those a queue of messages would allow, then
  the run either stops at a send without room, or every receive returns exactly the message the queue
  returns, and the bytes left in the shared memory are the messages left in the queue.\<close>

theorem pipe_messages_in_order:
  assumes "pipe_ok pipe m" "framed q (content m pipe)" "queue_run q es = Some (q', ms)"
  shows "smem_pipe_run pipe m es = Inl EAGAIN \<or>
    (\<exists>m'. smem_pipe_run pipe m es = Inr (m', ms) \<and>
      pipe_ok pipe m' \<and> framed q' (content m' pipe))"
  by (rule smem_pipe.run_in_order[OF assms])

theorem pipe_messages_in_order_witness:
  "\<exists>m'. smem_pipe_run ex_pipe (\<lambda>_. 0)
      [Send [1, 2, 3] [4, 5], Send [6] [], Recv 5] = Inr (m', [[1, 2, 3, 4, 5]]) \<and> framed [[6]] (content m' ex_pipe)"
proof -
  have q: "queue_run [] [Send [1, 2, 3] [4, 5 :: u8], Send [6] [], Recv 5] = Some ([[6]], [[1, 2, 3, 4, 5]])" by simp
  have f: "framed [] (content (\<lambda>_. 0) ex_pipe)" by (simp add: ex_pipe_ok)
  define r where "r = smem_pipe_run ex_pipe (\<lambda>_. 0) [Send [1, 2, 3] [4, 5], Send [6] [], Recv 5]"
  have "(case r of Inl e \<Rightarrow> False | Inr _ \<Rightarrow> True)" unfolding r_def by code_simp
  then have "r \<noteq> Inl EAGAIN" by (auto split: sum.splits)
  with pipe_messages_in_order[OF ex_pipe_ok(1) f q] show ?thesis unfolding r_def by blast
qed

text \<open>C11. The operations of a pipe implement a queue of bytes: \<open>rx_avail\<close> is its length, \<open>tx_avail\<close> the
  free space without the 16 reserved bytes, \<open>peak\<close> returns the bytes at an offset, \<open>advance\<close> drops
  bytes, and \<open>write\<close> appends the header, the body and at most 7 bytes of padding.\<close>

theorem pipe_refines_byte_queue:
  assumes "pipe_ok pipe m"
  shows "glink_smem_rx_avail m smem lock pipe = Some (of_nat (length (content m pipe)), pipe) \<and>
    unat (glink_smem_tx_avail m pipe) = unat (plen pipe) - length (content m pipe) - 16 \<and>
    (unat off + unat count \<le> length (content m pipe) \<longrightarrow>
       glink_smem_rx_peak m pipe off count = Some (take (unat count) (drop (unat off) (content m pipe)))) \<and>
    (unat count \<le> length (content m pipe) \<longrightarrow>
       pipe_ok pipe (glink_smem_rx_advance m pipe count) \<and>
       content (glink_smem_rx_advance m pipe count) pipe = drop (unat count) (content m pipe)) \<and>
    (length hdr + length data \<le> unat (glink_smem_tx_avail m pipe) \<longrightarrow>
       pipe_ok pipe (glink_smem_tx_write m pipe hdr data) \<and>
       (\<exists>pad. length (hdr @ data @ pad) = align8 (length (hdr @ data)) \<and>
          content (glink_smem_tx_write m pipe hdr data) pipe = content m pipe @ hdr @ data @ pad))"
proof -
  have f: "fifo pipe \<noteq> 0" using assms by (simp add: pipe_ok_def pipe_layout_def)
  have "rx_avail_len m pipe = of_nat (length (content m pipe))"
    using rx_avail_used[OF assms] by (metis length_content word_nat_cases unat_of_nat of_nat_unat ucast_id)
  then have "glink_smem_rx_avail m smem lock pipe = Some (of_nat (length (content m pipe)), pipe)"
    using f by (simp add: glink_smem_rx_avail_def rx_fifo_lookup_def)
  then show ?thesis
    using tx_avail_used[OF assms] rx_peak_content[OF assms] rx_advance_content[OF assms]
      tx_write_content[OF assms] by auto
qed

theorem pipe_refines_byte_queue_witness:
  "glink_smem_rx_avail (\<lambda>_. 0) None None ex_pipe = Some (0, ex_pipe) \<and>
   content (glink_smem_tx_write (\<lambda>_. 0) ex_pipe [1, 2, 3, 4] [5, 6, 7, 8]) ex_pipe = [1, 2, 3, 4, 5, 6, 7, 8]"
proof -
  have "unat (glink_smem_tx_avail (\<lambda>_. 0) ex_pipe) = 48" by code_simp
  then show ?thesis
    using pipe_refines_byte_queue[OF ex_pipe_ok(1), of None None 0 0 "[1, 2, 3, 4]" "[5, 6, 7, 8]"] ex_pipe_ok(2)
    by (auto simp: align8_def)
qed

text \<open>C23. Registering an edge on a partition that has neither the descriptor nor the transmit fifo yet, and
  has room for both, succeeds: the transmit pipe is a 16 KiB buffer that does not overlap its index
  words, its head and the tail of the receive pipe are 0, and the receive fifo is still to be looked up.\<close>

theorem glink_register_fresh:
  assumes "partition_ok m smem entry its" "select_partition smem pid = Some entry" "480 < item_count smem"
    and "(478 :: u32) \<notin> (\<lambda>it. ucast (it_item it)) ` set its" "(479 :: u32) \<notin> (\<lambda>it. ucast (it_item it)) ` set its"
    and "uncached_end its + 0x4040 \<le> cached_limit m smem entry"
  shows "\<exists>m' rx tx. qcom_glink_smem_register m (Some smem) (\<lambda>_. None) None (Inr pid) True = Some (Inr (m', rx, tx)) \<and>
    pipe_layout tx \<and> plen tx = 0x4000 \<and> head_of m' tx = 0 \<and> tail_of m' rx = 0 \<and> fifo rx = 0"
proof -
  note P = assms(1) and sel = assms(2) and cnt = assms(3) and new = assms(4,5) and room = assms(6)
  define b e where "b = ptable_entry_to_phdr m smem entry" and "e = uncached_end its"
  have c: "478 < item_count smem" "479 < item_count smem" using cnt by (auto simp: word_less_nat_alt)
  obtain m1 where m1: "smem_alloc_existing m (Some smem) None pid 478 32 = Some (Inr m1)"
    "qcom_smem_get m1 (Some smem) None pid 478 True = Some (Inr (byte_at b (e + 16), Some 32))"
    "partition_ok m1 smem entry (its @ [new_item 478 32])" "cached_limit m1 smem entry = cached_limit m smem entry"
    "ptable_entry_to_phdr m1 smem entry = b"
    using fresh_alloc[OF P sel _ c(1) _ _ _ new(1), of 32] room by (auto simp: align8_def b_def e_def)
  have e1: "uncached_end (its @ [new_item 478 32]) = e + 48"
    using it_len_new_item[of 32 478] by (simp add: uncached_end_def e_def align8_def)
  have n1: "(479 :: u32) \<notin> (\<lambda>it. ucast (it_item it)) ` set (its @ [new_item 478 32])"
    using new(2) by (simp add: new_item_def)
  have room1: "uncached_end (its @ [new_item 478 32]) + 16 + align8 (unat (0x4000 :: u64)) \<le> cached_limit m1 smem entry"
    using room m1(4) by (simp add: e1 align8_def e_def)
  obtain m2 where m2: "smem_alloc_existing m1 (Some smem) None pid 479 0x4000 = Some (Inr m2)"
    "qcom_smem_get m2 (Some smem) None pid 479 True = Some (Inr (byte_at b (e + 64), Some 0x4000))"
    by (rule fresh_alloc[OF m1(3) sel _ c(2) _ _ _ n1 room1]) (simp_all add: e1 m1(5) add.commute[of e 64])
  let ?d = "byte_at b (e + 16)"
  let ?tx = "tx_pipe_init ?d (byte_at b (e + 64)) 0x4000 pid" and ?rx = "rx_pipe_init ?d pid"
  let ?m = "store32 (store32 m2 (tail_p ?rx) 0) (head_p ?tx) 0"
  have lay: "pipe_layout ?tx"
    using partition_okD[OF P] room by (intro register_layout) (auto simp: b_def e_def)
  have "load32 ?m (tail_p ?rx) = 0"
    using load32_store32_other[of 8 4 _ "byte_at b (e + 16)"]
    by (simp add: rx_pipe_init_def tx_pipe_init_def byte_at_numeral)
  then show ?thesis
    using m1(1,2) m2 lay
    by (intro exI[of _ ?m] exI[of _ ?rx] exI[of _ ?tx])
      (simp add: qcom_glink_smem_register_def Let_def head_of_def tail_of_def tx_pipe_init_def rx_pipe_init_def)
qed

theorem glink_register_fresh_witness:
  "\<exists>m' rx tx. qcom_glink_smem_register ex_mem (Some ex_smem) (\<lambda>_. None) None (Inr 1) True = Some (Inr (m', rx, tx)) \<and>
    pipe_layout tx \<and> plen tx = 0x4000"
  using glink_register_fresh[OF ex_partition ex_select(1)] by (auto simp: ex_select ex_limit uncached_end_def)

text \<open>C24. Whatever the index words hold, a peek whose offset and count do not exceed the buffer either leaves the
  caller's buffer alone or fills it completely with bytes of the fifo: it never reads outside it.\<close>

theorem rx_peak_stays_in_fifo:
  assumes "unat (plen pipe) < 2 ^ 31" "unat off \<le> unat (plen pipe)" "unat count \<le> unat (plen pipe)"
  shows "case glink_smem_rx_peak m pipe off count of
      None \<Rightarrow> tail_of m pipe > unat (plen pipe)
    | Some bs \<Rightarrow> length bs = unat count \<and>
        (\<forall>i < length bs. \<exists>k < unat (plen pipe). bs ! i = m (byte_at (fifo pipe) k))"
proof (cases "glink_smem_rx_peak m pipe off count")
  case None
  then show ?thesis
    by (auto simp: glink_smem_rx_peak_def Let_def tail_of_def word_less_nat_alt split: if_splits)
next
  case (Some bs)
  then show ?thesis using rx_peak_bytes[OF assms Some] by simp
qed

theorem rx_peak_stays_in_fifo_witness:
  "\<exists>bs. glink_smem_rx_peak (\<lambda>_. 0) ex_pipe 8 16 = Some bs \<and> length bs = 16"
proof -
  have "tail_of (\<lambda>_. 0) ex_pipe = 0" "unat (plen ex_pipe) = 64" by code_simp+
  then show ?thesis
    using rx_peak_stays_in_fifo[of ex_pipe 8 16 "\<lambda>_. 0"] by (auto split: option.splits)
qed

text \<open>C25. Whatever the index words hold, writing a message whose parts fit into the buffer changes no byte
  outside the fifo and the head word.\<close>

theorem tx_write_stays_in_fifo:
  assumes "unat (plen pipe) < 2 ^ 31" "length hdr \<le> unat (plen pipe)" "length data \<le> unat (plen pipe)"
    and "unat (plen pipe) \<le> k" "k < 2 ^ 64" "byte_at (fifo pipe) k \<notin> {head_p pipe + i | i. i < 4}"
  shows "glink_smem_tx_write m pipe hdr data (byte_at (fifo pipe) k) = m (byte_at (fifo pipe) k)"
proof -
  obtain m1 h1 m2 h2 where w: "glink_smem_tx_write_one m pipe (load32 m (head_p pipe)) hdr = (m1, h1)"
    "glink_smem_tx_write_one m1 pipe h1 data = (m2, h2)" by (metis prod.exhaust)
  have "same_on m m2 (fifo pipe) (unat (plen pipe)) (2 ^ 64)"
    by (rule same_on_trans[OF tx_write_one_frame[OF assms(1,2) w(1)] tx_write_one_frame[OF assms(1,3) w(2)]])
  then have 1: "m2 (byte_at (fifo pipe) k) = m (byte_at (fifo pipe) k)" using assms(4,5) by (rule same_onD)
  have ne: "byte_at (fifo pipe) k \<noteq> head_p pipe + i" if "i < 4" for i using assms(6) that by blast
  have "byte_at (fifo pipe) k \<noteq> head_p pipe" using ne[of 0] by simp
  then show ?thesis
    using w 1 ne[of 1] ne[of 2] ne[of 3] by (simp add: glink_smem_tx_write_def Let_def store32_def)
qed

theorem tx_write_stays_in_fifo_witness:
  "glink_smem_tx_write (\<lambda>_. 0) ex_pipe [1, 2] [3] (byte_at (fifo ex_pipe) 64) = 0"
proof -
  have "unat (plen ex_pipe) = 64" by code_simp
  moreover have "\<not> i < 4" if "4 + i = 0" for i :: ptr
  proof -
    have "i = - 4" using that by (simp add: add_eq_0_iff)
    then show ?thesis by simp
  qed
  then have "byte_at (fifo ex_pipe) 64 \<notin> {head_p ex_pipe + i | i. i < 4}"
    by (auto simp: ex_pipe_def byte_at_def)
  ultimately show ?thesis by (intro tx_write_stays_in_fifo) auto
qed

end
