(* ===== verification/XArray.thy ===== *)
theory XArray
  imports Ipc_Prelude
begin

text \<open>
  The kernel's index-ordered containers (\<open>struct xarray\<close>, \<open>struct radix_tree_root\<close>, \<open>struct idr\<close>) as the
  sources use them: lookup, store, erase and iteration in increasing index order. The implementation is
  an association list with increasing indices; the locale \<open>index_map\<close> is the contract its users rely on.
\<close>

type_synonym ('k, 'v) xarray = "('k \<times> 'v) list"

fun xa_load :: "('k::linorder, 'v) xarray \<Rightarrow> 'k \<Rightarrow> 'v option" where
  "xa_load [] i = None"
| "xa_load ((j, v) # xs) i = (if i = j then Some v else xa_load xs i)"

fun xa_store :: "('k::linorder, 'v) xarray \<Rightarrow> 'k \<Rightarrow> 'v \<Rightarrow> ('k, 'v) xarray" where
  "xa_store [] i v = [(i, v)]"
| "xa_store ((j, w) # xs) i v =
     (if i < j then (i, v) # (j, w) # xs else if i = j then (i, v) # xs else (j, w) # xa_store xs i v)"

fun xa_erase :: "('k::linorder, 'v) xarray \<Rightarrow> 'k \<Rightarrow> ('k, 'v) xarray" where
  "xa_erase [] i = []"
| "xa_erase ((j, v) # xs) i = (if i = j then xs else (j, v) # xa_erase xs i)"

text \<open>The values in the order of \<open>xa_for_each\<close>.\<close>

definition xa_values :: "('k, 'v) xarray \<Rightarrow> 'v list" where
  "xa_values xs = map snd xs"

definition xa_inv :: "('k::linorder, 'v) xarray \<Rightarrow> bool" where
  "xa_inv xs \<longleftrightarrow> sorted_wrt (<) (map fst xs)"

named_theorems xa_simps \<open>equations of the container operations\<close>

lemma xa_load_less: "xa_inv xs \<Longrightarrow> \<forall>j \<in> set (map fst xs). i < j \<Longrightarrow> xa_load xs i = None"
  by (induction xs) (auto simp: xa_inv_def)

lemma fst_set_xa_store: "fst ` set (xa_store xs i v) = insert i (fst ` set xs)"
  by (induction xs i v rule: xa_store.induct) auto

lemma fst_set_xa_erase: "fst ` set (xa_erase xs i) \<subseteq> fst ` set xs"
  by (induction xs i rule: xa_erase.induct) auto

lemma xa_inv_Nil [simp]: "xa_inv []"
  by (simp add: xa_inv_def)

lemma xa_inv_Cons: "xa_inv ((j, v) # xs) \<longleftrightarrow> (\<forall>k \<in> fst ` set xs. j < k) \<and> xa_inv xs"
  by (auto simp: xa_inv_def)

lemma xa_inv_store: "xa_inv xs \<Longrightarrow> xa_inv (xa_store xs i v)"
  by (induction xs i v rule: xa_store.induct) (auto simp: xa_inv_Cons fst_set_xa_store)

lemma xa_inv_erase: "xa_inv xs \<Longrightarrow> xa_inv (xa_erase xs i)"
proof (induction xs i rule: xa_erase.induct)
  case (2 j v xs i)
  then show ?case using fst_set_xa_erase[of xs i] by (fastforce simp: xa_inv_Cons)
qed simp

lemma xa_load_store [xa_simps]: "xa_load (xa_store xs i v) k = (if k = i then Some v else xa_load xs k)"
  by (induction xs i v rule: xa_store.induct) auto

lemma xa_load_notin: "k \<notin> fst ` set xs \<Longrightarrow> xa_load xs k = None"
  by (induction xs) auto

lemma xa_load_erase: "xa_inv xs \<Longrightarrow> xa_load (xa_erase xs i) k = (if k = i then None else xa_load xs k)"
proof (induction xs i rule: xa_erase.induct)
  case (2 j v xs i)
  then have "j \<notin> fst ` set xs" by (auto simp: xa_inv_Cons)
  then show ?case using 2 by (auto simp: xa_inv_Cons xa_load_notin)
qed simp

lemma xa_mem_iff: "xa_inv xs \<Longrightarrow> (i, v) \<in> set xs \<longleftrightarrow> xa_load xs i = Some v"
proof (induction xs)
  case (Cons x xs)
  obtain j w where "x = (j, w)" by force
  then show ?case using Cons by (auto simp: xa_inv_Cons)
qed simp

lemma xa_values_set: "xa_inv xs \<Longrightarrow> v \<in> set (xa_values xs) \<longleftrightarrow> (\<exists>i. xa_load xs i = Some v)"
  by (force simp: xa_values_def simp flip: xa_mem_iff)

lemma xa_distinct: "xa_inv xs \<Longrightarrow> distinct (map fst xs)"
proof (induction xs)
  case (Cons x xs)
  then show ?case by (cases x) (auto simp: xa_inv_Cons)
qed simp

section \<open>The contract\<close>

locale index_map =
  fixes load :: "'m \<Rightarrow> 'k \<Rightarrow> 'v option"
    and store :: "'m \<Rightarrow> 'k \<Rightarrow> 'v \<Rightarrow> 'm"
    and erase :: "'m \<Rightarrow> 'k \<Rightarrow> 'm"
    and vals :: "'m \<Rightarrow> 'v list"
    and inv :: "'m \<Rightarrow> bool"
  assumes inv_store: "inv m \<Longrightarrow> inv (store m i v)"
    and inv_erase: "inv m \<Longrightarrow> inv (erase m i)"
    and load_store: "load (store m i v) k = (if k = i then Some v else load m k)"
    and load_erase: "inv m \<Longrightarrow> load (erase m i) k = (if k = i then None else load m k)"
    and set_vals: "inv m \<Longrightarrow> v \<in> set (vals m) \<longleftrightarrow> (\<exists>i. load m i = Some v)"
begin

text \<open>A property of the values that depends on the index survives every operation that respects it.\<close>

definition all_entries :: "('k \<Rightarrow> 'v \<Rightarrow> bool) \<Rightarrow> 'm \<Rightarrow> bool" where
  "all_entries P m \<longleftrightarrow> (\<forall>i v. load m i = Some v \<longrightarrow> P i v)"

lemma all_entries_store: "all_entries P m \<Longrightarrow> P i v \<Longrightarrow> all_entries P (store m i v)"
  by (auto simp: all_entries_def load_store)

lemma all_entries_erase: "inv m \<Longrightarrow> all_entries P m \<Longrightarrow> all_entries P (erase m i)"
  by (auto simp: all_entries_def load_erase)

lemma all_entries_vals: "inv m \<Longrightarrow> all_entries P m \<Longrightarrow> v \<in> set (vals m) \<Longrightarrow> \<exists>i. load m i = Some v \<and> P i v"
  by (auto simp: all_entries_def set_vals)

text \<open>Erasing every index of a list of values that were found at those indices.\<close>

lemma erase_all:
  "inv m \<Longrightarrow> inv (foldl erase m is) \<and>
    load (foldl erase m is) k = (if k \<in> set is then None else load m k)"
  by (induction "is" arbitrary: m) (auto simp: inv_erase load_erase)

end

interpretation xa: index_map xa_load xa_store xa_erase xa_values "xa_inv :: ('k::linorder, 'v) xarray \<Rightarrow> bool"
  by unfold_locales
    (simp_all add: xa_inv_store xa_inv_erase xa_load_store xa_load_erase xa_values_set)

end
