(* ===== verification/Qrtr_Base.thy ===== *)
theory Qrtr_Base
  imports XArray
begin

text \<open>
  What the two halves of the IPC router share, \<open>include/uapi/linux/qrtr_caf.h\<close>: addresses, packet types and the
  control packet with its 20-byte little-endian wire form.
\<close>

abbreviation (input) QRTR_NODE_BCAST :: u32 where "QRTR_NODE_BCAST \<equiv> 0xffffffff"
abbreviation (input) QRTR_PORT_CTRL :: u32 where "QRTR_PORT_CTRL \<equiv> 0xfffffffe"

abbreviation (input) QRTR_TYPE_DATA :: u32 where "QRTR_TYPE_DATA \<equiv> 1"
abbreviation (input) QRTR_TYPE_HELLO :: u32 where "QRTR_TYPE_HELLO \<equiv> 2"
abbreviation (input) QRTR_TYPE_BYE :: u32 where "QRTR_TYPE_BYE \<equiv> 3"
abbreviation (input) QRTR_TYPE_NEW_SERVER :: u32 where "QRTR_TYPE_NEW_SERVER \<equiv> 4"
abbreviation (input) QRTR_TYPE_DEL_SERVER :: u32 where "QRTR_TYPE_DEL_SERVER \<equiv> 5"
abbreviation (input) QRTR_TYPE_DEL_CLIENT :: u32 where "QRTR_TYPE_DEL_CLIENT \<equiv> 6"
abbreviation (input) QRTR_TYPE_RESUME_TX :: u32 where "QRTR_TYPE_RESUME_TX \<equiv> 7"
abbreviation (input) QRTR_TYPE_EXIT :: u32 where "QRTR_TYPE_EXIT \<equiv> 8"
abbreviation (input) QRTR_TYPE_PING :: u32 where "QRTR_TYPE_PING \<equiv> 9"
abbreviation (input) QRTR_TYPE_NEW_LOOKUP :: u32 where "QRTR_TYPE_NEW_LOOKUP \<equiv> 10"
abbreviation (input) QRTR_TYPE_DEL_LOOKUP :: u32 where "QRTR_TYPE_DEL_LOOKUP \<equiv> 11"
abbreviation (input) QRTR_TYPE_DEL_PROC :: u32 where "QRTR_TYPE_DEL_PROC \<equiv> 13"

text \<open>\<open>struct sockaddr_qrtr\<close>; the family is always \<open>AF_QIPCRTR\<close>.\<close>

record sockaddr_qrtr =
  sq_node :: u32
  sq_port :: u32

text \<open>
  \<open>struct qrtr_ctrl_pkt\<close>: the fields of the \<open>server\<close> member of the union. The \<open>client\<close> member overlays its
  first two words and the \<open>proc\<close> member its second.
\<close>

record qrtr_ctrl_pkt =
  cmd :: u32
  server_service :: u32
  server_instance :: u32
  server_node :: u32
  server_port :: u32

definition client_node :: "qrtr_ctrl_pkt \<Rightarrow> u32" where "client_node pkt = server_service pkt"
definition client_port :: "qrtr_ctrl_pkt \<Rightarrow> u32" where "client_port pkt = server_instance pkt"
definition proc_node :: "qrtr_ctrl_pkt \<Rightarrow> u32" where "proc_node pkt = server_instance pkt"

text \<open>The packet as the handlers fill it: \<open>memset\<close> to 0, then the command and one member of the union.\<close>

definition server_pkt :: "u32 \<Rightarrow> u32 \<Rightarrow> u32 \<Rightarrow> u32 \<Rightarrow> u32 \<Rightarrow> qrtr_ctrl_pkt" where
  "server_pkt c service inst node port =
     \<lparr>cmd = c, server_service = service, server_instance = inst, server_node = node, server_port = port\<rparr>"

definition client_pkt :: "u32 \<Rightarrow> u32 \<Rightarrow> u32 \<Rightarrow> qrtr_ctrl_pkt" where
  "client_pkt c node port = server_pkt c node port 0 0"

text \<open>The wire form.\<close>

definition encode_ctrl :: "qrtr_ctrl_pkt \<Rightarrow> u8 list" where
  "encode_ctrl pkt = bytes32 (cmd pkt) @ bytes32 (server_service pkt) @ bytes32 (server_instance pkt) @
     bytes32 (server_node pkt) @ bytes32 (server_port pkt)"

definition decode_ctrl :: "u8 list \<Rightarrow> qrtr_ctrl_pkt" where
  "decode_ctrl bs = \<lparr>cmd = get32 bs 0, server_service = get32 bs 4, server_instance = get32 bs 8,
     server_node = get32 bs 12, server_port = get32 bs 16\<rparr>"

lemma length_encode_ctrl [simp]: "length (encode_ctrl pkt) = 20"
  by (simp add: encode_ctrl_def)

lemma decode_encode_ctrl [simp]: "decode_ctrl (encode_ctrl pkt @ rest) = pkt"
  by (simp add: decode_ctrl_def encode_ctrl_def get_skip)

end
