(* ===== verification/Qrtr_Ns.thy ===== *)
theory Qrtr_Ns
  imports Qrtr_Base
begin

text \<open>
  The name server of the IPC router, \<open>net/qrtr/ns.c\<close>: the table of servers per node, the list of observers and
  the handlers of the control packets. A handler is a function on the server's state; the packets it sends
  are appended to \<open>sent\<close>, the oldest first. What the kernel decides outside of this code is a parameter: the
  result of the n-th \<open>kernel_sendmsg\<close> and whether the n-th memory allocation succeeds.
\<close>

section \<open>State\<close>

record qrtr_server =
  srv_service :: u32
  srv_instance :: u32
  srv_node :: u32
  srv_port :: u32

record qrtr_lookup =
  lk_service :: u32
  lk_instance :: u32
  lk_sq :: sockaddr_qrtr

record qrtr_server_filter =
  f_service :: u32
  f_instance :: u32
  f_ifilter :: u32

text \<open>\<open>qrtr_ns.local_node\<close> and the kernel's decisions.\<close>

record ns_env =
  local_node :: u32
  net :: "nat \<Rightarrow> errno option"
  kzalloc_at :: "nat \<Rightarrow> bool"

text \<open>The tree \<open>nodes\<close> of \<open>struct qrtr_node\<close> with their trees of servers by port, the list \<open>qrtr_ns.lookups\<close>.\<close>

record ns_state =
  nodes :: "(u32, (u32, qrtr_server) xarray) xarray"
  lookups :: "qrtr_lookup list"
  sent :: "(sockaddr_qrtr \<times> qrtr_ctrl_pkt) list"
  allocs :: nat

definition bcast_sq :: sockaddr_qrtr where
  "bcast_sq = \<lparr>sq_node = QRTR_NODE_BCAST, sq_port = QRTR_PORT_CTRL\<rparr>"

definition kernel_sendmsg ::
  "ns_env \<Rightarrow> ns_state \<Rightarrow> sockaddr_qrtr \<Rightarrow> qrtr_ctrl_pkt \<Rightarrow> errno option \<times> ns_state" where
  "kernel_sendmsg env s dest pkt = (net env (length (sent s)), s\<lparr>sent := sent s @ [(dest, pkt)]\<rparr>)"

definition kzalloc :: "ns_env \<Rightarrow> ns_state \<Rightarrow> bool \<times> ns_state" where
  "kzalloc env s = (kzalloc_at env (allocs s), s\<lparr>allocs := allocs s + 1\<rparr>)"

section \<open>The table of servers\<close>

definition servers_of :: "ns_state \<Rightarrow> u32 \<Rightarrow> (u32, qrtr_server) xarray" where
  "servers_of s nid = (case xa_load (nodes s) nid of None \<Rightarrow> [] | Some servers \<Rightarrow> servers)"

definition set_servers :: "ns_state \<Rightarrow> u32 \<Rightarrow> (u32, qrtr_server) xarray \<Rightarrow> ns_state" where
  "set_servers s nid servers =
     (case xa_load (nodes s) nid of
        None \<Rightarrow> s
      | Some _ \<Rightarrow> s\<lparr>nodes := xa_store (nodes s) nid servers\<rparr>)"

text \<open>
  \<open>False\<close> is the null pointer. The result of \<open>xa_store\<close> is not checked: when it fails, the new node is
  returned without being in the tree, so that what is stored in it is lost.
\<close>

definition node_get :: "ns_env \<Rightarrow> ns_state \<Rightarrow> u32 \<Rightarrow> bool \<times> ns_state" where
  "node_get env s nid =
     (case xa_load (nodes s) nid of
        Some _ \<Rightarrow> (True, s)
      | None \<Rightarrow>
          (case kzalloc env s of
             (False, s1) \<Rightarrow> (False, s1)
           | (True, s1) \<Rightarrow>
               (case kzalloc env s1 of
                  (False, s2) \<Rightarrow> (True, s2)
                | (True, s2) \<Rightarrow> (True, s2\<lparr>nodes := xa_store (nodes s2) nid []\<rparr>))))"

fun find_service :: "u32 \<Rightarrow> u32 \<Rightarrow> qrtr_server list \<Rightarrow> u32" where
  "find_service node_id port_id [] = 0"
| "find_service node_id port_id (srv # srvs) =
     (if srv_node srv = node_id \<and> srv_port srv = port_id then srv_service srv
      else find_service node_id port_id srvs)"

definition qrtr_get_service_id :: "ns_env \<Rightarrow> ns_state \<Rightarrow> u32 \<Rightarrow> u32 \<Rightarrow> u32 \<times> ns_state" where
  "qrtr_get_service_id env s node_id port_id =
     (case node_get env s node_id of
        (False, s1) \<Rightarrow> (0, s1)
      | (True, s1) \<Rightarrow> (find_service node_id port_id (xa_values (servers_of s1 node_id)), s1))"

definition server_match :: "qrtr_server \<Rightarrow> qrtr_server_filter \<Rightarrow> bool" where
  "server_match srv f =
     (if f_service f \<noteq> 0 \<and> srv_service srv \<noteq> f_service f then False
      else
        let ifilter = (if f_ifilter f = 0 \<and> f_instance f \<noteq> 0 then NOT 0 else f_ifilter f)
        in srv_instance srv AND ifilter = f_instance f)"

section \<open>Announcements\<close>

definition srv_pkt :: "u32 \<Rightarrow> qrtr_server \<Rightarrow> qrtr_ctrl_pkt" where
  "srv_pkt c srv = server_pkt c (srv_service srv) (srv_instance srv) (srv_node srv) (srv_port srv)"

definition service_announce_new ::
  "ns_env \<Rightarrow> ns_state \<Rightarrow> sockaddr_qrtr \<Rightarrow> qrtr_server \<Rightarrow> errno option \<times> ns_state" where
  "service_announce_new env s dest srv = kernel_sendmsg env s dest (srv_pkt QRTR_TYPE_NEW_SERVER srv)"

definition service_announce_del ::
  "ns_env \<Rightarrow> ns_state \<Rightarrow> sockaddr_qrtr \<Rightarrow> qrtr_server \<Rightarrow> errno option \<times> ns_state" where
  "service_announce_del env s dest srv = kernel_sendmsg env s dest (srv_pkt QRTR_TYPE_DEL_SERVER srv)"

definition lookup_notify ::
  "ns_env \<Rightarrow> ns_state \<Rightarrow> sockaddr_qrtr \<Rightarrow> qrtr_server option \<Rightarrow> bool \<Rightarrow> ns_state" where
  "lookup_notify env s dest srv new =
     (let c = (if new then QRTR_TYPE_NEW_SERVER else QRTR_TYPE_DEL_SERVER)
      in snd (kernel_sendmsg env s dest
           (case srv of None \<Rightarrow> server_pkt c 0 0 0 0 | Some v \<Rightarrow> srv_pkt c v)))"

fun announce_node ::
  "ns_env \<Rightarrow> sockaddr_qrtr \<Rightarrow> qrtr_server list \<Rightarrow> ns_state \<Rightarrow> errno option \<times> ns_state" where
  "announce_node env sq [] s = (None, s)"
| "announce_node env sq (srv # srvs) s =
     (case service_announce_new env s sq srv of
        (None, s') \<Rightarrow> announce_node env sq srvs s'
      | (Some e, s') \<Rightarrow> if e = ENODEV then announce_node env sq srvs s' else (Some e, s'))"

fun announce_nodes ::
  "ns_env \<Rightarrow> sockaddr_qrtr \<Rightarrow> (u32, (u32, qrtr_server) xarray) xarray \<Rightarrow> ns_state \<Rightarrow>
   errno option \<times> ns_state" where
  "announce_nodes env sq [] s = (None, s)"
| "announce_nodes env sq ((nid, servers) # ns) s =
     (if nid = sq_node sq then announce_nodes env sq ns s
      else (case announce_node env sq (xa_values servers) s of
          (None, s') \<Rightarrow> announce_nodes env sq ns s'
        | (Some e, s') \<Rightarrow> (Some e, s')))"

definition announce_servers :: "ns_env \<Rightarrow> ns_state \<Rightarrow> sockaddr_qrtr \<Rightarrow> errno option \<times> ns_state" where
  "announce_servers env s sq = announce_nodes env sq (nodes s) s"

text \<open>The loops over \<open>qrtr_ns.lookups\<close> in \<open>server_del\<close> and \<open>ctrl_cmd_new_server\<close>.\<close>

definition lookup_wants :: "qrtr_lookup \<Rightarrow> qrtr_server \<Rightarrow> bool" where
  "lookup_wants lk srv \<longleftrightarrow>
     \<not> (lk_service lk \<noteq> 0 \<and> lk_service lk \<noteq> srv_service srv) \<and>
     \<not> (lk_instance lk \<noteq> 0 \<and> lk_instance lk \<noteq> srv_instance srv)"

fun notify_lookups :: "ns_env \<Rightarrow> qrtr_server \<Rightarrow> bool \<Rightarrow> qrtr_lookup list \<Rightarrow> ns_state \<Rightarrow> ns_state" where
  "notify_lookups env srv new [] s = s"
| "notify_lookups env srv new (lk # lks) s =
     notify_lookups env srv new lks
       (if lookup_wants lk srv then lookup_notify env s (lk_sq lk) (Some srv) new else s)"

section \<open>Adding and removing servers\<close>

definition server_add ::
  "ns_env \<Rightarrow> ns_state \<Rightarrow> u32 \<Rightarrow> u32 \<Rightarrow> u32 \<Rightarrow> u32 \<Rightarrow> qrtr_server option \<times> ns_state" where
  "server_add env s service inst node_id port =
     (if service = 0 \<or> port = 0 then (None, s)
      else (case kzalloc env s of
          (False, s1) \<Rightarrow> (None, s1)
        | (True, s1) \<Rightarrow>
            (case node_get env s1 node_id of
               (False, s2) \<Rightarrow> (None, s2)
             | (True, s2) \<Rightarrow>
                 (case kzalloc env s2 of
                    (False, s3) \<Rightarrow> (None, s3)
                  | (True, s3) \<Rightarrow>
                      let srv = \<lparr>srv_service = service, srv_instance = inst, srv_node = node_id, srv_port = port\<rparr>
                      in (Some srv, set_servers s3 node_id (xa_store (servers_of s3 node_id) port srv))))))"

definition server_del :: "ns_env \<Rightarrow> ns_state \<Rightarrow> u32 \<Rightarrow> u32 \<Rightarrow> errno option \<times> ns_state" where
  "server_del env s node_id port =
     (case xa_load (servers_of s node_id) port of
        None \<Rightarrow> (Some ENOENT, s)
      | Some srv \<Rightarrow>
          let s1 = set_servers s node_id (xa_erase (servers_of s node_id) port);
              s2 = (if srv_node srv = local_node env then snd (service_announce_del env s1 bcast_sq srv) else s1)
          in (None, notify_lookups env srv False (lookups s2) s2))"

section \<open>The handlers of the control packets\<close>

definition say_hello :: "ns_env \<Rightarrow> ns_state \<Rightarrow> sockaddr_qrtr \<Rightarrow> errno option \<times> ns_state" where
  "say_hello env s dest = kernel_sendmsg env s dest (server_pkt QRTR_TYPE_HELLO 0 0 0 0)"

definition ctrl_cmd_hello :: "ns_env \<Rightarrow> ns_state \<Rightarrow> sockaddr_qrtr \<Rightarrow> errno option \<times> ns_state" where
  "ctrl_cmd_hello env s sq =
     (case say_hello env s sq of
        (Some e, s1) \<Rightarrow> (Some e, s1)
      | (None, s1) \<Rightarrow> announce_servers env s1 sq)"

fun server_del_all :: "ns_env \<Rightarrow> u32 \<Rightarrow> qrtr_server list \<Rightarrow> ns_state \<Rightarrow> ns_state" where
  "server_del_all env node_id [] s = s"
| "server_del_all env node_id (srv # srvs) s =
     server_del_all env node_id srvs (snd (server_del env s node_id (srv_port srv)))"

text \<open>The loops that advertise a removal to all local servers.\<close>

fun advertise :: "ns_env \<Rightarrow> qrtr_ctrl_pkt \<Rightarrow> qrtr_server list \<Rightarrow> ns_state \<Rightarrow> ns_state" where
  "advertise env pkt [] s = s"
| "advertise env pkt (srv # srvs) s =
     advertise env pkt srvs
       (snd (kernel_sendmsg env s \<lparr>sq_node = srv_node srv, sq_port = srv_port srv\<rparr> pkt))"

definition ctrl_cmd_bye :: "ns_env \<Rightarrow> ns_state \<Rightarrow> sockaddr_qrtr \<Rightarrow> errno option \<times> ns_state" where
  "ctrl_cmd_bye env s from_sq =
     (case node_get env s (sq_node from_sq) of
        (False, s1) \<Rightarrow> (None, s1)
      | (True, s1) \<Rightarrow>
          let s2 = server_del_all env (sq_node from_sq) (xa_values (servers_of s1 (sq_node from_sq))) s1
          in (case node_get env s2 (local_node env) of
              (False, s3) \<Rightarrow> (None, s3)
            | (True, s3) \<Rightarrow>
                (None, advertise env (client_pkt QRTR_TYPE_BYE (sq_node from_sq) 0)
                         (xa_values (servers_of s3 (local_node env))) s3)))"

definition ctrl_cmd_del_client ::
  "ns_env \<Rightarrow> ns_state \<Rightarrow> sockaddr_qrtr \<Rightarrow> u32 \<Rightarrow> u32 \<Rightarrow> errno option \<times> ns_state" where
  "ctrl_cmd_del_client env s from_sq node_id port =
     (if sq_node from_sq \<noteq> node_id then (Some EINVAL, s)
      else if sq_node from_sq = local_node env \<and> sq_port from_sq \<noteq> port then (Some EINVAL, s)
      else
        let s1 = s\<lparr>lookups := filter (\<lambda>lk. \<not> (sq_node (lk_sq lk) = node_id \<and> sq_port (lk_sq lk) = port)) (lookups s)\<rparr>;
            s2 = (case node_get env s1 node_id of
                    (False, s') \<Rightarrow> s'
                  | (True, s') \<Rightarrow> snd (server_del env s' node_id port))
        in (case node_get env s2 (local_node env) of
              (False, s3) \<Rightarrow> (None, s3)
            | (True, s3) \<Rightarrow>
                (None, advertise env (client_pkt QRTR_TYPE_DEL_CLIENT node_id port)
                         (xa_values (servers_of s3 (local_node env))) s3)))"

definition ctrl_cmd_new_server ::
  "ns_env \<Rightarrow> ns_state \<Rightarrow> sockaddr_qrtr \<Rightarrow> u32 \<Rightarrow> u32 \<Rightarrow> u32 \<Rightarrow> u32 \<Rightarrow> errno option \<times> ns_state" where
  "ctrl_cmd_new_server env s from_sq service inst node_id0 port0 =
     (let loc = (sq_node from_sq = local_node env);
          node_id = (if loc then sq_node from_sq else node_id0);
          port = (if loc then sq_port from_sq else port0)
      in if sq_node from_sq \<noteq> node_id then (Some EINVAL, s)
         else (case server_add env s service inst node_id port of
             (None, s1) \<Rightarrow> (Some EINVAL, s1)
           | (Some srv, s1) \<Rightarrow>
               (case (if srv_node srv = local_node env then service_announce_new env s1 bcast_sq srv
                      else (None, s1)) of
                  (Some e, s2) \<Rightarrow> (Some e, s2)
                | (None, s2) \<Rightarrow> (None, notify_lookups env srv True (lookups s2) s2))))"

definition ctrl_cmd_del_server ::
  "ns_env \<Rightarrow> ns_state \<Rightarrow> sockaddr_qrtr \<Rightarrow> u32 \<Rightarrow> u32 \<Rightarrow> u32 \<Rightarrow> u32 \<Rightarrow> errno option \<times> ns_state" where
  "ctrl_cmd_del_server env s from_sq service inst node_id0 port0 =
     (let loc = (sq_node from_sq = local_node env);
          node_id = (if loc then sq_node from_sq else node_id0);
          port = (if loc then sq_port from_sq else port0)
      in if sq_node from_sq \<noteq> node_id then (Some EINVAL, s)
         else if sq_node from_sq = local_node env \<and> sq_port from_sq \<noteq> port then (Some EINVAL, s)
         else (case node_get env s node_id of
             (False, s1) \<Rightarrow> (Some ENOENT, s1)
           | (True, s1) \<Rightarrow> server_del env s1 node_id port))"

fun notify_servers ::
  "ns_env \<Rightarrow> sockaddr_qrtr \<Rightarrow> qrtr_server_filter \<Rightarrow> qrtr_server list \<Rightarrow> ns_state \<Rightarrow> ns_state" where
  "notify_servers env dest f [] s = s"
| "notify_servers env dest f (srv # srvs) s =
     notify_servers env dest f srvs
       (if server_match srv f then lookup_notify env s dest (Some srv) True else s)"

fun notify_nodes ::
  "ns_env \<Rightarrow> sockaddr_qrtr \<Rightarrow> qrtr_server_filter \<Rightarrow> (u32, (u32, qrtr_server) xarray) xarray \<Rightarrow> ns_state \<Rightarrow>
   ns_state" where
  "notify_nodes env dest f [] s = s"
| "notify_nodes env dest f ((nid, servers) # ns) s =
     notify_nodes env dest f ns (notify_servers env dest f (xa_values servers) s)"

definition ctrl_cmd_new_lookup ::
  "ns_env \<Rightarrow> ns_state \<Rightarrow> sockaddr_qrtr \<Rightarrow> u32 \<Rightarrow> u32 \<Rightarrow> errno option \<times> ns_state" where
  "ctrl_cmd_new_lookup env s from_sq service inst =
     (if sq_node from_sq \<noteq> local_node env then (Some EINVAL, s)
      else (case kzalloc env s of
          (False, s1) \<Rightarrow> (Some ENOMEM, s1)
        | (True, s1) \<Rightarrow>
            let s2 = s1\<lparr>lookups := lookups s1 @
                       [\<lparr>lk_service = service, lk_instance = inst, lk_sq = from_sq\<rparr>]\<rparr>;
                f = \<lparr>f_service = service, f_instance = inst, f_ifilter = 0\<rparr>;
                s3 = notify_nodes env from_sq f (nodes s2) s2
            in (None, lookup_notify env s3 from_sq None True)))"

definition ctrl_cmd_del_lookup :: "ns_state \<Rightarrow> sockaddr_qrtr \<Rightarrow> u32 \<Rightarrow> u32 \<Rightarrow> ns_state" where
  "ctrl_cmd_del_lookup s from_sq service inst =
     s\<lparr>lookups := filter (\<lambda>lk. \<not> (sq_node (lk_sq lk) = sq_node from_sq \<and> sq_port (lk_sq lk) = sq_port from_sq \<and>
         lk_service lk = service \<and> \<not> (lk_instance lk \<noteq> 0 \<and> lk_instance lk \<noteq> inst))) (lookups s)\<rparr>"

section \<open>The worker\<close>

text \<open>The \<open>switch (cmd)\<close> of \<open>qrtr_ns_worker\<close>.\<close>

definition ns_dispatch :: "ns_env \<Rightarrow> ns_state \<Rightarrow> sockaddr_qrtr \<Rightarrow> qrtr_ctrl_pkt \<Rightarrow> errno option \<times> ns_state" where
  "ns_dispatch env s sq pkt =
     (if cmd pkt = QRTR_TYPE_HELLO then ctrl_cmd_hello env s sq
      else if cmd pkt = QRTR_TYPE_BYE then ctrl_cmd_bye env s sq
      else if cmd pkt = QRTR_TYPE_DEL_CLIENT then ctrl_cmd_del_client env s sq (client_node pkt) (client_port pkt)
      else if cmd pkt = QRTR_TYPE_NEW_SERVER then
        ctrl_cmd_new_server env s sq (server_service pkt) (server_instance pkt) (server_node pkt) (server_port pkt)
      else if cmd pkt = QRTR_TYPE_DEL_SERVER then
        ctrl_cmd_del_server env s sq (server_service pkt) (server_instance pkt) (server_node pkt) (server_port pkt)
      else if cmd pkt = QRTR_TYPE_EXIT \<or> cmd pkt = QRTR_TYPE_PING \<or> cmd pkt = QRTR_TYPE_RESUME_TX then (None, s)
      else if cmd pkt = QRTR_TYPE_NEW_LOOKUP then
        ctrl_cmd_new_lookup env s sq (server_service pkt) (server_instance pkt)
      else if cmd pkt = QRTR_TYPE_DEL_LOOKUP then
        (None, ctrl_cmd_del_lookup s sq (server_service pkt) (server_instance pkt))
      else (None, s))"

text \<open>
  The receive loop. The list holds the results of \<open>kernel_recvmsg\<close>: an error ends the loop (\<open>EAGAIN\<close> when
  the queue is empty), a message is copied over the start of the 4096-byte buffer, which is allocated once
  and keeps the rest of earlier messages.
\<close>

definition recv_into :: "u8 list \<Rightarrow> u8 list \<Rightarrow> u8 list" where
  "recv_into buf msg = take 4096 msg @ drop (length (take 4096 msg)) buf"

fun ns_recv_loop ::
  "ns_env \<Rightarrow> ns_state \<Rightarrow> u8 list \<Rightarrow> (sockaddr_qrtr \<times> u8 list) result list \<Rightarrow> ns_state" where
  "ns_recv_loop env s buf [] = s"
| "ns_recv_loop env s buf (Inl e # rs) = s"
| "ns_recv_loop env s buf (Inr (sq, msg) # rs) =
     (let buf' = recv_into buf msg
      in ns_recv_loop env (snd (ns_dispatch env s sq (decode_ctrl buf'))) buf' rs)"

definition qrtr_ns_worker ::
  "ns_env \<Rightarrow> ns_state \<Rightarrow> (sockaddr_qrtr \<times> u8 list) result list \<Rightarrow> ns_state" where
  "qrtr_ns_worker env s rs =
     (case kzalloc env s of
        (False, s1) \<Rightarrow> s1
      | (True, s1) \<Rightarrow> ns_recv_loop env s1 (replicate 4096 0) rs)"

text \<open>
  The start: the results of \<open>sock_create_kern\<close>, \<open>kernel_getsockname\<close> (the node of the socket's address),
  \<open>kthread_run\<close> and \<open>kernel_bind\<close>, then the first hello. \<open>None\<close>: the name server does not run.
\<close>

definition qrtr_ns_init ::
  "errno option \<Rightarrow> u32 result \<Rightarrow> errno option \<Rightarrow> errno option \<Rightarrow> ns_env \<Rightarrow> ns_state \<Rightarrow> (ns_env \<times> ns_state) option" where
  "qrtr_ns_init sock_err name thread_err bind_err env s =
     (case (sock_err, name, thread_err, bind_err) of
        (None, Inr node, None, None) \<Rightarrow>
          let env' = env\<lparr>local_node := node\<rparr>
          in (case say_hello env' (s\<lparr>lookups := []\<rparr>) bcast_sq of
                (Some e, s1) \<Rightarrow> None
              | (None, s1) \<Rightarrow> Some (env', s1))
      | _ \<Rightarrow> None)"

section \<open>What the helpers change\<close>

named_theorems ns_frame \<open>parts of the state a helper leaves alone\<close>

lemma kernel_sendmsg_frame [ns_frame]:
  "nodes (snd (kernel_sendmsg env s d p)) = nodes s" "lookups (snd (kernel_sendmsg env s d p)) = lookups s"
  "allocs (snd (kernel_sendmsg env s d p)) = allocs s" "sent (snd (kernel_sendmsg env s d p)) = sent s @ [(d, p)]"
  by (simp_all add: kernel_sendmsg_def)

lemma lookup_notify_frame [ns_frame]:
  "nodes (lookup_notify env s d v new) = nodes s" "lookups (lookup_notify env s d v new) = lookups s"
  "allocs (lookup_notify env s d v new) = allocs s"
  by (simp_all add: lookup_notify_def Let_def ns_frame)

lemma sent_lookup_notify:
  "sent (lookup_notify env s d (Some srv) new) = sent s @
     [(d, srv_pkt (if new then QRTR_TYPE_NEW_SERVER else QRTR_TYPE_DEL_SERVER) srv)]"
  "sent (lookup_notify env s d None new) = sent s @
     [(d, server_pkt (if new then QRTR_TYPE_NEW_SERVER else QRTR_TYPE_DEL_SERVER) 0 0 0 0)]"
  by (simp_all add: lookup_notify_def Let_def ns_frame)

lemma notify_lookups_frame [ns_frame]:
  "nodes (notify_lookups env srv new lks s) = nodes s" "lookups (notify_lookups env srv new lks s) = lookups s"
  "allocs (notify_lookups env srv new lks s) = allocs s"
  "sent (notify_lookups env srv new lks s) = sent s @
     map (\<lambda>lk. (lk_sq lk, srv_pkt (if new then QRTR_TYPE_NEW_SERVER else QRTR_TYPE_DEL_SERVER) srv))
       (filter (\<lambda>lk. lookup_wants lk srv) lks)"
  by (induction lks arbitrary: s) (simp_all add: ns_frame sent_lookup_notify)

lemma notify_servers_frame [ns_frame]:
  "nodes (notify_servers env d f srvs s) = nodes s" "lookups (notify_servers env d f srvs s) = lookups s"
  "allocs (notify_servers env d f srvs s) = allocs s"
  "sent (notify_servers env d f srvs s) = sent s @
     map (\<lambda>srv. (d, srv_pkt QRTR_TYPE_NEW_SERVER srv)) (filter (\<lambda>srv. server_match srv f) srvs)"
  by (induction srvs arbitrary: s) (simp_all add: ns_frame sent_lookup_notify)

lemma notify_nodes_frame [ns_frame]:
  "nodes (notify_nodes env d f ns s) = nodes s" "lookups (notify_nodes env d f ns s) = lookups s"
  "allocs (notify_nodes env d f ns s) = allocs s"
  "sent (notify_nodes env d f ns s) = sent s @
     map (\<lambda>srv. (d, srv_pkt QRTR_TYPE_NEW_SERVER srv))
       (filter (\<lambda>srv. server_match srv f) (concat (map (xa_values \<circ> snd) ns)))"
  by (induction env d f ns s rule: notify_nodes.induct) (simp_all add: ns_frame)

lemma advertise_frame [ns_frame]:
  "nodes (advertise env pkt srvs s) = nodes s" "lookups (advertise env pkt srvs s) = lookups s"
  "allocs (advertise env pkt srvs s) = allocs s"
  "sent (advertise env pkt srvs s) = sent s @
     map (\<lambda>srv. (\<lparr>sq_node = srv_node srv, sq_port = srv_port srv\<rparr>, pkt)) srvs"
  by (induction srvs arbitrary: s) (simp_all add: ns_frame)

lemma announce_node_frame [ns_frame]:
  "nodes (snd (announce_node env sq srvs s)) = nodes s" "lookups (snd (announce_node env sq srvs s)) = lookups s"
  "\<exists>k. sent (snd (announce_node env sq srvs s)) = sent s @
     map (\<lambda>srv. (sq, srv_pkt QRTR_TYPE_NEW_SERVER srv)) (take k srvs)"
proof (induction srvs arbitrary: s)
  case (Cons srv srvs)
  { case 1 show ?case using Cons(1) by (auto simp: service_announce_new_def kernel_sendmsg_def split: option.splits)
  next
    case 2 show ?case using Cons(2) by (auto simp: service_announce_new_def kernel_sendmsg_def split: option.splits)
  next
    case 3
    have "\<exists>k. sent s @ (sq, srv_pkt QRTR_TYPE_NEW_SERVER srv) #
        map (\<lambda>srv. (sq, srv_pkt QRTR_TYPE_NEW_SERVER srv)) (take k' srvs) =
      sent s @ map (\<lambda>srv. (sq, srv_pkt QRTR_TYPE_NEW_SERVER srv)) (take k (srv # srvs))" for k'
      by (rule exI[of _ "Suc k'"]) simp
    then show ?case using Cons(3)[of "s\<lparr>sent := sent s @ [(sq, srv_pkt QRTR_TYPE_NEW_SERVER srv)]\<rparr>"]
      by (auto simp: service_announce_new_def kernel_sendmsg_def split: option.splits
          intro: exI[of _ "Suc 0"])
  }
qed auto

lemma announce_nodes_frame [ns_frame]:
  "nodes (snd (announce_nodes env sq ns s)) = nodes s \<and> lookups (snd (announce_nodes env sq ns s)) = lookups s \<and>
    (\<exists>srvs. sent (snd (announce_nodes env sq ns s)) = sent s @ map (\<lambda>srv. (sq, srv_pkt QRTR_TYPE_NEW_SERVER srv)) srvs \<and>
       set srvs \<subseteq> set (concat (map (xa_values \<circ> snd) ns)))"
proof (induction env sq ns s rule: announce_nodes.induct)
  case (2 env sq nid servers ns s)
  show ?case
  proof (cases "nid = sq_node sq")
    case True
    then show ?thesis using 2(1) by auto
  next
    case False
    obtain r s' where rs: "announce_node env sq (xa_values servers) s = (r, s')" by force
    obtain k where k: "sent s' = sent s @ map (\<lambda>srv. (sq, srv_pkt QRTR_TYPE_NEW_SERVER srv)) (take k (xa_values servers))"
      using announce_node_frame(3)[of env sq "xa_values servers" s] rs by auto
    have f: "nodes s' = nodes s" "lookups s' = lookups s"
      using announce_node_frame(1,2)[of env sq "xa_values servers" s] rs by auto
    show ?thesis
    proof (cases r)
      case None
      with 2(2)[OF False rs[symmetric] None] obtain srvs where
        "sent (snd (announce_nodes env sq ns s')) = sent s' @ map (\<lambda>srv. (sq, srv_pkt QRTR_TYPE_NEW_SERVER srv)) srvs"
        "set srvs \<subseteq> set (concat (map (xa_values \<circ> snd) ns))"
        "nodes (snd (announce_nodes env sq ns s')) = nodes s'" "lookups (snd (announce_nodes env sq ns s')) = lookups s'"
        by blast
      moreover from this(2) have
        "set (take k (xa_values servers) @ srvs) \<subseteq> set (concat (map (xa_values \<circ> snd) ((nid, servers) # ns)))"
        using set_take_subset[of k "xa_values servers"] by auto
      ultimately show ?thesis using False None rs k f
        by (intro conjI exI[of _ "take k (xa_values servers) @ srvs"]) simp_all
    next
      case (Some e)
      then show ?thesis using False rs k f by (auto intro!: exI[of _ "take k (xa_values servers)"] dest: in_set_takeD)
    qed
  qed
qed auto

lemma ctrl_cmd_hello_frame [ns_frame]:
  "nodes (snd (ctrl_cmd_hello env s sq)) = nodes s" "lookups (snd (ctrl_cmd_hello env s sq)) = lookups s"
  using announce_nodes_frame[of env sq "nodes s" "s\<lparr>sent := sent s @ [(sq, server_pkt 2 0 0 0 0)]\<rparr>"]
  by (auto simp: ctrl_cmd_hello_def say_hello_def kernel_sendmsg_def announce_servers_def split: option.splits)

lemma servers_of_nodes: "nodes s' = nodes s \<Longrightarrow> servers_of s' = servers_of s"
  by (rule ext) (simp add: servers_of_def)

text \<open>The table of servers: indices increase, a server is stored under its own node and port.\<close>

definition table_ok :: "ns_state \<Rightarrow> bool" where
  "table_ok s \<longleftrightarrow> xa_inv (nodes s) \<and>
     (\<forall>n. xa_inv (servers_of s n) \<and>
        (\<forall>p srv. xa_load (servers_of s n) p = Some srv \<longrightarrow>
           srv_node srv = n \<and> srv_port srv = p \<and> srv_service srv \<noteq> 0 \<and> p \<noteq> 0))"

definition ns_inv :: "ns_env \<Rightarrow> ns_state \<Rightarrow> bool" where
  "ns_inv env s \<longleftrightarrow> table_ok s \<and> (\<forall>lk \<in> set (lookups s). sq_node (lk_sq lk) = local_node env)"

lemma table_ok_nodes: "nodes s' = nodes s \<Longrightarrow> table_ok s' = table_ok s"
  using servers_of_nodes[of s' s] by (simp add: table_ok_def)

lemma kzalloc_frame:
  "kzalloc env s = (r, s') \<Longrightarrow> nodes s' = nodes s \<and> lookups s' = lookups s \<and> sent s' = sent s"
  by (auto simp: kzalloc_def)

lemma node_get_frame:
  assumes "node_get env s n = (r, s')"
  shows "lookups s' = lookups s" "sent s' = sent s" "servers_of s' = servers_of s" "table_ok s \<Longrightarrow> table_ok s'"
proof -
  consider (same) "nodes s' = nodes s" "lookups s' = lookups s" "sent s' = sent s"
    | (new) "xa_load (nodes s) n = None" "nodes s' = xa_store (nodes s) n []" "lookups s' = lookups s" "sent s' = sent s"
    using assms by (auto simp: node_get_def kzalloc_def split: option.splits bool.splits)
  then have "lookups s' = lookups s \<and> sent s' = sent s \<and> servers_of s' = servers_of s \<and> (table_ok s \<longrightarrow> table_ok s')"
  proof cases
    case same
    then show ?thesis using table_ok_nodes[of s' s] servers_of_nodes[of s' s] by simp
  next
    case new
    then have "servers_of s' = servers_of s"
      by (intro ext) (auto simp: servers_of_def xa_load_store split: option.splits)
    then show ?thesis using new by (auto simp: table_ok_def xa_inv_store)
  qed
  then show "lookups s' = lookups s" "sent s' = sent s" "servers_of s' = servers_of s" "table_ok s \<Longrightarrow> table_ok s'"
    by auto
qed

lemma set_servers_frame:
  "lookups (set_servers s n xs) = lookups s" "sent (set_servers s n xs) = sent s"
  by (auto simp: set_servers_def split: option.split)

lemma servers_of_set_servers:
  "servers_of (set_servers s n xs) k = (if k = n \<and> xa_load (nodes s) n \<noteq> None then xs else servers_of s k)"
  by (auto simp: set_servers_def servers_of_def xa_load_store split: option.splits)

lemma table_ok_set_servers:
  assumes "table_ok s" "xa_inv xs"
    "\<And>p srv. xa_load xs p = Some srv \<Longrightarrow> srv_node srv = n \<and> srv_port srv = p \<and> srv_service srv \<noteq> 0 \<and> p \<noteq> 0"
  shows "table_ok (set_servers s n xs)"
proof -
  have "xa_inv (nodes (set_servers s n xs))"
    using assms(1) by (auto simp: set_servers_def table_ok_def xa_inv_store split: option.split)
  then show ?thesis using assms by (auto simp: table_ok_def servers_of_set_servers)
qed

lemma server_add_frame:
  assumes "server_add env s service inst n port = (r, s')"
  shows "lookups s' = lookups s" "sent s' = sent s" "k \<noteq> n \<Longrightarrow> servers_of s' k = servers_of s k"
    "case r of None \<Rightarrow> servers_of s' n = servers_of s n
     | Some srv \<Rightarrow> service \<noteq> 0 \<and> port \<noteq> 0 \<and>
         srv = \<lparr>srv_service = service, srv_instance = inst, srv_node = n, srv_port = port\<rparr> \<and>
         (servers_of s' n = servers_of s n \<or> servers_of s' n = xa_store (servers_of s n) port srv)"
    "table_ok s \<Longrightarrow> table_ok s'"
proof -
  consider (none) "r = None" "lookups s' = lookups s" "sent s' = sent s" "servers_of s' = servers_of s" "table_ok s \<longrightarrow> table_ok s'"
    | (some) s2 srv where "r = Some srv" "service \<noteq> 0" "port \<noteq> 0"
      "srv = \<lparr>srv_service = service, srv_instance = inst, srv_node = n, srv_port = port\<rparr>"
      "lookups s2 = lookups s" "sent s2 = sent s" "servers_of s2 = servers_of s" "table_ok s \<longrightarrow> table_ok s2"
      "s' = set_servers s2 n (xa_store (servers_of s2 n) port srv)"
  proof (cases "service = 0 \<or> port = 0")
    case True
    then show ?thesis using assms none by (auto simp: server_add_def)
  next
    case False
    obtain a s1 where a: "kzalloc env s = (a, s1)" by force
    obtain b s2 where b: "node_get env s1 n = (b, s2)" by force
    obtain c s3 where c: "kzalloc env s2 = (c, s3)" by force
    note F = kzalloc_frame[OF a] node_get_frame[OF b] kzalloc_frame[OF c]
    have S: "servers_of s1 = servers_of s" "servers_of s3 = servers_of s2" "table_ok s1 = table_ok s" "table_ok s3 = table_ok s2"
      using F(1,6) servers_of_nodes[of s1 s] servers_of_nodes[of s3 s2] table_ok_nodes[of s1 s] table_ok_nodes[of s3 s2]
      by simp_all
    show ?thesis
    proof (cases "a \<and> b \<and> c")
      case True
      then show ?thesis using assms False a b c F S some[of _ s3] by (auto simp: server_add_def Let_def)
    next
      case ne: False
      then have "r = None" "s' = s1 \<or> s' = s2 \<or> s' = s3"
        using assms False a b c by (auto simp: server_add_def Let_def split: bool.splits)
      then show ?thesis using none F S by metis
    qed
  qed
  note C = this
  show "lookups s' = lookups s" "sent s' = sent s" "k \<noteq> n \<Longrightarrow> servers_of s' k = servers_of s k"
    using C by (cases; auto simp: set_servers_frame servers_of_set_servers)+
  show "case r of None \<Rightarrow> servers_of s' n = servers_of s n
     | Some srv \<Rightarrow> service \<noteq> 0 \<and> port \<noteq> 0 \<and>
         srv = \<lparr>srv_service = service, srv_instance = inst, srv_node = n, srv_port = port\<rparr> \<and>
         (servers_of s' n = servers_of s n \<or> servers_of s' n = xa_store (servers_of s n) port srv)"
    using C by (cases; auto simp: servers_of_set_servers)
  show "table_ok s \<Longrightarrow> table_ok s'"
    using C
  proof cases
    case (some s2 srv)
    assume "table_ok s"
    then have t: "table_ok s2" using some by simp
    then show "table_ok s'"
      unfolding some(9) using some(2-4)
      by (intro table_ok_set_servers) (auto simp: table_ok_def xa_inv_store xa_load_store split: if_splits)
  qed auto
qed

lemma xa_erase_absent: "xa_load xs i = None \<Longrightarrow> xa_erase xs i = xs"
  by (induction xs i rule: xa_erase.induct) (auto split: if_splits)

lemma server_del_None: "xa_load (servers_of s n) port = None \<Longrightarrow> server_del env s n port = (Some ENOENT, s)"
  by (simp add: server_del_def)

lemma server_del_Some:
  fixes env :: ns_env
  assumes srv: "xa_load (servers_of s n) port = Some srv"
  defines "s' \<equiv> snd (server_del env s n port)"
  shows "fst (server_del env s n port) = None" "lookups s' = lookups s"
    "servers_of s' k = (if k = n then xa_erase (servers_of s n) port else servers_of s k)"
    "sent s' = sent s @ (if srv_node srv = local_node env then [(bcast_sq, srv_pkt QRTR_TYPE_DEL_SERVER srv)] else []) @
       map (\<lambda>lk. (lk_sq lk, srv_pkt QRTR_TYPE_DEL_SERVER srv)) (filter (\<lambda>lk. lookup_wants lk srv) (lookups s))"
    "table_ok s \<Longrightarrow> table_ok s'"
proof -
  define s1 where "s1 = set_servers s n (xa_erase (servers_of s n) port)"
  define s2 where "s2 = (if srv_node srv = local_node env then snd (service_announce_del env s1 bcast_sq srv) else s1)"
  have eq: "server_del env s n port = (None, notify_lookups env srv False (lookups s2) s2)"
    by (simp add: server_del_def srv Let_def s1_def s2_def)
  have n2: "nodes s2 = nodes s1" "lookups s2 = lookups s1"
    by (simp_all add: s2_def service_announce_del_def ns_frame)
  have l1: "lookups s1 = lookups s" "sent s1 = sent s" by (simp_all add: s1_def set_servers_frame)
  have sv: "servers_of s' = servers_of s1" using n2 by (intro servers_of_nodes) (simp add: s'_def eq ns_frame)
  have ld: "xa_load (nodes s) n \<noteq> None" using srv by (auto simp: servers_of_def split: option.splits)
  show "fst (server_del env s n port) = None" "lookups s' = lookups s"
    using n2 l1 by (simp_all add: s'_def eq ns_frame)
  show "servers_of s' k = (if k = n then xa_erase (servers_of s n) port else servers_of s k)"
    using ld unfolding sv s1_def by (auto simp: servers_of_set_servers)
  show "sent s' = sent s @ (if srv_node srv = local_node env then [(bcast_sq, srv_pkt QRTR_TYPE_DEL_SERVER srv)] else []) @
       map (\<lambda>lk. (lk_sq lk, srv_pkt QRTR_TYPE_DEL_SERVER srv)) (filter (\<lambda>lk. lookup_wants lk srv) (lookups s))"
    using n2 l1 by (simp add: s'_def eq ns_frame s2_def service_announce_del_def)
  assume t: "table_ok s"
  then have "table_ok s1"
    unfolding s1_def by (intro table_ok_set_servers) (auto simp: table_ok_def xa_inv_erase xa_load_erase split: if_splits)
  then show "table_ok s'" using n2 table_ok_nodes[of s' s1] by (simp add: s'_def eq ns_frame)
qed

lemma server_del_frame:
  "lookups (snd (server_del env s n port)) = lookups s"
  "servers_of (snd (server_del env s n port)) k = (if k = n then xa_erase (servers_of s n) port else servers_of s k)"
  "table_ok s \<Longrightarrow> table_ok (snd (server_del env s n port))"
  by (cases "xa_load (servers_of s n) port";
      simp add: server_del_None server_del_Some xa_erase_absent)+

lemma server_del_all_frame:
  "lookups (server_del_all env n srvs s) = lookups s"
  "servers_of (server_del_all env n srvs s) k =
     (if k = n then foldl xa_erase (servers_of s n) (map srv_port srvs) else servers_of s k)"
  "table_ok s \<Longrightarrow> table_ok (server_del_all env n srvs s)"
  by (induction srvs arbitrary: s) (simp_all add: server_del_frame)

lemma server_del_all_empty:
  assumes "table_ok s"
  shows "xa_load (servers_of (server_del_all env n (xa_values (servers_of s n)) s) n) p = None"
proof -
  have i: "xa_inv (servers_of s n)" using assms by (simp add: table_ok_def)
  have "p \<in> set (map srv_port (xa_values (servers_of s n)))" if "xa_load (servers_of s n) p = Some srv" for srv
  proof -
    have "srv \<in> set (xa_values (servers_of s n))" "srv_port srv = p"
      using that i assms by (auto simp: xa_values_set table_ok_def)
    then show ?thesis by force
  qed
  then show ?thesis
    using xa.erase_all[OF i, of "map srv_port (xa_values (servers_of s n))" p]
    by (cases "xa_load (servers_of s n) p") (auto simp: server_del_all_frame)
qed

section \<open>What a control packet can change\<close>

lemma advertise_servers: "servers_of (advertise env pkt srvs s) = servers_of s" "table_ok (advertise env pkt srvs s) = table_ok s"
  using servers_of_nodes[of "advertise env pkt srvs s" s] table_ok_nodes[of "advertise env pkt srvs s" s]
  by (simp_all add: ns_frame)

lemma bye_effect:
  assumes "ctrl_cmd_bye env s from_sq = (r, s')"
  shows "r = None" "lookups s' = lookups s" "k \<noteq> sq_node from_sq \<Longrightarrow> servers_of s' k = servers_of s k"
    "table_ok s \<Longrightarrow> table_ok s'"
    "table_ok s \<Longrightarrow> fst (node_get env s (sq_node from_sq)) \<Longrightarrow> xa_load (servers_of s' (sq_node from_sq)) p = None"
proof -
  let ?n = "sq_node from_sq"
  obtain a s1 where a: "node_get env s ?n = (a, s1)" by force
  define s2 where "s2 = server_del_all env ?n (xa_values (servers_of s1 ?n)) s1"
  obtain b s3 where b: "node_get env s2 (local_node env) = (b, s3)" by force
  define s4 where "s4 = (if b then advertise env (client_pkt QRTR_TYPE_BYE ?n 0) (xa_values (servers_of s3 (local_node env))) s3 else s3)"
  note A = node_get_frame[OF a] and B = node_get_frame[OF b]
  have r: "r = None" "s' = (if a then s4 else s1)"
    using assms a b by (auto simp: ctrl_cmd_bye_def Let_def s2_def s4_def split: bool.splits)
  have s4: "servers_of s4 = servers_of s2" "lookups s4 = lookups s2" "table_ok s2 \<Longrightarrow> table_ok s4"
    using B by (auto simp: s4_def advertise_servers ns_frame)
  show "r = None" using r by simp
  show "lookups s' = lookups s" "k \<noteq> ?n \<Longrightarrow> servers_of s' k = servers_of s k"
    using r A s4 by (auto simp: s2_def server_del_all_frame)
  show "table_ok s \<Longrightarrow> table_ok s'" using r A s4 by (auto simp: s2_def server_del_all_frame)
  show "table_ok s \<Longrightarrow> fst (node_get env s ?n) \<Longrightarrow> xa_load (servers_of s' ?n) p = None"
    using r A s4 a server_del_all_empty[of s1 env ?n p] by (auto simp: s2_def)
qed

lemma del_client_effect:
  assumes "ctrl_cmd_del_client env s from_sq n port = (r, s')"
  shows "set (lookups s') \<subseteq> set (lookups s)" "k \<noteq> sq_node from_sq \<Longrightarrow> servers_of s' k = servers_of s k"
    "servers_of s' (sq_node from_sq) = servers_of s (sq_node from_sq) \<or>
       sq_node from_sq = n \<and> (n = local_node env \<longrightarrow> sq_port from_sq = port) \<and>
       servers_of s' n = xa_erase (servers_of s n) port"
    "table_ok s \<Longrightarrow> table_ok s'"
proof -
  let ?ok = "sq_node from_sq = n \<and> (n = local_node env \<longrightarrow> sq_port from_sq = port)"
  define s1 where "s1 = s\<lparr>lookups := filter (\<lambda>lk. \<not> (sq_node (lk_sq lk) = n \<and> sq_port (lk_sq lk) = port)) (lookups s)\<rparr>"
  obtain a s2 where a: "node_get env s1 n = (a, s2)" by force
  define s3 where "s3 = (if a then snd (server_del env s2 n port) else s2)"
  obtain b s4 where b: "node_get env s3 (local_node env) = (b, s4)" by force
  define s5 where "s5 = (if b then advertise env (client_pkt QRTR_TYPE_DEL_CLIENT n port) (xa_values (servers_of s4 (local_node env))) s4 else s4)"
  note A = node_get_frame[OF a] and B = node_get_frame[OF b]
  have s': "s' = (if ?ok then s5 else s)"
  proof (cases ?ok)
    case True
    then have "ctrl_cmd_del_client env s from_sq n port = (None, s5)"
      using a b unfolding ctrl_cmd_del_client_def Let_def s1_def[symmetric] s3_def s5_def
      by (cases a; cases b) auto
    with True assms show ?thesis by simp
  next
    case False
    then have "ctrl_cmd_del_client env s from_sq n port = (Some EINVAL, s)"
      by (cases "sq_node from_sq = n") (auto simp: ctrl_cmd_del_client_def)
    with False assms show ?thesis by auto
  qed
  have s1: "servers_of s1 = servers_of s" "table_ok s1 = table_ok s"
    using servers_of_nodes[of s1 s] table_ok_nodes[of s1 s] by (simp_all add: s1_def)
  have s5: "servers_of s5 = servers_of s3" "lookups s5 = lookups s3" "table_ok s3 \<Longrightarrow> table_ok s5"
    using B by (auto simp: s5_def advertise_servers ns_frame)
  show "set (lookups s') \<subseteq> set (lookups s)"
    using s' s5 A by (auto simp: s3_def server_del_frame s1_def)
  show "k \<noteq> sq_node from_sq \<Longrightarrow> servers_of s' k = servers_of s k"
    "servers_of s' (sq_node from_sq) = servers_of s (sq_node from_sq) \<or>
       sq_node from_sq = n \<and> (n = local_node env \<longrightarrow> sq_port from_sq = port) \<and>
       servers_of s' n = xa_erase (servers_of s n) port"
    using s' s5 A s1 by (auto simp: s3_def server_del_frame)
  show "table_ok s \<Longrightarrow> table_ok s'" using s' s5 A s1 by (auto simp: s3_def server_del_frame)
qed

lemma new_server_effect:
  assumes "ctrl_cmd_new_server env s from_sq service inst n0 port0 = (r, s')"
  defines "n \<equiv> sq_node from_sq"
  shows "lookups s' = lookups s" "k \<noteq> n \<Longrightarrow> servers_of s' k = servers_of s k"
    "servers_of s' n = servers_of s n \<or>
       (\<exists>port srv. (n = local_node env \<longrightarrow> port = sq_port from_sq) \<and> servers_of s' n = xa_store (servers_of s n) port srv)"
    "table_ok s \<Longrightarrow> table_ok s'"
proof -
  define nid where "nid = (if n = local_node env then n else n0)"
  define port where "port = (if n = local_node env then sq_port from_sq else port0)"
  have "lookups s' = lookups s \<and> (k \<noteq> n \<longrightarrow> servers_of s' k = servers_of s k) \<and>
    (servers_of s' n = servers_of s n \<or>
       (\<exists>port srv. (n = local_node env \<longrightarrow> port = sq_port from_sq) \<and> servers_of s' n = xa_store (servers_of s n) port srv)) \<and>
    (table_ok s \<longrightarrow> table_ok s')"
  proof (cases "n = nid")
    case False
    then show ?thesis using assms(1) by (auto simp: ctrl_cmd_new_server_def Let_def nid_def n_def split: if_splits)
  next
    case True
    obtain a s1 where a: "server_add env s service inst n port = (a, s1)" by force
    note A = server_add_frame[OF a]
    have nl: "nodes s' = nodes s1 \<and> lookups s' = lookups s1"
      using assms(1) a True
      by (auto simp: ctrl_cmd_new_server_def Let_def nid_def port_def n_def service_announce_new_def kernel_sendmsg_def
          ns_frame split: option.splits if_splits)
    then have "servers_of s' = servers_of s1" "table_ok s' = table_ok s1"
      using servers_of_nodes[of s' s1] table_ok_nodes[of s' s1] by auto
    moreover have "servers_of s1 n = servers_of s n \<or> (\<exists>srv. servers_of s1 n = xa_store (servers_of s n) port srv)"
      using A(4) by (auto split: option.splits)
    then have "servers_of s1 n = servers_of s n \<or> (\<exists>port srv. (n = local_node env \<longrightarrow> port = sq_port from_sq) \<and>
        servers_of s1 n = xa_store (servers_of s n) port srv)"
      by (metis port_def)
    ultimately show ?thesis using nl A(1,3,5) by simp
  qed
  then show "lookups s' = lookups s" "k \<noteq> n \<Longrightarrow> servers_of s' k = servers_of s k"
    "servers_of s' n = servers_of s n \<or>
       (\<exists>port srv. (n = local_node env \<longrightarrow> port = sq_port from_sq) \<and> servers_of s' n = xa_store (servers_of s n) port srv)"
    "table_ok s \<Longrightarrow> table_ok s'" by blast+
qed

lemma del_server_effect:
  assumes "ctrl_cmd_del_server env s from_sq service inst n0 port0 = (r, s')"
  defines "n \<equiv> sq_node from_sq"
  shows "lookups s' = lookups s" "k \<noteq> n \<Longrightarrow> servers_of s' k = servers_of s k"
    "servers_of s' n = servers_of s n \<or>
       (\<exists>port. (n = local_node env \<longrightarrow> port = sq_port from_sq) \<and> servers_of s' n = xa_erase (servers_of s n) port)"
    "table_ok s \<Longrightarrow> table_ok s'"
proof -
  define port where "port = (if n = local_node env then sq_port from_sq else port0)"
  obtain a s1 where a: "node_get env s n = (a, s1)" by force
  note A = node_get_frame[OF a]
  have "s' = s \<or> s' = s1 \<or> s' = snd (server_del env s1 n port)"
    using assms(1) a by (auto simp: ctrl_cmd_del_server_def Let_def port_def n_def split: if_splits bool.splits)
  then have D: "lookups s' = lookups s \<and> (k \<noteq> n \<longrightarrow> servers_of s' k = servers_of s k) \<and>
    (servers_of s' n = servers_of s n \<or> servers_of s' n = xa_erase (servers_of s n) port) \<and> (table_ok s \<longrightarrow> table_ok s')"
    using A by (elim disjE) (simp_all add: server_del_frame)
  have "n = local_node env \<longrightarrow> port = sq_port from_sq" by (simp add: port_def)
  with D have "lookups s' = lookups s \<and> (k \<noteq> n \<longrightarrow> servers_of s' k = servers_of s k) \<and>
    (servers_of s' n = servers_of s n \<or>
       (\<exists>port. (n = local_node env \<longrightarrow> port = sq_port from_sq) \<and> servers_of s' n = xa_erase (servers_of s n) port)) \<and>
    (table_ok s \<longrightarrow> table_ok s')"
    by blast
  then show "lookups s' = lookups s" "k \<noteq> n \<Longrightarrow> servers_of s' k = servers_of s k"
    "servers_of s' n = servers_of s n \<or>
       (\<exists>port. (n = local_node env \<longrightarrow> port = sq_port from_sq) \<and> servers_of s' n = xa_erase (servers_of s n) port)"
    "table_ok s \<Longrightarrow> table_ok s'" by blast+
qed

lemma new_lookup_effect:
  assumes "ctrl_cmd_new_lookup env s from_sq service inst = (r, s')"
  shows "nodes s' = nodes s"
    "lookups s' = lookups s \<or> sq_node from_sq = local_node env \<and>
       lookups s' = lookups s @ [\<lparr>lk_service = service, lk_instance = inst, lk_sq = from_sq\<rparr>]"
proof -
  obtain b s1 where b: "kzalloc env s = (b, s1)" by force
  note K = kzalloc_frame[OF b]
  have "nodes s' = nodes s \<and> (lookups s' = lookups s \<or> sq_node from_sq = local_node env \<and>
       lookups s' = lookups s @ [\<lparr>lk_service = service, lk_instance = inst, lk_sq = from_sq\<rparr>])"
  proof (cases "sq_node from_sq = local_node env \<and> b")
    case True
    then show ?thesis using assms b K by (auto simp: ctrl_cmd_new_lookup_def Let_def ns_frame)
  next
    case False
    then have "s' = s \<or> s' = s1" using assms b by (auto simp: ctrl_cmd_new_lookup_def split: if_splits)
    then show ?thesis using K by auto
  qed
  then show "nodes s' = nodes s"
    "lookups s' = lookups s \<or> sq_node from_sq = local_node env \<and>
       lookups s' = lookups s @ [\<lparr>lk_service = service, lk_instance = inst, lk_sq = from_sq\<rparr>]"
    by blast+
qed

lemma ns_dispatch_cases:
  assumes "ns_dispatch env s sq pkt = (r, s')"
  obtains (hello) "cmd pkt = QRTR_TYPE_HELLO" "ctrl_cmd_hello env s sq = (r, s')"
    | (bye) "cmd pkt = QRTR_TYPE_BYE" "ctrl_cmd_bye env s sq = (r, s')"
    | (del_client) "cmd pkt = QRTR_TYPE_DEL_CLIENT" "ctrl_cmd_del_client env s sq (client_node pkt) (client_port pkt) = (r, s')"
    | (new_server) "cmd pkt = QRTR_TYPE_NEW_SERVER"
        "ctrl_cmd_new_server env s sq (server_service pkt) (server_instance pkt) (server_node pkt) (server_port pkt) = (r, s')"
    | (del_server) "cmd pkt = QRTR_TYPE_DEL_SERVER"
        "ctrl_cmd_del_server env s sq (server_service pkt) (server_instance pkt) (server_node pkt) (server_port pkt) = (r, s')"
    | (new_lookup) "cmd pkt = QRTR_TYPE_NEW_LOOKUP"
        "ctrl_cmd_new_lookup env s sq (server_service pkt) (server_instance pkt) = (r, s')"
    | (del_lookup) "cmd pkt = QRTR_TYPE_DEL_LOOKUP" "r = None"
        "s' = ctrl_cmd_del_lookup s sq (server_service pkt) (server_instance pkt)"
    | (other) "r = None" "s' = s"
  using assms unfolding ns_dispatch_def by (simp split: if_splits)

lemma ns_dispatch_inv:
  assumes I: "ns_inv env s" and ret: "ns_dispatch env s sq pkt = (r, s')"
  shows "ns_inv env s'"
  using ret
proof (cases rule: ns_dispatch_cases)
  case hello
  then have "nodes s' = nodes s" "lookups s' = lookups s" using ctrl_cmd_hello_frame[of env s sq] by auto
  then show ?thesis using I table_ok_nodes[of s' s] by (simp add: ns_inv_def)
next
  case bye
  then show ?thesis using I bye_effect[OF bye(2)] by (auto simp: ns_inv_def)
next
  case del_client
  then show ?thesis using I del_client_effect[OF del_client(2)] by (auto simp: ns_inv_def)
next
  case new_server
  then show ?thesis using I new_server_effect[OF new_server(2)] by (auto simp: ns_inv_def)
next
  case del_server
  then show ?thesis using I del_server_effect[OF del_server(2)] by (auto simp: ns_inv_def)
next
  case new_lookup
  then show ?thesis using I new_lookup_effect[OF new_lookup(2)] table_ok_nodes[of s' s] by (auto simp: ns_inv_def)
next
  case del_lookup
  then show ?thesis using I table_ok_nodes[of s' s] by (auto simp: ns_inv_def ctrl_cmd_del_lookup_def)
next
  case other
  then show ?thesis using I by simp
qed

lemma ns_recv_loop_inv: "ns_inv env s \<Longrightarrow> ns_inv env (ns_recv_loop env s buf rs)"
proof (induction env s buf rs rule: ns_recv_loop.induct)
  case (3 env s buf sq msg rs)
  then show ?case using ns_dispatch_inv[OF 3(2) surjective_pairing] by (simp add: Let_def)
qed auto

section \<open>What an observer knows\<close>

definition registered :: "ns_state \<Rightarrow> qrtr_server \<Rightarrow> bool" where
  "registered s srv \<longleftrightarrow> xa_load (servers_of s (srv_node srv)) (srv_port srv) = Some srv"

definition pkt_server :: "qrtr_ctrl_pkt \<Rightarrow> qrtr_server" where
  "pkt_server pkt = \<lparr>srv_service = server_service pkt, srv_instance = server_instance pkt,
     srv_node = server_node pkt, srv_port = server_port pkt\<rparr>"

text \<open>The servers an observer at address \<open>a\<close> knows of after a sequence of packets.\<close>

definition view_upd :: "sockaddr_qrtr \<Rightarrow> sockaddr_qrtr \<times> qrtr_ctrl_pkt \<Rightarrow> qrtr_server set \<Rightarrow> qrtr_server set" where
  "view_upd a m V =
     (if fst m \<noteq> a then V
      else if cmd (snd m) = QRTR_TYPE_NEW_SERVER then insert (pkt_server (snd m)) V
      else if cmd (snd m) = QRTR_TYPE_DEL_SERVER then V - {pkt_server (snd m)}
      else V)"

definition view :: "sockaddr_qrtr \<Rightarrow> (sockaddr_qrtr \<times> qrtr_ctrl_pkt) list \<Rightarrow> qrtr_server set" where
  "view a ms = fold (view_upd a) ms {}"

text \<open>After the first \<open>n\<close> packets, the observer's view of the servers it asked for is the table.\<close>

definition consistent :: "qrtr_lookup \<Rightarrow> nat \<Rightarrow> ns_state \<Rightarrow> bool" where
  "consistent lk n s \<longleftrightarrow> n \<le> length (sent s) \<and>
     (\<forall>srv. lookup_wants lk srv \<and> srv_service srv \<noteq> 0 \<longrightarrow>
        srv \<in> view (lk_sq lk) (drop n (sent s)) \<longleftrightarrow> registered s srv)"

fun ns_run :: "ns_env \<Rightarrow> ns_state \<Rightarrow> (sockaddr_qrtr \<times> qrtr_ctrl_pkt) list \<Rightarrow> ns_state" where
  "ns_run env s [] = s"
| "ns_run env s ((sq, pkt) # ps) = ns_run env (snd (ns_dispatch env s sq pkt)) ps"

text \<open>The port a server packet takes effect on, and that it does not displace another server there.\<close>

definition effective_port :: "ns_env \<Rightarrow> sockaddr_qrtr \<Rightarrow> qrtr_ctrl_pkt \<Rightarrow> u32" where
  "effective_port env sq pkt = (if sq_node sq = local_node env then sq_port sq else server_port pkt)"

definition no_displacement :: "ns_env \<Rightarrow> ns_state \<Rightarrow> sockaddr_qrtr \<Rightarrow> qrtr_ctrl_pkt \<Rightarrow> bool" where
  "no_displacement env s sq pkt \<longleftrightarrow>
     (cmd pkt = QRTR_TYPE_NEW_SERVER \<longrightarrow>
        (case xa_load (servers_of s (sq_node sq)) (effective_port env sq pkt) of
           None \<Rightarrow> True
         | Some old \<Rightarrow> srv_service old = server_service pkt \<and> srv_instance old = server_instance pkt))"

fun calm_run :: "ns_env \<Rightarrow> qrtr_lookup \<Rightarrow> ns_state \<Rightarrow> (sockaddr_qrtr \<times> qrtr_ctrl_pkt) list \<Rightarrow> bool" where
  "calm_run env lk s [] \<longleftrightarrow> True"
| "calm_run env lk s ((sq, pkt) # ps) \<longleftrightarrow>
     no_displacement env s sq pkt \<and> lk \<in> set (lookups (snd (ns_dispatch env s sq pkt))) \<and>
     calm_run env lk (snd (ns_dispatch env s sq pkt)) ps"

lemma pkt_server_srv_pkt [simp]: "pkt_server (srv_pkt c srv) = srv" "cmd (srv_pkt c srv) = c"
  by (simp_all add: pkt_server_def srv_pkt_def server_pkt_def)

lemma cmd_server_pkt [simp]: "cmd (server_pkt c a b d e) = c" "cmd (client_pkt c a b) = c"
  "srv_service (pkt_server (server_pkt c a b d e)) = a"
  by (simp_all add: server_pkt_def client_pkt_def pkt_server_def)

lemma view_fold:
  assumes "\<forall>(d, p) \<in> set ms. d = a \<and> pkt_server p = srv \<longrightarrow>
      (cmd p = QRTR_TYPE_NEW_SERVER \<longrightarrow> R) \<and> (cmd p = QRTR_TYPE_DEL_SERVER \<longrightarrow> \<not> R)"
  shows "srv \<in> fold (view_upd a) ms V \<longleftrightarrow>
    (if \<exists>p. (a, p) \<in> set ms \<and> pkt_server p = srv \<and> (cmd p = QRTR_TYPE_NEW_SERVER \<or> cmd p = QRTR_TYPE_DEL_SERVER)
     then R else srv \<in> V)"
  using assms
proof (induction ms arbitrary: V)
  case (Cons m ms)
  obtain d p where m: "m = (d, p)" by force
  have IH: "srv \<in> fold (view_upd a) ms W \<longleftrightarrow>
    (if \<exists>p. (a, p) \<in> set ms \<and> pkt_server p = srv \<and> (cmd p = QRTR_TYPE_NEW_SERVER \<or> cmd p = QRTR_TYPE_DEL_SERVER)
     then R else srv \<in> W)" for W using Cons by auto
  show ?case
    using Cons.prems unfolding m fold_simps comp_def IH by (auto simp: view_upd_def split: if_splits)
qed simp

lemma consistent_step:
  assumes C: "consistent lk n s" and sent: "sent s' = sent s @ new"
    and good: "\<And>d p. (d, p) \<in> set new \<Longrightarrow>
      (cmd p = QRTR_TYPE_NEW_SERVER \<longrightarrow> srv_service (pkt_server p) = 0 \<or> registered s' (pkt_server p)) \<and>
      (cmd p = QRTR_TYPE_DEL_SERVER \<longrightarrow> \<not> registered s' (pkt_server p))"
    and told: "\<And>srv. lookup_wants lk srv \<Longrightarrow> srv_service srv \<noteq> 0 \<Longrightarrow> registered s' srv \<noteq> registered s srv \<Longrightarrow>
      \<exists>p. (lk_sq lk, p) \<in> set new \<and> pkt_server p = srv \<and> (cmd p = QRTR_TYPE_NEW_SERVER \<or> cmd p = QRTR_TYPE_DEL_SERVER)"
  shows "consistent lk n s'"
  unfolding consistent_def
proof (intro conjI allI impI)
  show "n \<le> length (sent s')" using C sent by (simp add: consistent_def)
  fix srv assume w: "lookup_wants lk srv \<and> srv_service srv \<noteq> 0"
  have "view (lk_sq lk) (drop n (sent s')) = fold (view_upd (lk_sq lk)) new (view (lk_sq lk) (drop n (sent s)))"
    using C sent by (simp add: consistent_def view_def)
  moreover have "\<forall>(d, p) \<in> set new. d = lk_sq lk \<and> pkt_server p = srv \<longrightarrow>
      (cmd p = QRTR_TYPE_NEW_SERVER \<longrightarrow> registered s' srv) \<and> (cmd p = QRTR_TYPE_DEL_SERVER \<longrightarrow> \<not> registered s' srv)"
    using good w by blast
  moreover have "srv \<in> view (lk_sq lk) (drop n (sent s)) \<longleftrightarrow> registered s srv"
    using C w by (simp add: consistent_def)
  ultimately show "srv \<in> view (lk_sq lk) (drop n (sent s')) \<longleftrightarrow> registered s' srv"
    using view_fold[of new "lk_sq lk" srv "registered s' srv"] told[of srv] w by auto
qed

lemma consistent_same:
  assumes "consistent lk n s" "sent s' = sent s" "servers_of s' = servers_of s"
  shows "consistent lk n s'"
  using assms by (simp add: consistent_def registered_def)

lemma registered_del:
  assumes "table_ok s" "xa_load (servers_of s nd) port = Some srv"
  shows "registered (snd (server_del env s nd port)) x \<longleftrightarrow> registered s x \<and> x \<noteq> srv" "registered s srv"
proof -
  have srv: "srv_node srv = nd" "srv_port srv = port" "xa_inv (servers_of s nd)" using assms by (auto simp: table_ok_def)
  show "registered s srv" using assms(2) srv by (simp add: registered_def)
  show "registered (snd (server_del env s nd port)) x \<longleftrightarrow> registered s x \<and> x \<noteq> srv"
    using assms(2) srv by (auto simp: registered_def server_del_frame xa_load_erase)
qed

lemma server_del_consistent:
  assumes T: "table_ok s" and lk: "lk \<in> set (lookups s)" and C: "consistent lk n s"
  shows "consistent lk n (snd (server_del env s nd port))"
proof (cases "xa_load (servers_of s nd) port")
  case None
  then show ?thesis using C by (simp add: server_del_None)
next
  case (Some srv)
  note R = registered_del[OF T Some]
  show ?thesis
    by (rule consistent_step[OF C server_del_Some(4)[OF Some]]) (use lk in \<open>auto simp: R split: if_splits\<close>)
qed

lemma server_del_all_consistent:
  "table_ok s \<Longrightarrow> lk \<in> set (lookups s) \<Longrightarrow> consistent lk n s \<Longrightarrow> consistent lk n (server_del_all env nd srvs s)"
  by (induction srvs arbitrary: s) (simp_all add: server_del_frame server_del_consistent)

lemma advertise_consistent:
  assumes "consistent lk n s" "cmd pkt \<noteq> QRTR_TYPE_NEW_SERVER" "cmd pkt \<noteq> QRTR_TYPE_DEL_SERVER"
  shows "consistent lk n (advertise env pkt srvs s)"
  by (rule consistent_step[OF assms(1) advertise_frame(4)])
    (use assms(2,3) in \<open>auto simp: registered_def advertise_servers\<close>)

lemma bye_consistent:
  assumes T: "table_ok s" and lk: "lk \<in> set (lookups s)" and C: "consistent lk n s"
    and ret: "ctrl_cmd_bye env s from_sq = (r, s')"
  shows "consistent lk n s'"
proof -
  let ?n = "sq_node from_sq"
  obtain a s1 where a: "node_get env s ?n = (a, s1)" by force
  define s2 where "s2 = server_del_all env ?n (xa_values (servers_of s1 ?n)) s1"
  obtain b s3 where b: "node_get env s2 (local_node env) = (b, s3)" by force
  define s4 where "s4 = (if b then advertise env (client_pkt QRTR_TYPE_BYE ?n 0) (xa_values (servers_of s3 (local_node env))) s3 else s3)"
  note A = node_get_frame[OF a] and B = node_get_frame[OF b]
  have s': "s' = (if a then s4 else s1)"
    using ret a b by (auto simp: ctrl_cmd_bye_def Let_def s2_def s4_def split: bool.splits)
  have C1: "consistent lk n s1" using consistent_same[OF C A(2,3)] .
  have "consistent lk n s2" unfolding s2_def using A T lk C1 by (intro server_del_all_consistent) auto
  then have "consistent lk n s3" using consistent_same[of lk n s2 s3] B by simp
  then have "consistent lk n s4" by (auto simp: s4_def intro!: advertise_consistent)
  then show ?thesis using s' C1 by simp
qed

lemma del_client_consistent:
  assumes T: "table_ok s" and lk: "lk \<in> set (lookups s')" and C: "consistent lk n s"
    and ret: "ctrl_cmd_del_client env s from_sq nd port = (r, s')"
  shows "consistent lk n s'"
proof (cases "sq_node from_sq = nd \<and> (nd = local_node env \<longrightarrow> sq_port from_sq = port)")
  case False
  then have "ctrl_cmd_del_client env s from_sq nd port = (Some EINVAL, s)"
    by (cases "sq_node from_sq = nd") (auto simp: ctrl_cmd_del_client_def)
  then show ?thesis using ret C by simp
next
  case True
  define s1 where "s1 = s\<lparr>lookups := filter (\<lambda>lk. \<not> (sq_node (lk_sq lk) = nd \<and> sq_port (lk_sq lk) = port)) (lookups s)\<rparr>"
  obtain a s2 where a: "node_get env s1 nd = (a, s2)" by force
  define s3 where "s3 = (if a then snd (server_del env s2 nd port) else s2)"
  obtain b s4 where b: "node_get env s3 (local_node env) = (b, s4)" by force
  define s5 where "s5 = (if b then advertise env (client_pkt QRTR_TYPE_DEL_CLIENT nd port) (xa_values (servers_of s4 (local_node env))) s4 else s4)"
  note A = node_get_frame[OF a] and B = node_get_frame[OF b]
  have "ctrl_cmd_del_client env s from_sq nd port = (None, s5)"
    using True a b unfolding ctrl_cmd_del_client_def Let_def s1_def[symmetric] s3_def s5_def
    by (cases a; cases b) auto
  then have s': "s' = s5" using ret by simp
  have n1: "nodes s1 = nodes s" "sent s1 = sent s" by (simp_all add: s1_def)
  then have C2: "consistent lk n s2" and T2: "table_ok s2"
    using consistent_same[of lk n s s2] C A T servers_of_nodes[OF n1(1)] table_ok_nodes[OF n1(1)] by auto
  have "lookups s5 = lookups s2" using B by (simp add: s5_def ns_frame s3_def server_del_frame)
  then have "lk \<in> set (lookups s2)" using lk s' by simp
  then have "consistent lk n s3" using server_del_consistent[OF T2 _ C2] C2 by (simp add: s3_def)
  then have "consistent lk n s4" using consistent_same[of lk n s3 s4] B by simp
  then show ?thesis unfolding s' by (auto simp: s5_def intro!: advertise_consistent)
qed

lemma del_server_consistent:
  assumes T: "table_ok s" and lk: "lk \<in> set (lookups s)" and C: "consistent lk n s"
    and ret: "ctrl_cmd_del_server env s from_sq service inst n0 port0 = (r, s')"
  shows "consistent lk n s'"
proof -
  define port where "port = (if sq_node from_sq = local_node env then sq_port from_sq else port0)"
  obtain a s1 where a: "node_get env s (sq_node from_sq) = (a, s1)" by force
  note A = node_get_frame[OF a]
  have "s' = s \<or> s' = s1 \<or> s' = snd (server_del env s1 (sq_node from_sq) port)"
    using ret a by (auto simp: ctrl_cmd_del_server_def Let_def port_def split: if_splits bool.splits)
  moreover have "consistent lk n s1" using consistent_same[OF C A(2,3)] .
  ultimately show ?thesis using C A T lk by (elim disjE) (simp_all add: server_del_consistent)
qed

text \<open>The table in the order of its two loops.\<close>

definition all_servers :: "ns_state \<Rightarrow> qrtr_server list" where
  "all_servers s = concat (map (xa_values \<circ> snd) (nodes s))"

lemma registered_listed:
  assumes "table_ok s"
  shows "srv \<in> set (all_servers s) \<longleftrightarrow> registered s srv"
proof
  assume "srv \<in> set (all_servers s)"
  then obtain nd servers where "(nd, servers) \<in> set (nodes s)" "srv \<in> set (xa_values servers)"
    by (force simp: all_servers_def)
  then have "xa_load (nodes s) nd = Some servers" "servers_of s nd = servers"
    using assms by (auto simp: table_ok_def xa_mem_iff servers_of_def)
  then show "registered s srv"
    using assms \<open>srv \<in> set (xa_values servers)\<close> by (auto simp: table_ok_def xa_values_set registered_def)
next
  assume r: "registered s srv"
  then obtain servers where s: "xa_load (nodes s) (srv_node srv) = Some servers" "xa_load servers (srv_port srv) = Some srv"
    by (auto simp: registered_def servers_of_def split: option.splits)
  have i: "xa_inv (nodes s)" "xa_inv servers" using assms s by (auto simp: table_ok_def servers_of_def split: option.splits)
  have "(srv_node srv, servers) \<in> set (nodes s)" "srv \<in> set (xa_values servers)"
    using s i by (auto simp: xa_mem_iff xa_values_set)
  then show "srv \<in> set (all_servers s)" by (force simp: all_servers_def)
qed

lemma hello_consistent:
  assumes T: "table_ok s" and C: "consistent lk n s"
  shows "consistent lk n (snd (ctrl_cmd_hello env s sq))"
proof -
  let ?s1 = "s\<lparr>sent := sent s @ [(sq, server_pkt QRTR_TYPE_HELLO 0 0 0 0)]\<rparr>"
  have n: "nodes (snd (ctrl_cmd_hello env s sq)) = nodes s" by (simp add: ns_frame)
  obtain srvs where e: "sent (snd (ctrl_cmd_hello env s sq)) = sent s @
      (sq, server_pkt QRTR_TYPE_HELLO 0 0 0 0) # map (\<lambda>srv. (sq, srv_pkt QRTR_TYPE_NEW_SERVER srv)) srvs"
    and sub: "set srvs \<subseteq> set (all_servers s)"
  proof (cases "net env (length (sent s))")
    case None
    then show ?thesis
      using that announce_nodes_frame[of env sq "nodes s" ?s1]
      by (auto simp: ctrl_cmd_hello_def say_hello_def kernel_sendmsg_def announce_servers_def all_servers_def)
  next
    case (Some e)
    then show ?thesis using that[of "[]"] by (simp add: ctrl_cmd_hello_def say_hello_def kernel_sendmsg_def)
  qed
  have "registered s srv" if "srv \<in> set srvs" for srv using that sub registered_listed[OF T] by blast
  then show ?thesis
    by (intro consistent_step[OF C e]) (auto simp: registered_def servers_of_nodes[OF n])
qed

lemma match_wants:
  "server_match srv \<lparr>f_service = service, f_instance = inst, f_ifilter = 0\<rparr> \<longleftrightarrow>
    lookup_wants \<lparr>lk_service = service, lk_instance = inst, lk_sq = sq\<rparr> srv"
  by (auto simp: server_match_def lookup_wants_def Let_def)

lemma new_lookup_sent:
  fixes service inst :: u32
  assumes "sq_node from_sq = local_node env" "kzalloc_at env (allocs s)"
  defines "lk \<equiv> \<lparr>lk_service = service, lk_instance = inst, lk_sq = from_sq\<rparr>"
  shows "fst (ctrl_cmd_new_lookup env s from_sq service inst) = None"
    "sent (snd (ctrl_cmd_new_lookup env s from_sq service inst)) = sent s @
      map (\<lambda>srv. (from_sq, srv_pkt QRTR_TYPE_NEW_SERVER srv))
        (filter (lookup_wants lk) (all_servers s)) @
      [(from_sq, server_pkt QRTR_TYPE_NEW_SERVER 0 0 0 0)]"
    "lookups (snd (ctrl_cmd_new_lookup env s from_sq service inst)) = lookups s @ [lk]"
proof -
  define s2 where "s2 = s\<lparr>allocs := allocs s + 1, lookups := lookups s @ [lk]\<rparr>"
  define f where "f = \<lparr>f_service = service, f_instance = inst, f_ifilter = 0\<rparr>"
  have eq: "ctrl_cmd_new_lookup env s from_sq service inst =
      (None, lookup_notify env (notify_nodes env from_sq f (nodes s) s2) from_sq None True)"
    using assms(1,2) by (simp add: ctrl_cmd_new_lookup_def kzalloc_def Let_def s2_def f_def lk_def)
  show "fst (ctrl_cmd_new_lookup env s from_sq service inst) = None" by (simp add: eq)
  show "lookups (snd (ctrl_cmd_new_lookup env s from_sq service inst)) = lookups s @ [lk]"
    by (simp add: eq lookup_notify_frame notify_nodes_frame s2_def)
  have "filter (\<lambda>srv. server_match srv f) xs = filter (lookup_wants lk) xs" for xs
    unfolding f_def lk_def by (simp only: match_wants[of _ _ _ from_sq])
  then show "sent (snd (ctrl_cmd_new_lookup env s from_sq service inst)) = sent s @
      map (\<lambda>srv. (from_sq, srv_pkt QRTR_TYPE_NEW_SERVER srv)) (filter (lookup_wants lk) (all_servers s)) @
      [(from_sq, server_pkt QRTR_TYPE_NEW_SERVER 0 0 0 0)]"
    by (simp add: eq sent_lookup_notify notify_nodes_frame s2_def all_servers_def)
qed

lemma new_lookup_consistent:
  assumes T: "table_ok s" and C: "consistent lk n s"
    and ret: "ctrl_cmd_new_lookup env s from_sq service inst = (r, s')"
  shows "consistent lk n s'"
proof (cases "sq_node from_sq = local_node env \<and> kzalloc_at env (allocs s)")
  case True
  have n: "nodes s' = nodes s" using new_lookup_effect(1)[OF ret] .
  have e: "sent s' = sent s @ map (\<lambda>srv. (from_sq, srv_pkt QRTR_TYPE_NEW_SERVER srv))
        (filter (lookup_wants \<lparr>lk_service = service, lk_instance = inst, lk_sq = from_sq\<rparr>)
          (all_servers s)) @ [(from_sq, server_pkt QRTR_TYPE_NEW_SERVER 0 0 0 0)]"
    using new_lookup_sent(2)[of from_sq env s service inst] True ret by simp
  have R: "registered s' = registered s" using servers_of_nodes[OF n] by (auto simp: registered_def fun_eq_iff)
  show ?thesis by (rule consistent_step[OF C e]) (auto simp: R registered_listed[OF T])
next
  case False
  then have "s' = s \<or> s' = s\<lparr>allocs := allocs s + 1\<rparr>"
    using ret by (cases "sq_node from_sq = local_node env") (simp_all add: ctrl_cmd_new_lookup_def kzalloc_def)
  then show ?thesis using C consistent_same[OF C, of s'] servers_of_nodes[of s' s] by auto
qed

lemma new_lookup_establishes:
  fixes service inst :: u32
  assumes T: "table_ok s" and l: "sq_node from_sq = local_node env" "kzalloc_at env (allocs s)"
  defines "lk \<equiv> \<lparr>lk_service = service, lk_instance = inst, lk_sq = from_sq\<rparr>"
    and "s' \<equiv> snd (ctrl_cmd_new_lookup env s from_sq service inst)"
  shows "consistent lk (length (sent s)) s'"
proof -
  let ?new = "map (\<lambda>srv. (from_sq, srv_pkt QRTR_TYPE_NEW_SERVER srv))
        (filter (lookup_wants lk) (all_servers s)) @
      [(from_sq, server_pkt QRTR_TYPE_NEW_SERVER 0 0 0 0)]"
  have sent: "sent s' = sent s @ ?new" unfolding s'_def lk_def by (rule new_lookup_sent(2)[OF l])
  have "nodes s' = nodes s" unfolding s'_def by (rule new_lookup_effect(1)[OF surjective_pairing])
  then have R: "registered s' = registered s" using servers_of_nodes[of s' s] by (auto simp: registered_def fun_eq_iff)
  have "srv \<in> view from_sq ?new \<longleftrightarrow> registered s srv" if w: "lookup_wants lk srv" "srv_service srv \<noteq> 0" for srv
  proof -
    have "(\<exists>p. (from_sq, p) \<in> set ?new \<and> pkt_server p = srv \<and> (cmd p = QRTR_TYPE_NEW_SERVER \<or> cmd p = QRTR_TYPE_DEL_SERVER))
      \<longleftrightarrow> registered s srv"
      using w registered_listed[OF T, of srv] by (auto intro!: exI[of _ "srv_pkt QRTR_TYPE_NEW_SERVER srv"])
    then show ?thesis
      unfolding view_def using w registered_listed[OF T, of srv] by (subst view_fold[where R = "registered s srv"]) auto
  qed
  then show ?thesis unfolding consistent_def R by (simp add: sent lk_def)
qed

text \<open>With memory and a network that accepts every packet.\<close>

definition all_well :: "ns_env \<Rightarrow> bool" where
  "all_well env \<longleftrightarrow> kzalloc_at env = (\<lambda>_. True) \<and> net env = (\<lambda>_. None)"

lemma server_add_ok:
  fixes service inst nd port :: u32
  assumes w: "all_well env" and sp: "service \<noteq> 0" "port \<noteq> 0"
  defines "srv \<equiv> \<lparr>srv_service = service, srv_instance = inst, srv_node = nd, srv_port = port\<rparr>"
  obtains s' where "server_add env s service inst nd port = (Some srv, s')" "lookups s' = lookups s" "sent s' = sent s"
    "servers_of s' = (servers_of s)(nd := xa_store (servers_of s nd) port srv)"
proof -
  define s1 where "s1 = s\<lparr>allocs := allocs s + 1\<rparr>"
  obtain s2 where s2: "node_get env s1 nd = (True, s2)" "xa_load (nodes s2) nd \<noteq> None"
    using w by (cases "xa_load (nodes s1) nd") (auto simp: node_get_def kzalloc_def all_well_def xa_load_store)
  note N = node_get_frame[OF s2(1)]
  define s3 where "s3 = s2\<lparr>allocs := allocs s2 + 1\<rparr>"
  have sv: "servers_of s3 = servers_of s" using N(3) servers_of_nodes[of s3 s2] servers_of_nodes[of s1 s] by (simp add: s3_def s1_def)
  have "server_add env s service inst nd port = (Some srv, set_servers s3 nd (xa_store (servers_of s3 nd) port srv))"
    using w sp s2(1) by (simp add: server_add_def kzalloc_def all_well_def s1_def s3_def Let_def srv_def)
  moreover have "xa_load (nodes s3) nd \<noteq> None" using s2(2) by (simp add: s3_def)
  moreover have "lookups s3 = lookups s" "sent s3 = sent s" using N by (simp_all add: s3_def s1_def)
  ultimately show thesis
    by (intro that[of "set_servers s3 nd (xa_store (servers_of s3 nd) port srv)"])
      (auto simp: set_servers_frame servers_of_set_servers sv)
qed

lemma new_server_ok:
  fixes service inst n0 port0 :: u32 and s :: ns_state
  assumes w: "all_well env" and fr: "sq_node sq = local_node env \<or> sq_node sq = n0"
  defines "port \<equiv> (if sq_node sq = local_node env then sq_port sq else port0)"
  defines "srv \<equiv> \<lparr>srv_service = service, srv_instance = inst, srv_node = sq_node sq, srv_port = port\<rparr>"
    and "s' \<equiv> snd (ctrl_cmd_new_server env s sq service inst n0 port0)"
  assumes sp: "service \<noteq> 0" "port \<noteq> 0"
  shows "sent s' = sent s @ ((if sq_node sq = local_node env then [(bcast_sq, srv_pkt QRTR_TYPE_NEW_SERVER srv)] else []) @
       map (\<lambda>lk. (lk_sq lk, srv_pkt QRTR_TYPE_NEW_SERVER srv)) (filter (\<lambda>lk. lookup_wants lk srv) (lookups s)))"
    "servers_of s' = (servers_of s)(sq_node sq := xa_store (servers_of s (sq_node sq)) port srv)"
proof -
  obtain s1 where s1: "server_add env s service inst (sq_node sq) port = (Some srv, s1)"
    "lookups s1 = lookups s" "sent s1 = sent s"
    "servers_of s1 = (servers_of s)(sq_node sq := xa_store (servers_of s (sq_node sq)) port srv)"
    using server_add_ok[OF w sp] unfolding srv_def by blast
  define s2 where "s2 = (if sq_node sq = local_node env then snd (service_announce_new env s1 bcast_sq srv) else s1)"
  have s': "s' = notify_lookups env srv True (lookups s2) s2"
    using fr s1(1) w
    by (auto simp: ctrl_cmd_new_server_def Let_def port_def s2_def service_announce_new_def
        kernel_sendmsg_def all_well_def srv_def s'_def split: if_splits)
  have s2: "nodes s2 = nodes s1" "lookups s2 = lookups s"
    using s1(2) by (auto simp: s2_def service_announce_new_def kernel_sendmsg_frame)
  show "sent s' = sent s @ ((if sq_node sq = local_node env then [(bcast_sq, srv_pkt QRTR_TYPE_NEW_SERVER srv)] else []) @
       map (\<lambda>lk. (lk_sq lk, srv_pkt QRTR_TYPE_NEW_SERVER srv)) (filter (\<lambda>lk. lookup_wants lk srv) (lookups s)))"
    unfolding s' notify_lookups_frame s2(2) using s1(3) by (simp add: s2_def service_announce_new_def kernel_sendmsg_frame)
  show "servers_of s' = (servers_of s)(sq_node sq := xa_store (servers_of s (sq_node sq)) port srv)"
    using s1(4) servers_of_nodes[of s' s1] s2(1) by (simp add: s' notify_lookups_frame)
qed

lemma new_server_consistent:
  assumes w: "all_well env" and T: "table_ok s" and lk: "lk \<in> set (lookups s)" and C: "consistent lk n s"
    and nd: "no_displacement env s sq pkt" "cmd pkt = QRTR_TYPE_NEW_SERVER"
    and ret: "ctrl_cmd_new_server env s sq (server_service pkt) (server_instance pkt) (server_node pkt) (server_port pkt) = (r, s')"
  shows "consistent lk n s'"
proof -
  define port where "port = effective_port env sq pkt"
  define srv where "srv = \<lparr>srv_service = server_service pkt, srv_instance = server_instance pkt,
    srv_node = sq_node sq, srv_port = port\<rparr>"
  show ?thesis
  proof (cases "(sq_node sq = local_node env \<or> sq_node sq = server_node pkt) \<and> server_service pkt \<noteq> 0 \<and> port \<noteq> 0")
    case False
    then have "s' = s"
      using ret by (auto simp: ctrl_cmd_new_server_def Let_def server_add_def port_def effective_port_def split: if_splits)
    then show ?thesis using C by simp
  next
    case True
    note N = new_server_ok[OF w, of sq "server_node pkt" "server_service pkt" "server_port pkt" s "server_instance pkt",
        folded effective_port_def, folded port_def, folded srv_def, unfolded ret snd_conv]
    have e: "sent s' = sent s @ ((if sq_node sq = local_node env then [(bcast_sq, srv_pkt QRTR_TYPE_NEW_SERVER srv)] else []) @
       map (\<lambda>lk. (lk_sq lk, srv_pkt QRTR_TYPE_NEW_SERVER srv)) (filter (\<lambda>lk. lookup_wants lk srv) (lookups s)))"
      and sv: "servers_of s' = (servers_of s)(sq_node sq := xa_store (servers_of s (sq_node sq)) port srv)"
      using N True by auto
    have old: "old = srv" if "xa_load (servers_of s (sq_node sq)) port = Some old" for old
      using nd that T by (auto simp: no_displacement_def port_def srv_def table_ok_def)
    have R: "registered s' x \<longleftrightarrow> registered s x \<or> x = srv" for x
    proof -
      have x: "srv_node x = sq_node sq \<and> srv_port x = port" if "x = srv" using that by (simp add: srv_def)
      show ?thesis using old x by (auto simp: registered_def sv xa_load_store)
    qed
    show ?thesis by (rule consistent_step[OF C e]) (use lk in \<open>auto simp: R split: if_splits\<close>)
  qed
qed

lemma dispatch_consistent:
  assumes w: "all_well env" and I: "ns_inv env s" and lk: "lk \<in> set (lookups s)" "lk \<in> set (lookups s')"
    and C: "consistent lk n s" and nd: "no_displacement env s sq pkt" and ret: "ns_dispatch env s sq pkt = (r, s')"
  shows "consistent lk n s'"
proof -
  have T: "table_ok s" using I by (simp add: ns_inv_def)
  show ?thesis
    using ret
  proof (cases rule: ns_dispatch_cases)
    case hello
    then show ?thesis using hello_consistent[OF T C, of env sq] by simp
  next
    case bye
    then show ?thesis using bye_consistent[OF T lk(1) C] by blast
  next
    case del_client
    then show ?thesis using del_client_consistent[OF T lk(2) C] by blast
  next
    case new_server
    then show ?thesis using new_server_consistent[OF w T lk(1) C nd] by blast
  next
    case del_server
    then show ?thesis using del_server_consistent[OF T lk(1) C] by blast
  next
    case new_lookup
    then show ?thesis using new_lookup_consistent[OF T C] by blast
  next
    case del_lookup
    then show ?thesis using consistent_same[OF C, of s'] servers_of_nodes[of s' s] by (simp add: ctrl_cmd_del_lookup_def)
  next
    case other
    then show ?thesis using C by simp
  qed
qed

lemma run_consistent:
  assumes "all_well env" "ns_inv env s" "lk \<in> set (lookups s)" "consistent lk n s" "calm_run env lk s ps"
  shows "consistent lk n (ns_run env s ps)"
  using assms(2-)
proof (induction ps arbitrary: s)
  case (Cons p ps)
  obtain sq pkt where p: "p = (sq, pkt)" by force
  obtain r s' where d: "ns_dispatch env s sq pkt = (r, s')" by force
  have c: "no_displacement env s sq pkt" "lk \<in> set (lookups s')" "calm_run env lk s' ps" using Cons.prems(4) p d by auto
  have "consistent lk n s'" by (rule dispatch_consistent[OF assms(1) Cons.prems(1,2) c(2) Cons.prems(3) c(1) d])
  then show ?case using Cons.IH[of s'] ns_dispatch_inv[OF Cons.prems(1) d] c p d by simp
qed simp

end
