(* ===== verification/Qrtr_Ns_Correct.thy ===== *)
theory Qrtr_Ns_Correct
  imports Qrtr_Ns
begin

text \<open>
  What the name server of \<^verbatim>\<open>net/qrtr/ns.c\<close> guarantees: what an observer knows is what is registered,
  nobody can change the servers of another node, the table stays well formed, a lookup lists every
  matching server once; and where the code falls short: a displaced server is not withdrawn, a local bye
  clears the local node, and a short packet is completed with the one before it.
\<close>

section \<open>Further facts\<close>

lemma xa_values_distinct:
  assumes "xa_inv xs" "\<And>i v. xa_load xs i = Some v \<Longrightarrow> key v = i"
  shows "distinct (xa_values xs)"
proof -
  have "map key (xa_values xs) = map fst xs"
    using assms by (auto simp: xa_values_def simp flip: xa_mem_iff)
  then show ?thesis using xa_distinct[OF assms(1)] by (metis distinct_map)
qed

lemma concat_values_distinct:
  assumes "xa_inv ns" "\<And>nd xs. (nd, xs) \<in> set ns \<Longrightarrow> distinct (f xs) \<and> (\<forall>v \<in> set (f xs). key v = nd)"
  shows "distinct (concat (map (f \<circ> snd) ns)) \<and> key ` set (concat (map (f \<circ> snd) ns)) \<subseteq> fst ` set ns"
  using assms
proof (induction ns)
  case (Cons x ns)
  obtain nd xs where x: "x = (nd, xs)" by force
  have h: "distinct (f xs)" "\<And>v. v \<in> set (f xs) \<Longrightarrow> key v = nd" using Cons.prems(2)[of nd xs] x by auto
  have xi: "xa_inv ns" "nd \<notin> fst ` set ns" using Cons.prems(1) x by (auto simp: xa_inv_Cons)
  have "distinct (concat (map (f \<circ> snd) ns)) \<and> key ` set (concat (map (f \<circ> snd) ns)) \<subseteq> fst ` set ns"
    by (rule Cons.IH[OF xi(1)]) (rule Cons.prems(2), simp)
  then have IH: "distinct (concat (map (f \<circ> snd) ns))" "\<And>v. v \<in> set (concat (map (f \<circ> snd) ns)) \<Longrightarrow> key v \<in> fst ` set ns"
    by blast+
  have "set (f xs) \<inter> set (concat (map (f \<circ> snd) ns)) = {}" using h(2) IH(2) xi(2) by blast
  moreover have "key ` set (f xs) \<subseteq> {nd}" using h(2) by blast
  moreover have "key ` set (concat (map (f \<circ> snd) ns)) \<subseteq> fst ` set ns" using IH(2) by blast
  moreover have e: "concat (map (f \<circ> snd) (x # ns)) = f xs @ concat (map (f \<circ> snd) ns)" "fst ` set (x # ns) = insert nd (fst ` set ns)"
    by (simp_all add: x)
  ultimately show ?case using IH(1) h(1) unfolding e distinct_append set_append image_Un by blast
qed simp

lemma all_servers_distinct:
  assumes T: "table_ok s"
  shows "distinct (all_servers s)"
proof -
  have "xa_inv xs \<and> (\<forall>p v. xa_load xs p = Some v \<longrightarrow> srv_node v = nd \<and> srv_port v = p)" if "(nd, xs) \<in> set (nodes s)" for nd xs
  proof -
    have "servers_of s nd = xs" using that T by (auto simp: table_ok_def xa_mem_iff servers_of_def)
    then show ?thesis using T by (auto simp: table_ok_def)
  qed
  then have "distinct (xa_values xs) \<and> (\<forall>v \<in> set (xa_values xs). srv_node v = nd)" if "(nd, xs) \<in> set (nodes s)" for nd xs
    using that xa_values_distinct[of xs srv_port] by (fastforce simp: xa_values_set)
  then show ?thesis using concat_values_distinct[of "nodes s" xa_values srv_node] T by (simp add: all_servers_def table_ok_def)
qed

lemma find_service_eq:
  assumes "table_ok s"
  shows "find_service nd port (xa_values (servers_of s nd)) =
    (case xa_load (servers_of s nd) port of None \<Rightarrow> 0 | Some srv \<Rightarrow> srv_service srv)"
proof -
  have "find_service nd port (map snd xs) = (case xa_load xs port of None \<Rightarrow> 0 | Some srv \<Rightarrow> srv_service srv)"
    if "\<forall>(p, srv) \<in> set xs. srv_node srv = nd \<and> srv_port srv = p" for xs
    using that by (induction xs) auto
  moreover have "\<forall>(p, srv) \<in> set (servers_of s nd). srv_node srv = nd \<and> srv_port srv = p"
    using assms by (auto simp: table_ok_def xa_mem_iff)
  ultimately show ?thesis by (simp add: xa_values_def)
qed

lemma recv_into_length: "length buf = 4096 \<Longrightarrow> length (recv_into buf msg) = 4096"
  by (simp add: recv_into_def)

lemma decode_short:
  assumes "length buf = 4096" "20 \<le> length buf"
  shows "decode_ctrl (recv_into buf (bytes32 c)) = (decode_ctrl buf)\<lparr>cmd := c\<rparr>"
proof -
  have "recv_into buf (bytes32 c) = bytes32 c @ drop 4 buf" by (simp add: recv_into_def)
  moreover have "get32 (drop 4 buf) i = get32 buf (i + 4)" for i
    using assms(2) by (simp add: get32_def add.commute[of i])
  ultimately show ?thesis by (simp add: decode_ctrl_def get_skip)
qed

lemma decode_received: "decode_ctrl (recv_into buf (encode_ctrl p)) = p"
  by (simp add: recv_into_def)

lemma view_other: "(\<And>m. m \<in> set ms \<Longrightarrow> fst m \<noteq> a) \<Longrightarrow> fold (view_upd a) ms V = V"
  by (induction ms arbitrary: V) (simp_all add: view_upd_def)

section \<open>Properties of the name server\<close>

definition ex_env :: ns_env where
  "ex_env = \<lparr>local_node = 1, net = (\<lambda>_. None), kzalloc_at = (\<lambda>_. True)\<rparr>"

definition ex_ns :: ns_state where
  "ex_ns = \<lparr>nodes = [(3, [(7, \<lparr>srv_service = 5, srv_instance = 1, srv_node = 3, srv_port = 7\<rparr>)])], lookups = [],
     sent = [], allocs = 0\<rparr>"

lemma ex_ns_inv: "ns_inv ex_env ex_ns" "all_well ex_env"
  by (auto simp: ns_inv_def table_ok_def ex_ns_def ex_env_def all_well_def servers_of_def xa_inv_def split: if_splits)

text \<open>C5. An observer's knowledge is the truth. From its lookup on, and as long as the lookup is not removed,
  memory is there, the network takes every packet and no server displaces another one on its port, after
  any sequence of control packets from anyone: the servers the observer was told about and not told to
  forget, among those it asked for, are exactly the servers registered.\<close>

theorem ns_observer_consistent:
  fixes service inst :: u32
  assumes "all_well env" "ns_inv env s" "sq_node from_sq = local_node env"
  defines "lk \<equiv> \<lparr>lk_service = service, lk_instance = inst, lk_sq = from_sq\<rparr>"
    and "s1 \<equiv> snd (ctrl_cmd_new_lookup env s from_sq service inst)"
  assumes "calm_run env lk s1 ps"
  shows "\<forall>srv. lookup_wants lk srv \<and> srv_service srv \<noteq> 0 \<longrightarrow>
    srv \<in> view from_sq (drop (length (sent s)) (sent (ns_run env s1 ps))) \<longleftrightarrow> registered (ns_run env s1 ps) srv"
proof -
  have k: "kzalloc_at env (allocs s)" and T: "table_ok s" using assms(1,2) by (auto simp: all_well_def ns_inv_def)
  have d: "ns_dispatch env s from_sq (server_pkt QRTR_TYPE_NEW_LOOKUP service inst 0 0) =
      ctrl_cmd_new_lookup env s from_sq service inst"
    by (simp add: ns_dispatch_def server_pkt_def)
  have "ns_inv env s1" unfolding s1_def using ns_dispatch_inv[OF assms(2)] d by (metis prod.collapse)
  moreover have "lk \<in> set (lookups s1)" using new_lookup_sent(3)[OF assms(3) k] by (simp add: s1_def lk_def)
  moreover have "consistent lk (length (sent s)) s1"
    unfolding lk_def s1_def by (rule new_lookup_establishes[OF T assms(3) k])
  ultimately have "consistent lk (length (sent s)) (ns_run env s1 ps)"
    using run_consistent[OF assms(1)] assms(6) by blast
  then show ?thesis by (simp add: consistent_def lk_def)
qed

theorem ns_observer_consistent_witness:
  "{srv. srv_service srv = 5 \<and> srv \<in> view \<lparr>sq_node = 1, sq_port = 20\<rparr> (drop 0 (sent (ns_run ex_env
       (snd (ctrl_cmd_new_lookup ex_env ex_ns \<lparr>sq_node = 1, sq_port = 20\<rparr> 5 0))
       [(\<lparr>sq_node = 1, sq_port = 30\<rparr>, server_pkt QRTR_TYPE_NEW_SERVER 5 2 0 0),
        (\<lparr>sq_node = 3, sq_port = 7\<rparr>, server_pkt QRTR_TYPE_DEL_SERVER 5 1 3 7)])))} =
   {srv. srv_service srv = 5 \<and> registered (ns_run ex_env
       (snd (ctrl_cmd_new_lookup ex_env ex_ns \<lparr>sq_node = 1, sq_port = 20\<rparr> 5 0))
       [(\<lparr>sq_node = 1, sq_port = 30\<rparr>, server_pkt QRTR_TYPE_NEW_SERVER 5 2 0 0),
        (\<lparr>sq_node = 3, sq_port = 7\<rparr>, server_pkt QRTR_TYPE_DEL_SERVER 5 1 3 7)]) srv}"
proof -
  let ?ps = "[(\<lparr>sq_node = 1, sq_port = 30\<rparr>, server_pkt QRTR_TYPE_NEW_SERVER 5 2 0 0),
        (\<lparr>sq_node = 3, sq_port = 7\<rparr>, server_pkt QRTR_TYPE_DEL_SERVER 5 1 3 7)]"
  have c: "calm_run ex_env \<lparr>lk_service = 5, lk_instance = 0, lk_sq = \<lparr>sq_node = 1, sq_port = 20\<rparr>\<rparr>
      (snd (ctrl_cmd_new_lookup ex_env ex_ns \<lparr>sq_node = 1, sq_port = 20\<rparr> 5 0)) ?ps" by code_simp
  have l: "sq_node \<lparr>sq_node = 1, sq_port = 20\<rparr> = local_node ex_env" "length (sent ex_ns) = 0"
    by (simp_all add: ex_env_def ex_ns_def)
  show ?thesis
    using ns_observer_consistent[OF ex_ns_inv(2,1) l(1) c] unfolding l(2) by (auto simp: lookup_wants_def)
qed

text \<open>C8. No sender can touch another node's servers: a control packet changes the servers of the node it comes
  from only, and, unless it is a bye, a packet from a local port changes only the server of that port.\<close>

theorem ns_no_spoofing:
  assumes "ns_inv env s" "ns_dispatch env s sq pkt = (r, s')"
  shows "(\<forall>k. k \<noteq> sq_node sq \<longrightarrow> servers_of s' k = servers_of s k) \<and>
    (sq_node sq = local_node env \<and> cmd pkt \<noteq> QRTR_TYPE_BYE \<longrightarrow>
       (\<forall>p. p \<noteq> sq_port sq \<longrightarrow> xa_load (servers_of s' (local_node env)) p = xa_load (servers_of s (local_node env)) p))"
proof -
  have T: "xa_inv (servers_of s k)" for k using assms(1) by (simp add: ns_inv_def table_ok_def)
  show ?thesis
    using assms(2)
  proof (cases rule: ns_dispatch_cases)
    case hello
    then have "nodes s' = nodes s" using ctrl_cmd_hello_frame(1)[of env s sq] by simp
    then show ?thesis using servers_of_nodes[of s' s] by simp
  next
    case bye
    then show ?thesis using bye_effect(3)[OF bye(2)] by simp
  next
    case del_client
    note E = del_client_effect[OF del_client(2)]
    then show ?thesis using T by (auto simp: xa_load_erase)
  next
    case new_server
    note E = new_server_effect[OF new_server(2)]
    then show ?thesis by (auto simp: xa_load_store)
  next
    case del_server
    note E = del_server_effect[OF del_server(2)]
    then show ?thesis using T by (auto simp: xa_load_erase)
  next
    case new_lookup
    then show ?thesis using new_lookup_effect(1)[OF new_lookup(2)] servers_of_nodes[of s' s] by simp
  next
    case del_lookup
    then have "nodes s' = nodes s" by (simp add: ctrl_cmd_del_lookup_def)
    then show ?thesis using servers_of_nodes[of s' s] by simp
  qed simp
qed

theorem ns_no_spoofing_witness:
  "servers_of (snd (ns_dispatch ex_env ex_ns \<lparr>sq_node = 4, sq_port = 9\<rparr> (server_pkt QRTR_TYPE_DEL_SERVER 5 1 3 7))) 3 =
     servers_of ex_ns 3"
  using ns_no_spoofing[OF ex_ns_inv(1) surjective_pairing, of "\<lparr>sq_node = 4, sq_port = 9\<rparr>"] by simp

text \<open>C26. The name server's table stays well formed whatever the worker receives: the indices of both trees
  increase, every server is stored under its own node and port, none has service or port 0, and every
  observer is local.\<close>

theorem ns_worker_invariant:
  assumes "ns_inv env s"
  shows "ns_inv env (qrtr_ns_worker env s rs)"
proof -
  obtain b s1 where b: "kzalloc env s = (b, s1)" by force
  then have "ns_inv env s1"
    using assms kzalloc_frame[OF b] table_ok_nodes[of s1 s] by (simp add: ns_inv_def)
  then show ?thesis using b ns_recv_loop_inv by (cases b) (simp_all add: qrtr_ns_worker_def)
qed

theorem ns_worker_invariant_witness:
  "ns_inv ex_env (qrtr_ns_worker ex_env ex_ns [Inr (\<lparr>sq_node = 9, sq_port = 2\<rparr>, [4, 0, 0]), Inl EAGAIN])"
  by (rule ns_worker_invariant[OF ex_ns_inv(1)])

text \<open>C27. A lookup is answered with exactly the registered servers it asks for, each of them once, followed by
  the empty packet that ends the listing, and nothing else is sent.\<close>

theorem ns_lookup_listing:
  assumes "ns_inv env s" "sq_node from_sq = local_node env" "kzalloc_at env (allocs s)"
  shows "\<exists>srvs. sent (snd (ctrl_cmd_new_lookup env s from_sq service inst)) = sent s @
      map (\<lambda>srv. (from_sq, srv_pkt QRTR_TYPE_NEW_SERVER srv)) srvs @ [(from_sq, server_pkt QRTR_TYPE_NEW_SERVER 0 0 0 0)] \<and>
    distinct srvs \<and>
    set srvs = {srv. registered s srv \<and> (service = 0 \<or> srv_service srv = service) \<and> (inst = 0 \<or> srv_instance srv = inst)}"
proof -
  let ?lk = "\<lparr>lk_service = service, lk_instance = inst, lk_sq = from_sq\<rparr>"
  have T: "table_ok s" using assms(1) by (simp add: ns_inv_def)
  show ?thesis
    using new_lookup_sent(2)[OF assms(2,3), of service inst] all_servers_distinct[OF T] registered_listed[OF T]
    by (intro exI[of _ "filter (lookup_wants ?lk) (all_servers s)"]) (auto simp: lookup_wants_def)
qed

theorem ns_lookup_listing_witness:
  "\<exists>srvs. sent (snd (ctrl_cmd_new_lookup ex_env ex_ns \<lparr>sq_node = 1, sq_port = 20\<rparr> 5 0)) =
      map (\<lambda>srv. (\<lparr>sq_node = 1, sq_port = 20\<rparr>, srv_pkt QRTR_TYPE_NEW_SERVER srv)) srvs @
      [(\<lparr>sq_node = 1, sq_port = 20\<rparr>, server_pkt QRTR_TYPE_NEW_SERVER 0 0 0 0)] \<and> distinct srvs"
  using ns_lookup_listing[OF ex_ns_inv(1), of "\<lparr>sq_node = 1, sq_port = 20\<rparr>" 5 0]
  by (auto simp: ex_env_def ex_ns_def)

text \<open>C28. The service id of a port is the service of the server registered there, or 0 when there is none, and
  asking for it does not change the table of servers.\<close>

theorem ns_service_id:
  assumes "ns_inv env s" "kzalloc_at env (allocs s)"
  shows "fst (qrtr_get_service_id env s nd port) =
      (case xa_load (servers_of s nd) port of None \<Rightarrow> 0 | Some srv \<Rightarrow> srv_service srv) \<and>
    servers_of (snd (qrtr_get_service_id env s nd port)) = servers_of s"
proof -
  obtain b s1 where b: "node_get env s nd = (b, s1)" by force
  have "b" using b assms(2) by (auto simp: node_get_def kzalloc_def split: option.splits bool.splits)
  note N = node_get_frame[OF b]
  have "table_ok s1" using assms(1) N by (simp add: ns_inv_def)
  then show ?thesis using b \<open>b\<close> N find_service_eq[of s1 nd port] by (simp add: qrtr_get_service_id_def)
qed

theorem ns_service_id_witness: "fst (qrtr_get_service_id ex_env ex_ns 3 7) = 5"
  using ns_service_id[OF ex_ns_inv(1), of 3 7] by (simp add: ex_env_def ex_ns_def servers_of_def)

text \<open>C29. A bye empties the table of its sender's node. The sender is not checked to be a remote name server, so
  a bye from any port of the local node removes every local server.\<close>

theorem ns_bye_removes_all:
  assumes "ns_inv env s" "kzalloc_at env (allocs s)" "cmd pkt = QRTR_TYPE_BYE"
  shows "xa_load (servers_of (snd (ns_dispatch env s sq pkt)) (sq_node sq)) p = None"
proof -
  have d: "ns_dispatch env s sq pkt = ctrl_cmd_bye env s sq" using assms(3) by (simp add: ns_dispatch_def)
  have "fst (node_get env s (sq_node sq))"
    using assms(2) by (auto simp: node_get_def kzalloc_def split: option.splits bool.splits)
  then show ?thesis
    using bye_effect(5)[OF surjective_pairing] assms(1) by (simp add: d ns_inv_def)
qed

theorem ns_bye_removes_all_witness:
  "xa_load (servers_of (snd (ns_dispatch ex_env ex_ns \<lparr>sq_node = 3, sq_port = 55\<rparr> (server_pkt QRTR_TYPE_BYE 0 0 0 0))) 3) 7 = None"
  using ns_bye_removes_all[OF ex_ns_inv(1), of "server_pkt QRTR_TYPE_BYE 0 0 0 0" "\<lparr>sq_node = 3, sq_port = 55\<rparr>" 7]
  by (simp add: ex_env_def)

text \<open>C30. A packet of only 4 bytes is handled as if it carried the rest of the packet received before it: the
  length of a message is not checked and the buffer is not cleared between two messages.\<close>

theorem ns_short_packet_reuses_previous:
  assumes "kzalloc_at env (allocs s)"
  shows "qrtr_ns_worker env s [Inr (sq, encode_ctrl pkt), Inr (sq', bytes32 c)] =
    (let s1 = snd (ns_dispatch env (s\<lparr>allocs := allocs s + 1\<rparr>) sq pkt)
     in snd (ns_dispatch env s1 sq' (pkt\<lparr>cmd := c\<rparr>)))"
proof -
  have "decode_ctrl (recv_into (recv_into (replicate 4096 0) (encode_ctrl pkt)) (bytes32 c)) = pkt\<lparr>cmd := c\<rparr>"
    by (simp add: decode_short recv_into_length decode_received)
  then show ?thesis using assms by (simp add: qrtr_ns_worker_def kzalloc_def Let_def decode_received)
qed

theorem ns_short_packet_reuses_previous_witness:
  "qrtr_ns_worker ex_env ex_ns [Inr (\<lparr>sq_node = 3, sq_port = 7\<rparr>, encode_ctrl (server_pkt QRTR_TYPE_PING 5 1 3 7)),
      Inr (\<lparr>sq_node = 3, sq_port = 8\<rparr>, bytes32 QRTR_TYPE_DEL_SERVER)] =
    snd (ns_dispatch ex_env (ex_ns\<lparr>allocs := 1\<rparr>) \<lparr>sq_node = 3, sq_port = 8\<rparr> (server_pkt QRTR_TYPE_DEL_SERVER 5 1 3 7))"
  using ns_short_packet_reuses_previous[of ex_env ex_ns "\<lparr>sq_node = 3, sq_port = 7\<rparr>" "server_pkt QRTR_TYPE_PING 5 1 3 7"]
  by (simp add: ex_env_def ex_ns_def ns_dispatch_def server_pkt_def Let_def)

text \<open>C31. A new server that displaces another one on its port does not withdraw it: an observer that asked for
  the displaced service only, and knew of it, is sent nothing and goes on believing in it.\<close>

theorem ns_displaced_server_not_withdrawn:
  fixes inst nd port :: u32
  assumes "all_well env" "ns_inv env s" "sq_node sq = local_node env" "registered s old"
    and "srv_node old = sq_node sq" "srv_port old = sq_port sq"
    and "lk \<in> set (lookups s)" "lk_service lk = srv_service old" "lk_sq lk \<noteq> bcast_sq"
    and "service \<noteq> 0" "service \<noteq> srv_service old" "\<forall>l \<in> set (lookups s). lk_sq l = lk_sq lk \<longrightarrow> l = lk"
  defines "s' \<equiv> snd (ctrl_cmd_new_server env s sq service inst nd port)"
  shows "\<not> registered s' old \<and> view (lk_sq lk) (sent s') = view (lk_sq lk) (sent s)"
proof -
  let ?srv = "\<lparr>srv_service = service, srv_instance = inst, srv_node = sq_node sq, srv_port = sq_port sq\<rparr>"
  have o: "srv_service old \<noteq> 0" "sq_port sq \<noteq> 0"
    using assms(2,4,5,6) by (auto simp: ns_inv_def table_ok_def registered_def)
  note N = new_server_ok[OF assms(1), of sq nd service port s inst, folded s'_def, simplified assms(3) simp_thms if_True]
  have "servers_of s' = (servers_of s)(local_node env := xa_store (servers_of s (local_node env)) (sq_port sq) ?srv)"
    using N(2) o assms(3,10) by simp
  then have "\<not> registered s' old" using assms(3,5,6,11) by (auto simp: registered_def xa_load_store)
  moreover define ms where "ms = (bcast_sq, srv_pkt QRTR_TYPE_NEW_SERVER ?srv) #
       map (\<lambda>lk. (lk_sq lk, srv_pkt QRTR_TYPE_NEW_SERVER ?srv)) (filter (\<lambda>lk. lookup_wants lk ?srv) (lookups s))"
  have "fst m \<noteq> lk_sq lk" if "m \<in> set ms" for m
    using that assms(8,9,11,12) o by (auto simp: lookup_wants_def ms_def)
  then have "fold (view_upd (lk_sq lk)) ms V = V" for V by (rule view_other)
  moreover have "sent s' = sent s @ ms" using N(1) o assms(3,10) by (simp add: ms_def)
  ultimately show ?thesis by (simp add: view_def)
qed

definition ex_ns2 :: ns_state where
  "ex_ns2 = \<lparr>nodes = [(1, [(30, \<lparr>srv_service = 5, srv_instance = 1, srv_node = 1, srv_port = 30\<rparr>)])],
     lookups = [\<lparr>lk_service = 5, lk_instance = 0, lk_sq = \<lparr>sq_node = 1, sq_port = 20\<rparr>\<rparr>], sent = [], allocs = 2\<rparr>"

lemma ex_ns2_inv: "ns_inv ex_env ex_ns2"
  by (auto simp: ns_inv_def table_ok_def ex_ns2_def ex_env_def servers_of_def xa_inv_def split: if_splits)

theorem ns_displaced_server_not_withdrawn_witness:
  "\<not> registered (snd (ctrl_cmd_new_server ex_env ex_ns2 \<lparr>sq_node = 1, sq_port = 30\<rparr> 6 1 1 30))
      \<lparr>srv_service = 5, srv_instance = 1, srv_node = 1, srv_port = 30\<rparr> \<and>
    view \<lparr>sq_node = 1, sq_port = 20\<rparr> (sent (snd (ctrl_cmd_new_server ex_env ex_ns2 \<lparr>sq_node = 1, sq_port = 30\<rparr> 6 1 1 30))) =
    view \<lparr>sq_node = 1, sq_port = 20\<rparr> (sent ex_ns2)"
  using ns_displaced_server_not_withdrawn[OF ex_ns_inv(2) ex_ns2_inv, of "\<lparr>sq_node = 1, sq_port = 30\<rparr>"
      "\<lparr>srv_service = 5, srv_instance = 1, srv_node = 1, srv_port = 30\<rparr>"
      "\<lparr>lk_service = 5, lk_instance = 0, lk_sq = \<lparr>sq_node = 1, sq_port = 20\<rparr>\<rparr>" 6 1 1 30]
  by (simp add: ex_env_def ex_ns2_def registered_def servers_of_def bcast_sq_def)

end
