(* ===== verification/Qrtr_Packet.thy ===== *)
theory Qrtr_Packet
  imports Qrtr_Base
begin

text \<open>
  The packets of the IPC router, \<open>net/qrtr/qrtr.c\<close>: the two headers, how a received packet is taken apart
  (the first half of \<open>qrtr_endpoint_post\<close>), how one is put together (in \<open>qrtr_node_enqueue\<close>), the size a
  transport expects (\<open>qrtr_peek_pkt_size\<close>) and the checksum of a DEL_PROC packet. A packet is its list of bytes.
\<close>

abbreviation (input) QRTR_PROTO_VER_1 :: "'a::numeral" where "QRTR_PROTO_VER_1 \<equiv> 1"
abbreviation (input) QRTR_PROTO_VER_2 :: "'a::numeral" where "QRTR_PROTO_VER_2 \<equiv> 3"
abbreviation (input) QRTR_PORT_CTRL_LEGACY :: u32 where "QRTR_PORT_CTRL_LEGACY \<equiv> 0xffff"
abbreviation (input) QRTR_DEL_PROC_MAGIC :: u32 where "QRTR_DEL_PROC_MAGIC \<equiv> 0xe111"

section \<open>Headers\<close>

record qrtr_hdr_v1 =
  v1_version :: u32
  v1_type :: u32
  v1_src_node_id :: u32
  v1_src_port_id :: u32
  v1_confirm_rx :: u32
  v1_size :: u32
  v1_dst_node_id :: u32
  v1_dst_port_id :: u32

record qrtr_hdr_v2 =
  v2_version :: u8
  v2_type :: u8
  v2_flags :: u8
  v2_optlen :: u8
  v2_size :: u32
  v2_src_node_id :: u16
  v2_src_port_id :: u16
  v2_dst_node_id :: u16
  v2_dst_port_id :: u16

record qrtr_cb =
  cb_src_node :: u32
  cb_src_port :: u32
  cb_dst_node :: u32
  cb_dst_port :: u32
  cb_type :: u8
  cb_confirm_rx :: bool

text \<open>The bytes of a header and the header at the start of some bytes.\<close>

definition hdr_v1_bytes :: "qrtr_hdr_v1 \<Rightarrow> u8 list" where
  "hdr_v1_bytes h =
     bytes32 (v1_version h) @ bytes32 (v1_type h) @ bytes32 (v1_src_node_id h) @ bytes32 (v1_src_port_id h) @
     bytes32 (v1_confirm_rx h) @ bytes32 (v1_size h) @ bytes32 (v1_dst_node_id h) @ bytes32 (v1_dst_port_id h)"

definition get_hdr_v1 :: "u8 list \<Rightarrow> qrtr_hdr_v1" where
  "get_hdr_v1 d =
     \<lparr>v1_version = get32 d 0, v1_type = get32 d 4, v1_src_node_id = get32 d 8, v1_src_port_id = get32 d 12,
      v1_confirm_rx = get32 d 16, v1_size = get32 d 20, v1_dst_node_id = get32 d 24, v1_dst_port_id = get32 d 28\<rparr>"

definition hdr_v2_bytes :: "qrtr_hdr_v2 \<Rightarrow> u8 list" where
  "hdr_v2_bytes h =
     [v2_version h, v2_type h, v2_flags h, v2_optlen h] @ bytes32 (v2_size h) @ bytes16 (v2_src_node_id h) @
     bytes16 (v2_src_port_id h) @ bytes16 (v2_dst_node_id h) @ bytes16 (v2_dst_port_id h)"

definition get_hdr_v2 :: "u8 list \<Rightarrow> qrtr_hdr_v2" where
  "get_hdr_v2 d =
     \<lparr>v2_version = d ! 0, v2_type = d ! 1, v2_flags = d ! 2, v2_optlen = d ! 3, v2_size = get32 d 4,
      v2_src_node_id = get16 d 8, v2_src_port_id = get16 d 10, v2_dst_node_id = get16 d 12, v2_dst_port_id = get16 d 14\<rparr>"

section \<open>Receiving\<close>

text \<open>
  The switch over the version in \<open>qrtr_endpoint_post\<close>: the control block, the length of the header and the
  size it announces. \<open>None\<close> is \<open>goto err\<close>. The packet is not empty.
\<close>

definition parse_v1 :: "u8 list \<Rightarrow> (qrtr_cb \<times> u64 \<times> u32) option" where
  "parse_v1 data =
     (if length data < 32 then None
      else
        let v1 = get_hdr_v1 data
        in Some (\<lparr>cb_src_node = v1_src_node_id v1, cb_src_port = v1_src_port_id v1, cb_dst_node = v1_dst_node_id v1,
                  cb_dst_port = v1_dst_port_id v1, cb_type = ucast (v1_type v1), cb_confirm_rx = (v1_confirm_rx v1 \<noteq> 0)\<rparr>,
                 32, v1_size v1))"

definition port_v2 :: "u16 \<Rightarrow> u32" where
  "port_v2 p = (if p = ucast QRTR_PORT_CTRL then QRTR_PORT_CTRL else ucast p)"

definition parse_v2 :: "u8 list \<Rightarrow> (qrtr_cb \<times> u64 \<times> u32) option" where
  "parse_v2 data =
     (if length data < 16 then None
      else
        let v2 = get_hdr_v2 data
        in Some (\<lparr>cb_src_node = ucast (v2_src_node_id v2), cb_src_port = port_v2 (v2_src_port_id v2),
                  cb_dst_node = ucast (v2_dst_node_id v2), cb_dst_port = port_v2 (v2_dst_port_id v2), cb_type = v2_type v2,
                  cb_confirm_rx = (v2_flags v2 AND 1 \<noteq> 0)\<rparr>,
                 16 + ucast (v2_optlen v2), v2_size v2))"

definition parse_version :: "u8 list \<Rightarrow> (qrtr_cb \<times> u64 \<times> u32) option" where
  "parse_version data =
     (if data ! 0 = QRTR_PROTO_VER_1 then parse_v1 data
      else if data ! 0 = QRTR_PROTO_VER_2 then parse_v2 data
      else None)"

text \<open>
  The checks that follow: the length announced is the length received, and only data and resume packets go to
  other ports than the control port. The result is the control block, what follows the header and the payload.
\<close>

definition parse_packet :: "u8 list \<Rightarrow> (qrtr_cb \<times> u8 list \<times> u8 list) option" where
  "parse_packet data =
     (case parse_version data of
        None \<Rightarrow> None
      | Some (cb0, hdrlen, psize) \<Rightarrow>
          let cb = (if cb_dst_port cb0 = QRTR_PORT_CTRL_LEGACY then cb0\<lparr>cb_dst_port := QRTR_PORT_CTRL\<rparr> else cb0)
          in if of_nat (length data) \<noteq> ALIGN (ucast psize :: u64) 4 + hdrlen then None
             else if cb_dst_port cb \<noteq> QRTR_PORT_CTRL \<and> ucast (cb_type cb) \<noteq> QRTR_TYPE_DATA \<and>
                     ucast (cb_type cb) \<noteq> QRTR_TYPE_RESUME_TX then None
             else Some (cb, drop (unat hdrlen) data, take (unat psize) (drop (unat hdrlen) data)))"

text \<open>The sum of two unsigned numbers that \<open>qrtr_peek_pkt_size\<close> returns is turned into an \<open>int\<close>, which may be negative.\<close>

definition qrtr_peek_pkt_size :: "u8 list \<Rightarrow> int result" where
  "qrtr_peek_pkt_size data =
     (if data ! 0 = QRTR_PROTO_VER_1 then Inr (sint (ALIGN (v1_size (get_hdr_v1 data)) 4 + 32))
      else if data ! 0 = QRTR_PROTO_VER_2 then
        Inr (sint (ALIGN (v2_size (get_hdr_v2 data)) 4 + (16 + ucast (v2_optlen (get_hdr_v2 data)))))
      else Inl EINVAL)"

section \<open>Sending\<close>

text \<open>
  The header \<open>qrtr_node_enqueue\<close> puts before a payload for a node with id \<open>nid\<close>, and the padding after it.
\<close>

definition push_header ::
  "u32 \<Rightarrow> u32 \<Rightarrow> sockaddr_qrtr \<Rightarrow> sockaddr_qrtr \<Rightarrow> bool \<Rightarrow> u8 list \<Rightarrow> u8 list" where
  "push_header nid type src dst confirm_rx payload =
     hdr_v1_bytes \<lparr>v1_version = QRTR_PROTO_VER_1, v1_type = type, v1_src_node_id = sq_node src, v1_src_port_id = sq_port src,
       v1_confirm_rx = (if confirm_rx then 1 else 0), v1_size = of_nat (length payload),
       v1_dst_node_id = (if sq_node dst = QRTR_NODE_BCAST then nid else sq_node dst), v1_dst_port_id = sq_port dst\<rparr> @ payload"

definition pad_packet :: "nat \<Rightarrow> u8 list \<Rightarrow> u8 list" where
  "pad_packet len pkt = pkt @ replicate (unat (ALIGN (of_nat len :: u64) 4) - len) 0"

section \<open>The checksum of a control packet\<close>

text \<open>The 32-bit words of a control packet in memory order, as \<open>qrtr_calc_checksum\<close> reads them.\<close>

definition ctrl_words :: "qrtr_ctrl_pkt \<Rightarrow> u32 list" where
  "ctrl_words pkt = [cmd pkt, server_service pkt, server_instance pkt, server_node pkt, server_port pkt]"

definition add_halves :: "u32 \<Rightarrow> u32 \<Rightarrow> u32" where
  "add_halves checksum w = checksum + ((drop_bit 16 w AND 0xffff) + (w AND 0xffff))"

text \<open>The folding loop; every turn makes a checksum above \<open>0xffff\<close> smaller.\<close>

lemma fold_smaller:
  assumes "(c :: u32) > 0xffff"
  shows "unat ((c AND 0xffff) + (drop_bit 16 c AND 0xffff)) < unat c"
proof -
  have d: "unat (drop_bit 16 c) = unat c div 65536" by (simp only: unat_drop_bit_eq) (simp add: drop_bit_eq_div)
  have m: "c AND 0xffff = take_bit 16 c" "drop_bit 16 c AND 0xffff = take_bit 16 (drop_bit 16 c)"
    by (simp_all add: take_bit_eq_mask mask_eq_exp_minus_1)
  have "unat (take_bit 16 c) = unat c mod 65536" by (simp only: unsigned_take_bit_eq) (simp add: take_bit_eq_mod)
  moreover have "unat (take_bit 16 (drop_bit 16 c)) = unat c div 65536"
    using unat_u32[of c] by (simp only: unsigned_take_bit_eq d) (simp add: take_bit_nat_eq_self)
  moreover have "unat c > 65535" using assms by (simp add: word_less_nat_alt)
  moreover have "unat c div 65536 < 65536" using unat_u32[of c] by simp
  moreover have "x mod 65536 + x div 65536 < x" if "65535 < x" for x :: nat
  proof -
    have "x div 65536 \<ge> 1" using that div_le_mono[of 65536 x 65536] by simp
    then show ?thesis using div_mult_mod_eq[of x 65536] by linarith
  qed
  ultimately show ?thesis unfolding m by (simp add: unat_word_ariths)
qed

function fold_checksum :: "u32 \<Rightarrow> u32" where
  "fold_checksum c = (if c > 0xffff then fold_checksum ((c AND 0xffff) + (drop_bit 16 c AND 0xffff)) else c)"
  by pat_completeness auto
termination by (relation "measure unat") (use fold_smaller in auto)

declare fold_checksum.simps [simp del]

definition qrtr_calc_checksum :: "qrtr_ctrl_pkt option \<Rightarrow> u32" where
  "qrtr_calc_checksum pkt =
     (case pkt of None \<Rightarrow> 0 | Some p \<Rightarrow> NOT (fold_checksum (foldl add_halves 0 (ctrl_words p))) AND 0xffff)"

text \<open>The packet \<open>qrtr_fwd_del_proc\<close> sends for a node that is gone.\<close>

definition del_proc_pkt :: "u32 \<Rightarrow> qrtr_ctrl_pkt" where
  "del_proc_pkt nid =
     (let pkt = server_pkt QRTR_TYPE_DEL_PROC QRTR_DEL_PROC_MAGIC nid 0 0
      in pkt\<lparr>server_service := qrtr_calc_checksum (Some pkt)\<rparr>)"

section \<open>What is sent is what is received\<close>

lemma get_hdr_v1_bytes: "get_hdr_v1 (hdr_v1_bytes h @ rest) = h"
  by (simp add: get_hdr_v1_def hdr_v1_bytes_def get_skip)

lemma get_hdr_v2_bytes: "get_hdr_v2 (hdr_v2_bytes h @ rest) = h"
  by (simp add: get_hdr_v2_def hdr_v2_bytes_def get_skip flip: append.simps) simp

lemma length_hdr_v1 [simp]: "length (hdr_v1_bytes h) = 32"
  by (simp add: hdr_v1_bytes_def)

lemma hdr_v1_first: "(hdr_v1_bytes h @ rest) ! 0 = ucast (v1_version h)"
  by (simp add: hdr_v1_bytes_def bytes32_def)

definition align4 :: "nat \<Rightarrow> nat" where
  "align4 n = (n + 3) div 4 * 4"

lemma align4_ge: "n \<le> align4 n" and align4_less: "align4 n < n + 4" and align4_dvd: "4 dvd align4 n"
  unfolding align4_def by presburger+

lemma unat_ALIGN4:
  assumes "unat (x :: 'a::len word) + 3 < 2 ^ LENGTH('a)" "2 < LENGTH('a)"
  shows "unat (ALIGN x 4) = align4 (unat x)"
  using unat_ALIGN_pow2[where k = 2 and x = x] assms by (simp add: align4_def)

text \<open>The packet a router sends for a payload.\<close>

definition wire_packet ::
  "u32 \<Rightarrow> u32 \<Rightarrow> sockaddr_qrtr \<Rightarrow> sockaddr_qrtr \<Rightarrow> bool \<Rightarrow> u8 list \<Rightarrow> u8 list" where
  "wire_packet nid type src dst confirm_rx payload =
     pad_packet (length payload) (push_header nid type src dst confirm_rx payload)"

lemma length_wire_packet:
  assumes "length payload < 2 ^ 31"
  shows "length (wire_packet nid type src dst c payload) = 32 + align4 (length payload)"
proof -
  have "unat (ALIGN (of_nat (length payload) :: u64) 4) = align4 (length payload)"
    using assms by (subst unat_ALIGN4) (simp_all add: unat_of_nat take_bit_nat_eq_self)
  then show ?thesis using align4_ge[of "length payload"] by (simp add: wire_packet_def pad_packet_def push_header_def)
qed

text \<open>What the other side makes of any packet: the legacy control port counts as the control port, and of the type eight bits are left.\<close>

definition effective_dst :: "sockaddr_qrtr \<Rightarrow> u32" where
  "effective_dst dst = (if sq_port dst = QRTR_PORT_CTRL_LEGACY then QRTR_PORT_CTRL else sq_port dst)"

lemma parse_any_packet:
  assumes "length payload < 2 ^ 31"
  shows "parse_packet (wire_packet nid type src dst c payload) =
    (if effective_dst dst = QRTR_PORT_CTRL \<or> ucast (ucast type :: u8) = QRTR_TYPE_DATA \<or> ucast (ucast type :: u8) = QRTR_TYPE_RESUME_TX
     then Some (\<lparr>cb_src_node = sq_node src, cb_src_port = sq_port src,
           cb_dst_node = (if sq_node dst = QRTR_NODE_BCAST then nid else sq_node dst), cb_dst_port = effective_dst dst,
           cb_type = ucast type, cb_confirm_rx = c\<rparr>, drop 32 (wire_packet nid type src dst c payload), payload)
     else None)"
proof -
  let ?n = "length payload"
  let ?pad = "replicate (unat (ALIGN (of_nat ?n :: u64) 4) - ?n) (0 :: u8)"
  define h where "h = \<lparr>v1_version = 1, v1_type = type, v1_src_node_id = sq_node src, v1_src_port_id = sq_port src,
       v1_confirm_rx = (if c then 1 else 0), v1_size = of_nat ?n,
       v1_dst_node_id = (if sq_node dst = QRTR_NODE_BCAST then nid else sq_node dst), v1_dst_port_id = sq_port dst\<rparr>"
  have w: "wire_packet nid type src dst c payload = hdr_v1_bytes h @ payload @ ?pad"
    by (simp add: wire_packet_def pad_packet_def push_header_def h_def)
  have n: "unat (of_nat ?n :: u32) = ?n" "unat (of_nat ?n :: u64) = ?n" using assms(1) by (simp_all add: unat_of_nat take_bit_nat_eq_self)
  have u: "(ucast (of_nat ?n :: u32) :: u64) = of_nat ?n" by (rule unsigned_word_eqI[where 'a = nat]) (simp add: n)
  have "unat (ALIGN (of_nat ?n :: u64) 4) = align4 ?n" using assms(1) by (simp add: unat_ALIGN4 n)
  then have len: "of_nat (align4 ?n) = ALIGN (of_nat ?n :: u64) 4" by (metis of_nat_unat ucast_id)
  have v: "parse_version (hdr_v1_bytes h @ payload @ ?pad) =
      Some (\<lparr>cb_src_node = sq_node src, cb_src_port = sq_port src,
           cb_dst_node = (if sq_node dst = QRTR_NODE_BCAST then nid else sq_node dst), cb_dst_port = sq_port dst,
           cb_type = ucast type, cb_confirm_rx = c\<rparr>, 32, of_nat ?n)"
    by (simp add: parse_version_def hdr_v1_first parse_v1_def get_hdr_v1_bytes Let_def) (simp add: h_def)
  have "length (hdr_v1_bytes h @ payload @ ?pad) = 32 + align4 ?n" using length_wire_packet[OF assms(1), of nid type src dst c] unfolding w .
  then show ?thesis by (simp add: parse_packet_def w v Let_def len u n effective_dst_def)
qed

lemma parse_wire_packet:
  assumes "length payload < 2 ^ 31" "sq_port dst \<noteq> QRTR_PORT_CTRL_LEGACY"
  shows "parse_packet (wire_packet nid QRTR_TYPE_DATA src dst c payload) =
    Some (\<lparr>cb_src_node = sq_node src, cb_src_port = sq_port src,
           cb_dst_node = (if sq_node dst = QRTR_NODE_BCAST then nid else sq_node dst), cb_dst_port = sq_port dst,
           cb_type = 1, cb_confirm_rx = c\<rparr>, drop 32 (wire_packet nid QRTR_TYPE_DATA src dst c payload), payload)"
  using parse_any_packet[OF assms(1), of nid QRTR_TYPE_DATA src dst c] assms(2) by (simp add: effective_dst_def)

lemma hdrlen_v2:
  "(ucast (16 + ucast (b :: u8) :: u64) :: u32) = 16 + ucast b" "(16 + ucast b :: u64) \<ge> 16" "(16 + ucast b :: u64) \<le> 271"
proof -
  have n: "unat (16 + ucast b :: u64) = 16 + unat b" "unat (16 + ucast b :: u32) = 16 + unat b" "unat b < 256"
    using unat_u8[of b] by (simp_all add: unat_word_ariths)
  show "(ucast (16 + ucast b :: u64) :: u32) = 16 + ucast b"
    by (rule unsigned_word_eqI[where 'a = nat]) (use n in \<open>simp add: unat_ucast_down\<close>)
  show "(16 + ucast b :: u64) \<ge> 16" "(16 + ucast b :: u64) \<le> 271" using n by (simp_all add: word_le_nat_alt)
qed

lemma parse_version_size:
  assumes "parse_version data = Some (cb, hdrlen, sz)"
  shows "qrtr_peek_pkt_size data = Inr (sint (ALIGN sz 4 + ucast hdrlen))" "hdrlen \<ge> 16" "hdrlen \<le> 271"
proof -
  consider "data ! 0 = 1" "parse_v1 data = Some (cb, hdrlen, sz)" | "data ! 0 = 3" "parse_v2 data = Some (cb, hdrlen, sz)"
    using assms by (auto simp: parse_version_def split: if_splits)
  then have "qrtr_peek_pkt_size data = Inr (sint (ALIGN sz 4 + ucast hdrlen)) \<and> hdrlen \<ge> 16 \<and> hdrlen \<le> 271"
  proof cases
    case 1
    then have "hdrlen = 32" "sz = v1_size (get_hdr_v1 data)" by (auto simp: parse_v1_def Let_def split: if_splits)
    then show ?thesis using 1(1) by (simp add: qrtr_peek_pkt_size_def)
  next
    case 2
    then have "hdrlen = 16 + ucast (v2_optlen (get_hdr_v2 data))" "sz = v2_size (get_hdr_v2 data)"
      by (auto simp: parse_v2_def Let_def split: if_splits)
    then show ?thesis using 2(1) hdrlen_v2[of "v2_optlen (get_hdr_v2 data)"] by (simp add: qrtr_peek_pkt_size_def)
  qed
  then show "qrtr_peek_pkt_size data = Inr (sint (ALIGN sz 4 + ucast hdrlen))" "hdrlen \<ge> 16" "hdrlen \<le> 271" by simp_all
qed

text \<open>C37. The transports and the router agree on the length of a packet: of every packet shorter than 2 GiB that the router accepts,
  \<open>qrtr_peek_pkt_size\<close> announces exactly the length. Of a longer one (up to 4 GiB) it announces a negative number, which is
  documented to be an error.\<close>

theorem peek_agrees_with_post:
  assumes "parse_packet data = Some (cb, body, payload)" "length data < 2 ^ 32"
  shows "qrtr_peek_pkt_size data = Inr (if length data < 2 ^ 31 then int (length data) else int (length data) - 2 ^ 32)"
proof -
  obtain cb0 hdrlen sz where v: "parse_version data = Some (cb0, hdrlen, sz)" and
    l: "of_nat (length data) = ALIGN (ucast sz :: u64) 4 + hdrlen"
    using assms(1) by (auto simp: parse_packet_def Let_def split: option.splits if_splits)
  have h: "16 \<le> unat hdrlen" "unat hdrlen \<le> 271" using parse_version_size(2,3)[OF v] by (simp_all add: word_le_nat_alt)
  have a: "unat (ALIGN (ucast sz :: u64) 4) = align4 (unat sz)" using unat_u32[of sz] by (simp add: unat_ALIGN4)
  have s: "unat sz < 2 ^ 32" using unat_u32 by simp
  have n: "length data = align4 (unat sz) + unat hdrlen"
    using arg_cong[OF l, of unat] assms(2) a h s align4_less[of "unat sz"]
    by (simp add: unat_of_nat take_bit_nat_eq_self unat_word_ariths)
  then have "unat sz + 3 < 2 ^ 32" using assms(2) h align4_ge[of "unat sz"] by simp
  then have "unat (ALIGN sz 4 + ucast hdrlen) = length data"
    using n h assms(2) by (simp add: unat_word_ariths unat_ALIGN4 unat_ucast_down)
  then show ?thesis using parse_version_size(1)[OF v] by (simp add: sint_u32)
qed

text \<open>A packet carrying the three bytes 7, 8, 9 from port 0x4001 of node 1 to port 0x4002 of node 5.\<close>

definition ex_packet :: "u8 list" where
  "ex_packet = wire_packet 5 QRTR_TYPE_DATA \<lparr>sq_node = 1, sq_port = 0x4001\<rparr> \<lparr>sq_node = 5, sq_port = 0x4002\<rparr> True [7, 8, 9]"

theorem peek_agrees_with_post_witness:
  "length ex_packet = 36 \<and> qrtr_peek_pkt_size ex_packet = Inr 36"
proof -
  have l: "length ex_packet = 36" by (simp add: ex_packet_def length_wire_packet align4_def)
  have "qrtr_peek_pkt_size ex_packet = Inr (if length ex_packet < 2 ^ 31 then int (length ex_packet) else int (length ex_packet) - 2 ^ 32)"
    by (rule peek_agrees_with_post) (unfold ex_packet_def, rule parse_wire_packet, simp_all add: length_wire_packet align4_def)
  then show ?thesis using l by simp
qed

text \<open>C36. Round trip of a packet with a payload below 2 GiB through an endpoint. The frame \<open>qrtr_node_enqueue\<close> hands to the transport is
  accepted by \<open>qrtr_endpoint_post\<close> on the other side exactly if it is for the control port (the legacy number of it
  included) or the low byte of its type is that of a data or resume packet. Then the sender, the receiver (a broadcast being
  addressed to the node it was sent to), the low byte of the type, the request for a confirmation, and the
  payload without its padding are recovered; a larger type is cut.\<close>

theorem qrtr_packet_roundtrip:
  assumes "length payload < 2 ^ 31"
  shows "map_option (\<lambda>(cb, body, p). (cb, p)) (parse_packet (wire_packet nid type src dst c payload)) =
    (if effective_dst dst = QRTR_PORT_CTRL \<or> ucast (ucast type :: u8) = QRTR_TYPE_DATA \<or> ucast (ucast type :: u8) = QRTR_TYPE_RESUME_TX
     then Some (\<lparr>cb_src_node = sq_node src, cb_src_port = sq_port src,
           cb_dst_node = (if sq_node dst = QRTR_NODE_BCAST then nid else sq_node dst), cb_dst_port = effective_dst dst,
           cb_type = ucast type, cb_confirm_rx = c\<rparr>, payload)
     else None)"
  using parse_any_packet[OF assms, of nid type src dst c] by simp

theorem qrtr_packet_roundtrip_witness:
  "map_option (\<lambda>(cb, body, p). (cb, p)) (parse_packet ex_packet) =
    Some (\<lparr>cb_src_node = 1, cb_src_port = 0x4001, cb_dst_node = 5, cb_dst_port = 0x4002, cb_type = 1, cb_confirm_rx = True\<rparr>, [7, 8, 9])"
  unfolding ex_packet_def by (subst qrtr_packet_roundtrip) (simp_all add: effective_dst_def)

end
