(* ===== verification/Qrtr_Router.thy ===== *)
theory Qrtr_Router
  imports Qrtr_Packet "HOL-Library.State_Monad"
begin

text \<open>
  The IPC router, \<open>net/qrtr/qrtr.c\<close>: endpoints and their nodes, sockets and ports, flow control, sending,
  receiving and forwarding. Nodes and sockets are objects with an identity, kept in \<open>r_node\<close> and \<open>r_sock\<close> while
  they are allocated; a function of the driver is a computation in the state monad. Following a pointer to an
  object that was freed sets \<open>r_bad\<close>. What other code decides (memory, the endpoint's \<open>xmit\<close>, the room in a
  socket's queue, the outcome of a wait) comes from an environment, indexed by a counter of such decisions.
\<close>

section \<open>State\<close>

type_synonym node_p = nat
type_synonym sock_p = nat

abbreviation (input) QRTR_EP_NID_AUTO :: u32 where "QRTR_EP_NID_AUTO \<equiv> 0xffffffff"
abbreviation (input) QRTR_TX_FLOW_HIGH :: nat where "QRTR_TX_FLOW_HIGH \<equiv> 10"
abbreviation (input) QRTR_TX_FLOW_LOW :: nat where "QRTR_TX_FLOW_LOW \<equiv> 5"
abbreviation (input) QRTR_MIN_EPH_SOCKET :: int where "QRTR_MIN_EPH_SOCKET \<equiv> 0x4000"
abbreviation (input) QRTR_MAX_EPH_SOCKET :: int where "QRTR_MAX_EPH_SOCKET \<equiv> 0x7fff"
abbreviation (input) QRTR_STATE_MULTI :: u32 where "QRTR_STATE_MULTI \<equiv> 0xfffffffe"
abbreviation (input) QRTR_STATE_INIT :: u32 where "QRTR_STATE_INIT \<equiv> 0xffffffff"
abbreviation (input) MSG_DONTWAIT :: u32 where "MSG_DONTWAIT \<equiv> 0x40"
abbreviation (input) MSG_PEEK :: u32 where "MSG_PEEK \<equiv> 2"
abbreviation (input) AF_QIPCRTR :: u16 where "AF_QIPCRTR \<equiv> 42"

abbreviation (input) EACCES :: errno where "EACCES \<equiv> Errno 13"
abbreviation (input) EMSGSIZE :: errno where "EMSGSIZE \<equiv> Errno 90"
abbreviation (input) EPROTOTYPE :: errno where "EPROTOTYPE \<equiv> Errno 91"
abbreviation (input) EADDRINUSE :: errno where "EADDRINUSE \<equiv> Errno 98"
abbreviation (input) EADDRNOTAVAIL :: errno where "EADDRNOTAVAIL \<equiv> Errno 99"
abbreviation (input) ENETRESET :: errno where "ENETRESET \<equiv> Errno 102"
abbreviation (input) ECONNRESET :: errno where "ECONNRESET \<equiv> Errno 104"
abbreviation (input) ENOTCONN :: errno where "ENOTCONN \<equiv> Errno 107"
abbreviation (input) ERESTARTSYS :: errno where "ERESTARTSYS \<equiv> Errno 512"
abbreviation (input) ENOIOCTLCMD :: errno where "ENOIOCTLCMD \<equiv> Errno 515"

record sk_buff =
  sb_data :: "u8 list"
  sb_cb :: qrtr_cb
  sb_sk :: "sock_p option"

record qrtr_tx_flow =
  fl_pending :: nat
  fl_tx_failed :: bool
  fl_waiters :: "sock_p list"

text \<open>
  \<open>n_ep\<close>: the endpoint is still there; \<open>n_running\<close>: the worker of the node is busy; \<open>n_wakes\<close>: how often the wait queue
  \<open>resume_tx\<close> was woken up.
\<close>

record qrtr_node =
  n_ep :: bool
  n_ref :: nat
  n_nid :: u32
  n_net_id :: u32
  n_hello_sent :: nat
  n_hello_rcvd :: nat
  n_tx_flow :: "(u64, qrtr_tx_flow) xarray"
  n_rx_queue :: "sk_buff list"
  n_running :: bool
  n_wakes :: nat

text \<open>
  \<open>s_err\<close>: \<open>sk_err\<close> is \<open>ENETRESET\<close>; \<open>s_zapped\<close>: not bound; \<open>s_established\<close>: connected; \<open>s_open\<close>: not released by
  its user; \<open>s_locked\<close>: somebody holds \<open>lock_sock\<close>.
\<close>

record qrtr_sock =
  s_us :: sockaddr_qrtr
  s_peer :: sockaddr_qrtr
  s_state :: u32
  s_err :: bool
  s_zapped :: bool
  s_established :: bool
  s_queue :: "sk_buff list"
  s_ref :: nat
  s_open :: bool
  s_locked :: bool

text \<open>
  The tree \<open>qrtr_nodes\<close> from node ids to nodes, the list \<open>qrtr_all_epts\<close> with the number of readers that hold its
  lock, the ports with the cursor of the cyclic allocation, the number of backup buffers and whether the work
  that refills them is queued, the objects with the next free pointers, and the packets given to
  endpoints, the oldest first.
\<close>

record router =
  r_nodes :: "(u32, node_p) xarray"
  r_epts :: "node_p list"
  r_epts_lock :: nat
  r_ports :: "(int, sock_p) xarray"
  r_port_next :: int
  r_backup_lo :: nat
  r_backup_hi :: nat
  r_backup_work :: bool
  r_node :: "(node_p, qrtr_node) xarray"
  r_sock :: "(sock_p, qrtr_sock) xarray"
  r_next_node :: node_p
  r_next_sock :: sock_p
  r_xmits :: "(node_p \<times> u8 list) list"
  r_bad :: bool
  r_tick :: nat

text \<open>
  \<open>wait_rc\<close> lists what happens while a sender waits for a resume packet: in each turn other threads do something to the
  router, then so much time is left; after the last turn a signal arrives. The flag says that the sender looks at its
  condition again though nothing woke it up, as when it has not fallen asleep yet. \<open>flush_rc\<close> is what the worker of a node that is
  being freed still does, \<open>stray\<close> what lies in memory that was not written or is behind the end of a packet.
\<close>

type_synonym turn = "nat \<times> bool \<times> (router \<Rightarrow> router)"

record qrtr_env =
  local_nid :: u32
  alloc_ok :: "nat \<Rightarrow> bool"
  xmit_rc :: "nat \<Rightarrow> errno option"
  rcv_rc :: "nat \<Rightarrow> errno option"
  pad_rc :: "nat \<Rightarrow> errno option"
  copy_rc :: "nat \<Rightarrow> errno option"
  recv_rc :: "nat \<Rightarrow> errno"
  wait_rc :: "nat \<Rightarrow> turn list"
  flush_rc :: "nat \<Rightarrow> router \<Rightarrow> router"
  sndtimeo :: nat
  sndbuf_left :: int
  capable :: bool
  stray :: u32

type_synonym 'a rt = "(router, 'a) state"

abbreviation (input) ret :: "'a \<Rightarrow> 'a rt" where "ret \<equiv> State_Monad.return"

definition gets :: "(router \<Rightarrow> 'a) \<Rightarrow> 'a rt" where
  "gets f = State (\<lambda>s. (f s, s))"

definition modify :: "(router \<Rightarrow> router) \<Rightarrow> unit rt" where
  "modify f = State (\<lambda>s. ((), f s))"

definition tick :: "nat rt" where
  "tick = State (\<lambda>s. (r_tick s, s\<lparr>r_tick := r_tick s + 1\<rparr>))"

definition alloc :: "qrtr_env \<Rightarrow> bool rt" where
  "alloc env = do {n \<leftarrow> tick; ret (alloc_ok env n)}"

definition when_rt :: "bool \<Rightarrow> unit rt \<Rightarrow> unit rt" where
  "when_rt b m = (if b then m else ret ())"

text \<open>Reading and changing an object through a pointer.\<close>

definition no_node :: qrtr_node where
  "no_node = \<lparr>n_ep = False, n_ref = 0, n_nid = 0, n_net_id = 0, n_hello_sent = 0, n_hello_rcvd = 0, n_tx_flow = [], n_rx_queue = [], n_running = False, n_wakes = 0\<rparr>"

definition no_sock :: qrtr_sock where
  "no_sock = \<lparr>s_us = \<lparr>sq_node = 0, sq_port = 0\<rparr>, s_peer = \<lparr>sq_node = 0, sq_port = 0\<rparr>, s_state = 0, s_err = False, s_zapped = False,
     s_established = False, s_queue = [], s_ref = 0, s_open = False, s_locked = False\<rparr>"

definition node :: "node_p \<Rightarrow> qrtr_node rt" where
  "node p = State (\<lambda>s. case xa_load (r_node s) p of Some nd \<Rightarrow> (nd, s) | None \<Rightarrow> (no_node, s\<lparr>r_bad := True\<rparr>))"

definition sock :: "sock_p \<Rightarrow> qrtr_sock rt" where
  "sock i = State (\<lambda>s. case xa_load (r_sock s) i of Some k \<Rightarrow> (k, s) | None \<Rightarrow> (no_sock, s\<lparr>r_bad := True\<rparr>))"

definition upd_node :: "node_p \<Rightarrow> (qrtr_node \<Rightarrow> qrtr_node) \<Rightarrow> unit rt" where
  "upd_node p f =
     modify (\<lambda>s. case xa_load (r_node s) p of
                   Some nd \<Rightarrow> s\<lparr>r_node := xa_store (r_node s) p (f nd)\<rparr>
                 | None \<Rightarrow> s\<lparr>r_bad := True\<rparr>)"

definition upd_sock :: "sock_p \<Rightarrow> (qrtr_sock \<Rightarrow> qrtr_sock) \<Rightarrow> unit rt" where
  "upd_sock i f =
     modify (\<lambda>s. case xa_load (r_sock s) i of
                   Some k \<Rightarrow> s\<lparr>r_sock := xa_store (r_sock s) i (f k)\<rparr>
                 | None \<Rightarrow> s\<lparr>r_bad := True\<rparr>)"

text \<open>The reference counts of a socket; the last \<open>sock_put\<close> frees it.\<close>

definition sock_hold :: "sock_p \<Rightarrow> unit rt" where
  "sock_hold i = upd_sock i (s_ref_update Suc)"

definition sock_put :: "sock_p \<Rightarrow> unit rt" where
  "sock_put i =
     do {k \<leftarrow> sock i;
         if s_ref k \<le> 1 then modify (\<lambda>s. s\<lparr>r_sock := xa_erase (r_sock s) i\<rparr>)
         else upd_sock i (s_ref_update (\<lambda>n. n - 1))}"

definition lock_sock :: "sock_p \<Rightarrow> unit rt" where
  "lock_sock i = upd_sock i (s_locked_update (\<lambda>_. True))"

definition release_sock :: "sock_p \<Rightarrow> unit rt" where
  "release_sock i = upd_sock i (s_locked_update (\<lambda>_. False))"

text \<open>\<open>sock_queue_rcv_skb\<close>.\<close>

definition sock_queue_rcv :: "qrtr_env \<Rightarrow> sock_p \<Rightarrow> sk_buff \<Rightarrow> errno option rt" where
  "sock_queue_rcv env i skb =
     do {n \<leftarrow> tick;
         case rcv_rc env n of
           Some e \<Rightarrow> ret (Some e)
         | None \<Rightarrow> do {upd_sock i (s_queue_update (\<lambda>q. q @ [skb])); ret None}}"

definition no_cb :: qrtr_cb where
  "no_cb = \<lparr>cb_src_node = 0, cb_src_port = 0, cb_dst_node = 0, cb_dst_port = 0, cb_type = 0, cb_confirm_rx = False\<rparr>"

text \<open>The control packet at the start of a buffer that is long enough (\<open>skb_copy_bits\<close>).\<close>

definition copy_ctrl :: "u8 list \<Rightarrow> qrtr_ctrl_pkt \<Rightarrow> qrtr_ctrl_pkt" where
  "copy_ctrl data pkt = (if length data < 20 then pkt else decode_ctrl data)"

definition qrtr_alloc_ctrl_packet :: "qrtr_env \<Rightarrow> qrtr_ctrl_pkt \<Rightarrow> sk_buff option rt" where
  "qrtr_alloc_ctrl_packet env pkt =
     do {ok \<leftarrow> alloc env;
         ret (if ok then Some \<lparr>sb_data = encode_ctrl pkt, sb_cb = no_cb, sb_sk = None\<rparr> else None)}"

section \<open>Ports\<close>

definition port_key :: "u32 \<Rightarrow> int" where
  "port_key port = (if port = QRTR_PORT_CTRL then 0 else sint port)"

definition qrtr_port_lookup :: "u32 \<Rightarrow> sock_p option rt" where
  "qrtr_port_lookup port =
     do {ports \<leftarrow> gets r_ports;
         case xa_load ports (port_key port) of
           None \<Rightarrow> ret None
         | Some i \<Rightarrow> do {sock_hold i; ret (Some i)}}"

definition qrtr_port_put :: "sock_p \<Rightarrow> unit rt" where
  "qrtr_port_put i = sock_put i"

text \<open>The first free id from \<open>i\<close> on, among the next \<open>n\<close>.\<close>

fun first_free :: "nat \<Rightarrow> int \<Rightarrow> (int, sock_p) xarray \<Rightarrow> int option" where
  "first_free 0 i ports = None"
| "first_free (Suc n) i ports = (if xa_load ports i = None then Some i else first_free n (i + 1) ports)"

text \<open>
  \<open>idr_alloc\<close> and \<open>idr_alloc_cyclic\<close> for the ids \<open>lo\<close> to \<open>hi\<close>; a negative \<open>hi\<close> stands for \<open>INT_MAX\<close>. The cyclic search
  starts behind the id allocated last.
\<close>

definition idr_alloc :: "qrtr_env \<Rightarrow> sock_p \<Rightarrow> int \<Rightarrow> int \<Rightarrow> int result rt" where
  "idr_alloc env i lo hi =
     do {ports \<leftarrow> gets r_ports;
         case first_free (nat (hi - lo + 1)) lo ports of
           None \<Rightarrow> ret (Inl ENOSPC)
         | Some port \<Rightarrow>
             do {ok \<leftarrow> alloc env;
                 if ok then do {modify (\<lambda>s. s\<lparr>r_ports := xa_store (r_ports s) port i\<rparr>); ret (Inr port)}
                 else ret (Inl ENOMEM)}}"

definition idr_alloc_cyclic :: "qrtr_env \<Rightarrow> sock_p \<Rightarrow> int \<Rightarrow> int \<Rightarrow> int result rt" where
  "idr_alloc_cyclic env i lo hi0 =
     do {let hi = (if hi0 < 0 then 0x7fffffff else hi0);
         cur \<leftarrow> gets r_port_next;
         r1 \<leftarrow> idr_alloc env i (max cur lo) hi;
         r \<leftarrow> (if r1 = Inl ENOSPC \<and> cur > lo \<and> lo \<ge> 0 then idr_alloc env i lo hi else ret r1);
         case r of
           Inl e \<Rightarrow> ret (Inl e)
         | Inr port \<Rightarrow> do {modify (\<lambda>s. s\<lparr>r_port_next := port + 1\<rparr>); ret (Inr port)}}"

definition qrtr_port_assign :: "qrtr_env \<Rightarrow> sock_p \<Rightarrow> u32 \<Rightarrow> u32 result rt" where
  "qrtr_port_assign env i port =
     do {r \<leftarrow> (if port = 0 then idr_alloc_cyclic env i QRTR_MIN_EPH_SOCKET QRTR_MAX_EPH_SOCKET
               else if sint port < QRTR_MIN_EPH_SOCKET \<and> \<not> capable env then ret (Inl EACCES)
               else if port = QRTR_PORT_CTRL then idr_alloc env i 0 0
               else idr_alloc_cyclic env i (sint port) (sint port));
         case r of
           Inl e \<Rightarrow> ret (Inl (if e = ENOSPC then EADDRINUSE else e))
         | Inr p \<Rightarrow> do {sock_hold i; ret (Inr (if port = QRTR_PORT_CTRL then port else of_int p))}}"

fun reset_ports_loop :: "(int \<times> sock_p) list \<Rightarrow> unit rt" where
  "reset_ports_loop [] = ret ()"
| "reset_ports_loop ((port, i) # ps) =
     do {when_rt (port \<noteq> 0) (do {sock_hold i; upd_sock i (s_err_update (\<lambda>_. True)); sock_put i});
         reset_ports_loop ps}"

definition qrtr_reset_ports :: "unit rt" where
  "qrtr_reset_ports = do {ports \<leftarrow> gets r_ports; reset_ports_loop ports}"

section \<open>Nodes\<close>

definition qrtr_node_acquire :: "node_p option \<Rightarrow> node_p option rt" where
  "qrtr_node_acquire p =
     (case p of None \<Rightarrow> ret None | Some q \<Rightarrow> do {upd_node q (n_ref_update Suc); ret (Some q)})"

definition qrtr_node_lookup :: "u32 \<Rightarrow> node_p option rt" where
  "qrtr_node_lookup nid = do {nodes \<leftarrow> gets r_nodes; qrtr_node_acquire (xa_load nodes nid)}"

text \<open>The insertion into the radix tree allocates; the code does not look at whether it worked.\<close>

definition qrtr_node_assign :: "qrtr_env \<Rightarrow> node_p \<Rightarrow> u32 \<Rightarrow> unit rt" where
  "qrtr_node_assign env p nid =
     do {nd \<leftarrow> node p;
         if nid = n_nid nd \<or> nid = QRTR_EP_NID_AUTO then ret ()
         else do {
           nodes \<leftarrow> gets r_nodes;
           when_rt (xa_load nodes nid = None)
             (do {ok \<leftarrow> alloc env; when_rt ok (modify (\<lambda>s. s\<lparr>r_nodes := xa_store nodes nid p\<rparr>))});
           when_rt (n_nid nd = QRTR_EP_NID_AUTO) (upd_node p (n_nid_update (\<lambda>_. nid)))}}"

text \<open>The waiters of a flow that is freed.\<close>

fun put_waiters :: "sock_p list \<Rightarrow> unit rt" where
  "put_waiters [] = ret ()"
| "put_waiters (i # is) = do {sock_put i; put_waiters is}"

fun free_flows :: "qrtr_tx_flow list \<Rightarrow> unit rt" where
  "free_flows [] = ret ()"
| "free_flows (fl # fls) = do {put_waiters (fl_waiters fl); free_flows fls}"

text \<open>\<open>__qrtr_node_release\<close>: what the last reference to a node releases.\<close>

definition node_free :: "qrtr_env \<Rightarrow> node_p \<Rightarrow> unit rt" where
  "node_free env p =
     do {nd \<leftarrow> node p;
         when_rt (n_nid nd \<noteq> QRTR_EP_NID_AUTO) (modify (\<lambda>s. s\<lparr>r_nodes := filter (\<lambda>(nid, q). q \<noteq> p) (r_nodes s)\<rparr>));
         modify (\<lambda>s. s\<lparr>r_epts := remove1 p (r_epts s)\<rparr>);
         upd_node p (n_tx_flow_update (\<lambda>_. []));
         free_flows (xa_values (n_tx_flow nd));
         n \<leftarrow> tick;
         modify (flush_rc env n);
         modify (\<lambda>s. s\<lparr>r_node := xa_erase (r_node s) p\<rparr>)}"

definition qrtr_node_release :: "qrtr_env \<Rightarrow> node_p option \<Rightarrow> unit rt" where
  "qrtr_node_release env p =
     (case p of
        None \<Rightarrow> ret ()
      | Some q \<Rightarrow>
          do {nd \<leftarrow> node q;
              upd_node q (n_ref_update (\<lambda>n. n - 1));
              when_rt (n_ref nd \<le> 1) (node_free env q)})"

section \<open>Local delivery\<close>

definition qrtr_local_enqueue ::
  "qrtr_env \<Rightarrow> sk_buff \<Rightarrow> sockaddr_qrtr \<Rightarrow> sockaddr_qrtr \<Rightarrow> errno option rt" where
  "qrtr_local_enqueue env skb src dst =
     do {ipc \<leftarrow> qrtr_port_lookup (sq_port dst);
         case ipc of
           None \<Rightarrow> ret (if sq_port dst = QRTR_PORT_CTRL then None else Some ENODEV)
         | Some i \<Rightarrow>
             if sb_sk skb = Some i then ret (Some ENODEV)
             else do {
               reset \<leftarrow> (case sb_sk skb of None \<Rightarrow> ret False | Some k \<Rightarrow> do {sk \<leftarrow> sock k; ret (s_err sk)});
               if reset then ret None
               else do {
                 rc \<leftarrow> sock_queue_rcv env i
                         (skb\<lparr>sb_cb := (sb_cb skb)\<lparr>cb_src_node := sq_node src, cb_src_port := sq_port src\<rparr>\<rparr>);
                 qrtr_port_put i;
                 ret (if rc = None then None else Some ENOSPC)}}}"

section \<open>Flow control\<close>

definition flow_key :: "sockaddr_qrtr \<Rightarrow> u64" where
  "flow_key dst = push_bit 32 (ucast (sq_node dst)) OR ucast (sq_port dst)"

text \<open>In \<open>qrtr_tx_flow_failed\<close> node and port are of type \<open>int\<close>, so that their sign is extended.\<close>

definition flow_key_int :: "u32 \<Rightarrow> u32 \<Rightarrow> u64" where
  "flow_key_int dest_node dest_port = push_bit 32 (scast dest_node) OR scast dest_port"

definition no_flow :: qrtr_tx_flow where
  "no_flow = \<lparr>fl_pending = 0, fl_tx_failed = False, fl_waiters = []\<rparr>"

definition flow :: "node_p \<Rightarrow> u64 \<Rightarrow> qrtr_tx_flow rt" where
  "flow p key =
     do {nd \<leftarrow> node p;
         case xa_load (n_tx_flow nd) key of
           Some fl \<Rightarrow> ret fl
         | None \<Rightarrow> do {modify (r_bad_update (\<lambda>_. True)); ret no_flow}}"

definition set_flow :: "node_p \<Rightarrow> u64 \<Rightarrow> qrtr_tx_flow \<Rightarrow> unit rt" where
  "set_flow p key fl = upd_node p (\<lambda>nd. nd\<lparr>n_tx_flow := xa_store (n_tx_flow nd) key fl\<rparr>)"

text \<open>\<open>wake_up_interruptible_all(&node->resume_tx)\<close>: whoever sleeps on the queue looks at its condition again.\<close>

definition wake_up_all :: "node_p \<Rightarrow> unit rt" where
  "wake_up_all p = upd_node p (n_wakes_update Suc)"

text \<open>The notification of the senders that wait for a flow.\<close>

fun resume_waiters :: "qrtr_env \<Rightarrow> sockaddr_qrtr \<Rightarrow> sock_p list \<Rightarrow> unit rt" where
  "resume_waiters env src [] = ret ()"
| "resume_waiters env src (i # is) =
     do {ok \<leftarrow> alloc env;
         when_rt ok (do {k \<leftarrow> sock i;
                      qrtr_local_enqueue env \<lparr>sb_data = [], sb_cb = no_cb, sb_sk = None\<rparr> src (s_us k);
                      ret ()});
         sock_put i;
         resume_waiters env src is}"

definition qrtr_tx_resume :: "qrtr_env \<Rightarrow> node_p \<Rightarrow> sk_buff \<Rightarrow> unit rt" where
  "qrtr_tx_resume env p skb =
     (let pkt = copy_ctrl (sb_data skb) (server_pkt 0 0 0 0 0);
          src = \<lparr>sq_node = client_node pkt, sq_port = client_port pkt\<rparr>
      in if cmd pkt \<noteq> QRTR_TYPE_RESUME_TX then ret ()
         else do {
           nd \<leftarrow> node p;
           case xa_load (n_tx_flow nd) (flow_key src) of
             None \<Rightarrow> ret ()
           | Some fl \<Rightarrow>
               do {set_flow p (flow_key src) (fl\<lparr>fl_pending := 0, fl_waiters := []\<rparr>);
                   wake_up_all p;
                   resume_waiters env src (fl_waiters fl)}})"

text \<open>The start of a turn of the loop in \<open>qrtr_tx_wait\<close>: may the packet be sent, and is it to be confirmed?\<close>

definition flow_try :: "node_p \<Rightarrow> u64 \<Rightarrow> bool option rt" where
  "flow_try p key =
     do {fl \<leftarrow> flow p key;
         if fl_tx_failed fl then do {set_flow p key (fl\<lparr>fl_tx_failed := False\<rparr>); ret (Some True)}
         else if fl_pending fl < QRTR_TX_FLOW_HIGH then
           do {set_flow p key (fl\<lparr>fl_pending := fl_pending fl + 1\<rparr>); ret (Some (fl_pending fl + 1 = QRTR_TX_FLOW_LOW))}
         else ret None}"

text \<open>The end of the time: the socket is told later.\<close>

definition add_waiter :: "qrtr_env \<Rightarrow> node_p \<Rightarrow> u64 \<Rightarrow> sock_p \<Rightarrow> errno rt" where
  "add_waiter env p key sk =
     do {fl \<leftarrow> flow p key;
         if sk \<in> set (fl_waiters fl) then ret EAGAIN
         else do {
           ok \<leftarrow> alloc env;
           if \<not> ok then ret ENOMEM
           else do {sock_hold sk; set_flow p key (fl\<lparr>fl_waiters := fl_waiters fl @ [sk]\<rparr>); ret EAGAIN}}}"

text \<open>
  A sender that sleeps in \<open>wait_event_interruptible_timeout\<close>. A turn in which nobody wakes it up leaves it asleep, even if
  its condition holds by then. When it is woken up, by a wake-up of the queue or the end of the time, it looks: if the
  endpoint is gone, it returns; if the flow is marked or has room, the wait is over and the loop takes the packet at once
  (\<open>flow_try\<close>); otherwise it adds a waiter when the time is over, or sleeps again. A signal wakes it up, too.
\<close>

fun tx_asleep :: "qrtr_env \<Rightarrow> node_p \<Rightarrow> u64 \<Rightarrow> sock_p \<Rightarrow> turn list \<Rightarrow> bool result rt" where
  "tx_asleep env p key sk [] =
     do {nd \<leftarrow> node p;
         if \<not> n_ep nd then ret (Inl EPIPE)
         else do {r \<leftarrow> flow_try p key; ret (case r of Some c \<Rightarrow> Inr c | None \<Rightarrow> Inl ERESTARTSYS)}}"
| "tx_asleep env p key sk ((t, look, others) # ws) =
     do {nd \<leftarrow> node p;
         modify others;
         nd' \<leftarrow> node p;
         if n_wakes nd' = n_wakes nd \<and> t > 0 \<and> \<not> look then tx_asleep env p key sk ws
         else if \<not> n_ep nd' then ret (Inl EPIPE)
         else do {
           r \<leftarrow> flow_try p key;
           case r of
             Some c \<Rightarrow> ret (Inr c)
           | None \<Rightarrow> if t = 0 then do {e \<leftarrow> add_waiter env p key sk; ret (Inl e)} else tx_asleep env p key sk ws}}"

text \<open>The loop of \<open>qrtr_tx_wait\<close>; its first wait returns at once when the endpoint is gone.\<close>

definition tx_wait_loop ::
  "qrtr_env \<Rightarrow> node_p \<Rightarrow> u64 \<Rightarrow> sock_p \<Rightarrow> turn list \<Rightarrow> nat \<Rightarrow> bool result rt" where
  "tx_wait_loop env p key sk ws timeo =
     do {r \<leftarrow> flow_try p key;
         case r of
           Some c \<Rightarrow> ret (Inr c)
         | None \<Rightarrow>
             if timeo = 0 then do {e \<leftarrow> add_waiter env p key sk; ret (Inl e)}
             else do {nd \<leftarrow> node p; if \<not> n_ep nd then ret (Inl EPIPE) else tx_asleep env p key sk ws}}"

text \<open>
  A flow whose insertion into the tree fails is not found again: its counter serves this packet alone.
\<close>

definition qrtr_tx_wait ::
  "qrtr_env \<Rightarrow> node_p \<Rightarrow> sockaddr_qrtr \<Rightarrow> sock_p \<Rightarrow> u32 \<Rightarrow> u32 \<Rightarrow> bool result rt" where
  "qrtr_tx_wait env p dst sk type flags =
     (if type \<noteq> QRTR_TYPE_DATA then ret (Inr False)
      else do {
        let key = flow_key dst;
        let timeo = (if flags AND MSG_DONTWAIT \<noteq> 0 then 0 else sndtimeo env);
        nd \<leftarrow> node p;
        n \<leftarrow> tick;
        case xa_load (n_tx_flow nd) key of
          Some fl \<Rightarrow> tx_wait_loop env p key sk (wait_rc env n) timeo
        | None \<Rightarrow>
            do {ok \<leftarrow> alloc env;
                if \<not> ok then ret (Inr True)
                else do {
                  ins \<leftarrow> alloc env;
                  if \<not> ins then ret (Inr False)
                  else do {set_flow p key no_flow; tx_wait_loop env p key sk (wait_rc env n) timeo}}}})"

definition qrtr_tx_flow_failed :: "node_p \<Rightarrow> u32 \<Rightarrow> u32 \<Rightarrow> unit rt" where
  "qrtr_tx_flow_failed p dest_node dest_port =
     do {nd \<leftarrow> node p;
         case xa_load (n_tx_flow nd) (flow_key_int dest_node dest_port) of
           None \<Rightarrow> ret ()
         | Some fl \<Rightarrow> set_flow p (flow_key_int dest_node dest_port) (fl\<lparr>fl_tx_failed := True\<rparr>)}"

section \<open>Sending to an endpoint\<close>

text \<open>Padding and transmission of a packet; \<open>None\<close> is the return value 0.\<close>

definition node_xmit :: "qrtr_env \<Rightarrow> node_p \<Rightarrow> u8 list \<Rightarrow> errno option rt" where
  "node_xmit env p pkt =
     do {nd \<leftarrow> node p;
         if \<not> n_ep nd then ret None
         else do {
           n \<leftarrow> tick;
           case xmit_rc env n of
             Some e \<Rightarrow> ret (Some e)
           | None \<Rightarrow> do {modify (\<lambda>s. s\<lparr>r_xmits := r_xmits s @ [(p, pkt)]\<rparr>); ret None}}}"

definition send_packet ::
  "qrtr_env \<Rightarrow> node_p \<Rightarrow> sk_buff \<Rightarrow> u32 \<Rightarrow> sockaddr_qrtr \<Rightarrow> sockaddr_qrtr \<Rightarrow> bool \<Rightarrow> errno option rt" where
  "send_packet env p skb type src dst confirm_rx =
     do {nd \<leftarrow> node p;
         let pkt = push_header (n_nid nd) type src dst confirm_rx (sb_data skb);
         n \<leftarrow> tick;
         case pad_rc env n of
           Some e \<Rightarrow> ret (Some e)
         | None \<Rightarrow>
             do {rc \<leftarrow> node_xmit env p (pad_packet (length (sb_data skb)) pkt);
                 when_rt (rc \<noteq> None \<and> confirm_rx) (qrtr_tx_flow_failed p (sq_node dst) (sq_port dst));
                 when_rt (rc = None \<and> type = QRTR_TYPE_HELLO) (upd_node p (n_hello_sent_update Suc));
                 ret rc}}"

definition qrtr_node_enqueue ::
  "qrtr_env \<Rightarrow> node_p \<Rightarrow> sk_buff \<Rightarrow> u32 \<Rightarrow> sockaddr_qrtr \<Rightarrow> sockaddr_qrtr \<Rightarrow> u32 \<Rightarrow> errno option rt" where
  "qrtr_node_enqueue env p skb type src dst flags =
     do {nd \<leftarrow> node p;
         if n_hello_sent nd = 0 \<and> type \<noteq> QRTR_TYPE_HELLO then ret (Some ENODEV)
         else if n_hello_sent nd \<noteq> 0 \<and> type = QRTR_TYPE_HELLO then ret None
         else
           (case sb_sk skb of
              None \<Rightarrow> send_packet env p skb type src dst (cb_confirm_rx (sb_cb skb))
            | Some sk \<Rightarrow>
                do {r \<leftarrow> qrtr_tx_wait env p dst sk type flags;
                    case r of
                      Inl e \<Rightarrow> ret (Some e)
                    | Inr confirm_rx \<Rightarrow> send_packet env p skb type src dst confirm_rx})}"

end
