(* ===== verification/Qrtr_Socket.thy ===== *)
theory Qrtr_Socket
  imports Qrtr_Router
begin

text \<open>
  The upper half of the IPC router, \<open>net/qrtr/qrtr.c\<close>: what an endpoint calls (register, post, unregister) with the
  work its kernel thread does, and what a user calls on a socket (create, bind, connect, send, receive,
  release).
\<close>

section \<open>Backup buffers\<close>

text \<open>One loop of \<open>qrtr_alloc_backup\<close>: how many buffers a queue has when it had \<open>k\<close> fewer than wanted.\<close>

fun refill_backup :: "qrtr_env \<Rightarrow> nat \<Rightarrow> nat \<Rightarrow> nat rt" where
  "refill_backup env 0 have_n = ret have_n"
| "refill_backup env (Suc k) have_n =
     do {ok \<leftarrow> alloc env; if ok then refill_backup env k (have_n + 1) else ret have_n}"

definition qrtr_alloc_backup :: "qrtr_env \<Rightarrow> unit rt" where
  "qrtr_alloc_backup env =
     do {modify (\<lambda>s. s\<lparr>r_backup_work := False\<rparr>);
         lo \<leftarrow> gets r_backup_lo;
         lo' \<leftarrow> refill_backup env (20 - lo) lo;
         modify (\<lambda>s. s\<lparr>r_backup_lo := lo'\<rparr>);
         hi \<leftarrow> gets r_backup_hi;
         hi' \<leftarrow> refill_backup env (5 - hi) hi;
         modify (\<lambda>s. s\<lparr>r_backup_hi := hi'\<rparr>)}"

definition qrtr_get_backup :: "nat \<Rightarrow> bool rt" where
  "qrtr_get_backup len =
     do {lo \<leftarrow> gets r_backup_lo;
         hi \<leftarrow> gets r_backup_hi;
         if len < 1024 \<and> lo > 0 then do {modify (\<lambda>s. s\<lparr>r_backup_lo := lo - 1, r_backup_work := True\<rparr>); ret True}
         else if 1024 \<le> len \<and> len < 16384 \<and> hi > 0 then
           do {modify (\<lambda>s. s\<lparr>r_backup_hi := hi - 1, r_backup_work := True\<rparr>); ret True}
         else ret False}"

definition qrtr_backup_init :: "unit rt" where
  "qrtr_backup_init = modify (\<lambda>s. s\<lparr>r_backup_lo := 0, r_backup_hi := 0, r_backup_work := True\<rparr>)"

definition qrtr_backup_deinit :: "unit rt" where
  "qrtr_backup_deinit = modify (\<lambda>s. s\<lparr>r_backup_work := False, r_backup_lo := 0, r_backup_hi := 0\<rparr>)"

section \<open>Endpoints\<close>

text \<open>Something done with the lock of the list of endpoints held, for the endpoints on it.\<close>

definition with_epts :: "(node_p list \<Rightarrow> unit rt) \<Rightarrow> unit rt" where
  "with_epts f =
     do {modify (r_epts_lock_update Suc);
         epts \<leftarrow> gets r_epts;
         f epts;
         modify (r_epts_lock_update (\<lambda>n. n - 1))}"

text \<open>Work of the kernel thread of a node, which is busy meanwhile.\<close>

definition kthread_work :: "node_p \<Rightarrow> unit rt \<Rightarrow> unit rt" where
  "kthread_work p work =
     do {upd_node p (n_running_update (\<lambda>_. True)); work; upd_node p (n_running_update (\<lambda>_. False))}"

text \<open>The buffer for a received packet: a new one or a backup.\<close>

definition post_buffer :: "qrtr_env \<Rightarrow> nat \<Rightarrow> bool rt" where
  "post_buffer env len = do {ok \<leftarrow> alloc env; if ok then ret True else qrtr_get_backup len}"

text \<open>The server node of a NEW_SERVER packet is read without a check of the size.\<close>

definition new_server_node :: "qrtr_env \<Rightarrow> u8 list \<Rightarrow> u32" where
  "new_server_node env body = (if length body < 16 then stray env else get32 body 12)"

definition qrtr_endpoint_post :: "qrtr_env \<Rightarrow> node_p \<Rightarrow> u8 list \<Rightarrow> errno option rt" where
  "qrtr_endpoint_post env p data =
     (if data = [] \<or> length data mod 4 \<noteq> 0 then ret (Some EINVAL)
      else do {
        ok \<leftarrow> post_buffer env (length data);
        if \<not> ok then ret (Some ENOMEM)
        else
          (case parse_packet data of
             None \<Rightarrow> ret (Some EINVAL)
           | Some (cb, body, payload) \<Rightarrow>
               do {qrtr_node_assign env p (cb_src_node cb);
                   when_rt (ucast (cb_type cb) = QRTR_TYPE_NEW_SERVER) (qrtr_node_assign env p (new_server_node env body));
                   let skb = \<lparr>sb_data = payload, sb_cb = cb, sb_sk = None\<rparr>;
                   if ucast (cb_type cb) \<noteq> QRTR_TYPE_DATA \<or> cb_dst_node cb \<noteq> local_nid env then
                     do {upd_node p (n_rx_queue_update (\<lambda>q. q @ [skb])); ret None}
                   else do {
                     ipc \<leftarrow> qrtr_port_lookup (cb_dst_port cb);
                     case ipc of
                       None \<Rightarrow> ret (Some ENODEV)
                     | Some i \<Rightarrow>
                         do {rc \<leftarrow> sock_queue_rcv env i skb;
                             if rc \<noteq> None then ret (Some EINVAL)
                             else do {qrtr_port_put i; ret None}}}})})"

definition qrtr_must_forward :: "node_p option \<Rightarrow> node_p option \<Rightarrow> u32 \<Rightarrow> bool rt" where
  "qrtr_must_forward src dst type =
     (case src of
        None \<Rightarrow> ret True
      | Some p \<Rightarrow>
          (case dst of
             None \<Rightarrow> ret False
           | Some q \<Rightarrow>
               if type = QRTR_TYPE_HELLO \<or> type = QRTR_TYPE_RESUME_TX then ret False
               else do {
                 s \<leftarrow> node p;
                 d \<leftarrow> node q;
                 let diff = n_net_id d - n_net_id s;
                 ret (q \<noteq> p \<and> n_nid d \<noteq> QRTR_EP_NID_AUTO \<and> sint (if sint diff < 0 then - diff else diff) > 1)}))"

fun fwd_ctrl_loop :: "qrtr_env \<Rightarrow> node_p \<Rightarrow> sk_buff \<Rightarrow> node_p list \<Rightarrow> unit rt" where
  "fwd_ctrl_loop env src skb [] = ret ()"
| "fwd_ctrl_loop env src skb (p # ps) =
     do {let cb = sb_cb skb;
         fwd \<leftarrow> qrtr_must_forward (Some src) (Some p) (ucast (cb_type cb));
         if \<not> fwd then fwd_ctrl_loop env src skb ps
         else do {
           ok \<leftarrow> alloc env;
           if \<not> ok then ret ()
           else do {
             nd \<leftarrow> node p;
             qrtr_node_enqueue env p skb (ucast (cb_type cb)) \<lparr>sq_node = cb_src_node cb, sq_port = cb_src_port cb\<rparr>
               \<lparr>sq_node = n_nid nd, sq_port = QRTR_PORT_CTRL\<rparr> 0;
             fwd_ctrl_loop env src skb ps}}}"

definition qrtr_fwd_ctrl_pkt :: "qrtr_env \<Rightarrow> node_p \<Rightarrow> sk_buff \<Rightarrow> unit rt" where
  "qrtr_fwd_ctrl_pkt env src skb = with_epts (fwd_ctrl_loop env src skb)"

definition qrtr_fwd_pkt :: "qrtr_env \<Rightarrow> sk_buff \<Rightarrow> unit rt" where
  "qrtr_fwd_pkt env skb =
     (let cb = sb_cb skb
      in do {
        nd \<leftarrow> qrtr_node_lookup (cb_dst_node cb);
        case nd of
          None \<Rightarrow> ret ()
        | Some p \<Rightarrow>
            do {qrtr_node_enqueue env p skb (ucast (cb_type cb)) \<lparr>sq_node = cb_src_node cb, sq_port = cb_src_port cb\<rparr>
                  \<lparr>sq_node = cb_dst_node cb, sq_port = cb_dst_port cb\<rparr> 0;
                qrtr_node_release env (Some p)}})"

definition qrtr_sock_queue_skb :: "qrtr_env \<Rightarrow> node_p \<Rightarrow> sk_buff \<Rightarrow> sock_p \<Rightarrow> unit rt" where
  "qrtr_sock_queue_skb env p skb i =
     do {nd \<leftarrow> node p;
         if ucast (cb_type (sb_cb skb)) = QRTR_TYPE_HELLO \<and> n_hello_rcvd nd \<noteq> 0 then ret ()
         else do {
           when_rt (ucast (cb_type (sb_cb skb)) = QRTR_TYPE_HELLO) (upd_node p (n_hello_rcvd_update Suc));
           sock_queue_rcv env i skb;
           ret ()}}"

text \<open>One turn of \<open>qrtr_node_rx_work\<close>, and the work: the packets that are queued, in their order.\<close>

definition rx_packet :: "qrtr_env \<Rightarrow> node_p \<Rightarrow> sk_buff \<Rightarrow> unit rt" where
  "rx_packet env p skb =
     (let cb = sb_cb skb; type = ucast (cb_type cb)
      in do {
        when_rt (type \<noteq> QRTR_TYPE_DATA) (qrtr_fwd_ctrl_pkt env p skb);
        if type = QRTR_TYPE_RESUME_TX then
          (if cb_dst_node cb \<noteq> local_nid env then qrtr_fwd_pkt env skb else qrtr_tx_resume env p skb)
        else if cb_dst_node cb \<noteq> local_nid env \<and> type = QRTR_TYPE_DATA then qrtr_fwd_pkt env skb
        else do {
          ipc \<leftarrow> qrtr_port_lookup (cb_dst_port cb);
          case ipc of
            None \<Rightarrow> ret ()
          | Some i \<Rightarrow> do {qrtr_sock_queue_skb env p skb i; qrtr_port_put i}}})"

fun rx_loop :: "qrtr_env \<Rightarrow> node_p \<Rightarrow> sk_buff list \<Rightarrow> unit rt" where
  "rx_loop env p [] = ret ()"
| "rx_loop env p (skb # skbs) =
     do {upd_node p (n_rx_queue_update tl); rx_packet env p skb; rx_loop env p skbs}"

definition qrtr_node_rx_work :: "qrtr_env \<Rightarrow> node_p \<Rightarrow> unit rt" where
  "qrtr_node_rx_work env p = do {nd \<leftarrow> node p; rx_loop env p (n_rx_queue nd)}"

definition qrtr_hello_work :: "qrtr_env \<Rightarrow> node_p \<Rightarrow> unit rt" where
  "qrtr_hello_work env p =
     do {ctrl \<leftarrow> qrtr_port_lookup QRTR_PORT_CTRL;
         case ctrl of
           None \<Rightarrow> ret ()
         | Some c \<Rightarrow>
             do {skb \<leftarrow> qrtr_alloc_ctrl_packet env (server_pkt QRTR_TYPE_HELLO 0 0 0 0);
                 case skb of
                   None \<Rightarrow> qrtr_port_put c
                 | Some b \<Rightarrow>
                     do {nd \<leftarrow> node p;
                         qrtr_node_enqueue env p b QRTR_TYPE_HELLO \<lparr>sq_node = local_nid env, sq_port = QRTR_PORT_CTRL\<rparr>
                           \<lparr>sq_node = n_nid nd, sq_port = QRTR_PORT_CTRL\<rparr> 0;
                         qrtr_port_put c}}}"

text \<open>The new node, or an error; its first work is \<open>qrtr_hello_work\<close>. \<open>xmit\<close> says that the endpoint is given and can transmit.\<close>

definition qrtr_endpoint_register :: "qrtr_env \<Rightarrow> bool \<Rightarrow> u32 \<Rightarrow> node_p result rt" where
  "qrtr_endpoint_register env xmit net_id =
     (if \<not> xmit then ret (Inl EINVAL) else
      do {ok \<leftarrow> alloc env;
         if \<not> ok then ret (Inl ENOMEM) else
         do {thread \<leftarrow> alloc env;
         if \<not> thread then ret (Inl ENOMEM)
         else do {
           p \<leftarrow> gets r_next_node;
           modify (\<lambda>s. s\<lparr>r_next_node := p + 1, r_node := xa_store (r_node s) p
             \<lparr>n_ep = True, n_ref = 1, n_nid = QRTR_EP_NID_AUTO, n_net_id = 0, n_hello_sent = 0, n_hello_rcvd = 0,
              n_tx_flow = [], n_rx_queue = [], n_running = False, n_wakes = 0\<rparr>\<rparr>);
           qrtr_node_assign env p QRTR_EP_NID_AUTO;
           upd_node p (n_net_id_update (\<lambda>_. net_id));
           modify (\<lambda>s. s\<lparr>r_epts := p # r_epts s\<rparr>);
           ret (Inr p)}}})"

definition qrtr_notify_bye :: "qrtr_env \<Rightarrow> u32 \<Rightarrow> unit rt" where
  "qrtr_notify_bye env nid =
     do {skb \<leftarrow> qrtr_alloc_ctrl_packet env (server_pkt QRTR_TYPE_BYE 0 0 0 0);
         case skb of
           None \<Rightarrow> ret ()
         | Some b \<Rightarrow>
             do {qrtr_local_enqueue env b \<lparr>sq_node = nid, sq_port = QRTR_PORT_CTRL\<rparr>
                   \<lparr>sq_node = local_nid env, sq_port = QRTR_PORT_CTRL\<rparr>;
                 ret ()}}"

fun fwd_del_proc_loop :: "qrtr_env \<Rightarrow> node_p \<Rightarrow> u32 \<Rightarrow> node_p list \<Rightarrow> unit rt" where
  "fwd_del_proc_loop env src nid [] = ret ()"
| "fwd_del_proc_loop env src nid (p # ps) =
     do {fwd \<leftarrow> qrtr_must_forward (Some src) (Some p) QRTR_TYPE_DEL_PROC;
         if \<not> fwd then fwd_del_proc_loop env src nid ps
         else do {
           skb \<leftarrow> qrtr_alloc_ctrl_packet env (del_proc_pkt nid);
           case skb of
             None \<Rightarrow> ret ()
           | Some b \<Rightarrow>
               do {s \<leftarrow> node src;
                   d \<leftarrow> node p;
                   qrtr_node_enqueue env p b QRTR_TYPE_DEL_PROC \<lparr>sq_node = n_nid s, sq_port = QRTR_PORT_CTRL\<rparr>
                     \<lparr>sq_node = n_nid d, sq_port = QRTR_PORT_CTRL\<rparr> 0;
                   fwd_del_proc_loop env src nid ps}}}"

definition qrtr_fwd_del_proc :: "qrtr_env \<Rightarrow> node_p \<Rightarrow> u32 \<Rightarrow> node_p list \<Rightarrow> unit rt" where
  "qrtr_fwd_del_proc env src nid epts = fwd_del_proc_loop env src nid epts"

fun unregister_loop :: "qrtr_env \<Rightarrow> node_p \<Rightarrow> node_p list \<Rightarrow> (u32 \<times> node_p) list \<Rightarrow> unit rt" where
  "unregister_loop env p epts [] = ret ()"
| "unregister_loop env p epts ((nid, q) # es) =
     do {when_rt (q = p) (do {qrtr_notify_bye env nid; qrtr_fwd_del_proc env p nid epts});
         unregister_loop env p epts es}"

definition qrtr_endpoint_unregister :: "qrtr_env \<Rightarrow> node_p \<Rightarrow> unit rt" where
  "qrtr_endpoint_unregister env p =
     do {upd_node p (n_ep_update (\<lambda>_. False));
         with_epts (\<lambda>epts. do {nodes \<leftarrow> gets r_nodes; unregister_loop env p epts nodes});
         wake_up_all p;
         qrtr_node_release env (Some p)}"

section \<open>Sockets\<close>

fun bcast_loop ::
  "qrtr_env \<Rightarrow> sk_buff \<Rightarrow> u32 \<Rightarrow> sockaddr_qrtr \<Rightarrow> sockaddr_qrtr \<Rightarrow> u32 \<Rightarrow> node_p list \<Rightarrow> unit rt" where
  "bcast_loop env skb type src dst flags [] = ret ()"
| "bcast_loop env skb type src dst flags (p # ps) =
     do {nd \<leftarrow> node p;
         if n_nid nd = QRTR_EP_NID_AUTO \<and> type \<noteq> QRTR_TYPE_HELLO then bcast_loop env skb type src dst flags ps
         else do {
           ok \<leftarrow> alloc env;
           if \<not> ok then ret ()
           else do {qrtr_node_enqueue env p skb type src dst flags; bcast_loop env skb type src dst flags ps}}}"

definition qrtr_bcast_enqueue ::
  "qrtr_env \<Rightarrow> sk_buff \<Rightarrow> u32 \<Rightarrow> sockaddr_qrtr \<Rightarrow> sockaddr_qrtr \<Rightarrow> u32 \<Rightarrow> errno option rt" where
  "qrtr_bcast_enqueue env skb type src dst flags =
     do {with_epts (bcast_loop env skb type src dst flags);
         qrtr_local_enqueue env skb src dst;
         ret None}"

text \<open>A packet to the node a socket has talked to.\<close>

definition del_client_node :: "qrtr_env \<Rightarrow> sk_buff \<Rightarrow> qrtr_sock \<Rightarrow> sockaddr_qrtr \<Rightarrow> unit rt" where
  "del_client_node env b k dst =
     do {nd \<leftarrow> qrtr_node_lookup (s_state k);
         case nd of
           None \<Rightarrow> ret ()
         | Some p \<Rightarrow>
             do {ok \<leftarrow> alloc env;
                 when_rt ok (do {qrtr_node_enqueue env p b QRTR_TYPE_DEL_CLIENT (s_us k) dst 0; ret ()});
                 qrtr_node_release env (Some p)}}"

definition qrtr_send_del_client :: "qrtr_env \<Rightarrow> sock_p \<Rightarrow> unit rt" where
  "qrtr_send_del_client env i =
     do {k \<leftarrow> sock i;
         let dst = \<lparr>sq_node = QRTR_NODE_BCAST, sq_port = QRTR_PORT_CTRL\<rparr>;
         skb \<leftarrow> qrtr_alloc_ctrl_packet env (client_pkt QRTR_TYPE_DEL_CLIENT (sq_node (s_us k)) (sq_port (s_us k)));
         case skb of
           None \<Rightarrow> ret ()
         | Some b0 \<Rightarrow>
             do {let b = b0\<lparr>sb_sk := Some i\<rparr>;
                 if s_state k = QRTR_STATE_MULTI then
                   do {qrtr_bcast_enqueue env b QRTR_TYPE_DEL_CLIENT (s_us k) dst 0; ret ()}
                 else do {
                   when_rt (sint (s_state k) > -1) (del_client_node env b k dst);
                   qrtr_local_enqueue env b (s_us k) dst;
                   ret ()}}}"

definition qrtr_port_remove :: "qrtr_env \<Rightarrow> sock_p \<Rightarrow> unit rt" where
  "qrtr_port_remove env i =
     do {k \<leftarrow> sock i;
         qrtr_send_del_client env i;
         upd_sock i (s_ref_update (\<lambda>n. n - 1));
         modify (\<lambda>s. s\<lparr>r_ports := xa_erase (r_ports s) (port_key (sq_port (s_us k)))\<rparr>)}"

fun reset_hello :: "node_p list \<Rightarrow> unit rt" where
  "reset_hello [] = ret ()"
| "reset_hello (p # ps) =
     do {upd_node p (\<lambda>nd. nd\<lparr>n_hello_sent := 0, n_hello_rcvd := 0\<rparr>); reset_hello ps}"

text \<open>\<open>__qrtr_bind\<close>.\<close>

definition qrtr_do_bind :: "qrtr_env \<Rightarrow> sock_p \<Rightarrow> u32 \<Rightarrow> bool \<Rightarrow> errno option rt" where
  "qrtr_do_bind env i port0 zapped =
     do {k \<leftarrow> sock i;
         if \<not> zapped \<and> port0 = sq_port (s_us k) then ret None
         else do {
           r \<leftarrow> qrtr_port_assign env i port0;
           case r of
             Inl e \<Rightarrow> ret (Some e)
           | Inr port \<Rightarrow>
               do {when_rt (port = QRTR_PORT_CTRL)
                     (do {qrtr_reset_ports; with_epts reset_hello});
                   when_rt (\<not> zapped) (qrtr_port_remove env i);
                   upd_sock i (\<lambda>k. k\<lparr>s_us := (s_us k)\<lparr>sq_port := port\<rparr>, s_zapped := False\<rparr>);
                   ret None}}}"

definition qrtr_autobind :: "qrtr_env \<Rightarrow> sock_p \<Rightarrow> errno option rt" where
  "qrtr_autobind env i =
     do {k \<leftarrow> sock i; if \<not> s_zapped k then ret None else qrtr_do_bind env i 0 True}"

text \<open>An address as the user passes it: its length, its family and its node and port.\<close>

type_synonym user_addr = "nat \<times> u16 \<times> sockaddr_qrtr"

definition bad_addr :: "user_addr \<Rightarrow> bool" where
  "bad_addr a = (fst a < 12 \<or> fst (snd a) \<noteq> AF_QIPCRTR)"

definition qrtr_bind :: "qrtr_env \<Rightarrow> sock_p \<Rightarrow> user_addr \<Rightarrow> errno option rt" where
  "qrtr_bind env i a =
     (if bad_addr a then ret (Some EINVAL)
      else do {
        k \<leftarrow> sock i;
        if sq_node (snd (snd a)) \<noteq> sq_node (s_us k) then ret (Some EINVAL)
        else do {
          lock_sock i;
          k' \<leftarrow> sock i;
          rc \<leftarrow> qrtr_do_bind env i (sq_port (snd (snd a))) (s_zapped k');
          release_sock i;
          ret rc}})"

definition qrtr_connect :: "qrtr_env \<Rightarrow> sock_p \<Rightarrow> user_addr \<Rightarrow> errno option rt" where
  "qrtr_connect env i a =
     (if bad_addr a then ret (Some EINVAL)
      else do {
        lock_sock i;
        upd_sock i (s_established_update (\<lambda>_. False));
        rc \<leftarrow> qrtr_autobind env i;
        when_rt (rc = None) (upd_sock i (\<lambda>k. k\<lparr>s_peer := snd (snd a), s_established := True\<rparr>));
        release_sock i;
        ret rc})"

definition qrtr_getname :: "sock_p \<Rightarrow> bool \<Rightarrow> sockaddr_qrtr result rt" where
  "qrtr_getname i peer =
     do {k \<leftarrow> sock i;
         ret (if \<not> peer then Inr (s_us k) else if s_established k then Inr (s_peer k) else Inl ENOTCONN)}"

datatype ioctl_out = Out_int int | Out_addr sockaddr_qrtr

abbreviation (input) TIOCOUTQ :: u32 where "TIOCOUTQ \<equiv> 0x5411"
abbreviation (input) TIOCINQ :: u32 where "TIOCINQ \<equiv> 0x541b"
abbreviation (input) SIOCGIFADDR :: u32 where "SIOCGIFADDR \<equiv> 0x8915"

text \<open>The requests answered with \<open>EINVAL\<close> are \<open>SIOCADDRT\<close>, \<open>SIOCDELRT\<close> and \<open>SIOCSIFADDR\<close> to \<open>SIOCSIFNETMASK\<close>.\<close>

definition qrtr_ioctl :: "qrtr_env \<Rightarrow> sock_p \<Rightarrow> u32 \<Rightarrow> ioctl_out result rt" where
  "qrtr_ioctl env i c =
     do {k \<leftarrow> sock i;
         n \<leftarrow> tick;
         let user = (\<lambda>v. case copy_rc env n of None \<Rightarrow> Inr v | Some _ \<Rightarrow> Inl EFAULT);
         ret (if c = TIOCOUTQ then user (Out_int (max 0 (sndbuf_left env)))
              else if c = TIOCINQ then
                user (Out_int (case s_queue k of [] \<Rightarrow> 0 | skb # _ \<Rightarrow> int (length (sb_data skb))))
              else if c = SIOCGIFADDR then user (Out_addr (s_us k))
              else if c \<in> set [0x890b, 0x890c, 0x8916, 0x8917, 0x8918, 0x8919, 0x891a, 0x891b, 0x891c] then Inl EINVAL
              else Inl ENOIOCTLCMD)}"

text \<open>\<open>sock_alloc_send_skb\<close> fails with a pending error of the socket, which it clears.\<close>

definition sock_alloc_send :: "qrtr_env \<Rightarrow> sock_p \<Rightarrow> bool rt" where
  "sock_alloc_send env i =
     do {k \<leftarrow> sock i;
         if s_err k then do {upd_sock i (s_err_update (\<lambda>_. False)); ret False} else alloc env}"

datatype enqueue_fn = Bcast | Local | Node node_p

definition node_of :: "enqueue_fn \<Rightarrow> node_p option" where
  "node_of fn = (case fn of Node p \<Rightarrow> Some p | _ \<Rightarrow> None)"

definition run_enqueue ::
  "qrtr_env \<Rightarrow> enqueue_fn \<Rightarrow> sk_buff \<Rightarrow> u32 \<Rightarrow> sockaddr_qrtr \<Rightarrow> sockaddr_qrtr \<Rightarrow> u32 \<Rightarrow> errno option rt" where
  "run_enqueue env fn skb type src dst flags =
     (case fn of
        Bcast \<Rightarrow> qrtr_bcast_enqueue env skb type src dst flags
      | Local \<Rightarrow> qrtr_local_enqueue env skb src dst
      | Node p \<Rightarrow> qrtr_node_enqueue env p skb type src dst flags)"

text \<open>The choice of the function that sends, with the node it sends to.\<close>

definition send_route :: "qrtr_env \<Rightarrow> sock_p \<Rightarrow> sockaddr_qrtr \<Rightarrow> enqueue_fn result rt" where
  "send_route env i dst =
     do {k \<leftarrow> sock i;
         if sq_node dst = QRTR_NODE_BCAST then
           ret (if sq_port dst \<noteq> QRTR_PORT_CTRL \<and> local_nid env \<noteq> QRTR_NODE_BCAST then Inl ENOTCONN else Inr Bcast)
         else if sq_node dst = sq_node (s_us k) then ret (Inr Local)
         else do {
           nd \<leftarrow> qrtr_node_lookup (sq_node dst);
           case nd of
             None \<Rightarrow> ret (Inl ECONNRESET)
           | Some p \<Rightarrow>
               do {d \<leftarrow> node p;
                   (if sint (s_state k) > -1 \<and> s_state k \<noteq> n_nid d then
                      upd_sock i (s_state_update (\<lambda>_. QRTR_STATE_MULTI))
                    else when_rt (s_state k = QRTR_STATE_INIT) (upd_sock i (s_state_update (\<lambda>_. n_nid d))));
                   ret (Inr (Node p))}}}"

text \<open>Whether the announcement of a server may be forwarded to the destination.\<close>

definition forward_check :: "qrtr_env \<Rightarrow> u8 list \<Rightarrow> node_p option \<Rightarrow> bool rt" where
  "forward_check env data dst =
     do {srv \<leftarrow> qrtr_node_lookup (if length data < 20 then stray env else server_node (decode_ctrl data));
         fwd \<leftarrow> qrtr_must_forward srv dst QRTR_TYPE_NEW_SERVER;
         qrtr_node_release env srv;
         ret fwd}"

text \<open>From the allocation of the buffer to the label \<open>out_node\<close>.\<close>

definition send_body ::
  "qrtr_env \<Rightarrow> sock_p \<Rightarrow> enqueue_fn \<Rightarrow> sockaddr_qrtr \<Rightarrow> u32 \<Rightarrow> u8 list \<Rightarrow> nat result rt" where
  "send_body env i fn dst flags data =
     do {ok \<leftarrow> sock_alloc_send env i;
         n \<leftarrow> tick;
         k \<leftarrow> sock i;
         let ctrl = (sq_port (s_us k) = QRTR_PORT_CTRL \<or> sq_port dst = QRTR_PORT_CTRL);
         let type = (if ctrl then get32 data 0 else QRTR_TYPE_DATA);
         if \<not> ok then ret (Inl ENOMEM)
         else if copy_rc env n \<noteq> None then ret (Inl EFAULT)
         else if ctrl \<and> length data < 4 then ret (Inl EINVAL)
         else do {
           let new_server = (sq_port dst = QRTR_PORT_CTRL \<and> type = QRTR_TYPE_NEW_SERVER);
           when_rt new_server (upd_sock i (s_state_update (\<lambda>_. QRTR_STATE_MULTI)));
           fwd \<leftarrow> (if new_server then forward_check env data (node_of fn) else ret True);
           if \<not> fwd then ret (Inr 0)
           else do {
             rc \<leftarrow> run_enqueue env fn \<lparr>sb_data = data, sb_cb = no_cb, sb_sk = Some i\<rparr> type (s_us k) dst flags;
             ret (case rc of None \<Rightarrow> Inr (length data) | Some e \<Rightarrow> Inl e)}}}"

text \<open>The destination: the address given, after an automatic bind, or the peer of a connected socket.\<close>

definition send_addr :: "qrtr_env \<Rightarrow> sock_p \<Rightarrow> user_addr option \<Rightarrow> sockaddr_qrtr result rt" where
  "send_addr env i addr =
     (case addr of
        Some a \<Rightarrow>
          if bad_addr a then ret (Inl EINVAL)
          else do {
            rc \<leftarrow> qrtr_autobind env i;
            ret (case rc of None \<Rightarrow> Inr (snd (snd a)) | Some e \<Rightarrow> Inl e)}
      | None \<Rightarrow> do {k \<leftarrow> sock i; ret (if s_established k then Inr (s_peer k) else Inl ENOTCONN)})"

definition send_locked :: "qrtr_env \<Rightarrow> sock_p \<Rightarrow> user_addr option \<Rightarrow> u32 \<Rightarrow> u8 list \<Rightarrow> nat result rt" where
  "send_locked env i addr flags data =
     do {a \<leftarrow> send_addr env i addr;
         case a of
           Inl e \<Rightarrow> ret (Inl e)
         | Inr dst \<Rightarrow>
             do {route \<leftarrow> send_route env i dst;
                 case route of
                   Inl e \<Rightarrow> ret (Inl e)
                 | Inr fn \<Rightarrow>
                     do {rc \<leftarrow> send_body env i fn dst flags data;
                         qrtr_node_release env (node_of fn);
                         ret rc}}}"

definition qrtr_sendmsg :: "qrtr_env \<Rightarrow> sock_p \<Rightarrow> user_addr option \<Rightarrow> u32 \<Rightarrow> u8 list \<Rightarrow> nat result rt" where
  "qrtr_sendmsg env i addr flags data =
     (if flags AND NOT MSG_DONTWAIT \<noteq> 0 then ret (Inl EINVAL)
      else if length data > 65535 then ret (Inl EMSGSIZE)
      else do {
        lock_sock i;
        rc \<leftarrow> send_locked env i addr flags data;
        release_sock i;
        ret rc})"

definition qrtr_send_resume_tx :: "qrtr_env \<Rightarrow> qrtr_cb \<Rightarrow> errno option rt" where
  "qrtr_send_resume_tx env cb =
     do {nd \<leftarrow> qrtr_node_lookup (cb_src_node cb);
         case nd of
           None \<Rightarrow> ret (Some EINVAL)
         | Some p \<Rightarrow>
             do {skb \<leftarrow> qrtr_alloc_ctrl_packet env (client_pkt QRTR_TYPE_RESUME_TX (cb_dst_node cb) (cb_dst_port cb));
                 case skb of
                   None \<Rightarrow> ret (Some ENOMEM)
                 | Some b \<Rightarrow>
                     do {rc \<leftarrow> qrtr_node_enqueue env p b QRTR_TYPE_RESUME_TX
                           \<lparr>sq_node = cb_dst_node cb, sq_port = cb_dst_port cb\<rparr>
                           \<lparr>sq_node = cb_src_node cb, sq_port = cb_src_port cb\<rparr> 0;
                         qrtr_node_release env (Some p);
                         ret rc}}}"

text \<open>\<open>skb_recv_datagram\<close>: a pending error is reported and cleared, \<open>MSG_PEEK\<close> leaves the packet in the queue.\<close>

definition recv_datagram :: "qrtr_env \<Rightarrow> sock_p \<Rightarrow> u32 \<Rightarrow> sk_buff result rt" where
  "recv_datagram env i flags =
     do {k \<leftarrow> sock i;
         n \<leftarrow> tick;
         if s_err k then do {upd_sock i (s_err_update (\<lambda>_. False)); ret (Inl ENETRESET)}
         else
           (case s_queue k of
              [] \<Rightarrow> ret (Inl (recv_rc env n))
            | skb # q \<Rightarrow> do {when_rt (flags AND MSG_PEEK = 0) (upd_sock i (s_queue_update (\<lambda>_. q))); ret (Inr skb)})}"

text \<open>The bytes received, at most \<open>len\<close>, with the address of the sender.\<close>

definition qrtr_recvmsg :: "qrtr_env \<Rightarrow> sock_p \<Rightarrow> nat \<Rightarrow> u32 \<Rightarrow> (u8 list \<times> sockaddr_qrtr) result rt" where
  "qrtr_recvmsg env i len flags =
     do {k \<leftarrow> sock i;
         if s_zapped k then ret (Inl EADDRNOTAVAIL)
         else do {
           r \<leftarrow> recv_datagram env i flags;
           case r of
             Inl e \<Rightarrow> ret (Inl e)
           | Inr skb \<Rightarrow>
               do {let cb = sb_cb skb;
                   lock_sock i;
                   n \<leftarrow> tick;
                   when_rt (cb_confirm_rx cb) (do {qrtr_send_resume_tx env cb; ret ()});
                   release_sock i;
                   ret (case copy_rc env n of
                          Some e \<Rightarrow> Inl e
                        | None \<Rightarrow> Inr (take len (sb_data skb), \<lparr>sq_node = cb_src_node cb, sq_port = cb_src_port cb\<rparr>))}}}"

definition qrtr_release :: "qrtr_env \<Rightarrow> sock_p \<Rightarrow> unit rt" where
  "qrtr_release env i =
     do {lock_sock i;
         k \<leftarrow> sock i;
         upd_sock i (s_open_update (\<lambda>_. False));
         when_rt (\<not> s_zapped k) (qrtr_port_remove env i);
         upd_sock i (s_queue_update (\<lambda>_. []));
         release_sock i;
         sock_put i}"

definition qrtr_create :: "qrtr_env \<Rightarrow> bool \<Rightarrow> sock_p result rt" where
  "qrtr_create env dgram =
     (if \<not> dgram then ret (Inl EPROTOTYPE)
      else do {
        ok \<leftarrow> alloc env;
        if \<not> ok then ret (Inl ENOMEM)
        else do {
          i \<leftarrow> gets r_next_sock;
          modify (\<lambda>s. s\<lparr>r_next_sock := i + 1, r_sock := xa_store (r_sock s) i
            \<lparr>s_us = \<lparr>sq_node = local_nid env, sq_port = 0\<rparr>, s_peer = \<lparr>sq_node = 0, sq_port = 0\<rparr>, s_state = QRTR_STATE_INIT,
             s_err = False, s_zapped = True, s_established = False, s_queue = [], s_ref = 1, s_open = True, s_locked = False\<rparr>\<rparr>);
          ret (Inr i)}})"

text \<open>The router before any endpoint or socket exists.\<close>

definition router_init :: router where
  "router_init =
     \<lparr>r_nodes = [], r_epts = [], r_epts_lock = 0, r_ports = [], r_port_next = 0, r_backup_lo = 0, r_backup_hi = 0,
      r_backup_work = True, r_node = [], r_sock = [], r_next_node = 0, r_next_sock = 0, r_xmits = [], r_bad = False, r_tick = 0\<rparr>"

end
