(* ===== verification/State_Hoare.thy ===== *)
theory State_Hoare
  imports "HOL-Library.State_Monad"
begin

text \<open>
  Hoare triples for computations in the state monad: started in a state with \<open>P\<close>, the computation ends with a
  result and a state related by \<open>Q\<close>. The rules of \<open>hoare_rules\<close> follow the shape of the program.
\<close>

definition hoare :: "('s \<Rightarrow> bool) \<Rightarrow> ('s, 'a) state \<Rightarrow> ('a \<Rightarrow> 's \<Rightarrow> bool) \<Rightarrow> bool" where
  "hoare P f Q \<longleftrightarrow> (\<forall>s. P s \<longrightarrow> (case run_state f s of (a, s') \<Rightarrow> Q a s'))"

named_theorems hoare_rules \<open>rules that follow the shape of a program\<close>

lemma hoareI: "(\<And>s a s'. P s \<Longrightarrow> run_state f s = (a, s') \<Longrightarrow> Q a s') \<Longrightarrow> hoare P f Q"
  by (auto simp: hoare_def split: prod.splits)

lemma hoareD: "hoare P f Q \<Longrightarrow> P s \<Longrightarrow> run_state f s = (a, s') \<Longrightarrow> Q a s'"
  by (fastforce simp: hoare_def)

lemma hoare_pre: "hoare P f Q \<Longrightarrow> (\<And>s. P' s \<Longrightarrow> P s) \<Longrightarrow> hoare P' f Q"
  by (auto simp: hoare_def)

lemma hoare_post: "hoare P f Q \<Longrightarrow> (\<And>a s. Q a s \<Longrightarrow> Q' a s) \<Longrightarrow> hoare P f Q'"
  by (fastforce simp: hoare_def)

lemma hoare_return: "(\<And>s. P s \<Longrightarrow> Q a s) \<Longrightarrow> hoare P (State_Monad.return a) Q"
  by (simp add: hoare_def State_Monad.return_def)

lemma hoare_bind: "hoare P f R \<Longrightarrow> (\<And>a. hoare (R a) (g a) Q) \<Longrightarrow> hoare P (State_Monad.bind f g) Q"
  by (fastforce simp: hoare_def State_Monad.bind_def split: prod.splits)

lemma hoare_discard: "hoare P f (\<lambda>_. Q) \<Longrightarrow> hoare P (State_Monad.bind f (\<lambda>_. State_Monad.return a)) (\<lambda>_. Q)"
  by (rule hoare_bind, assumption, rule hoare_return)

lemma hoare_if: "(b \<Longrightarrow> hoare P f Q) \<Longrightarrow> (\<not> b \<Longrightarrow> hoare P g Q) \<Longrightarrow> hoare P (if b then f else g) Q"
  by simp

lemma hoare_option:
  "(x = None \<Longrightarrow> hoare P f Q) \<Longrightarrow> (\<And>a. x = Some a \<Longrightarrow> hoare P (g a) Q) \<Longrightarrow>
   hoare P (case x of None \<Rightarrow> f | Some a \<Rightarrow> g a) Q"
  by (cases x) simp_all

lemma hoare_sum:
  "(\<And>e. x = Inl e \<Longrightarrow> hoare P (f e) Q) \<Longrightarrow> (\<And>a. x = Inr a \<Longrightarrow> hoare P (g a) Q) \<Longrightarrow>
   hoare P (case x of Inl e \<Rightarrow> f e | Inr a \<Rightarrow> g a) Q"
  by (cases x) simp_all

lemma hoare_imp: "(b \<Longrightarrow> hoare P f Q) \<Longrightarrow> hoare (\<lambda>s. b \<and> P s) f Q"
  by (auto simp: hoare_def)

lemma hoare_conj: "hoare P f Q \<Longrightarrow> hoare P' f Q' \<Longrightarrow> hoare (\<lambda>s. P s \<and> P' s) f (\<lambda>a s. Q a s \<and> Q' a s)"
  by (fastforce simp: hoare_def)

lemma run_state_bind [simp]: "run_state (State_Monad.bind f g) s = (case run_state f s of (a, s') \<Rightarrow> run_state (g a) s')"
  by (simp add: State_Monad.bind_def)

lemma run_state_return [simp]: "run_state (State_Monad.return a) s = (a, s)"
  by (simp add: State_Monad.return_def)

text \<open>A part of the state that a computation leaves alone.\<close>

definition keeps :: "('s \<Rightarrow> 'b) \<Rightarrow> ('s, 'a) state \<Rightarrow> bool" where
  "keeps F f \<longleftrightarrow> (\<forall>s. F (snd (run_state f s)) = F s)"

named_theorems keeps_rules \<open>computations that leave a part of the state alone\<close>

lemma keeps_bind [keeps_rules]: "keeps F f \<Longrightarrow> (\<And>a. keeps F (g a)) \<Longrightarrow> keeps F (State_Monad.bind f g)"
  by (simp add: keeps_def split: prod.split) (metis snd_conv)

lemma keeps_return [keeps_rules]: "keeps F (State_Monad.return a)"
  by (simp add: keeps_def)

lemma keeps_if [keeps_rules]: "keeps F f \<Longrightarrow> keeps F g \<Longrightarrow> keeps F (if b then f else g)"
  by simp

lemma keeps_option [keeps_rules]: "keeps F f \<Longrightarrow> (\<And>a. keeps F (g a)) \<Longrightarrow> keeps F (case x of None \<Rightarrow> f | Some a \<Rightarrow> g a)"
  by (cases x) simp_all

lemma keeps_sum [keeps_rules]: "(\<And>e. keeps F (f e)) \<Longrightarrow> (\<And>a. keeps F (g a)) \<Longrightarrow> keeps F (case x of Inl e \<Rightarrow> f e | Inr a \<Rightarrow> g a)"
  by (cases x) simp_all

lemma hoare_keeps:
  "hoare P f Q \<Longrightarrow> keeps F f \<Longrightarrow> hoare (\<lambda>s. P s \<and> R (F s)) f (\<lambda>a s. Q a s \<and> R (F s))"
  by (auto simp: hoare_def keeps_def split: prod.split) (metis snd_conv)

end
