(* ===== verification/Qrtr_Refs.thy ===== *)
theory Qrtr_Refs
  imports Qrtr_Socket State_Hoare "HOL-Library.Multiset"
begin

text \<open>
  Reference counting in the IPC router: the invariant that no node and no socket is freed while something still
  points to it, and that every operation of the lower half keeps it.
\<close>

section \<open>Sums over the values of a container\<close>

definition vals_sum :: "('v \<Rightarrow> 'a::comm_monoid_add) \<Rightarrow> ('k, 'v) xarray \<Rightarrow> 'a" where
  "vals_sum w m = sum_list (map w (xa_values m))"

lemma vals_sum_Nil [simp]: "vals_sum w [] = 0"
  and vals_sum_Cons [simp]: "vals_sum w ((i, v) # m) = w v + vals_sum w m"
  by (simp_all add: vals_sum_def xa_values_def)

lemma vals_sum_store:
  "xa_inv m \<Longrightarrow> xa_load m i = Some v \<Longrightarrow> vals_sum w (xa_store m i v') + w v = vals_sum w m + w v'"
proof (induction m i v' rule: xa_store.induct)
  case (2 j u m i v')
  then have "i < j \<Longrightarrow> xa_load m i = None" by (intro xa_load_less) (auto simp: xa_inv_Cons)
  then show ?case using 2 by (auto simp: xa_inv_Cons ac_simps split: if_splits)
qed simp

lemma vals_sum_store_new: "xa_load m i = None \<Longrightarrow> vals_sum w (xa_store m i v) = vals_sum w m + w v"
  by (induction m i v rule: xa_store.induct) (auto simp: ac_simps split: if_splits)

lemma vals_sum_erase: "xa_load m i = Some v \<Longrightarrow> vals_sum w (xa_erase m i) + w v = vals_sum w m"
  by (induction m i rule: xa_erase.induct) (auto simp: ac_simps split: if_splits)

lemma vals_sum_mem: "xa_load m i = Some v \<Longrightarrow> x \<in># w v \<Longrightarrow> x \<in># vals_sum w m"
  by (induction m) (auto split: if_splits)

lemma xa_erase_None: "xa_load m i = None \<Longrightarrow> xa_erase m i = m"
  by (induction m i rule: xa_erase.induct) (auto split: if_splits)

section \<open>The invariant\<close>

text \<open>
  What running code holds on to: references to sockets and nodes, sockets it has locked and those among them it
  is closing, nodes on the list of endpoints while the lock of the list is held, nodes whose worker is running,
  nodes whose endpoint is calling, nodes it is freeing, flows it works on, sockets whose binding is being
  changed, ports known to belong to a socket that is locked, and the port and binding of such a socket.
\<close>

record grip =
  g_hs :: "sock_p multiset"
  g_hn :: "node_p multiset"
  g_lk :: "sock_p set"
  g_ns :: "node_p set"
  g_ws :: "node_p set"
  g_ep :: "node_p set"
  g_ds :: "node_p set"
  g_fs :: "(node_p \<times> u64) set"
  g_cs :: "sock_p set"
  g_xs :: "sock_p set"
  g_ps :: "(int \<times> sock_p) set"
  g_us :: "(sock_p \<times> u32 \<times> bool) set"

definition no_grip :: grip where
  "no_grip = \<lparr>g_hs = {#}, g_hn = {#}, g_lk = {}, g_ns = {}, g_ws = {}, g_ep = {}, g_ds = {}, g_fs = {}, g_cs = {}, g_xs = {}, g_ps = {},
     g_us = {}\<rparr>"

definition pinned :: "grip \<Rightarrow> node_p set" where
  "pinned g = set_mset (g_hn g) \<union> g_ns g \<union> g_ws g \<union> g_ep g"

lemma pinned_update [simp]:
  "pinned (g\<lparr>g_hs := hs\<rparr>) = pinned g" "pinned (g\<lparr>g_lk := lk\<rparr>) = pinned g" "pinned (g\<lparr>g_ds := ds\<rparr>) = pinned g"
  "pinned (g\<lparr>g_fs := fs\<rparr>) = pinned g" "pinned (g\<lparr>g_cs := cs\<rparr>) = pinned g" "pinned (g\<lparr>g_xs := xs\<rparr>) = pinned g"
  "pinned (g\<lparr>g_ps := ps\<rparr>) = pinned g" "pinned (g\<lparr>g_us := us\<rparr>) = pinned g"
  by (simp_all add: pinned_def)

definition flow_waits :: "qrtr_tx_flow \<Rightarrow> sock_p multiset" where
  "flow_waits fl = mset (fl_waiters fl)"

definition node_waits :: "qrtr_node \<Rightarrow> sock_p multiset" where
  "node_waits nd = vals_sum flow_waits (n_tx_flow nd)"

text \<open>Everything that counts as a reference to a socket: its ports, the waiters and what running code holds.\<close>

definition uses :: "grip \<Rightarrow> router \<Rightarrow> sock_p multiset" where
  "uses g s = vals_sum (\<lambda>i. {#i#}) (r_ports s) + vals_sum node_waits (r_node s) + g_hs g"

definition node_wf :: "qrtr_node \<Rightarrow> bool" where
  "node_wf nd \<longleftrightarrow> xa_inv (n_tx_flow nd) \<and> (\<forall>fl \<in> set (xa_values (n_tx_flow nd)). fl_pending fl \<le> QRTR_TX_FLOW_HIGH) \<and>
     (\<forall>skb \<in> set (n_rx_queue nd). sb_sk skb = None)"

definition shape :: "router \<Rightarrow> bool" where
  "shape s \<longleftrightarrow> \<not> r_bad s \<and> xa_inv (r_nodes s) \<and> xa_inv (r_ports s) \<and> xa_inv (r_node s) \<and> xa_inv (r_sock s) \<and> distinct (r_epts s) \<and> 0 \<le> r_port_next s \<and>
     (\<forall>p. r_next_node s \<le> p \<longrightarrow> xa_load (r_node s) p = None) \<and> (\<forall>i. r_next_sock s \<le> i \<longrightarrow> xa_load (r_sock s) i = None)"

text \<open>A user of a socket, and the endpoint of a node, count as one more reference.\<close>

definition one_if :: "bool \<Rightarrow> nat" where
  "one_if b = (if b then 1 else 0)"

lemma one_if_simps [simp]: "one_if True = 1" "one_if False = 0"
  by (simp_all add: one_if_def)

definition sock_ok :: "grip \<Rightarrow> router \<Rightarrow> bool" where
  "sock_ok g s \<longleftrightarrow>
     (\<forall>i. xa_load (r_sock s) i = None \<longrightarrow> count (uses g s) i = 0) \<and>
     (\<forall>i k. xa_load (r_sock s) i = Some k \<longrightarrow> count (uses g s) i + one_if (s_open k) \<le> s_ref k)"

definition listed :: "router \<Rightarrow> node_p \<Rightarrow> bool" where
  "listed s p \<longleftrightarrow> p \<in> set (r_epts s) \<or> p \<in> snd ` set (r_nodes s)"

definition node_ok :: "grip \<Rightarrow> router \<Rightarrow> bool" where
  "node_ok g s \<longleftrightarrow>
     (\<forall>p. xa_load (r_node s) p = None \<longrightarrow> \<not> listed s p \<and> count (g_hn g) p = 0) \<and>
     (\<forall>p nd. xa_load (r_node s) p = Some nd \<longrightarrow> node_wf nd \<and> count (g_hn g) p + one_if (n_ep nd) \<le> n_ref nd \<and>
        (p \<in> snd ` set (r_nodes s) \<longrightarrow> n_nid nd \<noteq> QRTR_EP_NID_AUTO))"

text \<open>A bound socket is found at its port.\<close>

definition bound_ok :: "grip \<Rightarrow> router \<Rightarrow> bool" where
  "bound_ok g s \<longleftrightarrow> (\<forall>i k. xa_load (r_sock s) i = Some k \<and> \<not> s_zapped k \<and> s_open k \<and> i \<notin> g_xs g \<longrightarrow>
     xa_load (r_ports s) (port_key (sq_port (s_us k))) = Some i)"

definition grip_ok :: "grip \<Rightarrow> router \<Rightarrow> bool" where
  "grip_ok g s \<longleftrightarrow>
     (\<forall>i \<in> g_lk g. \<exists>k. xa_load (r_sock s) i = Some k \<and> s_locked k \<and> (s_open k \<longleftrightarrow> i \<notin> g_cs g)) \<and>
     (\<forall>p \<in> g_ns g. p \<in> set (r_epts s) \<and> r_epts_lock s > 0) \<and>
     (\<forall>p \<in> g_ws g. \<exists>nd. xa_load (r_node s) p = Some nd \<and> n_running nd \<and> n_ep nd) \<and>
     (\<forall>p \<in> g_ep g. \<exists>nd. xa_load (r_node s) p = Some nd \<and> n_ep nd) \<and>
     (\<forall>p \<in> g_ds g. \<not> listed s p \<and> (\<exists>nd. xa_load (r_node s) p = Some nd \<and> n_ref nd = 0 \<and> n_tx_flow nd = [])) \<and>
     (\<forall>p key. (p, key) \<in> g_fs g \<longrightarrow>
        p \<in> pinned g \<and> (\<exists>nd fl. xa_load (r_node s) p = Some nd \<and> xa_load (n_tx_flow nd) key = Some fl)) \<and>
     (\<forall>port i. (port, i) \<in> g_ps g \<longrightarrow> i \<in> g_lk g \<and> xa_load (r_ports s) port = Some i) \<and>
     (\<forall>i port z. (i, port, z) \<in> g_us g \<longrightarrow>
        i \<in> g_lk g \<and> (\<exists>k. xa_load (r_sock s) i = Some k \<and> sq_port (s_us k) = port \<and> s_zapped k = z)) \<and>
     g_xs g \<subseteq> g_lk g \<and> g_cs g \<subseteq> set_mset (g_hs g)"

definition rinv :: "grip \<Rightarrow> router \<Rightarrow> bool" where
  "rinv g s \<longleftrightarrow> shape s \<and> sock_ok g s \<and> node_ok g s \<and> bound_ok g s \<and> grip_ok g s"

lemmas rinv_defs = rinv_def shape_def sock_ok_def node_ok_def bound_ok_def grip_ok_def listed_def

text \<open>What the other threads do while this one waits keeps the invariant for whatever is held.\<close>

definition calm :: "(router \<Rightarrow> router) \<Rightarrow> bool" where
  "calm f \<longleftrightarrow> (\<forall>g s. rinv g s \<and> g_ep g = {} \<longrightarrow> rinv g (f s))"

definition calm_env :: "qrtr_env \<Rightarrow> bool" where
  "calm_env env \<longleftrightarrow> (\<forall>n. calm (flush_rc env n) \<and> (\<forall>(t, look, f) \<in> set (wait_rc env n). calm f))"

lemma rinv_init: "rinv no_grip router_init"
  by (simp add: rinv_defs no_grip_def router_init_def uses_def)

lemma pinned_alive: "rinv g s \<Longrightarrow> p \<in> pinned g \<Longrightarrow> \<exists>nd. xa_load (r_node s) p = Some nd"
  by (cases "xa_load (r_node s) p") (auto simp: pinned_def rinv_def node_ok_def grip_ok_def listed_def count_eq_zero_iff)

lemma listed_alive: "rinv g s \<Longrightarrow> listed s p \<Longrightarrow> \<exists>nd. xa_load (r_node s) p = Some nd"
  by (cases "xa_load (r_node s) p") (auto simp: rinv_def node_ok_def)

lemma used_alive: "rinv g s \<Longrightarrow> i \<in># uses g s \<Longrightarrow> \<exists>k. xa_load (r_sock s) i = Some k"
  by (cases "xa_load (r_sock s) i") (auto simp: rinv_def sock_ok_def count_eq_zero_iff)

lemma sock_refs: "rinv g s \<Longrightarrow> xa_load (r_sock s) i = Some k \<Longrightarrow> count (uses g s) i + one_if (s_open k) \<le> s_ref k"
  by (simp add: rinv_def sock_ok_def)

lemma node_refs: "rinv g s \<Longrightarrow> xa_load (r_node s) p = Some nd \<Longrightarrow> count (g_hn g) p + one_if (n_ep nd) \<le> n_ref nd"
  and node_wf_rinv: "rinv g s \<Longrightarrow> xa_load (r_node s) p = Some nd \<Longrightarrow> node_wf nd"
  by (simp_all add: rinv_def node_ok_def)

lemma locked_alive: "rinv g s \<Longrightarrow> i \<in> g_lk g \<Longrightarrow> \<exists>k. xa_load (r_sock s) i = Some k"
  by (auto simp: rinv_def grip_ok_def)

text \<open>The fields the invariant does not look at.\<close>

lemma rinv_frame:
  assumes "r_bad s' = r_bad s" "r_nodes s' = r_nodes s" "r_epts s' = r_epts s" "r_epts_lock s' = r_epts_lock s"
    "r_ports s' = r_ports s" "r_node s' = r_node s" "r_sock s' = r_sock s" "r_next_node s' = r_next_node s"
    "r_next_sock s' = r_next_sock s"
    "0 \<le> r_port_next s' \<longleftrightarrow> 0 \<le> r_port_next s"
  shows "rinv g s' = rinv g s"
proof -
  have "uses g s' = uses g s" "listed s' = listed s" using assms by (simp_all add: uses_def listed_def fun_eq_iff)
  then show ?thesis using assms by (simp only: rinv_def shape_def sock_ok_def node_ok_def bound_ok_def grip_ok_def)
qed

lemma rinv_other_fields [simp]:
  "rinv g (s\<lparr>r_tick := n\<rparr>) = rinv g s" "rinv g (s\<lparr>r_xmits := xs\<rparr>) = rinv g s"
  "rinv g (s\<lparr>r_backup_lo := k\<rparr>) = rinv g s" "rinv g (s\<lparr>r_backup_hi := k\<rparr>) = rinv g s" "rinv g (s\<lparr>r_backup_work := b\<rparr>) = rinv g s"
  by (rule rinv_frame; simp)+

section \<open>Rules for the primitives\<close>

lemma hoare_modify: "(\<And>s. P s \<Longrightarrow> Q () (f s)) \<Longrightarrow> hoare P (modify f) Q"
  by (simp add: hoare_def modify_def)

lemma hoare_gets: "(\<And>s. P s \<Longrightarrow> Q (f s) s) \<Longrightarrow> hoare P (gets f) Q"
  by (simp add: hoare_def gets_def)

lemma hoare_when: "(b \<Longrightarrow> hoare P f Q) \<Longrightarrow> (\<And>s. \<not> b \<Longrightarrow> P s \<Longrightarrow> Q () s) \<Longrightarrow> hoare P (when_rt b f) Q"
  by (auto simp: when_rt_def intro: hoare_return)

lemma tick_rinv: "hoare (rinv g) tick (\<lambda>_. rinv g)"
  by (simp add: hoare_def tick_def)

lemma alloc_rinv: "hoare (rinv g) (alloc env) (\<lambda>_. rinv g)"
  unfolding alloc_def by (rule hoare_bind, rule tick_rinv, rule hoare_return)

lemma alloc_ctrl_rinv:
  "hoare (rinv g) (qrtr_alloc_ctrl_packet env pkt) (\<lambda>r s. rinv g s \<and> (\<forall>b. r = Some b \<longrightarrow> sb_sk b = None))"
  unfolding qrtr_alloc_ctrl_packet_def by (rule hoare_bind, rule alloc_rinv, rule hoare_return) auto

section \<open>Sockets\<close>

text \<open>A change of a socket with the new references \<open>hs\<close> held.\<close>

lemma rinv_sock_store:
  assumes "rinv g s" "xa_load (r_sock s) i = Some k" "s_us k' = s_us k" "s_zapped k' = s_zapped k" "s_locked k' = s_locked k"
    and "s_open k' = s_open k" "\<And>j. j \<noteq> i \<Longrightarrow> count hs j = count (g_hs g) j" "g_cs g \<subseteq> set_mset hs"
    and "count hs i + s_ref k \<le> count (g_hs g) i + s_ref k'"
  shows "rinv (g\<lparr>g_hs := hs\<rparr>) (s\<lparr>r_sock := xa_store (r_sock s) i k'\<rparr>)"
proof -
  let ?s = "s\<lparr>r_sock := xa_store (r_sock s) i k'\<rparr>" and ?g = "g\<lparr>g_hs := hs\<rparr>"
  have "count (uses ?g ?s) j + count (g_hs g) j = count (uses g s) j + count hs j" for j by (simp add: uses_def)
  then have u: "count (uses ?g ?s) j = count (uses g s) j" if "j \<noteq> i" for j using assms(7)[OF that] by (metis add_right_cancel)
  have ui: "count (uses ?g ?s) i + count (g_hs g) i = count (uses g s) i + count hs i" by (simp add: uses_def)
  have "count (uses g s) i + one_if (s_open k) \<le> s_ref k" using assms(1,2) by (simp add: rinv_def sock_ok_def)
  then have "count (uses ?g ?s) i + one_if (s_open k') \<le> s_ref k'" using ui assms(9) unfolding assms(6) by linarith
  then have "sock_ok ?g ?s" using assms(1,2) u by (auto simp: rinv_def sock_ok_def xa_load_store)
  moreover have "shape ?s" using assms(1,2) by (auto simp: rinv_def shape_def xa_inv_store xa_load_store)
  moreover have "bound_ok ?g ?s" using assms(1-6) by (auto simp: rinv_def bound_ok_def xa_load_store)
  moreover have "grip_ok ?g ?s"
  proof -
    have g: "grip_ok g s" using assms(1) by (simp add: rinv_def)
    have "\<exists>k. xa_load (r_sock ?s) j = Some k \<and> s_locked k \<and> (s_open k \<longleftrightarrow> j \<notin> g_cs g)" if "j \<in> g_lk g" for j
      using g assms(2,5,6) that by (cases "j = i") (auto simp: grip_ok_def xa_load_store)
    moreover have "\<exists>k. xa_load (r_sock ?s) j = Some k \<and> sq_port (s_us k) = port \<and> s_zapped k = z" if "(j, port, z) \<in> g_us g" for j port z
      using g assms(2,3,4) that by (cases "j = i") (fastforce simp: grip_ok_def xa_load_store)+
    moreover have "listed ?s = listed s" by (simp add: listed_def fun_eq_iff)
    ultimately show ?thesis using g assms(8) by (simp add: grip_ok_def pinned_def)
  qed
  moreover have "node_ok ?g ?s" using assms(1) by (simp add: rinv_def node_ok_def listed_def)
  ultimately show ?thesis by (simp add: rinv_def)
qed

text \<open>What the invariant says about the grip alone.\<close>

lemma rinv_grip: "rinv g s \<Longrightarrow> g_cs g \<subseteq> set_mset (g_hs g) \<and> g_xs g \<subseteq> g_lk g"
  by (simp add: rinv_def grip_ok_def)

lemma hoare_grip: "(g_cs g \<subseteq> set_mset (g_hs g) \<Longrightarrow> hoare (rinv g) f Q) \<Longrightarrow> hoare (rinv g) f Q"
  using rinv_grip by (fastforce simp: hoare_def)

lemma hoare_upd_sock:
  assumes "\<And>s. P s \<Longrightarrow> \<exists>k. xa_load (r_sock s) i = Some k \<and> Q () (s\<lparr>r_sock := xa_store (r_sock s) i (f k)\<rparr>)"
  shows "hoare P (upd_sock i f) Q"
proof (rule hoareI)
  fix s a s' assume "P s" "run_state (upd_sock i f) s = (a, s')"
  then show "Q a s'" using assms[of s] by (auto simp: upd_sock_def modify_def)
qed

lemma hoare_sock:
  assumes "\<And>s. P s \<Longrightarrow> \<exists>k. xa_load (r_sock s) i = Some k" "\<And>s k. P s \<Longrightarrow> xa_load (r_sock s) i = Some k \<Longrightarrow> Q k s"
  shows "hoare P (sock i) Q"
proof (rule hoareI)
  fix s a s' assume "P s" "run_state (sock i) s = (a, s')"
  then show "Q a s'" using assms[of s] by (auto simp: sock_def)
qed

text \<open>A change that leaves references, binding and lock alone.\<close>

definition quiet :: "(qrtr_sock \<Rightarrow> qrtr_sock) \<Rightarrow> bool" where
  "quiet f \<longleftrightarrow> (\<forall>k. s_us (f k) = s_us k \<and> s_zapped (f k) = s_zapped k \<and> s_locked (f k) = s_locked k \<and> s_open (f k) = s_open k \<and>
     s_ref (f k) = s_ref k)"

lemma quiet_upd:
  assumes "quiet f" "\<And>s. P s \<Longrightarrow> rinv g s \<and> (\<exists>k. xa_load (r_sock s) i = Some k)"
  shows "hoare P (upd_sock i f) (\<lambda>_. rinv g)"
proof (rule hoare_upd_sock)
  fix s assume "P s"
  then obtain k where k: "xa_load (r_sock s) i = Some k" "rinv g s" using assms(2) by blast
  have "rinv (g\<lparr>g_hs := g_hs g\<rparr>) (s\<lparr>r_sock := xa_store (r_sock s) i (f k)\<rparr>)"
    by (rule rinv_sock_store[OF k(2,1)]) (use assms(1) rinv_grip[OF k(2)] in \<open>simp_all add: quiet_def\<close>)
  then show "\<exists>k. xa_load (r_sock s) i = Some k \<and> rinv g (s\<lparr>r_sock := xa_store (r_sock s) i (f k)\<rparr>)" using k by auto
qed

lemma hoare_sock_hold:
  assumes "\<And>s. P s \<Longrightarrow> rinv g s \<and> (\<exists>k. xa_load (r_sock s) i = Some k)"
  shows "hoare P (sock_hold i) (\<lambda>_. rinv (g\<lparr>g_hs := add_mset i (g_hs g)\<rparr>))"
  unfolding sock_hold_def
proof (rule hoare_upd_sock)
  fix s assume "P s"
  then obtain k where k: "xa_load (r_sock s) i = Some k" "rinv g s" using assms by blast
  have "rinv (g\<lparr>g_hs := add_mset i (g_hs g)\<rparr>) (s\<lparr>r_sock := xa_store (r_sock s) i (s_ref_update Suc k)\<rparr>)"
    by (rule rinv_sock_store[OF k(2,1)]) (use rinv_grip[OF k(2)] in auto)
  then show "\<exists>k. xa_load (r_sock s) i = Some k \<and>
      rinv (g\<lparr>g_hs := add_mset i (g_hs g)\<rparr>) (s\<lparr>r_sock := xa_store (r_sock s) i (s_ref_update Suc k)\<rparr>)" using k by auto
qed

lemma rinv_sock_free:
  assumes r: "rinv (g\<lparr>g_hs := add_mset i (g_hs g)\<rparr>) s" and k: "xa_load (r_sock s) i = Some k" "s_ref k \<le> 1"
    and c: "g_cs g \<subseteq> set_mset (g_hs g)"
  shows "rinv g (s\<lparr>r_sock := xa_erase (r_sock s) i\<rparr>)"
proof -
  let ?s = "s\<lparr>r_sock := xa_erase (r_sock s) i\<rparr>" and ?g = "g\<lparr>g_hs := add_mset i (g_hs g)\<rparr>"
  have x: "xa_inv (r_sock s)" using r by (simp add: rinv_def shape_def)
  have u: "uses ?g s = add_mset i (uses g ?s)" by (simp add: uses_def)
  then have z: "count (uses g ?s) i = 0" "\<not> s_open k" using sock_refs[OF r k(1)] k(2) by (simp_all add: one_if_def split: if_splits)
  then have "i \<notin># g_hs g" by (simp add: uses_def not_in_iff)
  then have l: "i \<notin> g_lk g" using r c k(1) z(2) by (auto simp: rinv_def grip_ok_def)
  have "sock_ok g ?s" using r z x by (auto simp: rinv_def sock_ok_def xa_load_erase u count_eq_zero_iff split: if_splits)
  moreover have "shape ?s" using r x by (auto simp: rinv_def shape_def xa_inv_erase xa_load_erase)
  moreover have "bound_ok g ?s" using r x by (auto simp: rinv_def bound_ok_def xa_load_erase split: if_splits)
  moreover have "grip_ok g ?s" using r l c x by (auto simp: rinv_def grip_ok_def xa_load_erase pinned_def listed_def)
  moreover have "node_ok g ?s" using r by (simp add: rinv_def node_ok_def listed_def)
  ultimately show ?thesis by (simp add: rinv_def)
qed

lemma hoare_sock_put:
  assumes c: "g_cs g \<subseteq> set_mset (g_hs g)"
  shows "hoare (rinv (g\<lparr>g_hs := add_mset i (g_hs g)\<rparr>)) (sock_put i) (\<lambda>_. rinv g)"
  unfolding sock_put_def
proof (rule hoare_bind)
  let ?g = "g\<lparr>g_hs := add_mset i (g_hs g)\<rparr>"
  have i: "i \<in># uses ?g s" for s by (simp add: uses_def)
  show "hoare (rinv ?g) (sock i) (\<lambda>k s. rinv ?g s \<and> xa_load (r_sock s) i = Some k)"
    by (rule hoare_sock, rule used_alive[OF _ i], assumption, simp)
  fix k
  show "hoare (\<lambda>s. rinv ?g s \<and> xa_load (r_sock s) i = Some k)
    (if s_ref k \<le> 1 then modify (\<lambda>s. s\<lparr>r_sock := xa_erase (r_sock s) i\<rparr>) else upd_sock i (s_ref_update (\<lambda>n. n - 1))) (\<lambda>_. rinv g)"
  proof (rule hoare_if)
    assume r: "s_ref k \<le> 1"
    show "hoare (\<lambda>s. rinv ?g s \<and> xa_load (r_sock s) i = Some k) (modify (\<lambda>s. s\<lparr>r_sock := xa_erase (r_sock s) i\<rparr>)) (\<lambda>_. rinv g)"
      by (rule hoare_modify, elim conjE, rule rinv_sock_free[OF _ _ r c])
  next
    assume r: "\<not> s_ref k \<le> 1"
    show "hoare (\<lambda>s. rinv ?g s \<and> xa_load (r_sock s) i = Some k) (upd_sock i (s_ref_update (\<lambda>n. n - 1))) (\<lambda>_. rinv g)"
    proof (rule hoare_upd_sock)
      fix s assume s: "rinv ?g s \<and> xa_load (r_sock s) i = Some k"
      have "rinv (?g\<lparr>g_hs := g_hs g\<rparr>) (s\<lparr>r_sock := xa_store (r_sock s) i (s_ref_update (\<lambda>n. n - 1) k)\<rparr>)"
        by (rule rinv_sock_store[of ?g s i k]) (use s r c in simp_all)
      then show "\<exists>k. xa_load (r_sock s) i = Some k \<and> rinv g (s\<lparr>r_sock := xa_store (r_sock s) i (s_ref_update (\<lambda>n. n - 1) k)\<rparr>)"
        using s by simp
    qed
  qed
qed

text \<open>A reference that is not given back does no harm to the invariant.\<close>

lemma rinv_forget_sock:
  assumes r: "rinv (g\<lparr>g_hs := add_mset i (g_hs g)\<rparr>) s" and c: "g_cs g \<subseteq> set_mset (g_hs g)"
  shows "rinv g s"
proof -
  let ?g = "g\<lparr>g_hs := add_mset i (g_hs g)\<rparr>"
  have u: "uses ?g s = add_mset i (uses g s)" by (simp add: uses_def)
  have "sock_ok g s" unfolding sock_ok_def
  proof (intro conjI allI impI)
    fix j assume "xa_load (r_sock s) j = None"
    then have "count (uses ?g s) j = 0" using r by (simp add: rinv_def sock_ok_def)
    then show "count (uses g s) j = 0" by (simp add: u split: if_splits)
  next
    fix j k assume "xa_load (r_sock s) j = Some k"
    then show "count (uses g s) j + one_if (s_open k) \<le> s_ref k" using sock_refs[OF r] by (fastforce simp: u split: if_splits)
  qed
  then show ?thesis using r c by (simp add: rinv_def node_ok_def bound_ok_def grip_ok_def pinned_def)
qed

section \<open>Nodes\<close>

lemma rinv_node_store:
  assumes r: "rinv g s" and p: "xa_load (r_node s) p = Some nd" and wf: "node_wf nd'"
    and w: "node_waits nd' + hs = node_waits nd + g_hs g" and cs: "g_cs g \<subseteq> set_mset hs"
    and c: "count hn p + one_if (n_ep nd') \<le> n_ref nd'" and o: "\<And>q. q \<noteq> p \<Longrightarrow> count hn q = count (g_hn g) q"
    and run: "n_running nd' = n_running nd \<or> p \<notin> g_ws g" and ep: "n_ep nd' = n_ep nd \<or> p \<notin> g_ep g \<union> g_ws g"
    and nid: "n_nid nd \<noteq> QRTR_EP_NID_AUTO \<Longrightarrow> n_nid nd' \<noteq> QRTR_EP_NID_AUTO"
    and fl: "\<And>key. (p, key) \<in> g_fs g \<Longrightarrow> p \<in> pinned (g\<lparr>g_hn := hn\<rparr>) \<and> xa_load (n_tx_flow nd') key \<noteq> None"
    and ds: "p \<in> g_ds g \<Longrightarrow> n_ref nd' = n_ref nd \<and> n_tx_flow nd' = n_tx_flow nd"
  shows "rinv (g\<lparr>g_hs := hs, g_hn := hn\<rparr>) (s\<lparr>r_node := xa_store (r_node s) p nd'\<rparr>)"
proof -
  let ?s = "s\<lparr>r_node := xa_store (r_node s) p nd'\<rparr>" and ?g = "g\<lparr>g_hs := hs, g_hn := hn\<rparr>"
  have x: "xa_inv (r_node s)" using r by (simp add: rinv_def shape_def)
  have "vals_sum node_waits (xa_store (r_node s) p nd') + hs + node_waits nd =
      vals_sum node_waits (r_node s) + (node_waits nd' + hs)"
    using vals_sum_store[OF x p, of node_waits nd'] by (simp only: ac_simps)
  then have "vals_sum node_waits (xa_store (r_node s) p nd') + hs = vals_sum node_waits (r_node s) + g_hs g"
    unfolding w by (simp add: add.assoc[symmetric])
  then have u: "uses ?g ?s = uses g s" by (simp add: uses_def add.assoc)
  have l: "listed ?s = listed s" by (simp add: listed_def fun_eq_iff)
  have pin: "q \<in> pinned ?g" if "(q, key) \<in> g_fs g" for q key
  proof (cases "q = p")
    case False
    then have "q \<in># hn \<longleftrightarrow> q \<in># g_hn g" using o by (metis count_greater_zero_iff)
    moreover have "q \<in> pinned g" using r that by (auto simp: rinv_def grip_ok_def)
    ultimately show ?thesis by (auto simp: pinned_def)
  qed (use fl that in \<open>auto simp: pinned_def\<close>)
  have "sock_ok ?g ?s" using r u by (simp add: rinv_def sock_ok_def)
  moreover have "shape ?s" using r p by (auto simp: rinv_def shape_def xa_inv_store xa_load_store)
  moreover have "bound_ok ?g ?s" using r by (simp add: rinv_def bound_ok_def)
  moreover have "node_ok ?g ?s" using r p wf c o nid by (auto simp: rinv_def node_ok_def xa_load_store l)
  moreover have "grip_ok ?g ?s"
  proof -
    have g: "grip_ok g s" using r by (simp add: rinv_def)
    have "\<exists>nd. xa_load (r_node ?s) q = Some nd \<and> n_running nd \<and> n_ep nd" if "q \<in> g_ws g" for q
      using g p run ep that by (cases "q = p") (auto simp: grip_ok_def xa_load_store)
    moreover have "\<exists>nd. xa_load (r_node ?s) q = Some nd \<and> n_ep nd" if "q \<in> g_ep g" for q
      using g p ep that by (cases "q = p") (auto simp: grip_ok_def xa_load_store)
    moreover have "\<exists>nd. xa_load (r_node ?s) q = Some nd \<and> n_ref nd = 0 \<and> n_tx_flow nd = []" if "q \<in> g_ds g" for q
      using g p ds that by (cases "q = p") (auto simp: grip_ok_def xa_load_store)
    moreover have "\<exists>nd fl. xa_load (r_node ?s) q = Some nd \<and> xa_load (n_tx_flow nd) key = Some fl" if "(q, key) \<in> g_fs g" for q key
      using g p fl that by (cases "q = p") (auto simp: grip_ok_def xa_load_store)
    ultimately show ?thesis using g pin cs by (simp add: grip_ok_def l)
  qed
  ultimately show ?thesis by (simp add: rinv_def)
qed

lemma hoare_upd_node:
  assumes "\<And>s. P s \<Longrightarrow> \<exists>nd. xa_load (r_node s) p = Some nd \<and> Q () (s\<lparr>r_node := xa_store (r_node s) p (f nd)\<rparr>)"
  shows "hoare P (upd_node p f) Q"
proof (rule hoareI)
  fix s a s' assume "P s" "run_state (upd_node p f) s = (a, s')"
  then show "Q a s'" using assms[of s] by (auto simp: upd_node_def modify_def)
qed

lemma hoare_node:
  assumes "\<And>s. P s \<Longrightarrow> \<exists>nd. xa_load (r_node s) p = Some nd" "\<And>s nd. P s \<Longrightarrow> xa_load (r_node s) p = Some nd \<Longrightarrow> Q nd s"
  shows "hoare P (node p) Q"
proof (rule hoareI)
  fix s a s' assume "P s" "run_state (node p) s = (a, s')"
  then show "Q a s'" using assms[of s] by (auto simp: node_def)
qed

lemma node_rinv:
  assumes "p \<in> pinned g"
  shows "hoare (rinv g) (node p) (\<lambda>nd s. rinv g s \<and> xa_load (r_node s) p = Some nd)"
  by (rule hoare_node, rule pinned_alive[OF _ assms], assumption, simp)

text \<open>A change that leaves references, flows and the endpoint alone.\<close>

definition quiet_node :: "(qrtr_node \<Rightarrow> qrtr_node) \<Rightarrow> bool" where
  "quiet_node f \<longleftrightarrow> (\<forall>nd. n_ep (f nd) = n_ep nd \<and> n_ref (f nd) = n_ref nd \<and> n_tx_flow (f nd) = n_tx_flow nd \<and>
     n_running (f nd) = n_running nd \<and>
     ((\<forall>skb \<in> set (n_rx_queue nd). sb_sk skb = None) \<longrightarrow> (\<forall>skb \<in> set (n_rx_queue (f nd)). sb_sk skb = None)) \<and> (n_nid nd \<noteq> QRTR_EP_NID_AUTO \<longrightarrow> n_nid (f nd) \<noteq> QRTR_EP_NID_AUTO))"

lemma rinv_quiet_node:
  assumes "quiet_node f" "rinv g s" "xa_load (r_node s) p = Some nd"
  shows "rinv g (s\<lparr>r_node := xa_store (r_node s) p (f nd)\<rparr>)"
proof -
  have q: "n_ep (f nd) = n_ep nd" "n_ref (f nd) = n_ref nd" "n_tx_flow (f nd) = n_tx_flow nd" "n_running (f nd) = n_running nd"
    "n_nid nd \<noteq> QRTR_EP_NID_AUTO \<Longrightarrow> n_nid (f nd) \<noteq> QRTR_EP_NID_AUTO"
    "\<forall>skb \<in> set (n_rx_queue nd). sb_sk skb = None \<Longrightarrow> \<forall>skb \<in> set (n_rx_queue (f nd)). sb_sk skb = None"
    using assms(1) unfolding quiet_node_def by blast+
  have fs: "(p, key) \<in> g_fs g \<Longrightarrow> p \<in> pinned (g\<lparr>g_hn := g_hn g\<rparr>) \<and> xa_load (n_tx_flow (f nd)) key \<noteq> None" for key
    using assms(2,3) by (fastforce simp: rinv_def grip_ok_def q)
  have wf: "node_wf (f nd)" "count (g_hn g) p + one_if (n_ep (f nd)) \<le> n_ref (f nd)"
    using node_wf_rinv[OF assms(2,3)] node_refs[OF assms(2,3)] q(6) by (simp_all add: node_wf_def q(1-4))
  have w: "node_waits (f nd) + g_hs g = node_waits nd + g_hs g" by (simp add: node_waits_def q)
  have "rinv (g\<lparr>g_hs := g_hs g, g_hn := g_hn g\<rparr>) (s\<lparr>r_node := xa_store (r_node s) p (f nd)\<rparr>)"
    by (rule rinv_node_store[OF assms(2,3) wf(1) w _ wf(2) refl disjI1[OF q(4)] disjI1[OF q(1)] q(5) fs])
      (use rinv_grip[OF assms(2)] in \<open>simp_all add: q\<close>)
  then show ?thesis by simp
qed

lemma quiet_upd_node:
  assumes "quiet_node f" "p \<in> pinned g"
  shows "hoare (rinv g) (upd_node p f) (\<lambda>_. rinv g)"
proof (rule hoare_upd_node)
  fix s assume r: "rinv g s"
  then obtain nd where "xa_load (r_node s) p = Some nd" using pinned_alive[OF _ assms(2)] by blast
  then show "\<exists>nd. xa_load (r_node s) p = Some nd \<and> rinv g (s\<lparr>r_node := xa_store (r_node s) p (f nd)\<rparr>)"
    using rinv_quiet_node[OF assms(1) r] by simp
qed

section \<open>What the primitives leave alone\<close>

lemma keeps_sock_ops [keeps_rules]:
  assumes "\<And>s b. F (s\<lparr>r_bad := b\<rparr>) = F s" "\<And>s x. F (s\<lparr>r_sock := x\<rparr>) = F s"
  shows "keeps F (sock i)" "keeps F (upd_sock i f)" "keeps F (sock_hold i)" "keeps F (sock_put i)"
proof -
  show k: "keeps F (sock i)" "keeps F (upd_sock i f)" for f
    using assms by (auto simp: keeps_def sock_def upd_sock_def modify_def split: option.split)
  show "keeps F (sock_hold i)" unfolding sock_hold_def by (rule k)
  have "keeps F (modify (\<lambda>s. s\<lparr>r_sock := xa_erase (r_sock s) i\<rparr>))" using assms by (simp add: keeps_def modify_def)
  then show "keeps F (sock_put i)" unfolding sock_put_def by (intro keeps_rules k)
qed

lemma keeps_node_ops [keeps_rules]:
  assumes "\<And>s b. F (s\<lparr>r_bad := b\<rparr>) = F s" "\<And>s x. F (s\<lparr>r_node := x\<rparr>) = F s"
  shows "keeps F (node p)" "keeps F (upd_node p f)"
  using assms by (auto simp: keeps_def node_def upd_node_def modify_def split: option.split)

lemma keeps_tick [keeps_rules]:
  assumes "\<And>s n. F (s\<lparr>r_tick := n\<rparr>) = F s"
  shows "keeps F tick" "keeps F (alloc env)"
proof -
  show t: "keeps F tick" using assms by (simp add: keeps_def tick_def)
  show "keeps F (alloc env)" unfolding alloc_def by (intro keeps_rules t)
qed

lemma keeps_gets [keeps_rules]: "keeps F (gets f)"
  by (simp add: keeps_def gets_def)

lemma keeps_when [keeps_rules]: "keeps F f \<Longrightarrow> keeps F (when_rt b f)"
  by (simp add: when_rt_def keeps_return)

end
