(* ===== verification/Qrtr_Refs_Ports.thy ===== *)
theory Qrtr_Refs_Ports
  imports Qrtr_Refs
begin

text \<open>The invariant of the reference counts, continued: the operations on ports and the lookup of nodes keep it.\<close>

abbreviation (input) held :: "grip \<Rightarrow> sock_p \<Rightarrow> grip" where "held g i \<equiv> g\<lparr>g_hs := add_mset i (g_hs g)\<rparr>"
abbreviation (input) held_node :: "grip \<Rightarrow> node_p \<Rightarrow> grip" where "held_node g p \<equiv> g\<lparr>g_hn := add_mset p (g_hn g)\<rparr>"

section \<open>Ports\<close>

lemma port_used: "rinv g s \<Longrightarrow> xa_load (r_ports s) port = Some i \<Longrightarrow> \<exists>k. xa_load (r_sock s) i = Some k"
  by (rule used_alive, assumption) (simp add: uses_def vals_sum_mem[where w = "\<lambda>i. {#i#}"])

lemma port_lookup_rinv:
  "hoare (rinv g) (qrtr_port_lookup port) (\<lambda>r. rinv (case r of None \<Rightarrow> g | Some i \<Rightarrow> held g i))"
  unfolding qrtr_port_lookup_def
proof (rule hoare_bind)
  show "hoare (rinv g) (gets r_ports) (\<lambda>ports s. rinv g s \<and> ports = r_ports s)" by (rule hoare_gets) simp
  fix ports
  show "hoare (\<lambda>s. rinv g s \<and> ports = r_ports s)
    (case xa_load ports (port_key port) of None \<Rightarrow> ret None | Some i \<Rightarrow> State_Monad.bind (sock_hold i) (\<lambda>_. ret (Some i)))
    (\<lambda>r. rinv (case r of None \<Rightarrow> g | Some i \<Rightarrow> held g i))"
  proof (rule hoare_option)
    fix i assume i: "xa_load ports (port_key port) = Some i"
    show "hoare (\<lambda>s. rinv g s \<and> ports = r_ports s) (State_Monad.bind (sock_hold i) (\<lambda>_. ret (Some i)))
      (\<lambda>r. rinv (case r of None \<Rightarrow> g | Some i \<Rightarrow> held g i))"
      by (rule hoare_bind, rule hoare_sock_hold[where g = g]) (use i port_used in \<open>auto intro: hoare_return\<close>)
  qed (rule hoare_return, simp)
qed

lemma port_put_rinv: "g_cs g \<subseteq> set_mset (g_hs g) \<Longrightarrow> hoare (rinv (held g i)) (qrtr_port_put i) (\<lambda>_. rinv g)"
  unfolding qrtr_port_put_def by (rule hoare_sock_put)

lemma quiet_held:
  assumes "quiet f" "i \<in># g_hs g \<or> i \<in> g_lk g"
  shows "hoare (rinv g) (upd_sock i f) (\<lambda>_. rinv g)"
proof (rule quiet_upd[OF assms(1)])
  fix s assume "rinv g s"
  then show "rinv g s \<and> (\<exists>k. xa_load (r_sock s) i = Some k)"
    using assms(2) used_alive[of g s i] locked_alive[of g s i] by (auto simp: uses_def)
qed

lemma queue_rcv_rinv:
  assumes "i \<in># g_hs g \<or> i \<in> g_lk g"
  shows "hoare (rinv g) (sock_queue_rcv env i skb) (\<lambda>_. rinv g)"
  unfolding sock_queue_rcv_def
  by (rule hoare_bind[OF tick_rinv], rule hoare_option, rule hoare_bind, rule quiet_held)
    (use assms in \<open>auto simp: quiet_def intro: hoare_return\<close>)

text \<open>A port in the table the socket has no reference for yet, and the reference for it.\<close>

definition port_owed :: "grip \<Rightarrow> sock_p \<Rightarrow> int \<Rightarrow> router \<Rightarrow> bool" where
  "port_owed g i port s \<longleftrightarrow> 0 \<le> port \<and> port \<le> 0x7fffffff \<and>
     (\<exists>s0. rinv g s0 \<and> xa_load (r_ports s0) port = None \<and> s = s0\<lparr>r_ports := xa_store (r_ports s0) port i\<rparr>)"

lemma first_free_range:
  "first_free n lo ports = Some port \<Longrightarrow> lo \<le> port \<and> port < lo + int n \<and> xa_load ports port = None"
  by (induction n lo ports rule: first_free.induct) (auto split: if_splits)

lemma idr_alloc_rinv:
  assumes "0 \<le> lo" "hi \<le> 0x7fffffff"
  shows "hoare (rinv g) (idr_alloc env i lo hi) (\<lambda>r s. case r of Inl _ \<Rightarrow> rinv g s | Inr port \<Rightarrow> port_owed g i port s)"
proof -
  have f: "0 \<le> port \<and> port \<le> 0x7fffffff \<and> xa_load ports port = None" if "first_free (nat (hi - lo + 1)) lo ports = Some port" for ports port
    using first_free_range[OF that] assms by (cases "hi - lo + 1 \<ge> 0") auto
  show ?thesis unfolding idr_alloc_def
  proof (rule hoare_bind)
    show "hoare (rinv g) (gets r_ports) (\<lambda>ports s. rinv g s \<and> ports = r_ports s)" by (rule hoare_gets) simp
    fix ports
    show "hoare (\<lambda>s. rinv g s \<and> ports = r_ports s) (case first_free (nat (hi - lo + 1)) lo ports of
        None \<Rightarrow> ret (Inl ENOSPC)
      | Some port \<Rightarrow> State_Monad.bind (alloc env) (\<lambda>ok. if ok then
          State_Monad.bind (modify (\<lambda>s. s\<lparr>r_ports := xa_store (r_ports s) port i\<rparr>)) (\<lambda>_. ret (Inr port)) else ret (Inl ENOMEM)))
      (\<lambda>r s. case r of Inl _ \<Rightarrow> rinv g s | Inr port \<Rightarrow> port_owed g i port s)"
    proof (rule hoare_option)
      fix port assume p: "first_free (nat (hi - lo + 1)) lo ports = Some port"
      have "hoare (\<lambda>s. rinv g s \<and> ports = r_ports s) (alloc env) (\<lambda>_ s. rinv g s \<and> ports = r_ports s)"
        by (auto simp: hoare_def alloc_def tick_def)
      then show "hoare (\<lambda>s. rinv g s \<and> ports = r_ports s) (State_Monad.bind (alloc env) (\<lambda>ok. if ok then
          State_Monad.bind (modify (\<lambda>s. s\<lparr>r_ports := xa_store (r_ports s) port i\<rparr>)) (\<lambda>_. ret (Inr port)) else ret (Inl ENOMEM)))
        (\<lambda>r s. case r of Inl _ \<Rightarrow> rinv g s | Inr port \<Rightarrow> port_owed g i port s)"
        by (rule hoare_bind) (use f[OF p] in \<open>auto simp: hoare_def modify_def port_owed_def\<close>)
    qed (auto intro: hoare_return)
  qed
qed

lemma port_owed_next: "port_owed g i port s \<Longrightarrow> 0 \<le> n \<Longrightarrow> port_owed g i port (s\<lparr>r_port_next := n\<rparr>)"
proof -
  assume o: "port_owed g i port s" and n: "0 \<le> n"
  then obtain s0 where s0: "rinv g s0" "xa_load (r_ports s0) port = None" "s = s0\<lparr>r_ports := xa_store (r_ports s0) port i\<rparr>"
    by (auto simp: port_owed_def)
  have "rinv g (s0\<lparr>r_port_next := n\<rparr>) = rinv g s0" by (rule rinv_frame) (use n s0(1) in \<open>simp_all add: rinv_def shape_def\<close>)
  then show ?thesis using o s0 unfolding port_owed_def by (intro conjI exI[of _ "s0\<lparr>r_port_next := n\<rparr>"]) auto
qed

lemma idr_alloc_cyclic_rinv:
  assumes "hi \<le> 0x7fffffff"
  shows "hoare (rinv g) (idr_alloc_cyclic env i lo hi) (\<lambda>r s. case r of Inl _ \<Rightarrow> rinv g s | Inr port \<Rightarrow> port_owed g i port s)"
  unfolding idr_alloc_cyclic_def Let_def
proof (rule hoare_bind)
  let ?hi = "if hi < 0 then 0x7fffffff else hi" and ?Q = "\<lambda>r s. case r of Inl _ \<Rightarrow> rinv g s | Inr port \<Rightarrow> port_owed g i port s"
  show "hoare (rinv g) (gets r_port_next) (\<lambda>cur s. 0 \<le> cur \<and> rinv g s)" by (rule hoare_gets) (simp add: rinv_def shape_def)
  fix cur
  have h: "?hi \<le> 0x7fffffff" using assms by simp
  show "hoare (\<lambda>s. 0 \<le> cur \<and> rinv g s) (State_Monad.bind (idr_alloc env i (max cur lo) ?hi) (\<lambda>r1.
      State_Monad.bind (if r1 = Inl ENOSPC \<and> cur > lo \<and> lo \<ge> 0 then idr_alloc env i lo ?hi else ret r1)
      (case_sum (\<lambda>e. ret (Inl e)) (\<lambda>port. State_Monad.bind (modify (\<lambda>s. s\<lparr>r_port_next := port + 1\<rparr>)) (\<lambda>_. ret (Inr port)))))) ?Q"
  proof (rule hoare_imp, rule hoare_bind)
    assume "0 \<le> cur"
    then show "hoare (rinv g) (idr_alloc env i (max cur lo) ?hi) ?Q" by (intro idr_alloc_rinv h) simp
    fix r1
    show "hoare (?Q r1) (State_Monad.bind (if r1 = Inl ENOSPC \<and> cur > lo \<and> lo \<ge> 0 then idr_alloc env i lo ?hi else ret r1)
      (case_sum (\<lambda>e. ret (Inl e)) (\<lambda>port. State_Monad.bind (modify (\<lambda>s. s\<lparr>r_port_next := port + 1\<rparr>)) (\<lambda>_. ret (Inr port))))) ?Q"
    proof (rule hoare_bind[where R = ?Q], rule hoare_if)
      assume "r1 = Inl ENOSPC \<and> cur > lo \<and> lo \<ge> 0"
      then show "hoare (?Q r1) (idr_alloc env i lo ?hi) ?Q" using idr_alloc_rinv[OF _ h, of lo g env i] by simp
    next
      show "hoare (?Q r1) (ret r1) ?Q" by (rule hoare_return)
      fix r
      have n: "port_owed g i port (s\<lparr>r_port_next := port + 1\<rparr>)" if "port_owed g i port s" for port s
        by (rule port_owed_next[OF that]) (use that in \<open>simp add: port_owed_def\<close>)
      show "hoare (?Q r) (case r of Inl e \<Rightarrow> ret (Inl e)
        | Inr port \<Rightarrow> State_Monad.bind (modify (\<lambda>s. s\<lparr>r_port_next := port + 1\<rparr>)) (\<lambda>_. ret (Inr port))) ?Q"
        by (cases r) (auto simp: hoare_def modify_def intro: n)
    qed
  qed
qed

lemma rinv_port_add:
  assumes r: "rinv g s" and n: "xa_load (r_ports s) port = None" and k: "xa_load (r_sock s) i = Some k"
  shows "rinv g (s\<lparr>r_ports := xa_store (r_ports s) port i, r_sock := xa_store (r_sock s) i (s_ref_update Suc k)\<rparr>)"
proof -
  let ?s = "s\<lparr>r_ports := xa_store (r_ports s) port i, r_sock := xa_store (r_sock s) i (s_ref_update Suc k)\<rparr>"
  have u: "uses g ?s = add_mset i (uses g s)" by (simp add: uses_def vals_sum_store_new[OF n])
  have l: "listed ?s = listed s" by (simp add: listed_def fun_eq_iff)
  have "sock_ok g ?s" using r k by (auto simp: rinv_def sock_ok_def xa_load_store u)
  moreover have "shape ?s" using r k by (auto simp: rinv_def shape_def xa_inv_store xa_load_store)
  moreover have "bound_ok g ?s" using r k n by (fastforce simp: rinv_def bound_ok_def xa_load_store split: if_splits)
  moreover have "grip_ok g ?s"
  proof -
    have g: "grip_ok g s" using r by (simp add: rinv_def)
    have "\<exists>k. xa_load (r_sock ?s) j = Some k \<and> s_locked k \<and> (s_open k \<longleftrightarrow> j \<notin> g_cs g)" if "j \<in> g_lk g" for j
      using g k that by (cases "j = i") (auto simp: grip_ok_def xa_load_store)
    moreover have "\<exists>k. xa_load (r_sock ?s) j = Some k \<and> sq_port (s_us k) = port \<and> s_zapped k = z" if "(j, port, z) \<in> g_us g" for j port z
      using g k that by (cases "j = i") (fastforce simp: grip_ok_def xa_load_store)+
    moreover have "xa_load (r_ports ?s) port' = Some j" if "(port', j) \<in> g_ps g" for port' j
      using g n that by (auto simp: grip_ok_def xa_load_store)
    ultimately show ?thesis using g by (simp add: grip_ok_def l)
  qed
  moreover have "node_ok g ?s" using r by (simp add: rinv_def node_ok_def l)
  ultimately show ?thesis by (simp add: rinv_def)
qed

lemma port_hold_rinv:
  assumes "i \<in> g_lk g"
  shows "hoare (port_owed g i port) (sock_hold i) (\<lambda>_ s. rinv g s \<and> xa_load (r_ports s) port = Some i)"
  unfolding sock_hold_def
proof (rule hoare_upd_sock)
  fix s assume "port_owed g i port s"
  then obtain s0 where s0: "rinv g s0" "xa_load (r_ports s0) port = None" "s = s0\<lparr>r_ports := xa_store (r_ports s0) port i\<rparr>"
    by (auto simp: port_owed_def)
  obtain k where k: "xa_load (r_sock s0) i = Some k" using locked_alive[OF s0(1) assms] by blast
  have "s\<lparr>r_sock := xa_store (r_sock s) i (s_ref_update Suc k)\<rparr> =
      s0\<lparr>r_ports := xa_store (r_ports s0) port i, r_sock := xa_store (r_sock s0) i (s_ref_update Suc k)\<rparr>" using s0(3) by simp
  then show "\<exists>k. xa_load (r_sock s) i = Some k \<and> rinv g (s\<lparr>r_sock := xa_store (r_sock s) i (s_ref_update Suc k)\<rparr>) \<and>
      xa_load (r_ports (s\<lparr>r_sock := xa_store (r_sock s) i (s_ref_update Suc k)\<rparr>)) port = Some i"
    using rinv_port_add[OF s0(1,2) k] k s0(3) by (auto simp: xa_load_store)
qed

lemma sint_of_int: "0 \<le> p \<Longrightarrow> p \<le> 0x7fffffff \<Longrightarrow> sint (of_int p :: u32) = p"
  by (simp add: sint_sbintrunc' signed_take_bit_int_eq_self)

lemma port_key_of_int: "0 \<le> p \<Longrightarrow> p \<le> 0x7fffffff \<Longrightarrow> port_key (of_int p) = p"
proof -
  assume p: "0 \<le> p" "p \<le> 0x7fffffff"
  have "(of_int p :: u32) \<noteq> QRTR_PORT_CTRL"
  proof
    assume "(of_int p :: u32) = QRTR_PORT_CTRL"
    then have "sint (of_int p :: u32) = sint QRTR_PORT_CTRL" by simp
    then show False using sint_of_int[OF p] p(1) by simp
  qed
  then show ?thesis using sint_of_int[OF p] by (simp add: port_key_def)
qed

lemma port_assign_rinv:
  assumes "i \<in> g_lk g"
  shows "hoare (rinv g) (qrtr_port_assign env i port)
    (\<lambda>r s. rinv g s \<and> (\<forall>p. r = Inr p \<longrightarrow> xa_load (r_ports s) (port_key p) = Some i \<and> (port_key p, i) \<notin> g_ps g))"
  unfolding qrtr_port_assign_def
proof (rule hoare_bind)
  let ?Q = "\<lambda>r s. case r of Inl _ \<Rightarrow> rinv g s | Inr p \<Rightarrow> port_owed g i p s \<and> (port = QRTR_PORT_CTRL \<longrightarrow> p = 0)"
  have c: "hoare (rinv g) (idr_alloc env i 0 0) ?Q"
  proof (rule hoareI)
    fix s r s' assume a: "rinv g s" "run_state (idr_alloc env i 0 0) s = (r, s')"
    have "case r of Inl _ \<Rightarrow> rinv g s' | Inr port \<Rightarrow> port_owed g i port s'" by (rule hoareD[OF idr_alloc_rinv a]) simp_all
    moreover have "p = 0" if "r = Inr p" for p
      using a(2) that by (auto simp: idr_alloc_def gets_def alloc_def tick_def modify_def split: option.splits if_splits)
    ultimately show "?Q r s'" by (simp split: sum.splits)
  qed
  have d: "hoare (rinv g) (idr_alloc_cyclic env i lo hi) ?Q" if "hi \<le> 0x7fffffff" "port \<noteq> QRTR_PORT_CTRL" for lo hi
    by (rule hoare_post[OF idr_alloc_cyclic_rinv[OF that(1)]]) (use that(2) in \<open>auto split: sum.splits\<close>)
  have "sint port \<le> 0x7fffffff" using sint_lt[of port] by simp
  then show "hoare (rinv g) (if port = 0 then idr_alloc_cyclic env i QRTR_MIN_EPH_SOCKET QRTR_MAX_EPH_SOCKET
      else if sint port < QRTR_MIN_EPH_SOCKET \<and> \<not> capable env then ret (Inl EACCES)
      else if port = QRTR_PORT_CTRL then idr_alloc env i 0 0
      else idr_alloc_cyclic env i (sint port) (sint port)) ?Q"
    by (intro hoare_if c d) (auto intro: hoare_return)
  fix r
  show "hoare (?Q r) (case r of Inl e \<Rightarrow> ret (Inl (if e = ENOSPC then EADDRINUSE else e))
    | Inr p \<Rightarrow> State_Monad.bind (sock_hold i) (\<lambda>_. ret (Inr (if port = QRTR_PORT_CTRL then port else of_int p))))
    (\<lambda>r s. rinv g s \<and> (\<forall>p. r = Inr p \<longrightarrow> xa_load (r_ports s) (port_key p) = Some i \<and> (port_key p, i) \<notin> g_ps g))"
  proof (rule hoare_sum)
    fix p assume r: "r = Inr p"
    have k: "port_key (if port = QRTR_PORT_CTRL then port else of_int p) = p" if "?Q r s" for s
      using that r port_key_of_int[of p] by (auto simp: port_owed_def port_key_def)
    show "hoare (?Q r) (State_Monad.bind (sock_hold i) (\<lambda>_. ret (Inr (if port = QRTR_PORT_CTRL then port else of_int p))))
      (\<lambda>r s. rinv g s \<and> (\<forall>p. r = Inr p \<longrightarrow> xa_load (r_ports s) (port_key p) = Some i \<and> (port_key p, i) \<notin> g_ps g))"
    proof (rule hoareI)
      fix s a s' assume a: "?Q r s" "run_state (State_Monad.bind (sock_hold i)
        (\<lambda>_. ret (Inr (if port = QRTR_PORT_CTRL then port else of_int p)))) s = (a, s')"
      then obtain u where "run_state (sock_hold i) s = (u, s')" and e: "a = Inr (if port = QRTR_PORT_CTRL then port else of_int p)"
        by (auto split: prod.splits)
      moreover have "(p, i) \<notin> g_ps g" using a(1) r by (auto simp: port_owed_def rinv_def grip_ok_def)
      ultimately show "rinv g s' \<and> (\<forall>p. a = Inr p \<longrightarrow> xa_load (r_ports s') (port_key p) = Some i \<and> (port_key p, i) \<notin> g_ps g)"
        using hoareD[OF port_hold_rinv[OF assms], of p s u s'] a(1) r k[OF a(1)] by auto
    qed
  qed (auto intro: hoare_return)
qed

lemma reset_ports_loop_rinv:
  assumes c: "g_cs g \<subseteq> set_mset (g_hs g)"
  shows "hoare (\<lambda>s. rinv g s \<and> set ps \<subseteq> set (r_ports s)) (reset_ports_loop ps) (\<lambda>_. rinv g)"
proof (induction ps rule: reset_ports_loop.induct)
  case (2 port i ps)
  let ?P = "\<lambda>s. rinv g s \<and> insert (port, i) (set ps) \<subseteq> set (r_ports s)"
  have "hoare ?P (when_rt (port \<noteq> 0) (State_Monad.bind (sock_hold i)
      (\<lambda>_. State_Monad.bind (upd_sock i (s_err_update (\<lambda>_. True))) (\<lambda>_. sock_put i)))) (\<lambda>_. ?P)"
  proof (rule hoare_when)
    let ?f = "State_Monad.bind (sock_hold i) (\<lambda>_. State_Monad.bind (upd_sock i (s_err_update (\<lambda>_. True))) (\<lambda>_. sock_put i))"
    have "hoare ?P ?f (\<lambda>_. rinv g)"
    proof (rule hoare_bind)
      show "hoare ?P (sock_hold i) (\<lambda>_. rinv (held g i))"
        by (rule hoare_sock_hold) (auto simp: rinv_def shape_def xa_mem_iff intro: port_used[where g = g])
      show "hoare (rinv (held g i)) (State_Monad.bind (upd_sock i (s_err_update (\<lambda>_. True))) (\<lambda>_. sock_put i)) (\<lambda>_. rinv g)" for a
        by (rule hoare_bind, rule quiet_held, simp_all add: quiet_def hoare_sock_put[OF c])
    qed
    moreover have "keeps r_ports ?f" by (intro keeps_rules) simp_all
    ultimately show "hoare ?P ?f (\<lambda>_. ?P)" by (rule hoare_pre[OF hoare_keeps]) simp
  qed simp
  then show ?case unfolding reset_ports_loop.simps
    by (rule hoare_bind[OF hoare_pre]) (simp, rule hoare_pre[OF 2], simp)
qed (simp add: hoare_return)

lemma reset_ports_rinv: "hoare (rinv g) qrtr_reset_ports (\<lambda>_. rinv g)"
  unfolding qrtr_reset_ports_def
proof (rule hoare_grip, rule hoare_bind)
  show "hoare (rinv g) (gets r_ports) (\<lambda>ps s. rinv g s \<and> set ps \<subseteq> set (r_ports s))" by (rule hoare_gets) simp
qed (rule reset_ports_loop_rinv)

section \<open>Nodes\<close>

lemma rinv_forget_flow: "rinv (g\<lparr>g_fs := insert x (g_fs g)\<rparr>) s \<Longrightarrow> rinv g s"
  by (simp add: rinv_def sock_ok_def node_ok_def bound_ok_def grip_ok_def pinned_def uses_def)

lemma rinv_acquire:
  assumes r: "rinv g s" and p: "xa_load (r_node s) p = Some nd" and l: "p \<notin> g_ds g"
  shows "rinv (held_node g p) (s\<lparr>r_node := xa_store (r_node s) p (n_ref_update Suc nd)\<rparr>)"
proof -
  let ?nd = "n_ref_update Suc nd"
  have w: "node_waits ?nd + g_hs g = node_waits nd + g_hs g" "node_wf ?nd" using node_wf_rinv[OF r p] by (simp_all add: node_waits_def node_wf_def)
  have c: "count (add_mset p (g_hn g)) p + one_if (n_ep ?nd) \<le> n_ref ?nd" using node_refs[OF r p] by simp
  have fs: "(p, key) \<in> g_fs g \<Longrightarrow> p \<in> pinned (g\<lparr>g_hn := add_mset p (g_hn g)\<rparr>) \<and> xa_load (n_tx_flow ?nd) key \<noteq> None" for key
    using r p by (fastforce simp: rinv_def grip_ok_def pinned_def)
  have "rinv (g\<lparr>g_hs := g_hs g, g_hn := add_mset p (g_hn g)\<rparr>) (s\<lparr>r_node := xa_store (r_node s) p ?nd\<rparr>)"
    by (rule rinv_node_store[OF r p w(2,1) _ c _ _ _ _ fs]) (use rinv_grip[OF r] l in simp_all)
  then show ?thesis by simp
qed

lemma listed_not_dying: "rinv g s \<Longrightarrow> listed s p \<Longrightarrow> p \<notin> g_ds g"
  by (auto simp: rinv_def grip_ok_def)

lemma node_lookup_rinv:
  "hoare (rinv g) (qrtr_node_lookup nid) (\<lambda>r. rinv (case r of None \<Rightarrow> g | Some p \<Rightarrow> held_node g p))"
  unfolding qrtr_node_lookup_def
proof (rule hoare_bind)
  show "hoare (rinv g) (gets r_nodes) (\<lambda>nodes s. rinv g s \<and> nodes = r_nodes s)" by (rule hoare_gets) simp
  fix nodes
  show "hoare (\<lambda>s. rinv g s \<and> nodes = r_nodes s) (qrtr_node_acquire (xa_load nodes nid))
    (\<lambda>r. rinv (case r of None \<Rightarrow> g | Some p \<Rightarrow> held_node g p))" unfolding qrtr_node_acquire_def
  proof (rule hoare_option)
    fix p assume n: "xa_load nodes nid = Some p"
    show "hoare (\<lambda>s. rinv g s \<and> nodes = r_nodes s) (State_Monad.bind (upd_node p (n_ref_update Suc)) (\<lambda>_. ret (Some p)))
      (\<lambda>r. rinv (case r of None \<Rightarrow> g | Some p \<Rightarrow> held_node g p))"
    proof (rule hoare_bind)
      show "hoare (\<lambda>s. rinv g s \<and> nodes = r_nodes s) (upd_node p (n_ref_update Suc)) (\<lambda>_. rinv (held_node g p))"
      proof (rule hoare_upd_node)
        fix s assume s: "rinv g s \<and> nodes = r_nodes s"
        then have "(nid, p) \<in> set (r_nodes s)" using n by (auto simp: rinv_def shape_def xa_mem_iff)
        then have l: "listed s p" by (force simp: listed_def)
        obtain nd where "xa_load (r_node s) p = Some nd" using listed_alive[OF conjunct1[OF s] l] by blast
        then show "\<exists>nd. xa_load (r_node s) p = Some nd \<and>
            rinv (held_node g p) (s\<lparr>r_node := xa_store (r_node s) p (n_ref_update Suc nd)\<rparr>)"
          using rinv_acquire[OF conjunct1[OF s]] listed_not_dying[OF conjunct1[OF s] l] by simp
      qed
      show "hoare (rinv (held_node g p)) (ret (Some p)) (\<lambda>r. rinv (case r of None \<Rightarrow> g | Some p \<Rightarrow> held_node g p))" for a
        by (rule hoare_return) simp
    qed
  qed (rule hoare_return, simp)
qed

text \<open>The id of a node that had none, or a further id.\<close>

lemma rinv_add_id:
  assumes r: "rinv g s" and p: "xa_load (r_node s) p = Some nd" "p \<notin> g_ds g" and n: "n_nid nd \<noteq> QRTR_EP_NID_AUTO"
    and e: "xa_load (r_nodes s) nid = None"
  shows "rinv g (s\<lparr>r_nodes := xa_store (r_nodes s) nid p\<rparr>)"
proof -
  let ?s = "s\<lparr>r_nodes := xa_store (r_nodes s) nid p\<rparr>"
  have x: "xa_inv (r_nodes s)" using r by (simp add: rinv_def shape_def)
  have v: "snd ` set (xa_store (r_nodes s) nid p) = insert p (snd ` set (r_nodes s))"
  proof -
    have "snd ` set xs = {v. \<exists>k. xa_load xs k = Some v}" if "xa_inv xs" for xs :: "(u32, node_p) xarray"
      using xa_mem_iff[OF that] by force
    then show ?thesis using x xa_inv_store[OF x, of nid p] e by (auto simp: xa_load_store) (metis option.distinct(1))
  qed
  have l: "listed ?s q \<longleftrightarrow> listed s q \<or> q = p" for q using v by (auto simp: listed_def)
  have "sock_ok g ?s" using r by (simp add: rinv_def sock_ok_def uses_def)
  moreover have "shape ?s" using r by (simp add: rinv_def shape_def xa_inv_store)
  moreover have "bound_ok g ?s" using r by (simp add: rinv_def bound_ok_def)
  moreover have "node_ok g ?s" using r p n by (auto simp: rinv_def node_ok_def l v)
  moreover have "grip_ok g ?s" using r p by (auto simp: rinv_def grip_ok_def l)
  ultimately show ?thesis by (simp add: rinv_def)
qed

lemma rinv_ids_id: "s\<lparr>r_nodes := r_nodes s\<rparr> = (s :: router)"
  by simp

lemma pinned_not_dying: "rinv g s \<Longrightarrow> p \<in> pinned g \<Longrightarrow> p \<notin> g_ds g"
proof
  assume r: "rinv g s" and p: "p \<in> pinned g" "p \<in> g_ds g"
  then obtain nd where nd: "xa_load (r_node s) p = Some nd" "n_ref nd = 0" "\<not> listed s p" by (auto simp: rinv_def grip_ok_def)
  then have "count (g_hn g) p = 0" "\<not> n_ep nd" using node_refs[OF r nd(1)] by (simp_all add: one_if_def split: if_splits)
  then show False using r p nd by (auto simp: pinned_def rinv_def grip_ok_def listed_def count_eq_zero_iff)
qed

lemma node_assign_rinv:
  assumes "p \<in> pinned g"
  shows "hoare (rinv g) (qrtr_node_assign env p nid) (\<lambda>_. rinv g)"
proof (rule hoareI)
  fix s a s' assume r: "rinv g s" and run: "run_state (qrtr_node_assign env p nid) s = (a, s')"
  obtain nd where nd: "xa_load (r_node s) p = Some nd" using pinned_alive[OF r assms] by blast
  have d: "p \<notin> g_ds g" by (rule pinned_not_dying[OF r assms])
  let ?new = "xa_load (r_nodes s) nid = None"
  let ?ids = "if ?new \<and> alloc_ok env (r_tick s) then xa_store (r_nodes s) nid p else r_nodes s"
  let ?tick = "if ?new then r_tick s + 1 else r_tick s"
  have add: "rinv g (s1\<lparr>r_nodes := ?ids\<rparr>)"
    if "rinv g s1" "r_nodes s1 = r_nodes s" "xa_load (r_node s1) p = Some nd1" "n_nid nd1 \<noteq> QRTR_EP_NID_AUTO" for s1 nd1
    using rinv_add_id[OF that(1,3) d that(4), of nid] that(1) rinv_ids_id[of s1] unfolding that(2) by (simp split: if_split)
  note run_defs = qrtr_node_assign_def node_def modify_def gets_def alloc_def tick_def when_rt_def upd_node_def
  show "rinv g s'"
  proof (cases "nid = n_nid nd \<or> nid = QRTR_EP_NID_AUTO")
    case True
    then show ?thesis using run r nd by (auto simp: qrtr_node_assign_def node_def)
  next
    case n: False
    show ?thesis
    proof (cases "n_nid nd = QRTR_EP_NID_AUTO")
      case True
      let ?nd = "n_nid_update (\<lambda>_. nid) nd"
      let ?s1 = "s\<lparr>r_tick := ?tick, r_node := xa_store (r_node s) p ?nd\<rparr>"
      have "rinv g (s\<lparr>r_tick := ?tick\<rparr>)" using r by (simp only: rinv_other_fields)
      then have "rinv g ?s1"
        using rinv_quiet_node[of "n_nid_update (\<lambda>_. nid)" g "s\<lparr>r_tick := ?tick\<rparr>" p nd] n nd by (simp add: quiet_node_def)
      then have "rinv g (?s1\<lparr>r_nodes := ?ids\<rparr>)" by (rule add[of ?s1 ?nd]) (use n in \<open>simp_all add: xa_load_store\<close>)
      moreover have "s' = ?s1\<lparr>r_nodes := ?ids\<rparr>"
        using run n True nd by (auto simp: run_defs split: if_splits)
      ultimately show ?thesis by simp
    next
      case False
      have "s' = s\<lparr>r_tick := ?tick, r_nodes := ?ids\<rparr>"
        using run n False nd by (auto simp: run_defs split: if_splits)
      then show ?thesis using add[of "s\<lparr>r_tick := ?tick\<rparr>" nd] r nd False by simp
    qed
  qed
qed

end
