(* ===== verification/Qrtr_Refs_Flow.thy ===== *)
theory Qrtr_Refs_Flow
  imports Qrtr_Refs_Ports
begin

text \<open>
  The invariant of the reference counts, continued: freeing a node, delivery to a local socket, flow control and
  sending to an endpoint.
\<close>

section \<open>Freeing a node\<close>

abbreviation (input) held_all :: "grip \<Rightarrow> sock_p multiset \<Rightarrow> grip" where "held_all g is \<equiv> g\<lparr>g_hs := is + g_hs g\<rparr>"

lemma put_waiters_rinv:
  assumes c: "g_cs g \<subseteq> set_mset (g_hs g)"
  shows "hoare (rinv (held_all g (mset is + js))) (put_waiters is) (\<lambda>_. rinv (held_all g js))"
proof (induction "is")
  case (Cons i "is")
  have "hoare (rinv (held (held_all g (mset is + js)) i)) (sock_put i) (\<lambda>_. rinv (held_all g (mset is + js)))"
    by (rule hoare_sock_put) (use c in auto)
  then show ?case using Cons by (simp add: hoare_bind)
qed (simp add: hoare_return)

lemma free_flows_rinv:
  assumes c: "g_cs g \<subseteq> set_mset (g_hs g)"
  shows "hoare (rinv (held_all g (sum_list (map flow_waits fls)))) (free_flows fls) (\<lambda>_. rinv g)"
proof (induction fls)
  case (Cons fl fls)
  show ?case unfolding free_flows.simps
    by (rule hoare_bind[OF _ Cons.IH]) (use put_waiters_rinv[OF c] in \<open>simp add: flow_waits_def\<close>)
qed (simp add: hoare_return)

text \<open>A node without references that nobody finds any more.\<close>

lemma rinv_unlist:
  assumes r: "rinv g s" and p: "xa_load (r_node s) p = Some nd" "n_ref nd = 0" "p \<notin> pinned g" "p \<notin> g_ds g"
  shows "rinv (g\<lparr>g_ds := insert p (g_ds g), g_hs := node_waits nd + g_hs g\<rparr>)
    (s\<lparr>r_nodes := if n_nid nd \<noteq> QRTR_EP_NID_AUTO then filter (\<lambda>(nid, q). q \<noteq> p) (r_nodes s) else r_nodes s,
       r_epts := remove1 p (r_epts s), r_node := xa_store (r_node s) p (nd\<lparr>n_tx_flow := []\<rparr>)\<rparr>)"
proof -
  let ?nd = "nd\<lparr>n_tx_flow := []\<rparr>" and ?g = "g\<lparr>g_hs := node_waits nd + g_hs g\<rparr>"
  let ?s1 = "s\<lparr>r_node := xa_store (r_node s) p ?nd\<rparr>"
  have c: "count (g_hn g) p + one_if (n_ep nd) \<le> n_ref nd" by (rule node_refs[OF r p(1)])
  have "rinv (g\<lparr>g_hs := node_waits nd + g_hs g, g_hn := g_hn g\<rparr>) ?s1"
  proof (rule rinv_node_store[OF r p(1)])
    show "(p, key) \<in> g_fs g \<Longrightarrow> p \<in> pinned (g\<lparr>g_hn := g_hn g\<rparr>) \<and> xa_load (n_tx_flow ?nd) key \<noteq> None" for key
      using r p(3) by (auto simp: rinv_def grip_ok_def)
  qed (use c p(4) rinv_grip[OF r] node_wf_rinv[OF r p(1)] in \<open>auto simp: node_wf_def node_waits_def xa_values_def\<close>)
  then have r1: "rinv ?g ?s1" by simp
  let ?ids = "if n_nid nd \<noteq> QRTR_EP_NID_AUTO then filter (\<lambda>(nid, q). q \<noteq> p) (r_nodes s) else r_nodes s"
  let ?s2 = "?s1\<lparr>r_nodes := ?ids, r_epts := remove1 p (r_epts s)\<rparr>"
  have x: "sorted_wrt (<) (map fst (filter P xs))" if "sorted_wrt (<) (map fst xs)" for P and xs :: "(u32 \<times> node_p) list"
    using that by (induction xs) auto
  have e: "set (remove1 p (r_epts s)) = set (r_epts s) - {p}" using r by (simp add: rinv_def shape_def)
  have "n_nid nd = QRTR_EP_NID_AUTO \<Longrightarrow> p \<notin> snd ` set (r_nodes s)" using r p(1) by (auto simp: rinv_def node_ok_def)
  then have i: "snd ` set ?ids = snd ` set (r_nodes s) - {p}" by force
  have l: "listed ?s2 q \<longleftrightarrow> listed s q \<and> q \<noteq> p" for q unfolding listed_def using e i by auto
  have l1: "listed ?s1 = listed s" by (simp add: listed_def fun_eq_iff)
  have "shape ?s2" using r1 x by (auto simp: rinv_def shape_def xa_inv_def)
  moreover have "sock_ok ?g ?s2" using r1 by (simp add: rinv_def sock_ok_def uses_def)
  moreover have "node_ok ?g ?s2" using r1 i unfolding rinv_def node_ok_def l l1 by auto
  moreover have "bound_ok ?g ?s2" using r1 by (simp add: rinv_def bound_ok_def)
  moreover have "grip_ok ?g ?s2"
  proof -
    have "p \<notin> g_ns g" using p(3) by (simp add: pinned_def)
    then have "\<forall>q \<in> g_ns g. q \<in> set (remove1 p (r_epts s))" using r1 e by (auto simp: rinv_def grip_ok_def)
    then show ?thesis using r1 unfolding rinv_def grip_ok_def l l1 by auto
  qed
  ultimately have "rinv ?g ?s2" by (simp add: rinv_def)
  moreover have "\<not> listed ?s2 p" "xa_load (r_node ?s2) p = Some ?nd" using l by (simp_all add: xa_load_store)
  moreover have "?s2 = s\<lparr>r_nodes := ?ids, r_epts := remove1 p (r_epts s), r_node := xa_store (r_node s) p ?nd\<rparr>" by simp
  ultimately show ?thesis using p(2)
    by (simp add: rinv_def sock_ok_def node_ok_def bound_ok_def grip_ok_def pinned_def uses_def)
qed

lemma rinv_erase_node:
  assumes r: "rinv (g\<lparr>g_ds := insert p (g_ds g)\<rparr>) s" and d: "p \<notin> g_ds g"
  shows "rinv g (s\<lparr>r_node := xa_erase (r_node s) p\<rparr>)"
proof -
  let ?s = "s\<lparr>r_node := xa_erase (r_node s) p\<rparr>" and ?g = "g\<lparr>g_ds := insert p (g_ds g)\<rparr>"
  have x: "xa_inv (r_node s)" using r by (simp add: rinv_def shape_def)
  obtain nd where nd: "xa_load (r_node s) p = Some nd" "n_ref nd = 0" "n_tx_flow nd = []" "\<not> listed s p"
    using r by (auto simp: rinv_def grip_ok_def)
  have n: "count (g_hn g) p = 0" "\<not> n_ep nd" using node_refs[OF r nd(1)] nd(2) by (simp_all add: one_if_def split: if_splits)
  have u: "uses g ?s = uses ?g s"
    using vals_sum_erase[OF nd(1), of node_waits] nd(3) by (simp add: uses_def node_waits_def)
  have l: "listed ?s = listed s" by (simp add: listed_def fun_eq_iff)
  have pin: "p \<notin> pinned g" using pinned_not_dying[OF r, of p] by (auto simp: pinned_def)
  have "shape ?s" using r x by (auto simp: rinv_def shape_def xa_inv_erase xa_load_erase)
  moreover have "sock_ok g ?s" using r by (simp add: rinv_def sock_ok_def u)
  moreover have "node_ok g ?s" using r x nd n by (auto simp: rinv_def node_ok_def xa_load_erase l split: if_splits)
  moreover have "bound_ok g ?s" using r by (simp add: rinv_def bound_ok_def)
  moreover have "grip_ok g ?s"
  proof -
    have q: "xa_load (r_node ?s) q = xa_load (r_node s) q" if "q \<in> pinned g \<or> q \<in> g_ds g" for q
      using that pin d x by (auto simp: xa_load_erase)
    have "q \<in> g_ws g \<Longrightarrow> q \<in> pinned g" "q \<in> g_ep g \<Longrightarrow> q \<in> pinned g" for q by (simp_all add: pinned_def)
    moreover have "q \<in> pinned g \<and> (\<exists>nd fl. xa_load (r_node s) q = Some nd \<and> xa_load (n_tx_flow nd) key = Some fl)"
      if "(q, key) \<in> g_fs g" for q key using r that by (auto simp: rinv_def grip_ok_def)
    ultimately show ?thesis using r q unfolding rinv_def grip_ok_def l by auto
  qed
  ultimately show ?thesis by (simp add: rinv_def)
qed

lemma calm_flush: "calm_env env \<Longrightarrow> g_ep g = {} \<Longrightarrow> rinv g s \<Longrightarrow> rinv g (flush_rc env n s)"
  by (simp add: calm_env_def calm_def)

lemma calm_wait: "calm_env env \<Longrightarrow> (t, look, f) \<in> set (wait_rc env n) \<Longrightarrow> calm f"
  by (auto simp: calm_env_def)

lemma node_free_rinv:
  assumes env: "calm_env env" "g_ep g = {}" and c: "g_cs g \<subseteq> set_mset (g_hs g)" and p: "p \<notin> pinned g" "p \<notin> g_ds g"
  shows "hoare (\<lambda>s. rinv g s \<and> (\<exists>nd. xa_load (r_node s) p = Some nd \<and> n_ref nd = 0)) (node_free env p) (\<lambda>_. rinv g)"
proof (rule hoareI)
  fix s a s' assume s: "rinv g s \<and> (\<exists>nd. xa_load (r_node s) p = Some nd \<and> n_ref nd = 0)"
    and run: "run_state (node_free env p) s = (a, s')"
  then obtain nd where nd: "rinv g s" "xa_load (r_node s) p = Some nd" "n_ref nd = 0" by blast
  let ?g = "g\<lparr>g_ds := insert p (g_ds g)\<rparr>"
  let ?s1 = "s\<lparr>r_nodes := if n_nid nd \<noteq> QRTR_EP_NID_AUTO then filter (\<lambda>(nid, q). q \<noteq> p) (r_nodes s) else r_nodes s,
       r_epts := remove1 p (r_epts s), r_node := xa_store (r_node s) p (nd\<lparr>n_tx_flow := []\<rparr>)\<rparr>"
  let ?rest = "State_Monad.bind (free_flows (xa_values (n_tx_flow nd))) (\<lambda>_. State_Monad.bind tick (\<lambda>n.
      State_Monad.bind (modify (flush_rc env n)) (\<lambda>_. modify (\<lambda>s. s\<lparr>r_node := xa_erase (r_node s) p\<rparr>))))"
  have e: "run_state (node_free env p) s = run_state ?rest ?s1"
    using nd(2) by (simp add: node_free_def node_def when_rt_def modify_def upd_node_def)
  have w: "rinv (held_all ?g (sum_list (map flow_waits (xa_values (n_tx_flow nd))))) ?s1"
    using rinv_unlist[OF nd p] unfolding node_waits_def vals_sum_def by (simp split del: if_split)
  have h: "hoare (rinv (held_all ?g (sum_list (map flow_waits (xa_values (n_tx_flow nd)))))) ?rest (\<lambda>_. rinv g)"
  proof (rule hoare_bind[OF free_flows_rinv], use c in simp, rule hoare_bind[OF tick_rinv], rule hoare_bind)
    show "hoare (rinv ?g) (modify (flush_rc env n)) (\<lambda>_. rinv ?g)" for n
      by (rule hoare_modify, rule calm_flush[OF env(1)]) (use env(2) in simp_all)
    show "hoare (rinv ?g) (modify (\<lambda>s. s\<lparr>r_node := xa_erase (r_node s) p\<rparr>)) (\<lambda>_. rinv g)" for a
      by (rule hoare_modify, rule rinv_erase_node[OF _ p(2)])
  qed
  show "rinv g s'" by (rule hoareD[OF h w]) (use run e in simp)
qed

lemma rinv_unref:
  assumes r: "rinv (held_node g p) s" and p: "xa_load (r_node s) p = Some nd" and f: "g_fs g = {}"
  shows "rinv g (s\<lparr>r_node := xa_store (r_node s) p (n_ref_update (\<lambda>n. n - 1) nd)\<rparr>)"
proof -
  let ?nd = "n_ref_update (\<lambda>n. n - 1) nd" and ?g = "held_node g p"
  have d: "p \<notin> g_ds g" using pinned_not_dying[OF r, of p] by (simp add: pinned_def)
  have "rinv (?g\<lparr>g_hs := g_hs g, g_hn := g_hn g\<rparr>) (s\<lparr>r_node := xa_store (r_node s) p ?nd\<rparr>)"
    by (rule rinv_node_store[OF r p])
      (use node_wf_rinv[OF r p] node_refs[OF r p] rinv_grip[OF r] f d in \<open>auto simp: node_wf_def node_waits_def\<close>)
  then show ?thesis by simp
qed

lemma node_release_rinv:
  assumes env: "calm_env env" "g_ep g = {}" and g: "g_fs g = {}" "g_ns g = {}"
  shows "hoare (rinv (case p of None \<Rightarrow> g | Some q \<Rightarrow> held_node g q)) (qrtr_node_release env p) (\<lambda>_. rinv g)"
proof (cases p)
  case (Some q)
  have "hoare (rinv (held_node g q)) (State_Monad.bind (node q) (\<lambda>nd. State_Monad.bind (upd_node q (n_ref_update (\<lambda>n. n - 1)))
      (\<lambda>_. when_rt (n_ref nd \<le> 1) (node_free env q)))) (\<lambda>_. rinv g)"
  proof (rule hoareI)
    fix s a s' assume r: "rinv (held_node g q) s" and run: "run_state (State_Monad.bind (node q) (\<lambda>nd.
      State_Monad.bind (upd_node q (n_ref_update (\<lambda>n. n - 1))) (\<lambda>_. when_rt (n_ref nd \<le> 1) (node_free env q)))) s = (a, s')"
    obtain nd where nd: "xa_load (r_node s) q = Some nd" using pinned_alive[OF r, of q] by (auto simp: pinned_def)
    let ?s = "s\<lparr>r_node := xa_store (r_node s) q (n_ref_update (\<lambda>n. n - 1) nd)\<rparr>"
    have r1: "rinv g ?s" by (rule rinv_unref[OF r nd g(1)])
    show "rinv g s'"
    proof (cases "n_ref nd \<le> 1")
      case True
      have "count (g_hn g) q = 0" "\<not> n_ep nd" using node_refs[OF r nd] True by (simp_all add: one_if_def split: if_splits)
      then have pin: "q \<notin> pinned g" using r nd env(2) g(2) by (auto simp: pinned_def rinv_def grip_ok_def count_eq_zero_iff)
      have d: "q \<notin> g_ds g" using pinned_not_dying[OF r, of q] by (simp add: pinned_def)
      have "run_state (node_free env q) ?s = (a, s')"
        using run nd True by (simp add: node_def upd_node_def modify_def when_rt_def)
      then show ?thesis
        using hoareD[OF node_free_rinv[OF env _ pin d], of ?s a s'] rinv_grip[OF r1] r1 True by (auto simp: xa_load_store)
    next
      case False
      then have "s' = ?s" using run nd by (simp add: node_def upd_node_def modify_def when_rt_def)
      then show ?thesis using r1 by simp
    qed
  qed
  then show ?thesis by (simp add: qrtr_node_release_def Some)
qed (simp add: qrtr_node_release_def hoare_return)

section \<open>Local delivery\<close>

lemma local_enqueue_rinv:
  assumes "\<And>k. sb_sk skb = Some k \<Longrightarrow> k \<in> g_lk g"
  shows "hoare (rinv g) (qrtr_local_enqueue env skb src dst) (\<lambda>_. rinv g)"
  unfolding qrtr_local_enqueue_def
proof (rule hoare_grip, rule hoare_bind[OF port_lookup_rinv], rule hoare_option)
  fix ipc :: "sock_p option" assume c: "g_cs g \<subseteq> set_mset (g_hs g)"
  show "ipc = None \<Longrightarrow> hoare (rinv (case ipc of None \<Rightarrow> g | Some i \<Rightarrow> held g i))
      (ret (if sq_port dst = QRTR_PORT_CTRL then None else Some ENODEV)) (\<lambda>_. rinv g)"
    by (rule hoare_return) simp
  fix i assume i: "ipc = Some i"
  have forget: "rinv (held g i) s \<Longrightarrow> rinv g s" for s by (rule rinv_forget_sock[OF _ c])
  show "hoare (rinv (case ipc of None \<Rightarrow> g | Some i \<Rightarrow> held g i)) (if sb_sk skb = Some i then ret (Some ENODEV)
      else State_Monad.bind (case sb_sk skb of None \<Rightarrow> ret False | Some k \<Rightarrow> State_Monad.bind (sock k) (\<lambda>sk. ret (s_err sk))) (\<lambda>reset.
        if reset then ret None else State_Monad.bind (sock_queue_rcv env i
            (skb\<lparr>sb_cb := (sb_cb skb)\<lparr>cb_src_node := sq_node src, cb_src_port := sq_port src\<rparr>\<rparr>)) (\<lambda>rc.
          State_Monad.bind (qrtr_port_put i) (\<lambda>_. ret (if rc = None then None else Some ENOSPC))))) (\<lambda>_. rinv g)"
    unfolding i option.case
  proof (rule hoare_if)
    show "hoare (rinv (held g i)) (ret (Some ENODEV)) (\<lambda>_. rinv g)" by (rule hoare_return, rule forget)
  next
    have k: "hoare (rinv (held g i)) (case sb_sk skb of None \<Rightarrow> ret False
        | Some k \<Rightarrow> State_Monad.bind (sock k) (\<lambda>sk. ret (s_err sk))) (\<lambda>_. rinv (held g i))"
    proof (rule hoare_option)
      fix k assume "sb_sk skb = Some k"
      then have "k \<in> g_lk (held g i)" using assms by simp
      then show "hoare (rinv (held g i)) (State_Monad.bind (sock k) (\<lambda>sk. ret (s_err sk))) (\<lambda>_. rinv (held g i))"
        by (intro hoare_bind[OF hoare_sock[where Q = "\<lambda>_. rinv (held g i)"]] hoare_return locked_alive)
    qed (rule hoare_return)
    show "hoare (rinv (held g i)) (State_Monad.bind (case sb_sk skb of None \<Rightarrow> ret False
        | Some k \<Rightarrow> State_Monad.bind (sock k) (\<lambda>sk. ret (s_err sk))) (\<lambda>reset.
        if reset then ret None else State_Monad.bind (sock_queue_rcv env i
            (skb\<lparr>sb_cb := (sb_cb skb)\<lparr>cb_src_node := sq_node src, cb_src_port := sq_port src\<rparr>\<rparr>)) (\<lambda>rc.
          State_Monad.bind (qrtr_port_put i) (\<lambda>_. ret (if rc = None then None else Some ENOSPC))))) (\<lambda>_. rinv g)"
      by (rule hoare_bind[OF k], rule hoare_if, rule hoare_return, rule forget, assumption,
          rule hoare_bind[OF queue_rcv_rinv], simp, rule hoare_bind[OF port_put_rinv[OF c]], rule hoare_return)
  qed
qed

section \<open>Flow control\<close>

definition flow_at :: "node_p \<Rightarrow> u64 \<Rightarrow> qrtr_tx_flow \<Rightarrow> router \<Rightarrow> bool" where
  "flow_at p key fl s \<longleftrightarrow> (\<exists>nd. xa_load (r_node s) p = Some nd \<and> xa_load (n_tx_flow nd) key = Some fl)"

lemma flow_pending:
  assumes "rinv g s" "flow_at p key fl s"
  shows "fl_pending fl \<le> QRTR_TX_FLOW_HIGH"
proof -
  obtain nd where nd: "xa_load (r_node s) p = Some nd" "xa_load (n_tx_flow nd) key = Some fl"
    using assms(2) by (auto simp: flow_at_def)
  then show ?thesis using node_wf_rinv[OF assms(1) nd(1)] xa_values_set[of "n_tx_flow nd" fl] by (auto simp: node_wf_def)
qed

lemma rinv_set_flow:
  assumes r: "rinv g s" and p: "xa_load (r_node s) p = Some nd" "p \<notin> g_ds g" and fl: "fl_pending fl' \<le> QRTR_TX_FLOW_HIGH"
    and w: "flow_waits fl' + hs = (case xa_load (n_tx_flow nd) key of None \<Rightarrow> {#} | Some fl \<Rightarrow> flow_waits fl) + g_hs g"
    and cs: "g_cs g \<subseteq> set_mset hs"
  shows "rinv (g\<lparr>g_hs := hs\<rparr>) (s\<lparr>r_node := xa_store (r_node s) p (nd\<lparr>n_tx_flow := xa_store (n_tx_flow nd) key fl'\<rparr>)\<rparr>)"
proof -
  let ?nd = "nd\<lparr>n_tx_flow := xa_store (n_tx_flow nd) key fl'\<rparr>"
  have x: "xa_inv (n_tx_flow nd)" and v: "\<forall>fl \<in> set (xa_values (n_tx_flow nd)). fl_pending fl \<le> QRTR_TX_FLOW_HIGH"
    "\<forall>skb \<in> set (n_rx_queue nd). sb_sk skb = None"
    using node_wf_rinv[OF r p(1)] by (simp_all add: node_wf_def)
  have wf: "node_wf ?nd"
    unfolding node_wf_def using x v fl xa_values_set[OF xa_inv_store[OF x, of key fl']] xa_values_set[OF x]
    by (auto simp: xa_inv_store xa_load_store split: if_splits)
  have nw: "node_waits ?nd + hs = node_waits nd + g_hs g"
  proof (cases "xa_load (n_tx_flow nd) key")
    case None
    then show ?thesis using w vals_sum_store_new[OF None, of flow_waits fl'] by (simp add: node_waits_def add.assoc)
  next
    case (Some fl)
    let ?W = "vals_sum flow_waits (n_tx_flow nd)" and ?W' = "vals_sum flow_waits (xa_store (n_tx_flow nd) key fl')"
    have "?W' + hs + flow_waits fl = ?W + (flow_waits fl' + hs)"
      using vals_sum_store[OF x Some, of flow_waits fl'] by (simp only: ac_simps)
    also have "\<dots> = ?W + g_hs g + flow_waits fl" using w Some by (simp add: ac_simps)
    finally show ?thesis by (simp add: node_waits_def)
  qed
  have fs: "(p, k) \<in> g_fs g \<Longrightarrow> p \<in> pinned (g\<lparr>g_hn := g_hn g\<rparr>) \<and> xa_load (n_tx_flow ?nd) k \<noteq> None" for k
    using r p(1) by (fastforce simp: rinv_def grip_ok_def xa_load_store)
  have "rinv (g\<lparr>g_hs := hs, g_hn := g_hn g\<rparr>) (s\<lparr>r_node := xa_store (r_node s) p ?nd\<rparr>)"
    by (rule rinv_node_store[OF r p(1) wf nw cs _ _ _ _ _ fs]) (use node_refs[OF r p(1)] p(2) in simp_all)
  then show ?thesis by simp
qed

lemma hoare_set_flow:
  assumes "p \<in> pinned g" "fl_pending fl' \<le> QRTR_TX_FLOW_HIGH" "flow_waits fl' + hs = flow_waits fl + g_hs g" "g_cs g \<subseteq> set_mset hs"
  shows "hoare (\<lambda>s. rinv g s \<and> flow_at p key fl s) (set_flow p key fl') (\<lambda>_. rinv (g\<lparr>g_hs := hs\<rparr>))"
  unfolding set_flow_def
proof (rule hoare_upd_node)
  fix s assume s: "rinv g s \<and> flow_at p key fl s"
  then obtain nd where nd: "xa_load (r_node s) p = Some nd" "xa_load (n_tx_flow nd) key = Some fl" by (auto simp: flow_at_def)
  have "rinv (g\<lparr>g_hs := hs\<rparr>) (s\<lparr>r_node := xa_store (r_node s) p (nd\<lparr>n_tx_flow := xa_store (n_tx_flow nd) key fl'\<rparr>)\<rparr>)"
    by (rule rinv_set_flow) (use s nd assms pinned_not_dying[OF conjunct1[OF s] assms(1)] in simp_all)
  then show "\<exists>nd. xa_load (r_node s) p = Some nd \<and>
      rinv (g\<lparr>g_hs := hs\<rparr>) (s\<lparr>r_node := xa_store (r_node s) p (nd\<lparr>n_tx_flow := xa_store (n_tx_flow nd) key fl'\<rparr>)\<rparr>)"
    using nd by blast
qed

lemma hoare_set_flow_same:
  assumes "p \<in> pinned g" "fl_pending fl' \<le> QRTR_TX_FLOW_HIGH" "fl_waiters fl' = fl_waiters fl"
  shows "hoare (\<lambda>s. rinv g s \<and> flow_at p key fl s) (set_flow p key fl') (\<lambda>_. rinv g)"
proof (rule hoareI)
  fix s a s' assume s: "rinv g s \<and> flow_at p key fl s" and run: "run_state (set_flow p key fl') s = (a, s')"
  have h: "hoare (\<lambda>s. rinv g s \<and> flow_at p key fl s) (set_flow p key fl') (\<lambda>_. rinv (g\<lparr>g_hs := g_hs g\<rparr>))"
    by (rule hoare_set_flow) (use assms rinv_grip[OF conjunct1[OF s]] in \<open>simp_all add: flow_waits_def\<close>)
  show "rinv g s'" using hoareD[OF h s run] by simp
qed

lemma flow_rinv:
  assumes "(p, key) \<in> g_fs g"
  shows "hoare (rinv g) (flow p key) (\<lambda>fl s. rinv g s \<and> flow_at p key fl s)"
proof (rule hoareI)
  fix s fl s' assume r: "rinv g s" and run: "run_state (flow p key) s = (fl, s')"
  have "\<exists>nd fl. xa_load (r_node s) p = Some nd \<and> xa_load (n_tx_flow nd) key = Some fl"
    using r assms unfolding rinv_def grip_ok_def by blast
  then obtain nd fl0 where "xa_load (r_node s) p = Some nd" "xa_load (n_tx_flow nd) key = Some fl0" by blast
  then show "rinv g s' \<and> flow_at p key fl s'" using r run by (auto simp: flow_def node_def flow_at_def)
qed

lemma wake_up_all_rinv:
  assumes "p \<in> pinned g"
  shows "hoare (rinv g) (wake_up_all p) (\<lambda>_. rinv g)"
  unfolding wake_up_all_def by (rule quiet_upd_node[OF _ assms]) (simp add: quiet_node_def)

lemma resume_waiters_rinv:
  assumes c: "g_cs g \<subseteq> set_mset (g_hs g)"
  shows "hoare (rinv (held_all g (mset is))) (resume_waiters env src is) (\<lambda>_. rinv g)"
proof (induction "is")
  case (Cons i "is")
  let ?g = "held_all g (mset is)" and ?h = "held_all g (mset (i # is))"
  have h: "?h = held ?g i" by simp
  show ?case unfolding resume_waiters.simps
  proof (rule hoare_bind[OF alloc_rinv], rule hoare_bind, rule hoare_when)
    show "hoare (rinv ?h) (State_Monad.bind (sock i) (\<lambda>k. State_Monad.bind
        (qrtr_local_enqueue env \<lparr>sb_data = [], sb_cb = no_cb, sb_sk = None\<rparr> src (s_us k)) (\<lambda>_. ret ()))) (\<lambda>_. rinv ?h)"
    proof (rule hoare_bind)
      show "hoare (rinv ?h) (sock i) (\<lambda>_. rinv ?h)" by (rule hoare_sock, rule used_alive, assumption) (simp_all add: uses_def)
      show "hoare (rinv ?h) (State_Monad.bind (qrtr_local_enqueue env \<lparr>sb_data = [], sb_cb = no_cb, sb_sk = None\<rparr> src (s_us k))
          (\<lambda>_. ret ())) (\<lambda>_. rinv ?h)" for k
        by (rule hoare_discard, rule local_enqueue_rinv) simp
    qed
    show "hoare (rinv ?h) (State_Monad.bind (sock_put i) (\<lambda>_. resume_waiters env src is)) (\<lambda>_. rinv g)" for a
      unfolding h by (rule hoare_bind[OF hoare_sock_put Cons.IH]) (use c in auto)
  qed
qed (simp add: hoare_return)

lemma tx_resume_rinv:
  assumes p: "p \<in> pinned g"
  shows "hoare (rinv g) (qrtr_tx_resume env p skb) (\<lambda>_. rinv g)"
  unfolding qrtr_tx_resume_def Let_def
proof (rule hoare_grip, rule hoare_if, rule hoare_return, assumption, rule hoare_bind[OF node_rinv[OF p]], rule hoare_option)
  let ?pkt = "copy_ctrl (sb_data skb) (server_pkt 0 0 0 0 0)"
  let ?src = "\<lparr>sq_node = client_node ?pkt, sq_port = client_port ?pkt\<rparr>"
  fix nd :: qrtr_node and fl assume c: "g_cs g \<subseteq> set_mset (g_hs g)" and fl: "xa_load (n_tx_flow nd) (flow_key ?src) = Some fl"
  have f: "flow_at p (flow_key ?src) fl s" if "rinv g s \<and> xa_load (r_node s) p = Some nd" for s using that fl by (auto simp: flow_at_def)
  show "hoare (\<lambda>s. rinv g s \<and> xa_load (r_node s) p = Some nd)
    (State_Monad.bind (set_flow p (flow_key ?src) (fl\<lparr>fl_pending := 0, fl_waiters := []\<rparr>))
      (\<lambda>_. State_Monad.bind (wake_up_all p) (\<lambda>_. resume_waiters env ?src (fl_waiters fl)))) (\<lambda>_. rinv g)"
    by (rule hoare_bind[OF hoare_pre[OF hoare_set_flow[OF p, where hs = "mset (fl_waiters fl) + g_hs g"]]
          hoare_bind[OF wake_up_all_rinv resume_waiters_rinv[OF c]]])
      (use c f p in \<open>auto simp: flow_waits_def pinned_def\<close>)
qed (rule hoare_return, simp)

lemma add_waiter_rinv:
  assumes fs: "(p, key) \<in> g_fs g" "p \<in> pinned g" and sk: "sk \<in> g_lk g" and c: "g_cs g \<subseteq> set_mset (g_hs g)"
  shows "hoare (rinv g) (add_waiter env p key sk) (\<lambda>_. rinv g)"
  unfolding add_waiter_def
proof (rule hoare_bind[OF flow_rinv[OF fs(1)]], rule hoare_if)
  fix fl
  let ?P = "\<lambda>s. rinv g s \<and> flow_at p key fl s" and ?fl = "fl\<lparr>fl_waiters := fl_waiters fl @ [sk]\<rparr>"
  show "hoare ?P (ret EAGAIN) (\<lambda>_. rinv g)" by (rule hoare_return) simp
  have f: "keeps r_node (alloc env)" "keeps r_node (sock_hold sk)" by (intro keeps_rules; simp)+
  let ?at = "\<lambda>m. \<exists>nd. xa_load m p = Some nd \<and> xa_load (n_tx_flow nd) key = Some fl"
  show "hoare ?P (State_Monad.bind (alloc env) (\<lambda>ok. if \<not> ok then ret ENOMEM else
      State_Monad.bind (sock_hold sk) (\<lambda>_. State_Monad.bind (set_flow p key ?fl) (\<lambda>_. ret EAGAIN)))) (\<lambda>_. rinv g)"
  proof (rule hoare_bind, rule hoare_pre[OF hoare_keeps[OF alloc_rinv f(1), where R = ?at]])
    show "\<And>s. ?P s \<Longrightarrow> rinv g s \<and> ?at (r_node s)" by (simp add: flow_at_def)
    fix ok
    show "hoare (\<lambda>s. rinv g s \<and> ?at (r_node s)) (if \<not> ok then ret ENOMEM else
      State_Monad.bind (sock_hold sk) (\<lambda>_. State_Monad.bind (set_flow p key ?fl) (\<lambda>_. ret EAGAIN))) (\<lambda>_. rinv g)"
    proof (rule hoare_if, rule hoare_return, simp, rule hoare_bind)
      have "hoare (rinv g) (sock_hold sk) (\<lambda>_. rinv (held g sk))" by (rule hoare_sock_hold) (use locked_alive sk in blast)
      then show "hoare (\<lambda>s. rinv g s \<and> ?at (r_node s)) (sock_hold sk) (\<lambda>_ s. rinv (held g sk) s \<and> ?at (r_node s))"
        by (rule hoare_keeps[OF _ f(2)])
      show "hoare (\<lambda>s. rinv (held g sk) s \<and> ?at (r_node s)) (State_Monad.bind (set_flow p key ?fl) (\<lambda>_. ret EAGAIN)) (\<lambda>_. rinv g)" for a
      proof (rule hoare_discard, rule hoareI)
        fix s b s' assume s: "rinv (held g sk) s \<and> ?at (r_node s)" and run: "run_state (set_flow p key ?fl) s = (b, s')"
        have fl: "fl_pending fl \<le> QRTR_TX_FLOW_HIGH" using flow_pending[of "held g sk" s p key fl] s by (simp add: flow_at_def)
        have h: "hoare (\<lambda>s. rinv (held g sk) s \<and> flow_at p key fl s) (set_flow p key ?fl) (\<lambda>_. rinv ((held g sk)\<lparr>g_hs := g_hs g\<rparr>))"
          by (rule hoare_set_flow) (use fs fl c in \<open>simp_all add: flow_waits_def pinned_def\<close>)
        show "rinv g s'" using hoareD[OF h _ run] s by (simp add: flow_at_def)
      qed
    qed
  qed
qed

lemma flow_try_rinv:
  assumes fs: "(p, key) \<in> g_fs g" "p \<in> pinned g"
  shows "hoare (rinv g) (flow_try p key) (\<lambda>_. rinv g)"
  unfolding flow_try_def
proof (rule hoare_bind[OF flow_rinv[OF fs(1)]])
  fix fl
  let ?P = "\<lambda>s. rinv g s \<and> flow_at p key fl s"
  have pend: "fl_pending fl \<le> QRTR_TX_FLOW_HIGH" if "?P s" for s using flow_pending that by blast
  have set: "hoare ?P (State_Monad.bind (set_flow p key fl') (\<lambda>_. ret r)) (\<lambda>_. rinv g)"
    if "fl_pending fl' \<le> QRTR_TX_FLOW_HIGH" "fl_waiters fl' = fl_waiters fl" for fl' and r :: "bool option"
    by (rule hoare_discard, rule hoare_set_flow_same[OF fs(2) that])
  show "hoare ?P (if fl_tx_failed fl then State_Monad.bind (set_flow p key (fl\<lparr>fl_tx_failed := False\<rparr>)) (\<lambda>_. ret (Some True))
      else if fl_pending fl < QRTR_TX_FLOW_HIGH then State_Monad.bind (set_flow p key (fl\<lparr>fl_pending := fl_pending fl + 1\<rparr>))
        (\<lambda>_. ret (Some (fl_pending fl + 1 = QRTR_TX_FLOW_LOW)))
      else ret None) (\<lambda>_. rinv g)"
  proof (cases "fl_pending fl \<le> QRTR_TX_FLOW_HIGH")
    case True
    then show ?thesis by (intro hoare_if set hoare_return) simp_all
  qed (use pend in \<open>auto simp: hoare_def\<close>)
qed

lemma tx_asleep_rinv:
  assumes ep: "g_ep g = {}" and fs: "(p, key) \<in> g_fs g" "p \<in> pinned g" and sk: "sk \<in> g_lk g"
    and c: "g_cs g \<subseteq> set_mset (g_hs g)" and ws: "\<forall>(t, look, f) \<in> set ws. calm f"
  shows "hoare (rinv g) (tx_asleep env p key sk ws) (\<lambda>_. rinv g)"
proof -
  have n: "hoare (rinv g) (node p) (\<lambda>_. rinv g)" by (rule hoare_post[OF node_rinv[OF fs(2)]]) simp
  note attempt = flow_try_rinv[OF fs] and wait = add_waiter_rinv[OF fs sk c]
  show ?thesis using ws
  proof (induction ws)
    case Nil
    show ?case unfolding tx_asleep.simps by (intro hoare_bind[OF n] hoare_if hoare_bind[OF attempt] hoare_return) simp_all
  next
    case (Cons w ws)
    obtain t look f where w: "w = (t, look, f)" by (metis prod_cases3)
    have m: "hoare (rinv g) (modify f) (\<lambda>_. rinv g)" using Cons.prems ep by (auto simp: w calm_def intro: hoare_modify)
    show ?case unfolding w tx_asleep.simps
      by (intro hoare_bind[OF n] hoare_bind[OF m] hoare_if hoare_bind[OF attempt] hoare_option hoare_bind[OF wait] hoare_return Cons.IH)
        (use Cons.prems in simp_all)
  qed
qed

lemma tx_wait_loop_rinv:
  assumes ep: "g_ep g = {}" and fs: "(p, key) \<in> g_fs g" "p \<in> pinned g" and sk: "sk \<in> g_lk g"
    and c: "g_cs g \<subseteq> set_mset (g_hs g)" and ws: "\<forall>(t, look, f) \<in> set ws. calm f"
  shows "hoare (rinv g) (tx_wait_loop env p key sk ws timeo) (\<lambda>_. rinv g)"
proof -
  have n: "hoare (rinv g) (node p) (\<lambda>_. rinv g)" by (rule hoare_post[OF node_rinv[OF fs(2)]]) simp
  show ?thesis unfolding tx_wait_loop_def
    by (intro hoare_bind[OF flow_try_rinv[OF fs]] hoare_option hoare_if hoare_bind[OF add_waiter_rinv[OF fs sk c]] hoare_bind[OF n]
        tx_asleep_rinv[OF assms] hoare_return) simp_all
qed

lemma rinv_grip_flow:
  assumes "rinv g s" "flow_at p key fl s" "p \<in> pinned g"
  shows "rinv (g\<lparr>g_fs := insert (p, key) (g_fs g)\<rparr>) s"
  using assms by (auto simp: rinv_def sock_ok_def node_ok_def bound_ok_def grip_ok_def uses_def flow_at_def)

lemma tx_wait_rinv:
  assumes env: "calm_env env" "g_ep g = {}" and p: "p \<in> pinned g" and sk: "sk \<in> g_lk g"
  shows "hoare (rinv g) (qrtr_tx_wait env p dst sk type flags) (\<lambda>_. rinv g)"
  unfolding qrtr_tx_wait_def Let_def
proof (rule hoare_grip, rule hoare_if, rule hoare_return, assumption, rule hoare_bind[OF node_rinv[OF p]])
  fix nd :: qrtr_node assume c: "g_cs g \<subseteq> set_mset (g_hs g)"
  let ?key = "flow_key dst" and ?timeo = "if flags AND MSG_DONTWAIT \<noteq> 0 then 0 else sndtimeo env"
  let ?g = "g\<lparr>g_fs := insert (p, ?key) (g_fs g)\<rparr>"
  let ?P = "\<lambda>s. rinv g s \<and> xa_load (r_node s) p = Some nd"
  have loop: "hoare (rinv ?g) (tx_wait_loop env p ?key sk (wait_rc env n) ?timeo) (\<lambda>_. rinv g)" for n
  proof (rule hoare_post[OF tx_wait_loop_rinv])
    show "\<forall>(t, look, f) \<in> set (wait_rc env n). calm f" using env(1) by (simp add: calm_env_def)
    show "rinv ?g s \<Longrightarrow> rinv g s" for s by (rule rinv_forget_flow)
  qed (use env p sk c in simp_all)
  have k: "keeps r_node tick" "keeps r_node (alloc env)" by (intro keeps_rules; simp)+
  have t: "hoare ?P tick (\<lambda>_. ?P)" "hoare ?P (alloc env) (\<lambda>_. ?P)"
    using hoare_keeps[OF tick_rinv k(1), where R = "\<lambda>m. xa_load m p = Some nd"]
      hoare_keeps[OF alloc_rinv k(2), where R = "\<lambda>m. xa_load m p = Some nd"] by simp_all
  have new: "hoare ?P (set_flow p ?key no_flow) (\<lambda>_. rinv ?g)" if "xa_load (n_tx_flow nd) ?key = None"
    unfolding set_flow_def
  proof (rule hoare_upd_node)
    fix s assume s: "?P s"
    let ?s = "s\<lparr>r_node := xa_store (r_node s) p (nd\<lparr>n_tx_flow := xa_store (n_tx_flow nd) ?key no_flow\<rparr>)\<rparr>"
    have "rinv (g\<lparr>g_hs := g_hs g\<rparr>) ?s"
      by (rule rinv_set_flow) (use s that c pinned_not_dying[OF conjunct1[OF s] p] in \<open>simp_all add: no_flow_def flow_waits_def\<close>)
    then have "rinv ?g ?s" by (intro rinv_grip_flow[OF _ _ p, where fl = no_flow]) (simp_all add: flow_at_def xa_load_store)
    then show "\<exists>nd. xa_load (r_node s) p = Some nd \<and>
        rinv ?g (s\<lparr>r_node := xa_store (r_node s) p (nd\<lparr>n_tx_flow := xa_store (n_tx_flow nd) ?key no_flow\<rparr>)\<rparr>)" using s by blast
  qed
  have old: "hoare ?P (tx_wait_loop env p ?key sk (wait_rc env n) ?timeo) (\<lambda>_. rinv g)"
    if "xa_load (n_tx_flow nd) ?key = Some fl" for n fl
    by (rule hoare_pre[OF loop]) (use that p in \<open>auto intro!: rinv_grip_flow simp: flow_at_def\<close>)
  show "hoare ?P (State_Monad.bind tick (\<lambda>n. case xa_load (n_tx_flow nd) ?key of
      None \<Rightarrow> State_Monad.bind (alloc env) (\<lambda>ok. if \<not> ok then ret (Inr True) else State_Monad.bind (alloc env) (\<lambda>ins.
        if \<not> ins then ret (Inr False) else State_Monad.bind (set_flow p ?key no_flow)
          (\<lambda>_. tx_wait_loop env p ?key sk (wait_rc env n) ?timeo)))
    | Some fl \<Rightarrow> tx_wait_loop env p ?key sk (wait_rc env n) ?timeo)) (\<lambda>_. rinv g)"
    by (intro hoare_bind[OF t(1)] hoare_option hoare_bind[OF t(2)] hoare_if hoare_bind[OF new loop] old)
      (auto intro: hoare_return)
qed

lemma tx_flow_failed_rinv:
  assumes p: "p \<in> pinned g"
  shows "hoare (rinv g) (qrtr_tx_flow_failed p dest_node dest_port) (\<lambda>_. rinv g)"
  unfolding qrtr_tx_flow_failed_def
proof (rule hoare_bind[OF node_rinv[OF p]], rule hoare_option, rule hoare_return, simp)
  let ?key = "flow_key_int dest_node dest_port"
  fix nd :: qrtr_node and fl assume fl: "xa_load (n_tx_flow nd) ?key = Some fl"
  show "hoare (\<lambda>s. rinv g s \<and> xa_load (r_node s) p = Some nd) (set_flow p ?key (fl\<lparr>fl_tx_failed := True\<rparr>)) (\<lambda>_. rinv g)"
  proof (rule hoareI)
    fix s a s' assume s: "rinv g s \<and> xa_load (r_node s) p = Some nd" and run: "run_state (set_flow p ?key (fl\<lparr>fl_tx_failed := True\<rparr>)) s = (a, s')"
    then have f: "rinv g s \<and> flow_at p ?key fl s" using fl by (auto simp: flow_at_def)
    have h: "hoare (\<lambda>s. rinv g s \<and> flow_at p ?key fl s) (set_flow p ?key (fl\<lparr>fl_tx_failed := True\<rparr>)) (\<lambda>_. rinv g)"
      by (rule hoare_set_flow_same[OF p]) (use flow_pending f in auto)
    show "rinv g s'" by (rule hoareD[OF h f run])
  qed
qed

section \<open>Sending to an endpoint\<close>

lemma node_xmit_rinv:
  assumes p: "p \<in> pinned g"
  shows "hoare (rinv g) (node_xmit env p pkt) (\<lambda>_. rinv g)"
  unfolding node_xmit_def
  by (rule hoare_bind[OF hoare_post[OF node_rinv[OF p], where Q' = "\<lambda>_. rinv g"]], simp, rule hoare_if, rule hoare_return, assumption,
      rule hoare_bind[OF tick_rinv], rule hoare_option, rule hoare_discard, rule hoare_modify, simp, rule hoare_return)

lemma send_packet_rinv:
  assumes p: "p \<in> pinned g"
  shows "hoare (rinv g) (send_packet env p skb type src dst confirm_rx) (\<lambda>_. rinv g)"
proof -
  have w: "hoare (rinv g) (when_rt b (qrtr_tx_flow_failed p x y)) (\<lambda>_. rinv g)"
    "hoare (rinv g) (when_rt b (upd_node p (n_hello_sent_update Suc))) (\<lambda>_. rinv g)" for b x y
    by (rule hoare_when, rule tx_flow_failed_rinv[OF p], assumption)
      (rule hoare_when, rule quiet_upd_node[OF _ p], simp add: quiet_node_def)
  show ?thesis unfolding send_packet_def Let_def
    by (rule hoare_bind[OF hoare_post[OF node_rinv[OF p], where Q' = "\<lambda>_. rinv g"]], simp, rule hoare_bind[OF tick_rinv], rule hoare_option,
        rule hoare_bind[OF node_xmit_rinv[OF p]], rule hoare_bind[OF w(1)], rule hoare_bind[OF w(2)], rule hoare_return, assumption, rule hoare_return)
qed

lemma node_enqueue_rinv:
  assumes p: "p \<in> pinned g" and sk: "\<And>k. sb_sk skb = Some k \<Longrightarrow> k \<in> g_lk g \<and> g_ep g = {} \<and> calm_env env"
  shows "hoare (rinv g) (qrtr_node_enqueue env p skb type src dst flags) (\<lambda>_. rinv g)"
  unfolding qrtr_node_enqueue_def
proof (rule hoare_bind[OF hoare_post[OF node_rinv[OF p], where Q' = "\<lambda>_. rinv g"]], simp, intro hoare_if hoare_return, assumption, assumption,
    rule hoare_option, rule send_packet_rinv[OF p])
  fix k assume "sb_sk skb = Some k"
  then have k: "k \<in> g_lk g" "g_ep g = {}" "calm_env env" using sk by auto
  show "hoare (rinv g) (State_Monad.bind (qrtr_tx_wait env p dst k type flags)
      (case_sum (\<lambda>e. ret (Some e)) (send_packet env p skb type src dst))) (\<lambda>_. rinv g)"
    by (rule hoare_bind[OF tx_wait_rinv[OF k(3,2) p k(1)]], rule hoare_sum, rule hoare_return, assumption, rule send_packet_rinv[OF p])
qed

end
