(* ===== verification/Qrtr_Refs_Endpoint.thy ===== *)
theory Qrtr_Refs_Endpoint
  imports Qrtr_Refs_Flow
begin

text \<open>The invariant of the reference counts, continued: what endpoints call and the work of their threads.\<close>

section \<open>Received packets\<close>

lemma get_backup_rinv: "hoare (rinv g) (qrtr_get_backup len) (\<lambda>_. rinv g)"
  unfolding qrtr_get_backup_def
  by (rule hoare_bind[OF hoare_gets[where Q = "\<lambda>_. rinv g"]], assumption, rule hoare_bind[OF hoare_gets[where Q = "\<lambda>_. rinv g"]], assumption,
      intro hoare_if hoare_discard hoare_modify hoare_return; simp)

lemma post_buffer_rinv: "hoare (rinv g) (post_buffer env len) (\<lambda>_. rinv g)"
  unfolding post_buffer_def by (rule hoare_bind[OF alloc_rinv], rule hoare_if, rule hoare_return, assumption, rule get_backup_rinv)

lemma endpoint_post_rinv:
  assumes p: "p \<in> pinned g"
  shows "hoare (rinv g) (qrtr_endpoint_post env p data) (\<lambda>_. rinv g)"
  unfolding qrtr_endpoint_post_def
proof (rule hoare_grip, rule hoare_if, rule hoare_return, assumption, rule hoare_bind[OF post_buffer_rinv], rule hoare_if, rule hoare_return,
    assumption, rule hoare_option, rule hoare_return, assumption)
  fix x :: "qrtr_cb \<times> u8 list \<times> u8 list" assume c: "g_cs g \<subseteq> set_mset (g_hs g)"
  obtain cb body payload where x: "x = (cb, body, payload)" by (cases x)
  let ?skb = "\<lparr>sb_data = payload, sb_cb = cb, sb_sk = None\<rparr>"
  have q: "hoare (rinv g) (upd_node p (n_rx_queue_update (\<lambda>q. q @ [?skb]))) (\<lambda>_. rinv g)"
    by (rule quiet_upd_node[OF _ p]) (auto simp: quiet_node_def)
  have w: "hoare (rinv g) (when_rt b (qrtr_node_assign env p nid)) (\<lambda>_. rinv g)" for b nid
    by (rule hoare_when[OF node_assign_rinv[OF p]])
  have d: "hoare (rinv (case ipc of None \<Rightarrow> g | Some i \<Rightarrow> held g i)) (case ipc of None \<Rightarrow> ret (Some ENODEV)
      | Some i \<Rightarrow> State_Monad.bind (sock_queue_rcv env i ?skb) (\<lambda>rc. if rc \<noteq> None then ret (Some EINVAL)
          else State_Monad.bind (qrtr_port_put i) (\<lambda>_. ret None))) (\<lambda>_. rinv g)" for ipc
  proof (cases ipc)
    case (Some i)
    show ?thesis unfolding Some option.case
      by (rule hoare_bind[OF queue_rcv_rinv], simp, rule hoare_if, rule hoare_return, rule rinv_forget_sock[OF _ c], assumption,
          rule hoare_discard, rule port_put_rinv[OF c])
  qed (simp, rule hoare_return, simp)
  show "hoare (rinv g) (case x of (cb, body, payload) \<Rightarrow> State_Monad.bind (qrtr_node_assign env p (cb_src_node cb)) (\<lambda>_.
      State_Monad.bind (when_rt (ucast (cb_type cb) = QRTR_TYPE_NEW_SERVER) (qrtr_node_assign env p (new_server_node env body))) (\<lambda>_.
      let skb = \<lparr>sb_data = payload, sb_cb = cb, sb_sk = None\<rparr> in
      if ucast (cb_type cb) \<noteq> QRTR_TYPE_DATA \<or> cb_dst_node cb \<noteq> local_nid env then
        State_Monad.bind (upd_node p (n_rx_queue_update (\<lambda>q. q @ [skb]))) (\<lambda>_. ret None)
      else State_Monad.bind (qrtr_port_lookup (cb_dst_port cb)) (\<lambda>ipc. case ipc of None \<Rightarrow> ret (Some ENODEV)
      | Some i \<Rightarrow> State_Monad.bind (sock_queue_rcv env i skb) (\<lambda>rc. if rc \<noteq> None then ret (Some EINVAL)
          else State_Monad.bind (qrtr_port_put i) (\<lambda>_. ret None)))))) (\<lambda>_. rinv g)"
    unfolding x prod.case Let_def
    by (rule hoare_bind[OF node_assign_rinv[OF p]], rule hoare_bind[OF w], rule hoare_if, rule hoare_discard, rule q,
        rule hoare_bind[OF port_lookup_rinv], rule d)
qed

section \<open>Forwarding\<close>

lemma node_any_rinv: "p \<in> pinned g \<Longrightarrow> hoare (rinv g) (node p) (\<lambda>_. rinv g)"
  by (rule hoare_post[OF node_rinv]) auto

lemma must_forward_rinv:
  assumes "\<And>p. src = Some p \<Longrightarrow> p \<in> pinned g" "\<And>q. dst = Some q \<Longrightarrow> q \<in> pinned g"
  shows "hoare (rinv g) (qrtr_must_forward src dst type) (\<lambda>_. rinv g)"
  unfolding qrtr_must_forward_def Let_def
proof (intro hoare_option hoare_if; (rule hoare_return, assumption)?)
  fix p q assume "src = Some p" "dst = Some q"
  then have n: "p \<in> pinned g" "q \<in> pinned g" using assms by auto
  show "hoare (rinv g) (State_Monad.bind (node p) (\<lambda>s. State_Monad.bind (node q) (\<lambda>d. ret (q \<noteq> p \<and> n_nid d \<noteq> QRTR_EP_NID_AUTO \<and>
      1 < sint (if sint (n_net_id d - n_net_id s) < 0 then - (n_net_id d - n_net_id s) else n_net_id d - n_net_id s))))) (\<lambda>_. rinv g)"
    by (rule hoare_bind[OF node_any_rinv[OF n(1)]], rule hoare_bind[OF node_any_rinv[OF n(2)]], rule hoare_return)
qed

lemma fwd_ctrl_loop_rinv:
  assumes src: "src \<in> pinned g" and skb: "sb_sk skb = None"
  shows "set ps \<subseteq> pinned g \<Longrightarrow> hoare (rinv g) (fwd_ctrl_loop env src skb ps) (\<lambda>_. rinv g)"
proof (induction ps)
  case (Cons p ps)
  then have p: "p \<in> pinned g" and IH: "hoare (rinv g) (fwd_ctrl_loop env src skb ps) (\<lambda>_. rinv g)" by auto
  show ?case unfolding fwd_ctrl_loop.simps Let_def
    by (rule hoare_bind[OF must_forward_rinv], use src p in blast, use p in blast, rule hoare_if, rule IH, rule hoare_bind[OF alloc_rinv], rule hoare_if,
        rule hoare_return, assumption, rule hoare_bind[OF node_any_rinv[OF p]], rule hoare_bind[OF node_enqueue_rinv[OF p]], use skb in simp, rule IH)
qed (simp, rule hoare_return)

text \<open>With the lock of the list held, the nodes on the list stay.\<close>

lemma with_epts_rinv:
  assumes g: "g_ns g = {}" "g_fs g = {}" and f: "\<And>epts. hoare (rinv (g\<lparr>g_ns := set epts\<rparr>)) (f epts) (\<lambda>_. rinv (g\<lparr>g_ns := set epts\<rparr>))"
  shows "hoare (rinv g) (with_epts f) (\<lambda>_. rinv g)"
  unfolding with_epts_def
proof (rule hoare_bind)
  show "hoare (rinv g) (modify (r_epts_lock_update Suc)) (\<lambda>_ s. rinv (g\<lparr>g_ns := set (r_epts s)\<rparr>) s)"
  proof (rule hoare_modify)
    fix s assume r: "rinv g s"
    let ?s = "r_epts_lock_update Suc s" and ?g = "g\<lparr>g_ns := set (r_epts s)\<rparr>"
    have pin: "p \<in> pinned g \<Longrightarrow> p \<in> pinned ?g" for p using g(1) by (auto simp: pinned_def)
    have u: "uses ?g ?s = uses g s" "listed ?s = listed s" by (simp_all add: uses_def listed_def fun_eq_iff)
    have "grip_ok ?g ?s" using r pin unfolding rinv_def grip_ok_def u by auto
    then show "rinv (g\<lparr>g_ns := set (r_epts ?s)\<rparr>) ?s"
      using r by (simp add: rinv_def shape_def sock_ok_def node_ok_def bound_ok_def u)
  qed
  show "hoare (\<lambda>s. rinv (g\<lparr>g_ns := set (r_epts s)\<rparr>) s) (State_Monad.bind (gets r_epts) (\<lambda>epts. State_Monad.bind (f epts)
      (\<lambda>_. modify (r_epts_lock_update (\<lambda>n. n - 1))))) (\<lambda>_. rinv g)" for a
  proof (rule hoare_bind)
    show "hoare (\<lambda>s. rinv (g\<lparr>g_ns := set (r_epts s)\<rparr>) s) (gets r_epts) (\<lambda>epts. rinv (g\<lparr>g_ns := set epts\<rparr>))"
      by (rule hoare_gets) simp
    fix epts
    show "hoare (rinv (g\<lparr>g_ns := set epts\<rparr>)) (State_Monad.bind (f epts) (\<lambda>_. modify (r_epts_lock_update (\<lambda>n. n - 1)))) (\<lambda>_. rinv g)"
    proof (rule hoare_bind[OF f], rule hoare_modify)
      fix s assume r: "rinv (g\<lparr>g_ns := set epts\<rparr>) s"
      let ?s = "r_epts_lock_update (\<lambda>n. n - 1) s"
      have u: "uses g ?s = uses (g\<lparr>g_ns := set epts\<rparr>) s" "listed ?s = listed s" by (simp_all add: uses_def listed_def fun_eq_iff)
      have "grip_ok g ?s" using r g unfolding rinv_def grip_ok_def u by auto
      then show "rinv g ?s" using r by (simp add: rinv_def shape_def sock_ok_def node_ok_def bound_ok_def u del: One_nat_def)
    qed
  qed
qed

lemma fwd_ctrl_rinv:
  assumes src: "src \<in> pinned g" and skb: "sb_sk skb = None" and g: "g_ns g = {}" "g_fs g = {}"
  shows "hoare (rinv g) (qrtr_fwd_ctrl_pkt env src skb) (\<lambda>_. rinv g)"
  unfolding qrtr_fwd_ctrl_pkt_def
  by (rule with_epts_rinv[OF g], rule fwd_ctrl_loop_rinv[OF _ skb]) (use src g in \<open>auto simp: pinned_def\<close>)

lemma fwd_pkt_rinv:
  assumes env: "calm_env env" "g_ep g = {}" and g: "g_fs g = {}" "g_ns g = {}" and skb: "sb_sk skb = None"
  shows "hoare (rinv g) (qrtr_fwd_pkt env skb) (\<lambda>_. rinv g)"
  unfolding qrtr_fwd_pkt_def Let_def
proof (rule hoare_bind[OF node_lookup_rinv], rule hoare_option)
  fix nd :: "node_p option" and p
  assume nd: "nd = Some p"
  let ?cb = "sb_cb skb"
  have rel: "hoare (rinv (held_node g p)) (qrtr_node_release env (Some p)) (\<lambda>_. rinv g)"
    using node_release_rinv[OF env g, of "Some p"] by simp
  show "hoare (rinv (case nd of None \<Rightarrow> g | Some p \<Rightarrow> held_node g p))
    (State_Monad.bind (qrtr_node_enqueue env p skb (ucast (cb_type ?cb)) \<lparr>sq_node = cb_src_node ?cb, sq_port = cb_src_port ?cb\<rparr>
      \<lparr>sq_node = cb_dst_node ?cb, sq_port = cb_dst_port ?cb\<rparr> 0) (\<lambda>_. qrtr_node_release env (Some p))) (\<lambda>_. rinv g)"
    unfolding nd option.case by (rule hoare_bind[OF node_enqueue_rinv rel]) (use skb in \<open>simp_all add: pinned_def\<close>)
qed (rule hoare_return, simp)

section \<open>The work of the threads\<close>

lemma sock_queue_skb_rinv:
  assumes p: "p \<in> pinned g" and i: "i \<in># g_hs g"
  shows "hoare (rinv g) (qrtr_sock_queue_skb env p skb i) (\<lambda>_. rinv g)"
proof -
  have h: "hoare (rinv g) (upd_node p (n_hello_rcvd_update Suc)) (\<lambda>_. rinv g)"
    by (rule quiet_upd_node[OF _ p]) (simp add: quiet_node_def)
  show ?thesis unfolding qrtr_sock_queue_skb_def
    by (rule hoare_bind[OF node_any_rinv[OF p]], rule hoare_if, rule hoare_return, assumption, rule hoare_bind[OF hoare_when[OF h]], assumption,
        rule hoare_discard, rule queue_rcv_rinv) (use i in simp)
qed

lemma rx_packet_rinv:
  assumes env: "calm_env env" "g_ep g = {}" and g: "g_fs g = {}" "g_ns g = {}" and p: "p \<in> pinned g" and skb: "sb_sk skb = None"
  shows "hoare (rinv g) (rx_packet env p skb) (\<lambda>_. rinv g)"
  unfolding rx_packet_def Let_def
proof (rule hoare_grip, rule hoare_bind[OF hoare_when[OF fwd_ctrl_rinv[OF p skb g(2,1)]]], assumption, intro hoare_if fwd_pkt_rinv env g skb tx_resume_rinv p)
  assume c: "g_cs g \<subseteq> set_mset (g_hs g)"
  show "hoare (rinv g) (State_Monad.bind (qrtr_port_lookup (cb_dst_port (sb_cb skb))) (\<lambda>ipc. case ipc of None \<Rightarrow> ret ()
      | Some i \<Rightarrow> State_Monad.bind (qrtr_sock_queue_skb env p skb i) (\<lambda>_. qrtr_port_put i))) (\<lambda>_. rinv g)"
  proof (rule hoare_bind[OF port_lookup_rinv], rule hoare_option, rule hoare_return, simp)
    fix ipc :: "sock_p option" and i assume i: "ipc = Some i"
    show "hoare (rinv (case ipc of None \<Rightarrow> g | Some i \<Rightarrow> held g i)) (State_Monad.bind (qrtr_sock_queue_skb env p skb i) (\<lambda>_. qrtr_port_put i)) (\<lambda>_. rinv g)"
      unfolding i option.case by (rule hoare_bind[OF sock_queue_skb_rinv port_put_rinv[OF c]]) (use p in simp_all)
  qed
qed

lemma hoare_fact: "(b \<Longrightarrow> hoare P f Q) \<Longrightarrow> hoare (\<lambda>s. P s \<and> b) f Q"
  by (auto simp: hoare_def)

lemma set_tl: "x \<in> set (tl xs) \<Longrightarrow> x \<in> set xs"
  by (cases xs) simp_all

lemma rx_loop_rinv:
  assumes env: "calm_env env" "g_ep g = {}" and g: "g_fs g = {}" "g_ns g = {}" and p: "p \<in> pinned g"
  shows "\<forall>skb \<in> set skbs. sb_sk skb = None \<Longrightarrow> hoare (rinv g) (rx_loop env p skbs) (\<lambda>_. rinv g)"
proof (induction skbs)
  case (Cons skb skbs)
  have t: "hoare (rinv g) (upd_node p (n_rx_queue_update tl)) (\<lambda>_. rinv g)"
    by (rule quiet_upd_node[OF _ p]) (auto simp: quiet_node_def dest: set_tl)
  show ?case unfolding rx_loop.simps
    by (rule hoare_bind[OF t], rule hoare_bind[OF rx_packet_rinv[OF env g p]], use Cons in simp, use Cons in simp)
qed (simp, rule hoare_return)

lemma rx_work_rinv:
  assumes env: "calm_env env" "g_ep g = {}" and g: "g_fs g = {}" "g_ns g = {}" and p: "p \<in> pinned g"
  shows "hoare (rinv g) (qrtr_node_rx_work env p) (\<lambda>_. rinv g)"
  unfolding qrtr_node_rx_work_def
proof (rule hoare_bind[OF node_rinv[OF p]])
  fix nd
  show "hoare (\<lambda>s. rinv g s \<and> xa_load (r_node s) p = Some nd) (rx_loop env p (n_rx_queue nd)) (\<lambda>_. rinv g)"
  proof (cases "\<forall>skb \<in> set (n_rx_queue nd). sb_sk skb = None")
    case True
    then show ?thesis by (intro hoare_pre[OF rx_loop_rinv[OF env g p]]) auto
  next
    case False
    then show ?thesis using node_wf_rinv[of g _ p nd] by (auto simp: hoare_def node_wf_def)
  qed
qed

lemma hello_work_rinv:
  assumes p: "p \<in> pinned g"
  shows "hoare (rinv g) (qrtr_hello_work env p) (\<lambda>_. rinv g)"
  unfolding qrtr_hello_work_def
proof (rule hoare_grip, rule hoare_bind[OF port_lookup_rinv], rule hoare_option, rule hoare_return, simp)
  fix ctrl :: "sock_p option" and c assume cs: "g_cs g \<subseteq> set_mset (g_hs g)" and ctrl: "ctrl = Some c"
  have p': "p \<in> pinned (held g c)" using p by simp
  show "hoare (rinv (case ctrl of None \<Rightarrow> g | Some i \<Rightarrow> held g i))
    (State_Monad.bind (qrtr_alloc_ctrl_packet env (server_pkt QRTR_TYPE_HELLO 0 0 0 0)) (\<lambda>skb. case skb of None \<Rightarrow> qrtr_port_put c
      | Some b \<Rightarrow> State_Monad.bind (node p) (\<lambda>nd. State_Monad.bind (qrtr_node_enqueue env p b QRTR_TYPE_HELLO
          \<lparr>sq_node = local_nid env, sq_port = QRTR_PORT_CTRL\<rparr> \<lparr>sq_node = n_nid nd, sq_port = QRTR_PORT_CTRL\<rparr> 0) (\<lambda>_. qrtr_port_put c)))) (\<lambda>_. rinv g)"
    unfolding ctrl option.case
  proof (rule hoare_bind[OF alloc_ctrl_rinv], rule hoare_option)
    show "hoare (\<lambda>s. rinv (held g c) s \<and> (\<forall>b. skb = Some b \<longrightarrow> sb_sk b = None)) (qrtr_port_put c) (\<lambda>_. rinv g)" for skb
      by (rule hoare_pre[OF port_put_rinv[OF cs]]) simp
    fix skb :: "sk_buff option" and b assume b: "skb = Some b"
    show "hoare (\<lambda>s. rinv (held g c) s \<and> (\<forall>b. skb = Some b \<longrightarrow> sb_sk b = None)) (State_Monad.bind (node p) (\<lambda>nd. State_Monad.bind
        (qrtr_node_enqueue env p b QRTR_TYPE_HELLO \<lparr>sq_node = local_nid env, sq_port = QRTR_PORT_CTRL\<rparr>
          \<lparr>sq_node = n_nid nd, sq_port = QRTR_PORT_CTRL\<rparr> 0) (\<lambda>_. qrtr_port_put c))) (\<lambda>_. rinv g)"
    proof (rule hoare_fact)
      assume "\<forall>b. skb = Some b \<longrightarrow> sb_sk b = None"
      then have sk: "sb_sk b = None" using b by simp
      show "hoare (rinv (held g c)) (State_Monad.bind (node p) (\<lambda>nd. State_Monad.bind
        (qrtr_node_enqueue env p b QRTR_TYPE_HELLO \<lparr>sq_node = local_nid env, sq_port = QRTR_PORT_CTRL\<rparr>
          \<lparr>sq_node = n_nid nd, sq_port = QRTR_PORT_CTRL\<rparr> 0) (\<lambda>_. qrtr_port_put c))) (\<lambda>_. rinv g)"
        by (rule hoare_bind[OF node_any_rinv[OF p']], rule hoare_bind[OF node_enqueue_rinv[OF p'] port_put_rinv[OF cs]]) (use sk in simp)
    qed
  qed
qed

text \<open>A node whose endpoint is there and whose thread is idle.\<close>

definition idle_endpoint :: "node_p \<Rightarrow> router \<Rightarrow> bool" where
  "idle_endpoint p s \<longleftrightarrow> (\<exists>nd. xa_load (r_node s) p = Some nd \<and> n_ep nd \<and> \<not> n_running nd)"

lemma rinv_running:
  assumes r: "rinv g s" and p: "xa_load (r_node s) p = Some nd" "p \<notin> g_ws g"
  shows "rinv g (s\<lparr>r_node := xa_store (r_node s) p (n_running_update (\<lambda>_. b) nd)\<rparr>)"
proof -
  let ?nd = "n_running_update (\<lambda>_. b) nd"
  have wf: "node_wf ?nd" using node_wf_rinv[OF r p(1)] by (simp add: node_wf_def)
  have fs: "(p, key) \<in> g_fs g \<Longrightarrow> p \<in> pinned (g\<lparr>g_hn := g_hn g\<rparr>) \<and> xa_load (n_tx_flow ?nd) key \<noteq> None" for key
    using r p(1) by (fastforce simp: rinv_def grip_ok_def)
  have "rinv (g\<lparr>g_hs := g_hs g, g_hn := g_hn g\<rparr>) (s\<lparr>r_node := xa_store (r_node s) p ?nd\<rparr>)"
    by (rule rinv_node_store[OF r p(1) wf _ _ _ refl disjI2[OF p(2)] _ _ fs])
      (use rinv_grip[OF r] node_refs[OF r p(1)] in \<open>simp_all add: node_waits_def\<close>)
  then show ?thesis by simp
qed

lemma kthread_work_rinv:
  assumes p: "p \<notin> g_ws g" and fs: "g_fs g = {}"
    and work: "hoare (rinv (g\<lparr>g_ws := insert p (g_ws g)\<rparr>)) work (\<lambda>_. rinv (g\<lparr>g_ws := insert p (g_ws g)\<rparr>))"
  shows "hoare (\<lambda>s. rinv g s \<and> idle_endpoint p s) (kthread_work p work) (\<lambda>_. rinv g)"
  unfolding kthread_work_def
proof (rule hoare_bind[OF _ hoare_bind[OF work]])
  let ?g = "g\<lparr>g_ws := insert p (g_ws g)\<rparr>"
  show "hoare (\<lambda>s. rinv g s \<and> idle_endpoint p s) (upd_node p (n_running_update (\<lambda>_. True))) (\<lambda>_. rinv ?g)"
  proof (rule hoare_upd_node, elim conjE)
    fix s assume r: "rinv g s" and "idle_endpoint p s"
    then obtain nd where nd: "xa_load (r_node s) p = Some nd" "n_ep nd" by (auto simp: idle_endpoint_def)
    let ?s = "s\<lparr>r_node := xa_store (r_node s) p (n_running_update (\<lambda>_. True) nd)\<rparr>"
    have r': "rinv g ?s" by (rule rinv_running[OF r nd(1) p])
    have u: "uses ?g ?s = uses g ?s" by (simp add: uses_def)
    have "grip_ok ?g ?s" using r' nd fs unfolding rinv_def grip_ok_def by (auto simp: xa_load_store)
    then have "rinv ?g ?s" using r' unfolding rinv_def sock_ok_def node_ok_def bound_ok_def u by simp
    then show "\<exists>nd. xa_load (r_node s) p = Some nd \<and> rinv ?g (s\<lparr>r_node := xa_store (r_node s) p (n_running_update (\<lambda>_. True) nd)\<rparr>)"
      using nd by blast
  qed
  show "hoare (rinv ?g) (upd_node p (n_running_update (\<lambda>_. False))) (\<lambda>_. rinv g)"
  proof (rule hoare_upd_node)
    fix s assume r: "rinv ?g s"
    obtain nd where nd: "xa_load (r_node s) p = Some nd" using pinned_alive[OF r, of p] by (auto simp: pinned_def)
    have u: "uses g s = uses ?g s" by (simp add: uses_def)
    have "grip_ok g s" using r fs unfolding rinv_def grip_ok_def by auto
    then have "rinv g s" using r unfolding rinv_def sock_ok_def node_ok_def bound_ok_def u by simp
    from rinv_running[OF this nd p]
    show "\<exists>nd. xa_load (r_node s) p = Some nd \<and> rinv g (s\<lparr>r_node := xa_store (r_node s) p (n_running_update (\<lambda>_. False) nd)\<rparr>)"
      using nd by blast
  qed
qed

section \<open>Endpoints that come and go\<close>

lemma rinv_new_node:
  assumes r: "rinv g s" and nd: "n_ep nd" "n_ref nd = 1" "n_tx_flow nd = []" "n_rx_queue nd = []" and p: "p = r_next_node s"
  shows "rinv g (s\<lparr>r_next_node := Suc p, r_node := xa_store (r_node s) p nd, r_epts := p # r_epts s\<rparr>)" (is "rinv g ?s")
proof -
  have x: "xa_load (r_node s) p = None" using r p by (simp add: rinv_def shape_def)
  then have l: "\<not> listed s p" "count (g_hn g) p = 0" using r by (simp_all add: rinv_def node_ok_def)
  have l': "listed ?s q \<longleftrightarrow> q = p \<or> listed s q" for q by (auto simp: listed_def)
  have "node_waits nd = {#}" using nd by (simp add: node_waits_def)
  then have u: "uses g ?s = uses g s" by (simp add: uses_def vals_sum_store_new[OF x])
  have wf: "node_wf nd" using nd by (simp add: node_wf_def xa_values_def)
  have "shape ?s" using r x l p by (auto simp: rinv_def shape_def xa_inv_store xa_load_store listed_def)
  moreover have "sock_ok g ?s" using r u by (simp add: rinv_def sock_ok_def)
  moreover have "bound_ok g ?s" using r by (simp add: rinv_def bound_ok_def)
  moreover have "p \<notin> snd ` set (r_nodes s)" using l(1) by (simp add: listed_def)
  with r l wf nd x have "node_ok g ?s" unfolding rinv_def node_ok_def l' by (simp add: xa_load_store)
  moreover have "grip_ok g ?s"
  proof -
    have g: "grip_ok g s" using r by (simp add: rinv_def)
    have "\<exists>nd. xa_load (r_node ?s) q = Some nd \<and> n_running nd \<and> n_ep nd" if "q \<in> g_ws g" for q
      using g x that by (cases "q = p") (auto simp: grip_ok_def xa_load_store)
    moreover have "\<exists>nd. xa_load (r_node ?s) q = Some nd \<and> n_ep nd" if "q \<in> g_ep g" for q
      using g x that by (cases "q = p") (auto simp: grip_ok_def xa_load_store)
    moreover have "\<not> listed ?s q \<and> (\<exists>nd. xa_load (r_node ?s) q = Some nd \<and> n_ref nd = 0 \<and> n_tx_flow nd = [])" if "q \<in> g_ds g" for q
      using g x that by (cases "q = p") (auto simp: grip_ok_def xa_load_store l')
    moreover have "\<exists>nd fl. xa_load (r_node ?s) q = Some nd \<and> xa_load (n_tx_flow nd) key = Some fl" if "(q, key) \<in> g_fs g" for q key
      using g x that by (cases "q = p") (fastforce simp: grip_ok_def xa_load_store)+
    ultimately show ?thesis using g by (simp add: grip_ok_def)
  qed
  ultimately show ?thesis by (simp add: rinv_def)
qed

lemma xa_store_store: "xa_store (xa_store m i v) i v' = xa_store m i v'"
  by (induction m i v rule: xa_store.induct) auto

lemma register_rinv: "hoare (rinv g) (qrtr_endpoint_register env xmit net_id) (\<lambda>_. rinv g)"
  unfolding qrtr_endpoint_register_def
proof (rule hoare_if, rule hoare_return, assumption, rule hoare_bind[OF alloc_rinv], rule hoare_if, rule hoare_return, assumption,
    rule hoare_bind[OF alloc_rinv], rule hoare_if, rule hoare_return, assumption, rule hoareI, goal_cases)
  case (1 ok thread s a s')
  let ?p = "r_next_node s"
  let ?nd = "\<lparr>n_ep = True, n_ref = 1, n_nid = QRTR_EP_NID_AUTO, n_net_id = net_id, n_hello_sent = 0, n_hello_rcvd = 0,
              n_tx_flow = [], n_rx_queue = [], n_running = False, n_wakes = 0\<rparr> :: qrtr_node"
  have "rinv g (s\<lparr>r_next_node := Suc ?p, r_node := xa_store (r_node s) ?p ?nd, r_epts := ?p # r_epts s\<rparr>)"
    by (rule rinv_new_node[OF 1(4)]) simp_all
  moreover have "xa_inv (r_node s)" using 1(4) by (simp add: rinv_def shape_def)
  ultimately show ?case using 1(5)
    by (simp add: gets_def modify_def qrtr_node_assign_def node_def upd_node_def xa_load_store xa_store_store)
qed

lemma notify_bye_rinv: "hoare (rinv g) (qrtr_notify_bye env nid) (\<lambda>_. rinv g)"
  unfolding qrtr_notify_bye_def
proof (rule hoare_bind[OF alloc_ctrl_rinv], rule hoare_option, rule hoare_return, simp)
  fix skb :: "sk_buff option" and b assume "skb = Some b"
  then show "hoare (\<lambda>s. rinv g s \<and> (\<forall>b. skb = Some b \<longrightarrow> sb_sk b = None))
    (State_Monad.bind (qrtr_local_enqueue env b \<lparr>sq_node = nid, sq_port = QRTR_PORT_CTRL\<rparr> \<lparr>sq_node = local_nid env, sq_port = QRTR_PORT_CTRL\<rparr>)
      (\<lambda>_. ret ())) (\<lambda>_. rinv g)"
    by (intro hoare_fact hoare_discard local_enqueue_rinv) auto
qed

lemma fwd_del_proc_rinv:
  assumes src: "src \<in> pinned g"
  shows "set ps \<subseteq> pinned g \<Longrightarrow> hoare (rinv g) (fwd_del_proc_loop env src nid ps) (\<lambda>_. rinv g)"
proof (induction ps)
  case (Cons p ps)
  then have p: "p \<in> pinned g" and IH: "hoare (rinv g) (fwd_del_proc_loop env src nid ps) (\<lambda>_. rinv g)" by auto
  show ?case unfolding fwd_del_proc_loop.simps
  proof (rule hoare_bind[OF must_forward_rinv], use src p in blast, use p in blast, rule hoare_if, rule IH,
      rule hoare_bind[OF alloc_ctrl_rinv], rule hoare_option, rule hoare_return, simp)
    fix skb :: "sk_buff option" and b assume b: "skb = Some b"
    show "hoare (\<lambda>s. rinv g s \<and> (\<forall>b. skb = Some b \<longrightarrow> sb_sk b = None)) (State_Monad.bind (node src) (\<lambda>s. State_Monad.bind (node p)
      (\<lambda>d. State_Monad.bind (qrtr_node_enqueue env p b QRTR_TYPE_DEL_PROC \<lparr>sq_node = n_nid s, sq_port = QRTR_PORT_CTRL\<rparr>
        \<lparr>sq_node = n_nid d, sq_port = QRTR_PORT_CTRL\<rparr> 0) (\<lambda>_. fwd_del_proc_loop env src nid ps)))) (\<lambda>_. rinv g)"
      by (rule hoare_fact, rule hoare_bind[OF node_any_rinv[OF src]], rule hoare_bind[OF node_any_rinv[OF p]],
          rule hoare_bind[OF node_enqueue_rinv[OF p] IH]) (use b in simp)
  qed
qed (simp, rule hoare_return)

lemma unregister_loop_rinv:
  assumes p: "p \<in> pinned g" "set epts \<subseteq> pinned g"
  shows "hoare (rinv g) (unregister_loop env p epts es) (\<lambda>_. rinv g)"
proof (induction es)
  case (Cons e es)
  have n: "hoare (rinv g) (State_Monad.bind (qrtr_notify_bye env nid) (\<lambda>_. qrtr_fwd_del_proc env p nid epts)) (\<lambda>_. rinv g)" for nid
    unfolding qrtr_fwd_del_proc_def by (rule hoare_bind[OF notify_bye_rinv fwd_del_proc_rinv[OF p]])
  obtain nid q where e: "e = (nid, q)" by (cases e)
  show ?case unfolding e unregister_loop.simps
    by (rule hoare_bind[OF hoare_when[OF n] Cons], assumption)
qed (simp, rule hoare_return)

lemma unregister_rinv:
  assumes env: "calm_env env" "g_ep g = {}" and g: "g_fs g = {}" "g_ns g = {}" and p: "p \<notin> g_ws g" "p \<notin> g_ds g"
  shows "hoare (\<lambda>s. rinv g s \<and> idle_endpoint p s) (qrtr_endpoint_unregister env p) (\<lambda>_. rinv g)"
  unfolding qrtr_endpoint_unregister_def
proof (rule hoare_bind[OF _ hoare_bind[OF _ hoare_bind[OF wake_up_all_rinv]]])
  let ?g = "held_node g p"
  show "p \<in> pinned ?g" by (simp add: pinned_def)
  show "hoare (\<lambda>s. rinv g s \<and> idle_endpoint p s) (upd_node p (n_ep_update (\<lambda>_. False))) (\<lambda>_. rinv ?g)"
  proof (rule hoare_upd_node, elim conjE)
    fix s assume r: "rinv g s" and "idle_endpoint p s"
    then obtain nd where nd: "xa_load (r_node s) p = Some nd" "n_ep nd" by (auto simp: idle_endpoint_def)
    let ?nd = "n_ep_update (\<lambda>_. False) nd"
    have wf: "node_wf ?nd" using node_wf_rinv[OF r nd(1)] by (simp add: node_wf_def)
    have "rinv (g\<lparr>g_hs := g_hs g, g_hn := add_mset p (g_hn g)\<rparr>) (s\<lparr>r_node := xa_store (r_node s) p ?nd\<rparr>)"
      by (rule rinv_node_store[OF r nd(1) wf]) (use rinv_grip[OF r] node_refs[OF r nd(1)] nd(2) env(2) p g in \<open>simp_all add: node_waits_def\<close>)
    then show "\<exists>nd. xa_load (r_node s) p = Some nd \<and> rinv ?g (s\<lparr>r_node := xa_store (r_node s) p (n_ep_update (\<lambda>_. False) nd)\<rparr>)"
      using nd by auto
  qed
  show "hoare (rinv ?g) (with_epts (\<lambda>epts. State_Monad.bind (gets r_nodes) (unregister_loop env p epts))) (\<lambda>_. rinv ?g)"
  proof (rule with_epts_rinv)
    fix epts
    show "hoare (rinv (?g\<lparr>g_ns := set epts\<rparr>)) (State_Monad.bind (gets r_nodes) (unregister_loop env p epts)) (\<lambda>_. rinv (?g\<lparr>g_ns := set epts\<rparr>))"
      by (rule hoare_bind[OF hoare_gets unregister_loop_rinv]) (auto simp: pinned_def)
  qed (use g in simp_all)
  show "hoare (rinv ?g) (qrtr_node_release env (Some p)) (\<lambda>_. rinv g)" for a
    using node_release_rinv[OF env g, of "Some p"] by simp
qed

end
