(* ===== verification/Qrtr_Refs_Sock.thy ===== *)
theory Qrtr_Refs_Sock
  imports Qrtr_Refs_Endpoint
begin

text \<open>The invariant of the reference counts, continued: the calls of the users of sockets.\<close>

text \<open>Nothing that would keep a node from being freed, and threads that keep to the rules.\<close>

definition still :: "qrtr_env \<Rightarrow> grip \<Rightarrow> bool" where
  "still env g \<longleftrightarrow> calm_env env \<and> g_ep g = {} \<and> g_fs g = {} \<and> g_ns g = {}"

lemma still_grips [simp]:
  "still env (g\<lparr>g_hs := hs\<rparr>) = still env g" "still env (g\<lparr>g_hn := hn\<rparr>) = still env g" "still env (g\<lparr>g_lk := lk\<rparr>) = still env g"
  "still env (g\<lparr>g_ps := ps\<rparr>) = still env g" "still env (g\<lparr>g_us := us\<rparr>) = still env g" "still env (g\<lparr>g_xs := xs\<rparr>) = still env g"
  "still env (g\<lparr>g_cs := cs\<rparr>) = still env g"
  by (simp_all add: still_def)

lemma hoare_discard_val: "hoare P f (\<lambda>_. Q) \<Longrightarrow> hoare P (State_Monad.bind f (\<lambda>a. State_Monad.return (h a))) (\<lambda>_. Q)"
  by (rule hoare_bind, assumption, rule hoare_return)

text \<open>A reference to a node that is not given back.\<close>

lemma rinv_forget_node:
  assumes r: "rinv (held_node g p) s" and f: "g_fs g = {}"
  shows "rinv g s"
proof -
  have u: "uses (held_node g p) s = uses g s" by (simp add: uses_def)
  have "node_ok g s" unfolding node_ok_def
  proof (intro conjI allI impI)
    fix q assume "xa_load (r_node s) q = None"
    then have n: "\<not> listed s q" "count (add_mset p (g_hn g)) q = 0" using r by (simp_all add: rinv_def node_ok_def)
    then show "\<not> listed s q" "count (g_hn g) q = 0" by (simp_all split: if_splits)
  next
    fix q nd assume q: "xa_load (r_node s) q = Some nd"
    show "node_wf nd" by (rule node_wf_rinv[OF r q])
    show "count (g_hn g) q + one_if (n_ep nd) \<le> n_ref nd" using node_refs[OF r q] by (simp split: if_splits)
    show "q \<in> snd ` set (r_nodes s) \<Longrightarrow> n_nid nd \<noteq> QRTR_EP_NID_AUTO" using r q by (simp add: rinv_def node_ok_def)
  qed
  then show ?thesis using r f unfolding rinv_def sock_ok_def u bound_ok_def grip_ok_def by simp
qed

lemma release_rinv:
  "still env g \<Longrightarrow> hoare (rinv (case p of None \<Rightarrow> g | Some q \<Rightarrow> held_node g q)) (qrtr_node_release env p) (\<lambda>_. rinv g)"
  by (rule node_release_rinv) (simp_all add: still_def)

lemma locked_sock_rinv:
  assumes "i \<in> g_lk g"
  shows "hoare (rinv g) (sock i) (\<lambda>k s. rinv g s \<and> xa_load (r_sock s) i = Some k)"
  by (rule hoare_sock, rule locked_alive[OF _ assms], assumption, simp)

lemma any_sock_rinv:
  assumes "i \<in> g_lk g"
  shows "hoare (rinv g) (sock i) (\<lambda>_. rinv g)"
  by (rule hoare_post[OF locked_sock_rinv[OF assms]]) simp

lemma locked_upd_rinv:
  assumes "quiet f" "i \<in> g_lk g"
  shows "hoare (rinv g) (upd_sock i f) (\<lambda>_. rinv g)"
  by (rule quiet_upd[OF assms(1)]) (use locked_alive[OF _ assms(2)] in simp)

section \<open>Packets to every node and to one\<close>

lemma bcast_loop_rinv:
  assumes env: "calm_env env" "g_ep g = {}" and i: "sb_sk skb = Some i" "i \<in> g_lk g"
  shows "set ps \<subseteq> pinned g \<Longrightarrow> hoare (rinv g) (bcast_loop env skb type src dst flags ps) (\<lambda>_. rinv g)"
proof (induction ps)
  case (Cons p ps)
  then have p: "p \<in> pinned g" and IH: "hoare (rinv g) (bcast_loop env skb type src dst flags ps) (\<lambda>_. rinv g)" by auto
  show ?case unfolding bcast_loop.simps
    by (rule hoare_bind[OF node_any_rinv[OF p]], rule hoare_if, rule IH, rule hoare_bind[OF alloc_rinv], rule hoare_if,
        rule hoare_return, assumption, rule hoare_bind[OF node_enqueue_rinv[OF p] IH]) (use env i in auto)
qed (simp, rule hoare_return)

lemma bcast_rinv:
  assumes env: "still env g" and i: "sb_sk skb = Some i" "i \<in> g_lk g"
  shows "hoare (rinv g) (qrtr_bcast_enqueue env skb type src dst flags) (\<lambda>_. rinv g)"
proof -
  have "hoare (rinv g) (with_epts (bcast_loop env skb type src dst flags)) (\<lambda>_. rinv g)"
  proof (rule with_epts_rinv)
    fix epts
    show "hoare (rinv (g\<lparr>g_ns := set epts\<rparr>)) (bcast_loop env skb type src dst flags epts) (\<lambda>_. rinv (g\<lparr>g_ns := set epts\<rparr>))"
      by (rule bcast_loop_rinv[OF _ _ i(1)]) (use env i(2) in \<open>auto simp: still_def pinned_def\<close>)
  qed (use env in \<open>simp_all add: still_def\<close>)
  then show ?thesis unfolding qrtr_bcast_enqueue_def
    by (rule hoare_bind, intro hoare_discard local_enqueue_rinv) (use i in auto)
qed

lemma del_client_node_rinv:
  assumes env: "still env g" and i: "sb_sk b = Some i" "i \<in> g_lk g"
  shows "hoare (rinv g) (del_client_node env b k dst) (\<lambda>_. rinv g)"
  unfolding del_client_node_def
proof (rule hoare_bind[OF node_lookup_rinv], rule hoare_option, rule hoare_return, simp)
  fix nd :: "node_p option" and p assume nd: "nd = Some p"
  have e: "hoare (rinv (held_node g p)) (State_Monad.bind (qrtr_node_enqueue env p b QRTR_TYPE_DEL_CLIENT (s_us k) dst 0) (\<lambda>_. ret ()))
      (\<lambda>_. rinv (held_node g p))"
    by (rule hoare_discard[OF node_enqueue_rinv]) (use env i in \<open>simp_all add: still_def pinned_def\<close>)
  show "hoare (rinv (case nd of None \<Rightarrow> g | Some p \<Rightarrow> held_node g p)) (State_Monad.bind (alloc env) (\<lambda>ok. State_Monad.bind
      (when_rt ok (State_Monad.bind (qrtr_node_enqueue env p b QRTR_TYPE_DEL_CLIENT (s_us k) dst 0) (\<lambda>_. ret ())))
      (\<lambda>_. qrtr_node_release env (Some p)))) (\<lambda>_. rinv g)"
    unfolding nd option.case
    by (rule hoare_bind[OF alloc_rinv], rule hoare_bind[OF hoare_when[OF e]], assumption)
      (use release_rinv[OF env, of "Some p"] in simp)
qed

lemma send_del_client_rinv:
  assumes env: "still env g" and i: "i \<in> g_lk g"
  shows "hoare (rinv g) (qrtr_send_del_client env i) (\<lambda>_. rinv g)"
  unfolding qrtr_send_del_client_def Let_def
proof (rule hoare_bind[OF any_sock_rinv[OF i]], rule hoare_bind[OF hoare_post[OF alloc_ctrl_rinv]], erule conjunct1, rule hoare_option,
    rule hoare_return, assumption, intro hoare_if hoare_discard bcast_rinv[OF env _ i])
  fix k b
  show "hoare (rinv g) (State_Monad.bind (when_rt (- 1 < sint (s_state k))
      (del_client_node env (b\<lparr>sb_sk := Some i\<rparr>) k \<lparr>sq_node = QRTR_NODE_BCAST, sq_port = QRTR_PORT_CTRL\<rparr>))
      (\<lambda>_. State_Monad.bind (qrtr_local_enqueue env (b\<lparr>sb_sk := Some i\<rparr>) (s_us k) \<lparr>sq_node = QRTR_NODE_BCAST, sq_port = QRTR_PORT_CTRL\<rparr>)
        (\<lambda>_. ret ()))) (\<lambda>_. rinv g)"
    by (rule hoare_bind[OF hoare_when[OF del_client_node_rinv[OF env _ i]]], simp, assumption, intro hoare_discard local_enqueue_rinv)
      (use i in simp)
qed simp

section \<open>Binding\<close>

lemma rinv_port_del:
  assumes r: "rinv g s" and p: "xa_load (r_ports s) port = Some i" and k: "xa_load (r_sock s) i = Some k" and x: "i \<in> g_xs g"
  shows "rinv (g\<lparr>g_ps := g_ps g - {(port, i)}\<rparr>)
    (s\<lparr>r_sock := xa_store (r_sock s) i (s_ref_update (\<lambda>n. n - 1) k), r_ports := xa_erase (r_ports s) port\<rparr>)"
proof -
  let ?g = "g\<lparr>g_ps := g_ps g - {(port, i)}\<rparr>" and ?k = "s_ref_update (\<lambda>n. n - 1) k"
  let ?s = "s\<lparr>r_sock := xa_store (r_sock s) i ?k, r_ports := xa_erase (r_ports s) port\<rparr>"
  have xp: "xa_inv (r_ports s)" using r by (simp add: rinv_def shape_def)
  have u: "uses g s = add_mset i (uses ?g ?s)"
    using vals_sum_erase[OF p, of "\<lambda>i. {#i#}"] by (simp add: uses_def flip: add_mset_add_single)
  have l: "listed ?s = listed s" by (simp add: listed_def fun_eq_iff)
  have "sock_ok ?g ?s" unfolding sock_ok_def
  proof (intro conjI allI impI)
    fix j assume "xa_load (r_sock ?s) j = None"
    then have "count (uses g s) j = 0" using r by (simp add: rinv_def sock_ok_def xa_load_store split: if_splits)
    then show "count (uses ?g ?s) j = 0" unfolding u by (simp split: if_splits)
  next
    fix j k' assume "xa_load (r_sock ?s) j = Some k'"
    then show "count (uses ?g ?s) j + one_if (s_open k') \<le> s_ref k'"
      using sock_refs[OF r, of j] sock_refs[OF r k] unfolding u by (auto simp: xa_load_store split: if_splits)
  qed
  moreover have "shape ?s" using r k by (auto simp: rinv_def shape_def xa_inv_store xa_inv_erase xa_load_store)
  moreover have "bound_ok ?g ?s" using r p k x xp by (fastforce simp: rinv_def bound_ok_def xa_load_store xa_load_erase split: if_splits)
  moreover have "grip_ok ?g ?s"
  proof -
    have g: "grip_ok g s" using r by (simp add: rinv_def)
    have "\<exists>k. xa_load (r_sock ?s) j = Some k \<and> s_locked k \<and> (s_open k \<longleftrightarrow> j \<notin> g_cs g)" if "j \<in> g_lk g" for j
      using g k that by (cases "j = i") (auto simp: grip_ok_def xa_load_store)
    moreover have "\<exists>k. xa_load (r_sock ?s) j = Some k \<and> sq_port (s_us k) = port \<and> s_zapped k = z" if "(j, port, z) \<in> g_us g" for j port z
      using g k that by (cases "j = i") (fastforce simp: grip_ok_def xa_load_store)+
    moreover have "j \<in> g_lk g \<and> xa_load (r_ports ?s) port' = Some j" if "(port', j) \<in> g_ps ?g" for port' j
      using g p xp that by (cases "port' = port") (auto simp: grip_ok_def xa_load_erase)
    ultimately show ?thesis using g unfolding grip_ok_def l by simp
  qed
  moreover have "node_ok ?g ?s" using r unfolding rinv_def node_ok_def l by simp
  ultimately show ?thesis by (simp add: rinv_def)
qed

lemma port_remove_rinv:
  assumes env: "still env g" and i: "i \<in> g_lk g" "i \<in> g_xs g" and p: "(i, port, z) \<in> g_us g" "(port_key port, i) \<in> g_ps g"
  shows "hoare (rinv g) (qrtr_port_remove env i) (\<lambda>_. rinv (g\<lparr>g_ps := g_ps g - {(port_key port, i)}\<rparr>))"
  unfolding qrtr_port_remove_def
proof (rule hoare_bind)
  show "hoare (rinv g) (sock i) (\<lambda>k s. rinv g s \<and> sq_port (s_us k) = port)"
    by (rule hoare_post[OF locked_sock_rinv[OF i(1)]]) (use p(1) in \<open>fastforce simp: rinv_def grip_ok_def\<close>)
  fix k
  show "hoare (\<lambda>s. rinv g s \<and> sq_port (s_us k) = port) (State_Monad.bind (qrtr_send_del_client env i)
      (\<lambda>_. State_Monad.bind (upd_sock i (s_ref_update (\<lambda>n. n - 1)))
        (\<lambda>_. modify (\<lambda>s. s\<lparr>r_ports := xa_erase (r_ports s) (port_key (sq_port (s_us k)))\<rparr>))))
      (\<lambda>_. rinv (g\<lparr>g_ps := g_ps g - {(port_key port, i)}\<rparr>))"
  proof (rule hoare_fact, rule hoare_bind[OF send_del_client_rinv[OF env i(1)]], rule hoareI)
    fix s b s' assume k: "sq_port (s_us k) = port" and r: "rinv g s" and run: "run_state (State_Monad.bind (upd_sock i (s_ref_update (\<lambda>n. n - 1)))
        (\<lambda>_. modify (\<lambda>s. s\<lparr>r_ports := xa_erase (r_ports s) (port_key (sq_port (s_us k)))\<rparr>))) s = (b, s')"
    obtain k' where k': "xa_load (r_sock s) i = Some k'" using locked_alive[OF r i(1)] by blast
    have "xa_load (r_ports s) (port_key port) = Some i" using r p(2) by (simp add: rinv_def grip_ok_def)
    from rinv_port_del[OF r this k' i(2)] show "rinv (g\<lparr>g_ps := g_ps g - {(port_key port, i)}\<rparr>) s'"
      using run k k' by (auto simp: upd_sock_def modify_def)
  qed
qed

lemma reset_hello_rinv: "set ps \<subseteq> pinned g \<Longrightarrow> hoare (rinv g) (reset_hello ps) (\<lambda>_. rinv g)"
proof (induction ps)
  case (Cons p ps)
  then have "hoare (rinv g) (upd_node p (\<lambda>nd. nd\<lparr>n_hello_sent := 0, n_hello_rcvd := 0\<rparr>)) (\<lambda>_. rinv g)"
    by (intro quiet_upd_node) (simp_all add: quiet_node_def)
  then show ?case using Cons by (simp add: hoare_bind)
qed (simp, rule hoare_return)

lemma reset_all_rinv:
  assumes env: "still env g"
  shows "hoare (rinv g) (State_Monad.bind qrtr_reset_ports (\<lambda>_. with_epts reset_hello)) (\<lambda>_. rinv g)"
  by (rule hoare_bind[OF reset_ports_rinv], rule with_epts_rinv[OF _ _ reset_hello_rinv])
    (use env in \<open>auto simp: still_def pinned_def\<close>)

text \<open>The facts about a locked socket that a change of its binding needs, and what the change makes of them.\<close>

definition facts :: "grip \<Rightarrow> bool" where
  "facts g \<longleftrightarrow> g_us g = {} \<and> g_ps g = {} \<and> g_xs g = {}"

lemma rinv_facts:
  assumes r: "rinv g s" and i: "i \<in> g_lk g" "i \<notin> g_cs g" and k: "xa_load (r_sock s) i = Some k" and f: "facts g"
  shows "rinv (g\<lparr>g_us := {(i, sq_port (s_us k), s_zapped k)}, g_ps := if s_zapped k then {} else {(port_key (sq_port (s_us k)), i)}\<rparr>) s"
proof -
  let ?g = "g\<lparr>g_us := {(i, sq_port (s_us k), s_zapped k)}, g_ps := if s_zapped k then {} else {(port_key (sq_port (s_us k)), i)}\<rparr>"
  have "s_open k" using r i k by (auto simp: rinv_def grip_ok_def)
  then have b: "\<not> s_zapped k \<Longrightarrow> xa_load (r_ports s) (port_key (sq_port (s_us k))) = Some i"
    using r k f by (auto simp: rinv_def bound_ok_def facts_def)
  have u: "uses ?g s = uses g s" by (simp add: uses_def)
  have "grip_ok ?g s" using r i k b unfolding rinv_def grip_ok_def by (simp split: if_split)
  then show ?thesis using r unfolding rinv_def sock_ok_def node_ok_def bound_ok_def u by simp
qed

lemma rinv_forget_facts:
  assumes "rinv (g\<lparr>g_us := us, g_ps := ps\<rparr>) s" "facts g"
  shows "rinv g s"
  using assms unfolding rinv_def sock_ok_def node_ok_def bound_ok_def uses_def grip_ok_def by (simp add: facts_def)

lemma rinv_new_port:
  assumes "rinv g s" "xa_load (r_ports s) port = Some i" "i \<in> g_lk g" "g_xs g = {}"
  shows "rinv (g\<lparr>g_ps := insert (port, i) (g_ps g), g_xs := {i}\<rparr>) s"
  using assms unfolding rinv_def sock_ok_def node_ok_def bound_ok_def uses_def grip_ok_def by simp

lemma rinv_exempt:
  assumes "rinv g s" "i \<in> g_lk g" "g_xs g = {}"
  shows "rinv (g\<lparr>g_xs := {i}\<rparr>) s"
  using assms unfolding rinv_def sock_ok_def node_ok_def bound_ok_def uses_def grip_ok_def by simp

lemma rinv_rebind:
  assumes r: "rinv (g\<lparr>g_us := us, g_ps := {(port_key port, i)}, g_xs := {i}\<rparr>) s" (is "rinv ?g s") and f: "facts g"
    and k: "xa_load (r_sock s) i = Some k"
  shows "rinv g (s\<lparr>r_sock := xa_store (r_sock s) i (k\<lparr>s_us := (s_us k)\<lparr>sq_port := port\<rparr>, s_zapped := False\<rparr>)\<rparr>)"
proof -
  let ?s = "s\<lparr>r_sock := xa_store (r_sock s) i (k\<lparr>s_us := (s_us k)\<lparr>sq_port := port\<rparr>, s_zapped := False\<rparr>)\<rparr>"
  have u: "uses g ?s = uses ?g s" by (simp add: uses_def)
  have l: "listed ?s = listed s" by (simp add: listed_def fun_eq_iff)
  have p: "xa_load (r_ports s) (port_key port) = Some i" using r by (simp add: rinv_def grip_ok_def)
  have "sock_ok g ?s" using r k unfolding rinv_def sock_ok_def u by (simp add: xa_load_store)
  moreover have "shape ?s" using r k by (auto simp: rinv_def shape_def xa_inv_store xa_load_store)
  moreover have "bound_ok g ?s" using r p f by (auto simp: rinv_def bound_ok_def xa_load_store facts_def)
  moreover have "node_ok g ?s" using r unfolding rinv_def node_ok_def l by simp
  moreover have "grip_ok g ?s"
  proof -
    have g: "grip_ok ?g s" using r by (simp add: rinv_def)
    have "\<exists>k. xa_load (r_sock ?s) j = Some k \<and> s_locked k \<and> (s_open k \<longleftrightarrow> j \<notin> g_cs g)" if "j \<in> g_lk g" for j
      using g k that by (cases "j = i") (auto simp: grip_ok_def xa_load_store)
    then show ?thesis using g f unfolding grip_ok_def l by (simp add: facts_def)
  qed
  ultimately show ?thesis by (simp add: rinv_def)
qed

text \<open>From the port that is assigned to the end of \<open>__qrtr_bind\<close>.\<close>

lemma rebind_rinv:
  assumes env: "still env g" and i: "i \<in> g_lk g" and f: "facts g" and n: "\<not> z \<Longrightarrow> port_key port \<noteq> port_key old"
  shows "hoare (rinv (g\<lparr>g_us := {(i, old, z)}, g_ps := insert (port_key port, i) (if z then {} else {(port_key old, i)}), g_xs := {i}\<rparr>))
    (State_Monad.bind (when_rt (port = QRTR_PORT_CTRL) (State_Monad.bind qrtr_reset_ports (\<lambda>_. with_epts reset_hello)))
      (\<lambda>_. State_Monad.bind (when_rt (\<not> z) (qrtr_port_remove env i))
        (\<lambda>_. State_Monad.bind (upd_sock i (\<lambda>k. k\<lparr>s_us := (s_us k)\<lparr>sq_port := port\<rparr>, s_zapped := False\<rparr>)) (\<lambda>_. ret None))))
    (\<lambda>_. rinv g)" (is "hoare (rinv ?g) _ _")
proof (rule hoare_bind[OF hoare_when[OF reset_all_rinv]])
  let ?h = "g\<lparr>g_us := {(i, old, z)}, g_ps := {(port_key port, i)}, g_xs := {i}\<rparr>"
  show "still env ?g" using env by simp
  have rm: "hoare (rinv ?g) (when_rt (\<not> z) (qrtr_port_remove env i)) (\<lambda>_. rinv ?h)"
  proof (rule hoare_when)
    assume z: "\<not> z"
    have d: "?g\<lparr>g_ps := g_ps ?g - {(port_key old, i)}\<rparr> = ?h" by (rule grip.equality) (use n[OF z] z in auto)
    have "hoare (rinv ?g) (qrtr_port_remove env i) (\<lambda>_. rinv (?g\<lparr>g_ps := g_ps ?g - {(port_key old, i)}\<rparr>))"
      by (rule port_remove_rinv) (use env i z in simp_all)
    then show "hoare (rinv ?g) (qrtr_port_remove env i) (\<lambda>_. rinv ?h)" unfolding d .
  qed simp
  have up: "hoare (rinv ?h) (upd_sock i (\<lambda>k. k\<lparr>s_us := (s_us k)\<lparr>sq_port := port\<rparr>, s_zapped := False\<rparr>)) (\<lambda>_. rinv g)"
  proof (rule hoare_upd_sock)
    fix s assume r: "rinv ?h s"
    have "i \<in> g_lk ?h" using i by simp
    then obtain k where k: "xa_load (r_sock s) i = Some k" using locked_alive[OF r] by blast
    show "\<exists>k. xa_load (r_sock s) i = Some k \<and>
        rinv g (s\<lparr>r_sock := xa_store (r_sock s) i (k\<lparr>s_us := (s_us k)\<lparr>sq_port := port\<rparr>, s_zapped := False\<rparr>)\<rparr>)"
      using rinv_rebind[OF r f k] k by blast
  qed
  show "hoare (rinv ?g) (State_Monad.bind (when_rt (\<not> z) (qrtr_port_remove env i))
      (\<lambda>_. State_Monad.bind (upd_sock i (\<lambda>k. k\<lparr>s_us := (s_us k)\<lparr>sq_port := port\<rparr>, s_zapped := False\<rparr>)) (\<lambda>_. ret None))) (\<lambda>_. rinv g)" for a
    by (rule hoare_bind[OF rm hoare_discard[OF up]])
qed

lemma do_bind_rinv:
  assumes env: "still env g" and i: "i \<in> g_lk g" "i \<notin> g_cs g" and f: "facts g"
  shows "hoare (\<lambda>s. rinv g s \<and> (\<exists>k. xa_load (r_sock s) i = Some k \<and> s_zapped k = z)) (qrtr_do_bind env i port0 z) (\<lambda>_. rinv g)"
  unfolding qrtr_do_bind_def
proof (rule hoare_bind)
  let ?P = "\<lambda>s. rinv g s \<and> (\<exists>k. xa_load (r_sock s) i = Some k \<and> s_zapped k = z)"
  let ?ps = "\<lambda>k. if z then {} else {(port_key (sq_port (s_us k)), i)}"
  show "hoare ?P (sock i) (\<lambda>k. rinv (g\<lparr>g_us := {(i, sq_port (s_us k), z)}, g_ps := ?ps k\<rparr>))"
    by (rule hoare_sock) (use rinv_facts[OF _ i _ f] in fastforce)+
  fix k :: qrtr_sock
  let ?g = "g\<lparr>g_us := {(i, sq_port (s_us k), z)}, g_ps := ?ps k\<rparr>"
  let ?rest = "\<lambda>port. State_Monad.bind (when_rt (port = QRTR_PORT_CTRL) (State_Monad.bind qrtr_reset_ports (\<lambda>_. with_epts reset_hello)))
      (\<lambda>_. State_Monad.bind (when_rt (\<not> z) (qrtr_port_remove env i))
        (\<lambda>_. State_Monad.bind (upd_sock i (\<lambda>k. k\<lparr>s_us := (s_us k)\<lparr>sq_port := port\<rparr>, s_zapped := False\<rparr>)) (\<lambda>_. ret None)))"
  let ?Q = "\<lambda>r s. rinv ?g s \<and> (\<forall>p. r = Inr p \<longrightarrow> xa_load (r_ports s) (port_key p) = Some i \<and> (port_key p, i) \<notin> g_ps ?g)"
  have i': "i \<in> g_lk ?g" using i by simp
  show "hoare (rinv ?g) (if \<not> z \<and> port0 = sq_port (s_us k) then ret None
      else State_Monad.bind (qrtr_port_assign env i port0) (\<lambda>r. case r of Inl e \<Rightarrow> ret (Some e) | Inr port \<Rightarrow> ?rest port)) (\<lambda>_. rinv g)"
  proof (rule hoare_if, rule hoare_return, erule rinv_forget_facts[OF _ f], rule hoare_bind[OF port_assign_rinv[OF i']], rule hoare_sum)
    show "hoare (?Q r) (ret (Some e)) (\<lambda>_. rinv g)" for r e
      by (rule hoare_return) (use rinv_forget_facts[OF _ f] in blast)
    fix r :: "u32 result" and port assume r: "r = Inr port"
    have "hoare (\<lambda>s. (rinv ?g s \<and> xa_load (r_ports s) (port_key port) = Some i) \<and> (port_key port, i) \<notin> g_ps ?g) (?rest port) (\<lambda>_. rinv g)"
    proof (rule hoare_fact)
      assume n: "(port_key port, i) \<notin> g_ps ?g"
      show "hoare (\<lambda>s. rinv ?g s \<and> xa_load (r_ports s) (port_key port) = Some i) (?rest port) (\<lambda>_. rinv g)"
      proof (rule hoare_pre[OF rebind_rinv[OF env i(1) f, of z port "sq_port (s_us k)"]])
        fix s assume "rinv ?g s \<and> xa_load (r_ports s) (port_key port) = Some i"
        from rinv_new_port[OF conjunct1[OF this] conjunct2[OF this] i'] f
        show "rinv (g\<lparr>g_us := {(i, sq_port (s_us k), z)}, g_ps := insert (port_key port, i) (?ps k), g_xs := {i}\<rparr>) s"
          by (simp add: facts_def)
      qed (use n in auto)
    qed
    then show "hoare (?Q r) (?rest port) (\<lambda>_. rinv g)" by (rule hoare_pre) (use r in auto)
  qed
qed

lemma autobind_rinv:
  assumes env: "still env g" and i: "i \<in> g_lk g" "i \<notin> g_cs g" and f: "facts g"
  shows "hoare (rinv g) (qrtr_autobind env i) (\<lambda>_. rinv g)"
  unfolding qrtr_autobind_def
proof (rule hoare_bind[OF locked_sock_rinv[OF i(1)]], rule hoare_if)
  fix k :: qrtr_sock
  show "hoare (\<lambda>s. rinv g s \<and> xa_load (r_sock s) i = Some k) (ret None) (\<lambda>_. rinv g)" by (rule hoare_return) simp
  assume "\<not> \<not> s_zapped k"
  then show "hoare (\<lambda>s. rinv g s \<and> xa_load (r_sock s) i = Some k) (qrtr_do_bind env i 0 True) (\<lambda>_. rinv g)"
    by (intro hoare_pre[OF do_bind_rinv[OF env i f]]) auto
qed

section \<open>Sending\<close>

text \<open>What is held with the node a packet is sent to.\<close>

abbreviation (input) with_node :: "grip \<Rightarrow> enqueue_fn \<Rightarrow> grip" where
  "with_node g fn \<equiv> (case node_of fn of None \<Rightarrow> g | Some p \<Rightarrow> held_node g p)"

lemma with_node_simps [simp]:
  "still env (with_node g fn) = still env g" "g_lk (with_node g fn) = g_lk g"
  by (simp_all split: option.split)

lemma sock_alloc_send_rinv:
  assumes i: "i \<in> g_lk g"
  shows "hoare (rinv g) (sock_alloc_send env i) (\<lambda>_. rinv g)"
  unfolding sock_alloc_send_def
  by (rule hoare_bind[OF any_sock_rinv[OF i]], intro hoare_if hoare_discard locked_upd_rinv alloc_rinv i) (simp add: quiet_def)

lemma send_route_rinv:
  assumes i: "i \<in> g_lk g"
  shows "hoare (rinv g) (send_route env i dst) (\<lambda>r. rinv (case r of Inl _ \<Rightarrow> g | Inr fn \<Rightarrow> with_node g fn))"
  unfolding send_route_def
proof (rule hoare_bind[OF any_sock_rinv[OF i]], rule hoare_if, rule hoare_return, simp add: node_of_def, rule hoare_if, rule hoare_return,
    simp add: node_of_def, rule hoare_bind[OF node_lookup_rinv], rule hoare_option, rule hoare_return, simp)
  fix k :: qrtr_sock and nd :: "node_p option" and p assume nd: "nd = Some p"
  have p: "p \<in> pinned (held_node g p)" by (simp add: pinned_def)
  have st: "hoare (rinv (held_node g p)) (upd_sock i (s_state_update f)) (\<lambda>_. rinv (held_node g p))" for f
    by (rule locked_upd_rinv) (use i in \<open>simp_all add: quiet_def\<close>)
  show "hoare (rinv (case nd of None \<Rightarrow> g | Some p \<Rightarrow> held_node g p)) (State_Monad.bind (node p) (\<lambda>d. State_Monad.bind
      (if sint (s_state k) > -1 \<and> s_state k \<noteq> n_nid d then upd_sock i (s_state_update (\<lambda>_. QRTR_STATE_MULTI))
       else when_rt (s_state k = QRTR_STATE_INIT) (upd_sock i (s_state_update (\<lambda>_. n_nid d)))) (\<lambda>_. ret (Inr (Node p)))))
      (\<lambda>r. rinv (case r of Inl _ \<Rightarrow> g | Inr fn \<Rightarrow> with_node g fn))"
    unfolding nd option.case
    by (rule hoare_bind[OF node_any_rinv[OF p]], rule hoare_bind[OF hoare_if[OF st hoare_when[OF st]]], assumption, rule hoare_return)
      (simp add: node_of_def)
qed

lemma forward_check_rinv:
  assumes env: "still env g" and dst: "\<And>p. dst = Some p \<Longrightarrow> p \<in> pinned g"
  shows "hoare (rinv g) (forward_check env data dst) (\<lambda>_. rinv g)"
  unfolding forward_check_def
proof (rule hoare_bind[OF node_lookup_rinv])
  fix srv :: "node_p option"
  let ?g = "case srv of None \<Rightarrow> g | Some p \<Rightarrow> held_node g p"
  have "hoare (rinv ?g) (qrtr_must_forward srv dst QRTR_TYPE_NEW_SERVER) (\<lambda>_. rinv ?g)"
    by (rule must_forward_rinv) (use dst in \<open>auto simp: pinned_def split: option.splits\<close>)
  then show "hoare (rinv ?g) (State_Monad.bind (qrtr_must_forward srv dst QRTR_TYPE_NEW_SERVER)
      (\<lambda>fwd. State_Monad.bind (qrtr_node_release env srv) (\<lambda>_. ret fwd))) (\<lambda>_. rinv g)"
    by (rule hoare_bind[OF _ hoare_discard[OF release_rinv[OF env]]])
qed

lemma run_enqueue_rinv:
  assumes env: "still env g" and i: "i \<in> g_lk g" "sb_sk skb = Some i" and p: "\<And>p. fn = Node p \<Longrightarrow> p \<in> pinned g"
  shows "hoare (rinv g) (run_enqueue env fn skb type src dst flags) (\<lambda>_. rinv g)"
  unfolding run_enqueue_def
  by (cases fn) (use env i p in \<open>auto simp: still_def intro!: bcast_rinv local_enqueue_rinv node_enqueue_rinv\<close>)

lemma send_body_rinv:
  assumes env: "still env g" and i: "i \<in> g_lk g" and p: "\<And>p. fn = Node p \<Longrightarrow> p \<in> pinned g"
  shows "hoare (rinv g) (send_body env i fn dst flags data) (\<lambda>_. rinv g)"
proof -
  have st: "hoare (rinv g) (upd_sock i (s_state_update f)) (\<lambda>_. rinv g)" for f
    by (rule locked_upd_rinv) (use i in \<open>simp_all add: quiet_def\<close>)
  have fc: "hoare (rinv g) (if b then forward_check env data (node_of fn) else ret True) (\<lambda>_. rinv g)" for b
    by (intro hoare_if forward_check_rinv env hoare_return) (use p in \<open>auto simp: node_of_def split: enqueue_fn.splits\<close>)
  show ?thesis unfolding send_body_def Let_def
    by (rule hoare_bind[OF sock_alloc_send_rinv[OF i]], rule hoare_bind[OF tick_rinv], rule hoare_bind[OF any_sock_rinv[OF i]],
        rule hoare_if, rule hoare_return, assumption, rule hoare_if, rule hoare_return, assumption, rule hoare_if, rule hoare_return, assumption,
        rule hoare_bind[OF hoare_when[OF st]], assumption, rule hoare_bind[OF fc], rule hoare_if, rule hoare_return, assumption,
        rule hoare_discard_val, rule run_enqueue_rinv[OF env i]) (use p in simp_all)
qed

lemma send_addr_rinv:
  assumes env: "still env g" and i: "i \<in> g_lk g" "i \<notin> g_cs g" and f: "facts g"
  shows "hoare (rinv g) (send_addr env i addr) (\<lambda>_. rinv g)"
  unfolding send_addr_def
  by (intro hoare_option hoare_if hoare_discard_val autobind_rinv[OF env i f] any_sock_rinv[OF i(1)] hoare_return)

lemma send_locked_rinv:
  assumes env: "still env g" and i: "i \<in> g_lk g" "i \<notin> g_cs g" and f: "facts g"
  shows "hoare (rinv g) (send_locked env i addr flags data) (\<lambda>_. rinv g)"
  unfolding send_locked_def
proof (rule hoare_bind[OF send_addr_rinv[OF env i f]], rule hoare_sum, rule hoare_return, assumption, rule hoare_bind[OF send_route_rinv[OF i(1)]],
    rule hoare_sum, rule hoare_return, simp)
  fix dst and route :: "enqueue_fn result" and fn assume r: "route = Inr fn"
  have "hoare (rinv (with_node g fn)) (send_body env i fn dst flags data) (\<lambda>_. rinv (with_node g fn))"
    by (rule send_body_rinv, use env in simp, use i in simp, simp add: node_of_def pinned_def)
  then show "hoare (rinv (case route of Inl _ \<Rightarrow> g | Inr fn \<Rightarrow> with_node g fn)) (State_Monad.bind (send_body env i fn dst flags data)
      (\<lambda>rc. State_Monad.bind (qrtr_node_release env (node_of fn)) (\<lambda>_. ret rc))) (\<lambda>_. rinv g)"
    unfolding r sum.case by (rule hoare_bind[OF _ hoare_discard[OF release_rinv[OF env]]])
qed

lemma send_resume_rinv:
  assumes env: "still env g"
  shows "hoare (rinv g) (qrtr_send_resume_tx env cb) (\<lambda>_. rinv g)"
  unfolding qrtr_send_resume_tx_def
proof (rule hoare_bind[OF node_lookup_rinv], rule hoare_option, rule hoare_return, simp)
  fix nd :: "node_p option" and p assume nd: "nd = Some p"
  let ?send = "\<lambda>b. qrtr_node_enqueue env p b QRTR_TYPE_RESUME_TX \<lparr>sq_node = cb_dst_node cb, sq_port = cb_dst_port cb\<rparr>
    \<lparr>sq_node = cb_src_node cb, sq_port = cb_src_port cb\<rparr> 0"
  have p: "p \<in> pinned (held_node g p)" by (simp add: pinned_def)
  show "hoare (rinv (case nd of None \<Rightarrow> g | Some p \<Rightarrow> held_node g p))
    (State_Monad.bind (qrtr_alloc_ctrl_packet env (client_pkt QRTR_TYPE_RESUME_TX (cb_dst_node cb) (cb_dst_port cb)))
      (\<lambda>skb. case skb of None \<Rightarrow> ret (Some ENOMEM)
        | Some b \<Rightarrow> State_Monad.bind (?send b) (\<lambda>rc. State_Monad.bind (qrtr_node_release env (Some p)) (\<lambda>_. ret rc)))) (\<lambda>_. rinv g)"
    unfolding nd option.case
  proof (rule hoare_bind[OF alloc_ctrl_rinv], rule hoare_option)
    show "hoare (\<lambda>s. rinv (held_node g p) s \<and> (\<forall>b. skb = Some b \<longrightarrow> sb_sk b = None)) (ret (Some ENOMEM)) (\<lambda>_. rinv g)" for skb
      by (rule hoare_return, elim conjE, erule rinv_forget_node) (use env in \<open>simp add: still_def\<close>)
    fix skb :: "sk_buff option" and b assume b: "skb = Some b"
    show "hoare (\<lambda>s. rinv (held_node g p) s \<and> (\<forall>b. skb = Some b \<longrightarrow> sb_sk b = None))
      (State_Monad.bind (?send b) (\<lambda>rc. State_Monad.bind (qrtr_node_release env (Some p)) (\<lambda>_. ret rc))) (\<lambda>_. rinv g)"
      by (rule hoare_fact, rule hoare_bind[OF node_enqueue_rinv[OF p] hoare_discard])
        (use b release_rinv[OF env, of "Some p"] in simp_all)
  qed
qed

section \<open>The calls\<close>

text \<open>A socket its user still has and nobody has locked.\<close>

definition ready :: "sock_p \<Rightarrow> router \<Rightarrow> bool" where
  "ready i s \<longleftrightarrow> (\<exists>k. xa_load (r_sock s) i = Some k \<and> s_open k \<and> \<not> s_locked k)"

abbreviation (input) locking :: "grip \<Rightarrow> sock_p \<Rightarrow> grip" where "locking g i \<equiv> g\<lparr>g_lk := insert i (g_lk g)\<rparr>"

lemma rinv_set_lock:
  assumes r: "rinv g s" and i: "i \<notin> g_lk g" and k: "xa_load (r_sock s) i = Some k"
  shows "rinv g (s\<lparr>r_sock := xa_store (r_sock s) i (s_locked_update (\<lambda>_. b) k)\<rparr>)"
proof -
  let ?s = "s\<lparr>r_sock := xa_store (r_sock s) i (s_locked_update (\<lambda>_. b) k)\<rparr>"
  have u: "uses g ?s = uses g s" by (simp add: uses_def)
  have l: "listed ?s = listed s" by (simp add: listed_def fun_eq_iff)
  have "sock_ok g ?s" using r k unfolding rinv_def sock_ok_def u by (simp add: xa_load_store)
  moreover have "shape ?s" using r k by (auto simp: rinv_def shape_def xa_inv_store xa_load_store)
  moreover have "bound_ok g ?s" using r k by (auto simp: rinv_def bound_ok_def xa_load_store)
  moreover have "node_ok g ?s" using r unfolding rinv_def node_ok_def l by simp
  moreover have "grip_ok g ?s"
  proof -
    have g: "grip_ok g s" using r by (simp add: rinv_def)
    have "\<exists>k. xa_load (r_sock ?s) j = Some k \<and> s_locked k \<and> (s_open k \<longleftrightarrow> j \<notin> g_cs g)" if "j \<in> g_lk g" for j
      using g i that by (cases "j = i") (auto simp: grip_ok_def xa_load_store)
    moreover have "\<exists>k. xa_load (r_sock ?s) j = Some k \<and> sq_port (s_us k) = port \<and> s_zapped k = z" if "(j, port, z) \<in> g_us g" for j port z
      using g i that by (cases "j = i") (auto simp: grip_ok_def xa_load_store)
    ultimately show ?thesis using g unfolding grip_ok_def l by simp
  qed
  ultimately show ?thesis by (simp add: rinv_def)
qed

lemma lock_rinv:
  assumes i: "i \<notin> g_lk g" "i \<notin> g_cs g"
  shows "hoare (\<lambda>s. rinv g s \<and> ready i s) (lock_sock i) (\<lambda>_. rinv (locking g i))"
  unfolding lock_sock_def
proof (rule hoare_upd_sock, elim conjE)
  fix s assume r: "rinv g s" and "ready i s"
  then obtain k where k: "xa_load (r_sock s) i = Some k" "s_open k" by (auto simp: ready_def)
  let ?s = "s\<lparr>r_sock := xa_store (r_sock s) i (s_locked_update (\<lambda>_. True) k)\<rparr>"
  have r': "rinv g ?s" by (rule rinv_set_lock[OF r i(1) k(1)])
  have u: "uses (locking g i) ?s = uses g ?s" by (simp add: uses_def)
  have "grip_ok (locking g i) ?s" using r' k i(2) unfolding rinv_def grip_ok_def by (auto simp: xa_load_store)
  then have "rinv (locking g i) ?s" using r' unfolding rinv_def sock_ok_def node_ok_def bound_ok_def u by simp
  then show "\<exists>k. xa_load (r_sock s) i = Some k \<and> rinv (locking g i) (s\<lparr>r_sock := xa_store (r_sock s) i (s_locked_update (\<lambda>_. True) k)\<rparr>)"
    using k by blast
qed

lemma unlock_rinv:
  assumes i: "i \<notin> g_lk g" and f: "facts g"
  shows "hoare (rinv (locking g i)) (release_sock i) (\<lambda>_. rinv g)"
  unfolding release_sock_def
proof (rule hoare_upd_sock)
  fix s assume r: "rinv (locking g i) s"
  obtain k where k: "xa_load (r_sock s) i = Some k" using locked_alive[OF r, of i] by auto
  have u: "uses g s = uses (locking g i) s" by (simp add: uses_def)
  have "grip_ok g s" using r f unfolding rinv_def grip_ok_def facts_def by auto
  then have "rinv g s" using r unfolding rinv_def sock_ok_def node_ok_def bound_ok_def u by simp
  from rinv_set_lock[OF this i k]
  show "\<exists>k. xa_load (r_sock s) i = Some k \<and> rinv g (s\<lparr>r_sock := xa_store (r_sock s) i (s_locked_update (\<lambda>_. False) k)\<rparr>)"
    using k by blast
qed

text \<open>Something done under the lock of a socket.\<close>

lemma locked_rinv:
  assumes i: "i \<notin> g_lk g" "i \<notin> g_cs g" and g: "facts g" and f: "hoare (rinv (locking g i)) f (\<lambda>_. rinv (locking g i))"
  shows "hoare (\<lambda>s. rinv g s \<and> ready i s) (State_Monad.bind (lock_sock i) (\<lambda>_. State_Monad.bind f (\<lambda>rc. State_Monad.bind (release_sock i) (\<lambda>_. ret (h rc)))))
    (\<lambda>_. rinv g)"
  by (rule hoare_bind[OF lock_rinv[OF i] hoare_bind[OF f hoare_discard[OF unlock_rinv[OF i(1) g]]]])

lemma ready_sock_rinv: "hoare (\<lambda>s. rinv g s \<and> ready i s) (sock i) (\<lambda>k s. rinv g s \<and> ready i s)"
  by (rule hoare_sock) (auto simp: ready_def)

lemma bind_rinv:
  assumes g: "still env g" "facts g" and i: "i \<notin> g_lk g" "i \<notin> g_cs g"
  shows "hoare (\<lambda>s. rinv g s \<and> ready i s) (qrtr_bind env i a) (\<lambda>_. rinv g)"
  unfolding qrtr_bind_def
proof (rule hoare_if, rule hoare_return, erule conjunct1, rule hoare_bind[OF ready_sock_rinv], rule hoare_if, rule hoare_return, erule conjunct1,
    rule hoare_bind[OF lock_rinv[OF i] hoare_bind])
  let ?g = "locking g i"
  show "hoare (rinv ?g) (sock i) (\<lambda>k s. rinv ?g s \<and> xa_load (r_sock s) i = Some k)" by (rule locked_sock_rinv) simp
  fix k' :: qrtr_sock
  have "hoare (\<lambda>s. rinv ?g s \<and> xa_load (r_sock s) i = Some k') (qrtr_do_bind env i (sq_port (snd (snd a))) (s_zapped k')) (\<lambda>_. rinv ?g)"
    by (rule hoare_pre[OF do_bind_rinv]) (use g i in \<open>auto simp: facts_def\<close>)
  then show "hoare (\<lambda>s. rinv ?g s \<and> xa_load (r_sock s) i = Some k') (State_Monad.bind (qrtr_do_bind env i (sq_port (snd (snd a))) (s_zapped k'))
      (\<lambda>rc. State_Monad.bind (release_sock i) (\<lambda>_. ret rc))) (\<lambda>_. rinv g)"
    by (rule hoare_bind[OF _ hoare_discard[OF unlock_rinv[OF i(1) g(2)]]])
qed

lemma connect_rinv:
  assumes g: "still env g" "facts g" and i: "i \<notin> g_lk g" "i \<notin> g_cs g"
  shows "hoare (\<lambda>s. rinv g s \<and> ready i s) (qrtr_connect env i a) (\<lambda>_. rinv g)"
proof -
  let ?g = "locking g i"
  have e: "hoare (rinv ?g) (upd_sock i (s_established_update f)) (\<lambda>_. rinv ?g)" for f
    by (rule locked_upd_rinv) (simp_all add: quiet_def)
  have p: "hoare (rinv ?g) (when_rt b (upd_sock i (\<lambda>k. k\<lparr>s_peer := x, s_established := True\<rparr>))) (\<lambda>_. rinv ?g)" for b x
    by (intro hoare_when locked_upd_rinv) (simp_all add: quiet_def)
  have b: "hoare (rinv ?g) (qrtr_autobind env i) (\<lambda>_. rinv ?g)" by (rule autobind_rinv) (use g i in \<open>simp_all add: facts_def\<close>)
  show ?thesis unfolding qrtr_connect_def
    by (rule hoare_if, rule hoare_return, erule conjunct1, rule hoare_bind[OF lock_rinv[OF i] hoare_bind[OF e hoare_bind[OF b hoare_bind[OF p]]]])
      (rule hoare_discard[OF unlock_rinv[OF i(1) g(2)]])
qed

lemma sendmsg_rinv:
  assumes g: "still env g" "facts g" and i: "i \<notin> g_lk g" "i \<notin> g_cs g"
  shows "hoare (\<lambda>s. rinv g s \<and> ready i s) (qrtr_sendmsg env i addr flags data) (\<lambda>_. rinv g)"
proof -
  have s: "hoare (rinv (locking g i)) (send_locked env i addr flags data) (\<lambda>_. rinv (locking g i))"
    by (rule send_locked_rinv) (use g i in \<open>simp_all add: facts_def\<close>)
  show ?thesis unfolding qrtr_sendmsg_def
    by (rule hoare_if, rule hoare_return, erule conjunct1, rule hoare_if, rule hoare_return, erule conjunct1,
        rule locked_rinv[OF i g(2) s, where h = "\<lambda>x. x"])
qed

lemma getname_rinv: "hoare (\<lambda>s. rinv g s \<and> ready i s) (qrtr_getname i peer) (\<lambda>_. rinv g)"
  unfolding qrtr_getname_def by (rule hoare_bind[OF ready_sock_rinv], rule hoare_return, erule conjunct1)

lemma ioctl_rinv: "hoare (\<lambda>s. rinv g s \<and> ready i s) (qrtr_ioctl env i c) (\<lambda>_. rinv g)"
  unfolding qrtr_ioctl_def Let_def
  by (rule hoare_bind[OF hoare_post[OF ready_sock_rinv]], erule conjunct1, rule hoare_bind[OF tick_rinv], rule hoare_return)

lemma ready_upd_rinv:
  assumes "quiet f"
  shows "hoare (\<lambda>s. rinv g s \<and> ready i s) (upd_sock i f) (\<lambda>_ s. rinv g s \<and> ready i s)"
proof -
  have "hoare (\<lambda>s. rinv g s \<and> ready i s) (upd_sock i f) (\<lambda>_. rinv g)" by (rule quiet_upd[OF assms]) (auto simp: ready_def)
  moreover have "hoare (ready i) (upd_sock i f) (\<lambda>_. ready i)"
    by (rule hoare_upd_sock) (use assms in \<open>auto simp: ready_def quiet_def xa_load_store\<close>)
  ultimately show ?thesis by (rule hoare_pre[OF hoare_conj]) simp
qed

lemma ready_tick_rinv: "hoare (\<lambda>s. rinv g s \<and> ready i s) tick (\<lambda>_ s. rinv g s \<and> ready i s)"
  by (simp add: hoare_def tick_def ready_def)

lemma recv_datagram_rinv: "hoare (\<lambda>s. rinv g s \<and> ready i s) (recv_datagram env i flags) (\<lambda>_ s. rinv g s \<and> ready i s)"
  unfolding recv_datagram_def
proof (rule hoare_bind[OF ready_sock_rinv], rule hoare_bind[OF ready_tick_rinv], rule hoare_if)
  have e: "hoare (\<lambda>s. rinv g s \<and> ready i s) (upd_sock i (s_err_update (\<lambda>_. False))) (\<lambda>_ s. rinv g s \<and> ready i s)"
    and q: "hoare (\<lambda>s. rinv g s \<and> ready i s) (upd_sock i (s_queue_update (\<lambda>_. q))) (\<lambda>_ s. rinv g s \<and> ready i s)" for q
    by (rule ready_upd_rinv, simp add: quiet_def)+
  show "hoare (\<lambda>s. rinv g s \<and> ready i s) (State_Monad.bind (upd_sock i (s_err_update (\<lambda>_. False))) (\<lambda>_. ret (Inl ENETRESET)))
      (\<lambda>_ s. rinv g s \<and> ready i s)" by (rule hoare_discard[OF e])
  fix k :: qrtr_sock and n
  show "hoare (\<lambda>s. rinv g s \<and> ready i s) (case s_queue k of [] \<Rightarrow> ret (Inl (recv_rc env n)) | skb # q \<Rightarrow>
      State_Monad.bind (when_rt (flags AND MSG_PEEK = 0) (upd_sock i (s_queue_update (\<lambda>_. q)))) (\<lambda>_. ret (Inr skb))) (\<lambda>_ s. rinv g s \<and> ready i s)"
    by (cases "s_queue k") (auto intro!: hoare_return hoare_discard hoare_when q)
qed

lemma recvmsg_rinv:
  assumes g: "still env g" "facts g" and i: "i \<notin> g_lk g" "i \<notin> g_cs g"
  shows "hoare (\<lambda>s. rinv g s \<and> ready i s) (qrtr_recvmsg env i len flags) (\<lambda>_. rinv g)"
proof -
  let ?g = "locking g i"
  have s: "hoare (rinv ?g) (when_rt b (State_Monad.bind (qrtr_send_resume_tx env cb) (\<lambda>_. ret ()))) (\<lambda>_. rinv ?g)" for b cb
    by (intro hoare_when hoare_discard send_resume_rinv) (use g in simp_all)
  show ?thesis unfolding qrtr_recvmsg_def Let_def
    by (rule hoare_bind[OF ready_sock_rinv], rule hoare_if, rule hoare_return, erule conjunct1, rule hoare_bind[OF recv_datagram_rinv],
        rule hoare_sum, rule hoare_return, erule conjunct1,
        rule hoare_bind[OF lock_rinv[OF i] hoare_bind[OF tick_rinv hoare_bind[OF s hoare_discard[OF unlock_rinv[OF i(1) g(2)]]]]])
qed

section \<open>Sockets that come and go\<close>

text \<open>The reference of the user becomes one the closing call holds.\<close>

lemma rinv_close:
  assumes r: "rinv g s" and i: "i \<in> g_lk g" "i \<notin> g_cs g" and k: "xa_load (r_sock s) i = Some k"
  shows "rinv (g\<lparr>g_hs := add_mset i (g_hs g), g_cs := insert i (g_cs g)\<rparr>) (s\<lparr>r_sock := xa_store (r_sock s) i (s_open_update (\<lambda>_. False) k)\<rparr>)"
proof -
  let ?g = "g\<lparr>g_hs := add_mset i (g_hs g), g_cs := insert i (g_cs g)\<rparr>"
  let ?s = "s\<lparr>r_sock := xa_store (r_sock s) i (s_open_update (\<lambda>_. False) k)\<rparr>"
  have o: "s_open k" using r i k by (auto simp: rinv_def grip_ok_def)
  have u: "uses ?g ?s = add_mset i (uses g s)" by (simp add: uses_def)
  have l: "listed ?s = listed s" by (simp add: listed_def fun_eq_iff)
  have "sock_ok ?g ?s" using r k o sock_refs[OF r k] unfolding rinv_def sock_ok_def u by (simp add: xa_load_store)
  moreover have "shape ?s" using r k by (auto simp: rinv_def shape_def xa_inv_store xa_load_store)
  moreover have "bound_ok ?g ?s" using r by (auto simp: rinv_def bound_ok_def xa_load_store)
  moreover have "node_ok ?g ?s" using r unfolding rinv_def node_ok_def l by simp
  moreover have "grip_ok ?g ?s"
  proof -
    have g: "grip_ok g s" using r by (simp add: rinv_def)
    have "\<exists>k. xa_load (r_sock ?s) j = Some k \<and> s_locked k \<and> (s_open k \<longleftrightarrow> j \<notin> insert i (g_cs g))" if "j \<in> g_lk g" for j
      using g k that by (cases "j = i") (auto simp: grip_ok_def xa_load_store)
    moreover have "\<exists>k. xa_load (r_sock ?s) j = Some k \<and> sq_port (s_us k) = port \<and> s_zapped k = z" if "(j, port, z) \<in> g_us g" for j port z
      using g k that by (cases "j = i") (fastforce simp: grip_ok_def xa_load_store)+
    moreover have "insert i (g_cs g) \<subseteq> set_mset (add_mset i (g_hs g))" using g by (auto simp: grip_ok_def)
    ultimately show ?thesis using g unfolding grip_ok_def l by simp
  qed
  ultimately show ?thesis by (simp add: rinv_def)
qed

text \<open>What a closing call holds, without its lock.\<close>

lemma rinv_closed:
  assumes r: "rinv (g\<lparr>g_lk := insert i (g_lk g), g_us := us, g_ps := {}, g_xs := {i}, g_hs := add_mset i (g_hs g), g_cs := insert i (g_cs g)\<rparr>) s"
    (is "rinv ?g s") and f: "facts g" and i: "i \<notin> g_cs g" "i \<notin> g_lk g"
  shows "rinv (held g i) s"
proof -
  obtain k where k: "xa_load (r_sock s) i = Some k" "\<not> s_open k" using r by (auto simp: rinv_def grip_ok_def)
  have u: "uses (held g i) s = uses ?g s" by (simp add: uses_def)
  have "bound_ok (held g i) s" unfolding bound_ok_def
  proof (intro allI impI)
    fix j kj assume j: "xa_load (r_sock s) j = Some kj \<and> \<not> s_zapped kj \<and> s_open kj \<and> j \<notin> g_xs (held g i)"
    then have "j \<noteq> i" using k by auto
    then show "xa_load (r_ports s) (port_key (sq_port (s_us kj))) = Some j" using r j by (simp add: rinv_def bound_ok_def)
  qed
  moreover have "grip_ok (held g i) s"
  proof -
    have g: "grip_ok ?g s" using r by (simp add: rinv_def)
    have "\<exists>k. xa_load (r_sock s) j = Some k \<and> s_locked k \<and> (s_open k \<longleftrightarrow> j \<notin> g_cs g)" if "j \<in> g_lk g" for j
      using g i that by (cases "j = i") (auto simp: grip_ok_def)
    moreover have "g_cs g \<subseteq> set_mset (add_mset i (g_hs g))" using g by (auto simp: grip_ok_def)
    ultimately show ?thesis using g f unfolding grip_ok_def by (simp add: facts_def pinned_def)
  qed
  ultimately show ?thesis using r unfolding rinv_def sock_ok_def node_ok_def u by simp
qed

lemma release_call_rinv:
  assumes g: "still env g" "facts g" and i: "i \<notin> g_lk g" "i \<notin> g_cs g" and c: "g_cs g \<subseteq> set_mset (g_hs g)"
  shows "hoare (\<lambda>s. rinv g s \<and> ready i s) (qrtr_release env i) (\<lambda>_. rinv g)"
  unfolding qrtr_release_def
proof (rule hoare_bind[OF lock_rinv[OF i] hoare_bind])
  let ?l = "locking g i"
  show "hoare (rinv ?l) (sock i) (\<lambda>k s. rinv ?l s \<and> xa_load (r_sock s) i = Some k)" by (rule locked_sock_rinv) simp
  fix k :: qrtr_sock
  let ?us = "{(i, sq_port (s_us k), s_zapped k)}"
  let ?h = "\<lambda>ps. g\<lparr>g_lk := insert i (g_lk g), g_us := ?us, g_ps := ps, g_xs := {i}, g_hs := add_mset i (g_hs g), g_cs := insert i (g_cs g)\<rparr>"
  let ?ps = "if s_zapped k then {} else {(port_key (sq_port (s_us k)), i)}"
  have close: "hoare (\<lambda>s. rinv ?l s \<and> xa_load (r_sock s) i = Some k) (upd_sock i (s_open_update (\<lambda>_. False))) (\<lambda>_. rinv (?h ?ps))"
  proof (rule hoare_upd_sock, elim conjE)
    fix s assume r: "rinv ?l s" and k: "xa_load (r_sock s) i = Some k"
    have "rinv (?l\<lparr>g_us := ?us, g_ps := ?ps\<rparr>) s" by (rule rinv_facts[OF r _ _ k]) (use i g in \<open>simp_all add: facts_def\<close>)
    then have "rinv (?l\<lparr>g_us := ?us, g_ps := ?ps, g_xs := {i}\<rparr>) s" by (rule rinv_exempt) (use g in \<open>simp_all add: facts_def\<close>)
    from rinv_close[OF this _ _ k] i(2) k
    show "\<exists>k. xa_load (r_sock s) i = Some k \<and> rinv (?h ?ps) (s\<lparr>r_sock := xa_store (r_sock s) i (s_open_update (\<lambda>_. False) k)\<rparr>)" by auto
  qed
  have rm: "hoare (rinv (?h ?ps)) (when_rt (\<not> s_zapped k) (qrtr_port_remove env i)) (\<lambda>_. rinv (?h {}))"
  proof (rule hoare_when)
    assume z: "\<not> s_zapped k"
    have d: "(?h ?ps)\<lparr>g_ps := g_ps (?h ?ps) - {(port_key (sq_port (s_us k)), i)}\<rparr> = ?h {}"
      by (rule grip.equality) (use z in auto)
    have "hoare (rinv (?h ?ps)) (qrtr_port_remove env i) (\<lambda>_. rinv ((?h ?ps)\<lparr>g_ps := g_ps (?h ?ps) - {(port_key (sq_port (s_us k)), i)}\<rparr>))"
      by (rule port_remove_rinv) (use z g in simp_all)
    then show "hoare (rinv (?h ?ps)) (qrtr_port_remove env i) (\<lambda>_. rinv (?h {}))" unfolding d .
  qed simp
  have q: "hoare (rinv (?h {})) (upd_sock i (s_queue_update (\<lambda>_. []))) (\<lambda>_. rinv (?h {}))"
    by (rule locked_upd_rinv) (simp_all add: quiet_def)
  have un: "hoare (rinv (?h {})) (release_sock i) (\<lambda>_. rinv (held g i))" unfolding release_sock_def
  proof (rule hoare_upd_sock)
    fix s assume r: "rinv (?h {}) s"
    obtain k' where k': "xa_load (r_sock s) i = Some k'" using locked_alive[OF r, of i] by auto
    from rinv_set_lock[OF rinv_closed[OF r g(2) i(2,1)] _ k']
    show "\<exists>k. xa_load (r_sock s) i = Some k \<and> rinv (held g i) (s\<lparr>r_sock := xa_store (r_sock s) i (s_locked_update (\<lambda>_. False) k)\<rparr>)"
      using k' i(1) by simp
  qed
  show "hoare (\<lambda>s. rinv ?l s \<and> xa_load (r_sock s) i = Some k) (State_Monad.bind (upd_sock i (s_open_update (\<lambda>_. False)))
      (\<lambda>_. State_Monad.bind (when_rt (\<not> s_zapped k) (qrtr_port_remove env i)) (\<lambda>_. State_Monad.bind (upd_sock i (s_queue_update (\<lambda>_. [])))
        (\<lambda>_. State_Monad.bind (release_sock i) (\<lambda>_. sock_put i))))) (\<lambda>_. rinv g)"
    by (rule hoare_bind[OF close hoare_bind[OF rm hoare_bind[OF q hoare_bind[OF un hoare_sock_put[OF c]]]]])
qed

lemma rinv_new_sock:
  assumes r: "rinv g s" and k: "s_ref k = 1" "s_zapped k" and i: "i = r_next_sock s"
  shows "rinv g (s\<lparr>r_next_sock := Suc i, r_sock := xa_store (r_sock s) i k\<rparr>)" (is "rinv g ?s")
proof -
  have x: "xa_load (r_sock s) i = None" using r i by (simp add: rinv_def shape_def)
  then have z: "count (uses g s) i = 0" "i \<notin> g_lk g" using r by (auto simp: rinv_def sock_ok_def grip_ok_def)
  have u: "uses g ?s = uses g s" by (simp add: uses_def)
  have l: "listed ?s = listed s" by (simp add: listed_def fun_eq_iff)
  have "shape ?s" using r i by (auto simp: rinv_def shape_def xa_inv_store xa_load_store)
  moreover have "sock_ok g ?s" using r z k unfolding rinv_def sock_ok_def u by (simp add: xa_load_store one_if_def)
  moreover have "bound_ok g ?s" using r k by (auto simp: rinv_def bound_ok_def xa_load_store)
  moreover have "node_ok g ?s" using r unfolding rinv_def node_ok_def l by simp
  moreover have "grip_ok g ?s"
  proof -
    have g: "grip_ok g s" using r by (simp add: rinv_def)
    have "\<exists>k. xa_load (r_sock ?s) j = Some k \<and> s_locked k \<and> (s_open k \<longleftrightarrow> j \<notin> g_cs g)" if "j \<in> g_lk g" for j
      using g z that by (cases "j = i") (auto simp: grip_ok_def xa_load_store)
    moreover have "\<exists>k. xa_load (r_sock ?s) j = Some k \<and> sq_port (s_us k) = port \<and> s_zapped k = b" if "(j, port, b) \<in> g_us g" for j port b
      using g z that by (cases "j = i") (auto simp: grip_ok_def xa_load_store)
    ultimately show ?thesis using g unfolding grip_ok_def l by simp
  qed
  ultimately show ?thesis by (simp add: rinv_def)
qed

lemma create_rinv: "hoare (rinv g) (qrtr_create env dgram) (\<lambda>_. rinv g)"
  unfolding qrtr_create_def
proof (rule hoare_if, rule hoare_return, assumption, rule hoare_bind[OF alloc_rinv], rule hoare_if, rule hoare_return, assumption, rule hoareI, goal_cases)
  case (1 ok s a s')
  let ?k = "\<lparr>s_us = \<lparr>sq_node = local_nid env, sq_port = 0\<rparr>, s_peer = \<lparr>sq_node = 0, sq_port = 0\<rparr>, s_state = QRTR_STATE_INIT,
             s_err = False, s_zapped = True, s_established = False, s_queue = [], s_ref = 1, s_open = True, s_locked = False\<rparr> :: qrtr_sock"
  have "rinv g (s\<lparr>r_next_sock := Suc (r_next_sock s), r_sock := xa_store (r_sock s) (r_next_sock s) ?k\<rparr>)"
    by (rule rinv_new_sock[OF 1(3)]) simp_all
  then show ?case using 1(4) by (auto simp: gets_def modify_def)
qed

lemma refill_rinv: "hoare (rinv g) (refill_backup env n k) (\<lambda>_. rinv g)"
proof (induction n arbitrary: k)
  case (Suc n)
  then show ?case by (auto intro!: hoare_bind[OF alloc_rinv] hoare_if hoare_return)
qed (simp add: hoare_return)

lemma alloc_backup_rinv: "hoare (rinv g) (qrtr_alloc_backup env) (\<lambda>_. rinv g)"
  unfolding qrtr_alloc_backup_def
proof -
  have m: "hoare (rinv g) (modify (\<lambda>s. s\<lparr>r_backup_work := False\<rparr>)) (\<lambda>_. rinv g)" "hoare (rinv g) (modify (\<lambda>s. s\<lparr>r_backup_lo := n\<rparr>)) (\<lambda>_. rinv g)"
    "hoare (rinv g) (modify (\<lambda>s. s\<lparr>r_backup_hi := n\<rparr>)) (\<lambda>_. rinv g)" for n
    by (rule hoare_modify; simp)+
  have ge: "hoare (rinv g) (gets f) (\<lambda>_. rinv g)" for f :: "router \<Rightarrow> nat" by (rule hoare_gets)
  show "hoare (rinv g) (State_Monad.bind (modify (\<lambda>s. s\<lparr>r_backup_work := False\<rparr>)) (\<lambda>_. State_Monad.bind (gets r_backup_lo)
      (\<lambda>lo. State_Monad.bind (refill_backup env (20 - lo) lo) (\<lambda>lo'. State_Monad.bind (modify (\<lambda>s. s\<lparr>r_backup_lo := lo'\<rparr>))
        (\<lambda>_. State_Monad.bind (gets r_backup_hi) (\<lambda>hi. State_Monad.bind (refill_backup env (5 - hi) hi)
          (\<lambda>hi'. modify (\<lambda>s. s\<lparr>r_backup_hi := hi'\<rparr>)))))))) (\<lambda>_. rinv g)"
    by (rule hoare_bind[OF m(1) hoare_bind[OF ge hoare_bind[OF refill_rinv hoare_bind[OF m(2) hoare_bind[OF ge hoare_bind[OF refill_rinv m(3)]]]]]])
qed

end
