(* ===== verification/Qrtr_Reach.thy ===== *)
theory Qrtr_Reach
  imports Qrtr_Refs_Sock "HOL-Library.Code_Target_Nat"
begin

text \<open>
  The states the IPC router can be in: what users, endpoints and kernel threads call, in any order, from the
  empty router on. None of them follows a pointer to a node or a socket that was freed.
\<close>

section \<open>Calls\<close>

datatype call =
    Create bool
  | Bind sock_p user_addr
  | Connect sock_p user_addr
  | Sendmsg sock_p "user_addr option" u32 "u8 list"
  | Recvmsg sock_p nat u32
  | Getname sock_p bool
  | Ioctl sock_p u32
  | Release sock_p
  | Register bool u32
  | Post node_p "u8 list"
  | Unregister node_p
  | Rx_work node_p
  | Hello_work node_p
  | Backup_work

definition no_result :: "'a rt \<Rightarrow> unit rt" where
  "no_result f = do {f; ret ()}"

fun run_call :: "qrtr_env \<Rightarrow> call \<Rightarrow> unit rt" where
  "run_call env (Create dgram) = no_result (qrtr_create env dgram)"
| "run_call env (Bind i a) = no_result (qrtr_bind env i a)"
| "run_call env (Connect i a) = no_result (qrtr_connect env i a)"
| "run_call env (Sendmsg i addr flags data) = no_result (qrtr_sendmsg env i addr flags data)"
| "run_call env (Recvmsg i len flags) = no_result (qrtr_recvmsg env i len flags)"
| "run_call env (Getname i peer) = no_result (qrtr_getname i peer)"
| "run_call env (Ioctl i c) = no_result (qrtr_ioctl env i c)"
| "run_call env (Release i) = qrtr_release env i"
| "run_call env (Register xmit net_id) = no_result (qrtr_endpoint_register env xmit net_id)"
| "run_call env (Post p data) = no_result (qrtr_endpoint_post env p data)"
| "run_call env (Unregister p) = qrtr_endpoint_unregister env p"
| "run_call env (Rx_work p) = kthread_work p (qrtr_node_rx_work env p)"
| "run_call env (Hello_work p) = kthread_work p (qrtr_hello_work env p)"
| "run_call env Backup_work = qrtr_alloc_backup env"

text \<open>A user calls on a socket until it is released, an endpoint until it unregisters.\<close>

definition sock_usable :: "sock_p \<Rightarrow> router \<Rightarrow> bool" where
  "sock_usable i s = (case xa_load (r_sock s) i of None \<Rightarrow> False | Some k \<Rightarrow> s_open k \<and> \<not> s_locked k)"

definition node_usable :: "node_p \<Rightarrow> router \<Rightarrow> bool" where
  "node_usable p s = (case xa_load (r_node s) p of None \<Rightarrow> False | Some nd \<Rightarrow> n_ep nd \<and> \<not> n_running nd)"

fun may_call :: "call \<Rightarrow> router \<Rightarrow> bool" where
  "may_call (Create _) s = True"
| "may_call (Bind i _) s = sock_usable i s"
| "may_call (Connect i _) s = sock_usable i s"
| "may_call (Sendmsg i _ _ _) s = sock_usable i s"
| "may_call (Recvmsg i _ _) s = sock_usable i s"
| "may_call (Getname i _) s = sock_usable i s"
| "may_call (Ioctl i _) s = sock_usable i s"
| "may_call (Release i) s = sock_usable i s"
| "may_call (Register _ _) s = True"
| "may_call (Post p _) s = node_usable p s"
| "may_call (Unregister p) s = node_usable p s"
| "may_call (Rx_work p) s = node_usable p s"
| "may_call (Hello_work p) s = node_usable p s"
| "may_call Backup_work s = True"

inductive router_reach :: "qrtr_env \<Rightarrow> router \<Rightarrow> bool" for env where
  init: "router_reach env router_init"
| call: "router_reach env s \<Longrightarrow> may_call c s \<Longrightarrow> router_reach env (snd (run_state (run_call env c) s))"

text \<open>A list of calls, as far as they may be made.\<close>

fun run_calls :: "qrtr_env \<Rightarrow> call list \<Rightarrow> router \<Rightarrow> router option" where
  "run_calls env [] s = Some s"
| "run_calls env (c # cs) s = (if may_call c s then run_calls env cs (snd (run_state (run_call env c) s)) else None)"

lemma run_calls_reach: "router_reach env s \<Longrightarrow> run_calls env cs s = Some s' \<Longrightarrow> router_reach env s'"
  by (induction cs arbitrary: s) (auto split: if_splits intro: router_reach.call)

section \<open>The invariant holds\<close>

lemma usable_ready: "sock_usable i s = ready i s" "node_usable p s = idle_endpoint p s"
  by (auto simp: sock_usable_def node_usable_def ready_def idle_endpoint_def split: option.splits)

lemma no_grip_simps [simp]:
  "g_lk no_grip = {}" "g_cs no_grip = {}" "g_ws no_grip = {}" "g_ds no_grip = {}" "g_fs no_grip = {}" "g_ns no_grip = {}" "g_ep no_grip = {}"
  "g_hs no_grip = {#}" "facts no_grip"
  by (simp_all add: no_grip_def facts_def)

lemma still_no_grip: "calm_env env \<Longrightarrow> still env no_grip"
  by (simp add: still_def)

text \<open>An endpoint that calls keeps its node.\<close>

lemma endpoint_call_rinv:
  assumes f: "hoare (rinv (g\<lparr>g_ep := {p}\<rparr>)) f (\<lambda>_. rinv (g\<lparr>g_ep := {p}\<rparr>))" and g: "g_ep g = {}" "g_fs g = {}"
  shows "hoare (\<lambda>s. rinv g s \<and> idle_endpoint p s) f (\<lambda>_. rinv g)"
proof (rule hoare_post[OF hoare_pre[OF f]])
  have u: "uses (g\<lparr>g_ep := {p}\<rparr>) s = uses g s" for s by (simp add: uses_def)
  show "rinv (g\<lparr>g_ep := {p}\<rparr>) s" if "rinv g s \<and> idle_endpoint p s" for s
    using that g unfolding rinv_def sock_ok_def node_ok_def bound_ok_def grip_ok_def u by (auto simp: idle_endpoint_def)
  show "rinv g s" if "rinv (g\<lparr>g_ep := {p}\<rparr>) s" for s
    using that g unfolding rinv_def sock_ok_def node_ok_def bound_ok_def grip_ok_def u by simp
qed

lemma run_call_rinv:
  assumes env: "calm_env env"
  shows "hoare (\<lambda>s. rinv no_grip s \<and> may_call c s) (run_call env c) (\<lambda>_. rinv no_grip)"
proof -
  note st = still_no_grip[OF env]
  have work: "hoare (\<lambda>s. rinv no_grip s \<and> idle_endpoint p s) (kthread_work p f) (\<lambda>_. rinv no_grip)"
    if "hoare (rinv (no_grip\<lparr>g_ws := {p}\<rparr>)) f (\<lambda>_. rinv (no_grip\<lparr>g_ws := {p}\<rparr>))" for p f
    by (rule kthread_work_rinv) (use that in simp_all)
  show ?thesis
    by (cases c; simp add: usable_ready no_result_def;
        (rule hoare_discard)?;
        (rule create_rinv bind_rinv[OF st] connect_rinv[OF st] sendmsg_rinv[OF st] recvmsg_rinv[OF st] getname_rinv ioctl_rinv
          release_call_rinv[OF st] register_rinv endpoint_call_rinv[OF endpoint_post_rinv] unregister_rinv[OF env]
          work[OF rx_work_rinv[OF env]] work[OF hello_work_rinv] alloc_backup_rinv)?; simp add: pinned_def)
qed

lemma reach_rinv: "router_reach env s \<Longrightarrow> calm_env env \<Longrightarrow> rinv no_grip s"
proof (induction rule: router_reach.induct)
  case (call s c)
  then show ?case using hoareD[OF run_call_rinv, of env s c] by (metis prod.collapse)
qed (rule rinv_init)

section \<open>What other threads may do\<close>

text \<open>
  The hypothesis \<^const>\<open>calm_env\<close> asks of the other threads, while a call waits, what every call guarantees. Here is
  why six of the router's own operations meet it: each of them keeps the invariant for whatever a waiting call holds.
\<close>

lemma calm_hoare: "(\<And>g. g_ep g = {} \<Longrightarrow> hoare (rinv g) f (\<lambda>_. rinv g)) \<Longrightarrow> calm (\<lambda>s. snd (run_state f s))"
  unfolding calm_def by (metis hoareD prod.collapse)

lemma calm_id: "calm (\<lambda>s. s)"
  by (simp add: calm_def)

lemma calm_comp: "calm f \<Longrightarrow> calm h \<Longrightarrow> calm (\<lambda>s. f (h s))"
  by (simp add: calm_def)

lemma calm_create: "calm (\<lambda>s. snd (run_state (qrtr_create env dgram) s))"
  and calm_register: "calm (\<lambda>s. snd (run_state (qrtr_endpoint_register env xmit net_id) s))"
  and calm_backup: "calm (\<lambda>s. snd (run_state (qrtr_alloc_backup env) s))"
  by (rule calm_hoare, rule create_rinv register_rinv alloc_backup_rinv)+

lemma calm_endpoint:
  assumes f: "\<And>g. p \<in> pinned g \<Longrightarrow> hoare (rinv g) f (\<lambda>_. rinv g)"
  shows "calm (\<lambda>s. if node_usable p s then snd (run_state f s) else s)"
  unfolding calm_def usable_ready
proof (intro allI impI, elim conjE)
  fix g s assume r: "rinv g s" and g: "g_ep g = {}"
  let ?g = "g\<lparr>g_ep := {p}\<rparr>"
  have u: "uses ?g s = uses g s" for s by (simp add: uses_def)
  have pin: "q \<in> pinned g \<and> q \<in> pinned ?g" if "(q, key) \<in> g_fs g" for q key using r g that by (auto simp: rinv_def grip_ok_def pinned_def)
  have f': "hoare (rinv ?g) f (\<lambda>_. rinv ?g)" by (rule f) (simp add: pinned_def)
  show "rinv g (if idle_endpoint p s then snd (run_state f s) else s)"
  proof (cases "idle_endpoint p s")
    case True
    then have "rinv ?g s" using r pin unfolding rinv_def sock_ok_def node_ok_def bound_ok_def grip_ok_def u by (auto simp: idle_endpoint_def)
    then have "rinv ?g (snd (run_state f s))" using hoareD[OF f'] by (metis prod.collapse)
    then have "rinv g (snd (run_state f s))" using pin g unfolding rinv_def sock_ok_def node_ok_def bound_ok_def grip_ok_def u by simp
    then show ?thesis using True by simp
  qed (use r in simp)
qed

lemma calm_post: "calm (\<lambda>s. if node_usable p s then snd (run_state (qrtr_endpoint_post env p data) s) else s)"
  and calm_resume: "calm (\<lambda>s. if node_usable p s then snd (run_state (qrtr_tx_resume env p skb) s) else s)"
  and calm_hello: "calm (\<lambda>s. if node_usable p s then snd (run_state (qrtr_hello_work env p) s) else s)"
  by (rule calm_endpoint, erule endpoint_post_rinv tx_resume_rinv hello_work_rinv)+

section \<open>Faster evaluation of keys and bytes\<close>

unbundle bit_operations_syntax

lemma or_add: "a AND b = 0 \<Longrightarrow> (a OR b :: 'a::len word) = a + b"
  by (rule disjunctive_add_eq_or[symmetric])

lemma flow_key_code [code]: "flow_key dst = word_of_int (uint (sq_node dst) * 4294967296 + uint (sq_port dst))"
proof -
  have "push_bit 32 (ucast (sq_node dst)) AND (ucast (sq_port dst) :: u64) = 0"
    by (rule bit_word_eqI) (auto simp: bit_simps dest: bit_imp_le_length)
  from or_add[OF this] have "flow_key dst = push_bit 32 (ucast (sq_node dst)) + ucast (sq_port dst)"
    by (simp only: flow_key_def)
  then show ?thesis by (simp only: push_bit_eq_mult ucast_eq of_int_add of_int_mult of_int_numeral) simp
qed

lemma le32_code [code]: "le32 a b c d = word_of_int (uint a + 256 * uint b + 65536 * uint c + 16777216 * uint d)"
proof -
  have "push_bit 16 (ucast c) AND push_bit 24 (ucast d) = (0::u32)" "push_bit 8 (ucast b) AND (push_bit 16 (ucast c) OR push_bit 24 (ucast d)) = (0::u32)"
     "ucast a AND (push_bit 8 (ucast b) OR push_bit 16 (ucast c) OR push_bit 24 (ucast d)) = (0::u32)"
    by (rule bit_word_eqI; auto simp: bit_simps dest!: bit_imp_le_length)+
  then show ?thesis by (simp only: le32_def or_add push_bit_eq_mult ucast_eq of_int_add of_int_mult of_int_numeral) simp
qed

section \<open>An example\<close>

text \<open>An environment in which everything succeeds; a wait ends with a resume packet the endpoint 0 receives.\<close>

definition ok_env :: qrtr_env where
  "ok_env = \<lparr>local_nid = 1, alloc_ok = (\<lambda>_. True), xmit_rc = (\<lambda>_. None), rcv_rc = (\<lambda>_. None), pad_rc = (\<lambda>_. None), copy_rc = (\<lambda>_. None),
     recv_rc = (\<lambda>_. EAGAIN), wait_rc = (\<lambda>_. []), flush_rc = (\<lambda>_ s. s), sndtimeo = 100, sndbuf_left = 0, capable = True, stray = 0\<rparr>"

definition ex_resume :: sk_buff where
  "ex_resume = \<lparr>sb_data = encode_ctrl (client_pkt QRTR_TYPE_RESUME_TX 5 100), sb_cb = no_cb, sb_sk = None\<rparr>"

definition ex_env :: qrtr_env where
  "ex_env = ok_env\<lparr>wait_rc := (\<lambda>_. [(50, False, \<lambda>s. if node_usable 0 s then snd (run_state (qrtr_tx_resume ok_env 0 ex_resume) s) else s)])\<rparr>"

lemma calm_ex_env: "calm_env ex_env"
  by (simp add: calm_env_def ex_env_def ok_env_def calm_id calm_resume)

text \<open>
  A socket at the control port and a client; an endpoint that says hello as node 5; a packet to port 100 of node 5;
  then all of them leave.
\<close>

definition ex_hello :: "u8 list" where
  "ex_hello = pad_packet 20 (push_header 1 QRTR_TYPE_HELLO \<lparr>sq_node = 5, sq_port = QRTR_PORT_CTRL\<rparr> \<lparr>sq_node = 1, sq_port = QRTR_PORT_CTRL\<rparr> False
     (encode_ctrl (server_pkt QRTR_TYPE_HELLO 0 0 0 0)))"

definition ex_calls :: "call list" where
  "ex_calls = [Create True, Bind 0 (12, AF_QIPCRTR, \<lparr>sq_node = 1, sq_port = QRTR_PORT_CTRL\<rparr>), Register True 1, Hello_work 0, Post 0 ex_hello,
     Rx_work 0, Create True, Sendmsg 1 (Some (12, AF_QIPCRTR, \<lparr>sq_node = 5, sq_port = 100\<rparr>)) 0 [1, 2, 3]]"

text \<open>What the states of a socket and of a node say, for the comparison with what is expected.\<close>

definition sock_brief :: "sock_p \<Rightarrow> router \<Rightarrow> (u32 \<times> bool \<times> bool \<times> nat) option" where
  "sock_brief i s = map_option (\<lambda>k. (sq_port (s_us k), s_open k, s_zapped k, s_ref k)) (xa_load (r_sock s) i)"

definition flow_brief :: "node_p \<Rightarrow> u64 \<Rightarrow> router \<Rightarrow> nat option" where
  "flow_brief p key s = (case xa_load (r_node s) p of None \<Rightarrow> None | Some nd \<Rightarrow> map_option fl_pending (xa_load (n_tx_flow nd) key))"

definition ex_state :: "router option \<Rightarrow> bool" where
  "ex_state r = (case r of None \<Rightarrow> False | Some s \<Rightarrow>
     r_nodes s = [(5, 0)] \<and> r_ports s = [(0, 0), (0x4000, 1)] \<and> r_epts s = [0] \<and> length (r_xmits s) = 2 \<and>
     sock_brief 1 s = Some (0x4000, True, False, 2) \<and> flow_brief 0 0x500000064 s = Some 1)"

lemma ex_calls_state: "ex_state (run_calls ex_env ex_calls router_init)"
  by code_simp

lemma ex_reach:
  obtains s where "router_reach ex_env s" "ex_state (Some s)"
proof -
  obtain s where "run_calls ex_env ex_calls router_init = Some s" "ex_state (Some s)"
    using ex_calls_state by (cases "run_calls ex_env ex_calls router_init") (auto simp: ex_state_def)
  then show thesis using that run_calls_reach[OF router_reach.init] by blast
qed

section \<open>Properties\<close>

lemma xa_alive: "xa_inv m \<Longrightarrow> xa_load m i = Some v \<Longrightarrow> i \<in> fst ` set m"
  by (force simp flip: xa_mem_iff)

lemma rinv_alive:
  assumes r: "rinv g s"
  shows "\<not> r_bad s \<and> snd ` set (r_ports s) \<subseteq> fst ` set (r_sock s) \<and> snd ` set (r_nodes s) \<union> set (r_epts s) \<subseteq> fst ` set (r_node s)"
proof (intro conjI subsetI)
  have x: "xa_inv (r_ports s)" "xa_inv (r_sock s)" "xa_inv (r_node s)" using r by (simp_all add: rinv_def shape_def)
  show "\<not> r_bad s" using r by (simp add: rinv_def shape_def)
  show "i \<in> fst ` set (r_sock s)" if i: "i \<in> snd ` set (r_ports s)" for i
  proof -
    obtain port where "xa_load (r_ports s) port = Some i" using i x(1) by (auto simp: xa_mem_iff)
    from port_used[OF r this] show ?thesis using xa_alive[OF x(2)] by blast
  qed
  show "p \<in> fst ` set (r_node s)" if "p \<in> snd ` set (r_nodes s) \<union> set (r_epts s)" for p
  proof -
    have "listed s p" using that by (simp add: listed_def disj_commute)
    from listed_alive[OF r this] show ?thesis using xa_alive[OF x(3)] by blast
  qed
qed

text \<open>C2. The IPC router never follows a pointer to a node or a socket that was freed. This holds for every sequence of
  calls by users, endpoints and kernel threads, whatever allocations, transmissions and copies fail, provided the other
  threads keep the counts of what a waiting call holds. Moreover, everything the ports, the node ids and the list of
  endpoints point to is allocated, and a socket has a reference for its user and for each of its ports and waits.\<close>

theorem router_no_dangling:
  assumes "calm_env env" "router_reach env s"
  shows "\<not> r_bad s \<and> snd ` set (r_ports s) \<subseteq> fst ` set (r_sock s) \<and> snd ` set (r_nodes s) \<union> set (r_epts s) \<subseteq> fst ` set (r_node s) \<and>
    (\<forall>i k. xa_load (r_sock s) i = Some k \<longrightarrow> count (uses no_grip s) i + one_if (s_open k) \<le> s_ref k)"
  using rinv_alive[OF reach_rinv[OF assms(2,1)]] sock_refs[OF reach_rinv[OF assms(2,1)]] by blast

theorem router_no_dangling_witness:
  "\<exists>s. router_reach ex_env s \<and> ex_state (Some s) \<and> \<not> r_bad s \<and> {0, 1} \<subseteq> fst ` set (r_sock s)"
proof -
  obtain s where s: "router_reach ex_env s" "ex_state (Some s)" by (rule ex_reach)
  then show ?thesis using router_no_dangling[OF calm_ex_env s(1)] by (auto simp: ex_state_def)
qed

text \<open>C14. A socket that is bound and not released is the one the router finds at its port, so that a packet for the port
  is delivered to it.\<close>

theorem router_finds_bound:
  assumes "calm_env env" "router_reach env s" "xa_load (r_sock s) i = Some k" "s_open k" "\<not> s_zapped k"
  shows "fst (run_state (qrtr_port_lookup (sq_port (s_us k))) s) = Some i"
proof -
  have "xa_load (r_ports s) (port_key (sq_port (s_us k))) = Some i"
    using reach_rinv[OF assms(2,1)] assms(3-5) by (simp add: rinv_def bound_ok_def no_grip_def)
  then show ?thesis by (simp add: qrtr_port_lookup_def gets_def split: prod.split)
qed

theorem router_finds_bound_witness:
  "\<exists>s. router_reach ex_env s \<and> ex_state (Some s) \<and> fst (run_state (qrtr_port_lookup 0x4000) s) = Some 1"
proof -
  obtain s where s: "router_reach ex_env s" "ex_state (Some s)" by (rule ex_reach)
  then obtain k where "xa_load (r_sock s) 1 = Some k" "s_open k" "\<not> s_zapped k" "sq_port (s_us k) = 0x4000"
    by (auto simp: ex_state_def sock_brief_def)
  then show ?thesis using router_finds_bound[OF calm_ex_env s(1), of 1 k] s by auto
qed

text \<open>The counter of a flow never exceeds the high-water mark. Packets that are sent while no flow could be allocated are not
  counted; they ask for a confirmation.\<close>

lemma router_flow_bound:
  assumes "calm_env env" "router_reach env s" "xa_load (r_node s) p = Some nd" "xa_load (n_tx_flow nd) key = Some fl"
  shows "fl_pending fl \<le> QRTR_TX_FLOW_HIGH"
  using flow_pending[OF reach_rinv[OF assms(2,1)]] assms(3,4) unfolding flow_at_def by blast

end
