(* ===== verification/Qrtr_Deliver.thy ===== *)
theory Qrtr_Deliver
  imports Qrtr_Reach
begin

text \<open>
  Progress and delivery in the IPC router: a sender that waits goes on when the receiver confirms, and what a user sends
  on one router is what a user of the other receives.
\<close>

section \<open>The runs of the primitives\<close>

named_theorems runs \<open>what a primitive returns and does\<close>

lemma run_prims [runs]:
  "run_state (gets f) s = (f s, s)" "run_state (modify h) s = ((), h s)" "run_state tick s = (r_tick s, s\<lparr>r_tick := r_tick s + 1\<rparr>)"
  "run_state (alloc env) s = (alloc_ok env (r_tick s), s\<lparr>r_tick := r_tick s + 1\<rparr>)"
  "run_state (when_rt b m) s = (if b then run_state m s else ((), s))"
  by (simp_all add: gets_def modify_def tick_def alloc_def when_rt_def)

lemma run_node [runs]:
  "xa_load (r_node s) p = Some nd \<Longrightarrow> run_state (node p) s = (nd, s)"
  "xa_load (r_node s) p = Some nd \<Longrightarrow> run_state (upd_node p f) s = ((), s\<lparr>r_node := xa_store (r_node s) p (f nd)\<rparr>)"
  by (simp_all add: node_def upd_node_def modify_def)

lemma run_sock [runs]:
  "xa_load (r_sock s) i = Some k \<Longrightarrow> run_state (sock i) s = (k, s)"
  "xa_load (r_sock s) i = Some k \<Longrightarrow> run_state (upd_sock i g) s = ((), s\<lparr>r_sock := xa_store (r_sock s) i (g k)\<rparr>)"
  by (simp_all add: sock_def upd_sock_def modify_def)

lemma run_flow [runs]:
  "xa_load (r_node s) p = Some nd \<Longrightarrow> xa_load (n_tx_flow nd) key = Some fl \<Longrightarrow> run_state (flow p key) s = (fl, s)"
  by (simp add: flow_def run_node)

section \<open>A sender that waits\<close>

lemma keeps_resume_waiters: "keeps r_node (resume_waiters env src is)"
proof (induction "is")
  case (Cons i "is")
  have e: "keeps r_node (qrtr_local_enqueue env skb src dst)" for skb dst
    unfolding qrtr_local_enqueue_def qrtr_port_lookup_def qrtr_port_put_def sock_queue_rcv_def by (intro keeps_rules) simp_all
  show ?case unfolding resume_waiters.simps by (intro keeps_rules e Cons) simp_all
qed (simp add: keeps_return)

text \<open>The resume packet for a flow makes room in it.\<close>

definition resume_packet :: "sockaddr_qrtr \<Rightarrow> sk_buff \<Rightarrow> bool" where
  "resume_packet dst skb \<longleftrightarrow> sb_data skb = encode_ctrl (client_pkt QRTR_TYPE_RESUME_TX (sq_node dst) (sq_port dst))"

lemma resume_makes_room:
  assumes "resume_packet dst skb" and nd: "xa_load (r_node s) p = Some nd" and fl: "xa_load (n_tx_flow nd) (flow_key dst) = Some fl"
  shows "r_node (snd (run_state (qrtr_tx_resume env p skb) s)) =
    xa_store (r_node s) p (n_wakes_update Suc (nd\<lparr>n_tx_flow := xa_store (n_tx_flow nd) (flow_key dst) (fl\<lparr>fl_pending := 0, fl_waiters := []\<rparr>)\<rparr>))"
proof -
  have d: "copy_ctrl (sb_data skb) (server_pkt 0 0 0 0 0) = client_pkt QRTR_TYPE_RESUME_TX (sq_node dst) (sq_port dst)"
    using assms(1) decode_encode_ctrl[of _ "[]"] by (simp add: resume_packet_def copy_ctrl_def)
  have a: "\<lparr>sq_node = client_node (client_pkt t n m), sq_port = client_port (client_pkt t n m)\<rparr> = \<lparr>sq_node = n, sq_port = m\<rparr>"
    "cmd (client_pkt t n m) = t" for t n m
    by (simp_all add: client_pkt_def server_pkt_def client_node_def client_port_def)
  have k: "r_node (snd (run_state (resume_waiters env src is) s)) = r_node s" for src "is" s
    using keeps_resume_waiters by (simp add: keeps_def)
  have e: "\<lparr>sq_node = sq_node dst, sq_port = sq_port dst\<rparr> = dst" by simp
  have "run_state (qrtr_tx_resume env p skb) s = run_state (resume_waiters env dst (fl_waiters fl)) (s\<lparr>r_node := xa_store (r_node s) p
      (n_wakes_update Suc (nd\<lparr>n_tx_flow := xa_store (n_tx_flow nd) (flow_key dst) (fl\<lparr>fl_pending := 0, fl_waiters := []\<rparr>)\<rparr>))\<rparr>)"
    unfolding qrtr_tx_resume_def Let_def d a e using nd fl by (simp add: run_node set_flow_def wake_up_all_def xa_load_store xa_store_store)
  then show ?thesis using k by simp
qed

text \<open>A flow to a live endpoint that is full, and turns of a wait in which it stays so and the time does not end.\<close>

definition flow_full :: "node_p \<Rightarrow> u64 \<Rightarrow> router \<Rightarrow> bool" where
  "flow_full p key s \<longleftrightarrow> (\<exists>nd fl. xa_load (r_node s) p = Some nd \<and> n_ep nd \<and> xa_load (n_tx_flow nd) key = Some fl \<and>
     \<not> fl_tx_failed fl \<and> fl_pending fl = QRTR_TX_FLOW_HIGH)"

definition stays_full :: "node_p \<Rightarrow> u64 \<Rightarrow> turn \<Rightarrow> bool" where
  "stays_full p key w \<longleftrightarrow> (case w of (t, look, f) \<Rightarrow> t > 0 \<and> (\<forall>s. flow_full p key s \<longrightarrow> flow_full p key (f s)))"

lemma run_flow_try_full: "flow_full p key s \<Longrightarrow> run_state (flow_try p key) s = (None, s)"
  by (auto simp: flow_full_def flow_try_def run_flow)

lemma run_node_full: "flow_full p key s \<Longrightarrow> \<exists>nd. run_state (node p) s = (nd, s) \<and> n_ep nd"
  by (auto simp: flow_full_def run_node)

lemma asleep_while_full:
  assumes "flow_full p key s" "\<forall>w \<in> set pre. stays_full p key w"
  shows "\<exists>s1. flow_full p key s1 \<and> run_state (tx_asleep env p key sk (pre @ ws)) s = run_state (tx_asleep env p key sk ws) s1"
  using assms
proof (induction pre arbitrary: s)
  case (Cons w pre)
  obtain t look f where w: "w = (t, look, f)" by (metis prod_cases3)
  have f: "t > 0" "flow_full p key (f s)" using Cons.prems by (auto simp: w stays_full_def)
  obtain nd nd' where nd: "run_state (node p) s = (nd, s)" "run_state (node p) (f s) = (nd', f s)" "n_ep nd'"
    using run_node_full Cons.prems(1) f(2) by metis
  have "run_state (tx_asleep env p key sk ((w # pre) @ ws)) s = run_state (tx_asleep env p key sk (pre @ ws)) (f s)"
    using nd f run_flow_try_full[OF f(2)] by (simp add: w run_prims)
  then show ?case using Cons.IH[OF f(2)] Cons.prems(2) by simp
qed auto

lemma resume_ends_sleep:
  assumes "flow_full p (flow_key dst) s" "resume_packet dst skb"
  shows "\<exists>s' nd fl. run_state (tx_asleep env p (flow_key dst) sk ((t, look, \<lambda>s. snd (run_state (qrtr_tx_resume env' p skb) s)) # ws)) s = (Inr False, s') \<and>
    xa_load (r_node s') p = Some nd \<and> xa_load (n_tx_flow nd) (flow_key dst) = Some fl \<and> fl_pending fl = 1"
proof -
  obtain nd fl where nd: "xa_load (r_node s) p = Some nd" "n_ep nd" and fl: "xa_load (n_tx_flow nd) (flow_key dst) = Some fl" "\<not> fl_tx_failed fl"
    using assms(1) by (auto simp: flow_full_def)
  let ?s = "snd (run_state (qrtr_tx_resume env' p skb) s)"
  let ?fl = "fl\<lparr>fl_pending := 0, fl_waiters := []\<rparr>"
  let ?nd = "n_wakes_update Suc (nd\<lparr>n_tx_flow := xa_store (n_tx_flow nd) (flow_key dst) ?fl\<rparr>)"
  have r: "r_node ?s = xa_store (r_node s) p ?nd" by (rule resume_makes_room[OF assms(2) nd(1) fl(1)])
  have l: "xa_load (r_node ?s) p = Some ?nd" "xa_load (n_tx_flow ?nd) (flow_key dst) = Some ?fl" by (simp_all add: r xa_load_store)
  have "run_state (flow_try p (flow_key dst)) ?s =
      (Some False, ?s\<lparr>r_node := xa_store (r_node ?s) p (?nd\<lparr>n_tx_flow := xa_store (n_tx_flow ?nd) (flow_key dst) (?fl\<lparr>fl_pending := 1\<rparr>)\<rparr>)\<rparr>)"
    using l fl(2) by (simp add: flow_try_def run_flow run_node set_flow_def)
  then show ?thesis using nd l by (auto simp: run_node run_prims xa_load_store)
qed

text \<open>C13. A sender that is blocked because the flow to its destination is full is woken up and goes on when the resume packet
  for this destination arrives, however often it was woken up before in vain and before anything else happens: the wait
  ends, the packet may be sent, and it is the first one of the flow that is not confirmed. Other threads may run before,
  as long as the endpoint stays, the flow stays full and the time does not end. A sleeping sender looks at the flow
  only when the queue \<open>resume_tx\<close> is woken up.\<close>

theorem blocked_sender_resumes:
  assumes "flow_full p (flow_key dst) s" "flags AND MSG_DONTWAIT = 0" "sndtimeo env > 0" "resume_packet dst skb"
    and "wait_rc env (r_tick s) = pre @ (t, look, \<lambda>s. snd (run_state (qrtr_tx_resume env' p skb) s)) # ws"
    and "\<forall>w \<in> set pre. stays_full p (flow_key dst) w"
  shows "\<exists>s' nd fl. run_state (qrtr_tx_wait env p dst sk QRTR_TYPE_DATA flags) s = (Inr False, s') \<and>
    xa_load (r_node s') p = Some nd \<and> xa_load (n_tx_flow nd) (flow_key dst) = Some fl \<and> fl_pending fl = 1"
proof -
  let ?s = "s\<lparr>r_tick := r_tick s + 1\<rparr>"
  have full: "flow_full p (flow_key dst) ?s" using assms(1) by (simp add: flow_full_def)
  obtain nd fl where nd: "xa_load (r_node s) p = Some nd" "n_ep nd" "xa_load (n_tx_flow nd) (flow_key dst) = Some fl"
    using assms(1) by (auto simp: flow_full_def)
  have "run_state (qrtr_tx_wait env p dst sk QRTR_TYPE_DATA flags) s = run_state (tx_asleep env p (flow_key dst) sk (wait_rc env (r_tick s))) ?s"
    using nd assms(2,3) run_flow_try_full[OF full] by (simp add: qrtr_tx_wait_def Let_def run_node run_prims tx_wait_loop_def)
  then show ?thesis
    using asleep_while_full[OF full assms(6), of env sk "(t, look, \<lambda>s. snd (run_state (qrtr_tx_resume env' p skb) s)) # ws"]
      resume_ends_sleep[OF _ assms(4), of p _ env sk t look env' ws] unfolding assms(5) by metis
qed

text \<open>A router with one socket at port 0x4000 and node 5 behind an endpoint, with \<open>n\<close> unconfirmed packets to port 100 there.\<close>

definition ex_sock :: "u32 \<Rightarrow> qrtr_sock" where
  "ex_sock nid = \<lparr>s_us = \<lparr>sq_node = nid, sq_port = 0x4000\<rparr>, s_peer = \<lparr>sq_node = 0, sq_port = 0\<rparr>, s_state = QRTR_STATE_INIT, s_err = False,
     s_zapped = False, s_established = False, s_queue = [], s_ref = 2, s_open = True, s_locked = False\<rparr>"

definition ex_flow :: "nat \<Rightarrow> qrtr_tx_flow" where
  "ex_flow n = \<lparr>fl_pending = n, fl_tx_failed = False, fl_waiters = []\<rparr>"

definition ex_node :: "u32 \<Rightarrow> u64 \<Rightarrow> nat \<Rightarrow> qrtr_node" where
  "ex_node nid key n = \<lparr>n_ep = True, n_ref = 1, n_nid = nid, n_net_id = 1, n_hello_sent = 1, n_hello_rcvd = 1,
     n_tx_flow = [(key, ex_flow n)], n_rx_queue = [], n_running = False, n_wakes = 0\<rparr>"

definition ex_router :: "u32 \<Rightarrow> u32 \<Rightarrow> u64 \<Rightarrow> nat \<Rightarrow> router" where
  "ex_router nid peer key n = router_init\<lparr>r_nodes := [(peer, 0)], r_epts := [0], r_ports := [(0x4000, 0)], r_port_next := 0x4001,
     r_node := [(0, ex_node peer key n)], r_sock := [(0, ex_sock nid)], r_next_node := 1, r_next_sock := 1\<rparr>"

abbreviation (input) ex_dst :: sockaddr_qrtr where "ex_dst \<equiv> \<lparr>sq_node = 5, sq_port = 100\<rparr>"

lemmas ex_defs = ex_router_def ex_node_def ex_flow_def ex_sock_def router_init_def ok_env_def

theorem blocked_sender_resumes_witness:
  "\<exists>s' nd fl. run_state (qrtr_tx_wait (ok_env\<lparr>wait_rc := \<lambda>_. [(70, True, r_xmits_update (\<lambda>_. [])), (50, False, \<lambda>s. snd (run_state (qrtr_tx_resume ok_env 0 ex_resume) s))]\<rparr>) 0 ex_dst 0
      QRTR_TYPE_DATA 0) (ex_router 1 5 (flow_key ex_dst) 10) = (Inr False, s') \<and>
    xa_load (r_node s') 0 = Some nd \<and> xa_load (n_tx_flow nd) (flow_key ex_dst) = Some fl \<and> fl_pending fl = 1"
  by (rule blocked_sender_resumes[where skb = ex_resume and t = 50 and env' = ok_env and look = False and ws = "[]"
      and pre = "[(70, True, r_xmits_update (\<lambda>_. []))]"])
    (simp_all add: ex_defs ex_resume_def resume_packet_def flow_full_def stays_full_def)

section \<open>Flow control without a confirmation\<close>

text \<open>The answers to \<open>n\<close> attempts to send without waiting.\<close>

fun tx_tries :: "qrtr_env \<Rightarrow> node_p \<Rightarrow> sockaddr_qrtr \<Rightarrow> sock_p \<Rightarrow> nat \<Rightarrow> bool result list rt" where
  "tx_tries env p dst sk 0 = ret []"
| "tx_tries env p dst sk (Suc n) =
     do {r \<leftarrow> qrtr_tx_wait env p dst sk QRTR_TYPE_DATA MSG_DONTWAIT; rs \<leftarrow> tx_tries env p dst sk n; ret (r # rs)}"

definition unconfirmed :: "node_p \<Rightarrow> u64 \<Rightarrow> router \<Rightarrow> bool" where
  "unconfirmed p key s \<longleftrightarrow> (\<exists>nd fl. xa_load (r_node s) p = Some nd \<and> xa_load (n_tx_flow nd) key = Some fl \<and> \<not> fl_tx_failed fl \<and>
     QRTR_TX_FLOW_LOW \<le> fl_pending fl)"

lemma run_tx_wait:
  assumes "xa_load (r_node s) p = Some nd" "xa_load (n_tx_flow nd) (flow_key dst) = Some fl" "\<not> fl_tx_failed fl" "fl_pending fl < QRTR_TX_FLOW_HIGH"
  shows "run_state (qrtr_tx_wait env p dst sk QRTR_TYPE_DATA flags) s = (Inr (fl_pending fl + 1 = QRTR_TX_FLOW_LOW),
    s\<lparr>r_tick := r_tick s + 1, r_node := xa_store (r_node s) p (nd\<lparr>n_tx_flow := xa_store (n_tx_flow nd) (flow_key dst) (fl\<lparr>fl_pending := fl_pending fl + 1\<rparr>)\<rparr>)\<rparr>)"
  using assms by (simp add: qrtr_tx_wait_def Let_def run_node run_prims run_flow set_flow_def tx_wait_loop_def flow_try_def)

lemma unconfirmed_wait:
  assumes u: "unconfirmed p (flow_key dst) s"
  shows "fst (run_state (qrtr_tx_wait env p dst sk QRTR_TYPE_DATA MSG_DONTWAIT) s) \<noteq> Inr True \<and>
    unconfirmed p (flow_key dst) (snd (run_state (qrtr_tx_wait env p dst sk QRTR_TYPE_DATA MSG_DONTWAIT) s))"
proof -
  obtain nd fl where nd: "xa_load (r_node s) p = Some nd" "xa_load (n_tx_flow nd) (flow_key dst) = Some fl" "\<not> fl_tx_failed fl"
    "QRTR_TX_FLOW_LOW \<le> fl_pending fl" using u by (auto simp: unconfirmed_def)
  show ?thesis
  proof (cases "fl_pending fl < QRTR_TX_FLOW_HIGH")
    case True
    then show ?thesis using nd by (simp add: run_tx_wait unconfirmed_def xa_load_store)
  next
    case False
    have h: "\<exists>s'. run_state (sock_hold sk) s1 = ((), s') \<and> r_node s' = r_node s1" for s1
      by (simp add: sock_hold_def upd_sock_def modify_def split: option.split)
    show ?thesis using nd False h[of "s\<lparr>r_tick := Suc (Suc (r_tick s))\<rparr>"]
      by (auto simp: qrtr_tx_wait_def Let_def run_node run_prims run_flow tx_wait_loop_def flow_try_def add_waiter_def unconfirmed_def set_flow_def xa_load_store)
  qed
qed

lemma unconfirmed_tries:
  "unconfirmed p (flow_key dst) s \<Longrightarrow> Inr True \<notin> set (fst (run_state (tx_tries env p dst sk n) s))"
proof (induction n arbitrary: s)
  case (Suc n)
  then show ?case using unconfirmed_wait[OF Suc.prems, of env sk] Suc.IH
    by (simp split: prod.split) (metis fst_conv snd_conv)
qed simp

text \<open>C39. A packet that is to ask for a confirmation and whose padding fails is dropped without a mark on its flow: it is
  not transmitted, the sender gets the error, the counter has moved past the low-water mark, and no later packet of the flow
  asks for the confirmation that would reset the counter, however often the sender tries without blocking.\<close>

theorem pad_failure_loses_confirmation:
  assumes "xa_load (r_node s) p = Some nd" "n_hello_sent nd \<noteq> 0" "xa_load (n_tx_flow nd) (flow_key dst) = Some fl"
    and "\<not> fl_tx_failed fl" "fl_pending fl + 1 = QRTR_TX_FLOW_LOW" "sb_sk skb = Some sk" "pad_rc env (r_tick s + 1) = Some e"
  shows "\<exists>s'. run_state (qrtr_node_enqueue env p skb QRTR_TYPE_DATA src dst flags) s = (Some e, s') \<and> r_xmits s' = r_xmits s \<and>
    Inr True \<notin> set (fst (run_state (tx_tries env' p dst sk' n) s'))"
proof -
  let ?fl = "fl\<lparr>fl_pending := fl_pending fl + 1\<rparr>"
  let ?nd = "nd\<lparr>n_tx_flow := xa_store (n_tx_flow nd) (flow_key dst) ?fl\<rparr>"
  let ?s = "s\<lparr>r_tick := r_tick s + 1, r_node := xa_store (r_node s) p ?nd\<rparr>"
  have "run_state (qrtr_node_enqueue env p skb QRTR_TYPE_DATA src dst flags) s = (Some e, ?s\<lparr>r_tick := r_tick s + 2\<rparr>)"
    using assms run_tx_wait[OF assms(1,3,4)] by (simp add: qrtr_node_enqueue_def run_node run_prims send_packet_def Let_def xa_load_store)
  moreover have "unconfirmed p (flow_key dst) (?s\<lparr>r_tick := r_tick s + 2\<rparr>)" using assms(4,5) by (simp add: unconfirmed_def xa_load_store)
  ultimately show ?thesis using unconfirmed_tries by auto
qed

theorem pad_failure_loses_confirmation_witness:
  "\<exists>s'. run_state (qrtr_node_enqueue (ok_env\<lparr>pad_rc := \<lambda>n. if n = 1 then Some ENOMEM else None\<rparr>) 0 \<lparr>sb_data = [7], sb_cb = no_cb, sb_sk = Some 0\<rparr>
      QRTR_TYPE_DATA \<lparr>sq_node = 1, sq_port = 0x4000\<rparr> ex_dst 0) (ex_router 1 5 (flow_key ex_dst) 4) = (Some ENOMEM, s') \<and>
    r_xmits s' = r_xmits (ex_router 1 5 (flow_key ex_dst) 4) \<and> Inr True \<notin> set (fst (run_state (tx_tries ok_env 0 ex_dst 0 20) s'))"
  by (rule pad_failure_loses_confirmation[where nd = "ex_node 5 (flow_key ex_dst) 4" and fl = "ex_flow 4"]) (simp_all add: ex_defs)

section \<open>From user to user\<close>

text \<open>Nothing fails.\<close>

definition smooth :: "qrtr_env \<Rightarrow> bool" where
  "smooth env \<longleftrightarrow> (\<forall>n. alloc_ok env n \<and> xmit_rc env n = None \<and> rcv_rc env n = None \<and> pad_rc env n = None \<and> copy_rc env n = None)"

text \<open>The flow to a destination has room.\<close>

definition has_room :: "qrtr_node \<Rightarrow> sockaddr_qrtr \<Rightarrow> bool" where
  "has_room nd dst = (case xa_load (n_tx_flow nd) (flow_key dst) of None \<Rightarrow> True | Some fl \<Rightarrow> fl_tx_failed fl \<or> fl_pending fl < QRTR_TX_FLOW_HIGH)"

lemma wait_room:
  assumes env: "smooth env" and nd: "xa_load (r_node s) p = Some nd" and room: "has_room nd dst"
  shows "\<exists>c fls s'. run_state (qrtr_tx_wait env p dst sk QRTR_TYPE_DATA flags) s = (Inr c, s') \<and> r_xmits s' = r_xmits s \<and>
    xa_load (r_node s') p = Some (nd\<lparr>n_tx_flow := fls\<rparr>)"
  using assms unfolding has_room_def smooth_def
  by (cases "xa_load (n_tx_flow nd) (flow_key dst)")
    (auto simp: qrtr_tx_wait_def Let_def run_node run_prims run_flow tx_wait_loop_def flow_try_def set_flow_def xa_load_store no_flow_def)

text \<open>A data packet that is handed to a node with an endpoint is transmitted.\<close>

lemma enqueue_transmits:
  assumes env: "smooth env" and nd: "xa_load (r_node s) p = Some nd" "n_ep nd" "n_hello_sent nd \<noteq> 0" and room: "has_room nd dst"
    and skb: "sb_sk skb = Some sk" and dst: "sq_node dst \<noteq> QRTR_NODE_BCAST"
  shows "\<exists>c s' nd'. run_state (qrtr_node_enqueue env p skb QRTR_TYPE_DATA src dst flags) s = (None, s') \<and>
    r_xmits s' = r_xmits s @ [(p, wire_packet (n_nid nd) QRTR_TYPE_DATA src dst c (sb_data skb))] \<and>
    xa_load (r_node s') p = Some nd' \<and> n_ref nd' = n_ref nd"
proof -
  obtain c fls s1 where w: "run_state (qrtr_tx_wait env p dst sk QRTR_TYPE_DATA flags) s = (Inr c, s1)" "r_xmits s1 = r_xmits s"
    "xa_load (r_node s1) p = Some (nd\<lparr>n_tx_flow := fls\<rparr>)" using wait_room[OF env nd(1) room] by metis
  have "\<exists>s'. run_state (send_packet env p skb QRTR_TYPE_DATA src dst c) s1 = (None, s') \<and>
      r_xmits s' = r_xmits s @ [(p, wire_packet (n_nid nd) QRTR_TYPE_DATA src dst c (sb_data skb))] \<and>
      xa_load (r_node s') p = Some (nd\<lparr>n_tx_flow := fls\<rparr>)"
    using w(2,3) nd(2) env by (simp add: send_packet_def Let_def run_node run_prims node_xmit_def smooth_def wire_packet_def)
  then show ?thesis using nd skb w(1) by (auto simp: qrtr_node_enqueue_def run_node)
qed

text \<open>A sender: a bound socket \<open>i\<close> without a pending error, and the node of the destination behind endpoint \<open>p\<close>.\<close>

definition can_send :: "sock_p \<Rightarrow> qrtr_sock \<Rightarrow> node_p \<Rightarrow> qrtr_node \<Rightarrow> sockaddr_qrtr \<Rightarrow> router \<Rightarrow> bool" where
  "can_send i k p nd dst s \<longleftrightarrow>
     xa_load (r_sock s) i = Some k \<and> \<not> s_zapped k \<and> \<not> s_err k \<and> sq_port (s_us k) \<noteq> QRTR_PORT_CTRL \<and>
     sq_node dst \<noteq> QRTR_NODE_BCAST \<and> sq_node dst \<noteq> sq_node (s_us k) \<and> sq_port dst \<noteq> QRTR_PORT_CTRL \<and>
     xa_load (r_nodes s) (sq_node dst) = Some p \<and> xa_load (r_node s) p = Some nd \<and> n_ep nd \<and> 0 < n_ref nd \<and> n_hello_sent nd \<noteq> 0 \<and>
     has_room nd dst"

lemma route_to_node:
  assumes "can_send i k p nd dst s"
  shows "\<exists>s' st. run_state (send_route env i dst) s = (Inr (Node p), s') \<and> r_xmits s' = r_xmits s \<and>
    xa_load (r_sock s') i = Some (k\<lparr>s_state := st\<rparr>) \<and> xa_load (r_node s') p = Some (n_ref_update Suc nd)"
proof -
  have e: "k = k\<lparr>s_state := s_state k\<rparr>" by simp
  show ?thesis using assms unfolding can_send_def
    by (simp add: send_route_def run_sock run_prims qrtr_node_lookup_def qrtr_node_acquire_def run_node xa_load_store) (metis e)
qed

lemma body_to_node:
  assumes "can_send i k p nd0 dst s0" and env: "smooth env" and k: "xa_load (r_sock s) i = Some (k\<lparr>s_state := st\<rparr>)"
    and nd: "xa_load (r_node s) p = Some (n_ref_update Suc nd0)"
  shows "\<exists>c s' nd'. run_state (send_body env i (Node p) dst flags data) s = (Inr (length data), s') \<and>
    r_xmits s' = r_xmits s @ [(p, wire_packet (n_nid nd0) QRTR_TYPE_DATA (s_us k) dst c data)] \<and>
    xa_load (r_node s') p = Some nd' \<and> n_ref nd' = n_ref nd0 + 1"
proof -
  let ?s = "s\<lparr>r_tick := r_tick s + 2\<rparr>"
  obtain c s' nd' where e: "run_state (qrtr_node_enqueue env p \<lparr>sb_data = data, sb_cb = no_cb, sb_sk = Some i\<rparr> QRTR_TYPE_DATA (s_us k) dst flags) ?s = (None, s')"
    "r_xmits s' = r_xmits s @ [(p, wire_packet (n_nid nd0) QRTR_TYPE_DATA (s_us k) dst c data)]"
    "xa_load (r_node s') p = Some nd'" "n_ref nd' = n_ref nd0 + 1"
    using enqueue_transmits[OF env, of ?s p "n_ref_update Suc nd0" dst "\<lparr>sb_data = data, sb_cb = no_cb, sb_sk = Some i\<rparr>" i "s_us k" flags]
      nd assms(1) by (auto simp: can_send_def has_room_def)
  have "run_state (send_body env i (Node p) dst flags data) s = (Inr (length data), s')"
    using assms(1) env k e(1) by (simp add: can_send_def smooth_def send_body_def sock_alloc_send_def run_sock run_prims Let_def run_enqueue_def)
  then show ?thesis using e(2-4) by blast
qed

lemma sendmsg_transmits:
  assumes can: "can_send i k p nd dst s" and env: "smooth env" and a: "alen \<ge> 12" "length data \<le> 65535" "flags AND NOT MSG_DONTWAIT = 0"
  shows "\<exists>c s'. run_state (qrtr_sendmsg env i (Some (alen, AF_QIPCRTR, dst)) flags data) s = (Inr (length data), s') \<and>
    r_xmits s' = r_xmits s @ [(p, wire_packet (n_nid nd) QRTR_TYPE_DATA (s_us k) dst c data)]"
proof -
  let ?k = "k\<lparr>s_locked := True\<rparr>"
  let ?s = "s\<lparr>r_sock := xa_store (r_sock s) i ?k\<rparr>"
  have can': "can_send i ?k p nd dst ?s" using can by (simp add: can_send_def xa_load_store)
  obtain s1 st where r: "run_state (send_route env i dst) ?s = (Inr (Node p), s1)" "r_xmits s1 = r_xmits s"
    "xa_load (r_sock s1) i = Some (?k\<lparr>s_state := st\<rparr>)" "xa_load (r_node s1) p = Some (n_ref_update Suc nd)"
    using route_to_node[OF can', of env] by auto
  obtain c s2 nd' where b: "run_state (send_body env i (Node p) dst flags data) s1 = (Inr (length data), s2)"
    "r_xmits s2 = r_xmits s @ [(p, wire_packet (n_nid nd) QRTR_TYPE_DATA (s_us k) dst c data)]"
    "xa_load (r_node s2) p = Some nd'" "n_ref nd' = n_ref nd + 1"
    using body_to_node[OF can' env r(3,4), of flags data] r(2) by auto
  have rel: "run_state (qrtr_node_release env (Some p)) s2 = ((), s2\<lparr>r_node := xa_store (r_node s2) p (n_ref_update (\<lambda>n. n - 1) nd')\<rparr>)"
    using b(3,4) can by (simp add: qrtr_node_release_def run_node run_prims can_send_def)
  have un: "\<exists>s'. run_state (release_sock i) t = ((), s') \<and> r_xmits s' = r_xmits t" for t
    by (simp add: release_sock_def upd_sock_def modify_def split: option.split)
  have "run_state (send_locked env i (Some (alen, AF_QIPCRTR, dst)) flags data) ?s =
      (Inr (length data), s2\<lparr>r_node := xa_store (r_node s2) p (n_ref_update (\<lambda>n. n - 1) nd')\<rparr>)"
    using can' a(1) r(1) b(1) rel
    by (simp add: send_locked_def send_addr_def bad_addr_def qrtr_autobind_def can_send_def run_sock node_of_def)
  then show ?thesis using can a un[of "s2\<lparr>r_node := xa_store (r_node s2) p (n_ref_update (\<lambda>n. n - 1) nd')\<rparr>"] b(2)
    by (auto simp: qrtr_sendmsg_def lock_sock_def can_send_def run_sock)
qed

text \<open>A receiver: a bound socket \<open>j\<close> with nothing to receive yet, found at the port, on a router with endpoint \<open>q\<close>.\<close>

definition can_receive :: "sock_p \<Rightarrow> qrtr_sock \<Rightarrow> node_p \<Rightarrow> sockaddr_qrtr \<Rightarrow> router \<Rightarrow> bool" where
  "can_receive j k q dst t \<longleftrightarrow>
     xa_load (r_sock t) j = Some k \<and> \<not> s_zapped k \<and> \<not> s_err k \<and> s_queue k = [] \<and> 0 < s_ref k \<and>
     xa_load (r_ports t) (port_key (sq_port dst)) = Some j \<and> xa_load (r_node t) q \<noteq> None \<and>
     sq_port dst \<noteq> QRTR_PORT_CTRL_LEGACY"

lemma assign_keeps: "keeps (\<lambda>s. (r_sock s, r_ports s)) (qrtr_node_assign env p nid)"
proof -
  have "keeps (\<lambda>s. (r_sock s, r_ports s)) (modify (\<lambda>s. s\<lparr>r_nodes := xa_store nodes nid p\<rparr>))" for nodes
    by (simp add: keeps_def modify_def)
  then show ?thesis unfolding qrtr_node_assign_def by (intro keeps_rules) simp_all
qed

lemma queue_and_count:
  "s_queue k = [] \<Longrightarrow> s_ref_update ((\<lambda>n. n - Suc 0) \<circ> Suc) (s_queue_update (\<lambda>q. q @ [skb]) k) = k\<lparr>s_queue := [skb]\<rparr>"
  by (cases k) (simp add: qrtr_sock.defs)

lemma post_delivers:
  assumes env: "smooth env" "local_nid env = sq_node dst" and can: "can_receive j k q dst t" and len: "length data \<le> 65535"
    and dst: "sq_node dst \<noteq> QRTR_NODE_BCAST"
  shows "\<exists>t' cb. run_state (qrtr_endpoint_post env q (wire_packet nid QRTR_TYPE_DATA src dst c data)) t = (None, t') \<and>
    xa_load (r_sock t') j = Some (k\<lparr>s_queue := [\<lparr>sb_data = data, sb_cb = cb, sb_sk = None\<rparr>]\<rparr>) \<and> cb_src_node cb = sq_node src \<and> cb_src_port cb = sq_port src"
proof -
  let ?pkt = "wire_packet nid QRTR_TYPE_DATA src dst c data"
  let ?cb = "\<lparr>cb_src_node = sq_node src, cb_src_port = sq_port src, cb_dst_node = sq_node dst, cb_dst_port = sq_port dst, cb_type = 1, cb_confirm_rx = c\<rparr>"
  have l: "length ?pkt = 32 + align4 (length data)" using len by (intro length_wire_packet) simp
  then have g: "?pkt \<noteq> []" "length ?pkt mod 4 = 0" using align4_dvd[of "length data"] by auto
  have pp: "parse_packet ?pkt = Some (?cb, drop 32 ?pkt, data)"
    using parse_wire_packet[of data dst nid src c] len can dst by (simp add: can_receive_def)
  let ?t = "t\<lparr>r_tick := r_tick t + 1\<rparr>"
  obtain u where u: "run_state (qrtr_node_assign env q (sq_node src)) ?t = ((), u)" "r_sock u = r_sock t" "r_ports u = r_ports t"
    using assign_keeps[of env q "sq_node src"] by (cases "run_state (qrtr_node_assign env q (sq_node src)) ?t") (auto simp: keeps_def dest!: spec[of _ ?t])
  have "run_state (qrtr_endpoint_post env q ?pkt) t = (None, u\<lparr>r_tick := r_tick u + 1, r_sock :=
      xa_store (r_sock t) j (k\<lparr>s_queue := [\<lparr>sb_data = data, sb_cb = ?cb, sb_sk = None\<rparr>]\<rparr>)\<rparr>)"
    using can env g pp u
    by (simp add: qrtr_endpoint_post_def post_buffer_def run_prims smooth_def can_receive_def qrtr_port_lookup_def sock_hold_def run_sock
        sock_queue_rcv_def xa_load_store qrtr_port_put_def sock_put_def xa_store_store queue_and_count)
  then show ?thesis by (auto simp: xa_load_store)
qed

lemma recv_delivered:
  assumes env: "smooth env" and k: "xa_load (r_sock t) j = Some k" "\<not> s_zapped k" "\<not> s_err k" "s_queue k = [skb]"
  shows "fst (run_state (qrtr_recvmsg env j len 0) t) =
    Inr (take len (sb_data skb), \<lparr>sq_node = cb_src_node (sb_cb skb), sq_port = cb_src_port (sb_cb skb)\<rparr>)"
  using k env
  by (simp add: qrtr_recvmsg_def recv_datagram_def run_sock run_prims smooth_def Let_def lock_sock_def xa_load_store split: prod.split)

text \<open>C6. What a user sends is what the user at the destination receives. If nothing fails and the flow has room, \<open>sendmsg\<close> on
  one router reports the whole length and transmits one packet; when the endpoint of the other router posts that packet,
  the socket at the port of the destination, whose receive queue was empty, receives the bytes that were sent, with the address
  of the sender.\<close>

theorem send_post_receive:
  assumes "can_send i k p nd dst s" "smooth env" "12 \<le> alen" "length data \<le> 65535" "flags AND NOT MSG_DONTWAIT = 0"
    and "smooth env'" "local_nid env' = sq_node dst" "can_receive j k' q dst t"
  shows "\<exists>pkt s' t'. run_state (qrtr_sendmsg env i (Some (alen, AF_QIPCRTR, dst)) flags data) s = (Inr (length data), s') \<and>
    r_xmits s' = r_xmits s @ [(p, pkt)] \<and> run_state (qrtr_endpoint_post env' q pkt) t = (None, t') \<and>
    fst (run_state (qrtr_recvmsg env' j (length data) 0) t') = Inr (data, s_us k)"
proof -
  obtain c s' where s: "run_state (qrtr_sendmsg env i (Some (alen, AF_QIPCRTR, dst)) flags data) s = (Inr (length data), s')"
    "r_xmits s' = r_xmits s @ [(p, wire_packet (n_nid nd) QRTR_TYPE_DATA (s_us k) dst c data)]"
    using sendmsg_transmits[OF assms(1-5)] by blast
  have "sq_node dst \<noteq> QRTR_NODE_BCAST" using assms(1) by (simp add: can_send_def)
  from post_delivers[OF assms(6-8,4) this, of "n_nid nd" "s_us k" c] obtain t' cb where
    t: "run_state (qrtr_endpoint_post env' q (wire_packet (n_nid nd) QRTR_TYPE_DATA (s_us k) dst c data)) t = (None, t')"
      "xa_load (r_sock t') j = Some (k'\<lparr>s_queue := [\<lparr>sb_data = data, sb_cb = cb, sb_sk = None\<rparr>]\<rparr>)"
      "cb_src_node cb = sq_node (s_us k)" "cb_src_port cb = sq_port (s_us k)" by blast
  have "fst (run_state (qrtr_recvmsg env' j (length data) 0) t') = Inr (data, s_us k)"
    using recv_delivered[OF assms(6) t(2)] assms(8) t(3,4) by (simp add: can_receive_def)
  then show ?thesis using s t(1) by blast
qed

theorem send_post_receive_witness:
  "\<exists>pkt s' t'. run_state (qrtr_sendmsg ok_env 0 (Some (12, AF_QIPCRTR, \<lparr>sq_node = 5, sq_port = 0x4000\<rparr>)) 0 [1, 2, 3]) (ex_router 1 5 0 0) = (Inr 3, s') \<and>
    r_xmits s' = [(0, pkt)] \<and> run_state (qrtr_endpoint_post (ok_env\<lparr>local_nid := 5\<rparr>) 0 pkt) (ex_router 5 1 0 0) = (None, t') \<and>
    fst (run_state (qrtr_recvmsg (ok_env\<lparr>local_nid := 5\<rparr>) 0 3 0) t') = Inr ([1, 2, 3], \<lparr>sq_node = 1, sq_port = 0x4000\<rparr>)"
proof -
  let ?dst = "\<lparr>sq_node = 5, sq_port = 0x4000\<rparr>"
  have "can_send 0 (ex_sock 1) 0 (ex_node 5 0 0) ?dst (ex_router 1 5 0 0)" "can_receive 0 (ex_sock 5) 0 ?dst (ex_router 5 1 0 0)"
    by (simp_all add: can_send_def can_receive_def has_room_def port_key_def ex_defs split: if_splits)
  moreover have len: "length [1, 2, 3 :: u8] = 3" by simp
  moreover have "smooth ok_env" "smooth (ok_env\<lparr>local_nid := 5\<rparr>)" "s_us (ex_sock 1) = \<lparr>sq_node = 1, sq_port = 0x4000\<rparr>" "r_xmits (ex_router 1 5 0 0) = []"
    by (simp_all add: smooth_def ex_defs)
  ultimately show ?thesis
    using send_post_receive[of 0 "ex_sock 1" 0 "ex_node 5 0 0" ?dst "ex_router 1 5 0 0" ok_env 12 "[1, 2, 3]" 0 "ok_env\<lparr>local_nid := 5\<rparr>" 0 "ex_sock 5" 0
      "ex_router 5 1 0 0"]
    by (simp add: len del: list.size)
qed

section \<open>Ports\<close>

lemma first_free_None: "first_free n lo ports = None \<Longrightarrow> lo \<le> port \<Longrightarrow> port < lo + int n \<Longrightarrow> xa_load ports port \<noteq> None"
proof (induction n lo ports rule: first_free.induct)
  case (2 n i ports)
  then show ?case by (cases "port = i") (auto split: if_splits)
qed simp

text \<open>The ephemeral ports are all taken.\<close>

definition ports_full :: "router \<Rightarrow> bool" where
  "ports_full s \<longleftrightarrow> (\<forall>port. QRTR_MIN_EPH_SOCKET \<le> port \<and> port \<le> QRTR_MAX_EPH_SOCKET \<longrightarrow> xa_load (r_ports s) port \<noteq> None)"

text \<open>What a successful allocation of a port does.\<close>

definition port_taken :: "sock_p \<Rightarrow> int \<Rightarrow> router \<Rightarrow> router \<Rightarrow> bool" where
  "port_taken i port s s' \<longleftrightarrow> xa_load (r_ports s) port = None \<and> r_ports s' = xa_store (r_ports s) port i \<and> r_sock s' = r_sock s"

lemma idr_alloc_spec:
  assumes "\<forall>n. alloc_ok env n"
  shows "case run_state (idr_alloc env i lo hi) s of
      (Inl e, s') \<Rightarrow> e = ENOSPC \<and> s' = s \<and> (\<forall>port. lo \<le> port \<and> port \<le> hi \<longrightarrow> xa_load (r_ports s) port \<noteq> None)
    | (Inr port, s') \<Rightarrow> lo \<le> port \<and> port \<le> hi \<and> port_taken i port s s'"
proof (cases "first_free (nat (hi - lo + 1)) lo (r_ports s)")
  case None
  then show ?thesis using first_free_None[OF None] by (auto simp: idr_alloc_def run_prims)
next
  case (Some port)
  then show ?thesis using first_free_range[OF Some] assms by (auto simp: idr_alloc_def run_prims port_taken_def split: if_splits)
qed

lemma idr_alloc_cyclic_spec:
  assumes "\<forall>n. alloc_ok env n"
  shows "case run_state (idr_alloc_cyclic env i QRTR_MIN_EPH_SOCKET QRTR_MAX_EPH_SOCKET) s of
      (Inl e, s') \<Rightarrow> e = ENOSPC \<and> s' = s \<and> ports_full s
    | (Inr port, s') \<Rightarrow> QRTR_MIN_EPH_SOCKET \<le> port \<and> port \<le> QRTR_MAX_EPH_SOCKET \<and> port_taken i port s s'"
proof -
  let ?lo = QRTR_MIN_EPH_SOCKET and ?hi = QRTR_MAX_EPH_SOCKET and ?cur = "r_port_next s"
  obtain r1 s1 where 1: "run_state (idr_alloc env i (max ?cur ?lo) ?hi) s = (r1, s1)" by fastforce
  obtain r2 s2 where 2: "run_state (idr_alloc env i ?lo ?hi) s = (r2, s2)" by fastforce
  note a = idr_alloc_spec[OF assms, where i = i and lo = "max ?cur ?lo" and hi = ?hi and s = s]
    idr_alloc_spec[OF assms, where i = i and lo = ?lo and hi = ?hi and s = s]
  have c: "\<not> ?lo < ?cur \<Longrightarrow> max ?cur ?lo = ?lo" by simp
  show ?thesis
  proof (cases r1)
    case (Inr port)
    then show ?thesis using a(1) 1 by (simp add: idr_alloc_cyclic_def Let_def run_prims port_taken_def)
  next
    case (Inl e)
    then have e: "e = ENOSPC" "s1 = s" using a(1) 1 by simp_all
    show ?thesis
    proof (cases "?lo < ?cur")
      case True
      then show ?thesis using a(2) 1 2 Inl e by (cases r2) (simp_all add: idr_alloc_cyclic_def Let_def run_prims port_taken_def ports_full_def)
    next
      case False
      then show ?thesis using a(1) 1 Inl e c[OF False] by (simp add: idr_alloc_cyclic_def Let_def run_prims ports_full_def)
    qed
  qed
qed

text \<open>C40. When allocations succeed, a socket without a port gets a free one of the ephemeral range, and no other port or socket changes; it is refused
  with \<open>EADDRINUSE\<close> exactly when all ports of the range are taken, and then nothing changes.\<close>

theorem autobind_free_port:
  assumes "xa_load (r_sock s) i = Some k" "s_zapped k" "\<forall>n. alloc_ok env n"
  shows "case run_state (qrtr_autobind env i) s of
      (Some e, s') \<Rightarrow> e = EADDRINUSE \<and> ports_full s \<and> s' = s
    | (None, s') \<Rightarrow> \<exists>port k'. QRTR_MIN_EPH_SOCKET \<le> port \<and> port \<le> QRTR_MAX_EPH_SOCKET \<and> xa_load (r_ports s) port = None \<and>
        r_ports s' = xa_store (r_ports s) port i \<and> r_sock s' = xa_store (r_sock s) i k' \<and>
        \<not> s_zapped k' \<and> port_key (sq_port (s_us k')) = port"
proof -
  obtain r s1 where c: "run_state (idr_alloc_cyclic env i QRTR_MIN_EPH_SOCKET QRTR_MAX_EPH_SOCKET) s = (r, s1)" by fastforce
  note spec = idr_alloc_cyclic_spec[OF assms(3), where i = i and s = s, unfolded c]
  show ?thesis
  proof (cases r)
    case (Inl e)
    then show ?thesis using spec c assms(1,2) by (simp add: qrtr_autobind_def run_sock qrtr_do_bind_def qrtr_port_assign_def)
  next
    case (Inr port)
    then have p: "0 \<le> port" "port \<le> 0x7fffffff" "port_taken i port s s1" "0x4000 \<le> port" "port \<le> 0x7fff" using spec by auto
    have k: "port_key (of_int port) = port" by (rule port_key_of_int[OF p(1,2)])
    then have n: "(of_int port :: u32) \<noteq> QRTR_PORT_CTRL" using p(4) by (auto simp: port_key_def)
    show ?thesis using c p n k assms(1,2)
      by (simp add: Inr qrtr_autobind_def run_sock qrtr_do_bind_def qrtr_port_assign_def sock_hold_def port_taken_def run_prims xa_load_store xa_store_store)
        (intro exI[of _ port] conjI exI[of _ "s_ref_update Suc k\<lparr>s_us := (s_us k)\<lparr>sq_port := of_int port\<rparr>, s_zapped := False\<rparr>"]; simp)
  qed
qed

definition ex_unbound :: router where
  "ex_unbound = router_init\<lparr>r_sock := [(0, (ex_sock 1)\<lparr>s_zapped := True\<rparr>)], r_next_sock := 1\<rparr>"

theorem autobind_free_port_witness:
  "case run_state (qrtr_autobind ok_env 0) ex_unbound of
      (Some e, s') \<Rightarrow> e = EADDRINUSE \<and> ports_full ex_unbound \<and> s' = ex_unbound
    | (None, s') \<Rightarrow> \<exists>port k'. QRTR_MIN_EPH_SOCKET \<le> port \<and> port \<le> QRTR_MAX_EPH_SOCKET \<and> xa_load (r_ports ex_unbound) port = None \<and>
        r_ports s' = xa_store (r_ports ex_unbound) port 0 \<and> r_sock s' = xa_store (r_sock ex_unbound) 0 k' \<and>
        \<not> s_zapped k' \<and> port_key (sq_port (s_us k')) = port"
  by (rule autobind_free_port[where k = "(ex_sock 1)\<lparr>s_zapped := True\<rparr>"]) (simp_all add: ex_unbound_def router_init_def ok_env_def)

end
