(* ===== verification/Byte_Buf.thy ===== *)
theory Byte_Buf
  imports Ipc_Prelude
begin

text \<open>
  Byte buffers of a fixed length and computations on them. A computation may read or write outside of its
  buffer, where C has no defined behaviour; the outcomes \<open>Bad_read\<close> and \<open>Bad_write\<close> record that, so that
  memory safety is a property of the outcome. A run ends at its first access outside of a buffer, where the C code would go on
  with the bytes that happen to be there. \<open>Fail e\<close> is the return of \<open>-e\<close>.
\<close>

section \<open>Outcomes\<close>

datatype 'a outcome = Bad_read | Bad_write | Fail errno | Done 'a

fun obind :: "'a outcome \<Rightarrow> ('a \<Rightarrow> 'b outcome) \<Rightarrow> 'b outcome" where
  "obind Bad_read f = Bad_read"
| "obind Bad_write f = Bad_write"
| "obind (Fail e) f = Fail e"
| "obind (Done a) f = f a"

lemma obind_cong [fundef_cong]:
  "m = m' \<Longrightarrow> (\<And>a. m' = Done a \<Longrightarrow> f a = g a) \<Longrightarrow> obind m f = obind m' g"
  by (cases m') auto

lemma obind_Done: "obind m f = Done b \<longleftrightarrow> (\<exists>a. m = Done a \<and> f a = Done b)"
  by (cases m) auto

lemma obind_Bad_write: "obind m f = Bad_write \<longleftrightarrow> m = Bad_write \<or> (\<exists>a. m = Done a \<and> f a = Bad_write)"
  by (cases m) auto

lemma obind_Bad_read: "obind m f = Bad_read \<longleftrightarrow> m = Bad_read \<or> (\<exists>a. m = Done a \<and> f a = Bad_read)"
  by (cases m) auto

section \<open>Reading and writing\<close>

text \<open>\<open>memcpy\<close> from and to the bytes at an index; copying nothing touches nothing.\<close>

definition read_at :: "u8 list \<Rightarrow> nat \<Rightarrow> nat \<Rightarrow> u8 list outcome" where
  "read_at b i n = (if n = 0 \<or> i + n \<le> length b then Done (take n (drop i b)) else Bad_read)"

definition write_at :: "u8 list \<Rightarrow> nat \<Rightarrow> u8 list \<Rightarrow> u8 list outcome" where
  "write_at b i bs =
     (if bs = [] then Done b
      else if i + length bs \<le> length b then Done (take i b @ bs @ drop (i + length bs) b)
      else Bad_write)"

text \<open>\<open>strlen\<close> of the string at an index.\<close>

definition strlen_at :: "u8 list \<Rightarrow> nat \<Rightarrow> nat outcome" where
  "strlen_at b i =
     (let n = length (takeWhile (\<lambda>c. c \<noteq> 0) (drop i b))
      in if i + n < length b then Done n else Bad_read)"

lemma read_at_length: "read_at b i n = Done bs \<Longrightarrow> length bs = n"
  by (auto simp: read_at_def split: if_splits)

lemma read_at_no_write [simp]: "read_at b i n \<noteq> Bad_write"
  and read_at_no_fail [simp]: "read_at b i n \<noteq> Fail e"
  by (simp_all add: read_at_def)

lemma strlen_at_no_write [simp]: "strlen_at b i \<noteq> Bad_write"
  by (simp add: strlen_at_def Let_def)

lemma write_at_length: "write_at b i bs = Done b' \<Longrightarrow> length b' = length b"
  by (auto simp: write_at_def split: if_splits)

lemma write_at_ok: "i + length bs \<le> length b \<Longrightarrow> \<exists>b'. write_at b i bs = Done b' \<and> length b' = length b"
  by (simp add: write_at_def)

lemma read_at_ok: "i + n \<le> length b \<Longrightarrow> read_at b i n = Done (take n (drop i b))"
  by (simp add: read_at_def)

lemma read_write_same: "write_at b i bs = Done b' \<Longrightarrow> read_at b' i (length bs) = Done bs"
  by (auto simp: write_at_def read_at_def split: if_splits)

lemma read_write_apart:
  assumes "write_at b i bs = Done b'" "j + n \<le> i \<or> i + length bs \<le> j"
  shows "read_at b' j n = read_at b j n"
proof (cases "bs = []")
  case False
  then have w: "b' = take i b @ bs @ drop (i + length bs) b" "i + length bs \<le> length b"
    using assms(1) by (auto simp: write_at_def split: if_splits)
  have "take n (drop j b') = take n (drop j b)" if "j + n \<le> length b"
    using assms(2)
  proof
    assume "j + n \<le> i"
    then show ?thesis using w by (simp add: take_drop min_def flip: add.commute[of j])
  next
    assume "i + length bs \<le> j"
    then show ?thesis using w by (simp add: drop_append min_def)
  qed
  then show ?thesis using w by (auto simp: read_at_def)
qed (use assms in \<open>simp add: write_at_def\<close>)

lemma write_at_append: "write_at b i (xs @ ys) = obind (write_at b i xs) (\<lambda>b'. write_at b' (i + length xs) ys)"
  by (auto simp: write_at_def ac_simps)

lemma read_at_add: "read_at b i (m + n) = obind (read_at b i m) (\<lambda>xs. obind (read_at b (i + m) n) (\<lambda>ys. Done (xs @ ys)))"
  by (auto simp: read_at_def take_add add.commute[of m i])

end
