(* ===== verification/Qmi_Encdec.thy ===== *)
theory Qmi_Encdec
  imports Byte_Buf
begin

text \<open>
  The encoder and decoder of QMI messages, \<open>drivers/soc/qcom/qmi_encdec.c\<close>. A message descriptor is an
  array of \<open>struct qmi_elem_info\<close> ended by an element of type \<open>QMI_EOTI\<close>; a pointer \<open>temp_ei\<close> into it is the
  rest of the array, so \<open>temp_ei + 1\<close> is the tail, and following it past the last element is a \<open>Bad_read\<close>.
  The message buffer and the C structure are byte buffers, a pointer into one is an index. Byte counts are
  \<open>u32\<close> as in the code, and wrap.
\<close>

section \<open>Descriptors\<close>

text \<open>The types of \<open>linux/soc/qcom/qmi.h\<close> that the code uses.\<close>

datatype qmi_elem_type =
    QMI_EOTI | QMI_OPT_FLAG | QMI_DATA_LEN | QMI_UNSIGNED_1_BYTE | QMI_UNSIGNED_2_BYTE | QMI_UNSIGNED_4_BYTE
  | QMI_UNSIGNED_8_BYTE | QMI_SIGNED_2_BYTE_ENUM | QMI_SIGNED_4_BYTE_ENUM | QMI_STRUCT | QMI_STRING

datatype qmi_array_type = NO_ARRAY | STATIC_ARRAY | VAR_LEN_ARRAY

datatype qmi_elem_info = Elem
  (data_type: qmi_elem_type)
  (elem_len: u32)
  (elem_size: u32)
  (array_type: qmi_array_type)
  (tlv_type: u8)
  (offset: u32)
  (ei_array: "qmi_elem_info list option")

definition basic_type :: "qmi_elem_type \<Rightarrow> bool" where
  "basic_type t \<longleftrightarrow> t \<in> {QMI_UNSIGNED_1_BYTE, QMI_UNSIGNED_2_BYTE, QMI_UNSIGNED_4_BYTE, QMI_UNSIGNED_8_BYTE,
     QMI_SIGNED_2_BYTE_ENUM, QMI_SIGNED_4_BYTE_ENUM}"

fun skip_to_next_elem :: "nat \<Rightarrow> qmi_elem_info list \<Rightarrow> qmi_elem_info list outcome" where
  "skip_to_next_elem level [] = Bad_read"
| "skip_to_next_elem level (e # es) =
     (if level > 1 then Done es
      else (case es of
          [] \<Rightarrow> Bad_read
        | e' # _ \<Rightarrow> if tlv_type e = tlv_type e' then skip_to_next_elem level es else Done es))"

lemma skip_to_next_elem_shorter:
  "skip_to_next_elem level es = Done es' \<Longrightarrow> size_list size es' < size_list size es"
  by (induction level es rule: skip_to_next_elem.induct) (auto split: if_splits list.splits)

text \<open>\<open>sizeof(u8)\<close> or \<open>sizeof(u16)\<close>: the width of a length field.\<close>

definition data_len_size :: "qmi_elem_info \<Rightarrow> u32" where
  "data_len_size e = (if elem_size e = 1 then 1 else 2)"

definition string_len_size :: "qmi_elem_info \<Rightarrow> u32" where
  "string_len_size e = (if elem_len e \<le> 255 then 1 else 2)"

section \<open>The shortest message of a descriptor\<close>

definition esize :: "qmi_elem_info list option \<Rightarrow> nat" where
  "esize arr = (case arr of None \<Rightarrow> 0 | Some es \<Rightarrow> size_list size es)"

lemma esize_elem: "esize (ei_array e) < size e"
  by (cases e) (auto simp: esize_def split: option.splits)

lemma esize_elem': "esize (ei_array e) < Suc (size e + n)"
  using esize_elem[of e] by simp

lemma esize_Some [simp]: "esize (Some es) = size_list size es"
  by (simp add: esize_def)

lemma skip_to_next_elem_shorter':
  "skip_to_next_elem level (e # es) = Done es' \<Longrightarrow> size_list size es' < Suc (size e + size_list size es)"
  using skip_to_next_elem_shorter[of level "e # es" es'] by simp

function qmi_calc_min_msg_len :: "qmi_elem_info list option \<Rightarrow> nat \<Rightarrow> u32 outcome"
  and min_msg_len_loop :: "qmi_elem_info list \<Rightarrow> nat \<Rightarrow> u32 \<Rightarrow> u32 outcome"
where
  "qmi_calc_min_msg_len arr level = (case arr of None \<Rightarrow> Done 0 | Some es \<Rightarrow> min_msg_len_loop es level 0)"
| "min_msg_len_loop [] level n = Bad_read"
| "min_msg_len_loop (e # es) level n =
     (let hdr = (if level = 1 then 3 else 0)
      in if data_type e = QMI_EOTI then Done n
         else if data_type e = QMI_OPT_FLAG then
           obind (skip_to_next_elem level (e # es)) (\<lambda>es'. min_msg_len_loop es' level n)
         else if data_type e = QMI_DATA_LEN then min_msg_len_loop es level (n + data_len_size e)
         else if data_type e = QMI_STRUCT then
           obind (qmi_calc_min_msg_len (ei_array e) (level + 1)) (\<lambda>k. min_msg_len_loop es level (n + k + hdr))
         else if data_type e = QMI_STRING then
           min_msg_len_loop es level
             (n + (if level > 1 then string_len_size e else 0) + elem_len e * elem_size e + hdr)
         else min_msg_len_loop es level (n + elem_len e * elem_size e + hdr))"
  by pat_completeness auto
termination
  by (relation "measures [\<lambda>x. case x of Inl (arr, _) \<Rightarrow> esize arr | Inr (es, _) \<Rightarrow> size_list size es,
      \<lambda>x. case x of Inl _ \<Rightarrow> 1 | Inr _ \<Rightarrow> 0]")
    (simp_all add: less_SucI trans_less_add1 esize_elem' skip_to_next_elem_shorter' del: skip_to_next_elem.simps)

declare qmi_calc_min_msg_len.simps [simp del]

section \<open>Encoding\<close>

subsection \<open>Elements\<close>

fun copy_elems :: "nat \<Rightarrow> nat \<Rightarrow> u8 list \<Rightarrow> nat \<Rightarrow> u8 list \<Rightarrow> nat \<Rightarrow> u8 list outcome" where
  "copy_elems 0 sz dst_buf dst src_buf src = Done dst_buf"
| "copy_elems (Suc n) sz dst_buf dst src_buf src =
     obind (read_at src_buf src sz) (\<lambda>bs.
     obind (write_at dst_buf dst bs) (\<lambda>dst_buf'.
       copy_elems n sz dst_buf' (dst + sz) src_buf (src + sz)))"

definition qmi_encode_basic_elem ::
  "u8 list \<Rightarrow> nat \<Rightarrow> u8 list \<Rightarrow> nat \<Rightarrow> u32 \<Rightarrow> u32 \<Rightarrow> (u8 list \<times> u32) outcome" where
  "qmi_encode_basic_elem buf dst cs src len sz =
     obind (copy_elems (unat len) (unat sz) buf dst cs src) (\<lambda>buf'. Done (buf', len * sz))"

definition qmi_encode_string_elem ::
  "qmi_elem_info \<Rightarrow> u8 list \<Rightarrow> nat \<Rightarrow> u8 list \<Rightarrow> nat \<Rightarrow> u32 \<Rightarrow> nat \<Rightarrow> (u8 list \<times> u32) outcome" where
  "qmi_encode_string_elem e buf dst cs src out_buf_len enc_level =
     obind (strlen_at cs src) (\<lambda>n.
       let string_len = of_nat n :: u32; sz = string_len_size e
       in if string_len > elem_len e then Fail EINVAL
          else if enc_level = 1 then
            (if unat string_len + 3 > unat out_buf_len then Fail ETOOSMALL
             else qmi_encode_basic_elem buf dst cs src string_len (elem_size e))
          else if string_len + sz > out_buf_len then Fail ETOOSMALL
          else
            obind (qmi_encode_basic_elem buf dst (bytes32 string_len) 0 1 sz) (\<lambda>(buf1, rc1).
            obind (qmi_encode_basic_elem buf1 (dst + unat rc1) cs src string_len (elem_size e)) (\<lambda>(buf2, rc2).
              Done (buf2, rc1 + rc2))))"

subsection \<open>Messages\<close>

text \<open>The local variables of \<open>qmi_encode\<close> and the buffer it fills.\<close>

record enc_state =
  es_buf :: "u8 list"
  es_dst :: nat
  es_tlv_pointer :: nat
  es_tlv_len :: u32
  es_encoded :: u32
  es_data_len :: u32
  es_encode_tlv :: bool

definition enc_start :: "u8 list \<Rightarrow> nat \<Rightarrow> nat \<Rightarrow> enc_state" where
  "enc_start buf out_buf enc_level =
     \<lparr>es_buf = buf, es_dst = (if enc_level = 1 then out_buf + 3 else out_buf), es_tlv_pointer = out_buf,
      es_tlv_len = 0, es_encoded = 0, es_data_len = 0, es_encode_tlv = False\<rparr>"

definition update_encode_variables :: "u8 list \<Rightarrow> u32 \<Rightarrow> enc_state \<Rightarrow> enc_state" where
  "update_encode_variables buf rc st =
     st\<lparr>es_buf := buf, es_dst := es_dst st + unat rc, es_encoded := es_encoded st + rc,
        es_tlv_len := es_tlv_len st + rc, es_encode_tlv := True\<rparr>"

definition array_len :: "qmi_elem_info \<Rightarrow> u32 \<Rightarrow> u32 outcome" where
  "array_len e data_len =
     (case array_type e of
        NO_ARRAY \<Rightarrow> Done 1
      | STATIC_ARRAY \<Rightarrow> Done (elem_len e)
      | VAR_LEN_ARRAY \<Rightarrow> if data_len = 0 \<or> elem_len e < data_len then Fail EINVAL else Done data_len)"

text \<open>\<open>memcpy(&v, bs, length bs)\<close> into a \<open>u32\<close>: the bytes that are not copied keep their value.\<close>

definition overlay32 :: "u32 \<Rightarrow> u8 list \<Rightarrow> u32" where
  "overlay32 v bs = get32 (bs @ drop (length bs) (bytes32 v)) 0"

definition encode_tlv :: "qmi_elem_info \<Rightarrow> nat \<Rightarrow> enc_state \<Rightarrow> enc_state outcome" where
  "encode_tlv e enc_level st =
     (if es_encode_tlv st \<and> enc_level = 1 then
        obind (write_at (es_buf st) (es_tlv_pointer st)
                 [tlv_type e, ucast (es_tlv_len st), ucast (drop_bit 8 (es_tlv_len st))]) (\<lambda>buf.
          Done (st\<lparr>es_buf := buf, es_encoded := es_encoded st + 3, es_tlv_pointer := es_dst st, es_tlv_len := 0,
                   es_dst := es_dst st + 3, es_encode_tlv := False\<rparr>))
      else Done st)"

text \<open>
  The cases of the switch but \<open>QMI_STRUCT\<close>, for the element \<open>e\<close> before the rest \<open>es\<close> of the descriptor: the new
  rest and state. \<open>data_len\<close> is the value set before the switch.
\<close>

definition encode_opt_flag ::
  "qmi_elem_info \<Rightarrow> qmi_elem_info list \<Rightarrow> u8 list \<Rightarrow> nat \<Rightarrow> nat \<Rightarrow> enc_state \<Rightarrow>
   (qmi_elem_info list \<times> enc_state) outcome" where
  "encode_opt_flag e es cs src enc_level st =
     obind (read_at cs src 1) (\<lambda>flag.
       if hd flag \<noteq> 0 then Done (es, st)
       else obind (skip_to_next_elem enc_level (e # es)) (\<lambda>es'. Done (es', st)))"

definition encode_data_len ::
  "qmi_elem_info \<Rightarrow> qmi_elem_info list \<Rightarrow> u8 list \<Rightarrow> nat \<Rightarrow> u32 \<Rightarrow> nat \<Rightarrow> enc_state \<Rightarrow>
   (qmi_elem_info list \<times> enc_state) outcome" where
  "encode_data_len e es cs src out_buf_len enc_level st =
     obind (read_at cs src (unat (elem_size e))) (\<lambda>bs.
     if length bs > 4 then Bad_write
     else
       let data_len = overlay32 (es_data_len st) bs; sz = data_len_size e
       in if unat (sz + es_encoded st) + 3 > unat out_buf_len then Fail ETOOSMALL
          else
            obind (qmi_encode_basic_elem (es_buf st) (es_dst st) (bytes32 data_len) 0 1 sz) (\<lambda>(buf, rc).
              let st' = (update_encode_variables buf rc st)\<lparr>es_data_len := data_len\<rparr>
              in if data_len = 0 then obind (skip_to_next_elem enc_level es) (\<lambda>es'. Done (es', st'))
                 else Done (es, st'\<lparr>es_encode_tlv := False\<rparr>)))"

definition encode_basic ::
  "qmi_elem_info \<Rightarrow> u8 list \<Rightarrow> nat \<Rightarrow> u32 \<Rightarrow> enc_state \<Rightarrow> enc_state outcome" where
  "encode_basic e cs src out_buf_len st =
     (if unat (es_data_len st * elem_size e + es_encoded st) + 3 > unat out_buf_len then Fail ETOOSMALL
      else
        obind (qmi_encode_basic_elem (es_buf st) (es_dst st) cs src (es_data_len st) (elem_size e)) (\<lambda>(buf, rc).
          Done (update_encode_variables buf rc st)))"

definition encode_plain ::
  "qmi_elem_info \<Rightarrow> qmi_elem_info list \<Rightarrow> u8 list \<Rightarrow> nat \<Rightarrow> u32 \<Rightarrow> nat \<Rightarrow> enc_state \<Rightarrow>
   (qmi_elem_info list \<times> enc_state) outcome" where
  "encode_plain e es cs src out_buf_len enc_level st =
     (case data_type e of
        QMI_OPT_FLAG \<Rightarrow> encode_opt_flag e es cs src enc_level st
      | QMI_DATA_LEN \<Rightarrow> encode_data_len e es cs src out_buf_len enc_level st
      | QMI_STRING \<Rightarrow>
          obind (qmi_encode_string_elem e (es_buf st) (es_dst st) cs src (out_buf_len - es_encoded st) enc_level)
            (\<lambda>(buf, rc). Done (es, update_encode_variables buf rc st))
      | _ \<Rightarrow> obind (encode_basic e cs src out_buf_len st) (\<lambda>st'. Done (es, st')))"

lemma encode_plain_shorter:
  assumes "encode_plain e es cs src out_buf_len enc_level st = Done (es', st')"
  shows "size_list size es' < Suc (size e + size_list size es)"
proof -
  have "size_list size es' \<le> size_list size es"
    if "skip_to_next_elem enc_level es = Done es'" using skip_to_next_elem_shorter[OF that] by simp
  moreover have "size_list size es' < Suc (size e + size_list size es)"
    if "skip_to_next_elem enc_level (e # es) = Done es'" using skip_to_next_elem_shorter[OF that] by simp
  ultimately show ?thesis using assms
    by (auto simp: encode_plain_def encode_opt_flag_def encode_data_len_def obind_Done Let_def
        simp del: skip_to_next_elem.simps split: qmi_elem_type.splits if_splits)
qed

text \<open>\<open>cs\<close> holds the C structure, at index \<open>src\<close>; the result is the buffer and the number of bytes encoded.\<close>

function qmi_encode_loop ::
    "qmi_elem_info list \<Rightarrow> u8 list \<Rightarrow> nat \<Rightarrow> u32 \<Rightarrow> nat \<Rightarrow> enc_state \<Rightarrow> (u8 list \<times> u32) outcome"
  and qmi_encode ::
    "qmi_elem_info list option \<Rightarrow> u8 list \<Rightarrow> nat \<Rightarrow> u8 list \<Rightarrow> nat \<Rightarrow> u32 \<Rightarrow> nat \<Rightarrow> (u8 list \<times> u32) outcome"
  and qmi_encode_struct_elem ::
    "qmi_elem_info list option \<Rightarrow> u32 \<Rightarrow> u8 list \<Rightarrow> nat \<Rightarrow> u8 list \<Rightarrow> nat \<Rightarrow> nat \<Rightarrow> u32 \<Rightarrow> nat \<Rightarrow> u32 \<Rightarrow>
     (u8 list \<times> u32) outcome"
where
  "qmi_encode_loop [] cs in_c_struct out_buf_len enc_level st = Bad_read"
| "qmi_encode_loop (e # es) cs in_c_struct out_buf_len enc_level st =
     (if data_type e = QMI_EOTI then Done (es_buf st, es_encoded st)
      else
        obind (array_len e (es_data_len st)) (\<lambda>data_len.
          let src = in_c_struct + unat (offset e); st0 = st\<lparr>es_data_len := data_len\<rparr>
          in if data_type e = QMI_STRUCT then
               obind (qmi_encode_struct_elem (ei_array e) (elem_size e) (es_buf st0) (es_dst st0) cs src
                        (unat data_len) (out_buf_len - es_encoded st0) (enc_level + 1) 0) (\<lambda>(buf, rc).
               obind (encode_tlv e enc_level (update_encode_variables buf rc st0)) (\<lambda>st1.
                 qmi_encode_loop es cs in_c_struct out_buf_len enc_level st1))
             else
               obind (encode_plain e es cs src out_buf_len enc_level st0) (\<lambda>(es', st1).
               obind (encode_tlv e enc_level st1) (\<lambda>st2.
                 qmi_encode_loop es' cs in_c_struct out_buf_len enc_level st2))))"
| "qmi_encode arr buf out_buf cs in_c_struct out_buf_len enc_level =
     (case arr of
        None \<Rightarrow> Done (buf, 0)
      | Some es \<Rightarrow> qmi_encode_loop es cs in_c_struct out_buf_len enc_level (enc_start buf out_buf enc_level))"
| "qmi_encode_struct_elem arr sz buf dst cs src 0 out_buf_len enc_level encoded = Done (buf, encoded)"
| "qmi_encode_struct_elem arr sz buf dst cs src (Suc n) out_buf_len enc_level encoded =
     obind (qmi_encode arr buf dst cs src (out_buf_len - encoded) enc_level) (\<lambda>(buf', rc).
       qmi_encode_struct_elem arr sz buf' (dst + unat rc) cs (src + unat sz) n out_buf_len enc_level (encoded + rc))"
  by pat_completeness auto
termination
  by (relation "measures [\<lambda>x. case x of Inl (es, _) \<Rightarrow> size_list size es | Inr (Inl (arr, _)) \<Rightarrow> esize arr
      | Inr (Inr (arr, _)) \<Rightarrow> esize arr,
     \<lambda>x. case x of Inl _ \<Rightarrow> 0 | Inr (Inl _) \<Rightarrow> 1 | Inr (Inr _) \<Rightarrow> 2,
     \<lambda>x. case x of Inl _ \<Rightarrow> 0 | Inr (Inl _) \<Rightarrow> 0 | Inr (Inr (_, _, _, _, _, _, n, _)) \<Rightarrow> n]")
    (simp_all add: esize_elem', metis encode_plain_shorter)

declare qmi_encode.simps [simp del]

section \<open>Decoding\<close>

subsection \<open>Elements\<close>

definition qmi_decode_basic_elem ::
  "u8 list \<Rightarrow> nat \<Rightarrow> u8 list \<Rightarrow> nat \<Rightarrow> u32 \<Rightarrow> u32 \<Rightarrow> (u8 list \<times> u32) outcome" where
  "qmi_decode_basic_elem cs dst buf src len sz =
     obind (copy_elems (unat len) (unat sz) cs dst buf src) (\<lambda>cs'. Done (cs', len * sz))"

definition qmi_decode_string_elem ::
  "qmi_elem_info \<Rightarrow> u8 list \<Rightarrow> nat \<Rightarrow> u8 list \<Rightarrow> nat \<Rightarrow> u32 \<Rightarrow> nat \<Rightarrow> (u8 list \<times> u32) outcome" where
  "qmi_decode_string_elem e cs dst buf src tlv_len dec_level =
     obind (if dec_level = 1 then Done (tlv_len, 0)
            else obind (read_at buf src (unat (string_len_size e))) (\<lambda>bs.
              Done (overlay32 0 bs, string_len_size e))) (\<lambda>(string_len, decoded).
       if string_len \<ge> elem_len e then Fail ETOOSMALL
       else if string_len > tlv_len then Fail EFAULT
       else
         obind (qmi_decode_basic_elem cs dst buf (src + unat decoded) string_len (elem_size e)) (\<lambda>(cs1, rc).
         obind (write_at cs1 (dst + unat string_len) [0]) (\<lambda>cs2.
           Done (cs2, decoded + rc))))"

fun find_ei :: "qmi_elem_info list \<Rightarrow> u8 \<Rightarrow> qmi_elem_info list option outcome" where
  "find_ei [] t = Bad_read"
| "find_ei (e # es) t =
     (if data_type e = QMI_EOTI then Done None
      else if tlv_type e = t then Done (Some (e # es))
      else find_ei es t)"

text \<open>
  The local variables of \<open>qmi_decode\<close> and the C structure it fills. \<open>ds_src\<close> is \<open>buf_src\<close>.
\<close>

record dec_state =
  ds_cs :: "u8 list"
  ds_src :: nat
  ds_tlv_len :: u32
  ds_decoded :: u32
  ds_data_len :: u32

text \<open>
  The part of the loop before the switch: an element \<open>QMI_OPT_FLAG\<close> sets its flag and an element \<open>QMI_DATA_LEN\<close>
  its length (as four bytes, whatever the size of the field), then the number of elements is settled.
\<close>

definition decode_opt_flag ::
  "qmi_elem_info list \<Rightarrow> nat \<Rightarrow> dec_state \<Rightarrow> (qmi_elem_info list \<times> dec_state) outcome" where
  "decode_opt_flag es out ds =
     (case es of
        [] \<Rightarrow> Bad_read
      | e # es' \<Rightarrow>
          if data_type e = QMI_OPT_FLAG then
            obind (write_at (ds_cs ds) (out + unat (offset e)) [1]) (\<lambda>cs. Done (es', ds\<lparr>ds_cs := cs\<rparr>))
          else Done (es, ds))"

definition decode_data_len ::
  "qmi_elem_info list \<Rightarrow> nat \<Rightarrow> u8 list \<Rightarrow> dec_state \<Rightarrow> (qmi_elem_info list \<times> dec_state) outcome" where
  "decode_data_len es out buf ds =
     (case es of
        [] \<Rightarrow> Bad_read
      | e # es' \<Rightarrow>
          if data_type e = QMI_DATA_LEN then
            let sz = data_len_size e
            in obind (read_at buf (ds_src ds) (unat sz)) (\<lambda>bs.
               let data_len = overlay32 (ds_data_len ds) bs
               in obind (write_at (ds_cs ds) (out + unat (offset e)) (bytes32 data_len)) (\<lambda>cs.
                 Done (es', ds\<lparr>ds_cs := cs, ds_data_len := data_len, ds_tlv_len := ds_tlv_len ds - sz,
                   ds_src := ds_src ds + unat sz, ds_decoded := ds_decoded ds + sz\<rparr>)))
          else Done (es, ds))"

definition decode_array_len :: "qmi_elem_info \<Rightarrow> u32 \<Rightarrow> u32 outcome" where
  "decode_array_len e data_len =
     (case array_type e of
        NO_ARRAY \<Rightarrow> Done 1
      | STATIC_ARRAY \<Rightarrow> Done (elem_len e)
      | VAR_LEN_ARRAY \<Rightarrow> if data_len > elem_len e then Fail ETOOSMALL else Done data_len)"

definition decode_enter ::
  "qmi_elem_info list \<Rightarrow> nat \<Rightarrow> u8 list \<Rightarrow> dec_state \<Rightarrow> (qmi_elem_info \<times> qmi_elem_info list \<times> dec_state) outcome" where
  "decode_enter es out buf ds =
     obind (decode_opt_flag es out ds) (\<lambda>(es1, ds1).
     obind (decode_data_len es1 out buf ds1) (\<lambda>(es2, ds2).
       case es2 of
         [] \<Rightarrow> Bad_read
       | e # es' \<Rightarrow> obind (decode_array_len e (ds_data_len ds2)) (\<lambda>n. Done (e, es', ds2\<lparr>ds_data_len := n\<rparr>))))"

lemma decode_enterE:
  assumes "decode_enter es out buf ds = Done (e, es', ds')"
  obtains es1 ds1 ds2 n where "decode_opt_flag es out ds = Done (es1, ds1)" "decode_data_len es1 out buf ds1 = Done (e # es', ds2)"
    "decode_array_len e (ds_data_len ds2) = Done n" "ds' = ds2\<lparr>ds_data_len := n\<rparr>"
proof -
  obtain es1 ds1 where 1: "decode_opt_flag es out ds = Done (es1, ds1)"
    using assms by (auto simp: decode_enter_def obind_Done)
  obtain es2 ds2 where 2: "decode_data_len es1 out buf ds1 = Done (es2, ds2)"
    using assms by (auto simp: decode_enter_def 1 obind_Done)
  show ?thesis
  proof (cases es2)
    case (Cons e2 es3)
    then show ?thesis using assms that[OF 1] 2 by (auto simp: decode_enter_def 1 obind_Done)
  qed (use assms in \<open>simp add: decode_enter_def 1 2\<close>)
qed

lemma decode_opt_flag_Done:
  assumes "decode_opt_flag es out ds = Done (es1, ds1)"
  shows "size_list size es1 \<le> size_list size es" "ds_src ds1 = ds_src ds"
  using assms by (cases es; auto simp: decode_opt_flag_def obind_Done split: if_splits)+

lemma decode_data_len_Done:
  assumes "decode_data_len es out buf ds = Done (es1, ds1)"
  shows "size_list size es1 \<le> size_list size es" "ds_src ds \<le> ds_src ds1"
  using assms by (cases es; auto simp: decode_data_len_def obind_Done Let_def split: if_splits)+

lemma decode_enter_shorter:
  assumes "decode_enter es out buf ds = Done (e, es', ds')"
  shows "size e + size_list size es' < size_list size es" "ds_src ds \<le> ds_src ds'"
proof -
  from assms obtain es1 ds1 ds2 n where 1: "decode_opt_flag es out ds = Done (es1, ds1)"
    and 2: "decode_data_len es1 out buf ds1 = Done (e # es', ds2)" and 3: "ds' = ds2\<lparr>ds_data_len := n\<rparr>"
    by (rule decode_enterE)
  show "size e + size_list size es' < size_list size es" "ds_src ds \<le> ds_src ds'"
    using decode_opt_flag_Done[OF 1] decode_data_len_Done[OF 2] 3 by simp_all
qed

definition update_decode_variables :: "u8 list \<Rightarrow> u32 \<Rightarrow> dec_state \<Rightarrow> dec_state" where
  "update_decode_variables cs rc ds =
     ds\<lparr>ds_cs := cs, ds_src := ds_src ds + unat rc, ds_decoded := ds_decoded ds + rc\<rparr>"

subsection \<open>Messages\<close>

text \<open>
  \<open>qmi_decode_elem\<close> is the switch, \<open>qmi_decode_nested\<close> the loop at \<open>dec_level\<close> 2 and deeper, where the elements
  follow each other in the order of the descriptor without type and length. The structure is in \<open>cs\<close> at
  index \<open>out\<close>, the message in \<open>buf\<close>.
\<close>

function qmi_decode_elem ::
    "qmi_elem_info \<Rightarrow> nat \<Rightarrow> u8 list \<Rightarrow> nat \<Rightarrow> dec_state \<Rightarrow> (u8 list \<times> u32) outcome"
  and qmi_decode_nested ::
    "qmi_elem_info list \<Rightarrow> nat \<Rightarrow> u8 list \<Rightarrow> u32 \<Rightarrow> nat \<Rightarrow> dec_state \<Rightarrow> (u8 list \<times> u32) outcome"
  and qmi_decode_struct_elem ::
    "qmi_elem_info list option \<Rightarrow> u32 \<Rightarrow> u8 list \<Rightarrow> nat \<Rightarrow> u8 list \<Rightarrow> nat \<Rightarrow> nat \<Rightarrow> u32 \<Rightarrow> nat \<Rightarrow> u32 \<Rightarrow>
     (u8 list \<times> u32) outcome"
where
  "qmi_decode_elem e out buf dec_level ds =
     (let dst = out + unat (offset e)
      in if basic_type (data_type e) then
           qmi_decode_basic_elem (ds_cs ds) dst buf (ds_src ds) (ds_data_len ds) (elem_size e)
         else if data_type e = QMI_STRUCT then
           qmi_decode_struct_elem (ei_array e) (elem_size e) (ds_cs ds) dst buf (ds_src ds) (unat (ds_data_len ds))
             (ds_tlv_len ds) (dec_level + 1) 0
         else if data_type e = QMI_STRING then
           qmi_decode_string_elem e (ds_cs ds) dst buf (ds_src ds) (ds_tlv_len ds) dec_level
         else Fail EINVAL)"
| "qmi_decode_nested es out buf in_buf_len dec_level ds =
     (if ds_decoded ds < in_buf_len then
        (case es of
           [] \<Rightarrow> Bad_read
         | e0 # _ \<Rightarrow>
             if data_type e0 = QMI_EOTI then Done (ds_cs ds, ds_decoded ds)
             else
               obind (decode_enter es out buf (ds\<lparr>ds_tlv_len := in_buf_len - ds_decoded ds\<rparr>)) (\<lambda>(e, es', ds1).
               obind (qmi_decode_elem e out buf dec_level ds1) (\<lambda>(cs, rc).
                 qmi_decode_nested es' out buf in_buf_len dec_level (update_decode_variables cs rc ds1))))
      else Done (ds_cs ds, ds_decoded ds))"
| "qmi_decode_struct_elem arr sz cs dst buf src n tlv_len dec_level decoded =
     (if n > 0 \<and> decoded < tlv_len then
        (case arr of
           None \<Rightarrow> Bad_read
         | Some es \<Rightarrow>
             obind (qmi_decode_nested es dst buf (tlv_len - decoded) dec_level
                      \<lparr>ds_cs = cs, ds_src = src, ds_tlv_len = 0, ds_decoded = 0, ds_data_len = 0\<rparr>) (\<lambda>(cs', rc).
               qmi_decode_struct_elem arr sz cs' (dst + unat sz) buf (src + unat rc) (n - 1) tlv_len dec_level
                 (decoded + rc)))
      else if dec_level \<le> 2 \<and> decoded \<noteq> tlv_len \<or> dec_level > 2 \<and> (n > 0 \<or> decoded > tlv_len) then Fail EFAULT
      else Done (cs, decoded))"
  by pat_completeness auto
termination
  by (relation "measures [\<lambda>x. case x of Inl (e, _) \<Rightarrow> size e | Inr (Inl (es, _)) \<Rightarrow> size_list size es
      | Inr (Inr (arr, _)) \<Rightarrow> esize arr,
     \<lambda>x. case x of Inl _ \<Rightarrow> 0 | Inr (Inl _) \<Rightarrow> 1 | Inr (Inr _) \<Rightarrow> 2,
     \<lambda>x. case x of Inl _ \<Rightarrow> 0 | Inr (Inl _) \<Rightarrow> 0 | Inr (Inr (_, _, _, _, _, _, n, _)) \<Rightarrow> n]")
    (auto simp: esize_elem dest!: decode_enter_shorter(1))

declare qmi_decode_elem.simps [simp del] qmi_decode_nested.simps [simp del] qmi_decode_struct_elem.simps [simp del]

text \<open>
  The loop at \<open>dec_level\<close> 1: a type and a length before each element. An unknown type is skipped when it is
  one of an optional element. Every turn reads a type and length at \<open>ds_src\<close>, so the loop ends with the buffer.
\<close>

lemma update_decode_src: "ds_src (update_decode_variables cs rc ds) = ds_src ds + unat rc"
  by (simp add: update_decode_variables_def)

function qmi_decode_tlvs ::
  "qmi_elem_info list \<Rightarrow> nat \<Rightarrow> u8 list \<Rightarrow> u32 \<Rightarrow> dec_state \<Rightarrow> (u8 list \<times> u32) outcome"
where
  "qmi_decode_tlvs ei out buf in_buf_len ds =
     (if ds_decoded ds < in_buf_len then
        obind (read_at buf (ds_src ds) 3) (\<lambda>hdr.
          let tlv = hdr ! 0;
              tlv_len = ucast (hdr ! 1) OR push_bit 8 (ucast (hdr ! 2));
              ds1 = ds\<lparr>ds_tlv_len := tlv_len, ds_src := ds_src ds + 3, ds_decoded := ds_decoded ds + 3\<rparr>
          in obind (find_ei ei tlv) (\<lambda>found.
            case found of
              None \<Rightarrow>
                if tlv < 0x10 then Fail EINVAL
                else qmi_decode_tlvs ei out buf in_buf_len (update_decode_variables (ds_cs ds1) tlv_len ds1)
            | Some es \<Rightarrow>
                obind (decode_enter es out buf ds1) (\<lambda>(e, es', ds2).
                obind (qmi_decode_elem e out buf 1 ds2) (\<lambda>(cs, rc).
                  qmi_decode_tlvs ei out buf in_buf_len (update_decode_variables cs rc ds2)))))
      else Done (ds_cs ds, ds_decoded ds))"
  by pat_completeness auto
termination
proof (relation "measure (\<lambda>(ei, out, buf, n, ds). length buf - ds_src ds)", goal_cases)
qed (auto simp: update_decode_src read_at_def dest!: decode_enter_shorter(2) split: if_splits)

declare qmi_decode_tlvs.simps [simp del]

definition qmi_decode ::
  "qmi_elem_info list \<Rightarrow> u8 list \<Rightarrow> nat \<Rightarrow> u8 list \<Rightarrow> nat \<Rightarrow> u32 \<Rightarrow> nat \<Rightarrow> (u8 list \<times> u32) outcome" where
  "qmi_decode ei cs out buf src in_buf_len dec_level =
     (let ds = \<lparr>ds_cs = cs, ds_src = src, ds_tlv_len = 0, ds_decoded = 0, ds_data_len = 0\<rparr>
      in if dec_level = 1 then qmi_decode_tlvs ei out buf in_buf_len ds
         else qmi_decode_nested ei out buf in_buf_len dec_level ds)"

section \<open>Messages with a header\<close>

text \<open>
  \<open>struct qmi_header\<close>: a byte for the kind of message, then the transaction, the message id and the length, two
  bytes each. \<open>c_struct\<close> is \<open>None\<close> for a null pointer; \<open>alloc_ok\<close> tells whether \<open>kzalloc\<close> succeeds. The result is
  the message, of \<open>*len\<close> bytes.
\<close>

definition qmi_header :: "u8 \<Rightarrow> u16 \<Rightarrow> u16 \<Rightarrow> u16 \<Rightarrow> u8 list" where
  "qmi_header kind txn_id msg_id msg_len = kind # bytes16 txn_id @ bytes16 msg_id @ bytes16 msg_len"

definition qmi_encode_message ::
  "u8 \<Rightarrow> u16 \<Rightarrow> nat \<Rightarrow> u16 \<Rightarrow> qmi_elem_info list option \<Rightarrow> u8 list option \<Rightarrow> bool \<Rightarrow> u8 list outcome" where
  "qmi_encode_message kind msg_id len txn_id ei c_struct alloc_ok =
     obind (case c_struct of None \<Rightarrow> qmi_calc_min_msg_len ei 1 | Some _ \<Rightarrow> Done 0) (\<lambda>min_len.
     if min_len \<noteq> 0 then Fail EINVAL
     else if \<not> alloc_ok then Fail ENOMEM
     else
       obind (case c_struct of
            None \<Rightarrow> Done (replicate (7 + len) 0, 0)
          | Some cs \<Rightarrow> qmi_encode ei (replicate (7 + len) 0) 7 cs 0 (of_nat len) 1) (\<lambda>(msg, msglen).
       obind (write_at msg 0 (qmi_header kind txn_id msg_id (ucast msglen))) (\<lambda>msg'.
         Done (take (7 + unat msglen) msg'))))"

definition qmi_decode_message :: "u8 list \<Rightarrow> qmi_elem_info list option \<Rightarrow> u8 list option \<Rightarrow> (u8 list \<times> u32) outcome" where
  "qmi_decode_message buf ei c_struct =
     (case (ei, c_struct) of
        (Some es, Some cs) \<Rightarrow>
          if buf = [] then Fail EINVAL
          else qmi_decode es cs 0 buf 7 (of_nat (length buf) - 7) 1
      | _ \<Rightarrow> Fail EINVAL)"

definition qmi_response_type_v01_ei :: "qmi_elem_info list" where
  "qmi_response_type_v01_ei =
     [Elem QMI_SIGNED_2_BYTE_ENUM 1 2 NO_ARRAY 0 0 None,
      Elem QMI_SIGNED_2_BYTE_ENUM 1 2 NO_ARRAY 0 2 None,
      Elem QMI_EOTI 0 0 NO_ARRAY 0 0 None]"

end
