(* ===== verification/Qmi_Safe.thy ===== *)
theory Qmi_Safe
  imports Qmi_Encdec
begin

text \<open>
  Memory safety of the QMI encoder and decoder: the decoder writes only inside the structure it fills, for any
  input; the encoder writes only inside the message buffer, for the descriptors its checks cover; and the
  messages and descriptors for which the code falls short.
\<close>

section \<open>Decoding stays inside the structure\<close>

definition elem_count :: "qmi_elem_info \<Rightarrow> nat" where
  "elem_count e = (if array_type e = NO_ARRAY then 1 else unat (elem_len e))"

text \<open>The element lies inside a structure of \<open>n\<close> bytes, the elements of nested structures inside theirs.\<close>

fun elem_fits :: "nat \<Rightarrow> qmi_elem_info \<Rightarrow> bool" where
  "elem_fits n (Elem t len sz a tlv off arr) =
     (let cnt = (if a = NO_ARRAY then 1 else unat len)
      in if t = QMI_EOTI then True
         else if t = QMI_OPT_FLAG then unat off + 1 \<le> n
         else if t = QMI_DATA_LEN then unat off + 4 \<le> n
         else if t = QMI_STRING then sz = 1 \<and> unat off + unat len \<le> n
         else
           unat off + cnt * unat sz \<le> n \<and>
           (case arr of None \<Rightarrow> True | Some es \<Rightarrow> list_all (elem_fits (unat sz)) es))"

lemma elem_fits_flag: "elem_fits n e \<Longrightarrow> data_type e = QMI_OPT_FLAG \<Longrightarrow> unat (offset e) + 1 \<le> n"
  and elem_fits_len: "elem_fits n e \<Longrightarrow> data_type e = QMI_DATA_LEN \<Longrightarrow> unat (offset e) + 4 \<le> n"
  and elem_fits_string: "elem_fits n e \<Longrightarrow> data_type e = QMI_STRING \<Longrightarrow> elem_size e = 1 \<and> unat (offset e) + unat (elem_len e) \<le> n"
  and elem_fits_data: "elem_fits n e \<Longrightarrow> basic_type (data_type e) \<or> data_type e = QMI_STRUCT \<Longrightarrow>
      unat (offset e) + elem_count e * unat (elem_size e) \<le> n"
  and elem_fits_nested: "elem_fits n e \<Longrightarrow> data_type e = QMI_STRUCT \<Longrightarrow> ei_array e = Some es \<Longrightarrow>
      list_all (elem_fits (unat (elem_size e))) es"
  by (cases e; auto simp: basic_type_def elem_count_def Let_def split: if_splits)+

text \<open>A computation that never writes outside of a buffer of \<open>L\<close> bytes, and keeps its length.\<close>

definition writes_ok :: "nat \<Rightarrow> (u8 list \<times> 'a) outcome \<Rightarrow> bool" where
  "writes_ok L r = (case r of Bad_write \<Rightarrow> False | Done (cs, _) \<Rightarrow> length cs = L | _ \<Rightarrow> True)"

lemma writes_ok_simps [simp]:
  "writes_ok L Bad_read" "writes_ok L (Fail e)" "writes_ok L (Done (cs, x)) \<longleftrightarrow> length cs = L" "\<not> writes_ok L Bad_write"
  by (simp_all add: writes_ok_def)

lemma writes_ok_obind:
  "m \<noteq> Bad_write \<Longrightarrow> (\<And>a. m = Done a \<Longrightarrow> writes_ok L (f a)) \<Longrightarrow> writes_ok L (obind m f)"
  by (cases m) auto

lemma writes_ok_obind_ok:
  "writes_ok L m \<Longrightarrow> (\<And>cs x. m = Done (cs, x) \<Longrightarrow> length cs = L \<Longrightarrow> writes_ok L (f (cs, x))) \<Longrightarrow> writes_ok L (obind m f)"
  by (cases m) auto

lemma copy_elems_safe:
  "dst + n * sz \<le> length b \<Longrightarrow> copy_elems n sz b dst s src \<noteq> Bad_write \<and>
    (\<forall>b'. copy_elems n sz b dst s src = Done b' \<longrightarrow> length b' = length b)"
proof (induction n arbitrary: b dst src)
  case (Suc n)
  show ?case
  proof (cases "read_at s src sz")
    case (Done bs)
    then have "length bs = sz" by (rule read_at_length)
    then obtain b1 where w: "write_at b dst bs = Done b1" "length b1 = length b"
      using write_at_ok[of dst bs b] Suc.prems by auto
    then show ?thesis using Suc.IH[of "dst + sz" b1 "src + sz"] Suc.prems Done by (auto simp: ac_simps)
  qed (simp_all)
qed simp

lemma decode_basic_safe:
  "dst + unat len * unat sz \<le> length cs \<Longrightarrow> writes_ok (length cs) (qmi_decode_basic_elem cs dst buf src len sz)"
  using copy_elems_safe[of dst "unat len" "unat sz" cs buf src]
  by (auto simp: qmi_decode_basic_elem_def intro!: writes_ok_obind)

lemma decode_string_safe:
  assumes "elem_size e = 1" "dst + unat (elem_len e) \<le> length cs"
  shows "writes_ok (length cs) (qmi_decode_string_elem e cs dst buf src tlv_len lvl)"
proof -
  have *: "writes_ok (length cs)
      (obind (qmi_decode_basic_elem cs dst buf src' n (elem_size e)) (\<lambda>(cs1, rc).
       obind (write_at cs1 (dst + unat n) [0]) (\<lambda>cs2. Done (cs2, d + rc))))"
    if "\<not> elem_len e \<le> n" for n src' d
  proof -
    have lt: "unat n < unat (elem_len e)" using that by (simp add: word_less_nat_alt not_le)
    have "writes_ok (length cs) (qmi_decode_basic_elem cs dst buf src' n (elem_size e))"
      using lt assms by (intro decode_basic_safe) simp
    then show ?thesis
    proof (rule writes_ok_obind_ok)
      fix cs1 :: "u8 list" and rc :: u32
      assume "length cs1 = length cs"
      then show "writes_ok (length cs) (case (cs1, rc) of (cs1, rc) \<Rightarrow>
          obind (write_at cs1 (dst + unat n) [0]) (\<lambda>cs2. Done (cs2, d + rc)))"
        using lt assms(2) write_at_ok[of "dst + unat n" "[0]" cs1] by auto
    qed
  qed
  show ?thesis
    unfolding qmi_decode_string_elem_def
    by (rule writes_ok_obind) (use * in \<open>auto simp: obind_Bad_write\<close>)
qed

lemma write_at_inside: "i + length bs \<le> length b \<Longrightarrow> write_at b i bs \<noteq> Bad_write"
  by (simp add: write_at_def)

lemma decode_opt_flag_safe:
  assumes "list_all (elem_fits n) es" "out + n \<le> length (ds_cs ds)"
  shows "decode_opt_flag es out ds \<noteq> Bad_write"
    "decode_opt_flag es out ds = Done (es1, ds1) \<Longrightarrow>
      list_all (elem_fits n) es1 \<and> length (ds_cs ds1) = length (ds_cs ds)"
proof -
  show "decode_opt_flag es out ds \<noteq> Bad_write"
  proof (cases es)
    case (Cons e es')
    then have "write_at (ds_cs ds) (out + unat (offset e)) [1] \<noteq> Bad_write" if "data_type e = QMI_OPT_FLAG"
      using elem_fits_flag[OF _ that] assms by (intro write_at_inside) fastforce
    then show ?thesis using Cons by (simp add: decode_opt_flag_def obind_Bad_write)
  qed (simp add: decode_opt_flag_def)
  show "list_all (elem_fits n) es1 \<and> length (ds_cs ds1) = length (ds_cs ds)"
    if d: "decode_opt_flag es out ds = Done (es1, ds1)"
  proof (cases es)
    case (Cons e es')
    then show ?thesis
      using d assms(1) by (cases "data_type e = QMI_OPT_FLAG") (auto simp: decode_opt_flag_def obind_Done dest: write_at_length)
  qed (use d in \<open>simp add: decode_opt_flag_def\<close>)
qed

lemma decode_data_len_safe:
  assumes "list_all (elem_fits n) es" "out + n \<le> length (ds_cs ds)"
  shows "decode_data_len es out buf ds \<noteq> Bad_write"
    "decode_data_len es out buf ds = Done (es1, ds1) \<Longrightarrow>
      list_all (elem_fits n) es1 \<and> length (ds_cs ds1) = length (ds_cs ds)"
proof -
  show "decode_data_len es out buf ds \<noteq> Bad_write"
  proof (cases es)
    case (Cons e es')
    then have "write_at (ds_cs ds) (out + unat (offset e)) (bytes32 v) \<noteq> Bad_write" if "data_type e = QMI_DATA_LEN" for v
      using elem_fits_len[OF _ that] assms by (intro write_at_inside) fastforce
    then show ?thesis using Cons by (simp add: decode_data_len_def Let_def obind_Bad_write)
  qed (simp add: decode_data_len_def)
  show "list_all (elem_fits n) es1 \<and> length (ds_cs ds1) = length (ds_cs ds)"
    if d: "decode_data_len es out buf ds = Done (es1, ds1)"
  proof (cases es)
    case (Cons e es')
    then show ?thesis
      using d assms(1) by (cases "data_type e = QMI_DATA_LEN") (auto simp: decode_data_len_def Let_def obind_Done dest: write_at_length)
  qed (use d in \<open>simp add: decode_data_len_def\<close>)
qed

lemma decode_array_len_bound: "decode_array_len e dl = Done k \<Longrightarrow> unat k \<le> elem_count e"
  by (auto simp: decode_array_len_def elem_count_def word_less_nat_alt split: qmi_array_type.splits if_splits)

lemma decode_enter_safe:
  assumes "list_all (elem_fits n) es" "out + n \<le> length (ds_cs ds)"
  shows "decode_enter es out buf ds \<noteq> Bad_write"
    "decode_enter es out buf ds = Done (e, es', ds') \<Longrightarrow>
      elem_fits n e \<and> list_all (elem_fits n) es' \<and> length (ds_cs ds') = length (ds_cs ds) \<and> unat (ds_data_len ds') \<le> elem_count e"
proof -
  have 2: "decode_data_len es1 out buf ds1 \<noteq> Bad_write" if "decode_opt_flag es out ds = Done (es1, ds1)" for es1 ds1
    using decode_opt_flag_safe(2)[OF assms that] decode_data_len_safe(1)[of n es1 out ds1] assms(2) by simp
  have "decode_array_len e k \<noteq> Bad_write" for e k by (simp add: decode_array_len_def split: qmi_array_type.splits)
  then show "decode_enter es out buf ds \<noteq> Bad_write"
    using decode_opt_flag_safe(1)[OF assms] 2 by (auto simp: decode_enter_def obind_Bad_write split: list.splits)
  assume "decode_enter es out buf ds = Done (e, es', ds')"
  then obtain es1 ds1 ds2 k where d: "decode_opt_flag es out ds = Done (es1, ds1)"
    "decode_data_len es1 out buf ds1 = Done (e # es', ds2)" "decode_array_len e (ds_data_len ds2) = Done k" "ds' = ds2\<lparr>ds_data_len := k\<rparr>"
    by (rule decode_enterE)
  have o: "list_all (elem_fits n) es1" "length (ds_cs ds1) = length (ds_cs ds)" using decode_opt_flag_safe(2)[OF assms d(1)] by auto
  have "list_all (elem_fits n) (e # es') \<and> length (ds_cs ds2) = length (ds_cs ds1)"
    using decode_data_len_safe(2)[OF o(1) _ d(2)] o(2) assms(2) by simp
  then show "elem_fits n e \<and> list_all (elem_fits n) es' \<and> length (ds_cs ds') = length (ds_cs ds) \<and> unat (ds_data_len ds') \<le> elem_count e"
    using o(2) d(4) decode_array_len_bound[OF d(3)] by simp
qed

lemma decode_step_safe:
  assumes "list_all (elem_fits n) es" "out + n \<le> length (ds_cs ds)"
    and elem: "\<And>e es' ds1. decode_enter es out buf ds = Done (e, es', ds1) \<Longrightarrow> elem_fits n e \<Longrightarrow>
      length (ds_cs ds1) = length (ds_cs ds) \<Longrightarrow> unat (ds_data_len ds1) \<le> elem_count e \<Longrightarrow>
      writes_ok (length (ds_cs ds1)) (qmi_decode_elem e out buf lvl ds1)"
    and rest: "\<And>e es' ds1 cs rc. decode_enter es out buf ds = Done (e, es', ds1) \<Longrightarrow> list_all (elem_fits n) es' \<Longrightarrow>
      qmi_decode_elem e out buf lvl ds1 = Done (cs, rc) \<Longrightarrow> length cs = length (ds_cs ds) \<Longrightarrow>
      writes_ok (length cs) (next_elem es' cs rc ds1)"
  shows "writes_ok (length (ds_cs ds)) (obind (decode_enter es out buf ds) (\<lambda>(e, es', ds1).
      obind (qmi_decode_elem e out buf lvl ds1) (\<lambda>(cs, rc). next_elem es' cs rc ds1)))"
proof (rule writes_ok_obind)
  show "decode_enter es out buf ds \<noteq> Bad_write" by (rule decode_enter_safe(1)[OF assms(1,2)])
  fix a assume a: "decode_enter es out buf ds = Done a"
  obtain e es' ds1 where p: "a = (e, es', ds1)" by (cases a)
  note E = decode_enter_safe(2)[OF assms(1,2) a[unfolded p]]
  have L: "length (ds_cs ds1) = length (ds_cs ds)" using E by simp
  have "writes_ok (length (ds_cs ds)) (qmi_decode_elem e out buf lvl ds1)"
    using elem[OF a[unfolded p]] E L by simp
  then have "writes_ok (length (ds_cs ds)) (obind (qmi_decode_elem e out buf lvl ds1) (\<lambda>(cs, rc). next_elem es' cs rc ds1))"
  proof (rule writes_ok_obind_ok)
    fix cs rc
    assume "qmi_decode_elem e out buf lvl ds1 = Done (cs, rc)" and l: "length cs = length (ds_cs ds)"
    then have "writes_ok (length cs) (next_elem es' cs rc ds1)" using rest[OF a[unfolded p]] E by simp
    then show "writes_ok (length (ds_cs ds)) (case (cs, rc) of (cs, rc) \<Rightarrow> next_elem es' cs rc ds1)" by (simp add: l)
  qed
  then show "writes_ok (length (ds_cs ds)) (case a of (e, es', ds1) \<Rightarrow>
      obind (qmi_decode_elem e out buf lvl ds1) (\<lambda>(cs, rc). next_elem es' cs rc ds1))"
    by (simp add: p)
qed

lemma decode_elem_safe:
  assumes "elem_fits n e" "out + n \<le> length (ds_cs ds)" "unat (ds_data_len ds) \<le> elem_count e"
    and struct: "data_type e = QMI_STRUCT \<Longrightarrow>
      (\<And>es. ei_array e = Some es \<Longrightarrow> list_all (elem_fits (unat (elem_size e))) es) \<Longrightarrow>
      out + unat (offset e) + unat (ds_data_len ds) * unat (elem_size e) \<le> length (ds_cs ds) \<Longrightarrow>
      writes_ok (length (ds_cs ds)) (qmi_decode_struct_elem (ei_array e) (elem_size e) (ds_cs ds) (out + unat (offset e)) buf
        (ds_src ds) (unat (ds_data_len ds)) (ds_tlv_len ds) (lvl + 1) 0)"
  shows "writes_ok (length (ds_cs ds)) (qmi_decode_elem e out buf lvl ds)"
proof -
  have le: "out + unat (offset e) + unat (ds_data_len ds) * unat (elem_size e) \<le> length (ds_cs ds)"
    if "basic_type (data_type e) \<or> data_type e = QMI_STRUCT"
    using elem_fits_data[OF assms(1) that] mult_le_mono1[OF assms(3), of "unat (elem_size e)"] assms(2) by linarith
  consider "basic_type (data_type e)" | "data_type e = QMI_STRUCT" | "data_type e = QMI_STRING"
    | "\<not> basic_type (data_type e)" "data_type e \<noteq> QMI_STRUCT" "data_type e \<noteq> QMI_STRING" by blast
  then show ?thesis
  proof cases
    case 1
    then show ?thesis using decode_basic_safe[OF le] by (simp add: qmi_decode_elem.simps Let_def)
  next
    case 2
    then have "\<not> basic_type (data_type e)" by (simp add: basic_type_def)
    then show ?thesis using struct[OF 2 elem_fits_nested[OF assms(1) 2] le] 2 by (simp add: qmi_decode_elem.simps Let_def)
  next
    case 3
    then have "\<not> basic_type (data_type e)" by (simp add: basic_type_def)
    then show ?thesis
      using 3 decode_string_safe[of e "out + unat (offset e)" "ds_cs ds"] elem_fits_string[OF assms(1) 3] assms(2)
      by (simp add: qmi_decode_elem.simps Let_def)
  next
    case 4
    then show ?thesis by (simp add: qmi_decode_elem.simps Let_def)
  qed
qed

lemma decode_safe:
  "elem_fits n e \<Longrightarrow> out + n \<le> length (ds_cs ds) \<Longrightarrow> unat (ds_data_len ds) \<le> elem_count e \<Longrightarrow>
     writes_ok (length (ds_cs ds)) (qmi_decode_elem e out buf lvl ds)"
  "list_all (elem_fits n) es \<Longrightarrow> out' + n \<le> length (ds_cs ds') \<Longrightarrow>
     writes_ok (length (ds_cs ds')) (qmi_decode_nested es out' buf' in_len lvl' ds')"
  "(\<And>es. arr = Some es \<Longrightarrow> list_all (elem_fits (unat sz)) es) \<Longrightarrow> dst + k * unat sz \<le> length cs \<Longrightarrow>
     writes_ok (length cs) (qmi_decode_struct_elem arr sz cs dst buf'' src k tlv_len lvl'' dec)"
proof (induction e out buf lvl ds and es out' buf' in_len lvl' ds' and arr sz cs dst buf'' src k tlv_len lvl'' dec
    arbitrary: n and n rule: qmi_decode_elem_qmi_decode_nested_qmi_decode_struct_elem.induct)
  case (1 e out buf lvl ds)
  then show ?case by (intro decode_elem_safe) (auto simp: basic_type_def)
next
  case (2 es out buf in_len lvl ds)
  show ?case
  proof (cases "ds_decoded ds < in_len \<and> es \<noteq> [] \<and> data_type (hd es) \<noteq> QMI_EOTI")
    case True
    then obtain e0 es0 where es: "es = e0 # es0" "data_type e0 \<noteq> QMI_EOTI" "ds_decoded ds < in_len" by (cases es) auto
    let ?ds = "ds\<lparr>ds_tlv_len := in_len - ds_decoded ds\<rparr>"
    have "writes_ok (length (ds_cs ?ds)) (obind (decode_enter es out buf ?ds) (\<lambda>(e, es', ds1).
        obind (qmi_decode_elem e out buf lvl ds1) (\<lambda>(cs, rc).
          qmi_decode_nested es' out buf in_len lvl (update_decode_variables cs rc ds1))))"
    proof (rule decode_step_safe[OF "2.prems"(1)], goal_cases)
      case (2 e es' ds1)
      then show ?case using "2.IH"(1)[OF es(3,1,2) 2(1) refl refl] "2.prems" by simp
    next
      case (3 e es' ds1 cs rc)
      then show ?case using "2.IH"(2)[OF es(3,1,2) 3(1) refl refl 3(3) refl] "2.prems" by (simp add: update_decode_variables_def)
    qed (use "2.prems" in simp)
    then show ?thesis using es(2,3) by (simp add: qmi_decode_nested.simps[of "e0 # es0"] es(1))
  qed (auto simp: qmi_decode_nested.simps[of es] split: list.splits)
next
  case (3 arr sz cs dst buf src k tlv_len lvl dec)
  show ?case
  proof (cases "0 < k \<and> dec < tlv_len")
    case True
    let ?ds = "\<lparr>ds_cs = cs, ds_src = src, ds_tlv_len = 0, ds_decoded = 0, ds_data_len = 0\<rparr>"
    obtain k' where k: "k = Suc k'" using True by (cases k) auto
    show ?thesis
    proof (cases arr)
      case (Some es)
      have fit: "dst + unat sz + k' * unat sz \<le> length cs" using "3.prems"(2) k by simp
      have "writes_ok (length cs) (qmi_decode_nested es dst buf (tlv_len - dec) lvl ?ds)"
        using "3.IH"(1)[OF True Some] "3.prems"(1)[OF Some] fit by fastforce
      then have "writes_ok (length cs) (obind (qmi_decode_nested es dst buf (tlv_len - dec) lvl ?ds) (\<lambda>(cs', rc).
          qmi_decode_struct_elem arr sz cs' (dst + unat sz) buf (src + unat rc) (k - 1) tlv_len lvl (dec + rc)))"
      proof (rule writes_ok_obind_ok)
        fix cs' rc
        assume a: "qmi_decode_nested es dst buf (tlv_len - dec) lvl ?ds = Done (cs', rc)" and l: "length cs' = length cs"
        show "writes_ok (length cs) (case (cs', rc) of (cs', rc) \<Rightarrow>
            qmi_decode_struct_elem arr sz cs' (dst + unat sz) buf (src + unat rc) (k - 1) tlv_len lvl (dec + rc))"
          using "3.IH"(2)[OF True Some a refl] "3.prems"(1) fit l k by simp
      qed
      then show ?thesis using True by (simp add: Some qmi_decode_struct_elem.simps[of "Some es" sz cs])
    qed (use True in \<open>simp add: qmi_decode_struct_elem.simps[of None]\<close>)
  qed (auto simp: qmi_decode_struct_elem.simps[of arr])
qed

lemma find_ei_suffix: "find_ei ei t = Done (Some es) \<Longrightarrow> list_all P ei \<Longrightarrow> list_all P es"
  by (induction ei t rule: find_ei.induct) (auto split: if_splits)

lemma find_ei_no_write [simp]: "find_ei ei t \<noteq> Bad_write"
  by (induction ei t rule: find_ei.induct) auto

lemma decode_tlvs_safe:
  "list_all (elem_fits n) ei \<Longrightarrow> out + n \<le> length (ds_cs ds) \<Longrightarrow>
    writes_ok (length (ds_cs ds)) (qmi_decode_tlvs ei out buf in_len ds)"
proof (induction ei out buf in_len ds rule: qmi_decode_tlvs.induct)
  case (1 ei out buf in_len ds)
  show ?case
  proof (cases "ds_decoded ds < in_len")
    case True
    show ?thesis
      unfolding qmi_decode_tlvs.simps[of ei out buf in_len ds] if_P[OF True] Let_def
    proof (rule writes_ok_obind[OF read_at_no_write], rule writes_ok_obind[OF find_ei_no_write])
      fix hdr found
      assume r: "read_at buf (ds_src ds) 3 = Done hdr" and f: "find_ei ei (hdr ! 0) = Done found"
      let ?len = "ucast (hdr ! 1) OR push_bit 8 (ucast (hdr ! 2)) :: u32"
      let ?ds = "ds\<lparr>ds_tlv_len := ?len, ds_src := ds_src ds + 3, ds_decoded := ds_decoded ds + 3\<rparr>"
      note IH = "1.IH"[OF True r refl refl refl f]
      show "writes_ok (length (ds_cs ds)) (case found of
          None \<Rightarrow> if hdr ! 0 < 0x10 then Fail EINVAL
            else qmi_decode_tlvs ei out buf in_len (update_decode_variables (ds_cs ?ds) ?len ?ds)
        | Some es \<Rightarrow> obind (decode_enter es out buf ?ds) (\<lambda>(e, es', ds2).
            obind (qmi_decode_elem e out buf 1 ds2) (\<lambda>(cs, rc).
              qmi_decode_tlvs ei out buf in_len (update_decode_variables cs rc ds2))))"
      proof (cases found)
        case None
        then show ?thesis using IH(1) "1.prems" by (auto simp: update_decode_variables_def)
      next
        case (Some es)
        have "writes_ok (length (ds_cs ?ds)) (obind (decode_enter es out buf ?ds) (\<lambda>(e, es', ds2).
            obind (qmi_decode_elem e out buf 1 ds2) (\<lambda>(cs, rc).
              qmi_decode_tlvs ei out buf in_len (update_decode_variables cs rc ds2))))"
        proof (rule decode_step_safe[where n = n], goal_cases)
          case 1
          show ?case by (rule find_ei_suffix[OF f[unfolded Some] "1.prems"(1)])
        next
          case (3 e es' ds1)
          then show ?case using decode_safe(1)[of n e out ds1 buf 1] "1.prems" by simp
        next
          case (4 e es' ds1 cs rc)
          then show ?case using IH(2)[OF Some 4(1) refl refl 4(3) refl] "1.prems" by (simp add: update_decode_variables_def)
        qed (use "1.prems" in simp)
        then show ?thesis using Some by simp
      qed
    qed
  qed (simp add: qmi_decode_tlvs.simps[of ei])
qed

section \<open>Encoding stays inside the buffer\<close>

text \<open>
  The descriptors for which the encoder's checks are enough: no string in a nested structure, and every
  nested structure starts with an element that is always encoded.
\<close>

definition always_encoded :: "qmi_elem_info \<Rightarrow> bool" where
  "always_encoded e \<longleftrightarrow> data_type e = QMI_DATA_LEN \<or>
     basic_type (data_type e) \<and> array_type e \<noteq> VAR_LEN_ARRAY \<and> elem_count e * unat (elem_size e) > 0"

fun enc_ok :: "nat \<Rightarrow> qmi_elem_info \<Rightarrow> bool" where
  "enc_ok level (Elem t len sz a tlv off arr) =
     (if t = QMI_STRING then level = 1 \<and> sz = 1
      else if t = QMI_DATA_LEN then sz \<le> 4
      else if t = QMI_STRUCT then
        (a = STATIC_ARRAY \<longrightarrow> len > 0) \<and>
        (case arr of None \<Rightarrow> False | Some es \<Rightarrow> es \<noteq> [] \<and> always_encoded (hd es) \<and> list_all (enc_ok (level + 1)) es)
      else (if a = NO_ARRAY then 1 else unat len) * unat sz < 2 ^ 31)"

lemma enc_ok_string: "enc_ok level e \<Longrightarrow> data_type e = QMI_STRING \<Longrightarrow> level = 1 \<and> elem_size e = 1"
  and enc_ok_len: "enc_ok level e \<Longrightarrow> data_type e = QMI_DATA_LEN \<Longrightarrow> elem_size e \<le> 4"
  and enc_ok_basic: "enc_ok level e \<Longrightarrow> basic_type (data_type e) \<Longrightarrow> elem_count e * unat (elem_size e) < 2 ^ 31"
  and enc_ok_struct: "enc_ok level e \<Longrightarrow> data_type e = QMI_STRUCT \<Longrightarrow>
      (array_type e = STATIC_ARRAY \<longrightarrow> elem_len e > 0) \<and>
      (\<exists>es. ei_array e = Some es \<and> es \<noteq> [] \<and> always_encoded (hd es) \<and> list_all (enc_ok (level + 1)) es)"
  by (cases e; auto simp: basic_type_def elem_count_def Let_def split: if_splits option.splits)+

text \<open>
  The encoder at a level, with the structure's bytes from \<open>out_buf\<close> on and \<open>out_buf_len\<close> bytes to spend: at the
  top the type and length of the current element are accounted for, in a nested structure they still
  belong to the enclosing element.
\<close>

definition enc_inv :: "nat \<Rightarrow> nat \<Rightarrow> u32 \<Rightarrow> nat \<Rightarrow> enc_state \<Rightarrow> bool" where
  "enc_inv level out_buf out_buf_len L st \<longleftrightarrow>
     length (es_buf st) = L \<and> unat out_buf_len < 2 ^ 31 \<and>
     out_buf + unat out_buf_len + (if level = 1 then 3 else 0) \<le> L + 3 \<and>
     es_dst st = out_buf + (if level = 1 then 3 else 0) + unat (es_encoded st) \<and>
     (level = 1 \<longrightarrow> es_tlv_pointer st + 3 \<le> es_dst st)"

definition enc_bound :: "nat \<Rightarrow> u32 \<Rightarrow> u32 \<Rightarrow> bool" where
  "enc_bound level out_buf_len n \<longleftrightarrow>
     (if level = 1 then unat n \<le> unat out_buf_len else n = 0 \<or> unat n + 3 \<le> unat out_buf_len)"

definition enc_result :: "nat \<Rightarrow> nat \<Rightarrow> u32 \<Rightarrow> nat \<Rightarrow> (u8 list \<times> u32) outcome \<Rightarrow> bool" where
  "enc_result level k out_buf_len L r =
     (case r of Bad_write \<Rightarrow> False | Done (b, n) \<Rightarrow> length b = L \<and> k \<le> unat n \<and> enc_bound level out_buf_len n | _ \<Rightarrow> True)"

lemma enc_result_obind:
  "m \<noteq> Bad_write \<Longrightarrow> (\<And>a. m = Done a \<Longrightarrow> enc_result lv k n L (f a)) \<Longrightarrow> enc_result lv k n L (obind m f)"
  by (cases m) (auto simp: enc_result_def)

lemma enc_result_simps [simp]:
  "enc_result lv k n L (Done (b, r)) \<longleftrightarrow> length b = L \<and> k \<le> unat r \<and> enc_bound lv n r"
  "enc_result lv k n L (Fail e)" "enc_result lv k n L Bad_read" "\<not> enc_result lv k n L Bad_write"
  by (simp_all add: enc_result_def)

lemma encode_basic_elem_safe:
  assumes "dst + unat len * unat sz \<le> length buf"
  shows "qmi_encode_basic_elem buf dst cs src len sz \<noteq> Bad_write"
    "qmi_encode_basic_elem buf dst cs src len sz = Done (b, rc) \<Longrightarrow> length b = length buf \<and> rc = len * sz"
  using copy_elems_safe[OF assms, of cs src]
  by (auto simp: qmi_encode_basic_elem_def obind_Bad_write obind_Done)

text \<open>After an element: what was encoded and the header of the current element fit.\<close>

lemma update_encode_inv:
  assumes "enc_inv level out_buf n L st" "length buf = L" "unat (es_encoded st) + unat rc + 3 \<le> unat n"
  shows "enc_inv level out_buf n L (update_encode_variables buf rc st)"
    "unat (es_encoded (update_encode_variables buf rc st)) = unat (es_encoded st) + unat rc"
proof -
  show e: "unat (es_encoded (update_encode_variables buf rc st)) = unat (es_encoded st) + unat rc"
    using assms(1,3) by (simp add: update_encode_variables_def enc_inv_def unat_word_ariths)
  show "enc_inv level out_buf n L (update_encode_variables buf rc st)"
    using assms(1,2) e by (auto simp: enc_inv_def update_encode_variables_def)
qed

text \<open>Before an element: no type and length is pending at the top.\<close>

definition enc_ready :: "nat \<Rightarrow> nat \<Rightarrow> u32 \<Rightarrow> nat \<Rightarrow> enc_state \<Rightarrow> bool" where
  "enc_ready level out_buf n L st \<longleftrightarrow>
     enc_inv level out_buf n L st \<and> enc_bound level n (es_encoded st) \<and> (level = 1 \<longrightarrow> \<not> es_encode_tlv st)"

definition enc_after :: "nat \<Rightarrow> nat \<Rightarrow> u32 \<Rightarrow> nat \<Rightarrow> enc_state \<Rightarrow> bool" where
  "enc_after level out_buf n L st \<longleftrightarrow>
     enc_inv level out_buf n L st \<and> enc_bound level n (es_encoded st) \<and>
     (level = 1 \<and> es_encode_tlv st \<longrightarrow> unat (es_encoded st) + 3 \<le> unat n)"

lemma encode_tlv_safe:
  assumes "enc_after level out_buf n L st"
  shows "encode_tlv e level st \<noteq> Bad_write"
    "encode_tlv e level st = Done st' \<Longrightarrow> enc_ready level out_buf n L st' \<and> unat (es_encoded st) \<le> unat (es_encoded st')"
proof -
  show "encode_tlv e level st \<noteq> Bad_write"
    using assms by (auto simp: encode_tlv_def enc_after_def enc_inv_def obind_Bad_write write_at_def)
  assume d: "encode_tlv e level st = Done st'"
  show "enc_ready level out_buf n L st' \<and> unat (es_encoded st) \<le> unat (es_encoded st')"
  proof (cases "es_encode_tlv st \<and> level = 1")
    case True
    then have "unat (es_encoded st + 3) = unat (es_encoded st) + 3"
      using assms by (simp add: enc_after_def enc_inv_def unat_word_ariths)
    then show ?thesis using d True assms
      by (auto simp: encode_tlv_def obind_Done enc_after_def enc_ready_def enc_inv_def enc_bound_def dest!: write_at_length)
  next
    case False
    then show ?thesis using d assms by (auto simp: encode_tlv_def enc_after_def enc_ready_def)
  qed
qed

lemma update_encode_after:
  assumes "enc_inv level out_buf n L st" "length buf = L" "unat (es_encoded st) + unat rc + 3 \<le> unat n"
  shows "enc_after level out_buf n L (update_encode_variables buf rc st)"
    "unat (es_encoded st) \<le> unat (es_encoded (update_encode_variables buf rc st))"
  using update_encode_inv[OF assms] assms(3) by (auto simp: enc_after_def enc_bound_def)

lemma skip_to_next_elem_all: "skip_to_next_elem level es = Done es' \<Longrightarrow> list_all P es \<Longrightarrow> list_all P es'"
  by (induction level es rule: skip_to_next_elem.induct) (auto split: if_splits list.splits)

lemma skip_to_next_elem_no_write [simp]: "skip_to_next_elem level es \<noteq> Bad_write"
  by (induction level es rule: skip_to_next_elem.induct) (auto split: list.splits)

lemma encode_basic_safe:
  assumes "enc_inv level out_buf n L st" "unat (es_data_len st) * unat (elem_size e) < 2 ^ 31" "unat (es_encoded st) \<le> unat n"
  shows "encode_basic e cs src n st \<noteq> Bad_write"
    "encode_basic e cs src n st = Done st' \<Longrightarrow> enc_after level out_buf n L st' \<and>
      unat (es_encoded st') = unat (es_encoded st) + unat (es_data_len st) * unat (elem_size e)"
proof -
  let ?k = "es_data_len st * elem_size e"
  have k: "unat ?k = unat (es_data_len st) * unat (elem_size e)" using assms(2) by (simp add: unat_word_ariths)
  have s: "unat (?k + es_encoded st) = unat ?k + unat (es_encoded st)"
    using k assms by (simp add: unat_word_ariths enc_inv_def)
  have fit: "es_dst st + unat (es_data_len st) * unat (elem_size e) \<le> length (es_buf st)" if "unat ?k + unat (es_encoded st) + 3 \<le> unat n"
    using that assms(1) k by (auto simp: enc_inv_def split: if_splits)
  show "encode_basic e cs src n st \<noteq> Bad_write"
    using encode_basic_elem_safe(1)[OF fit, of cs src] s by (auto simp: encode_basic_def obind_Bad_write)
  assume d: "encode_basic e cs src n st = Done st'"
  then have le: "unat (es_encoded st) + unat ?k + 3 \<le> unat n" using s by (auto simp: encode_basic_def split: if_splits)
  obtain buf rc where b: "qmi_encode_basic_elem (es_buf st) (es_dst st) cs src (es_data_len st) (elem_size e) = Done (buf, rc)"
    and st': "st' = update_encode_variables buf rc st"
    using d by (auto simp: encode_basic_def obind_Done split: if_splits)
  have "length buf = L" "rc = ?k" using encode_basic_elem_safe(2)[OF fit b] le assms(1) by (auto simp: enc_inv_def)
  then show "enc_after level out_buf n L st' \<and> unat (es_encoded st') = unat (es_encoded st) + unat (es_data_len st) * unat (elem_size e)"
    using update_encode_after[OF assms(1), of buf rc] update_encode_inv(2)[OF assms(1), of buf rc] le k st' by simp
qed

lemma encode_string_safe:
  fixes cs :: "u8 list" and src :: nat
  assumes "enc_inv 1 out_buf n L st" "elem_size e = 1" "unat (es_encoded st) \<le> unat n"
  defines "r \<equiv> qmi_encode_string_elem e (es_buf st) (es_dst st) cs src (n - es_encoded st) 1"
  shows "r \<noteq> Bad_write"
    "r = Done (b, rc) \<Longrightarrow> length b = L \<and> unat (es_encoded st) + unat rc + 3 \<le> unat n"
proof -
  have sub: "unat (n - es_encoded st) = unat n - unat (es_encoded st)" using assms(3) by (simp add: unat_sub word_le_nat_alt)
  have fit: "es_dst st + unat k * unat (elem_size e) \<le> length (es_buf st)" if "unat k + 3 \<le> unat (n - es_encoded st)" for k :: u32
    using that assms(1,2) by (auto simp: sub enc_inv_def)
  show "r \<noteq> Bad_write"
    using encode_basic_elem_safe(1)[OF fit, of _ cs src]
    by (auto simp: r_def qmi_encode_string_elem_def Let_def obind_Bad_write split: if_splits)
  assume "r = Done (b, rc)"
  then obtain k where k: "unat k + 3 \<le> unat (n - es_encoded st)"
    and b: "qmi_encode_basic_elem (es_buf st) (es_dst st) cs src k (elem_size e) = Done (b, rc)"
    by (auto simp: r_def qmi_encode_string_elem_def Let_def obind_Done not_less split: if_splits)
  show "length b = L \<and> unat (es_encoded st) + unat rc + 3 \<le> unat n"
    using encode_basic_elem_safe(2)[OF fit[OF k] b] k sub assms(1,2) by (simp add: enc_inv_def)
qed

lemma enc_after_set:
  assumes "enc_after level out_buf n L st"
  shows "enc_after level out_buf n L (st\<lparr>es_data_len := d\<rparr>)" "enc_after level out_buf n L (st\<lparr>es_data_len := d, es_encode_tlv := False\<rparr>)"
  using assms by (auto simp: enc_after_def enc_inv_def)

lemma encode_data_len_safe:
  assumes "enc_inv level out_buf n L st" "elem_size e \<le> 4" "unat (es_encoded st) \<le> unat n" "list_all P es"
  shows "encode_data_len e es cs src n level st \<noteq> Bad_write"
    "encode_data_len e es cs src n level st = Done (es', st') \<Longrightarrow> enc_after level out_buf n L st' \<and> list_all P es' \<and>
      unat (es_encoded st) < unat (es_encoded st')"
proof -
  let ?sz = "data_len_size e"
  have sz: "unat ?sz = 1 \<or> unat ?sz = 2" by (auto simp: data_len_size_def)
  have s: "unat (?sz + es_encoded st) = unat ?sz + unat (es_encoded st)"
    using sz assms by (auto simp: unat_word_ariths enc_inv_def)
  have fit: "es_dst st + unat (1 :: u32) * unat ?sz \<le> length (es_buf st)" if "unat ?sz + unat (es_encoded st) + 3 \<le> unat n"
    using that assms(1) by (auto simp: enc_inv_def split: if_splits)
  have len: "length bs \<le> 4" if "read_at cs src (unat (elem_size e)) = Done bs" for bs
    using read_at_length[OF that] assms(2) by (simp add: word_le_nat_alt)
  show "encode_data_len e es cs src n level st \<noteq> Bad_write"
  proof (cases "read_at cs src (unat (elem_size e))")
    case (Done bs)
    then show ?thesis
      using encode_basic_elem_safe(1)[OF fit, of "bytes32 (overlay32 (es_data_len st) bs)" 0] len[OF Done] s
      by (simp add: encode_data_len_def Let_def obind_Bad_write)
  qed (simp_all add: encode_data_len_def)
  assume d: "encode_data_len e es cs src n level st = Done (es', st')"
  then obtain bs where r: "read_at cs src (unat (elem_size e)) = Done bs" by (auto simp: encode_data_len_def obind_Done)
  define dl where "dl = overlay32 (es_data_len st) bs"
  have le: "unat ?sz + unat (es_encoded st) + 3 \<le> unat n"
    using d s len[OF r] by (auto simp: encode_data_len_def r Let_def split: if_splits)
  obtain buf rc where b: "qmi_encode_basic_elem (es_buf st) (es_dst st) (bytes32 dl) 0 1 ?sz = Done (buf, rc)"
    using d le s len[OF r] by (auto simp: encode_data_len_def r Let_def obind_Done simp flip: dl_def)
  let ?st = "(update_encode_variables buf rc st)\<lparr>es_data_len := dl\<rparr>"
  have d': "(if dl = 0 then obind (skip_to_next_elem level es) (\<lambda>es'. Done (es', ?st)) else Done (es, ?st\<lparr>es_encode_tlv := False\<rparr>)) = Done (es', st')"
    using d le s len[OF r] b by (simp add: encode_data_len_def r Let_def flip: dl_def)
  have st': "st' = ?st \<or> st' = ?st\<lparr>es_encode_tlv := False\<rparr>"
    and es': "es' = es \<or> skip_to_next_elem level es = Done es'"
    using d' by (auto simp: obind_Done split: if_splits)
  have rc: "length buf = L" "rc = ?sz" using encode_basic_elem_safe(2)[OF fit[OF le] b] assms(1) by (auto simp: enc_inv_def)
  have "enc_after level out_buf n L (update_encode_variables buf rc st)" "unat (es_encoded (update_encode_variables buf rc st)) = unat (es_encoded st) + unat rc"
    using update_encode_after[OF assms(1)] update_encode_inv(2)[OF assms(1)] rc le by simp_all
  then show "enc_after level out_buf n L st' \<and> list_all P es' \<and> unat (es_encoded st) < unat (es_encoded st')"
    using enc_after_set st' es' skip_to_next_elem_all[OF _ assms(4)] assms(4) sz rc by auto
qed

lemma array_len_bound: "array_len e dl = Done k \<Longrightarrow> unat k \<le> elem_count e" "array_len e dl \<noteq> Bad_write"
  by (auto simp: array_len_def elem_count_def word_less_nat_alt split: qmi_array_type.splits if_splits)

lemma encode_plain_basic: "basic_type (data_type e) \<Longrightarrow>
    encode_plain e es cs src n level st = obind (encode_basic e cs src n st) (\<lambda>st'. Done (es, st'))"
  by (auto simp: encode_plain_def basic_type_def)

lemma encode_plain_safe:
  assumes R: "enc_ready level out_buf n L st" and ok: "enc_ok level e" "list_all (enc_ok level) es"
    and t: "data_type e \<noteq> QMI_EOTI" "data_type e \<noteq> QMI_STRUCT" and dl: "unat (es_data_len st) \<le> elem_count e"
    and ex: "array_type e \<noteq> VAR_LEN_ARRAY \<Longrightarrow> unat (es_data_len st) = elem_count e"
  shows "encode_plain e es cs src n level st \<noteq> Bad_write \<and>
    (\<forall>es' st'. encode_plain e es cs src n level st = Done (es', st') \<longrightarrow> enc_after level out_buf n L st' \<and>
       list_all (enc_ok level) es' \<and> unat (es_encoded st) \<le> unat (es_encoded st') \<and> (always_encoded e \<longrightarrow> unat (es_encoded st') > 0))"
proof -
  have I: "enc_inv level out_buf n L st" "unat (es_encoded st) \<le> unat n" "enc_after level out_buf n L st"
    using R by (auto simp: enc_ready_def enc_bound_def enc_after_def split: if_splits)
  consider "data_type e = QMI_OPT_FLAG" | "data_type e = QMI_DATA_LEN" | "data_type e = QMI_STRING" | "basic_type (data_type e)"
    using t by (cases "data_type e") (auto simp: basic_type_def)
  then show ?thesis
  proof cases
    case 1
    then have "\<not> always_encoded e" by (simp add: always_encoded_def basic_type_def)
    moreover have "list_all (enc_ok level) es'" if "skip_to_next_elem level (e # es) = Done es'" for es'
      using skip_to_next_elem_all[OF that] ok by simp
    ultimately show ?thesis using 1 I ok
      by (auto simp: encode_plain_def encode_opt_flag_def obind_Bad_write obind_Done simp del: skip_to_next_elem.simps split: if_splits)
  next
    case 2
    have P: "encode_plain e es cs src n level st = encode_data_len e es cs src n level st" using 2 by (simp add: encode_plain_def)
    show ?thesis
      unfolding P using encode_data_len_safe[OF I(1) enc_ok_len[OF ok(1) 2] I(2) ok(2), of cs src] by fastforce
  next
    case 3
    then have l: "level = 1" "elem_size e = 1" using enc_ok_string[OF ok(1) 3] by auto
    have "\<not> always_encoded e" using 3 by (simp add: always_encoded_def basic_type_def)
    then show ?thesis
      using 3 encode_string_safe[OF I(1)[unfolded l(1)] l(2) I(2), of cs src] update_encode_after[OF I(1)] ok(2) l(1)
      by (auto simp: encode_plain_def obind_Bad_write obind_Done)
  next
    case 4
    have le: "unat (es_data_len st) * unat (elem_size e) < 2 ^ 31"
      using mult_le_mono1[OF dl, of "unat (elem_size e)"] enc_ok_basic[OF ok(1) 4] by linarith
    have "unat (es_data_len st) * unat (elem_size e) > 0" if "always_encoded e"
      using that ex 4 by (auto simp: always_encoded_def basic_type_def)
    then show ?thesis
      using encode_basic_safe[OF I(1) le I(2), of cs src] ok(2) by (auto simp: encode_plain_basic[OF 4] obind_Bad_write obind_Done)
  qed
qed

definition enc_least :: "qmi_elem_info list \<Rightarrow> nat" where
  "enc_least es = (if es \<noteq> [] \<and> always_encoded (hd es) then 1 else 0)"

lemma enc_result_mono: "enc_result lv k n L r \<Longrightarrow> k' \<le> k \<Longrightarrow> enc_result lv k' n L r"
  by (auto simp: enc_result_def split: outcome.splits)

lemma enc_ready_data_len [simp]: "enc_ready level out_buf n L (st\<lparr>es_data_len := d\<rparr>) = enc_ready level out_buf n L st"
  by (simp add: enc_ready_def enc_inv_def)

lemma array_len_exact: "array_len e dl = Done k \<Longrightarrow> array_type e \<noteq> VAR_LEN_ARRAY \<Longrightarrow> unat k = elem_count e"
  by (auto simp: array_len_def elem_count_def split: qmi_array_type.splits)

lemma array_len_pos: "array_len e dl = Done k \<Longrightarrow> (array_type e = STATIC_ARRAY \<Longrightarrow> elem_len e > 0) \<Longrightarrow> unat k > 0"
  by (auto simp: array_len_def word_less_nat_alt unat_gt_0 split: qmi_array_type.splits if_splits)

lemma encode_loop_plain_safe:
  assumes R: "enc_ready level out_buf n L st" and ok: "list_all (enc_ok level) (e # es)"
    and t: "data_type e \<noteq> QMI_EOTI" "data_type e \<noteq> QMI_STRUCT" and dl: "array_len e (es_data_len st) = Done dl"
    and rest: "\<And>es' st1 st2. encode_plain e es cs src n level (st\<lparr>es_data_len := dl\<rparr>) = Done (es', st1) \<Longrightarrow>
      encode_tlv e level st1 = Done st2 \<Longrightarrow> enc_ready level out_buf n L st2 \<Longrightarrow> list_all (enc_ok level) es' \<Longrightarrow>
      enc_result level (unat (es_encoded st2)) n L (next_elem es' st2)"
  shows "enc_result level (max (unat (es_encoded st)) (enc_least (e # es))) n L
    (obind (encode_plain e es cs src n level (st\<lparr>es_data_len := dl\<rparr>)) (\<lambda>(es', st1).
     obind (encode_tlv e level st1) (\<lambda>st2. next_elem es' st2)))"
proof -
  note P = encode_plain_safe[of level out_buf n L "st\<lparr>es_data_len := dl\<rparr>" e es cs src]
  have P: "encode_plain e es cs src n level (st\<lparr>es_data_len := dl\<rparr>) \<noteq> Bad_write"
    "\<And>es' st'. encode_plain e es cs src n level (st\<lparr>es_data_len := dl\<rparr>) = Done (es', st') \<Longrightarrow> enc_after level out_buf n L st' \<and>
       list_all (enc_ok level) es' \<and> unat (es_encoded st) \<le> unat (es_encoded st') \<and> (always_encoded e \<longrightarrow> unat (es_encoded st') > 0)"
    using P R ok t array_len_bound(1)[OF dl] array_len_exact[OF dl] by simp_all
  show ?thesis
  proof (rule enc_result_obind[OF P(1)])
    fix a assume a: "encode_plain e es cs src n level (st\<lparr>es_data_len := dl\<rparr>) = Done a"
    obtain es' st1 where p: "a = (es', st1)" by (cases a)
    note Q = P(2)[OF a[unfolded p]]
    have A: "enc_after level out_buf n L st1" using Q by simp
    have "enc_result level (max (unat (es_encoded st)) (enc_least (e # es))) n L (next_elem es' st2)"
      if t2: "encode_tlv e level st1 = Done st2" for st2
      using rest[OF a[unfolded p] t2] encode_tlv_safe(2)[OF A t2] Q by (auto simp: enc_least_def intro: enc_result_mono)
    then show "enc_result level (max (unat (es_encoded st)) (enc_least (e # es))) n L (case a of (es', st1) \<Rightarrow>
        obind (encode_tlv e level st1) (\<lambda>st2. next_elem es' st2))"
      using encode_tlv_safe(1)[OF A] by (simp add: p enc_result_obind)
  qed
qed

lemma encode_struct_after:
  assumes R: "enc_ready level out_buf n L st" and b: "length buf = L" "enc_bound (level + 1) (n - es_encoded st) rc" "level = 1 \<Longrightarrow> unat rc > 0"
    and l: "level > 0"
  shows "enc_after level out_buf n L (update_encode_variables buf rc st)"
    "unat (es_encoded (update_encode_variables buf rc st)) = unat (es_encoded st) + unat rc"
proof -
  have I: "enc_inv level out_buf n L st" and le: "unat (es_encoded st) \<le> unat n" using R by (auto simp: enc_ready_def enc_bound_def split: if_splits)
  have sub: "unat (n - es_encoded st) = unat n - unat (es_encoded st)" using le by (simp add: unat_sub word_le_nat_alt)
  have "rc = 0 \<and> level \<noteq> 1 \<or> unat (es_encoded st) + unat rc + 3 \<le> unat n"
    using b(2,3) le l by (auto simp: enc_bound_def sub unat_gt_0)
  then show "enc_after level out_buf n L (update_encode_variables buf rc st)"
    "unat (es_encoded (update_encode_variables buf rc st)) = unat (es_encoded st) + unat rc"
    using update_encode_after(1)[OF I b(1)] update_encode_inv(2)[OF I b(1)] R b(1)
    by (auto simp: enc_ready_def enc_after_def enc_inv_def update_encode_variables_def)
qed

lemma encode_loop_struct_safe:
  assumes R: "enc_ready level out_buf n L st" and l: "level > 0"
    and res: "enc_result (level + 1) (if level = 1 then 1 else 0) (n - es_encoded st) L r"
    and rest: "\<And>buf rc st2. r = Done (buf, rc) \<Longrightarrow> encode_tlv e level (update_encode_variables buf rc st) = Done st2 \<Longrightarrow>
      enc_ready level out_buf n L st2 \<Longrightarrow> enc_result level (unat (es_encoded st2)) n L (next_elem st2)"
  shows "enc_result level (unat (es_encoded st)) n L (obind r (\<lambda>(buf, rc).
     obind (encode_tlv e level (update_encode_variables buf rc st)) next_elem))"
proof (rule enc_result_obind)
  show "r \<noteq> Bad_write" using res by auto
  fix a assume a: "r = Done a"
  obtain buf rc where p: "a = (buf, rc)" by (cases a)
  have b: "length buf = L" "enc_bound (level + 1) (n - es_encoded st) rc" "level = 1 \<Longrightarrow> unat rc > 0"
    using res by (auto simp: a p)
  note A = encode_struct_after[OF R b l]
  have "enc_result level (unat (es_encoded st)) n L (next_elem st2)"
    if t2: "encode_tlv e level (update_encode_variables buf rc st) = Done st2" for st2
    using rest[OF a[unfolded p] t2] encode_tlv_safe(2)[OF A(1) t2] A(2) by (auto intro: enc_result_mono)
  then show "enc_result level (unat (es_encoded st)) n L (case a of (buf, rc) \<Rightarrow>
      obind (encode_tlv e level (update_encode_variables buf rc st)) next_elem)"
    using encode_tlv_safe(1)[OF A(1)] by (simp add: p enc_result_obind)
qed

lemma enc_start_ready:
  assumes "out_buf + unat n + (if level = 1 then 3 else 0) \<le> length buf + 3" "unat n < 2 ^ 31"
  shows "enc_ready level out_buf n (length buf) (enc_start buf out_buf level)"
  using assms by (simp add: enc_ready_def enc_inv_def enc_bound_def enc_start_def)

definition struct_ok :: "nat \<Rightarrow> qmi_elem_info list option \<Rightarrow> bool" where
  "struct_ok level arr \<longleftrightarrow> (\<exists>es. arr = Some es \<and> enc_least es = 1 \<and> list_all (enc_ok level) es)"

lemma encode_struct_room:
  assumes "enc_ready level out_buf n L st"
  shows "es_dst st + unat (n - es_encoded st) \<le> length (es_buf st) + 3 + unat (0 :: u32)" "unat (n - es_encoded st) < 2 ^ 31"
    "enc_bound (level + 1) (n - es_encoded st) 0"
proof -
  have le: "unat (es_encoded st) \<le> unat n" using assms by (auto simp: enc_ready_def enc_bound_def split: if_splits)
  then have "unat (n - es_encoded st) = unat n - unat (es_encoded st)" by (simp add: unat_sub word_le_nat_alt)
  then show "es_dst st + unat (n - es_encoded st) \<le> length (es_buf st) + 3 + unat (0 :: u32)" "unat (n - es_encoded st) < 2 ^ 31"
    using assms le by (auto simp: enc_ready_def enc_inv_def split: if_splits)
qed (use assms in \<open>auto simp: enc_bound_def enc_ready_def\<close>)

lemma encode_safe:
  "enc_ready level out_buf n L st \<Longrightarrow> level > 0 \<Longrightarrow> list_all (enc_ok level) es \<Longrightarrow>
     enc_result level (max (unat (es_encoded st)) (enc_least es)) n L (qmi_encode_loop es cs src n level st)"
  "level' > 1 \<Longrightarrow> struct_ok level' arr \<Longrightarrow> out_buf' + unat n' \<le> length buf + 3 \<Longrightarrow> unat n' < 2 ^ 31 \<Longrightarrow>
     enc_result level' 1 n' (length buf) (qmi_encode arr buf out_buf' cs' src' n' level')"
  "level'' > 1 \<Longrightarrow> struct_ok level'' arr' \<Longrightarrow> dst + unat n'' \<le> length buf' + 3 + unat enc \<Longrightarrow> unat n'' < 2 ^ 31 \<Longrightarrow>
     enc_bound level'' n'' enc \<Longrightarrow>
     enc_result level'' (unat enc + min k 1) n'' (length buf') (qmi_encode_struct_elem arr' sz buf' dst cs'' src'' k n'' level'' enc)"
proof (induction es cs src n level st and arr buf out_buf' cs' src' n' level' and arr' sz buf' dst cs'' src'' k n'' level'' enc
    arbitrary: out_buf L rule: qmi_encode_loop_qmi_encode_qmi_encode_struct_elem.induct)
  case (1 cs src n level st)
  then show ?case by simp
next
  case (2 e es cs src n level st)
  show ?case
  proof (cases "data_type e = QMI_EOTI \<or> (\<forall>dl. array_len e (es_data_len st) \<noteq> Done dl)")
    case True
    have "enc_least (e # es) = 0" if "data_type e = QMI_EOTI"
      using that by (simp add: enc_least_def always_encoded_def basic_type_def)
    moreover have "enc_result level k n L (obind (array_len e (es_data_len st)) f)"
      if "\<forall>dl. array_len e (es_data_len st) \<noteq> Done dl" for k f
      using that array_len_bound(2) by (cases "array_len e (es_data_len st)") auto
    ultimately show ?thesis using True "2.prems"(1) by (auto simp: enc_ready_def enc_inv_def)
  next
    case False
    then obtain dl where t: "data_type e \<noteq> QMI_EOTI" and dl: "array_len e (es_data_len st) = Done dl" by auto
    let ?st = "st\<lparr>es_data_len := dl\<rparr>" and ?src = "src + unat (offset e)"
    have R: "enc_ready level out_buf n L ?st" using "2.prems"(1) by simp
    have ok: "enc_ok level e" "list_all (enc_ok level) es" using "2.prems"(3) by auto
    show ?thesis
    proof (cases "data_type e = QMI_STRUCT")
      case S: True
      let ?r = "qmi_encode_struct_elem (ei_array e) (elem_size e) (es_buf ?st) (es_dst ?st) cs ?src (unat dl) (n - es_encoded ?st) (level + 1) 0"
      have k: "unat dl > 0" using array_len_pos[OF dl] enc_ok_struct[OF ok(1) S] by simp
      have "struct_ok (level + 1) (ei_array e)"
        using enc_ok_struct[OF ok(1) S] by (auto simp: struct_ok_def enc_least_def)
      then have "enc_result (level + 1) (unat 0 + min (unat dl) 1) (n - es_encoded st) (length (es_buf ?st)) ?r"
        using encode_struct_room[OF "2.prems"(1)] "2.IH"(1)[OF t dl refl refl S] "2.prems"(2) by simp
      then have r: "enc_result (level + 1) (if level = 1 then 1 else 0) (n - es_encoded ?st) L ?r"
        using k R by (auto simp: enc_ready_def enc_inv_def intro: enc_result_mono)
      have "enc_result level (unat (es_encoded ?st)) n L (obind ?r (\<lambda>(buf, rc).
          obind (encode_tlv e level (update_encode_variables buf rc ?st)) (\<lambda>st1. qmi_encode_loop es cs src n level st1)))"
      proof (rule encode_loop_struct_safe[OF R "2.prems"(2) r])
        fix buf rc st2
        assume "?r = Done (buf, rc)" "encode_tlv e level (update_encode_variables buf rc ?st) = Done st2" "enc_ready level out_buf n L st2"
        then have "enc_result level (max (unat (es_encoded st2)) (enc_least es)) n L (qmi_encode_loop es cs src n level st2)"
          using "2.IH"(2)[OF t dl refl refl S _ refl] "2.prems"(2) ok(2) by blast
        then show "enc_result level (unat (es_encoded st2)) n L (qmi_encode_loop es cs src n level st2)"
          by (rule enc_result_mono) simp
      qed
      moreover have "enc_least (e # es) = 0" using S by (simp add: enc_least_def always_encoded_def basic_type_def)
      ultimately show ?thesis using t S dl by (simp add: Let_def)
    next
      case False
      have "enc_result level (max (unat (es_encoded st)) (enc_least (e # es))) n L
          (obind (encode_plain e es cs ?src n level ?st) (\<lambda>(es', st1).
           obind (encode_tlv e level st1) (\<lambda>st2. qmi_encode_loop es' cs src n level st2)))"
      proof (rule encode_loop_plain_safe[OF "2.prems"(1,3) t False dl])
        fix es' st1 st2
        assume "encode_plain e es cs ?src n level ?st = Done (es', st1)" "encode_tlv e level st1 = Done st2"
          "enc_ready level out_buf n L st2" "list_all (enc_ok level) es'"
        then have "enc_result level (max (unat (es_encoded st2)) (enc_least es')) n L (qmi_encode_loop es' cs src n level st2)"
          using "2.IH"(3)[OF t dl refl refl False _ refl] "2.prems"(2) by blast
        then show "enc_result level (unat (es_encoded st2)) n L (qmi_encode_loop es' cs src n level st2)"
          by (rule enc_result_mono) simp
      qed
      then show ?thesis using t False dl by (simp add: Let_def)
    qed
  qed
next
  case (3 arr buf out_buf cs src n level)
  then obtain es where es: "arr = Some es" "enc_least es = 1" "list_all (enc_ok level) es" by (auto simp: struct_ok_def)
  have "enc_ready level out_buf n (length buf) (enc_start buf out_buf level)" using 3 by (intro enc_start_ready) auto
  then have "enc_result level (max (unat (es_encoded (enc_start buf out_buf level))) (enc_least es)) n (length buf)
      (qmi_encode_loop es cs src n level (enc_start buf out_buf level))"
    using "3.IH"[OF es(1)] 3(2) es(3) by simp
  then show ?case using es by (simp add: qmi_encode.simps enc_start_def)
next
  case (4 arr sz buf dst cs src n level enc)
  then show ?case by simp
next
  case (5 arr sz buf dst cs src k n level enc)
  have sub: "unat (n - enc) = unat n - unat enc" and le: "unat enc \<le> unat n"
    using "5.prems"(1,5) by (auto simp: enc_bound_def unat_sub word_le_nat_alt)
  have r: "enc_result level 1 (n - enc) (length buf) (qmi_encode arr buf dst cs src (n - enc) level)"
  proof (rule "5.IH"(1)[OF "5.prems"(1,2)])
    show "dst + unat (n - enc) \<le> length buf + 3" "unat (n - enc) < 2 ^ 31"
      using "5.prems"(3,4) le by (auto simp: sub)
  qed
  show ?case
    unfolding qmi_encode_struct_elem.simps
  proof (rule enc_result_obind)
    show "qmi_encode arr buf dst cs src (n - enc) level \<noteq> Bad_write" using r by auto
    fix a assume a: "qmi_encode arr buf dst cs src (n - enc) level = Done a"
    obtain buf' rc where p: "a = (buf', rc)" by (cases a)
    have b: "length buf' = length buf" "1 \<le> unat rc" "unat rc + 3 \<le> unat n - unat enc"
      using r "5.prems"(1) by (auto simp: a p enc_bound_def sub)
    have s: "unat (enc + rc) = unat enc + unat rc" using b le "5.prems"(4) by (simp add: unat_word_ariths)
    have "unat enc + unat rc + 3 \<le> unat n" using b(3) by simp
    then have "enc_result level (unat (enc + rc) + min k 1) n (length buf')
        (qmi_encode_struct_elem arr sz buf' (dst + unat rc) cs (src + unat sz) k n level (enc + rc))"
      using "5.IH"(2)[OF a p[symmetric]] "5.prems" b s by (simp add: enc_bound_def)
    then show "enc_result level (unat enc + min (Suc k) 1) n (length buf) (case a of (buf', rc) \<Rightarrow>
        qmi_encode_struct_elem arr sz buf' (dst + unat rc) cs (src + unat sz) k n level (enc + rc))"
      using b s by (auto simp: p intro: enc_result_mono)
  qed
qed

section \<open>Messages\<close>

lemma decode_message_safe:
  assumes "list_all (elem_fits (length cs)) es"
  shows "writes_ok (length cs) (qmi_decode_message buf (Some es) (Some cs))"
proof -
  let ?ds = "\<lparr>ds_cs = cs, ds_src = 7, ds_tlv_len = 0, ds_decoded = 0, ds_data_len = 0\<rparr>"
  have "writes_ok (length (ds_cs ?ds)) (qmi_decode_tlvs es 0 buf (of_nat (length buf) - 7) ?ds)"
    by (rule decode_tlvs_safe[OF assms]) simp
  then show ?thesis by (simp add: qmi_decode_message_def qmi_decode_def)
qed

text \<open>C9. Decoding is safe against any message: whatever bytes arrive, \<open>qmi_decode_message\<close> writes only inside the
  structure it was given, when the elements of the descriptor lie inside it.\<close>

theorem qmi_decode_writes_inside:
  assumes "list_all (elem_fits (length cs)) es"
  shows "qmi_decode_message buf (Some es) (Some cs) \<noteq> Bad_write \<and>
    (\<forall>cs' n. qmi_decode_message buf (Some es) (Some cs) = Done (cs', n) \<longrightarrow> length cs' = length cs)"
  using decode_message_safe[OF assms, of buf] by auto

text \<open>A response with the common result element of \<open>qmi_response_type_v01\<close>.\<close>

definition ex_resp_ei :: "qmi_elem_info list" where
  "ex_resp_ei =
     [Elem QMI_STRUCT 1 4 NO_ARRAY 2 0 (Some qmi_response_type_v01_ei), Elem QMI_EOTI 0 0 NO_ARRAY 0 0 None]"

theorem qmi_decode_writes_inside_witness:
  "qmi_decode_message [2, 1, 0, 32, 0, 9, 0, 2, 255, 255, 1, 0] (Some ex_resp_ei) (Some [0, 0, 0, 0]) \<noteq> Bad_write"
  using qmi_decode_writes_inside[of "[0, 0, 0, 0]" ex_resp_ei "[2, 1, 0, 32, 0, 9, 0, 2, 255, 255, 1, 0]"]
  by (simp add: ex_resp_ei_def qmi_response_type_v01_ei_def)

text \<open>C10. The encoder never writes past the message buffer and the message it returns is not longer than the
  caller allowed, when no string is nested in a structure and every nested structure starts with an element
  that is always present.\<close>

theorem qmi_encode_writes_inside:
  assumes "list_all (enc_ok 1) es" "len < 2 ^ 31"
  shows "qmi_encode_message kind msg_id len txn_id (Some es) (Some cs) alloc_ok \<noteq> Bad_write \<and>
    (\<forall>msg. qmi_encode_message kind msg_id len txn_id (Some es) (Some cs) alloc_ok = Done msg \<longrightarrow> length msg \<le> 7 + len)"
proof -
  let ?buf = "replicate (7 + len) (0 :: u8)"
  have u: "unat (of_nat len :: u32) = len" using assms(2) by (simp add: unat_of_nat take_bit_nat_eq_self)
  have "enc_ready 1 7 (of_nat len) (length ?buf) (enc_start ?buf 7 1)" using assms(2) u by (intro enc_start_ready) auto
  then have "enc_result 1 (max (unat (es_encoded (enc_start ?buf 7 1))) (enc_least es)) (of_nat len) (length ?buf)
      (qmi_encode_loop es cs 0 (of_nat len) 1 (enc_start ?buf 7 1))"
    using encode_safe(1) assms(1) by simp
  then have r: "enc_result 1 0 (of_nat len) (7 + len) (qmi_encode (Some es) ?buf 7 cs 0 (of_nat len) 1)"
    by (auto simp: qmi_encode.simps intro: enc_result_mono)
  have "length msg = 7 + len" "unat n \<le> len" if "qmi_encode (Some es) ?buf 7 cs 0 (of_nat len) 1 = Done (msg, n)" for msg n
    using r[unfolded that] by (simp_all add: enc_bound_def u)
  moreover have "write_at msg 0 (qmi_header kind txn_id msg_id m) \<noteq> Bad_write" if "length msg = 7 + len" for msg m
    using that by (simp add: write_at_def qmi_header_def)
  ultimately show ?thesis using r
    by (auto simp: qmi_encode_message_def obind_Bad_write obind_Done simp del: replicate.simps dest!: write_at_length)
qed

theorem qmi_encode_writes_inside_witness:
  "qmi_encode_message 2 32 5 1 (Some ex_resp_ei) (Some [1, 0, 3, 0]) True \<noteq> Bad_write"
  using qmi_encode_writes_inside[of ex_resp_ei 5 2 32 1 "[1, 0, 3, 0]" True]
  by (simp add: ex_resp_ei_def qmi_response_type_v01_ei_def always_encoded_def basic_type_def elem_count_def)

lemma copy_elems_block:
  "dst + n * sz \<le> length b \<Longrightarrow> src + n * sz \<le> length s \<Longrightarrow>
    copy_elems n sz b dst s src = write_at b dst (take (n * sz) (drop src s))"
proof (induction n arbitrary: b dst src)
  case (Suc n)
  have r: "read_at s src sz = Done (take sz (drop src s))" using Suc.prems by (simp add: read_at_ok)
  have l: "length (take sz (drop src s)) = sz" using Suc.prems by simp
  obtain b1 where w: "write_at b dst (take sz (drop src s)) = Done b1" "length b1 = length b"
    using write_at_ok[of dst "take sz (drop src s)" b] Suc.prems by auto
  have t: "take (sz + n * sz) (drop src s) = take sz (drop src s) @ take (n * sz) (drop (src + sz) s)"
    by (simp add: take_add add.commute[of sz src])
  show ?case
    unfolding mult_Suc t write_at_append using Suc.IH[of "dst + sz" b1 "src + sz"] Suc.prems r w l by simp
qed (simp add: write_at_def)

lemma read_at_append: "length xs = i \<Longrightarrow> length ys = n \<Longrightarrow> read_at (xs @ ys @ zs) i n = Done ys"
  by (simp add: read_at_def)

section \<open>What the checks miss\<close>

text \<open>Copying elements one by one past the end of the target, or from past the end of the source.\<close>

lemma copy_elems_overrun:
  assumes "sz > 0" "src + n * sz \<le> length s" "dst + n * sz > length b" "n > 0"
  shows "copy_elems n sz b dst s src = Bad_write"
  using assms
proof (induction n arbitrary: b dst src)
  case (Suc n)
  have r: "read_at s src sz = Done (take sz (drop src s))" and l: "length (take sz (drop src s)) = sz"
    using Suc.prems by (simp_all add: read_at_ok)
  show ?case
  proof (cases "dst + sz \<le> length b")
    case True
    then obtain b1 where w: "write_at b dst (take sz (drop src s)) = Done b1" "length b1 = length b"
      using write_at_ok[of dst "take sz (drop src s)" b] l by auto
    then show ?thesis using Suc.IH[where b = b1 and dst = "dst + sz" and src = "src + sz"] Suc.prems True r by (cases n) auto
  next
    case False
    have "take sz (drop src s) \<noteq> []" using l Suc.prems(1) by auto
    then show ?thesis using False r l by (simp add: write_at_def)
  qed
qed simp

lemma copy_elems_overread:
  assumes "sz > 0" "dst + n * sz \<le> length b" "src + n * sz > length s" "n > 0"
  shows "copy_elems n sz b dst s src = Bad_read"
  using assms
proof (induction n arbitrary: b dst src)
  case (Suc n)
  show ?case
  proof (cases "src + sz \<le> length s")
    case True
    then have r: "read_at s src sz = Done (take sz (drop src s))" and l: "length (take sz (drop src s)) = sz" by (simp_all add: read_at_ok)
    obtain b1 where w: "write_at b dst (take sz (drop src s)) = Done b1" "length b1 = length b"
      using write_at_ok[of dst "take sz (drop src s)" b] l Suc.prems by auto
    then show ?thesis using Suc.IH[where b = b1 and dst = "dst + sz" and src = "src + sz"] Suc.prems True r by (cases n) auto
  qed (use Suc.prems in \<open>simp add: read_at_def\<close>)
qed simp

lemma strlen_at_bound: "strlen_at cs i = Done k \<Longrightarrow> i + k < length cs"
  by (auto simp: strlen_at_def Let_def split: if_splits)

lemma string_len_size_cases: "unat (string_len_size e) = 1 \<or> unat (string_len_size e) = 2"
  by (simp add: string_len_size_def)

lemma nested_string_overruns:
  assumes e: "data_type e = QMI_STRING" "elem_size e = 1" and str: "strlen_at cs src = Done k" "k \<le> unat (elem_len e)"
    and room: "k + unat (string_len_size e) \<le> unat n" "length buf < dst + k + unat (string_len_size e)" and level: "level \<noteq> 1"
  shows "qmi_encode_string_elem e buf dst cs src n level = Bad_write"
proof -
  let ?z = "string_len_size e"
  have z: "unat ?z = 1 \<or> unat ?z = 2" by (rule string_len_size_cases)
  have k: "k < 2 ^ 32" using str(2) unat_u32[of "elem_len e"] by simp
  then have u: "unat (of_nat k :: u32) = k" by (simp add: unat_of_nat take_bit_nat_eq_self)
  have s: "unat (of_nat k + ?z) = k + unat ?z" using room(1) u unat_u32[of n] by (simp add: unat_word_ariths)
  have guards: "\<not> of_nat k > elem_len e" "\<not> of_nat k + ?z > n" using str(2) room(1) u s by (simp_all add: word_less_nat_alt)
  have len: "length (bytes32 w) = 4" for w by (simp add: bytes32_def)
  have "qmi_encode_basic_elem buf dst (bytes32 (of_nat k)) 0 1 ?z = Bad_write \<or>
      (\<exists>buf1. qmi_encode_basic_elem buf dst (bytes32 (of_nat k)) 0 1 ?z = Done (buf1, ?z) \<and> length buf1 = length buf \<and> dst + unat ?z \<le> length buf)"
  proof (cases "dst + unat ?z \<le> length buf")
    case True
    then show ?thesis using z by (auto simp: qmi_encode_basic_elem_def read_at_def write_at_def len)
  next
    case False
    moreover have "bytes32 w \<noteq> []" for w by (simp add: bytes32_def)
    ultimately show ?thesis using z by (intro disjI1) (auto simp: qmi_encode_basic_elem_def read_at_def write_at_def len)
  qed
  moreover have "qmi_encode_basic_elem buf1 (dst + unat ?z) cs src (of_nat k) (elem_size e) = Bad_write"
    if "length buf1 = length buf" "dst + unat ?z \<le> length buf" for buf1
    using that strlen_at_bound[OF str(1)] room(2) copy_elems_overrun[of "Suc 0" src k cs buf1 "dst + unat ?z"]
    by (simp add: qmi_encode_basic_elem_def e u)
  ultimately show ?thesis using str(1) guards level by (auto simp: qmi_encode_string_elem_def Let_def)
qed

text \<open>C32. The check for a string in a nested structure leaves out the type and length of the element around it. Whenever the first
  element of a message is a structure that starts with a string, and the buffer has room for the string and its length but not for
  the three bytes of type and length as well, the encoder writes past the end of the buffer. This holds for every such descriptor,
  string and message.\<close>

theorem qmi_encode_nested_string_overruns:
  assumes "strlen_at cs (unat off + unat off') = Done k" "k \<le> unat len"
    and "e = Elem QMI_STRING len 1 NO_ARRAY tlv' off' None"
    and "k + unat (string_len_size e) \<le> n" "n < k + unat (string_len_size e) + 3" "n < 2 ^ 32"
  shows "qmi_encode_message kind msg_id n txn_id (Some (Elem QMI_STRUCT 1 sz NO_ARRAY tlv off (Some (e # es)) # es')) (Some cs) True = Bad_write"
proof -
  have u: "unat (of_nat n :: u32) = n" using assms(6) by (simp add: unat_of_nat take_bit_nat_eq_self)
  have "length (replicate (7 + n) (0 :: u8)) < 10 + k + unat (string_len_size e)" unfolding length_replicate using assms(5) by linarith
  then have "qmi_encode_string_elem e (replicate (7 + n) 0) 10 cs (unat off + unat off') (of_nat n) 2 = Bad_write"
    by (intro nested_string_overruns[OF _ _ assms(1)]) (use assms(2,4) u in \<open>simp_all add: assms(3)\<close>)
  then have "qmi_encode (Some (e # es)) (replicate (7 + n) 0) 10 cs (unat off) (of_nat n) 2 = Bad_write"
    by (simp add: qmi_encode.simps assms(3) array_len_def encode_plain_def enc_start_def del: replicate.simps)
  then have "qmi_encode (Some (Elem QMI_STRUCT 1 sz NO_ARRAY tlv off (Some (e # es)) # es')) (replicate (7 + n) 0) 7 cs 0 (of_nat n) 1 = Bad_write"
    by (subst qmi_encode.simps) (simp add: array_len_def enc_start_def numeral_2_eq_2 del: replicate.simps)
  then show ?thesis by (simp add: qmi_encode_message_def del: replicate.simps)
qed

text \<open>A device name as in the requests of the thermal mitigation service.\<close>

theorem qmi_encode_nested_string_overruns_witness:
  "qmi_encode_message 0 32 5 1 (Some [Elem QMI_STRUCT 1 33 NO_ARRAY 1 0
       (Some [Elem QMI_STRING 33 1 NO_ARRAY 0 0 None, Elem QMI_EOTI 0 0 NO_ARRAY 0 0 None]), Elem QMI_EOTI 0 0 NO_ARRAY 0 0 None])
     (Some ([97, 98, 99, 100] @ replicate 29 0)) True = Bad_write"
  by (rule qmi_encode_nested_string_overruns[where k = 4 and off' = 0 and len = 33 and tlv' = 0])
    (simp_all add: strlen_at_def string_len_size_def)

text \<open>C33. The length of an element is not compared with what is left of the message. When a message below 2 GiB ends, after the type
  and length of its first element, before the data of that element, the decoder reads past the end of the message, whatever the length
  says. This holds for every descriptor with an element of that type that is of a basic type, has a fixed count and lies in the
  structure.\<close>

theorem qmi_decode_reads_past_end:
  assumes "find_ei ei tlv = Done (Some (e # es))" "basic_type (data_type e)" "array_type e \<noteq> VAR_LEN_ARRAY" "elem_fits (length cs) e"
    and "length hdr = 7" "length tail < elem_count e * unat (elem_size e)" "length tail < 2 ^ 31"
  shows "qmi_decode_message (hdr @ [tlv, a, b] @ tail) (Some ei) (Some cs) = Bad_read"
proof -
  let ?buf = "hdr @ [tlv, a, b] @ tail"
  let ?ds = "\<lparr>ds_cs = cs, ds_src = 10, ds_tlv_len = ucast a OR push_bit 8 (ucast b), ds_decoded = 3, ds_data_len = 0\<rparr>"
  have n: "of_nat (length ?buf) - 7 = (of_nat (3 + length tail) :: u32)" using assms(5) by simp
  have pos: "(0 :: u32) < of_nat (3 + length tail)" using assms(7)
    by (simp add: word_less_nat_alt unat_of_nat take_bit_nat_eq_self del: of_nat_add)
  have r: "read_at ?buf 7 3 = Done [tlv, a, b]" using read_at_append[OF assms(5), of "[tlv, a, b]" 3 tail] by simp
  have cnt: "\<exists>k. decode_array_len e 0 = Done k \<and> unat k = elem_count e"
    using assms(3) by (auto simp: decode_array_len_def elem_count_def split: qmi_array_type.splits)
  then obtain k where k: "decode_array_len e 0 = Done k" "unat k = elem_count e" by blast
  have enter: "decode_enter (e # es) 0 ?buf ?ds = Done (e, es, ?ds\<lparr>ds_data_len := k\<rparr>)"
    using assms(2) k by (auto simp: decode_enter_def decode_opt_flag_def decode_data_len_def basic_type_def)
  have fit: "unat (offset e) + elem_count e * unat (elem_size e) \<le> length cs" using elem_fits_data[OF assms(4)] assms(2) by blast
  have c: "copy_elems (elem_count e) (unat (elem_size e)) cs (unat (offset e)) ?buf 10 = Bad_read"
    by (rule copy_elems_overread) (use fit assms(5,6) in \<open>auto intro: gr0I\<close>)
  have "qmi_decode_elem e 0 ?buf 1 (?ds\<lparr>ds_data_len := k\<rparr>) = Bad_read"
    using assms(2) c k(2) by (simp add: qmi_decode_elem.simps qmi_decode_basic_elem_def)
  then have "qmi_decode_tlvs ei 0 ?buf (of_nat (3 + length tail)) \<lparr>ds_cs = cs, ds_src = 7, ds_tlv_len = 0, ds_decoded = 0, ds_data_len = 0\<rparr> = Bad_read"
    using pos r assms(1) enter by (subst qmi_decode_tlvs.simps) (simp add: Let_def del: of_nat_add append.simps)
  then show ?thesis unfolding qmi_decode_message_def qmi_decode_def n by simp
qed

theorem qmi_decode_reads_past_end_witness:
  "qmi_decode_message ([2, 1, 0, 32, 0, 5, 0] @ [1, 4, 0] @ [8, 9])
     (Some [Elem QMI_UNSIGNED_4_BYTE 1 4 NO_ARRAY 1 0 None, Elem QMI_EOTI 0 0 NO_ARRAY 0 0 None]) (Some [0, 0, 0, 0]) = Bad_read"
  by (rule qmi_decode_reads_past_end[where e = "Elem QMI_UNSIGNED_4_BYTE 1 4 NO_ARRAY 1 0 None" and es = "[Elem QMI_EOTI 0 0 NO_ARRAY 0 0 None]"])
    (simp_all add: basic_type_def elem_count_def)

definition ex_len_ei :: "qmi_elem_info list" where
  "ex_len_ei =
     [Elem QMI_UNSIGNED_1_BYTE 256 1 STATIC_ARRAY 1 0 None,
      Elem QMI_DATA_LEN 1 1 NO_ARRAY 2 256 None,
      Elem QMI_UNSIGNED_1_BYTE 4 1 VAR_LEN_ARRAY 2 260 None,
      Elem QMI_EOTI 0 0 NO_ARRAY 0 0 None]"

text \<open>C34. A one-byte length only replaces the lowest byte of \<open>data_len_value\<close>, which still holds the count of the
  element before: after a static array of 256 bytes a variable array of 2 bytes is taken for one of 258 and
  the message is refused.\<close>

theorem qmi_decode_stale_length:
  assumes "length hdr = 7" "length data = 256" "length cs = 264"
  shows "qmi_decode_message (hdr @ [1, 0, 1] @ data @ [2, 3, 0, 2, x, y]) (Some ex_len_ei) (Some cs) = Fail ETOOSMALL"
proof -
  let ?buf = "hdr @ [1, 0, 1] @ data @ [2, 3, 0, 2, x, y]"
  have r1: "read_at ?buf 7 3 = Done [1, 0, 1]" using read_at_append[OF assms(1), of "[1, 0, 1]" 3] by simp
  have r2: "read_at ?buf 266 3 = Done [2, 3, 0]" using read_at_append[of "hdr @ [1, 0, 1] @ data" 266 "[2, 3, 0]" 3 "[2, x, y]"] assms by simp
  have r3: "read_at ?buf 269 1 = Done [2]" using read_at_append[of "hdr @ [1, 0, 1] @ data @ [2, 3, 0]" 269 "[2]" 1 "[x, y]"] assms by simp
  have "data \<noteq> []" using assms(2) by auto
  then have c: "copy_elems 256 (Suc 0) cs 0 ?buf 10 = Done (data @ drop 256 cs)"
    using assms by (simp add: copy_elems_block write_at_def)
  have o: "overlay32 256 [2] = 258" by (simp add: overlay32_def bytes32_def get32_def le32_def)
  let ?ds = "\<lparr>ds_cs = data @ drop 256 cs, ds_src = 266, ds_tlv_len = 256, ds_decoded = 259, ds_data_len = 256\<rparr>"
  have n: "of_nat (length ?buf) - 7 = (265 :: u32)" using assms by simp
  have "qmi_decode_message ?buf (Some ex_len_ei) (Some cs) = qmi_decode_tlvs ex_len_ei 0 ?buf 265
      \<lparr>ds_cs = cs, ds_src = 7, ds_tlv_len = 0, ds_decoded = 0, ds_data_len = 0\<rparr>"
    unfolding qmi_decode_message_def qmi_decode_def n by simp
  also have "\<dots> = qmi_decode_tlvs ex_len_ei 0 ?buf 265 ?ds"
    by (subst qmi_decode_tlvs.simps)
      (simp add: r1 c ex_len_ei_def decode_enter_def decode_opt_flag_def decode_data_len_def decode_array_len_def
        qmi_decode_elem.simps basic_type_def qmi_decode_basic_elem_def update_decode_variables_def del: append.simps append_assoc)
  also have "\<dots> = Fail ETOOSMALL"
    by (subst qmi_decode_tlvs.simps)
      (use r2 r3 assms in \<open>simp add: o ex_len_ei_def decode_enter_def decode_opt_flag_def decode_data_len_def decode_array_len_def
        data_len_size_def write_at_def Let_def bytes32_def del: append.simps append_assoc\<close>)
  finally show ?thesis .
qed

theorem qmi_decode_stale_length_witness:
  "qmi_decode_message ([2, 1, 0, 32, 0, 9, 1] @ [1, 0, 1] @ replicate 256 7 @ [2, 3, 0, 2, 8, 9]) (Some ex_len_ei)
     (Some (replicate 264 0)) = Fail ETOOSMALL"
  by (rule qmi_decode_stale_length) simp_all

end
