(* ===== verification/Qmi_Layout.thy ===== *)
theory Qmi_Layout
  imports Qmi_Safe "HOL-Library.Code_Target_Nat"
begin

text \<open>
  The layout of C structures on arm64: the size and alignment of a type, and the offset of a member. The
  message descriptors are written with \<open>sizeof\<close> and \<open>offsetof\<close> as in the sources.
\<close>

named_theorems layout \<open>the layout of the structures and the descriptors\<close>

datatype ctype = Prim nat | Arr ctype nat | Struct "(string \<times> ctype) list"

abbreviation (input) u8_t :: ctype where "u8_t \<equiv> Prim 1"
abbreviation (input) char_t :: ctype where "char_t \<equiv> Prim 1"
abbreviation (input) u16_t :: ctype where "u16_t \<equiv> Prim 2"
abbreviation (input) u32_t :: ctype where "u32_t \<equiv> Prim 4"
abbreviation (input) int_t :: ctype where "int_t \<equiv> Prim 4"
abbreviation (input) enum_t :: ctype where "enum_t \<equiv> Prim 4"
abbreviation (input) u64_t :: ctype where "u64_t \<equiv> Prim 8"
abbreviation (input) ptr_t :: ctype where "ptr_t \<equiv> Prim 8"

definition round_up :: "nat \<Rightarrow> nat \<Rightarrow> nat" where
  "round_up n a = (n + (a - 1)) div a * a"

text \<open>The alignment of a type, and the strictest one of some members.\<close>

fun calign :: "ctype \<Rightarrow> nat"
  and members_align :: "(string \<times> ctype) list \<Rightarrow> nat" where
  "calign (Prim n) = n"
| "calign (Arr t n) = calign t"
| "calign (Struct ms) = members_align ms"
| "members_align [] = 1"
| "members_align ((m, t) # ms) = max (calign t) (members_align ms)"

text \<open>The size of a type, and where some members end when the first one may start at an offset.\<close>

fun csize :: "ctype \<Rightarrow> nat"
  and members_end :: "(string \<times> ctype) list \<Rightarrow> nat \<Rightarrow> nat" where
  "csize (Prim n) = n"
| "csize (Arr t n) = n * csize t"
| "csize (Struct ms) = round_up (members_end ms 0) (members_align ms)"
| "members_end [] off = off"
| "members_end ((m, t) # ms) off = members_end ms (round_up off (calign t) + csize t)"

fun member_offset :: "(string \<times> ctype) list \<Rightarrow> string \<Rightarrow> nat \<Rightarrow> nat option" where
  "member_offset [] m off = None"
| "member_offset ((m', t) # ms) m off =
     (let o' = round_up off (calign t)
      in if m' = m then Some o' else member_offset ms m (o' + csize t))"

definition csizeof :: "ctype \<Rightarrow> u32" where
  "csizeof t = of_nat (csize t)"

text \<open>There is no offset of a member the structure does not have; the largest number is not inside of anything.\<close>

definition offsetof :: "ctype \<Rightarrow> string \<Rightarrow> u32" where
  "offsetof t m =
     (case t of
        Struct ms \<Rightarrow> (case member_offset ms m 0 of Some off \<Rightarrow> of_nat off | None \<Rightarrow> 0xffffffff)
      | _ \<Rightarrow> 0xffffffff)"

definition qmi_response_type_v01_t :: ctype where [layout]:
  "qmi_response_type_v01_t = Struct [(''result'', u16_t), (''error'', u16_t)]"

declare qmi_response_type_v01_ei_def [layout] csizeof_def [layout] offsetof_def [layout] round_up_def [layout]

end
