(* ===== verification/Qmi_Services.thy ===== *)
theory Qmi_Services
  imports Qmi_Layout
begin

text \<open>
  The message descriptors of the QMI services, with the C structures they describe, and the check that
  every element of every descriptor lies inside its structure.
\<close>

section \<open>Thermal sensor service\<close>

text \<open>\<open>drivers/thermal/qcom/thermal_sensor_service_v01.c\<close>.\<close>

abbreviation (input) QMI_TS_SENSOR_ID_LENGTH_MAX_V01 :: "'a::numeral" where "QMI_TS_SENSOR_ID_LENGTH_MAX_V01 \<equiv> 32"
abbreviation (input) QMI_TS_SENSOR_LIST_MAX_V01 :: "'a::numeral" where "QMI_TS_SENSOR_LIST_MAX_V01 \<equiv> 32"
abbreviation (input) QMI_TS_SENSOR_LIST_EXT01_MAX_V01 :: "'a::numeral" where "QMI_TS_SENSOR_LIST_EXT01_MAX_V01 \<equiv> 64"

definition ts_sensor_type_v01_t :: ctype where [layout]:
  "ts_sensor_type_v01_t = Struct
     [(''sensor_id'', Arr char_t (QMI_TS_SENSOR_ID_LENGTH_MAX_V01 + 1))]"

definition ts_get_sensor_list_resp_msg_v01_t :: ctype where [layout]:
  "ts_get_sensor_list_resp_msg_v01_t = Struct
     [(''resp'', qmi_response_type_v01_t),
      (''sensor_list_valid'', u8_t),
      (''sensor_list_len'', u32_t),
      (''sensor_list'', Arr ts_sensor_type_v01_t QMI_TS_SENSOR_LIST_MAX_V01),
      (''sensor_list_ext01_valid'', u8_t),
      (''sensor_list_ext01_len'', u32_t),
      (''sensor_list_ext01'', Arr ts_sensor_type_v01_t QMI_TS_SENSOR_LIST_EXT01_MAX_V01)]"

definition ts_register_notification_temp_req_msg_v01_t :: ctype where [layout]:
  "ts_register_notification_temp_req_msg_v01_t = Struct
     [(''sensor_id'', ts_sensor_type_v01_t),
      (''send_current_temp_report'', u8_t),
      (''temp_threshold_high_valid'', u8_t),
      (''temp_threshold_high'', int_t),
      (''temp_threshold_low_valid'', u8_t),
      (''temp_threshold_low'', int_t),
      (''seq_num_valid'', u8_t),
      (''seq_num'', u32_t)]"

definition ts_register_notification_temp_resp_msg_v01_t :: ctype where [layout]:
  "ts_register_notification_temp_resp_msg_v01_t = Struct
     [(''resp'', qmi_response_type_v01_t)]"

definition ts_temp_report_ind_msg_v01_t :: ctype where [layout]:
  "ts_temp_report_ind_msg_v01_t = Struct
     [(''sensor_id'', ts_sensor_type_v01_t),
      (''report_type'', enum_t),
      (''temp_valid'', u8_t),
      (''temp'', int_t),
      (''seq_num_valid'', u8_t),
      (''seq_num'', u32_t)]"

definition ts_sensor_type_v01_ei :: "qmi_elem_info list" where [layout]:
  "ts_sensor_type_v01_ei =
     [Elem QMI_STRING (QMI_TS_SENSOR_ID_LENGTH_MAX_V01 + 1) (csizeof char_t) NO_ARRAY 0 (offsetof ts_sensor_type_v01_t ''sensor_id'') None,
      Elem QMI_EOTI 0 0 NO_ARRAY 0 0 None]"

definition ts_get_sensor_list_req_msg_v01_ei :: "qmi_elem_info list" where [layout]:
  "ts_get_sensor_list_req_msg_v01_ei =
     [Elem QMI_EOTI 0 0 NO_ARRAY 0 0 None]"

definition ts_get_sensor_list_resp_msg_v01_ei :: "qmi_elem_info list" where [layout]:
  "ts_get_sensor_list_resp_msg_v01_ei =
     [Elem QMI_STRUCT 1 (csizeof qmi_response_type_v01_t) NO_ARRAY 0x02 (offsetof ts_get_sensor_list_resp_msg_v01_t ''resp'') (Some qmi_response_type_v01_ei),
      Elem QMI_OPT_FLAG 1 (csizeof u8_t) NO_ARRAY 0x10 (offsetof ts_get_sensor_list_resp_msg_v01_t ''sensor_list_valid'') None,
      Elem QMI_DATA_LEN 1 (csizeof u8_t) NO_ARRAY 0x10 (offsetof ts_get_sensor_list_resp_msg_v01_t ''sensor_list_len'') None,
      Elem QMI_STRUCT QMI_TS_SENSOR_LIST_MAX_V01 (csizeof ts_sensor_type_v01_t) VAR_LEN_ARRAY 0x10 (offsetof ts_get_sensor_list_resp_msg_v01_t ''sensor_list'') (Some ts_sensor_type_v01_ei),
      Elem QMI_OPT_FLAG 1 (csizeof u8_t) NO_ARRAY 0x11 (offsetof ts_get_sensor_list_resp_msg_v01_t ''sensor_list_ext01_valid'') None,
      Elem QMI_DATA_LEN 1 (csizeof u8_t) NO_ARRAY 0x11 (offsetof ts_get_sensor_list_resp_msg_v01_t ''sensor_list_ext01_len'') None,
      Elem QMI_STRUCT QMI_TS_SENSOR_LIST_EXT01_MAX_V01 (csizeof ts_sensor_type_v01_t) VAR_LEN_ARRAY 0x11 (offsetof ts_get_sensor_list_resp_msg_v01_t ''sensor_list_ext01'') (Some ts_sensor_type_v01_ei),
      Elem QMI_EOTI 0 0 NO_ARRAY 0 0 None]"

definition ts_register_notification_temp_req_msg_v01_ei :: "qmi_elem_info list" where [layout]:
  "ts_register_notification_temp_req_msg_v01_ei =
     [Elem QMI_STRUCT 1 (csizeof ts_sensor_type_v01_t) NO_ARRAY 0x01 (offsetof ts_register_notification_temp_req_msg_v01_t ''sensor_id'') (Some ts_sensor_type_v01_ei),
      Elem QMI_UNSIGNED_1_BYTE 1 (csizeof u8_t) NO_ARRAY 0x02 (offsetof ts_register_notification_temp_req_msg_v01_t ''send_current_temp_report'') None,
      Elem QMI_OPT_FLAG 1 (csizeof u8_t) NO_ARRAY 0x10 (offsetof ts_register_notification_temp_req_msg_v01_t ''temp_threshold_high_valid'') None,
      Elem QMI_UNSIGNED_4_BYTE 1 (csizeof u32_t) NO_ARRAY 0x10 (offsetof ts_register_notification_temp_req_msg_v01_t ''temp_threshold_high'') None,
      Elem QMI_OPT_FLAG 1 (csizeof u8_t) NO_ARRAY 0x11 (offsetof ts_register_notification_temp_req_msg_v01_t ''temp_threshold_low_valid'') None,
      Elem QMI_UNSIGNED_4_BYTE 1 (csizeof u32_t) NO_ARRAY 0x11 (offsetof ts_register_notification_temp_req_msg_v01_t ''temp_threshold_low'') None,
      Elem QMI_OPT_FLAG 1 (csizeof u8_t) NO_ARRAY 0x12 (offsetof ts_register_notification_temp_req_msg_v01_t ''seq_num_valid'') None,
      Elem QMI_UNSIGNED_4_BYTE 1 (csizeof u32_t) NO_ARRAY 0x12 (offsetof ts_register_notification_temp_req_msg_v01_t ''seq_num'') None,
      Elem QMI_EOTI 0 0 NO_ARRAY 0 0 None]"

definition ts_register_notification_temp_resp_msg_v01_ei :: "qmi_elem_info list" where [layout]:
  "ts_register_notification_temp_resp_msg_v01_ei =
     [Elem QMI_STRUCT 1 (csizeof qmi_response_type_v01_t) NO_ARRAY 0x02 (offsetof ts_register_notification_temp_resp_msg_v01_t ''resp'') (Some qmi_response_type_v01_ei),
      Elem QMI_EOTI 0 0 NO_ARRAY 0 0 None]"

definition ts_temp_report_ind_msg_v01_ei :: "qmi_elem_info list" where [layout]:
  "ts_temp_report_ind_msg_v01_ei =
     [Elem QMI_STRUCT 1 (csizeof ts_sensor_type_v01_t) NO_ARRAY 0x01 (offsetof ts_temp_report_ind_msg_v01_t ''sensor_id'') (Some ts_sensor_type_v01_ei),
      Elem QMI_SIGNED_4_BYTE_ENUM 1 (csizeof enum_t) NO_ARRAY 0x02 (offsetof ts_temp_report_ind_msg_v01_t ''report_type'') None,
      Elem QMI_OPT_FLAG 1 (csizeof u8_t) NO_ARRAY 0x10 (offsetof ts_temp_report_ind_msg_v01_t ''temp_valid'') None,
      Elem QMI_UNSIGNED_4_BYTE 1 (csizeof u32_t) NO_ARRAY 0x10 (offsetof ts_temp_report_ind_msg_v01_t ''temp'') None,
      Elem QMI_OPT_FLAG 1 (csizeof u8_t) NO_ARRAY 0x11 (offsetof ts_temp_report_ind_msg_v01_t ''seq_num_valid'') None,
      Elem QMI_UNSIGNED_4_BYTE 1 (csizeof u32_t) NO_ARRAY 0x11 (offsetof ts_temp_report_ind_msg_v01_t ''seq_num'') None,
      Elem QMI_EOTI 0 0 NO_ARRAY 0 0 None]"

section \<open>Thermal mitigation device service\<close>

text \<open>\<open>drivers/thermal/qcom/thermal_mitigation_device_service_v01.c\<close>.\<close>

abbreviation (input) QMI_TMD_MITIGATION_DEV_ID_LENGTH_MAX_V01 :: "'a::numeral" where "QMI_TMD_MITIGATION_DEV_ID_LENGTH_MAX_V01 \<equiv> 32"
abbreviation (input) QMI_TMD_MITIGATION_DEV_LIST_MAX_V01 :: "'a::numeral" where "QMI_TMD_MITIGATION_DEV_LIST_MAX_V01 \<equiv> 32"

definition tmd_mitigation_dev_id_type_v01_t :: ctype where [layout]:
  "tmd_mitigation_dev_id_type_v01_t = Struct
     [(''mitigation_dev_id'', Arr char_t (QMI_TMD_MITIGATION_DEV_ID_LENGTH_MAX_V01 + 1))]"

definition tmd_mitigation_dev_list_type_v01_t :: ctype where [layout]:
  "tmd_mitigation_dev_list_type_v01_t = Struct
     [(''mitigation_dev_id'', tmd_mitigation_dev_id_type_v01_t),
      (''max_mitigation_level'', u8_t)]"

definition tmd_get_mitigation_device_list_resp_msg_v01_t :: ctype where [layout]:
  "tmd_get_mitigation_device_list_resp_msg_v01_t = Struct
     [(''resp'', qmi_response_type_v01_t),
      (''mitigation_device_list_valid'', u8_t),
      (''mitigation_device_list_len'', u32_t),
      (''mitigation_device_list'', Arr tmd_mitigation_dev_list_type_v01_t QMI_TMD_MITIGATION_DEV_LIST_MAX_V01)]"

definition tmd_set_mitigation_level_req_msg_v01_t :: ctype where [layout]:
  "tmd_set_mitigation_level_req_msg_v01_t = Struct
     [(''mitigation_dev_id'', tmd_mitigation_dev_id_type_v01_t),
      (''mitigation_level'', u8_t)]"

definition tmd_set_mitigation_level_resp_msg_v01_t :: ctype where [layout]:
  "tmd_set_mitigation_level_resp_msg_v01_t = Struct
     [(''resp'', qmi_response_type_v01_t)]"

definition tmd_get_mitigation_level_req_msg_v01_t :: ctype where [layout]:
  "tmd_get_mitigation_level_req_msg_v01_t = Struct
     [(''mitigation_device'', tmd_mitigation_dev_id_type_v01_t)]"

definition tmd_get_mitigation_level_resp_msg_v01_t :: ctype where [layout]:
  "tmd_get_mitigation_level_resp_msg_v01_t = Struct
     [(''resp'', qmi_response_type_v01_t),
      (''current_mitigation_level_valid'', u8_t),
      (''current_mitigation_level'', u8_t),
      (''requested_mitigation_level_valid'', u8_t),
      (''requested_mitigation_level'', u8_t)]"

definition tmd_register_notification_mitigation_level_req_msg_v01_t :: ctype where [layout]:
  "tmd_register_notification_mitigation_level_req_msg_v01_t = Struct
     [(''mitigation_device'', tmd_mitigation_dev_id_type_v01_t)]"

definition tmd_register_notification_mitigation_level_resp_msg_v01_t :: ctype where [layout]:
  "tmd_register_notification_mitigation_level_resp_msg_v01_t = Struct
     [(''resp'', qmi_response_type_v01_t)]"

definition tmd_deregister_notification_mitigation_level_req_msg_v01_t :: ctype where [layout]:
  "tmd_deregister_notification_mitigation_level_req_msg_v01_t = Struct
     [(''mitigation_device'', tmd_mitigation_dev_id_type_v01_t)]"

definition tmd_deregister_notification_mitigation_level_resp_msg_v01_t :: ctype where [layout]:
  "tmd_deregister_notification_mitigation_level_resp_msg_v01_t = Struct
     [(''resp'', qmi_response_type_v01_t)]"

definition tmd_mitigation_level_report_ind_msg_v01_t :: ctype where [layout]:
  "tmd_mitigation_level_report_ind_msg_v01_t = Struct
     [(''mitigation_device'', tmd_mitigation_dev_id_type_v01_t),
      (''current_mitigation_level'', u8_t)]"

definition tmd_mitigation_dev_id_type_v01_ei :: "qmi_elem_info list" where [layout]:
  "tmd_mitigation_dev_id_type_v01_ei =
     [Elem QMI_STRING (QMI_TMD_MITIGATION_DEV_ID_LENGTH_MAX_V01 + 1) (csizeof char_t) NO_ARRAY 0 (offsetof tmd_mitigation_dev_id_type_v01_t ''mitigation_dev_id'') None,
      Elem QMI_EOTI 0 0 NO_ARRAY 0 0 None]"

definition tmd_mitigation_dev_list_type_v01_ei :: "qmi_elem_info list" where [layout]:
  "tmd_mitigation_dev_list_type_v01_ei =
     [Elem QMI_STRUCT 1 (csizeof tmd_mitigation_dev_id_type_v01_t) NO_ARRAY 0 (offsetof tmd_mitigation_dev_list_type_v01_t ''mitigation_dev_id'') (Some tmd_mitigation_dev_id_type_v01_ei),
      Elem QMI_UNSIGNED_1_BYTE 1 (csizeof u8_t) NO_ARRAY 0 (offsetof tmd_mitigation_dev_list_type_v01_t ''max_mitigation_level'') None,
      Elem QMI_EOTI 0 0 NO_ARRAY 0 0 None]"

definition tmd_get_mitigation_device_list_req_msg_v01_ei :: "qmi_elem_info list" where [layout]:
  "tmd_get_mitigation_device_list_req_msg_v01_ei =
     [Elem QMI_EOTI 0 0 NO_ARRAY 0 0 None]"

definition tmd_get_mitigation_device_list_resp_msg_v01_ei :: "qmi_elem_info list" where [layout]:
  "tmd_get_mitigation_device_list_resp_msg_v01_ei =
     [Elem QMI_STRUCT 1 (csizeof qmi_response_type_v01_t) NO_ARRAY 0x02 (offsetof tmd_get_mitigation_device_list_resp_msg_v01_t ''resp'') (Some qmi_response_type_v01_ei),
      Elem QMI_OPT_FLAG 1 (csizeof u8_t) NO_ARRAY 0x10 (offsetof tmd_get_mitigation_device_list_resp_msg_v01_t ''mitigation_device_list_valid'') None,
      Elem QMI_DATA_LEN 1 (csizeof u8_t) NO_ARRAY 0x10 (offsetof tmd_get_mitigation_device_list_resp_msg_v01_t ''mitigation_device_list_len'') None,
      Elem QMI_STRUCT QMI_TMD_MITIGATION_DEV_LIST_MAX_V01 (csizeof tmd_mitigation_dev_list_type_v01_t) VAR_LEN_ARRAY 0x10 (offsetof tmd_get_mitigation_device_list_resp_msg_v01_t ''mitigation_device_list'') (Some tmd_mitigation_dev_list_type_v01_ei),
      Elem QMI_EOTI 0 0 NO_ARRAY 0 0 None]"

definition tmd_set_mitigation_level_req_msg_v01_ei :: "qmi_elem_info list" where [layout]:
  "tmd_set_mitigation_level_req_msg_v01_ei =
     [Elem QMI_STRUCT 1 (csizeof tmd_mitigation_dev_id_type_v01_t) NO_ARRAY 0x01 (offsetof tmd_set_mitigation_level_req_msg_v01_t ''mitigation_dev_id'') (Some tmd_mitigation_dev_id_type_v01_ei),
      Elem QMI_UNSIGNED_1_BYTE 1 (csizeof u8_t) NO_ARRAY 0x02 (offsetof tmd_set_mitigation_level_req_msg_v01_t ''mitigation_level'') None,
      Elem QMI_EOTI 0 0 NO_ARRAY 0 0 None]"

definition tmd_set_mitigation_level_resp_msg_v01_ei :: "qmi_elem_info list" where [layout]:
  "tmd_set_mitigation_level_resp_msg_v01_ei =
     [Elem QMI_STRUCT 1 (csizeof qmi_response_type_v01_t) NO_ARRAY 0x02 (offsetof tmd_set_mitigation_level_resp_msg_v01_t ''resp'') (Some qmi_response_type_v01_ei),
      Elem QMI_EOTI 0 0 NO_ARRAY 0 0 None]"

definition tmd_get_mitigation_level_req_msg_v01_ei :: "qmi_elem_info list" where [layout]:
  "tmd_get_mitigation_level_req_msg_v01_ei =
     [Elem QMI_STRUCT 1 (csizeof tmd_mitigation_dev_id_type_v01_t) NO_ARRAY 0x01 (offsetof tmd_get_mitigation_level_req_msg_v01_t ''mitigation_device'') (Some tmd_mitigation_dev_id_type_v01_ei),
      Elem QMI_EOTI 0 0 NO_ARRAY 0 0 None]"

definition tmd_get_mitigation_level_resp_msg_v01_ei :: "qmi_elem_info list" where [layout]:
  "tmd_get_mitigation_level_resp_msg_v01_ei =
     [Elem QMI_STRUCT 1 (csizeof qmi_response_type_v01_t) NO_ARRAY 0x02 (offsetof tmd_get_mitigation_level_resp_msg_v01_t ''resp'') (Some qmi_response_type_v01_ei),
      Elem QMI_OPT_FLAG 1 (csizeof u8_t) NO_ARRAY 0x10 (offsetof tmd_get_mitigation_level_resp_msg_v01_t ''current_mitigation_level_valid'') None,
      Elem QMI_UNSIGNED_1_BYTE 1 (csizeof u8_t) NO_ARRAY 0x10 (offsetof tmd_get_mitigation_level_resp_msg_v01_t ''current_mitigation_level'') None,
      Elem QMI_OPT_FLAG 1 (csizeof u8_t) NO_ARRAY 0x11 (offsetof tmd_get_mitigation_level_resp_msg_v01_t ''requested_mitigation_level_valid'') None,
      Elem QMI_UNSIGNED_1_BYTE 1 (csizeof u8_t) NO_ARRAY 0x11 (offsetof tmd_get_mitigation_level_resp_msg_v01_t ''requested_mitigation_level'') None,
      Elem QMI_EOTI 0 0 NO_ARRAY 0 0 None]"

definition tmd_register_notification_mitigation_level_req_msg_v01_ei :: "qmi_elem_info list" where [layout]:
  "tmd_register_notification_mitigation_level_req_msg_v01_ei =
     [Elem QMI_STRUCT 1 (csizeof tmd_mitigation_dev_id_type_v01_t) NO_ARRAY 0x01 (offsetof tmd_register_notification_mitigation_level_req_msg_v01_t ''mitigation_device'') (Some tmd_mitigation_dev_id_type_v01_ei),
      Elem QMI_EOTI 0 0 NO_ARRAY 0 0 None]"

definition tmd_register_notification_mitigation_level_resp_msg_v01_ei :: "qmi_elem_info list" where [layout]:
  "tmd_register_notification_mitigation_level_resp_msg_v01_ei =
     [Elem QMI_STRUCT 1 (csizeof qmi_response_type_v01_t) NO_ARRAY 0x02 (offsetof tmd_register_notification_mitigation_level_resp_msg_v01_t ''resp'') (Some qmi_response_type_v01_ei),
      Elem QMI_EOTI 0 0 NO_ARRAY 0 0 None]"

definition tmd_deregister_notification_mitigation_level_req_msg_v01_ei :: "qmi_elem_info list" where [layout]:
  "tmd_deregister_notification_mitigation_level_req_msg_v01_ei =
     [Elem QMI_STRUCT 1 (csizeof tmd_mitigation_dev_id_type_v01_t) NO_ARRAY 0x01 (offsetof tmd_deregister_notification_mitigation_level_req_msg_v01_t ''mitigation_device'') (Some tmd_mitigation_dev_id_type_v01_ei),
      Elem QMI_EOTI 0 0 NO_ARRAY 0 0 None]"

definition tmd_deregister_notification_mitigation_level_resp_msg_v01_ei :: "qmi_elem_info list" where [layout]:
  "tmd_deregister_notification_mitigation_level_resp_msg_v01_ei =
     [Elem QMI_STRUCT 1 (csizeof qmi_response_type_v01_t) NO_ARRAY 0x02 (offsetof tmd_deregister_notification_mitigation_level_resp_msg_v01_t ''resp'') (Some qmi_response_type_v01_ei),
      Elem QMI_EOTI 0 0 NO_ARRAY 0 0 None]"

definition tmd_mitigation_level_report_ind_msg_v01_ei :: "qmi_elem_info list" where [layout]:
  "tmd_mitigation_level_report_ind_msg_v01_ei =
     [Elem QMI_STRUCT 1 (csizeof tmd_mitigation_dev_id_type_v01_t) NO_ARRAY 0x01 (offsetof tmd_mitigation_level_report_ind_msg_v01_t ''mitigation_device'') (Some tmd_mitigation_dev_id_type_v01_ei),
      Elem QMI_UNSIGNED_1_BYTE 1 (csizeof u8_t) NO_ARRAY 0x02 (offsetof tmd_mitigation_level_report_ind_msg_v01_t ''current_mitigation_level'') None,
      Elem QMI_EOTI 0 0 NO_ARRAY 0 0 None]"

section \<open>Dynamic heap memory sharing\<close>

text \<open>\<open>drivers/soc/qcom/memshare/heap_mem_ext_v01.c\<close>.\<close>

abbreviation (input) MAX_ARR_CNT_V01 :: "'a::numeral" where "MAX_ARR_CNT_V01 \<equiv> 64"

definition dhms_mem_alloc_addr_info_type_v01_t :: ctype where [layout]:
  "dhms_mem_alloc_addr_info_type_v01_t = Struct
     [(''phy_addr'', u64_t),
      (''num_bytes'', u32_t)]"

definition mem_alloc_generic_req_msg_v01_t :: ctype where [layout]:
  "mem_alloc_generic_req_msg_v01_t = Struct
     [(''num_bytes'', u32_t),
      (''client_id'', enum_t),
      (''proc_id'', enum_t),
      (''sequence_id'', u32_t),
      (''alloc_contiguous_valid'', u8_t),
      (''alloc_contiguous'', u8_t),
      (''block_alignment_valid'', u8_t),
      (''block_alignment'', enum_t)]"

definition mem_alloc_generic_resp_msg_v01_t :: ctype where [layout]:
  "mem_alloc_generic_resp_msg_v01_t = Struct
     [(''resp'', qmi_response_type_v01_t),
      (''sequence_id_valid'', u8_t),
      (''sequence_id'', u32_t),
      (''dhms_mem_alloc_addr_info_valid'', u8_t),
      (''dhms_mem_alloc_addr_info_len'', u32_t),
      (''dhms_mem_alloc_addr_info'', Arr dhms_mem_alloc_addr_info_type_v01_t MAX_ARR_CNT_V01)]"

definition mem_free_generic_req_msg_v01_t :: ctype where [layout]:
  "mem_free_generic_req_msg_v01_t = Struct
     [(''dhms_mem_alloc_addr_info_len'', u32_t),
      (''dhms_mem_alloc_addr_info'', Arr dhms_mem_alloc_addr_info_type_v01_t MAX_ARR_CNT_V01),
      (''client_id_valid'', u8_t),
      (''client_id'', enum_t),
      (''proc_id_valid'', u8_t),
      (''proc_id'', enum_t)]"

definition mem_free_generic_resp_msg_v01_t :: ctype where [layout]:
  "mem_free_generic_resp_msg_v01_t = Struct
     [(''resp'', qmi_response_type_v01_t)]"

definition mem_query_size_req_msg_v01_t :: ctype where [layout]:
  "mem_query_size_req_msg_v01_t = Struct
     [(''client_id'', enum_t),
      (''proc_id_valid'', u8_t),
      (''proc_id'', enum_t)]"

definition mem_query_size_rsp_msg_v01_t :: ctype where [layout]:
  "mem_query_size_rsp_msg_v01_t = Struct
     [(''resp'', qmi_response_type_v01_t),
      (''size_valid'', u8_t),
      (''size'', u32_t)]"

definition dhms_mem_alloc_addr_info_type_v01_ei :: "qmi_elem_info list" where [layout]:
  "dhms_mem_alloc_addr_info_type_v01_ei =
     [Elem QMI_UNSIGNED_8_BYTE 1 (csizeof u64_t) NO_ARRAY 0 (offsetof dhms_mem_alloc_addr_info_type_v01_t ''phy_addr'') None,
      Elem QMI_UNSIGNED_4_BYTE 1 (csizeof u32_t) NO_ARRAY 0 (offsetof dhms_mem_alloc_addr_info_type_v01_t ''num_bytes'') None,
      Elem QMI_EOTI 0 0 NO_ARRAY 0 0 None]"

definition mem_alloc_generic_req_msg_data_v01_ei :: "qmi_elem_info list" where [layout]:
  "mem_alloc_generic_req_msg_data_v01_ei =
     [Elem QMI_UNSIGNED_4_BYTE 1 (csizeof u32_t) NO_ARRAY 0x01 (offsetof mem_alloc_generic_req_msg_v01_t ''num_bytes'') None,
      Elem QMI_UNSIGNED_4_BYTE 1 (csizeof u32_t) NO_ARRAY 0x02 (offsetof mem_alloc_generic_req_msg_v01_t ''client_id'') None,
      Elem QMI_UNSIGNED_4_BYTE 1 (csizeof u32_t) NO_ARRAY 0x03 (offsetof mem_alloc_generic_req_msg_v01_t ''proc_id'') None,
      Elem QMI_UNSIGNED_4_BYTE 1 (csizeof u32_t) NO_ARRAY 0x04 (offsetof mem_alloc_generic_req_msg_v01_t ''sequence_id'') None,
      Elem QMI_OPT_FLAG 1 (csizeof u8_t) NO_ARRAY 0x10 (offsetof mem_alloc_generic_req_msg_v01_t ''alloc_contiguous_valid'') None,
      Elem QMI_UNSIGNED_1_BYTE 1 (csizeof u8_t) NO_ARRAY 0x10 (offsetof mem_alloc_generic_req_msg_v01_t ''alloc_contiguous'') None,
      Elem QMI_OPT_FLAG 1 (csizeof u8_t) NO_ARRAY 0x11 (offsetof mem_alloc_generic_req_msg_v01_t ''block_alignment_valid'') None,
      Elem QMI_UNSIGNED_4_BYTE 1 (csizeof u32_t) NO_ARRAY 0x11 (offsetof mem_alloc_generic_req_msg_v01_t ''block_alignment'') None,
      Elem QMI_EOTI 0 0 NO_ARRAY 0 0 None]"

definition mem_alloc_generic_resp_msg_data_v01_ei :: "qmi_elem_info list" where [layout]:
  "mem_alloc_generic_resp_msg_data_v01_ei =
     [Elem QMI_STRUCT 1 (csizeof qmi_response_type_v01_t) NO_ARRAY 0x02 (offsetof mem_alloc_generic_resp_msg_v01_t ''resp'') (Some qmi_response_type_v01_ei),
      Elem QMI_OPT_FLAG 1 (csizeof u8_t) NO_ARRAY 0x10 (offsetof mem_alloc_generic_resp_msg_v01_t ''sequence_id_valid'') None,
      Elem QMI_UNSIGNED_4_BYTE 1 (csizeof u32_t) NO_ARRAY 0x10 (offsetof mem_alloc_generic_resp_msg_v01_t ''sequence_id'') None,
      Elem QMI_OPT_FLAG 1 (csizeof u8_t) NO_ARRAY 0x11 (offsetof mem_alloc_generic_resp_msg_v01_t ''dhms_mem_alloc_addr_info_valid'') None,
      Elem QMI_DATA_LEN 1 (csizeof u8_t) NO_ARRAY 0x11 (offsetof mem_alloc_generic_resp_msg_v01_t ''dhms_mem_alloc_addr_info_len'') None,
      Elem QMI_STRUCT MAX_ARR_CNT_V01 (csizeof dhms_mem_alloc_addr_info_type_v01_t) VAR_LEN_ARRAY 0x11 (offsetof mem_alloc_generic_resp_msg_v01_t ''dhms_mem_alloc_addr_info'') (Some dhms_mem_alloc_addr_info_type_v01_ei),
      Elem QMI_EOTI 0 0 NO_ARRAY 0 0 None]"

definition mem_free_generic_req_msg_data_v01_ei :: "qmi_elem_info list" where [layout]:
  "mem_free_generic_req_msg_data_v01_ei =
     [Elem QMI_DATA_LEN 1 (csizeof u8_t) NO_ARRAY 0x01 (offsetof mem_free_generic_req_msg_v01_t ''dhms_mem_alloc_addr_info_len'') None,
      Elem QMI_STRUCT MAX_ARR_CNT_V01 (csizeof dhms_mem_alloc_addr_info_type_v01_t) VAR_LEN_ARRAY 0x01 (offsetof mem_free_generic_req_msg_v01_t ''dhms_mem_alloc_addr_info'') (Some dhms_mem_alloc_addr_info_type_v01_ei),
      Elem QMI_OPT_FLAG 1 (csizeof u8_t) NO_ARRAY 0x10 (offsetof mem_free_generic_req_msg_v01_t ''client_id_valid'') None,
      Elem QMI_UNSIGNED_4_BYTE 1 (csizeof u32_t) NO_ARRAY 0x10 (offsetof mem_free_generic_req_msg_v01_t ''client_id'') None,
      Elem QMI_OPT_FLAG 1 (csizeof u8_t) NO_ARRAY 0x11 (offsetof mem_free_generic_req_msg_v01_t ''proc_id_valid'') None,
      Elem QMI_UNSIGNED_4_BYTE 1 (csizeof u32_t) NO_ARRAY 0x11 (offsetof mem_free_generic_req_msg_v01_t ''proc_id'') None,
      Elem QMI_EOTI 0 0 NO_ARRAY 0 0 None]"

definition mem_free_generic_resp_msg_data_v01_ei :: "qmi_elem_info list" where [layout]:
  "mem_free_generic_resp_msg_data_v01_ei =
     [Elem QMI_STRUCT 1 (csizeof qmi_response_type_v01_t) NO_ARRAY 0x02 (offsetof mem_free_generic_resp_msg_v01_t ''resp'') (Some qmi_response_type_v01_ei),
      Elem QMI_EOTI 0 0 NO_ARRAY 0 0 None]"

definition mem_query_size_req_msg_data_v01_ei :: "qmi_elem_info list" where [layout]:
  "mem_query_size_req_msg_data_v01_ei =
     [Elem QMI_UNSIGNED_4_BYTE 1 (csizeof u32_t) NO_ARRAY 0x01 (offsetof mem_query_size_req_msg_v01_t ''client_id'') None,
      Elem QMI_OPT_FLAG 1 (csizeof u8_t) NO_ARRAY 0x10 (offsetof mem_query_size_req_msg_v01_t ''proc_id_valid'') None,
      Elem QMI_UNSIGNED_4_BYTE 1 (csizeof u32_t) NO_ARRAY 0x10 (offsetof mem_query_size_req_msg_v01_t ''proc_id'') None,
      Elem QMI_EOTI 0 0 NO_ARRAY 0 0 None]"

definition mem_query_size_resp_msg_data_v01_ei :: "qmi_elem_info list" where [layout]:
  "mem_query_size_resp_msg_data_v01_ei =
     [Elem QMI_STRUCT 1 (csizeof qmi_response_type_v01_t) NO_ARRAY 0x02 (offsetof mem_query_size_rsp_msg_v01_t ''resp'') (Some qmi_response_type_v01_ei),
      Elem QMI_OPT_FLAG 1 (csizeof u8_t) NO_ARRAY 0x10 (offsetof mem_query_size_rsp_msg_v01_t ''size_valid'') None,
      Elem QMI_UNSIGNED_4_BYTE 1 (csizeof u32_t) NO_ARRAY 0x10 (offsetof mem_query_size_rsp_msg_v01_t ''size'') None,
      Elem QMI_EOTI 0 0 NO_ARRAY 0 0 None]"

section \<open>ADSP low power mode voting\<close>

text \<open>\<open>drivers/soc/qcom/adsp_lpm_voting_v01.c\<close>.\<close>

definition prod_set_lpm_vote_req_msg_v01_t :: ctype where [layout]:
  "prod_set_lpm_vote_req_msg_v01_t = Struct
     [(''keep_adsp_out_of_lpm'', u8_t)]"

definition prod_set_lpm_vote_resp_msg_v01_t :: ctype where [layout]:
  "prod_set_lpm_vote_resp_msg_v01_t = Struct
     [(''resp'', qmi_response_type_v01_t)]"

definition prod_set_lpm_vote_req_msg_v01_ei :: "qmi_elem_info list" where [layout]:
  "prod_set_lpm_vote_req_msg_v01_ei =
     [Elem QMI_UNSIGNED_1_BYTE 1 (csizeof u8_t) NO_ARRAY 0x01 (offsetof prod_set_lpm_vote_req_msg_v01_t ''keep_adsp_out_of_lpm'') None,
      Elem QMI_EOTI 0 0 NO_ARRAY 0 0 None]"

definition prod_set_lpm_vote_resp_msg_v01_ei :: "qmi_elem_info list" where [layout]:
  "prod_set_lpm_vote_resp_msg_v01_ei =
     [Elem QMI_STRUCT 1 (csizeof qmi_response_type_v01_t) NO_ARRAY 0x02 (offsetof prod_set_lpm_vote_resp_msg_v01_t ''resp'') (Some qmi_response_type_v01_ei),
      Elem QMI_EOTI 0 0 NO_ARRAY 0 0 None]"

section \<open>Subsystem control\<close>

text \<open>\<open>drivers/soc/qcom/sysmon-qmi.c\<close>.\<close>

abbreviation (input) QMI_SSCTL_ERROR_MSG_LENGTH :: "'a::numeral" where "QMI_SSCTL_ERROR_MSG_LENGTH \<equiv> 90"
abbreviation (input) QMI_SSCTL_SUBSYS_NAME_LENGTH :: "'a::numeral" where "QMI_SSCTL_SUBSYS_NAME_LENGTH \<equiv> 15"

definition qmi_ssctl_subsys_event_req_msg_t :: ctype where [layout]:
  "qmi_ssctl_subsys_event_req_msg_t = Struct
     [(''subsys_name_len'', u8_t),
      (''subsys_name'', Arr char_t QMI_SSCTL_SUBSYS_NAME_LENGTH),
      (''event'', enum_t),
      (''evt_driven_valid'', u8_t),
      (''evt_driven'', enum_t)]"

definition qmi_ssctl_subsys_event_resp_msg_t :: ctype where [layout]:
  "qmi_ssctl_subsys_event_resp_msg_t = Struct
     [(''resp'', qmi_response_type_v01_t)]"

definition qmi_ssctl_shutdown_resp_msg_t :: ctype where [layout]:
  "qmi_ssctl_shutdown_resp_msg_t = Struct
     [(''resp'', qmi_response_type_v01_t)]"

definition qmi_ssctl_get_failure_reason_resp_msg_t :: ctype where [layout]:
  "qmi_ssctl_get_failure_reason_resp_msg_t = Struct
     [(''resp'', qmi_response_type_v01_t),
      (''error_message_valid'', u8_t),
      (''error_message_len'', u32_t),
      (''error_message'', Arr char_t QMI_SSCTL_ERROR_MSG_LENGTH)]"

definition qmi_ssctl_indication_ei :: "qmi_elem_info list" where [layout]:
  "qmi_ssctl_indication_ei =
     [Elem QMI_EOTI 0 0 NO_ARRAY 0x00 0 None]"

definition qmi_ssctl_subsys_event_req_msg_ei :: "qmi_elem_info list" where [layout]:
  "qmi_ssctl_subsys_event_req_msg_ei =
     [Elem QMI_DATA_LEN 1 (csizeof u8_t) NO_ARRAY 0x01 (offsetof qmi_ssctl_subsys_event_req_msg_t ''subsys_name_len'') None,
      Elem QMI_UNSIGNED_1_BYTE QMI_SSCTL_SUBSYS_NAME_LENGTH (csizeof char_t) VAR_LEN_ARRAY 0x01 (offsetof qmi_ssctl_subsys_event_req_msg_t ''subsys_name'') None,
      Elem QMI_SIGNED_4_BYTE_ENUM 1 (csizeof u32_t) NO_ARRAY 0x02 (offsetof qmi_ssctl_subsys_event_req_msg_t ''event'') None,
      Elem QMI_OPT_FLAG 1 (csizeof u8_t) NO_ARRAY 0x10 (offsetof qmi_ssctl_subsys_event_req_msg_t ''evt_driven_valid'') None,
      Elem QMI_SIGNED_4_BYTE_ENUM 1 (csizeof u32_t) NO_ARRAY 0x10 (offsetof qmi_ssctl_subsys_event_req_msg_t ''evt_driven'') None,
      Elem QMI_EOTI 0 0 NO_ARRAY 0x00 0 None]"

definition qmi_ssctl_subsys_event_resp_msg_ei :: "qmi_elem_info list" where [layout]:
  "qmi_ssctl_subsys_event_resp_msg_ei =
     [Elem QMI_STRUCT 1 (csizeof qmi_response_type_v01_t) NO_ARRAY 0x02 (offsetof qmi_ssctl_subsys_event_resp_msg_t ''resp'') (Some qmi_response_type_v01_ei),
      Elem QMI_EOTI 0 0 NO_ARRAY 0x00 0 None]"

definition qmi_ssctl_shutdown_req_msg_ei :: "qmi_elem_info list" where [layout]:
  "qmi_ssctl_shutdown_req_msg_ei =
     [Elem QMI_EOTI 0 0 NO_ARRAY 0x00 0 None]"

definition qmi_ssctl_shutdown_resp_msg_ei :: "qmi_elem_info list" where [layout]:
  "qmi_ssctl_shutdown_resp_msg_ei =
     [Elem QMI_STRUCT 1 (csizeof qmi_response_type_v01_t) NO_ARRAY 0x02 (offsetof qmi_ssctl_shutdown_resp_msg_t ''resp'') (Some qmi_response_type_v01_ei),
      Elem QMI_EOTI 0 0 NO_ARRAY 0x00 0 None]"

definition qmi_ssctl_get_failure_reason_req_msg_ei :: "qmi_elem_info list" where [layout]:
  "qmi_ssctl_get_failure_reason_req_msg_ei =
     [Elem QMI_EOTI 0 0 NO_ARRAY 0x00 0 None]"

definition qmi_ssctl_get_failure_reason_resp_msg_ei :: "qmi_elem_info list" where [layout]:
  "qmi_ssctl_get_failure_reason_resp_msg_ei =
     [Elem QMI_STRUCT 1 (csizeof qmi_response_type_v01_t) NO_ARRAY 0x02 (offsetof qmi_ssctl_get_failure_reason_resp_msg_t ''resp'') (Some qmi_response_type_v01_ei),
      Elem QMI_OPT_FLAG 1 (csizeof u8_t) NO_ARRAY 0x10 (offsetof qmi_ssctl_get_failure_reason_resp_msg_t ''error_message_valid'') None,
      Elem QMI_DATA_LEN 1 (csizeof u8_t) NO_ARRAY 0x10 (offsetof qmi_ssctl_get_failure_reason_resp_msg_t ''error_message_len'') None,
      Elem QMI_UNSIGNED_1_BYTE QMI_SSCTL_ERROR_MSG_LENGTH (csizeof char_t) VAR_LEN_ARRAY 0x10 (offsetof qmi_ssctl_get_failure_reason_resp_msg_t ''error_message'') None,
      Elem QMI_EOTI 0 0 NO_ARRAY 0x00 0 None]"

section \<open>Service locator\<close>

text \<open>\<open>drivers/soc/qcom/service-locator-private.h\<close>.\<close>

abbreviation (input) QMI_SERVREG_LOC_NAME_LENGTH_V01 :: "'a::numeral" where "QMI_SERVREG_LOC_NAME_LENGTH_V01 \<equiv> 64"
abbreviation (input) QMI_SERVREG_LOC_LIST_LENGTH_V01 :: "'a::numeral" where "QMI_SERVREG_LOC_LIST_LENGTH_V01 \<equiv> 32"

definition servreg_loc_entry_v01_t :: ctype where [layout]:
  "servreg_loc_entry_v01_t = Struct
     [(''name'', Arr char_t (QMI_SERVREG_LOC_NAME_LENGTH_V01 + 1)),
      (''instance_id'', u32_t),
      (''service_data_valid'', u8_t),
      (''service_data'', u32_t)]"

definition qmi_servreg_loc_indication_register_req_msg_v01_t :: ctype where [layout]:
  "qmi_servreg_loc_indication_register_req_msg_v01_t = Struct
     [(''enable_database_updated_indication_valid'', u8_t),
      (''enable_database_updated_indication'', u8_t)]"

definition qmi_servreg_loc_indication_register_resp_msg_v01_t :: ctype where [layout]:
  "qmi_servreg_loc_indication_register_resp_msg_v01_t = Struct
     [(''resp'', qmi_response_type_v01_t)]"

definition qmi_servreg_loc_get_domain_list_req_msg_v01_t :: ctype where [layout]:
  "qmi_servreg_loc_get_domain_list_req_msg_v01_t = Struct
     [(''service_name'', Arr char_t (QMI_SERVREG_LOC_NAME_LENGTH_V01 + 1)),
      (''domain_offset_valid'', u8_t),
      (''domain_offset'', u32_t)]"

definition qmi_servreg_loc_get_domain_list_resp_msg_v01_t :: ctype where [layout]:
  "qmi_servreg_loc_get_domain_list_resp_msg_v01_t = Struct
     [(''resp'', qmi_response_type_v01_t),
      (''total_domains_valid'', u8_t),
      (''total_domains'', u16_t),
      (''db_rev_count_valid'', u8_t),
      (''db_rev_count'', u16_t),
      (''domain_list_valid'', u8_t),
      (''domain_list_len'', u32_t),
      (''domain_list'', Arr servreg_loc_entry_v01_t QMI_SERVREG_LOC_LIST_LENGTH_V01)]"

definition qmi_servreg_loc_register_service_list_req_msg_v01_t :: ctype where [layout]:
  "qmi_servreg_loc_register_service_list_req_msg_v01_t = Struct
     [(''domain_name'', Arr char_t (QMI_SERVREG_LOC_NAME_LENGTH_V01 + 1)),
      (''service_list_len'', u32_t),
      (''service_list'', Arr servreg_loc_entry_v01_t QMI_SERVREG_LOC_LIST_LENGTH_V01)]"

definition qmi_servreg_loc_register_service_list_resp_msg_v01_t :: ctype where [layout]:
  "qmi_servreg_loc_register_service_list_resp_msg_v01_t = Struct
     [(''resp'', qmi_response_type_v01_t)]"

definition servreg_loc_entry_v01_ei :: "qmi_elem_info list" where [layout]:
  "servreg_loc_entry_v01_ei =
     [Elem QMI_STRING (QMI_SERVREG_LOC_NAME_LENGTH_V01 + 1) (csizeof char_t) NO_ARRAY 0 (offsetof servreg_loc_entry_v01_t ''name'') None,
      Elem QMI_UNSIGNED_4_BYTE 1 (csizeof u32_t) NO_ARRAY 0 (offsetof servreg_loc_entry_v01_t ''instance_id'') None,
      Elem QMI_UNSIGNED_1_BYTE 1 (csizeof u8_t) NO_ARRAY 0 (offsetof servreg_loc_entry_v01_t ''service_data_valid'') None,
      Elem QMI_UNSIGNED_4_BYTE 1 (csizeof u32_t) NO_ARRAY 0 (offsetof servreg_loc_entry_v01_t ''service_data'') None,
      Elem QMI_EOTI 0 0 NO_ARRAY 0x00 0 None]"

definition qmi_servreg_loc_indication_register_req_msg_v01_ei :: "qmi_elem_info list" where [layout]:
  "qmi_servreg_loc_indication_register_req_msg_v01_ei =
     [Elem QMI_OPT_FLAG 1 (csizeof u8_t) NO_ARRAY 0x10 (offsetof qmi_servreg_loc_indication_register_req_msg_v01_t ''enable_database_updated_indication_valid'') None,
      Elem QMI_UNSIGNED_1_BYTE 1 (csizeof u8_t) NO_ARRAY 0x10 (offsetof qmi_servreg_loc_indication_register_req_msg_v01_t ''enable_database_updated_indication'') None,
      Elem QMI_EOTI 0 0 NO_ARRAY 0x00 0 None]"

definition qmi_servreg_loc_indication_register_resp_msg_v01_ei :: "qmi_elem_info list" where [layout]:
  "qmi_servreg_loc_indication_register_resp_msg_v01_ei =
     [Elem QMI_STRUCT 1 (csizeof qmi_response_type_v01_t) NO_ARRAY 0x02 (offsetof qmi_servreg_loc_indication_register_resp_msg_v01_t ''resp'') (Some qmi_response_type_v01_ei),
      Elem QMI_EOTI 0 0 NO_ARRAY 0x00 0 None]"

definition qmi_servreg_loc_get_domain_list_req_msg_v01_ei :: "qmi_elem_info list" where [layout]:
  "qmi_servreg_loc_get_domain_list_req_msg_v01_ei =
     [Elem QMI_STRING (QMI_SERVREG_LOC_NAME_LENGTH_V01 + 1) (csizeof char_t) NO_ARRAY 0x01 (offsetof qmi_servreg_loc_get_domain_list_req_msg_v01_t ''service_name'') None,
      Elem QMI_OPT_FLAG 1 (csizeof u8_t) NO_ARRAY 0x10 (offsetof qmi_servreg_loc_get_domain_list_req_msg_v01_t ''domain_offset_valid'') None,
      Elem QMI_UNSIGNED_4_BYTE 1 (csizeof u32_t) NO_ARRAY 0x10 (offsetof qmi_servreg_loc_get_domain_list_req_msg_v01_t ''domain_offset'') None,
      Elem QMI_EOTI 0 0 NO_ARRAY 0x00 0 None]"

definition qmi_servreg_loc_get_domain_list_resp_msg_v01_ei :: "qmi_elem_info list" where [layout]:
  "qmi_servreg_loc_get_domain_list_resp_msg_v01_ei =
     [Elem QMI_STRUCT 1 (csizeof qmi_response_type_v01_t) NO_ARRAY 0x02 (offsetof qmi_servreg_loc_get_domain_list_resp_msg_v01_t ''resp'') (Some qmi_response_type_v01_ei),
      Elem QMI_OPT_FLAG 1 (csizeof u8_t) NO_ARRAY 0x10 (offsetof qmi_servreg_loc_get_domain_list_resp_msg_v01_t ''total_domains_valid'') None,
      Elem QMI_UNSIGNED_2_BYTE 1 (csizeof u16_t) NO_ARRAY 0x10 (offsetof qmi_servreg_loc_get_domain_list_resp_msg_v01_t ''total_domains'') None,
      Elem QMI_OPT_FLAG 1 (csizeof u8_t) NO_ARRAY 0x11 (offsetof qmi_servreg_loc_get_domain_list_resp_msg_v01_t ''db_rev_count_valid'') None,
      Elem QMI_UNSIGNED_2_BYTE 1 (csizeof u16_t) NO_ARRAY 0x11 (offsetof qmi_servreg_loc_get_domain_list_resp_msg_v01_t ''db_rev_count'') None,
      Elem QMI_OPT_FLAG 1 (csizeof u8_t) NO_ARRAY 0x12 (offsetof qmi_servreg_loc_get_domain_list_resp_msg_v01_t ''domain_list_valid'') None,
      Elem QMI_DATA_LEN 1 (csizeof u8_t) NO_ARRAY 0x12 (offsetof qmi_servreg_loc_get_domain_list_resp_msg_v01_t ''domain_list_len'') None,
      Elem QMI_STRUCT QMI_SERVREG_LOC_LIST_LENGTH_V01 (csizeof servreg_loc_entry_v01_t) VAR_LEN_ARRAY 0x12 (offsetof qmi_servreg_loc_get_domain_list_resp_msg_v01_t ''domain_list'') (Some servreg_loc_entry_v01_ei),
      Elem QMI_EOTI 0 0 NO_ARRAY 0x00 0 None]"

definition qmi_servreg_loc_register_service_list_req_msg_v01_ei :: "qmi_elem_info list" where [layout]:
  "qmi_servreg_loc_register_service_list_req_msg_v01_ei =
     [Elem QMI_STRING (QMI_SERVREG_LOC_NAME_LENGTH_V01 + 1) (csizeof char_t) NO_ARRAY 0x01 (offsetof qmi_servreg_loc_register_service_list_req_msg_v01_t ''domain_name'') None,
      Elem QMI_DATA_LEN 1 (csizeof u8_t) NO_ARRAY 0x02 (offsetof qmi_servreg_loc_register_service_list_req_msg_v01_t ''service_list_len'') None,
      Elem QMI_STRUCT QMI_SERVREG_LOC_LIST_LENGTH_V01 (csizeof servreg_loc_entry_v01_t) VAR_LEN_ARRAY 0x02 (offsetof qmi_servreg_loc_register_service_list_req_msg_v01_t ''service_list'') (Some servreg_loc_entry_v01_ei),
      Elem QMI_EOTI 0 0 NO_ARRAY 0x00 0 None]"

definition qmi_servreg_loc_register_service_list_resp_msg_v01_ei :: "qmi_elem_info list" where [layout]:
  "qmi_servreg_loc_register_service_list_resp_msg_v01_ei =
     [Elem QMI_STRUCT 1 (csizeof qmi_response_type_v01_t) NO_ARRAY 0x02 (offsetof qmi_servreg_loc_register_service_list_resp_msg_v01_t ''resp'') (Some qmi_response_type_v01_ei),
      Elem QMI_EOTI 0 0 NO_ARRAY 0x00 0 None]"

definition qmi_servreg_loc_database_updated_ind_msg_v01_ei :: "qmi_elem_info list" where [layout]:
  "qmi_servreg_loc_database_updated_ind_msg_v01_ei =
     [Elem QMI_EOTI 0 0 NO_ARRAY 0x00 0 None]"

section \<open>Service notifier\<close>

text \<open>\<open>drivers/soc/qcom/service-notifier-private.h\<close>.\<close>

abbreviation (input) QMI_SERVREG_NOTIF_NAME_LENGTH_V01 :: "'a::numeral" where "QMI_SERVREG_NOTIF_NAME_LENGTH_V01 \<equiv> 64"

definition qmi_servreg_notif_register_listener_req_msg_v01_t :: ctype where [layout]:
  "qmi_servreg_notif_register_listener_req_msg_v01_t = Struct
     [(''enable'', u8_t),
      (''service_name'', Arr char_t (QMI_SERVREG_NOTIF_NAME_LENGTH_V01 + 1))]"

definition qmi_servreg_notif_register_listener_resp_msg_v01_t :: ctype where [layout]:
  "qmi_servreg_notif_register_listener_resp_msg_v01_t = Struct
     [(''resp'', qmi_response_type_v01_t),
      (''curr_state_valid'', u8_t),
      (''curr_state'', enum_t)]"

definition qmi_servreg_notif_query_state_req_msg_v01_t :: ctype where [layout]:
  "qmi_servreg_notif_query_state_req_msg_v01_t = Struct
     [(''service_name'', Arr char_t (QMI_SERVREG_NOTIF_NAME_LENGTH_V01 + 1))]"

definition qmi_servreg_notif_query_state_resp_msg_v01_t :: ctype where [layout]:
  "qmi_servreg_notif_query_state_resp_msg_v01_t = Struct
     [(''resp'', qmi_response_type_v01_t),
      (''curr_state_valid'', u8_t),
      (''curr_state'', enum_t)]"

definition qmi_servreg_notif_state_updated_ind_msg_v01_t :: ctype where [layout]:
  "qmi_servreg_notif_state_updated_ind_msg_v01_t = Struct
     [(''curr_state'', enum_t),
      (''service_name'', Arr char_t (QMI_SERVREG_NOTIF_NAME_LENGTH_V01 + 1)),
      (''transaction_id'', u16_t)]"

definition qmi_servreg_notif_set_ack_req_msg_v01_t :: ctype where [layout]:
  "qmi_servreg_notif_set_ack_req_msg_v01_t = Struct
     [(''service_name'', Arr char_t (QMI_SERVREG_NOTIF_NAME_LENGTH_V01 + 1)),
      (''transaction_id'', u16_t)]"

definition qmi_servreg_notif_set_ack_resp_msg_v01_t :: ctype where [layout]:
  "qmi_servreg_notif_set_ack_resp_msg_v01_t = Struct
     [(''resp'', qmi_response_type_v01_t)]"

definition qmi_servreg_notif_restart_pd_req_msg_v01_t :: ctype where [layout]:
  "qmi_servreg_notif_restart_pd_req_msg_v01_t = Struct
     [(''service_name'', Arr char_t (QMI_SERVREG_NOTIF_NAME_LENGTH_V01 + 1))]"

definition qmi_servreg_notif_restart_pd_resp_msg_v01_t :: ctype where [layout]:
  "qmi_servreg_notif_restart_pd_resp_msg_v01_t = Struct
     [(''resp'', qmi_response_type_v01_t)]"

definition qmi_servreg_notif_register_listener_req_msg_v01_ei :: "qmi_elem_info list" where [layout]:
  "qmi_servreg_notif_register_listener_req_msg_v01_ei =
     [Elem QMI_UNSIGNED_1_BYTE 1 (csizeof u8_t) NO_ARRAY 0x01 (offsetof qmi_servreg_notif_register_listener_req_msg_v01_t ''enable'') None,
      Elem QMI_STRING (QMI_SERVREG_NOTIF_NAME_LENGTH_V01 + 1) (csizeof char_t) NO_ARRAY 0x02 (offsetof qmi_servreg_notif_register_listener_req_msg_v01_t ''service_name'') None,
      Elem QMI_EOTI 0 0 NO_ARRAY 0 0 None]"

definition qmi_servreg_notif_register_listener_resp_msg_v01_ei :: "qmi_elem_info list" where [layout]:
  "qmi_servreg_notif_register_listener_resp_msg_v01_ei =
     [Elem QMI_STRUCT 1 (csizeof qmi_response_type_v01_t) NO_ARRAY 0x02 (offsetof qmi_servreg_notif_register_listener_resp_msg_v01_t ''resp'') (Some qmi_response_type_v01_ei),
      Elem QMI_OPT_FLAG 1 (csizeof u8_t) NO_ARRAY 0x10 (offsetof qmi_servreg_notif_register_listener_resp_msg_v01_t ''curr_state_valid'') None,
      Elem QMI_SIGNED_4_BYTE_ENUM 1 (csizeof enum_t) NO_ARRAY 0x10 (offsetof qmi_servreg_notif_register_listener_resp_msg_v01_t ''curr_state'') None,
      Elem QMI_EOTI 0 0 NO_ARRAY 0 0 None]"

definition qmi_servreg_notif_query_state_req_msg_v01_ei :: "qmi_elem_info list" where [layout]:
  "qmi_servreg_notif_query_state_req_msg_v01_ei =
     [Elem QMI_STRING (QMI_SERVREG_NOTIF_NAME_LENGTH_V01 + 1) (csizeof char_t) NO_ARRAY 0x01 (offsetof qmi_servreg_notif_query_state_req_msg_v01_t ''service_name'') None,
      Elem QMI_EOTI 0 0 NO_ARRAY 0 0 None]"

definition qmi_servreg_notif_query_state_resp_msg_v01_ei :: "qmi_elem_info list" where [layout]:
  "qmi_servreg_notif_query_state_resp_msg_v01_ei =
     [Elem QMI_STRUCT 1 (csizeof qmi_response_type_v01_t) NO_ARRAY 0x02 (offsetof qmi_servreg_notif_query_state_resp_msg_v01_t ''resp'') (Some qmi_response_type_v01_ei),
      Elem QMI_OPT_FLAG 1 (csizeof u8_t) NO_ARRAY 0x10 (offsetof qmi_servreg_notif_query_state_resp_msg_v01_t ''curr_state_valid'') None,
      Elem QMI_SIGNED_4_BYTE_ENUM 1 (csizeof enum_t) NO_ARRAY 0x10 (offsetof qmi_servreg_notif_query_state_resp_msg_v01_t ''curr_state'') None,
      Elem QMI_EOTI 0 0 NO_ARRAY 0 0 None]"

definition qmi_servreg_notif_state_updated_ind_msg_v01_ei :: "qmi_elem_info list" where [layout]:
  "qmi_servreg_notif_state_updated_ind_msg_v01_ei =
     [Elem QMI_SIGNED_4_BYTE_ENUM 1 (csizeof enum_t) NO_ARRAY 0x01 (offsetof qmi_servreg_notif_state_updated_ind_msg_v01_t ''curr_state'') None,
      Elem QMI_STRING (QMI_SERVREG_NOTIF_NAME_LENGTH_V01 + 1) (csizeof char_t) NO_ARRAY 0x02 (offsetof qmi_servreg_notif_state_updated_ind_msg_v01_t ''service_name'') None,
      Elem QMI_UNSIGNED_2_BYTE 1 (csizeof u16_t) NO_ARRAY 0x03 (offsetof qmi_servreg_notif_state_updated_ind_msg_v01_t ''transaction_id'') None,
      Elem QMI_EOTI 0 0 NO_ARRAY 0 0 None]"

definition qmi_servreg_notif_set_ack_req_msg_v01_ei :: "qmi_elem_info list" where [layout]:
  "qmi_servreg_notif_set_ack_req_msg_v01_ei =
     [Elem QMI_STRING (QMI_SERVREG_NOTIF_NAME_LENGTH_V01 + 1) (csizeof char_t) NO_ARRAY 0x01 (offsetof qmi_servreg_notif_set_ack_req_msg_v01_t ''service_name'') None,
      Elem QMI_UNSIGNED_2_BYTE 1 (csizeof u16_t) NO_ARRAY 0x02 (offsetof qmi_servreg_notif_set_ack_req_msg_v01_t ''transaction_id'') None,
      Elem QMI_EOTI 0 0 NO_ARRAY 0 0 None]"

definition qmi_servreg_notif_set_ack_resp_msg_v01_ei :: "qmi_elem_info list" where [layout]:
  "qmi_servreg_notif_set_ack_resp_msg_v01_ei =
     [Elem QMI_STRUCT 1 (csizeof qmi_response_type_v01_t) NO_ARRAY 0x02 (offsetof qmi_servreg_notif_set_ack_resp_msg_v01_t ''resp'') (Some qmi_response_type_v01_ei),
      Elem QMI_EOTI 0 0 NO_ARRAY 0 0 None]"

definition qmi_servreg_notif_restart_pd_req_msg_v01_ei :: "qmi_elem_info list" where [layout]:
  "qmi_servreg_notif_restart_pd_req_msg_v01_ei =
     [Elem QMI_STRING (QMI_SERVREG_NOTIF_NAME_LENGTH_V01 + 1) (csizeof char_t) NO_ARRAY 0x01 (offsetof qmi_servreg_notif_restart_pd_req_msg_v01_t ''service_name'') None,
      Elem QMI_EOTI 0 0 NO_ARRAY 0 0 None]"

definition qmi_servreg_notif_restart_pd_resp_msg_v01_ei :: "qmi_elem_info list" where [layout]:
  "qmi_servreg_notif_restart_pd_resp_msg_v01_ei =
     [Elem QMI_STRUCT 1 (csizeof qmi_response_type_v01_t) NO_ARRAY 0x02 (offsetof qmi_servreg_notif_restart_pd_resp_msg_v01_t ''resp'') (Some qmi_response_type_v01_ei),
      Elem QMI_EOTI 0 0 NO_ARRAY 0 0 None]"

section \<open>SLIMbus service\<close>

text \<open>\<open>drivers/slimbus/slim-msm.c\<close>.\<close>

definition slimbus_select_inst_req_msg_v01_t :: ctype where [layout]:
  "slimbus_select_inst_req_msg_v01_t = Struct
     [(''instance'', u32_t),
      (''mode_valid'', u8_t),
      (''mode'', enum_t)]"

definition slimbus_select_inst_resp_msg_v01_t :: ctype where [layout]:
  "slimbus_select_inst_resp_msg_v01_t = Struct
     [(''resp'', qmi_response_type_v01_t)]"

definition slimbus_power_req_msg_v01_t :: ctype where [layout]:
  "slimbus_power_req_msg_v01_t = Struct
     [(''pm_req'', enum_t),
      (''resp_type_valid'', u8_t),
      (''resp_type'', enum_t)]"

definition slimbus_power_resp_msg_v01_t :: ctype where [layout]:
  "slimbus_power_resp_msg_v01_t = Struct
     [(''resp'', qmi_response_type_v01_t)]"

definition slimbus_chkfrm_resp_msg_t :: ctype where [layout]:
  "slimbus_chkfrm_resp_msg_t = Struct
     [(''resp'', qmi_response_type_v01_t)]"

definition slimbus_deferred_status_resp_t :: ctype where [layout]:
  "slimbus_deferred_status_resp_t = Struct
     [(''resp'', qmi_response_type_v01_t)]"

definition slimbus_select_inst_req_msg_v01_ei :: "qmi_elem_info list" where [layout]:
  "slimbus_select_inst_req_msg_v01_ei =
     [Elem QMI_UNSIGNED_4_BYTE 1 (csizeof u32_t) NO_ARRAY 0x01 (offsetof slimbus_select_inst_req_msg_v01_t ''instance'') None,
      Elem QMI_OPT_FLAG 1 (csizeof u8_t) NO_ARRAY 0x10 (offsetof slimbus_select_inst_req_msg_v01_t ''mode_valid'') None,
      Elem QMI_UNSIGNED_4_BYTE 1 (csizeof enum_t) NO_ARRAY 0x10 (offsetof slimbus_select_inst_req_msg_v01_t ''mode'') None,
      Elem QMI_EOTI 0 0 NO_ARRAY 0x00 0 None]"

definition slimbus_select_inst_resp_msg_v01_ei :: "qmi_elem_info list" where [layout]:
  "slimbus_select_inst_resp_msg_v01_ei =
     [Elem QMI_STRUCT 1 (csizeof qmi_response_type_v01_t) NO_ARRAY 0x02 (offsetof slimbus_select_inst_resp_msg_v01_t ''resp'') (Some qmi_response_type_v01_ei),
      Elem QMI_EOTI 0 0 NO_ARRAY 0x00 0 None]"

definition slimbus_power_req_msg_v01_ei :: "qmi_elem_info list" where [layout]:
  "slimbus_power_req_msg_v01_ei =
     [Elem QMI_UNSIGNED_4_BYTE 1 (csizeof enum_t) NO_ARRAY 0x01 (offsetof slimbus_power_req_msg_v01_t ''pm_req'') None,
      Elem QMI_OPT_FLAG 1 (csizeof u8_t) NO_ARRAY 0x10 (offsetof slimbus_power_req_msg_v01_t ''resp_type_valid'') None,
      Elem QMI_SIGNED_4_BYTE_ENUM 1 (csizeof enum_t) NO_ARRAY 0x10 (offsetof slimbus_power_req_msg_v01_t ''resp_type'') None,
      Elem QMI_EOTI 0 0 NO_ARRAY 0x00 0 None]"

definition slimbus_power_resp_msg_v01_ei :: "qmi_elem_info list" where [layout]:
  "slimbus_power_resp_msg_v01_ei =
     [Elem QMI_STRUCT 1 (csizeof qmi_response_type_v01_t) NO_ARRAY 0x02 (offsetof slimbus_power_resp_msg_v01_t ''resp'') (Some qmi_response_type_v01_ei),
      Elem QMI_EOTI 0 0 NO_ARRAY 0x00 0 None]"

definition slimbus_chkfrm_resp_msg_v01_ei :: "qmi_elem_info list" where [layout]:
  "slimbus_chkfrm_resp_msg_v01_ei =
     [Elem QMI_STRUCT 1 (csizeof qmi_response_type_v01_t) NO_ARRAY 0x02 (offsetof slimbus_chkfrm_resp_msg_t ''resp'') (Some qmi_response_type_v01_ei),
      Elem QMI_EOTI 0 0 NO_ARRAY 0x00 0 None]"

definition slimbus_deferred_status_resp_msg_v01_ei :: "qmi_elem_info list" where [layout]:
  "slimbus_deferred_status_resp_msg_v01_ei =
     [Elem QMI_STRUCT 1 (csizeof qmi_response_type_v01_t) NO_ARRAY 0x02 (offsetof slimbus_deferred_status_resp_t ''resp'') (Some qmi_response_type_v01_ei),
      Elem QMI_EOTI 0 0 NO_ARRAY 0 0 None]"

section \<open>Coexistence service\<close>

text \<open>\<open>drivers/net/wireless/cnss2/coexistence_service_v01.c\<close>.\<close>

definition coex_antenna_switch_to_wlan_req_msg_v01_t :: ctype where [layout]:
  "coex_antenna_switch_to_wlan_req_msg_v01_t = Struct
     [(''antenna'', u64_t)]"

definition coex_antenna_switch_to_wlan_resp_msg_v01_t :: ctype where [layout]:
  "coex_antenna_switch_to_wlan_resp_msg_v01_t = Struct
     [(''resp'', qmi_response_type_v01_t),
      (''grant_valid'', u8_t),
      (''grant'', u64_t)]"

definition coex_antenna_switch_to_mdm_req_msg_v01_t :: ctype where [layout]:
  "coex_antenna_switch_to_mdm_req_msg_v01_t = Struct
     [(''antenna'', u64_t)]"

definition coex_antenna_switch_to_mdm_resp_msg_v01_t :: ctype where [layout]:
  "coex_antenna_switch_to_mdm_resp_msg_v01_t = Struct
     [(''resp'', qmi_response_type_v01_t)]"

definition coex_antenna_switch_to_wlan_req_msg_v01_ei :: "qmi_elem_info list" where [layout]:
  "coex_antenna_switch_to_wlan_req_msg_v01_ei =
     [Elem QMI_UNSIGNED_8_BYTE 1 (csizeof u64_t) NO_ARRAY 0x01 (offsetof coex_antenna_switch_to_wlan_req_msg_v01_t ''antenna'') None,
      Elem QMI_EOTI 0 0 NO_ARRAY 0 0 None]"

definition coex_antenna_switch_to_wlan_resp_msg_v01_ei :: "qmi_elem_info list" where [layout]:
  "coex_antenna_switch_to_wlan_resp_msg_v01_ei =
     [Elem QMI_STRUCT 1 (csizeof qmi_response_type_v01_t) NO_ARRAY 0x02 (offsetof coex_antenna_switch_to_wlan_resp_msg_v01_t ''resp'') (Some qmi_response_type_v01_ei),
      Elem QMI_OPT_FLAG 1 (csizeof u8_t) NO_ARRAY 0x10 (offsetof coex_antenna_switch_to_wlan_resp_msg_v01_t ''grant_valid'') None,
      Elem QMI_UNSIGNED_8_BYTE 1 (csizeof u64_t) NO_ARRAY 0x10 (offsetof coex_antenna_switch_to_wlan_resp_msg_v01_t ''grant'') None,
      Elem QMI_EOTI 0 0 NO_ARRAY 0 0 None]"

definition coex_antenna_switch_to_mdm_req_msg_v01_ei :: "qmi_elem_info list" where [layout]:
  "coex_antenna_switch_to_mdm_req_msg_v01_ei =
     [Elem QMI_UNSIGNED_8_BYTE 1 (csizeof u64_t) NO_ARRAY 0x01 (offsetof coex_antenna_switch_to_mdm_req_msg_v01_t ''antenna'') None,
      Elem QMI_EOTI 0 0 NO_ARRAY 0 0 None]"

definition coex_antenna_switch_to_mdm_resp_msg_v01_ei :: "qmi_elem_info list" where [layout]:
  "coex_antenna_switch_to_mdm_resp_msg_v01_ei =
     [Elem QMI_STRUCT 1 (csizeof qmi_response_type_v01_t) NO_ARRAY 0x02 (offsetof coex_antenna_switch_to_mdm_resp_msg_v01_t ''resp'') (Some qmi_response_type_v01_ei),
      Elem QMI_EOTI 0 0 NO_ARRAY 0 0 None]"

section \<open>IMS private service\<close>

text \<open>\<open>drivers/net/wireless/cnss2/ip_multimedia_subsystem_private_service_v01.c\<close>.\<close>

abbreviation (input) IMS_PRIVATE_SERVICE_MAX_MT_INVITE_HEADERS_V01 :: "'a::numeral" where "IMS_PRIVATE_SERVICE_MAX_MT_INVITE_HEADERS_V01 \<equiv> 15"
abbreviation (input) IMS_PRIVATE_SERVICE_HEADER_STR_LEN_V01 :: "'a::numeral" where "IMS_PRIVATE_SERVICE_HEADER_STR_LEN_V01 \<equiv> 1024"
abbreviation (input) IMS_PRIVATE_SERVICE_MAX_ICCID_LEN_V01 :: "'a::numeral" where "IMS_PRIVATE_SERVICE_MAX_ICCID_LEN_V01 \<equiv> 21"

definition ims_private_service_header_value_v01_t :: ctype where [layout]:
  "ims_private_service_header_value_v01_t = Struct
     [(''header'', Arr char_t (IMS_PRIVATE_SERVICE_HEADER_STR_LEN_V01 + 1)),
      (''value'', Arr char_t (IMS_PRIVATE_SERVICE_HEADER_STR_LEN_V01 + 1))]"

definition ims_private_service_subscribe_for_indications_req_msg_v01_t :: ctype where [layout]:
  "ims_private_service_subscribe_for_indications_req_msg_v01_t = Struct
     [(''mt_invite_valid'', u8_t),
      (''mt_invite'', u8_t),
      (''wfc_call_status_valid'', u8_t),
      (''wfc_call_status'', u8_t)]"

definition ims_private_service_subscribe_for_indications_rsp_msg_v01_t :: ctype where [layout]:
  "ims_private_service_subscribe_for_indications_rsp_msg_v01_t = Struct
     [(''resp'', qmi_response_type_v01_t)]"

definition ims_private_service_mt_invite_ind_msg_v01_t :: ctype where [layout]:
  "ims_private_service_mt_invite_ind_msg_v01_t = Struct
     [(''subscription_type'', enum_t),
      (''iccid_valid'', u8_t),
      (''iccid'', Arr char_t (IMS_PRIVATE_SERVICE_MAX_ICCID_LEN_V01 + 1)),
      (''header_value_list_valid'', u8_t),
      (''header_value_list_len'', u32_t),
      (''header_value_list'', Arr ims_private_service_header_value_v01_t IMS_PRIVATE_SERVICE_MAX_MT_INVITE_HEADERS_V01)]"

definition ims_private_service_wfc_call_status_ind_msg_v01_t :: ctype where [layout]:
  "ims_private_service_wfc_call_status_ind_msg_v01_t = Struct
     [(''wfc_call_active'', u8_t),
      (''all_wfc_calls_held_valid'', u8_t),
      (''all_wfc_calls_held'', u8_t),
      (''is_wfc_emergency_valid'', u8_t),
      (''is_wfc_emergency'', u8_t),
      (''twt_ims_start_valid'', u8_t),
      (''twt_ims_start'', u64_t),
      (''twt_ims_int_valid'', u8_t),
      (''twt_ims_int'', u16_t),
      (''media_quality_valid'', u8_t),
      (''media_quality'', enum_t)]"

definition ims_private_service_wfc_call_twt_config_req_msg_v01_t :: ctype where [layout]:
  "ims_private_service_wfc_call_twt_config_req_msg_v01_t = Struct
     [(''twt_sta_start_valid'', u8_t),
      (''twt_sta_start'', u64_t),
      (''twt_sta_int_valid'', u8_t),
      (''twt_sta_int'', u16_t),
      (''twt_sta_upo_valid'', u8_t),
      (''twt_sta_upo'', u16_t),
      (''twt_sta_sp_valid'', u8_t),
      (''twt_sta_sp'', u16_t),
      (''twt_sta_dl_valid'', u8_t),
      (''twt_sta_dl'', u16_t),
      (''twt_sta_config_changed_valid'', u8_t),
      (''twt_sta_config_changed'', u8_t)]"

definition ims_private_service_wfc_call_twt_config_rsp_msg_v01_t :: ctype where [layout]:
  "ims_private_service_wfc_call_twt_config_rsp_msg_v01_t = Struct
     [(''resp'', qmi_response_type_v01_t)]"

definition ims_private_service_header_value_v01_ei :: "qmi_elem_info list" where [layout]:
  "ims_private_service_header_value_v01_ei =
     [Elem QMI_STRING (IMS_PRIVATE_SERVICE_HEADER_STR_LEN_V01 + 1) (csizeof char_t) NO_ARRAY 0 (offsetof ims_private_service_header_value_v01_t ''header'') None,
      Elem QMI_STRING (IMS_PRIVATE_SERVICE_HEADER_STR_LEN_V01 + 1) (csizeof char_t) NO_ARRAY 0 (offsetof ims_private_service_header_value_v01_t ''value'') None,
      Elem QMI_EOTI 0 0 NO_ARRAY 0 0 None]"

definition ims_private_service_subscribe_for_indications_req_msg_v01_ei :: "qmi_elem_info list" where [layout]:
  "ims_private_service_subscribe_for_indications_req_msg_v01_ei =
     [Elem QMI_OPT_FLAG 1 (csizeof u8_t) NO_ARRAY 0x10 (offsetof ims_private_service_subscribe_for_indications_req_msg_v01_t ''mt_invite_valid'') None,
      Elem QMI_UNSIGNED_1_BYTE 1 (csizeof u8_t) NO_ARRAY 0x10 (offsetof ims_private_service_subscribe_for_indications_req_msg_v01_t ''mt_invite'') None,
      Elem QMI_OPT_FLAG 1 (csizeof u8_t) NO_ARRAY 0x11 (offsetof ims_private_service_subscribe_for_indications_req_msg_v01_t ''wfc_call_status_valid'') None,
      Elem QMI_UNSIGNED_1_BYTE 1 (csizeof u8_t) NO_ARRAY 0x11 (offsetof ims_private_service_subscribe_for_indications_req_msg_v01_t ''wfc_call_status'') None,
      Elem QMI_EOTI 0 0 NO_ARRAY 0 0 None]"

definition ims_private_service_subscribe_for_indications_rsp_msg_v01_ei :: "qmi_elem_info list" where [layout]:
  "ims_private_service_subscribe_for_indications_rsp_msg_v01_ei =
     [Elem QMI_STRUCT 1 (csizeof qmi_response_type_v01_t) NO_ARRAY 0x02 (offsetof ims_private_service_subscribe_for_indications_rsp_msg_v01_t ''resp'') (Some qmi_response_type_v01_ei),
      Elem QMI_EOTI 0 0 NO_ARRAY 0 0 None]"

definition ims_private_service_mt_invite_ind_msg_v01_ei :: "qmi_elem_info list" where [layout]:
  "ims_private_service_mt_invite_ind_msg_v01_ei =
     [Elem QMI_SIGNED_4_BYTE_ENUM 1 (csizeof enum_t) NO_ARRAY 0x01 (offsetof ims_private_service_mt_invite_ind_msg_v01_t ''subscription_type'') None,
      Elem QMI_OPT_FLAG 1 (csizeof u8_t) NO_ARRAY 0x10 (offsetof ims_private_service_mt_invite_ind_msg_v01_t ''iccid_valid'') None,
      Elem QMI_STRING (IMS_PRIVATE_SERVICE_MAX_ICCID_LEN_V01 + 1) (csizeof char_t) NO_ARRAY 0x10 (offsetof ims_private_service_mt_invite_ind_msg_v01_t ''iccid'') None,
      Elem QMI_OPT_FLAG 1 (csizeof u8_t) NO_ARRAY 0x11 (offsetof ims_private_service_mt_invite_ind_msg_v01_t ''header_value_list_valid'') None,
      Elem QMI_DATA_LEN 1 (csizeof u8_t) NO_ARRAY 0x11 (offsetof ims_private_service_mt_invite_ind_msg_v01_t ''header_value_list_len'') None,
      Elem QMI_STRUCT IMS_PRIVATE_SERVICE_MAX_MT_INVITE_HEADERS_V01 (csizeof ims_private_service_header_value_v01_t) VAR_LEN_ARRAY 0x11 (offsetof ims_private_service_mt_invite_ind_msg_v01_t ''header_value_list'') (Some ims_private_service_header_value_v01_ei),
      Elem QMI_EOTI 0 0 NO_ARRAY 0 0 None]"

definition ims_private_service_wfc_call_status_ind_msg_v01_ei :: "qmi_elem_info list" where [layout]:
  "ims_private_service_wfc_call_status_ind_msg_v01_ei =
     [Elem QMI_UNSIGNED_1_BYTE 1 (csizeof u8_t) NO_ARRAY 0x01 (offsetof ims_private_service_wfc_call_status_ind_msg_v01_t ''wfc_call_active'') None,
      Elem QMI_OPT_FLAG 1 (csizeof u8_t) NO_ARRAY 0x10 (offsetof ims_private_service_wfc_call_status_ind_msg_v01_t ''all_wfc_calls_held_valid'') None,
      Elem QMI_UNSIGNED_1_BYTE 1 (csizeof u8_t) NO_ARRAY 0x10 (offsetof ims_private_service_wfc_call_status_ind_msg_v01_t ''all_wfc_calls_held'') None,
      Elem QMI_OPT_FLAG 1 (csizeof u8_t) NO_ARRAY 0x11 (offsetof ims_private_service_wfc_call_status_ind_msg_v01_t ''is_wfc_emergency_valid'') None,
      Elem QMI_UNSIGNED_1_BYTE 1 (csizeof u8_t) NO_ARRAY 0x11 (offsetof ims_private_service_wfc_call_status_ind_msg_v01_t ''is_wfc_emergency'') None,
      Elem QMI_OPT_FLAG 1 (csizeof u8_t) NO_ARRAY 0x12 (offsetof ims_private_service_wfc_call_status_ind_msg_v01_t ''twt_ims_start_valid'') None,
      Elem QMI_UNSIGNED_8_BYTE 1 (csizeof u64_t) NO_ARRAY 0x12 (offsetof ims_private_service_wfc_call_status_ind_msg_v01_t ''twt_ims_start'') None,
      Elem QMI_OPT_FLAG 1 (csizeof u8_t) NO_ARRAY 0x13 (offsetof ims_private_service_wfc_call_status_ind_msg_v01_t ''twt_ims_int_valid'') None,
      Elem QMI_UNSIGNED_2_BYTE 1 (csizeof u16_t) NO_ARRAY 0x13 (offsetof ims_private_service_wfc_call_status_ind_msg_v01_t ''twt_ims_int'') None,
      Elem QMI_OPT_FLAG 1 (csizeof u8_t) NO_ARRAY 0x14 (offsetof ims_private_service_wfc_call_status_ind_msg_v01_t ''media_quality_valid'') None,
      Elem QMI_SIGNED_4_BYTE_ENUM 1 (csizeof enum_t) NO_ARRAY 0x14 (offsetof ims_private_service_wfc_call_status_ind_msg_v01_t ''media_quality'') None,
      Elem QMI_EOTI 0 0 NO_ARRAY 0 0 None]"

definition ims_private_service_wfc_call_twt_config_req_msg_v01_ei :: "qmi_elem_info list" where [layout]:
  "ims_private_service_wfc_call_twt_config_req_msg_v01_ei =
     [Elem QMI_OPT_FLAG 1 (csizeof u8_t) NO_ARRAY 0x10 (offsetof ims_private_service_wfc_call_twt_config_req_msg_v01_t ''twt_sta_start_valid'') None,
      Elem QMI_UNSIGNED_8_BYTE 1 (csizeof u64_t) NO_ARRAY 0x10 (offsetof ims_private_service_wfc_call_twt_config_req_msg_v01_t ''twt_sta_start'') None,
      Elem QMI_OPT_FLAG 1 (csizeof u8_t) NO_ARRAY 0x11 (offsetof ims_private_service_wfc_call_twt_config_req_msg_v01_t ''twt_sta_int_valid'') None,
      Elem QMI_UNSIGNED_2_BYTE 1 (csizeof u16_t) NO_ARRAY 0x11 (offsetof ims_private_service_wfc_call_twt_config_req_msg_v01_t ''twt_sta_int'') None,
      Elem QMI_OPT_FLAG 1 (csizeof u8_t) NO_ARRAY 0x12 (offsetof ims_private_service_wfc_call_twt_config_req_msg_v01_t ''twt_sta_upo_valid'') None,
      Elem QMI_UNSIGNED_2_BYTE 1 (csizeof u16_t) NO_ARRAY 0x12 (offsetof ims_private_service_wfc_call_twt_config_req_msg_v01_t ''twt_sta_upo'') None,
      Elem QMI_OPT_FLAG 1 (csizeof u8_t) NO_ARRAY 0x13 (offsetof ims_private_service_wfc_call_twt_config_req_msg_v01_t ''twt_sta_sp_valid'') None,
      Elem QMI_UNSIGNED_2_BYTE 1 (csizeof u16_t) NO_ARRAY 0x13 (offsetof ims_private_service_wfc_call_twt_config_req_msg_v01_t ''twt_sta_sp'') None,
      Elem QMI_OPT_FLAG 1 (csizeof u8_t) NO_ARRAY 0x14 (offsetof ims_private_service_wfc_call_twt_config_req_msg_v01_t ''twt_sta_dl_valid'') None,
      Elem QMI_UNSIGNED_2_BYTE 1 (csizeof u16_t) NO_ARRAY 0x14 (offsetof ims_private_service_wfc_call_twt_config_req_msg_v01_t ''twt_sta_dl'') None,
      Elem QMI_OPT_FLAG 1 (csizeof u8_t) NO_ARRAY 0x15 (offsetof ims_private_service_wfc_call_twt_config_req_msg_v01_t ''twt_sta_config_changed_valid'') None,
      Elem QMI_UNSIGNED_1_BYTE 1 (csizeof u8_t) NO_ARRAY 0x15 (offsetof ims_private_service_wfc_call_twt_config_req_msg_v01_t ''twt_sta_config_changed'') None,
      Elem QMI_EOTI 0 0 NO_ARRAY 0 0 None]"

definition ims_private_service_wfc_call_twt_config_rsp_msg_v01_ei :: "qmi_elem_info list" where [layout]:
  "ims_private_service_wfc_call_twt_config_rsp_msg_v01_ei =
     [Elem QMI_STRUCT 1 (csizeof qmi_response_type_v01_t) NO_ARRAY 0x02 (offsetof ims_private_service_wfc_call_twt_config_rsp_msg_v01_t ''resp'') (Some qmi_response_type_v01_ei),
      Elem QMI_EOTI 0 0 NO_ARRAY 0 0 None]"

section \<open>Device management service\<close>

text \<open>\<open>drivers/net/wireless/cnss_utils/device_management_service_v01.c\<close>.\<close>

abbreviation (input) QMI_DMS_MAC_ADDR_MAX_V01 :: "'a::numeral" where "QMI_DMS_MAC_ADDR_MAX_V01 \<equiv> 8"

definition dms_get_mac_address_req_msg_v01_t :: ctype where [layout]:
  "dms_get_mac_address_req_msg_v01_t = Struct
     [(''device'', enum_t)]"

definition dms_get_mac_address_resp_msg_v01_t :: ctype where [layout]:
  "dms_get_mac_address_resp_msg_v01_t = Struct
     [(''resp'', qmi_response_type_v01_t),
      (''mac_address_valid'', u8_t),
      (''mac_address_len'', u32_t),
      (''mac_address'', Arr u8_t QMI_DMS_MAC_ADDR_MAX_V01)]"

definition dms_get_mac_address_req_msg_v01_ei :: "qmi_elem_info list" where [layout]:
  "dms_get_mac_address_req_msg_v01_ei =
     [Elem QMI_SIGNED_4_BYTE_ENUM 1 (csizeof enum_t) NO_ARRAY 0x01 (offsetof dms_get_mac_address_req_msg_v01_t ''device'') None,
      Elem QMI_EOTI 0 0 NO_ARRAY 0 0 None]"

definition dms_get_mac_address_resp_msg_v01_ei :: "qmi_elem_info list" where [layout]:
  "dms_get_mac_address_resp_msg_v01_ei =
     [Elem QMI_STRUCT 1 (csizeof qmi_response_type_v01_t) NO_ARRAY 0x02 (offsetof dms_get_mac_address_resp_msg_v01_t ''resp'') (Some qmi_response_type_v01_ei),
      Elem QMI_OPT_FLAG 1 (csizeof u8_t) NO_ARRAY 0x10 (offsetof dms_get_mac_address_resp_msg_v01_t ''mac_address_valid'') None,
      Elem QMI_DATA_LEN 1 (csizeof u8_t) NO_ARRAY 0x10 (offsetof dms_get_mac_address_resp_msg_v01_t ''mac_address_len'') None,
      Elem QMI_UNSIGNED_1_BYTE QMI_DMS_MAC_ADDR_MAX_V01 (csizeof u8_t) VAR_LEN_ARRAY 0x10 (offsetof dms_get_mac_address_resp_msg_v01_t ''mac_address'') None,
      Elem QMI_EOTI 0 0 NO_ARRAY 0 0 None]"

section \<open>USB audio service\<close>

text \<open>\<open>sound/usb/usb_audio_qmi_v01.c\<close>.\<close>

definition mem_info_v01_t :: ctype where [layout]:
  "mem_info_v01_t = Struct
     [(''va'', u64_t),
      (''pa'', u64_t),
      (''size'', u32_t)]"

definition apps_mem_info_v01_t :: ctype where [layout]:
  "apps_mem_info_v01_t = Struct
     [(''evt_ring'', mem_info_v01_t),
      (''tr_data'', mem_info_v01_t),
      (''tr_sync'', mem_info_v01_t),
      (''xfer_buff'', mem_info_v01_t),
      (''dcba'', mem_info_v01_t)]"

definition usb_endpoint_descriptor_v01_t :: ctype where [layout]:
  "usb_endpoint_descriptor_v01_t = Struct
     [(''bLength'', u8_t),
      (''bDescriptorType'', u8_t),
      (''bEndpointAddress'', u8_t),
      (''bmAttributes'', u8_t),
      (''wMaxPacketSize'', u16_t),
      (''bInterval'', u8_t),
      (''bRefresh'', u8_t),
      (''bSynchAddress'', u8_t)]"

definition usb_interface_descriptor_v01_t :: ctype where [layout]:
  "usb_interface_descriptor_v01_t = Struct
     [(''bLength'', u8_t),
      (''bDescriptorType'', u8_t),
      (''bInterfaceNumber'', u8_t),
      (''bAlternateSetting'', u8_t),
      (''bNumEndpoints'', u8_t),
      (''bInterfaceClass'', u8_t),
      (''bInterfaceSubClass'', u8_t),
      (''bInterfaceProtocol'', u8_t),
      (''iInterface'', u8_t)]"

definition qmi_uaudio_stream_req_msg_v01_t :: ctype where [layout]:
  "qmi_uaudio_stream_req_msg_v01_t = Struct
     [(''enable'', u8_t),
      (''usb_token'', u32_t),
      (''audio_format_valid'', u8_t),
      (''audio_format'', u32_t),
      (''number_of_ch_valid'', u8_t),
      (''number_of_ch'', u32_t),
      (''bit_rate_valid'', u8_t),
      (''bit_rate'', u32_t),
      (''xfer_buff_size_valid'', u8_t),
      (''xfer_buff_size'', u32_t),
      (''service_interval_valid'', u8_t),
      (''service_interval'', u32_t)]"

definition qmi_uaudio_stream_resp_msg_v01_t :: ctype where [layout]:
  "qmi_uaudio_stream_resp_msg_v01_t = Struct
     [(''resp'', qmi_response_type_v01_t),
      (''status_valid'', u8_t),
      (''status'', enum_t),
      (''internal_status_valid'', u8_t),
      (''internal_status'', u32_t),
      (''slot_id_valid'', u8_t),
      (''slot_id'', u32_t),
      (''usb_token_valid'', u8_t),
      (''usb_token'', u32_t),
      (''std_as_opr_intf_desc_valid'', u8_t),
      (''std_as_opr_intf_desc'', usb_interface_descriptor_v01_t),
      (''std_as_data_ep_desc_valid'', u8_t),
      (''std_as_data_ep_desc'', usb_endpoint_descriptor_v01_t),
      (''std_as_sync_ep_desc_valid'', u8_t),
      (''std_as_sync_ep_desc'', usb_endpoint_descriptor_v01_t),
      (''usb_audio_spec_revision_valid'', u8_t),
      (''usb_audio_spec_revision'', u16_t),
      (''data_path_delay_valid'', u8_t),
      (''data_path_delay'', u8_t),
      (''usb_audio_subslot_size_valid'', u8_t),
      (''usb_audio_subslot_size'', u8_t),
      (''xhci_mem_info_valid'', u8_t),
      (''xhci_mem_info'', apps_mem_info_v01_t),
      (''interrupter_num_valid'', u8_t),
      (''interrupter_num'', u8_t),
      (''speed_info_valid'', u8_t),
      (''speed_info'', enum_t),
      (''controller_num_valid'', u8_t),
      (''controller_num'', u8_t)]"

definition qmi_uaudio_stream_ind_msg_v01_t :: ctype where [layout]:
  "qmi_uaudio_stream_ind_msg_v01_t = Struct
     [(''dev_event'', enum_t),
      (''slot_id'', u32_t),
      (''usb_token_valid'', u8_t),
      (''usb_token'', u32_t),
      (''std_as_opr_intf_desc_valid'', u8_t),
      (''std_as_opr_intf_desc'', usb_interface_descriptor_v01_t),
      (''std_as_data_ep_desc_valid'', u8_t),
      (''std_as_data_ep_desc'', usb_endpoint_descriptor_v01_t),
      (''std_as_sync_ep_desc_valid'', u8_t),
      (''std_as_sync_ep_desc'', usb_endpoint_descriptor_v01_t),
      (''usb_audio_spec_revision_valid'', u8_t),
      (''usb_audio_spec_revision'', u16_t),
      (''data_path_delay_valid'', u8_t),
      (''data_path_delay'', u8_t),
      (''usb_audio_subslot_size_valid'', u8_t),
      (''usb_audio_subslot_size'', u8_t),
      (''xhci_mem_info_valid'', u8_t),
      (''xhci_mem_info'', apps_mem_info_v01_t),
      (''interrupter_num_valid'', u8_t),
      (''interrupter_num'', u8_t),
      (''controller_num_valid'', u8_t),
      (''controller_num'', u8_t)]"

definition mem_info_v01_ei :: "qmi_elem_info list" where [layout]:
  "mem_info_v01_ei =
     [Elem QMI_UNSIGNED_8_BYTE 1 (csizeof u64_t) NO_ARRAY 0 (offsetof mem_info_v01_t ''va'') None,
      Elem QMI_UNSIGNED_8_BYTE 1 (csizeof u64_t) NO_ARRAY 0 (offsetof mem_info_v01_t ''pa'') None,
      Elem QMI_UNSIGNED_4_BYTE 1 (csizeof u32_t) NO_ARRAY 0 (offsetof mem_info_v01_t ''size'') None,
      Elem QMI_EOTI 0 0 NO_ARRAY 0 0 None]"

definition apps_mem_info_v01_ei :: "qmi_elem_info list" where [layout]:
  "apps_mem_info_v01_ei =
     [Elem QMI_STRUCT 1 (csizeof mem_info_v01_t) NO_ARRAY 0 (offsetof apps_mem_info_v01_t ''evt_ring'') (Some mem_info_v01_ei),
      Elem QMI_STRUCT 1 (csizeof mem_info_v01_t) NO_ARRAY 0 (offsetof apps_mem_info_v01_t ''tr_data'') (Some mem_info_v01_ei),
      Elem QMI_STRUCT 1 (csizeof mem_info_v01_t) NO_ARRAY 0 (offsetof apps_mem_info_v01_t ''tr_sync'') (Some mem_info_v01_ei),
      Elem QMI_STRUCT 1 (csizeof mem_info_v01_t) NO_ARRAY 0 (offsetof apps_mem_info_v01_t ''xfer_buff'') (Some mem_info_v01_ei),
      Elem QMI_STRUCT 1 (csizeof mem_info_v01_t) NO_ARRAY 0 (offsetof apps_mem_info_v01_t ''dcba'') (Some mem_info_v01_ei),
      Elem QMI_EOTI 0 0 NO_ARRAY 0 0 None]"

definition usb_endpoint_descriptor_v01_ei :: "qmi_elem_info list" where [layout]:
  "usb_endpoint_descriptor_v01_ei =
     [Elem QMI_UNSIGNED_1_BYTE 1 (csizeof u8_t) NO_ARRAY 0 (offsetof usb_endpoint_descriptor_v01_t ''bLength'') None,
      Elem QMI_UNSIGNED_1_BYTE 1 (csizeof u8_t) NO_ARRAY 0 (offsetof usb_endpoint_descriptor_v01_t ''bDescriptorType'') None,
      Elem QMI_UNSIGNED_1_BYTE 1 (csizeof u8_t) NO_ARRAY 0 (offsetof usb_endpoint_descriptor_v01_t ''bEndpointAddress'') None,
      Elem QMI_UNSIGNED_1_BYTE 1 (csizeof u8_t) NO_ARRAY 0 (offsetof usb_endpoint_descriptor_v01_t ''bmAttributes'') None,
      Elem QMI_UNSIGNED_2_BYTE 1 (csizeof u16_t) NO_ARRAY 0 (offsetof usb_endpoint_descriptor_v01_t ''wMaxPacketSize'') None,
      Elem QMI_UNSIGNED_1_BYTE 1 (csizeof u8_t) NO_ARRAY 0 (offsetof usb_endpoint_descriptor_v01_t ''bInterval'') None,
      Elem QMI_UNSIGNED_1_BYTE 1 (csizeof u8_t) NO_ARRAY 0 (offsetof usb_endpoint_descriptor_v01_t ''bRefresh'') None,
      Elem QMI_UNSIGNED_1_BYTE 1 (csizeof u8_t) NO_ARRAY 0 (offsetof usb_endpoint_descriptor_v01_t ''bSynchAddress'') None,
      Elem QMI_EOTI 0 0 NO_ARRAY 0 0 None]"

definition usb_interface_descriptor_v01_ei :: "qmi_elem_info list" where [layout]:
  "usb_interface_descriptor_v01_ei =
     [Elem QMI_UNSIGNED_1_BYTE 1 (csizeof u8_t) NO_ARRAY 0 (offsetof usb_interface_descriptor_v01_t ''bLength'') None,
      Elem QMI_UNSIGNED_1_BYTE 1 (csizeof u8_t) NO_ARRAY 0 (offsetof usb_interface_descriptor_v01_t ''bDescriptorType'') None,
      Elem QMI_UNSIGNED_1_BYTE 1 (csizeof u8_t) NO_ARRAY 0 (offsetof usb_interface_descriptor_v01_t ''bInterfaceNumber'') None,
      Elem QMI_UNSIGNED_1_BYTE 1 (csizeof u8_t) NO_ARRAY 0 (offsetof usb_interface_descriptor_v01_t ''bAlternateSetting'') None,
      Elem QMI_UNSIGNED_1_BYTE 1 (csizeof u8_t) NO_ARRAY 0 (offsetof usb_interface_descriptor_v01_t ''bNumEndpoints'') None,
      Elem QMI_UNSIGNED_1_BYTE 1 (csizeof u8_t) NO_ARRAY 0 (offsetof usb_interface_descriptor_v01_t ''bInterfaceClass'') None,
      Elem QMI_UNSIGNED_1_BYTE 1 (csizeof u8_t) NO_ARRAY 0 (offsetof usb_interface_descriptor_v01_t ''bInterfaceSubClass'') None,
      Elem QMI_UNSIGNED_1_BYTE 1 (csizeof u8_t) NO_ARRAY 0 (offsetof usb_interface_descriptor_v01_t ''bInterfaceProtocol'') None,
      Elem QMI_UNSIGNED_1_BYTE 1 (csizeof u8_t) NO_ARRAY 0 (offsetof usb_interface_descriptor_v01_t ''iInterface'') None,
      Elem QMI_EOTI 0 0 NO_ARRAY 0 0 None]"

definition qmi_uaudio_stream_req_msg_v01_ei :: "qmi_elem_info list" where [layout]:
  "qmi_uaudio_stream_req_msg_v01_ei =
     [Elem QMI_UNSIGNED_1_BYTE 1 (csizeof u8_t) NO_ARRAY 0x01 (offsetof qmi_uaudio_stream_req_msg_v01_t ''enable'') None,
      Elem QMI_UNSIGNED_4_BYTE 1 (csizeof u32_t) NO_ARRAY 0x02 (offsetof qmi_uaudio_stream_req_msg_v01_t ''usb_token'') None,
      Elem QMI_OPT_FLAG 1 (csizeof u8_t) NO_ARRAY 0x10 (offsetof qmi_uaudio_stream_req_msg_v01_t ''audio_format_valid'') None,
      Elem QMI_UNSIGNED_4_BYTE 1 (csizeof u32_t) NO_ARRAY 0x10 (offsetof qmi_uaudio_stream_req_msg_v01_t ''audio_format'') None,
      Elem QMI_OPT_FLAG 1 (csizeof u8_t) NO_ARRAY 0x11 (offsetof qmi_uaudio_stream_req_msg_v01_t ''number_of_ch_valid'') None,
      Elem QMI_UNSIGNED_4_BYTE 1 (csizeof u32_t) NO_ARRAY 0x11 (offsetof qmi_uaudio_stream_req_msg_v01_t ''number_of_ch'') None,
      Elem QMI_OPT_FLAG 1 (csizeof u8_t) NO_ARRAY 0x12 (offsetof qmi_uaudio_stream_req_msg_v01_t ''bit_rate_valid'') None,
      Elem QMI_UNSIGNED_4_BYTE 1 (csizeof u32_t) NO_ARRAY 0x12 (offsetof qmi_uaudio_stream_req_msg_v01_t ''bit_rate'') None,
      Elem QMI_OPT_FLAG 1 (csizeof u8_t) NO_ARRAY 0x13 (offsetof qmi_uaudio_stream_req_msg_v01_t ''xfer_buff_size_valid'') None,
      Elem QMI_UNSIGNED_4_BYTE 1 (csizeof u32_t) NO_ARRAY 0x13 (offsetof qmi_uaudio_stream_req_msg_v01_t ''xfer_buff_size'') None,
      Elem QMI_OPT_FLAG 1 (csizeof u8_t) NO_ARRAY 0x14 (offsetof qmi_uaudio_stream_req_msg_v01_t ''service_interval_valid'') None,
      Elem QMI_UNSIGNED_4_BYTE 1 (csizeof u32_t) NO_ARRAY 0x14 (offsetof qmi_uaudio_stream_req_msg_v01_t ''service_interval'') None,
      Elem QMI_EOTI 0 0 NO_ARRAY 0 0 None]"

definition qmi_uaudio_stream_resp_msg_v01_ei :: "qmi_elem_info list" where [layout]:
  "qmi_uaudio_stream_resp_msg_v01_ei =
     [Elem QMI_STRUCT 1 (csizeof qmi_response_type_v01_t) NO_ARRAY 0x02 (offsetof qmi_uaudio_stream_resp_msg_v01_t ''resp'') (Some qmi_response_type_v01_ei),
      Elem QMI_OPT_FLAG 1 (csizeof u8_t) NO_ARRAY 0x10 (offsetof qmi_uaudio_stream_resp_msg_v01_t ''status_valid'') None,
      Elem QMI_SIGNED_4_BYTE_ENUM 1 (csizeof enum_t) NO_ARRAY 0x10 (offsetof qmi_uaudio_stream_resp_msg_v01_t ''status'') None,
      Elem QMI_OPT_FLAG 1 (csizeof u8_t) NO_ARRAY 0x11 (offsetof qmi_uaudio_stream_resp_msg_v01_t ''internal_status_valid'') None,
      Elem QMI_UNSIGNED_4_BYTE 1 (csizeof u32_t) NO_ARRAY 0x11 (offsetof qmi_uaudio_stream_resp_msg_v01_t ''internal_status'') None,
      Elem QMI_OPT_FLAG 1 (csizeof u8_t) NO_ARRAY 0x12 (offsetof qmi_uaudio_stream_resp_msg_v01_t ''slot_id_valid'') None,
      Elem QMI_UNSIGNED_4_BYTE 1 (csizeof u32_t) NO_ARRAY 0x12 (offsetof qmi_uaudio_stream_resp_msg_v01_t ''slot_id'') None,
      Elem QMI_OPT_FLAG 1 (csizeof u8_t) NO_ARRAY 0x13 (offsetof qmi_uaudio_stream_resp_msg_v01_t ''usb_token_valid'') None,
      Elem QMI_UNSIGNED_4_BYTE 1 (csizeof u32_t) NO_ARRAY 0x13 (offsetof qmi_uaudio_stream_resp_msg_v01_t ''usb_token'') None,
      Elem QMI_OPT_FLAG 1 (csizeof u8_t) NO_ARRAY 0x14 (offsetof qmi_uaudio_stream_resp_msg_v01_t ''std_as_opr_intf_desc_valid'') None,
      Elem QMI_STRUCT 1 (csizeof usb_interface_descriptor_v01_t) NO_ARRAY 0x14 (offsetof qmi_uaudio_stream_resp_msg_v01_t ''std_as_opr_intf_desc'') (Some usb_interface_descriptor_v01_ei),
      Elem QMI_OPT_FLAG 1 (csizeof u8_t) NO_ARRAY 0x15 (offsetof qmi_uaudio_stream_resp_msg_v01_t ''std_as_data_ep_desc_valid'') None,
      Elem QMI_STRUCT 1 (csizeof usb_endpoint_descriptor_v01_t) NO_ARRAY 0x15 (offsetof qmi_uaudio_stream_resp_msg_v01_t ''std_as_data_ep_desc'') (Some usb_endpoint_descriptor_v01_ei),
      Elem QMI_OPT_FLAG 1 (csizeof u8_t) NO_ARRAY 0x16 (offsetof qmi_uaudio_stream_resp_msg_v01_t ''std_as_sync_ep_desc_valid'') None,
      Elem QMI_STRUCT 1 (csizeof usb_endpoint_descriptor_v01_t) NO_ARRAY 0x16 (offsetof qmi_uaudio_stream_resp_msg_v01_t ''std_as_sync_ep_desc'') (Some usb_endpoint_descriptor_v01_ei),
      Elem QMI_OPT_FLAG 1 (csizeof u8_t) NO_ARRAY 0x17 (offsetof qmi_uaudio_stream_resp_msg_v01_t ''usb_audio_spec_revision_valid'') None,
      Elem QMI_UNSIGNED_2_BYTE 1 (csizeof u16_t) NO_ARRAY 0x17 (offsetof qmi_uaudio_stream_resp_msg_v01_t ''usb_audio_spec_revision'') None,
      Elem QMI_OPT_FLAG 1 (csizeof u8_t) NO_ARRAY 0x18 (offsetof qmi_uaudio_stream_resp_msg_v01_t ''data_path_delay_valid'') None,
      Elem QMI_UNSIGNED_1_BYTE 1 (csizeof u8_t) NO_ARRAY 0x18 (offsetof qmi_uaudio_stream_resp_msg_v01_t ''data_path_delay'') None,
      Elem QMI_OPT_FLAG 1 (csizeof u8_t) NO_ARRAY 0x19 (offsetof qmi_uaudio_stream_resp_msg_v01_t ''usb_audio_subslot_size_valid'') None,
      Elem QMI_UNSIGNED_1_BYTE 1 (csizeof u8_t) NO_ARRAY 0x19 (offsetof qmi_uaudio_stream_resp_msg_v01_t ''usb_audio_subslot_size'') None,
      Elem QMI_OPT_FLAG 1 (csizeof u8_t) NO_ARRAY 0x1A (offsetof qmi_uaudio_stream_resp_msg_v01_t ''xhci_mem_info_valid'') None,
      Elem QMI_STRUCT 1 (csizeof apps_mem_info_v01_t) NO_ARRAY 0x1A (offsetof qmi_uaudio_stream_resp_msg_v01_t ''xhci_mem_info'') (Some apps_mem_info_v01_ei),
      Elem QMI_OPT_FLAG 1 (csizeof u8_t) NO_ARRAY 0x1B (offsetof qmi_uaudio_stream_resp_msg_v01_t ''interrupter_num_valid'') None,
      Elem QMI_UNSIGNED_1_BYTE 1 (csizeof u8_t) NO_ARRAY 0x1B (offsetof qmi_uaudio_stream_resp_msg_v01_t ''interrupter_num'') None,
      Elem QMI_OPT_FLAG 1 (csizeof u8_t) NO_ARRAY 0x1C (offsetof qmi_uaudio_stream_resp_msg_v01_t ''speed_info_valid'') None,
      Elem QMI_SIGNED_4_BYTE_ENUM 1 (csizeof enum_t) NO_ARRAY 0x1C (offsetof qmi_uaudio_stream_resp_msg_v01_t ''speed_info'') None,
      Elem QMI_OPT_FLAG 1 (csizeof u8_t) NO_ARRAY 0x1D (offsetof qmi_uaudio_stream_resp_msg_v01_t ''controller_num_valid'') None,
      Elem QMI_UNSIGNED_1_BYTE 1 (csizeof u8_t) NO_ARRAY 0x1D (offsetof qmi_uaudio_stream_resp_msg_v01_t ''controller_num'') None,
      Elem QMI_EOTI 0 0 NO_ARRAY 0 0 None]"

definition qmi_uaudio_stream_ind_msg_v01_ei :: "qmi_elem_info list" where [layout]:
  "qmi_uaudio_stream_ind_msg_v01_ei =
     [Elem QMI_SIGNED_4_BYTE_ENUM 1 (csizeof enum_t) NO_ARRAY 0x01 (offsetof qmi_uaudio_stream_ind_msg_v01_t ''dev_event'') None,
      Elem QMI_UNSIGNED_4_BYTE 1 (csizeof u32_t) NO_ARRAY 0x02 (offsetof qmi_uaudio_stream_ind_msg_v01_t ''slot_id'') None,
      Elem QMI_OPT_FLAG 1 (csizeof u8_t) NO_ARRAY 0x10 (offsetof qmi_uaudio_stream_ind_msg_v01_t ''usb_token_valid'') None,
      Elem QMI_UNSIGNED_4_BYTE 1 (csizeof u32_t) NO_ARRAY 0x10 (offsetof qmi_uaudio_stream_ind_msg_v01_t ''usb_token'') None,
      Elem QMI_OPT_FLAG 1 (csizeof u8_t) NO_ARRAY 0x11 (offsetof qmi_uaudio_stream_ind_msg_v01_t ''std_as_opr_intf_desc_valid'') None,
      Elem QMI_STRUCT 1 (csizeof usb_interface_descriptor_v01_t) NO_ARRAY 0x11 (offsetof qmi_uaudio_stream_ind_msg_v01_t ''std_as_opr_intf_desc'') (Some usb_interface_descriptor_v01_ei),
      Elem QMI_OPT_FLAG 1 (csizeof u8_t) NO_ARRAY 0x12 (offsetof qmi_uaudio_stream_ind_msg_v01_t ''std_as_data_ep_desc_valid'') None,
      Elem QMI_STRUCT 1 (csizeof usb_endpoint_descriptor_v01_t) NO_ARRAY 0x12 (offsetof qmi_uaudio_stream_ind_msg_v01_t ''std_as_data_ep_desc'') (Some usb_endpoint_descriptor_v01_ei),
      Elem QMI_OPT_FLAG 1 (csizeof u8_t) NO_ARRAY 0x13 (offsetof qmi_uaudio_stream_ind_msg_v01_t ''std_as_sync_ep_desc_valid'') None,
      Elem QMI_STRUCT 1 (csizeof usb_endpoint_descriptor_v01_t) NO_ARRAY 0x13 (offsetof qmi_uaudio_stream_ind_msg_v01_t ''std_as_sync_ep_desc'') (Some usb_endpoint_descriptor_v01_ei),
      Elem QMI_OPT_FLAG 1 (csizeof u8_t) NO_ARRAY 0x14 (offsetof qmi_uaudio_stream_ind_msg_v01_t ''usb_audio_spec_revision_valid'') None,
      Elem QMI_UNSIGNED_2_BYTE 1 (csizeof u16_t) NO_ARRAY 0x14 (offsetof qmi_uaudio_stream_ind_msg_v01_t ''usb_audio_spec_revision'') None,
      Elem QMI_OPT_FLAG 1 (csizeof u8_t) NO_ARRAY 0x15 (offsetof qmi_uaudio_stream_ind_msg_v01_t ''data_path_delay_valid'') None,
      Elem QMI_UNSIGNED_1_BYTE 1 (csizeof u8_t) NO_ARRAY 0x15 (offsetof qmi_uaudio_stream_ind_msg_v01_t ''data_path_delay'') None,
      Elem QMI_OPT_FLAG 1 (csizeof u8_t) NO_ARRAY 0x16 (offsetof qmi_uaudio_stream_ind_msg_v01_t ''usb_audio_subslot_size_valid'') None,
      Elem QMI_UNSIGNED_1_BYTE 1 (csizeof u8_t) NO_ARRAY 0x16 (offsetof qmi_uaudio_stream_ind_msg_v01_t ''usb_audio_subslot_size'') None,
      Elem QMI_OPT_FLAG 1 (csizeof u8_t) NO_ARRAY 0x17 (offsetof qmi_uaudio_stream_ind_msg_v01_t ''xhci_mem_info_valid'') None,
      Elem QMI_STRUCT 1 (csizeof apps_mem_info_v01_t) NO_ARRAY 0x17 (offsetof qmi_uaudio_stream_ind_msg_v01_t ''xhci_mem_info'') (Some apps_mem_info_v01_ei),
      Elem QMI_OPT_FLAG 1 (csizeof u8_t) NO_ARRAY 0x18 (offsetof qmi_uaudio_stream_ind_msg_v01_t ''interrupter_num_valid'') None,
      Elem QMI_UNSIGNED_1_BYTE 1 (csizeof u8_t) NO_ARRAY 0x18 (offsetof qmi_uaudio_stream_ind_msg_v01_t ''interrupter_num'') None,
      Elem QMI_OPT_FLAG 1 (csizeof u8_t) NO_ARRAY 0x19 (offsetof qmi_uaudio_stream_ind_msg_v01_t ''controller_num_valid'') None,
      Elem QMI_UNSIGNED_1_BYTE 1 (csizeof u8_t) NO_ARRAY 0x19 (offsetof qmi_uaudio_stream_ind_msg_v01_t ''controller_num'') None,
      Elem QMI_EOTI 0 0 NO_ARRAY 0 0 None]"

section \<open>The table\<close>

text \<open>Each descriptor with the size of the structure it describes.\<close>

definition service_messages :: "(qmi_elem_info list \<times> nat) list" where
  "service_messages =
     [(ts_sensor_type_v01_ei, csize ts_sensor_type_v01_t),
      (ts_get_sensor_list_req_msg_v01_ei, 0),
      (ts_get_sensor_list_resp_msg_v01_ei, csize ts_get_sensor_list_resp_msg_v01_t),
      (ts_register_notification_temp_req_msg_v01_ei, csize ts_register_notification_temp_req_msg_v01_t),
      (ts_register_notification_temp_resp_msg_v01_ei, csize ts_register_notification_temp_resp_msg_v01_t),
      (ts_temp_report_ind_msg_v01_ei, csize ts_temp_report_ind_msg_v01_t),
      (tmd_mitigation_dev_id_type_v01_ei, csize tmd_mitigation_dev_id_type_v01_t),
      (tmd_mitigation_dev_list_type_v01_ei, csize tmd_mitigation_dev_list_type_v01_t),
      (tmd_get_mitigation_device_list_req_msg_v01_ei, 0),
      (tmd_get_mitigation_device_list_resp_msg_v01_ei, csize tmd_get_mitigation_device_list_resp_msg_v01_t),
      (tmd_set_mitigation_level_req_msg_v01_ei, csize tmd_set_mitigation_level_req_msg_v01_t),
      (tmd_set_mitigation_level_resp_msg_v01_ei, csize tmd_set_mitigation_level_resp_msg_v01_t),
      (tmd_get_mitigation_level_req_msg_v01_ei, csize tmd_get_mitigation_level_req_msg_v01_t),
      (tmd_get_mitigation_level_resp_msg_v01_ei, csize tmd_get_mitigation_level_resp_msg_v01_t),
      (tmd_register_notification_mitigation_level_req_msg_v01_ei, csize tmd_register_notification_mitigation_level_req_msg_v01_t),
      (tmd_register_notification_mitigation_level_resp_msg_v01_ei, csize tmd_register_notification_mitigation_level_resp_msg_v01_t),
      (tmd_deregister_notification_mitigation_level_req_msg_v01_ei, csize tmd_deregister_notification_mitigation_level_req_msg_v01_t),
      (tmd_deregister_notification_mitigation_level_resp_msg_v01_ei, csize tmd_deregister_notification_mitigation_level_resp_msg_v01_t),
      (tmd_mitigation_level_report_ind_msg_v01_ei, csize tmd_mitigation_level_report_ind_msg_v01_t),
      (dhms_mem_alloc_addr_info_type_v01_ei, csize dhms_mem_alloc_addr_info_type_v01_t),
      (mem_alloc_generic_req_msg_data_v01_ei, csize mem_alloc_generic_req_msg_v01_t),
      (mem_alloc_generic_resp_msg_data_v01_ei, csize mem_alloc_generic_resp_msg_v01_t),
      (mem_free_generic_req_msg_data_v01_ei, csize mem_free_generic_req_msg_v01_t),
      (mem_free_generic_resp_msg_data_v01_ei, csize mem_free_generic_resp_msg_v01_t),
      (mem_query_size_req_msg_data_v01_ei, csize mem_query_size_req_msg_v01_t),
      (mem_query_size_resp_msg_data_v01_ei, csize mem_query_size_rsp_msg_v01_t),
      (prod_set_lpm_vote_req_msg_v01_ei, csize prod_set_lpm_vote_req_msg_v01_t),
      (prod_set_lpm_vote_resp_msg_v01_ei, csize prod_set_lpm_vote_resp_msg_v01_t),
      (qmi_ssctl_indication_ei, 0),
      (qmi_ssctl_subsys_event_req_msg_ei, csize qmi_ssctl_subsys_event_req_msg_t),
      (qmi_ssctl_subsys_event_resp_msg_ei, csize qmi_ssctl_subsys_event_resp_msg_t),
      (qmi_ssctl_shutdown_req_msg_ei, 0),
      (qmi_ssctl_shutdown_resp_msg_ei, csize qmi_ssctl_shutdown_resp_msg_t),
      (qmi_ssctl_get_failure_reason_req_msg_ei, 0),
      (qmi_ssctl_get_failure_reason_resp_msg_ei, csize qmi_ssctl_get_failure_reason_resp_msg_t),
      (servreg_loc_entry_v01_ei, csize servreg_loc_entry_v01_t),
      (qmi_servreg_loc_indication_register_req_msg_v01_ei, csize qmi_servreg_loc_indication_register_req_msg_v01_t),
      (qmi_servreg_loc_indication_register_resp_msg_v01_ei, csize qmi_servreg_loc_indication_register_resp_msg_v01_t),
      (qmi_servreg_loc_get_domain_list_req_msg_v01_ei, csize qmi_servreg_loc_get_domain_list_req_msg_v01_t),
      (qmi_servreg_loc_get_domain_list_resp_msg_v01_ei, csize qmi_servreg_loc_get_domain_list_resp_msg_v01_t),
      (qmi_servreg_loc_register_service_list_req_msg_v01_ei, csize qmi_servreg_loc_register_service_list_req_msg_v01_t),
      (qmi_servreg_loc_register_service_list_resp_msg_v01_ei, csize qmi_servreg_loc_register_service_list_resp_msg_v01_t),
      (qmi_servreg_loc_database_updated_ind_msg_v01_ei, 0),
      (qmi_servreg_notif_register_listener_req_msg_v01_ei, csize qmi_servreg_notif_register_listener_req_msg_v01_t),
      (qmi_servreg_notif_register_listener_resp_msg_v01_ei, csize qmi_servreg_notif_register_listener_resp_msg_v01_t),
      (qmi_servreg_notif_query_state_req_msg_v01_ei, csize qmi_servreg_notif_query_state_req_msg_v01_t),
      (qmi_servreg_notif_query_state_resp_msg_v01_ei, csize qmi_servreg_notif_query_state_resp_msg_v01_t),
      (qmi_servreg_notif_state_updated_ind_msg_v01_ei, csize qmi_servreg_notif_state_updated_ind_msg_v01_t),
      (qmi_servreg_notif_set_ack_req_msg_v01_ei, csize qmi_servreg_notif_set_ack_req_msg_v01_t),
      (qmi_servreg_notif_set_ack_resp_msg_v01_ei, csize qmi_servreg_notif_set_ack_resp_msg_v01_t),
      (qmi_servreg_notif_restart_pd_req_msg_v01_ei, csize qmi_servreg_notif_restart_pd_req_msg_v01_t),
      (qmi_servreg_notif_restart_pd_resp_msg_v01_ei, csize qmi_servreg_notif_restart_pd_resp_msg_v01_t),
      (slimbus_select_inst_req_msg_v01_ei, csize slimbus_select_inst_req_msg_v01_t),
      (slimbus_select_inst_resp_msg_v01_ei, csize slimbus_select_inst_resp_msg_v01_t),
      (slimbus_power_req_msg_v01_ei, csize slimbus_power_req_msg_v01_t),
      (slimbus_power_resp_msg_v01_ei, csize slimbus_power_resp_msg_v01_t),
      (slimbus_chkfrm_resp_msg_v01_ei, csize slimbus_chkfrm_resp_msg_t),
      (slimbus_deferred_status_resp_msg_v01_ei, csize slimbus_deferred_status_resp_t),
      (coex_antenna_switch_to_wlan_req_msg_v01_ei, csize coex_antenna_switch_to_wlan_req_msg_v01_t),
      (coex_antenna_switch_to_wlan_resp_msg_v01_ei, csize coex_antenna_switch_to_wlan_resp_msg_v01_t),
      (coex_antenna_switch_to_mdm_req_msg_v01_ei, csize coex_antenna_switch_to_mdm_req_msg_v01_t),
      (coex_antenna_switch_to_mdm_resp_msg_v01_ei, csize coex_antenna_switch_to_mdm_resp_msg_v01_t),
      (ims_private_service_header_value_v01_ei, csize ims_private_service_header_value_v01_t),
      (ims_private_service_subscribe_for_indications_req_msg_v01_ei, csize ims_private_service_subscribe_for_indications_req_msg_v01_t),
      (ims_private_service_subscribe_for_indications_rsp_msg_v01_ei, csize ims_private_service_subscribe_for_indications_rsp_msg_v01_t),
      (ims_private_service_mt_invite_ind_msg_v01_ei, csize ims_private_service_mt_invite_ind_msg_v01_t),
      (ims_private_service_wfc_call_status_ind_msg_v01_ei, csize ims_private_service_wfc_call_status_ind_msg_v01_t),
      (ims_private_service_wfc_call_twt_config_req_msg_v01_ei, csize ims_private_service_wfc_call_twt_config_req_msg_v01_t),
      (ims_private_service_wfc_call_twt_config_rsp_msg_v01_ei, csize ims_private_service_wfc_call_twt_config_rsp_msg_v01_t),
      (dms_get_mac_address_req_msg_v01_ei, csize dms_get_mac_address_req_msg_v01_t),
      (dms_get_mac_address_resp_msg_v01_ei, csize dms_get_mac_address_resp_msg_v01_t),
      (mem_info_v01_ei, csize mem_info_v01_t),
      (apps_mem_info_v01_ei, csize apps_mem_info_v01_t),
      (usb_endpoint_descriptor_v01_ei, csize usb_endpoint_descriptor_v01_t),
      (usb_interface_descriptor_v01_ei, csize usb_interface_descriptor_v01_t),
      (qmi_uaudio_stream_req_msg_v01_ei, csize qmi_uaudio_stream_req_msg_v01_t),
      (qmi_uaudio_stream_resp_msg_v01_ei, csize qmi_uaudio_stream_resp_msg_v01_t),
      (qmi_uaudio_stream_ind_msg_v01_ei, csize qmi_uaudio_stream_ind_msg_v01_t)]"

lemma service_messages_fit: "list_all (\<lambda>(es, n). list_all (elem_fits n) es) service_messages"
  by code_simp

end
