(* ===== verification/Qmi_Wlan.thy ===== *)
theory Qmi_Wlan
  imports Qmi_Layout
begin

text \<open>
  The message descriptors of the WLAN firmware service, with the C structures they describe, and the check
  that every element of every descriptor lies inside its structure.
\<close>

section \<open>WLAN firmware service\<close>

text \<open>\<open>drivers/net/wireless/cnss_utils/wlan_firmware_service_v01.c\<close>.\<close>

abbreviation (input) QMI_WLFW_MAX_NUM_CAL_V01 :: "'a::numeral" where "QMI_WLFW_MAX_NUM_CAL_V01 \<equiv> 5"
abbreviation (input) QMI_WLFW_MAX_PLATFORM_NAME_LEN_V01 :: "'a::numeral" where "QMI_WLFW_MAX_PLATFORM_NAME_LEN_V01 \<equiv> 64"
abbreviation (input) QMI_WLFW_MAX_HOST_DDR_RANGE_SIZE_V01 :: "'a::numeral" where "QMI_WLFW_MAX_HOST_DDR_RANGE_SIZE_V01 \<equiv> 3"
abbreviation (input) QMI_WLFW_MAX_NUM_SHADOW_REG_V01 :: "'a::numeral" where "QMI_WLFW_MAX_NUM_SHADOW_REG_V01 \<equiv> 24"
abbreviation (input) QMI_WLFW_MAX_BUILD_ID_LEN_V01 :: "'a::numeral" where "QMI_WLFW_MAX_BUILD_ID_LEN_V01 \<equiv> 128"
abbreviation (input) QMI_WLFW_MAX_DEV_MEM_NUM_V01 :: "'a::numeral" where "QMI_WLFW_MAX_DEV_MEM_NUM_V01 \<equiv> 4"
abbreviation (input) QMI_WLFW_MAX_NUM_MLO_LINKS_PER_CHIP_V01 :: "'a::numeral" where "QMI_WLFW_MAX_NUM_MLO_LINKS_PER_CHIP_V01 \<equiv> 2"
abbreviation (input) QMI_WLFW_MAX_NUM_SVC_V01 :: "'a::numeral" where "QMI_WLFW_MAX_NUM_SVC_V01 \<equiv> 24"
abbreviation (input) QMI_WLFW_MAX_NUM_MEMORY_REGIONS_V01 :: "'a::numeral" where "QMI_WLFW_MAX_NUM_MEMORY_REGIONS_V01 \<equiv> 2"
abbreviation (input) QMI_WLFW_MAC_ADDR_SIZE_V01 :: "'a::numeral" where "QMI_WLFW_MAC_ADDR_SIZE_V01 \<equiv> 6"
abbreviation (input) QMI_WLFW_MAX_NUM_MEM_CFG_V01 :: "'a::numeral" where "QMI_WLFW_MAX_NUM_MEM_CFG_V01 \<equiv> 2"
abbreviation (input) QMI_WLFW_MAX_NUM_MEM_SEG_V01 :: "'a::numeral" where "QMI_WLFW_MAX_NUM_MEM_SEG_V01 \<equiv> 52"
abbreviation (input) QMI_WLFW_MAX_WFC_CALL_STATUS_DATA_SIZE_V01 :: "'a::numeral" where "QMI_WLFW_MAX_WFC_CALL_STATUS_DATA_SIZE_V01 \<equiv> 256"
abbreviation (input) QMI_WLFW_MAX_DATA_SIZE_V01 :: "'a::numeral" where "QMI_WLFW_MAX_DATA_SIZE_V01 \<equiv> 6144"
abbreviation (input) QMI_WLFW_FUNCTION_NAME_LEN_V01 :: "'a::numeral" where "QMI_WLFW_FUNCTION_NAME_LEN_V01 \<equiv> 128"
abbreviation (input) QMI_WLFW_MAX_NUM_CE_V01 :: "'a::numeral" where "QMI_WLFW_MAX_NUM_CE_V01 \<equiv> 12"
abbreviation (input) QMI_WLFW_MAX_TIMESTAMP_LEN_V01 :: "'a::numeral" where "QMI_WLFW_MAX_TIMESTAMP_LEN_V01 \<equiv> 32"
abbreviation (input) QMI_WLFW_MAX_M3_SEGMENTS_SIZE_V01 :: "'a::numeral" where "QMI_WLFW_MAX_M3_SEGMENTS_SIZE_V01 \<equiv> 10"
abbreviation (input) QMI_WLFW_MAX_STR_LEN_V01 :: "'a::numeral" where "QMI_WLFW_MAX_STR_LEN_V01 \<equiv> 16"
abbreviation (input) QMI_WLFW_MAX_NUM_SHADOW_REG_V2_V01 :: "'a::numeral" where "QMI_WLFW_MAX_NUM_SHADOW_REG_V2_V01 \<equiv> 36"
abbreviation (input) QMI_WLFW_MAX_ATHDIAG_DATA_SIZE_V01 :: "'a::numeral" where "QMI_WLFW_MAX_ATHDIAG_DATA_SIZE_V01 \<equiv> 6144"
abbreviation (input) QMI_WLFW_MAX_NUM_GPIO_V01 :: "'a::numeral" where "QMI_WLFW_MAX_NUM_GPIO_V01 \<equiv> 32"
abbreviation (input) QMI_WLFW_MAX_NUM_MLO_CHIPS_V01 :: "'a::numeral" where "QMI_WLFW_MAX_NUM_MLO_CHIPS_V01 \<equiv> 3"

definition wlfw_ce_tgt_pipe_cfg_s_v01_t :: ctype where [layout]:
  "wlfw_ce_tgt_pipe_cfg_s_v01_t = Struct
     [(''pipe_num'', u32_t),
      (''pipe_dir'', enum_t),
      (''nentries'', u32_t),
      (''nbytes_max'', u32_t),
      (''flags'', u32_t)]"

definition wlfw_ce_svc_pipe_cfg_s_v01_t :: ctype where [layout]:
  "wlfw_ce_svc_pipe_cfg_s_v01_t = Struct
     [(''service_id'', u32_t),
      (''pipe_dir'', enum_t),
      (''pipe_num'', u32_t)]"

definition wlfw_shadow_reg_cfg_s_v01_t :: ctype where [layout]:
  "wlfw_shadow_reg_cfg_s_v01_t = Struct
     [(''id'', u16_t),
      (''offset'', u16_t)]"

definition wlfw_shadow_reg_v2_cfg_s_v01_t :: ctype where [layout]:
  "wlfw_shadow_reg_v2_cfg_s_v01_t = Struct
     [(''addr'', u32_t)]"

definition wlfw_rri_over_ddr_cfg_s_v01_t :: ctype where [layout]:
  "wlfw_rri_over_ddr_cfg_s_v01_t = Struct
     [(''base_addr_low'', u32_t),
      (''base_addr_high'', u32_t)]"

definition wlfw_msi_cfg_s_v01_t :: ctype where [layout]:
  "wlfw_msi_cfg_s_v01_t = Struct
     [(''ce_id'', u16_t),
      (''msi_vector'', u16_t)]"

definition wlfw_memory_region_info_s_v01_t :: ctype where [layout]:
  "wlfw_memory_region_info_s_v01_t = Struct
     [(''region_addr'', u64_t),
      (''size'', u32_t),
      (''secure_flag'', u8_t)]"

definition wlfw_mem_cfg_s_v01_t :: ctype where [layout]:
  "wlfw_mem_cfg_s_v01_t = Struct
     [(''offset'', u64_t),
      (''size'', u32_t),
      (''secure_flag'', u8_t)]"

definition wlfw_mem_seg_s_v01_t :: ctype where [layout]:
  "wlfw_mem_seg_s_v01_t = Struct
     [(''size'', u32_t),
      (''type'', enum_t),
      (''mem_cfg_len'', u32_t),
      (''mem_cfg'', Arr wlfw_mem_cfg_s_v01_t QMI_WLFW_MAX_NUM_MEM_CFG_V01)]"

definition wlfw_mem_seg_resp_s_v01_t :: ctype where [layout]:
  "wlfw_mem_seg_resp_s_v01_t = Struct
     [(''addr'', u64_t),
      (''size'', u32_t),
      (''type'', enum_t),
      (''restore'', u8_t)]"

definition wlfw_rf_chip_info_s_v01_t :: ctype where [layout]:
  "wlfw_rf_chip_info_s_v01_t = Struct
     [(''chip_id'', u32_t),
      (''chip_family'', u32_t)]"

definition wlfw_rf_board_info_s_v01_t :: ctype where [layout]:
  "wlfw_rf_board_info_s_v01_t = Struct
     [(''board_id'', u32_t)]"

definition wlfw_soc_info_s_v01_t :: ctype where [layout]:
  "wlfw_soc_info_s_v01_t = Struct
     [(''soc_id'', u32_t)]"

definition wlfw_fw_version_info_s_v01_t :: ctype where [layout]:
  "wlfw_fw_version_info_s_v01_t = Struct
     [(''fw_version'', u32_t),
      (''fw_build_timestamp'', Arr char_t (QMI_WLFW_MAX_TIMESTAMP_LEN_V01 + 1))]"

definition wlfw_host_ddr_range_s_v01_t :: ctype where [layout]:
  "wlfw_host_ddr_range_s_v01_t = Struct
     [(''start'', u64_t),
      (''size'', u64_t)]"

definition wlfw_m3_segment_info_s_v01_t :: ctype where [layout]:
  "wlfw_m3_segment_info_s_v01_t = Struct
     [(''type'', enum_t),
      (''addr'', u64_t),
      (''size'', u64_t),
      (''name'', Arr char_t (QMI_WLFW_MAX_STR_LEN_V01 + 1))]"

definition wlfw_dev_mem_info_s_v01_t :: ctype where [layout]:
  "wlfw_dev_mem_info_s_v01_t = Struct
     [(''start'', u64_t),
      (''size'', u64_t)]"

definition wlfw_host_mlo_chip_info_s_v01_t :: ctype where [layout]:
  "wlfw_host_mlo_chip_info_s_v01_t = Struct
     [(''chip_id'', u8_t),
      (''num_local_links'', u8_t),
      (''hw_link_id'', Arr u8_t QMI_WLFW_MAX_NUM_MLO_LINKS_PER_CHIP_V01),
      (''valid_mlo_link_id'', Arr u8_t QMI_WLFW_MAX_NUM_MLO_LINKS_PER_CHIP_V01)]"

definition wlfw_ind_register_req_msg_v01_t :: ctype where [layout]:
  "wlfw_ind_register_req_msg_v01_t = Struct
     [(''fw_ready_enable_valid'', u8_t),
      (''fw_ready_enable'', u8_t),
      (''initiate_cal_download_enable_valid'', u8_t),
      (''initiate_cal_download_enable'', u8_t),
      (''initiate_cal_update_enable_valid'', u8_t),
      (''initiate_cal_update_enable'', u8_t),
      (''msa_ready_enable_valid'', u8_t),
      (''msa_ready_enable'', u8_t),
      (''pin_connect_result_enable_valid'', u8_t),
      (''pin_connect_result_enable'', u8_t),
      (''client_id_valid'', u8_t),
      (''client_id'', u32_t),
      (''request_mem_enable_valid'', u8_t),
      (''request_mem_enable'', u8_t),
      (''fw_mem_ready_enable_valid'', u8_t),
      (''fw_mem_ready_enable'', u8_t),
      (''fw_init_done_enable_valid'', u8_t),
      (''fw_init_done_enable'', u8_t),
      (''rejuvenate_enable_valid'', u8_t),
      (''rejuvenate_enable'', u32_t),
      (''xo_cal_enable_valid'', u8_t),
      (''xo_cal_enable'', u8_t),
      (''cal_done_enable_valid'', u8_t),
      (''cal_done_enable'', u8_t),
      (''qdss_trace_req_mem_enable_valid'', u8_t),
      (''qdss_trace_req_mem_enable'', u8_t),
      (''qdss_trace_save_enable_valid'', u8_t),
      (''qdss_trace_save_enable'', u8_t),
      (''qdss_trace_free_enable_valid'', u8_t),
      (''qdss_trace_free_enable'', u8_t),
      (''respond_get_info_enable_valid'', u8_t),
      (''respond_get_info_enable'', u8_t),
      (''m3_dump_upload_req_enable_valid'', u8_t),
      (''m3_dump_upload_req_enable'', u8_t),
      (''wfc_call_twt_config_enable_valid'', u8_t),
      (''wfc_call_twt_config_enable'', u8_t),
      (''qdss_mem_ready_enable_valid'', u8_t),
      (''qdss_mem_ready_enable'', u8_t),
      (''m3_dump_upload_segments_req_enable_valid'', u8_t),
      (''m3_dump_upload_segments_req_enable'', u8_t)]"

definition wlfw_ind_register_resp_msg_v01_t :: ctype where [layout]:
  "wlfw_ind_register_resp_msg_v01_t = Struct
     [(''resp'', qmi_response_type_v01_t),
      (''fw_status_valid'', u8_t),
      (''fw_status'', u64_t)]"

definition wlfw_msa_ready_ind_msg_v01_t :: ctype where [layout]:
  "wlfw_msa_ready_ind_msg_v01_t = Struct
     [(''hang_data_addr_offset_valid'', u8_t),
      (''hang_data_addr_offset'', u32_t),
      (''hang_data_length_valid'', u8_t),
      (''hang_data_length'', u16_t)]"

definition wlfw_pin_connect_result_ind_msg_v01_t :: ctype where [layout]:
  "wlfw_pin_connect_result_ind_msg_v01_t = Struct
     [(''pwr_pin_result_valid'', u8_t),
      (''pwr_pin_result'', u32_t),
      (''phy_io_pin_result_valid'', u8_t),
      (''phy_io_pin_result'', u32_t),
      (''rf_pin_result_valid'', u8_t),
      (''rf_pin_result'', u32_t)]"

definition wlfw_wlan_mode_req_msg_v01_t :: ctype where [layout]:
  "wlfw_wlan_mode_req_msg_v01_t = Struct
     [(''mode'', enum_t),
      (''hw_debug_valid'', u8_t),
      (''hw_debug'', u8_t)]"

definition wlfw_wlan_mode_resp_msg_v01_t :: ctype where [layout]:
  "wlfw_wlan_mode_resp_msg_v01_t = Struct
     [(''resp'', qmi_response_type_v01_t)]"

definition wlfw_wlan_cfg_req_msg_v01_t :: ctype where [layout]:
  "wlfw_wlan_cfg_req_msg_v01_t = Struct
     [(''host_version_valid'', u8_t),
      (''host_version'', Arr char_t (QMI_WLFW_MAX_STR_LEN_V01 + 1)),
      (''tgt_cfg_valid'', u8_t),
      (''tgt_cfg_len'', u32_t),
      (''tgt_cfg'', Arr wlfw_ce_tgt_pipe_cfg_s_v01_t QMI_WLFW_MAX_NUM_CE_V01),
      (''svc_cfg_valid'', u8_t),
      (''svc_cfg_len'', u32_t),
      (''svc_cfg'', Arr wlfw_ce_svc_pipe_cfg_s_v01_t QMI_WLFW_MAX_NUM_SVC_V01),
      (''shadow_reg_valid'', u8_t),
      (''shadow_reg_len'', u32_t),
      (''shadow_reg'', Arr wlfw_shadow_reg_cfg_s_v01_t QMI_WLFW_MAX_NUM_SHADOW_REG_V01),
      (''shadow_reg_v2_valid'', u8_t),
      (''shadow_reg_v2_len'', u32_t),
      (''shadow_reg_v2'', Arr wlfw_shadow_reg_v2_cfg_s_v01_t QMI_WLFW_MAX_NUM_SHADOW_REG_V2_V01),
      (''rri_over_ddr_cfg_valid'', u8_t),
      (''rri_over_ddr_cfg'', wlfw_rri_over_ddr_cfg_s_v01_t),
      (''msi_cfg_valid'', u8_t),
      (''msi_cfg_len'', u32_t),
      (''msi_cfg'', Arr wlfw_msi_cfg_s_v01_t QMI_WLFW_MAX_NUM_CE_V01)]"

definition wlfw_wlan_cfg_resp_msg_v01_t :: ctype where [layout]:
  "wlfw_wlan_cfg_resp_msg_v01_t = Struct
     [(''resp'', qmi_response_type_v01_t)]"

definition wlfw_cap_resp_msg_v01_t :: ctype where [layout]:
  "wlfw_cap_resp_msg_v01_t = Struct
     [(''resp'', qmi_response_type_v01_t),
      (''chip_info_valid'', u8_t),
      (''chip_info'', wlfw_rf_chip_info_s_v01_t),
      (''board_info_valid'', u8_t),
      (''board_info'', wlfw_rf_board_info_s_v01_t),
      (''soc_info_valid'', u8_t),
      (''soc_info'', wlfw_soc_info_s_v01_t),
      (''fw_version_info_valid'', u8_t),
      (''fw_version_info'', wlfw_fw_version_info_s_v01_t),
      (''fw_build_id_valid'', u8_t),
      (''fw_build_id'', Arr char_t (QMI_WLFW_MAX_BUILD_ID_LEN_V01 + 1)),
      (''num_macs_valid'', u8_t),
      (''num_macs'', u8_t),
      (''voltage_mv_valid'', u8_t),
      (''voltage_mv'', u32_t),
      (''time_freq_hz_valid'', u8_t),
      (''time_freq_hz'', u32_t),
      (''otp_version_valid'', u8_t),
      (''otp_version'', u32_t),
      (''eeprom_caldata_read_timeout_valid'', u8_t),
      (''eeprom_caldata_read_timeout'', u32_t),
      (''fw_caps_valid'', u8_t),
      (''fw_caps'', u64_t),
      (''rd_card_chain_cap_valid'', u8_t),
      (''rd_card_chain_cap'', enum_t),
      (''dev_mem_info_valid'', u8_t),
      (''dev_mem_info'', Arr wlfw_dev_mem_info_s_v01_t QMI_WLFW_MAX_DEV_MEM_NUM_V01),
      (''foundry_name_valid'', u8_t),
      (''foundry_name'', Arr char_t (QMI_WLFW_MAX_STR_LEN_V01 + 1))]"

definition wlfw_bdf_download_req_msg_v01_t :: ctype where [layout]:
  "wlfw_bdf_download_req_msg_v01_t = Struct
     [(''valid'', u8_t),
      (''file_id_valid'', u8_t),
      (''file_id'', enum_t),
      (''total_size_valid'', u8_t),
      (''total_size'', u32_t),
      (''seg_id_valid'', u8_t),
      (''seg_id'', u32_t),
      (''data_valid'', u8_t),
      (''data_len'', u32_t),
      (''data'', Arr u8_t QMI_WLFW_MAX_DATA_SIZE_V01),
      (''end_valid'', u8_t),
      (''end'', u8_t),
      (''bdf_type_valid'', u8_t),
      (''bdf_type'', u8_t)]"

definition wlfw_bdf_download_resp_msg_v01_t :: ctype where [layout]:
  "wlfw_bdf_download_resp_msg_v01_t = Struct
     [(''resp'', qmi_response_type_v01_t),
      (''host_bdf_data_valid'', u8_t),
      (''host_bdf_data'', u64_t)]"

definition wlfw_cal_report_req_msg_v01_t :: ctype where [layout]:
  "wlfw_cal_report_req_msg_v01_t = Struct
     [(''meta_data_len'', u32_t),
      (''meta_data'', Arr enum_t QMI_WLFW_MAX_NUM_CAL_V01),
      (''xo_cal_data_valid'', u8_t),
      (''xo_cal_data'', u8_t),
      (''cal_remove_supported_valid'', u8_t),
      (''cal_remove_supported'', u8_t),
      (''cal_file_download_size_valid'', u8_t),
      (''cal_file_download_size'', u64_t)]"

definition wlfw_cal_report_resp_msg_v01_t :: ctype where [layout]:
  "wlfw_cal_report_resp_msg_v01_t = Struct
     [(''resp'', qmi_response_type_v01_t)]"

definition wlfw_initiate_cal_download_ind_msg_v01_t :: ctype where [layout]:
  "wlfw_initiate_cal_download_ind_msg_v01_t = Struct
     [(''cal_id'', enum_t),
      (''total_size_valid'', u8_t),
      (''total_size'', u32_t),
      (''cal_data_location_valid'', u8_t),
      (''cal_data_location'', u32_t)]"

definition wlfw_cal_download_req_msg_v01_t :: ctype where [layout]:
  "wlfw_cal_download_req_msg_v01_t = Struct
     [(''valid'', u8_t),
      (''file_id_valid'', u8_t),
      (''file_id'', enum_t),
      (''total_size_valid'', u8_t),
      (''total_size'', u32_t),
      (''seg_id_valid'', u8_t),
      (''seg_id'', u32_t),
      (''data_valid'', u8_t),
      (''data_len'', u32_t),
      (''data'', Arr u8_t QMI_WLFW_MAX_DATA_SIZE_V01),
      (''end_valid'', u8_t),
      (''end'', u8_t),
      (''cal_data_location_valid'', u8_t),
      (''cal_data_location'', u32_t)]"

definition wlfw_cal_download_resp_msg_v01_t :: ctype where [layout]:
  "wlfw_cal_download_resp_msg_v01_t = Struct
     [(''resp'', qmi_response_type_v01_t)]"

definition wlfw_initiate_cal_update_ind_msg_v01_t :: ctype where [layout]:
  "wlfw_initiate_cal_update_ind_msg_v01_t = Struct
     [(''cal_id'', enum_t),
      (''total_size'', u32_t),
      (''cal_data_location_valid'', u8_t),
      (''cal_data_location'', u32_t)]"

definition wlfw_cal_update_req_msg_v01_t :: ctype where [layout]:
  "wlfw_cal_update_req_msg_v01_t = Struct
     [(''cal_id'', enum_t),
      (''seg_id'', u32_t)]"

definition wlfw_cal_update_resp_msg_v01_t :: ctype where [layout]:
  "wlfw_cal_update_resp_msg_v01_t = Struct
     [(''resp'', qmi_response_type_v01_t),
      (''file_id_valid'', u8_t),
      (''file_id'', enum_t),
      (''total_size_valid'', u8_t),
      (''total_size'', u32_t),
      (''seg_id_valid'', u8_t),
      (''seg_id'', u32_t),
      (''data_valid'', u8_t),
      (''data_len'', u32_t),
      (''data'', Arr u8_t QMI_WLFW_MAX_DATA_SIZE_V01),
      (''end_valid'', u8_t),
      (''end'', u8_t),
      (''cal_data_location_valid'', u8_t),
      (''cal_data_location'', u32_t)]"

definition wlfw_msa_info_req_msg_v01_t :: ctype where [layout]:
  "wlfw_msa_info_req_msg_v01_t = Struct
     [(''msa_addr'', u64_t),
      (''size'', u32_t)]"

definition wlfw_msa_info_resp_msg_v01_t :: ctype where [layout]:
  "wlfw_msa_info_resp_msg_v01_t = Struct
     [(''resp'', qmi_response_type_v01_t),
      (''mem_region_info_len'', u32_t),
      (''mem_region_info'', Arr wlfw_memory_region_info_s_v01_t QMI_WLFW_MAX_NUM_MEMORY_REGIONS_V01)]"

definition wlfw_msa_ready_resp_msg_v01_t :: ctype where [layout]:
  "wlfw_msa_ready_resp_msg_v01_t = Struct
     [(''resp'', qmi_response_type_v01_t)]"

definition wlfw_ini_req_msg_v01_t :: ctype where [layout]:
  "wlfw_ini_req_msg_v01_t = Struct
     [(''enablefwlog_valid'', u8_t),
      (''enablefwlog'', u8_t)]"

definition wlfw_ini_resp_msg_v01_t :: ctype where [layout]:
  "wlfw_ini_resp_msg_v01_t = Struct
     [(''resp'', qmi_response_type_v01_t)]"

definition wlfw_athdiag_read_req_msg_v01_t :: ctype where [layout]:
  "wlfw_athdiag_read_req_msg_v01_t = Struct
     [(''offset'', u32_t),
      (''mem_type'', u32_t),
      (''data_len'', u32_t)]"

definition wlfw_athdiag_read_resp_msg_v01_t :: ctype where [layout]:
  "wlfw_athdiag_read_resp_msg_v01_t = Struct
     [(''resp'', qmi_response_type_v01_t),
      (''data_valid'', u8_t),
      (''data_len'', u32_t),
      (''data'', Arr u8_t QMI_WLFW_MAX_ATHDIAG_DATA_SIZE_V01)]"

definition wlfw_athdiag_write_req_msg_v01_t :: ctype where [layout]:
  "wlfw_athdiag_write_req_msg_v01_t = Struct
     [(''offset'', u32_t),
      (''mem_type'', u32_t),
      (''data_len'', u32_t),
      (''data'', Arr u8_t QMI_WLFW_MAX_ATHDIAG_DATA_SIZE_V01)]"

definition wlfw_athdiag_write_resp_msg_v01_t :: ctype where [layout]:
  "wlfw_athdiag_write_resp_msg_v01_t = Struct
     [(''resp'', qmi_response_type_v01_t)]"

definition wlfw_vbatt_req_msg_v01_t :: ctype where [layout]:
  "wlfw_vbatt_req_msg_v01_t = Struct
     [(''voltage_uv'', u64_t)]"

definition wlfw_vbatt_resp_msg_v01_t :: ctype where [layout]:
  "wlfw_vbatt_resp_msg_v01_t = Struct
     [(''resp'', qmi_response_type_v01_t)]"

definition wlfw_mac_addr_req_msg_v01_t :: ctype where [layout]:
  "wlfw_mac_addr_req_msg_v01_t = Struct
     [(''mac_addr_valid'', u8_t),
      (''mac_addr'', Arr u8_t QMI_WLFW_MAC_ADDR_SIZE_V01)]"

definition wlfw_mac_addr_resp_msg_v01_t :: ctype where [layout]:
  "wlfw_mac_addr_resp_msg_v01_t = Struct
     [(''resp'', qmi_response_type_v01_t)]"

definition wlfw_host_cap_req_msg_v01_t :: ctype where [layout]:
  "wlfw_host_cap_req_msg_v01_t = Struct
     [(''num_clients_valid'', u8_t),
      (''num_clients'', u32_t),
      (''wake_msi_valid'', u8_t),
      (''wake_msi'', u32_t),
      (''gpios_valid'', u8_t),
      (''gpios_len'', u32_t),
      (''gpios'', Arr u32_t QMI_WLFW_MAX_NUM_GPIO_V01),
      (''nm_modem_valid'', u8_t),
      (''nm_modem'', u8_t),
      (''bdf_support_valid'', u8_t),
      (''bdf_support'', u8_t),
      (''bdf_cache_support_valid'', u8_t),
      (''bdf_cache_support'', u8_t),
      (''m3_support_valid'', u8_t),
      (''m3_support'', u8_t),
      (''m3_cache_support_valid'', u8_t),
      (''m3_cache_support'', u8_t),
      (''cal_filesys_support_valid'', u8_t),
      (''cal_filesys_support'', u8_t),
      (''cal_cache_support_valid'', u8_t),
      (''cal_cache_support'', u8_t),
      (''cal_done_valid'', u8_t),
      (''cal_done'', u8_t),
      (''mem_bucket_valid'', u8_t),
      (''mem_bucket'', u32_t),
      (''mem_cfg_mode_valid'', u8_t),
      (''mem_cfg_mode'', u8_t),
      (''cal_duration_valid'', u8_t),
      (''cal_duration'', u16_t),
      (''platform_name_valid'', u8_t),
      (''platform_name'', Arr char_t (QMI_WLFW_MAX_PLATFORM_NAME_LEN_V01 + 1)),
      (''ddr_range_valid'', u8_t),
      (''ddr_range'', Arr wlfw_host_ddr_range_s_v01_t QMI_WLFW_MAX_HOST_DDR_RANGE_SIZE_V01),
      (''host_build_type_valid'', u8_t),
      (''host_build_type'', enum_t),
      (''mlo_capable_valid'', u8_t),
      (''mlo_capable'', u8_t),
      (''mlo_chip_id_valid'', u8_t),
      (''mlo_chip_id'', u16_t),
      (''mlo_group_id_valid'', u8_t),
      (''mlo_group_id'', u8_t),
      (''max_mlo_peer_valid'', u8_t),
      (''max_mlo_peer'', u16_t),
      (''mlo_num_chips_valid'', u8_t),
      (''mlo_num_chips'', u8_t),
      (''mlo_chip_info_valid'', u8_t),
      (''mlo_chip_info'', Arr wlfw_host_mlo_chip_info_s_v01_t QMI_WLFW_MAX_NUM_MLO_CHIPS_V01),
      (''feature_list_valid'', u8_t),
      (''feature_list'', u64_t),
      (''num_wlan_clients_valid'', u8_t),
      (''num_wlan_clients'', u16_t),
      (''num_wlan_vaps_valid'', u8_t),
      (''num_wlan_vaps'', u8_t),
      (''wake_msi_addr_valid'', u8_t),
      (''wake_msi_addr'', u32_t),
      (''wlan_enable_delay_valid'', u8_t),
      (''wlan_enable_delay'', u32_t)]"

definition wlfw_host_cap_resp_msg_v01_t :: ctype where [layout]:
  "wlfw_host_cap_resp_msg_v01_t = Struct
     [(''resp'', qmi_response_type_v01_t)]"

definition wlfw_request_mem_ind_msg_v01_t :: ctype where [layout]:
  "wlfw_request_mem_ind_msg_v01_t = Struct
     [(''mem_seg_len'', u32_t),
      (''mem_seg'', Arr wlfw_mem_seg_s_v01_t QMI_WLFW_MAX_NUM_MEM_SEG_V01)]"

definition wlfw_respond_mem_req_msg_v01_t :: ctype where [layout]:
  "wlfw_respond_mem_req_msg_v01_t = Struct
     [(''mem_seg_len'', u32_t),
      (''mem_seg'', Arr wlfw_mem_seg_resp_s_v01_t QMI_WLFW_MAX_NUM_MEM_SEG_V01)]"

definition wlfw_respond_mem_resp_msg_v01_t :: ctype where [layout]:
  "wlfw_respond_mem_resp_msg_v01_t = Struct
     [(''resp'', qmi_response_type_v01_t)]"

definition wlfw_fw_init_done_ind_msg_v01_t :: ctype where [layout]:
  "wlfw_fw_init_done_ind_msg_v01_t = Struct
     [(''hang_data_addr_offset_valid'', u8_t),
      (''hang_data_addr_offset'', u32_t),
      (''hang_data_length_valid'', u8_t),
      (''hang_data_length'', u16_t)]"

definition wlfw_rejuvenate_ind_msg_v01_t :: ctype where [layout]:
  "wlfw_rejuvenate_ind_msg_v01_t = Struct
     [(''cause_for_rejuvenation_valid'', u8_t),
      (''cause_for_rejuvenation'', u8_t),
      (''requesting_sub_system_valid'', u8_t),
      (''requesting_sub_system'', u8_t),
      (''line_number_valid'', u8_t),
      (''line_number'', u16_t),
      (''function_name_valid'', u8_t),
      (''function_name'', Arr char_t (QMI_WLFW_FUNCTION_NAME_LEN_V01 + 1))]"

definition wlfw_rejuvenate_ack_resp_msg_v01_t :: ctype where [layout]:
  "wlfw_rejuvenate_ack_resp_msg_v01_t = Struct
     [(''resp'', qmi_response_type_v01_t)]"

definition wlfw_dynamic_feature_mask_req_msg_v01_t :: ctype where [layout]:
  "wlfw_dynamic_feature_mask_req_msg_v01_t = Struct
     [(''mask_valid'', u8_t),
      (''mask'', u64_t)]"

definition wlfw_dynamic_feature_mask_resp_msg_v01_t :: ctype where [layout]:
  "wlfw_dynamic_feature_mask_resp_msg_v01_t = Struct
     [(''resp'', qmi_response_type_v01_t),
      (''prev_mask_valid'', u8_t),
      (''prev_mask'', u64_t),
      (''curr_mask_valid'', u8_t),
      (''curr_mask'', u64_t)]"

definition wlfw_m3_info_req_msg_v01_t :: ctype where [layout]:
  "wlfw_m3_info_req_msg_v01_t = Struct
     [(''addr'', u64_t),
      (''size'', u32_t)]"

definition wlfw_m3_info_resp_msg_v01_t :: ctype where [layout]:
  "wlfw_m3_info_resp_msg_v01_t = Struct
     [(''resp'', qmi_response_type_v01_t)]"

definition wlfw_xo_cal_ind_msg_v01_t :: ctype where [layout]:
  "wlfw_xo_cal_ind_msg_v01_t = Struct
     [(''xo_cal_data'', u8_t)]"

definition wlfw_cal_done_ind_msg_v01_t :: ctype where [layout]:
  "wlfw_cal_done_ind_msg_v01_t = Struct
     [(''cal_file_upload_size_valid'', u8_t),
      (''cal_file_upload_size'', u64_t)]"

definition wlfw_qdss_trace_req_mem_ind_msg_v01_t :: ctype where [layout]:
  "wlfw_qdss_trace_req_mem_ind_msg_v01_t = Struct
     [(''mem_seg_len'', u32_t),
      (''mem_seg'', Arr wlfw_mem_seg_s_v01_t QMI_WLFW_MAX_NUM_MEM_SEG_V01)]"

definition wlfw_qdss_trace_mem_info_req_msg_v01_t :: ctype where [layout]:
  "wlfw_qdss_trace_mem_info_req_msg_v01_t = Struct
     [(''mem_seg_len'', u32_t),
      (''mem_seg'', Arr wlfw_mem_seg_resp_s_v01_t QMI_WLFW_MAX_NUM_MEM_SEG_V01)]"

definition wlfw_qdss_trace_mem_info_resp_msg_v01_t :: ctype where [layout]:
  "wlfw_qdss_trace_mem_info_resp_msg_v01_t = Struct
     [(''resp'', qmi_response_type_v01_t)]"

definition wlfw_qdss_trace_save_ind_msg_v01_t :: ctype where [layout]:
  "wlfw_qdss_trace_save_ind_msg_v01_t = Struct
     [(''source'', u32_t),
      (''total_size'', u32_t),
      (''mem_seg_valid'', u8_t),
      (''mem_seg_len'', u32_t),
      (''mem_seg'', Arr wlfw_mem_seg_resp_s_v01_t QMI_WLFW_MAX_NUM_MEM_SEG_V01),
      (''file_name_valid'', u8_t),
      (''file_name'', Arr char_t (QMI_WLFW_MAX_STR_LEN_V01 + 1))]"

definition wlfw_qdss_trace_data_req_msg_v01_t :: ctype where [layout]:
  "wlfw_qdss_trace_data_req_msg_v01_t = Struct
     [(''seg_id'', u32_t)]"

definition wlfw_qdss_trace_data_resp_msg_v01_t :: ctype where [layout]:
  "wlfw_qdss_trace_data_resp_msg_v01_t = Struct
     [(''resp'', qmi_response_type_v01_t),
      (''total_size_valid'', u8_t),
      (''total_size'', u32_t),
      (''seg_id_valid'', u8_t),
      (''seg_id'', u32_t),
      (''data_valid'', u8_t),
      (''data_len'', u32_t),
      (''data'', Arr u8_t QMI_WLFW_MAX_DATA_SIZE_V01),
      (''end_valid'', u8_t),
      (''end'', u8_t)]"

definition wlfw_qdss_trace_config_download_req_msg_v01_t :: ctype where [layout]:
  "wlfw_qdss_trace_config_download_req_msg_v01_t = Struct
     [(''total_size_valid'', u8_t),
      (''total_size'', u32_t),
      (''seg_id_valid'', u8_t),
      (''seg_id'', u32_t),
      (''data_valid'', u8_t),
      (''data_len'', u32_t),
      (''data'', Arr u8_t QMI_WLFW_MAX_DATA_SIZE_V01),
      (''end_valid'', u8_t),
      (''end'', u8_t)]"

definition wlfw_qdss_trace_config_download_resp_msg_v01_t :: ctype where [layout]:
  "wlfw_qdss_trace_config_download_resp_msg_v01_t = Struct
     [(''resp'', qmi_response_type_v01_t)]"

definition wlfw_qdss_trace_mode_req_msg_v01_t :: ctype where [layout]:
  "wlfw_qdss_trace_mode_req_msg_v01_t = Struct
     [(''mode_valid'', u8_t),
      (''mode'', enum_t),
      (''option_valid'', u8_t),
      (''option'', u64_t),
      (''hw_trc_disable_override_valid'', u8_t),
      (''hw_trc_disable_override'', enum_t)]"

definition wlfw_qdss_trace_mode_resp_msg_v01_t :: ctype where [layout]:
  "wlfw_qdss_trace_mode_resp_msg_v01_t = Struct
     [(''resp'', qmi_response_type_v01_t)]"

definition wlfw_qdss_trace_free_ind_msg_v01_t :: ctype where [layout]:
  "wlfw_qdss_trace_free_ind_msg_v01_t = Struct
     [(''mem_seg_valid'', u8_t),
      (''mem_seg_len'', u32_t),
      (''mem_seg'', Arr wlfw_mem_seg_resp_s_v01_t QMI_WLFW_MAX_NUM_MEM_SEG_V01)]"

definition wlfw_shutdown_req_msg_v01_t :: ctype where [layout]:
  "wlfw_shutdown_req_msg_v01_t = Struct
     [(''shutdown_valid'', u8_t),
      (''shutdown'', u8_t)]"

definition wlfw_shutdown_resp_msg_v01_t :: ctype where [layout]:
  "wlfw_shutdown_resp_msg_v01_t = Struct
     [(''resp'', qmi_response_type_v01_t)]"

definition wlfw_antenna_switch_resp_msg_v01_t :: ctype where [layout]:
  "wlfw_antenna_switch_resp_msg_v01_t = Struct
     [(''resp'', qmi_response_type_v01_t),
      (''antenna_valid'', u8_t),
      (''antenna'', u64_t)]"

definition wlfw_antenna_grant_req_msg_v01_t :: ctype where [layout]:
  "wlfw_antenna_grant_req_msg_v01_t = Struct
     [(''grant_valid'', u8_t),
      (''grant'', u64_t)]"

definition wlfw_antenna_grant_resp_msg_v01_t :: ctype where [layout]:
  "wlfw_antenna_grant_resp_msg_v01_t = Struct
     [(''resp'', qmi_response_type_v01_t)]"

definition wlfw_wfc_call_status_req_msg_v01_t :: ctype where [layout]:
  "wlfw_wfc_call_status_req_msg_v01_t = Struct
     [(''wfc_call_status_len'', u32_t),
      (''wfc_call_status'', Arr u8_t QMI_WLFW_MAX_WFC_CALL_STATUS_DATA_SIZE_V01),
      (''wfc_call_active_valid'', u8_t),
      (''wfc_call_active'', u8_t),
      (''all_wfc_calls_held_valid'', u8_t),
      (''all_wfc_calls_held'', u8_t),
      (''is_wfc_emergency_valid'', u8_t),
      (''is_wfc_emergency'', u8_t),
      (''twt_ims_start_valid'', u8_t),
      (''twt_ims_start'', u64_t),
      (''twt_ims_int_valid'', u8_t),
      (''twt_ims_int'', u16_t),
      (''media_quality_valid'', u8_t),
      (''media_quality'', enum_t)]"

definition wlfw_wfc_call_status_resp_msg_v01_t :: ctype where [layout]:
  "wlfw_wfc_call_status_resp_msg_v01_t = Struct
     [(''resp'', qmi_response_type_v01_t)]"

definition wlfw_get_info_req_msg_v01_t :: ctype where [layout]:
  "wlfw_get_info_req_msg_v01_t = Struct
     [(''type'', u8_t),
      (''data_len'', u32_t),
      (''data'', Arr u8_t QMI_WLFW_MAX_DATA_SIZE_V01)]"

definition wlfw_get_info_resp_msg_v01_t :: ctype where [layout]:
  "wlfw_get_info_resp_msg_v01_t = Struct
     [(''resp'', qmi_response_type_v01_t)]"

definition wlfw_respond_get_info_ind_msg_v01_t :: ctype where [layout]:
  "wlfw_respond_get_info_ind_msg_v01_t = Struct
     [(''data_len'', u32_t),
      (''data'', Arr u8_t QMI_WLFW_MAX_DATA_SIZE_V01),
      (''type_valid'', u8_t),
      (''type'', u8_t),
      (''is_last_valid'', u8_t),
      (''is_last'', u8_t),
      (''seq_no_valid'', u8_t),
      (''seq_no'', u32_t)]"

definition wlfw_device_info_resp_msg_v01_t :: ctype where [layout]:
  "wlfw_device_info_resp_msg_v01_t = Struct
     [(''resp'', qmi_response_type_v01_t),
      (''bar_addr_valid'', u8_t),
      (''bar_addr'', u64_t),
      (''bar_size_valid'', u8_t),
      (''bar_size'', u32_t),
      (''mhi_state_info_addr_valid'', u8_t),
      (''mhi_state_info_addr'', u64_t),
      (''mhi_state_info_size_valid'', u8_t),
      (''mhi_state_info_size'', u32_t)]"

definition wlfw_m3_dump_upload_req_ind_msg_v01_t :: ctype where [layout]:
  "wlfw_m3_dump_upload_req_ind_msg_v01_t = Struct
     [(''pdev_id'', u32_t),
      (''addr'', u64_t),
      (''size'', u64_t)]"

definition wlfw_m3_dump_upload_done_req_msg_v01_t :: ctype where [layout]:
  "wlfw_m3_dump_upload_done_req_msg_v01_t = Struct
     [(''pdev_id'', u32_t),
      (''status'', u32_t)]"

definition wlfw_m3_dump_upload_done_resp_msg_v01_t :: ctype where [layout]:
  "wlfw_m3_dump_upload_done_resp_msg_v01_t = Struct
     [(''resp'', qmi_response_type_v01_t)]"

definition wlfw_soc_wake_req_msg_v01_t :: ctype where [layout]:
  "wlfw_soc_wake_req_msg_v01_t = Struct
     [(''wake_valid'', u8_t),
      (''wake'', enum_t)]"

definition wlfw_soc_wake_resp_msg_v01_t :: ctype where [layout]:
  "wlfw_soc_wake_resp_msg_v01_t = Struct
     [(''resp'', qmi_response_type_v01_t)]"

definition wlfw_power_save_req_msg_v01_t :: ctype where [layout]:
  "wlfw_power_save_req_msg_v01_t = Struct
     [(''power_save_mode_valid'', u8_t),
      (''power_save_mode'', enum_t)]"

definition wlfw_power_save_resp_msg_v01_t :: ctype where [layout]:
  "wlfw_power_save_resp_msg_v01_t = Struct
     [(''resp'', qmi_response_type_v01_t)]"

definition wlfw_wfc_call_twt_config_ind_msg_v01_t :: ctype where [layout]:
  "wlfw_wfc_call_twt_config_ind_msg_v01_t = Struct
     [(''twt_sta_start_valid'', u8_t),
      (''twt_sta_start'', u64_t),
      (''twt_sta_int_valid'', u8_t),
      (''twt_sta_int'', u16_t),
      (''twt_sta_upo_valid'', u8_t),
      (''twt_sta_upo'', u16_t),
      (''twt_sta_sp_valid'', u8_t),
      (''twt_sta_sp'', u16_t),
      (''twt_sta_dl_valid'', u8_t),
      (''twt_sta_dl'', u16_t),
      (''twt_sta_config_changed_valid'', u8_t),
      (''twt_sta_config_changed'', u8_t)]"

definition wlfw_pcie_gen_switch_req_msg_v01_t :: ctype where [layout]:
  "wlfw_pcie_gen_switch_req_msg_v01_t = Struct
     [(''pcie_speed'', enum_t)]"

definition wlfw_pcie_gen_switch_resp_msg_v01_t :: ctype where [layout]:
  "wlfw_pcie_gen_switch_resp_msg_v01_t = Struct
     [(''resp'', qmi_response_type_v01_t)]"

definition wlfw_m3_dump_upload_segments_req_ind_msg_v01_t :: ctype where [layout]:
  "wlfw_m3_dump_upload_segments_req_ind_msg_v01_t = Struct
     [(''pdev_id'', u32_t),
      (''no_of_valid_segments'', u32_t),
      (''m3_segment'', Arr wlfw_m3_segment_info_s_v01_t QMI_WLFW_MAX_M3_SEGMENTS_SIZE_V01)]"

definition wlfw_subsys_restart_level_req_msg_v01_t :: ctype where [layout]:
  "wlfw_subsys_restart_level_req_msg_v01_t = Struct
     [(''restart_level_type_valid'', u8_t),
      (''restart_level_type'', u8_t)]"

definition wlfw_subsys_restart_level_resp_msg_v01_t :: ctype where [layout]:
  "wlfw_subsys_restart_level_resp_msg_v01_t = Struct
     [(''resp'', qmi_response_type_v01_t)]"

definition wlfw_ce_tgt_pipe_cfg_s_v01_ei :: "qmi_elem_info list" where [layout]:
  "wlfw_ce_tgt_pipe_cfg_s_v01_ei =
     [Elem QMI_UNSIGNED_4_BYTE 1 (csizeof u32_t) NO_ARRAY 0 (offsetof wlfw_ce_tgt_pipe_cfg_s_v01_t ''pipe_num'') None,
      Elem QMI_SIGNED_4_BYTE_ENUM 1 (csizeof enum_t) NO_ARRAY 0 (offsetof wlfw_ce_tgt_pipe_cfg_s_v01_t ''pipe_dir'') None,
      Elem QMI_UNSIGNED_4_BYTE 1 (csizeof u32_t) NO_ARRAY 0 (offsetof wlfw_ce_tgt_pipe_cfg_s_v01_t ''nentries'') None,
      Elem QMI_UNSIGNED_4_BYTE 1 (csizeof u32_t) NO_ARRAY 0 (offsetof wlfw_ce_tgt_pipe_cfg_s_v01_t ''nbytes_max'') None,
      Elem QMI_UNSIGNED_4_BYTE 1 (csizeof u32_t) NO_ARRAY 0 (offsetof wlfw_ce_tgt_pipe_cfg_s_v01_t ''flags'') None,
      Elem QMI_EOTI 0 0 NO_ARRAY 0 0 None]"

definition wlfw_ce_svc_pipe_cfg_s_v01_ei :: "qmi_elem_info list" where [layout]:
  "wlfw_ce_svc_pipe_cfg_s_v01_ei =
     [Elem QMI_UNSIGNED_4_BYTE 1 (csizeof u32_t) NO_ARRAY 0 (offsetof wlfw_ce_svc_pipe_cfg_s_v01_t ''service_id'') None,
      Elem QMI_SIGNED_4_BYTE_ENUM 1 (csizeof enum_t) NO_ARRAY 0 (offsetof wlfw_ce_svc_pipe_cfg_s_v01_t ''pipe_dir'') None,
      Elem QMI_UNSIGNED_4_BYTE 1 (csizeof u32_t) NO_ARRAY 0 (offsetof wlfw_ce_svc_pipe_cfg_s_v01_t ''pipe_num'') None,
      Elem QMI_EOTI 0 0 NO_ARRAY 0 0 None]"

definition wlfw_shadow_reg_cfg_s_v01_ei :: "qmi_elem_info list" where [layout]:
  "wlfw_shadow_reg_cfg_s_v01_ei =
     [Elem QMI_UNSIGNED_2_BYTE 1 (csizeof u16_t) NO_ARRAY 0 (offsetof wlfw_shadow_reg_cfg_s_v01_t ''id'') None,
      Elem QMI_UNSIGNED_2_BYTE 1 (csizeof u16_t) NO_ARRAY 0 (offsetof wlfw_shadow_reg_cfg_s_v01_t ''offset'') None,
      Elem QMI_EOTI 0 0 NO_ARRAY 0 0 None]"

definition wlfw_shadow_reg_v2_cfg_s_v01_ei :: "qmi_elem_info list" where [layout]:
  "wlfw_shadow_reg_v2_cfg_s_v01_ei =
     [Elem QMI_UNSIGNED_4_BYTE 1 (csizeof u32_t) NO_ARRAY 0 (offsetof wlfw_shadow_reg_v2_cfg_s_v01_t ''addr'') None,
      Elem QMI_EOTI 0 0 NO_ARRAY 0 0 None]"

definition wlfw_rri_over_ddr_cfg_s_v01_ei :: "qmi_elem_info list" where [layout]:
  "wlfw_rri_over_ddr_cfg_s_v01_ei =
     [Elem QMI_UNSIGNED_4_BYTE 1 (csizeof u32_t) NO_ARRAY 0 (offsetof wlfw_rri_over_ddr_cfg_s_v01_t ''base_addr_low'') None,
      Elem QMI_UNSIGNED_4_BYTE 1 (csizeof u32_t) NO_ARRAY 0 (offsetof wlfw_rri_over_ddr_cfg_s_v01_t ''base_addr_high'') None,
      Elem QMI_EOTI 0 0 NO_ARRAY 0 0 None]"

definition wlfw_msi_cfg_s_v01_ei :: "qmi_elem_info list" where [layout]:
  "wlfw_msi_cfg_s_v01_ei =
     [Elem QMI_UNSIGNED_2_BYTE 1 (csizeof u16_t) NO_ARRAY 0 (offsetof wlfw_msi_cfg_s_v01_t ''ce_id'') None,
      Elem QMI_UNSIGNED_2_BYTE 1 (csizeof u16_t) NO_ARRAY 0 (offsetof wlfw_msi_cfg_s_v01_t ''msi_vector'') None,
      Elem QMI_EOTI 0 0 NO_ARRAY 0 0 None]"

definition wlfw_memory_region_info_s_v01_ei :: "qmi_elem_info list" where [layout]:
  "wlfw_memory_region_info_s_v01_ei =
     [Elem QMI_UNSIGNED_8_BYTE 1 (csizeof u64_t) NO_ARRAY 0 (offsetof wlfw_memory_region_info_s_v01_t ''region_addr'') None,
      Elem QMI_UNSIGNED_4_BYTE 1 (csizeof u32_t) NO_ARRAY 0 (offsetof wlfw_memory_region_info_s_v01_t ''size'') None,
      Elem QMI_UNSIGNED_1_BYTE 1 (csizeof u8_t) NO_ARRAY 0 (offsetof wlfw_memory_region_info_s_v01_t ''secure_flag'') None,
      Elem QMI_EOTI 0 0 NO_ARRAY 0 0 None]"

definition wlfw_mem_cfg_s_v01_ei :: "qmi_elem_info list" where [layout]:
  "wlfw_mem_cfg_s_v01_ei =
     [Elem QMI_UNSIGNED_8_BYTE 1 (csizeof u64_t) NO_ARRAY 0 (offsetof wlfw_mem_cfg_s_v01_t ''offset'') None,
      Elem QMI_UNSIGNED_4_BYTE 1 (csizeof u32_t) NO_ARRAY 0 (offsetof wlfw_mem_cfg_s_v01_t ''size'') None,
      Elem QMI_UNSIGNED_1_BYTE 1 (csizeof u8_t) NO_ARRAY 0 (offsetof wlfw_mem_cfg_s_v01_t ''secure_flag'') None,
      Elem QMI_EOTI 0 0 NO_ARRAY 0 0 None]"

definition wlfw_mem_seg_s_v01_ei :: "qmi_elem_info list" where [layout]:
  "wlfw_mem_seg_s_v01_ei =
     [Elem QMI_UNSIGNED_4_BYTE 1 (csizeof u32_t) NO_ARRAY 0 (offsetof wlfw_mem_seg_s_v01_t ''size'') None,
      Elem QMI_SIGNED_4_BYTE_ENUM 1 (csizeof enum_t) NO_ARRAY 0 (offsetof wlfw_mem_seg_s_v01_t ''type'') None,
      Elem QMI_DATA_LEN 1 (csizeof u8_t) NO_ARRAY 0 (offsetof wlfw_mem_seg_s_v01_t ''mem_cfg_len'') None,
      Elem QMI_STRUCT QMI_WLFW_MAX_NUM_MEM_CFG_V01 (csizeof wlfw_mem_cfg_s_v01_t) VAR_LEN_ARRAY 0 (offsetof wlfw_mem_seg_s_v01_t ''mem_cfg'') (Some wlfw_mem_cfg_s_v01_ei),
      Elem QMI_EOTI 0 0 NO_ARRAY 0 0 None]"

definition wlfw_mem_seg_resp_s_v01_ei :: "qmi_elem_info list" where [layout]:
  "wlfw_mem_seg_resp_s_v01_ei =
     [Elem QMI_UNSIGNED_8_BYTE 1 (csizeof u64_t) NO_ARRAY 0 (offsetof wlfw_mem_seg_resp_s_v01_t ''addr'') None,
      Elem QMI_UNSIGNED_4_BYTE 1 (csizeof u32_t) NO_ARRAY 0 (offsetof wlfw_mem_seg_resp_s_v01_t ''size'') None,
      Elem QMI_SIGNED_4_BYTE_ENUM 1 (csizeof enum_t) NO_ARRAY 0 (offsetof wlfw_mem_seg_resp_s_v01_t ''type'') None,
      Elem QMI_UNSIGNED_1_BYTE 1 (csizeof u8_t) NO_ARRAY 0 (offsetof wlfw_mem_seg_resp_s_v01_t ''restore'') None,
      Elem QMI_EOTI 0 0 NO_ARRAY 0 0 None]"

definition wlfw_rf_chip_info_s_v01_ei :: "qmi_elem_info list" where [layout]:
  "wlfw_rf_chip_info_s_v01_ei =
     [Elem QMI_UNSIGNED_4_BYTE 1 (csizeof u32_t) NO_ARRAY 0 (offsetof wlfw_rf_chip_info_s_v01_t ''chip_id'') None,
      Elem QMI_UNSIGNED_4_BYTE 1 (csizeof u32_t) NO_ARRAY 0 (offsetof wlfw_rf_chip_info_s_v01_t ''chip_family'') None,
      Elem QMI_EOTI 0 0 NO_ARRAY 0 0 None]"

definition wlfw_rf_board_info_s_v01_ei :: "qmi_elem_info list" where [layout]:
  "wlfw_rf_board_info_s_v01_ei =
     [Elem QMI_UNSIGNED_4_BYTE 1 (csizeof u32_t) NO_ARRAY 0 (offsetof wlfw_rf_board_info_s_v01_t ''board_id'') None,
      Elem QMI_EOTI 0 0 NO_ARRAY 0 0 None]"

definition wlfw_soc_info_s_v01_ei :: "qmi_elem_info list" where [layout]:
  "wlfw_soc_info_s_v01_ei =
     [Elem QMI_UNSIGNED_4_BYTE 1 (csizeof u32_t) NO_ARRAY 0 (offsetof wlfw_soc_info_s_v01_t ''soc_id'') None,
      Elem QMI_EOTI 0 0 NO_ARRAY 0 0 None]"

definition wlfw_fw_version_info_s_v01_ei :: "qmi_elem_info list" where [layout]:
  "wlfw_fw_version_info_s_v01_ei =
     [Elem QMI_UNSIGNED_4_BYTE 1 (csizeof u32_t) NO_ARRAY 0 (offsetof wlfw_fw_version_info_s_v01_t ''fw_version'') None,
      Elem QMI_STRING (QMI_WLFW_MAX_TIMESTAMP_LEN_V01 + 1) (csizeof char_t) NO_ARRAY 0 (offsetof wlfw_fw_version_info_s_v01_t ''fw_build_timestamp'') None,
      Elem QMI_EOTI 0 0 NO_ARRAY 0 0 None]"

definition wlfw_host_ddr_range_s_v01_ei :: "qmi_elem_info list" where [layout]:
  "wlfw_host_ddr_range_s_v01_ei =
     [Elem QMI_UNSIGNED_8_BYTE 1 (csizeof u64_t) NO_ARRAY 0 (offsetof wlfw_host_ddr_range_s_v01_t ''start'') None,
      Elem QMI_UNSIGNED_8_BYTE 1 (csizeof u64_t) NO_ARRAY 0 (offsetof wlfw_host_ddr_range_s_v01_t ''size'') None,
      Elem QMI_EOTI 0 0 NO_ARRAY 0 0 None]"

definition wlfw_m3_segment_info_s_v01_ei :: "qmi_elem_info list" where [layout]:
  "wlfw_m3_segment_info_s_v01_ei =
     [Elem QMI_SIGNED_4_BYTE_ENUM 1 (csizeof enum_t) NO_ARRAY 0 (offsetof wlfw_m3_segment_info_s_v01_t ''type'') None,
      Elem QMI_UNSIGNED_8_BYTE 1 (csizeof u64_t) NO_ARRAY 0 (offsetof wlfw_m3_segment_info_s_v01_t ''addr'') None,
      Elem QMI_UNSIGNED_8_BYTE 1 (csizeof u64_t) NO_ARRAY 0 (offsetof wlfw_m3_segment_info_s_v01_t ''size'') None,
      Elem QMI_STRING (QMI_WLFW_MAX_STR_LEN_V01 + 1) (csizeof char_t) NO_ARRAY 0 (offsetof wlfw_m3_segment_info_s_v01_t ''name'') None,
      Elem QMI_EOTI 0 0 NO_ARRAY 0 0 None]"

definition wlfw_dev_mem_info_s_v01_ei :: "qmi_elem_info list" where [layout]:
  "wlfw_dev_mem_info_s_v01_ei =
     [Elem QMI_UNSIGNED_8_BYTE 1 (csizeof u64_t) NO_ARRAY 0 (offsetof wlfw_dev_mem_info_s_v01_t ''start'') None,
      Elem QMI_UNSIGNED_8_BYTE 1 (csizeof u64_t) NO_ARRAY 0 (offsetof wlfw_dev_mem_info_s_v01_t ''size'') None,
      Elem QMI_EOTI 0 0 NO_ARRAY 0 0 None]"

definition wlfw_host_mlo_chip_info_s_v01_ei :: "qmi_elem_info list" where [layout]:
  "wlfw_host_mlo_chip_info_s_v01_ei =
     [Elem QMI_UNSIGNED_1_BYTE 1 (csizeof u8_t) NO_ARRAY 0 (offsetof wlfw_host_mlo_chip_info_s_v01_t ''chip_id'') None,
      Elem QMI_UNSIGNED_1_BYTE 1 (csizeof u8_t) NO_ARRAY 0 (offsetof wlfw_host_mlo_chip_info_s_v01_t ''num_local_links'') None,
      Elem QMI_UNSIGNED_1_BYTE QMI_WLFW_MAX_NUM_MLO_LINKS_PER_CHIP_V01 (csizeof u8_t) STATIC_ARRAY 0 (offsetof wlfw_host_mlo_chip_info_s_v01_t ''hw_link_id'') None,
      Elem QMI_UNSIGNED_1_BYTE QMI_WLFW_MAX_NUM_MLO_LINKS_PER_CHIP_V01 (csizeof u8_t) STATIC_ARRAY 0 (offsetof wlfw_host_mlo_chip_info_s_v01_t ''valid_mlo_link_id'') None,
      Elem QMI_EOTI 0 0 NO_ARRAY 0 0 None]"

definition wlfw_ind_register_req_msg_v01_ei :: "qmi_elem_info list" where [layout]:
  "wlfw_ind_register_req_msg_v01_ei =
     [Elem QMI_OPT_FLAG 1 (csizeof u8_t) NO_ARRAY 0x10 (offsetof wlfw_ind_register_req_msg_v01_t ''fw_ready_enable_valid'') None,
      Elem QMI_UNSIGNED_1_BYTE 1 (csizeof u8_t) NO_ARRAY 0x10 (offsetof wlfw_ind_register_req_msg_v01_t ''fw_ready_enable'') None,
      Elem QMI_OPT_FLAG 1 (csizeof u8_t) NO_ARRAY 0x11 (offsetof wlfw_ind_register_req_msg_v01_t ''initiate_cal_download_enable_valid'') None,
      Elem QMI_UNSIGNED_1_BYTE 1 (csizeof u8_t) NO_ARRAY 0x11 (offsetof wlfw_ind_register_req_msg_v01_t ''initiate_cal_download_enable'') None,
      Elem QMI_OPT_FLAG 1 (csizeof u8_t) NO_ARRAY 0x12 (offsetof wlfw_ind_register_req_msg_v01_t ''initiate_cal_update_enable_valid'') None,
      Elem QMI_UNSIGNED_1_BYTE 1 (csizeof u8_t) NO_ARRAY 0x12 (offsetof wlfw_ind_register_req_msg_v01_t ''initiate_cal_update_enable'') None,
      Elem QMI_OPT_FLAG 1 (csizeof u8_t) NO_ARRAY 0x13 (offsetof wlfw_ind_register_req_msg_v01_t ''msa_ready_enable_valid'') None,
      Elem QMI_UNSIGNED_1_BYTE 1 (csizeof u8_t) NO_ARRAY 0x13 (offsetof wlfw_ind_register_req_msg_v01_t ''msa_ready_enable'') None,
      Elem QMI_OPT_FLAG 1 (csizeof u8_t) NO_ARRAY 0x14 (offsetof wlfw_ind_register_req_msg_v01_t ''pin_connect_result_enable_valid'') None,
      Elem QMI_UNSIGNED_1_BYTE 1 (csizeof u8_t) NO_ARRAY 0x14 (offsetof wlfw_ind_register_req_msg_v01_t ''pin_connect_result_enable'') None,
      Elem QMI_OPT_FLAG 1 (csizeof u8_t) NO_ARRAY 0x15 (offsetof wlfw_ind_register_req_msg_v01_t ''client_id_valid'') None,
      Elem QMI_UNSIGNED_4_BYTE 1 (csizeof u32_t) NO_ARRAY 0x15 (offsetof wlfw_ind_register_req_msg_v01_t ''client_id'') None,
      Elem QMI_OPT_FLAG 1 (csizeof u8_t) NO_ARRAY 0x16 (offsetof wlfw_ind_register_req_msg_v01_t ''request_mem_enable_valid'') None,
      Elem QMI_UNSIGNED_1_BYTE 1 (csizeof u8_t) NO_ARRAY 0x16 (offsetof wlfw_ind_register_req_msg_v01_t ''request_mem_enable'') None,
      Elem QMI_OPT_FLAG 1 (csizeof u8_t) NO_ARRAY 0x17 (offsetof wlfw_ind_register_req_msg_v01_t ''fw_mem_ready_enable_valid'') None,
      Elem QMI_UNSIGNED_1_BYTE 1 (csizeof u8_t) NO_ARRAY 0x17 (offsetof wlfw_ind_register_req_msg_v01_t ''fw_mem_ready_enable'') None,
      Elem QMI_OPT_FLAG 1 (csizeof u8_t) NO_ARRAY 0x18 (offsetof wlfw_ind_register_req_msg_v01_t ''fw_init_done_enable_valid'') None,
      Elem QMI_UNSIGNED_1_BYTE 1 (csizeof u8_t) NO_ARRAY 0x18 (offsetof wlfw_ind_register_req_msg_v01_t ''fw_init_done_enable'') None,
      Elem QMI_OPT_FLAG 1 (csizeof u8_t) NO_ARRAY 0x19 (offsetof wlfw_ind_register_req_msg_v01_t ''rejuvenate_enable_valid'') None,
      Elem QMI_UNSIGNED_4_BYTE 1 (csizeof u32_t) NO_ARRAY 0x19 (offsetof wlfw_ind_register_req_msg_v01_t ''rejuvenate_enable'') None,
      Elem QMI_OPT_FLAG 1 (csizeof u8_t) NO_ARRAY 0x1A (offsetof wlfw_ind_register_req_msg_v01_t ''xo_cal_enable_valid'') None,
      Elem QMI_UNSIGNED_1_BYTE 1 (csizeof u8_t) NO_ARRAY 0x1A (offsetof wlfw_ind_register_req_msg_v01_t ''xo_cal_enable'') None,
      Elem QMI_OPT_FLAG 1 (csizeof u8_t) NO_ARRAY 0x1B (offsetof wlfw_ind_register_req_msg_v01_t ''cal_done_enable_valid'') None,
      Elem QMI_UNSIGNED_1_BYTE 1 (csizeof u8_t) NO_ARRAY 0x1B (offsetof wlfw_ind_register_req_msg_v01_t ''cal_done_enable'') None,
      Elem QMI_OPT_FLAG 1 (csizeof u8_t) NO_ARRAY 0x1C (offsetof wlfw_ind_register_req_msg_v01_t ''qdss_trace_req_mem_enable_valid'') None,
      Elem QMI_UNSIGNED_1_BYTE 1 (csizeof u8_t) NO_ARRAY 0x1C (offsetof wlfw_ind_register_req_msg_v01_t ''qdss_trace_req_mem_enable'') None,
      Elem QMI_OPT_FLAG 1 (csizeof u8_t) NO_ARRAY 0x1D (offsetof wlfw_ind_register_req_msg_v01_t ''qdss_trace_save_enable_valid'') None,
      Elem QMI_UNSIGNED_1_BYTE 1 (csizeof u8_t) NO_ARRAY 0x1D (offsetof wlfw_ind_register_req_msg_v01_t ''qdss_trace_save_enable'') None,
      Elem QMI_OPT_FLAG 1 (csizeof u8_t) NO_ARRAY 0x1E (offsetof wlfw_ind_register_req_msg_v01_t ''qdss_trace_free_enable_valid'') None,
      Elem QMI_UNSIGNED_1_BYTE 1 (csizeof u8_t) NO_ARRAY 0x1E (offsetof wlfw_ind_register_req_msg_v01_t ''qdss_trace_free_enable'') None,
      Elem QMI_OPT_FLAG 1 (csizeof u8_t) NO_ARRAY 0x1F (offsetof wlfw_ind_register_req_msg_v01_t ''respond_get_info_enable_valid'') None,
      Elem QMI_UNSIGNED_1_BYTE 1 (csizeof u8_t) NO_ARRAY 0x1F (offsetof wlfw_ind_register_req_msg_v01_t ''respond_get_info_enable'') None,
      Elem QMI_OPT_FLAG 1 (csizeof u8_t) NO_ARRAY 0x20 (offsetof wlfw_ind_register_req_msg_v01_t ''m3_dump_upload_req_enable_valid'') None,
      Elem QMI_UNSIGNED_1_BYTE 1 (csizeof u8_t) NO_ARRAY 0x20 (offsetof wlfw_ind_register_req_msg_v01_t ''m3_dump_upload_req_enable'') None,
      Elem QMI_OPT_FLAG 1 (csizeof u8_t) NO_ARRAY 0x21 (offsetof wlfw_ind_register_req_msg_v01_t ''wfc_call_twt_config_enable_valid'') None,
      Elem QMI_UNSIGNED_1_BYTE 1 (csizeof u8_t) NO_ARRAY 0x21 (offsetof wlfw_ind_register_req_msg_v01_t ''wfc_call_twt_config_enable'') None,
      Elem QMI_OPT_FLAG 1 (csizeof u8_t) NO_ARRAY 0x22 (offsetof wlfw_ind_register_req_msg_v01_t ''qdss_mem_ready_enable_valid'') None,
      Elem QMI_UNSIGNED_1_BYTE 1 (csizeof u8_t) NO_ARRAY 0x22 (offsetof wlfw_ind_register_req_msg_v01_t ''qdss_mem_ready_enable'') None,
      Elem QMI_OPT_FLAG 1 (csizeof u8_t) NO_ARRAY 0x23 (offsetof wlfw_ind_register_req_msg_v01_t ''m3_dump_upload_segments_req_enable_valid'') None,
      Elem QMI_UNSIGNED_1_BYTE 1 (csizeof u8_t) NO_ARRAY 0x23 (offsetof wlfw_ind_register_req_msg_v01_t ''m3_dump_upload_segments_req_enable'') None,
      Elem QMI_EOTI 0 0 NO_ARRAY 0 0 None]"

definition wlfw_ind_register_resp_msg_v01_ei :: "qmi_elem_info list" where [layout]:
  "wlfw_ind_register_resp_msg_v01_ei =
     [Elem QMI_STRUCT 1 (csizeof qmi_response_type_v01_t) NO_ARRAY 0x02 (offsetof wlfw_ind_register_resp_msg_v01_t ''resp'') (Some qmi_response_type_v01_ei),
      Elem QMI_OPT_FLAG 1 (csizeof u8_t) NO_ARRAY 0x10 (offsetof wlfw_ind_register_resp_msg_v01_t ''fw_status_valid'') None,
      Elem QMI_UNSIGNED_8_BYTE 1 (csizeof u64_t) NO_ARRAY 0x10 (offsetof wlfw_ind_register_resp_msg_v01_t ''fw_status'') None,
      Elem QMI_EOTI 0 0 NO_ARRAY 0 0 None]"

definition wlfw_fw_ready_ind_msg_v01_ei :: "qmi_elem_info list" where [layout]:
  "wlfw_fw_ready_ind_msg_v01_ei =
     [Elem QMI_EOTI 0 0 NO_ARRAY 0 0 None]"

definition wlfw_msa_ready_ind_msg_v01_ei :: "qmi_elem_info list" where [layout]:
  "wlfw_msa_ready_ind_msg_v01_ei =
     [Elem QMI_OPT_FLAG 1 (csizeof u8_t) NO_ARRAY 0x10 (offsetof wlfw_msa_ready_ind_msg_v01_t ''hang_data_addr_offset_valid'') None,
      Elem QMI_UNSIGNED_4_BYTE 1 (csizeof u32_t) NO_ARRAY 0x10 (offsetof wlfw_msa_ready_ind_msg_v01_t ''hang_data_addr_offset'') None,
      Elem QMI_OPT_FLAG 1 (csizeof u8_t) NO_ARRAY 0x11 (offsetof wlfw_msa_ready_ind_msg_v01_t ''hang_data_length_valid'') None,
      Elem QMI_UNSIGNED_2_BYTE 1 (csizeof u16_t) NO_ARRAY 0x11 (offsetof wlfw_msa_ready_ind_msg_v01_t ''hang_data_length'') None,
      Elem QMI_EOTI 0 0 NO_ARRAY 0 0 None]"

definition wlfw_pin_connect_result_ind_msg_v01_ei :: "qmi_elem_info list" where [layout]:
  "wlfw_pin_connect_result_ind_msg_v01_ei =
     [Elem QMI_OPT_FLAG 1 (csizeof u8_t) NO_ARRAY 0x10 (offsetof wlfw_pin_connect_result_ind_msg_v01_t ''pwr_pin_result_valid'') None,
      Elem QMI_UNSIGNED_4_BYTE 1 (csizeof u32_t) NO_ARRAY 0x10 (offsetof wlfw_pin_connect_result_ind_msg_v01_t ''pwr_pin_result'') None,
      Elem QMI_OPT_FLAG 1 (csizeof u8_t) NO_ARRAY 0x11 (offsetof wlfw_pin_connect_result_ind_msg_v01_t ''phy_io_pin_result_valid'') None,
      Elem QMI_UNSIGNED_4_BYTE 1 (csizeof u32_t) NO_ARRAY 0x11 (offsetof wlfw_pin_connect_result_ind_msg_v01_t ''phy_io_pin_result'') None,
      Elem QMI_OPT_FLAG 1 (csizeof u8_t) NO_ARRAY 0x12 (offsetof wlfw_pin_connect_result_ind_msg_v01_t ''rf_pin_result_valid'') None,
      Elem QMI_UNSIGNED_4_BYTE 1 (csizeof u32_t) NO_ARRAY 0x12 (offsetof wlfw_pin_connect_result_ind_msg_v01_t ''rf_pin_result'') None,
      Elem QMI_EOTI 0 0 NO_ARRAY 0 0 None]"

definition wlfw_wlan_mode_req_msg_v01_ei :: "qmi_elem_info list" where [layout]:
  "wlfw_wlan_mode_req_msg_v01_ei =
     [Elem QMI_SIGNED_4_BYTE_ENUM 1 (csizeof enum_t) NO_ARRAY 0x01 (offsetof wlfw_wlan_mode_req_msg_v01_t ''mode'') None,
      Elem QMI_OPT_FLAG 1 (csizeof u8_t) NO_ARRAY 0x10 (offsetof wlfw_wlan_mode_req_msg_v01_t ''hw_debug_valid'') None,
      Elem QMI_UNSIGNED_1_BYTE 1 (csizeof u8_t) NO_ARRAY 0x10 (offsetof wlfw_wlan_mode_req_msg_v01_t ''hw_debug'') None,
      Elem QMI_EOTI 0 0 NO_ARRAY 0 0 None]"

definition wlfw_wlan_mode_resp_msg_v01_ei :: "qmi_elem_info list" where [layout]:
  "wlfw_wlan_mode_resp_msg_v01_ei =
     [Elem QMI_STRUCT 1 (csizeof qmi_response_type_v01_t) NO_ARRAY 0x02 (offsetof wlfw_wlan_mode_resp_msg_v01_t ''resp'') (Some qmi_response_type_v01_ei),
      Elem QMI_EOTI 0 0 NO_ARRAY 0 0 None]"

definition wlfw_wlan_cfg_req_msg_v01_ei :: "qmi_elem_info list" where [layout]:
  "wlfw_wlan_cfg_req_msg_v01_ei =
     [Elem QMI_OPT_FLAG 1 (csizeof u8_t) NO_ARRAY 0x10 (offsetof wlfw_wlan_cfg_req_msg_v01_t ''host_version_valid'') None,
      Elem QMI_STRING (QMI_WLFW_MAX_STR_LEN_V01 + 1) (csizeof char_t) NO_ARRAY 0x10 (offsetof wlfw_wlan_cfg_req_msg_v01_t ''host_version'') None,
      Elem QMI_OPT_FLAG 1 (csizeof u8_t) NO_ARRAY 0x11 (offsetof wlfw_wlan_cfg_req_msg_v01_t ''tgt_cfg_valid'') None,
      Elem QMI_DATA_LEN 1 (csizeof u8_t) NO_ARRAY 0x11 (offsetof wlfw_wlan_cfg_req_msg_v01_t ''tgt_cfg_len'') None,
      Elem QMI_STRUCT QMI_WLFW_MAX_NUM_CE_V01 (csizeof wlfw_ce_tgt_pipe_cfg_s_v01_t) VAR_LEN_ARRAY 0x11 (offsetof wlfw_wlan_cfg_req_msg_v01_t ''tgt_cfg'') (Some wlfw_ce_tgt_pipe_cfg_s_v01_ei),
      Elem QMI_OPT_FLAG 1 (csizeof u8_t) NO_ARRAY 0x12 (offsetof wlfw_wlan_cfg_req_msg_v01_t ''svc_cfg_valid'') None,
      Elem QMI_DATA_LEN 1 (csizeof u8_t) NO_ARRAY 0x12 (offsetof wlfw_wlan_cfg_req_msg_v01_t ''svc_cfg_len'') None,
      Elem QMI_STRUCT QMI_WLFW_MAX_NUM_SVC_V01 (csizeof wlfw_ce_svc_pipe_cfg_s_v01_t) VAR_LEN_ARRAY 0x12 (offsetof wlfw_wlan_cfg_req_msg_v01_t ''svc_cfg'') (Some wlfw_ce_svc_pipe_cfg_s_v01_ei),
      Elem QMI_OPT_FLAG 1 (csizeof u8_t) NO_ARRAY 0x13 (offsetof wlfw_wlan_cfg_req_msg_v01_t ''shadow_reg_valid'') None,
      Elem QMI_DATA_LEN 1 (csizeof u8_t) NO_ARRAY 0x13 (offsetof wlfw_wlan_cfg_req_msg_v01_t ''shadow_reg_len'') None,
      Elem QMI_STRUCT QMI_WLFW_MAX_NUM_SHADOW_REG_V01 (csizeof wlfw_shadow_reg_cfg_s_v01_t) VAR_LEN_ARRAY 0x13 (offsetof wlfw_wlan_cfg_req_msg_v01_t ''shadow_reg'') (Some wlfw_shadow_reg_cfg_s_v01_ei),
      Elem QMI_OPT_FLAG 1 (csizeof u8_t) NO_ARRAY 0x14 (offsetof wlfw_wlan_cfg_req_msg_v01_t ''shadow_reg_v2_valid'') None,
      Elem QMI_DATA_LEN 1 (csizeof u8_t) NO_ARRAY 0x14 (offsetof wlfw_wlan_cfg_req_msg_v01_t ''shadow_reg_v2_len'') None,
      Elem QMI_STRUCT QMI_WLFW_MAX_NUM_SHADOW_REG_V2_V01 (csizeof wlfw_shadow_reg_v2_cfg_s_v01_t) VAR_LEN_ARRAY 0x14 (offsetof wlfw_wlan_cfg_req_msg_v01_t ''shadow_reg_v2'') (Some wlfw_shadow_reg_v2_cfg_s_v01_ei),
      Elem QMI_OPT_FLAG 1 (csizeof u8_t) NO_ARRAY 0x15 (offsetof wlfw_wlan_cfg_req_msg_v01_t ''rri_over_ddr_cfg_valid'') None,
      Elem QMI_STRUCT 1 (csizeof wlfw_rri_over_ddr_cfg_s_v01_t) NO_ARRAY 0x15 (offsetof wlfw_wlan_cfg_req_msg_v01_t ''rri_over_ddr_cfg'') (Some wlfw_rri_over_ddr_cfg_s_v01_ei),
      Elem QMI_OPT_FLAG 1 (csizeof u8_t) NO_ARRAY 0x16 (offsetof wlfw_wlan_cfg_req_msg_v01_t ''msi_cfg_valid'') None,
      Elem QMI_DATA_LEN 1 (csizeof u8_t) NO_ARRAY 0x16 (offsetof wlfw_wlan_cfg_req_msg_v01_t ''msi_cfg_len'') None,
      Elem QMI_STRUCT QMI_WLFW_MAX_NUM_CE_V01 (csizeof wlfw_msi_cfg_s_v01_t) VAR_LEN_ARRAY 0x16 (offsetof wlfw_wlan_cfg_req_msg_v01_t ''msi_cfg'') (Some wlfw_msi_cfg_s_v01_ei),
      Elem QMI_EOTI 0 0 NO_ARRAY 0 0 None]"

definition wlfw_wlan_cfg_resp_msg_v01_ei :: "qmi_elem_info list" where [layout]:
  "wlfw_wlan_cfg_resp_msg_v01_ei =
     [Elem QMI_STRUCT 1 (csizeof qmi_response_type_v01_t) NO_ARRAY 0x02 (offsetof wlfw_wlan_cfg_resp_msg_v01_t ''resp'') (Some qmi_response_type_v01_ei),
      Elem QMI_EOTI 0 0 NO_ARRAY 0 0 None]"

definition wlfw_cap_req_msg_v01_ei :: "qmi_elem_info list" where [layout]:
  "wlfw_cap_req_msg_v01_ei =
     [Elem QMI_EOTI 0 0 NO_ARRAY 0 0 None]"

definition wlfw_cap_resp_msg_v01_ei :: "qmi_elem_info list" where [layout]:
  "wlfw_cap_resp_msg_v01_ei =
     [Elem QMI_STRUCT 1 (csizeof qmi_response_type_v01_t) NO_ARRAY 0x02 (offsetof wlfw_cap_resp_msg_v01_t ''resp'') (Some qmi_response_type_v01_ei),
      Elem QMI_OPT_FLAG 1 (csizeof u8_t) NO_ARRAY 0x10 (offsetof wlfw_cap_resp_msg_v01_t ''chip_info_valid'') None,
      Elem QMI_STRUCT 1 (csizeof wlfw_rf_chip_info_s_v01_t) NO_ARRAY 0x10 (offsetof wlfw_cap_resp_msg_v01_t ''chip_info'') (Some wlfw_rf_chip_info_s_v01_ei),
      Elem QMI_OPT_FLAG 1 (csizeof u8_t) NO_ARRAY 0x11 (offsetof wlfw_cap_resp_msg_v01_t ''board_info_valid'') None,
      Elem QMI_STRUCT 1 (csizeof wlfw_rf_board_info_s_v01_t) NO_ARRAY 0x11 (offsetof wlfw_cap_resp_msg_v01_t ''board_info'') (Some wlfw_rf_board_info_s_v01_ei),
      Elem QMI_OPT_FLAG 1 (csizeof u8_t) NO_ARRAY 0x12 (offsetof wlfw_cap_resp_msg_v01_t ''soc_info_valid'') None,
      Elem QMI_STRUCT 1 (csizeof wlfw_soc_info_s_v01_t) NO_ARRAY 0x12 (offsetof wlfw_cap_resp_msg_v01_t ''soc_info'') (Some wlfw_soc_info_s_v01_ei),
      Elem QMI_OPT_FLAG 1 (csizeof u8_t) NO_ARRAY 0x13 (offsetof wlfw_cap_resp_msg_v01_t ''fw_version_info_valid'') None,
      Elem QMI_STRUCT 1 (csizeof wlfw_fw_version_info_s_v01_t) NO_ARRAY 0x13 (offsetof wlfw_cap_resp_msg_v01_t ''fw_version_info'') (Some wlfw_fw_version_info_s_v01_ei),
      Elem QMI_OPT_FLAG 1 (csizeof u8_t) NO_ARRAY 0x14 (offsetof wlfw_cap_resp_msg_v01_t ''fw_build_id_valid'') None,
      Elem QMI_STRING (QMI_WLFW_MAX_BUILD_ID_LEN_V01 + 1) (csizeof char_t) NO_ARRAY 0x14 (offsetof wlfw_cap_resp_msg_v01_t ''fw_build_id'') None,
      Elem QMI_OPT_FLAG 1 (csizeof u8_t) NO_ARRAY 0x15 (offsetof wlfw_cap_resp_msg_v01_t ''num_macs_valid'') None,
      Elem QMI_UNSIGNED_1_BYTE 1 (csizeof u8_t) NO_ARRAY 0x15 (offsetof wlfw_cap_resp_msg_v01_t ''num_macs'') None,
      Elem QMI_OPT_FLAG 1 (csizeof u8_t) NO_ARRAY 0x16 (offsetof wlfw_cap_resp_msg_v01_t ''voltage_mv_valid'') None,
      Elem QMI_UNSIGNED_4_BYTE 1 (csizeof u32_t) NO_ARRAY 0x16 (offsetof wlfw_cap_resp_msg_v01_t ''voltage_mv'') None,
      Elem QMI_OPT_FLAG 1 (csizeof u8_t) NO_ARRAY 0x17 (offsetof wlfw_cap_resp_msg_v01_t ''time_freq_hz_valid'') None,
      Elem QMI_UNSIGNED_4_BYTE 1 (csizeof u32_t) NO_ARRAY 0x17 (offsetof wlfw_cap_resp_msg_v01_t ''time_freq_hz'') None,
      Elem QMI_OPT_FLAG 1 (csizeof u8_t) NO_ARRAY 0x18 (offsetof wlfw_cap_resp_msg_v01_t ''otp_version_valid'') None,
      Elem QMI_UNSIGNED_4_BYTE 1 (csizeof u32_t) NO_ARRAY 0x18 (offsetof wlfw_cap_resp_msg_v01_t ''otp_version'') None,
      Elem QMI_OPT_FLAG 1 (csizeof u8_t) NO_ARRAY 0x19 (offsetof wlfw_cap_resp_msg_v01_t ''eeprom_caldata_read_timeout_valid'') None,
      Elem QMI_UNSIGNED_4_BYTE 1 (csizeof u32_t) NO_ARRAY 0x19 (offsetof wlfw_cap_resp_msg_v01_t ''eeprom_caldata_read_timeout'') None,
      Elem QMI_OPT_FLAG 1 (csizeof u8_t) NO_ARRAY 0x1A (offsetof wlfw_cap_resp_msg_v01_t ''fw_caps_valid'') None,
      Elem QMI_UNSIGNED_8_BYTE 1 (csizeof u64_t) NO_ARRAY 0x1A (offsetof wlfw_cap_resp_msg_v01_t ''fw_caps'') None,
      Elem QMI_OPT_FLAG 1 (csizeof u8_t) NO_ARRAY 0x1B (offsetof wlfw_cap_resp_msg_v01_t ''rd_card_chain_cap_valid'') None,
      Elem QMI_SIGNED_4_BYTE_ENUM 1 (csizeof enum_t) NO_ARRAY 0x1B (offsetof wlfw_cap_resp_msg_v01_t ''rd_card_chain_cap'') None,
      Elem QMI_OPT_FLAG 1 (csizeof u8_t) NO_ARRAY 0x1C (offsetof wlfw_cap_resp_msg_v01_t ''dev_mem_info_valid'') None,
      Elem QMI_STRUCT QMI_WLFW_MAX_DEV_MEM_NUM_V01 (csizeof wlfw_dev_mem_info_s_v01_t) STATIC_ARRAY 0x1C (offsetof wlfw_cap_resp_msg_v01_t ''dev_mem_info'') (Some wlfw_dev_mem_info_s_v01_ei),
      Elem QMI_OPT_FLAG 1 (csizeof u8_t) NO_ARRAY 0x1D (offsetof wlfw_cap_resp_msg_v01_t ''foundry_name_valid'') None,
      Elem QMI_STRING (QMI_WLFW_MAX_STR_LEN_V01 + 1) (csizeof char_t) NO_ARRAY 0x1D (offsetof wlfw_cap_resp_msg_v01_t ''foundry_name'') None,
      Elem QMI_EOTI 0 0 NO_ARRAY 0 0 None]"

definition wlfw_bdf_download_req_msg_v01_ei :: "qmi_elem_info list" where [layout]:
  "wlfw_bdf_download_req_msg_v01_ei =
     [Elem QMI_UNSIGNED_1_BYTE 1 (csizeof u8_t) NO_ARRAY 0x01 (offsetof wlfw_bdf_download_req_msg_v01_t ''valid'') None,
      Elem QMI_OPT_FLAG 1 (csizeof u8_t) NO_ARRAY 0x10 (offsetof wlfw_bdf_download_req_msg_v01_t ''file_id_valid'') None,
      Elem QMI_SIGNED_4_BYTE_ENUM 1 (csizeof enum_t) NO_ARRAY 0x10 (offsetof wlfw_bdf_download_req_msg_v01_t ''file_id'') None,
      Elem QMI_OPT_FLAG 1 (csizeof u8_t) NO_ARRAY 0x11 (offsetof wlfw_bdf_download_req_msg_v01_t ''total_size_valid'') None,
      Elem QMI_UNSIGNED_4_BYTE 1 (csizeof u32_t) NO_ARRAY 0x11 (offsetof wlfw_bdf_download_req_msg_v01_t ''total_size'') None,
      Elem QMI_OPT_FLAG 1 (csizeof u8_t) NO_ARRAY 0x12 (offsetof wlfw_bdf_download_req_msg_v01_t ''seg_id_valid'') None,
      Elem QMI_UNSIGNED_4_BYTE 1 (csizeof u32_t) NO_ARRAY 0x12 (offsetof wlfw_bdf_download_req_msg_v01_t ''seg_id'') None,
      Elem QMI_OPT_FLAG 1 (csizeof u8_t) NO_ARRAY 0x13 (offsetof wlfw_bdf_download_req_msg_v01_t ''data_valid'') None,
      Elem QMI_DATA_LEN 1 (csizeof u16_t) NO_ARRAY 0x13 (offsetof wlfw_bdf_download_req_msg_v01_t ''data_len'') None,
      Elem QMI_UNSIGNED_1_BYTE QMI_WLFW_MAX_DATA_SIZE_V01 (csizeof u8_t) VAR_LEN_ARRAY 0x13 (offsetof wlfw_bdf_download_req_msg_v01_t ''data'') None,
      Elem QMI_OPT_FLAG 1 (csizeof u8_t) NO_ARRAY 0x14 (offsetof wlfw_bdf_download_req_msg_v01_t ''end_valid'') None,
      Elem QMI_UNSIGNED_1_BYTE 1 (csizeof u8_t) NO_ARRAY 0x14 (offsetof wlfw_bdf_download_req_msg_v01_t ''end'') None,
      Elem QMI_OPT_FLAG 1 (csizeof u8_t) NO_ARRAY 0x15 (offsetof wlfw_bdf_download_req_msg_v01_t ''bdf_type_valid'') None,
      Elem QMI_UNSIGNED_1_BYTE 1 (csizeof u8_t) NO_ARRAY 0x15 (offsetof wlfw_bdf_download_req_msg_v01_t ''bdf_type'') None,
      Elem QMI_EOTI 0 0 NO_ARRAY 0 0 None]"

definition wlfw_bdf_download_resp_msg_v01_ei :: "qmi_elem_info list" where [layout]:
  "wlfw_bdf_download_resp_msg_v01_ei =
     [Elem QMI_STRUCT 1 (csizeof qmi_response_type_v01_t) NO_ARRAY 0x02 (offsetof wlfw_bdf_download_resp_msg_v01_t ''resp'') (Some qmi_response_type_v01_ei),
      Elem QMI_OPT_FLAG 1 (csizeof u8_t) NO_ARRAY 0x10 (offsetof wlfw_bdf_download_resp_msg_v01_t ''host_bdf_data_valid'') None,
      Elem QMI_UNSIGNED_8_BYTE 1 (csizeof u64_t) NO_ARRAY 0x10 (offsetof wlfw_bdf_download_resp_msg_v01_t ''host_bdf_data'') None,
      Elem QMI_EOTI 0 0 NO_ARRAY 0 0 None]"

definition wlfw_cal_report_req_msg_v01_ei :: "qmi_elem_info list" where [layout]:
  "wlfw_cal_report_req_msg_v01_ei =
     [Elem QMI_DATA_LEN 1 (csizeof u8_t) NO_ARRAY 0x01 (offsetof wlfw_cal_report_req_msg_v01_t ''meta_data_len'') None,
      Elem QMI_SIGNED_4_BYTE_ENUM QMI_WLFW_MAX_NUM_CAL_V01 (csizeof enum_t) VAR_LEN_ARRAY 0x01 (offsetof wlfw_cal_report_req_msg_v01_t ''meta_data'') None,
      Elem QMI_OPT_FLAG 1 (csizeof u8_t) NO_ARRAY 0x10 (offsetof wlfw_cal_report_req_msg_v01_t ''xo_cal_data_valid'') None,
      Elem QMI_UNSIGNED_1_BYTE 1 (csizeof u8_t) NO_ARRAY 0x10 (offsetof wlfw_cal_report_req_msg_v01_t ''xo_cal_data'') None,
      Elem QMI_OPT_FLAG 1 (csizeof u8_t) NO_ARRAY 0x11 (offsetof wlfw_cal_report_req_msg_v01_t ''cal_remove_supported_valid'') None,
      Elem QMI_UNSIGNED_1_BYTE 1 (csizeof u8_t) NO_ARRAY 0x11 (offsetof wlfw_cal_report_req_msg_v01_t ''cal_remove_supported'') None,
      Elem QMI_OPT_FLAG 1 (csizeof u8_t) NO_ARRAY 0x12 (offsetof wlfw_cal_report_req_msg_v01_t ''cal_file_download_size_valid'') None,
      Elem QMI_UNSIGNED_8_BYTE 1 (csizeof u64_t) NO_ARRAY 0x12 (offsetof wlfw_cal_report_req_msg_v01_t ''cal_file_download_size'') None,
      Elem QMI_EOTI 0 0 NO_ARRAY 0 0 None]"

definition wlfw_cal_report_resp_msg_v01_ei :: "qmi_elem_info list" where [layout]:
  "wlfw_cal_report_resp_msg_v01_ei =
     [Elem QMI_STRUCT 1 (csizeof qmi_response_type_v01_t) NO_ARRAY 0x02 (offsetof wlfw_cal_report_resp_msg_v01_t ''resp'') (Some qmi_response_type_v01_ei),
      Elem QMI_EOTI 0 0 NO_ARRAY 0 0 None]"

definition wlfw_initiate_cal_download_ind_msg_v01_ei :: "qmi_elem_info list" where [layout]:
  "wlfw_initiate_cal_download_ind_msg_v01_ei =
     [Elem QMI_SIGNED_4_BYTE_ENUM 1 (csizeof enum_t) NO_ARRAY 0x01 (offsetof wlfw_initiate_cal_download_ind_msg_v01_t ''cal_id'') None,
      Elem QMI_OPT_FLAG 1 (csizeof u8_t) NO_ARRAY 0x10 (offsetof wlfw_initiate_cal_download_ind_msg_v01_t ''total_size_valid'') None,
      Elem QMI_UNSIGNED_4_BYTE 1 (csizeof u32_t) NO_ARRAY 0x10 (offsetof wlfw_initiate_cal_download_ind_msg_v01_t ''total_size'') None,
      Elem QMI_OPT_FLAG 1 (csizeof u8_t) NO_ARRAY 0x11 (offsetof wlfw_initiate_cal_download_ind_msg_v01_t ''cal_data_location_valid'') None,
      Elem QMI_UNSIGNED_4_BYTE 1 (csizeof u32_t) NO_ARRAY 0x11 (offsetof wlfw_initiate_cal_download_ind_msg_v01_t ''cal_data_location'') None,
      Elem QMI_EOTI 0 0 NO_ARRAY 0 0 None]"

definition wlfw_cal_download_req_msg_v01_ei :: "qmi_elem_info list" where [layout]:
  "wlfw_cal_download_req_msg_v01_ei =
     [Elem QMI_UNSIGNED_1_BYTE 1 (csizeof u8_t) NO_ARRAY 0x01 (offsetof wlfw_cal_download_req_msg_v01_t ''valid'') None,
      Elem QMI_OPT_FLAG 1 (csizeof u8_t) NO_ARRAY 0x10 (offsetof wlfw_cal_download_req_msg_v01_t ''file_id_valid'') None,
      Elem QMI_SIGNED_4_BYTE_ENUM 1 (csizeof enum_t) NO_ARRAY 0x10 (offsetof wlfw_cal_download_req_msg_v01_t ''file_id'') None,
      Elem QMI_OPT_FLAG 1 (csizeof u8_t) NO_ARRAY 0x11 (offsetof wlfw_cal_download_req_msg_v01_t ''total_size_valid'') None,
      Elem QMI_UNSIGNED_4_BYTE 1 (csizeof u32_t) NO_ARRAY 0x11 (offsetof wlfw_cal_download_req_msg_v01_t ''total_size'') None,
      Elem QMI_OPT_FLAG 1 (csizeof u8_t) NO_ARRAY 0x12 (offsetof wlfw_cal_download_req_msg_v01_t ''seg_id_valid'') None,
      Elem QMI_UNSIGNED_4_BYTE 1 (csizeof u32_t) NO_ARRAY 0x12 (offsetof wlfw_cal_download_req_msg_v01_t ''seg_id'') None,
      Elem QMI_OPT_FLAG 1 (csizeof u8_t) NO_ARRAY 0x13 (offsetof wlfw_cal_download_req_msg_v01_t ''data_valid'') None,
      Elem QMI_DATA_LEN 1 (csizeof u16_t) NO_ARRAY 0x13 (offsetof wlfw_cal_download_req_msg_v01_t ''data_len'') None,
      Elem QMI_UNSIGNED_1_BYTE QMI_WLFW_MAX_DATA_SIZE_V01 (csizeof u8_t) VAR_LEN_ARRAY 0x13 (offsetof wlfw_cal_download_req_msg_v01_t ''data'') None,
      Elem QMI_OPT_FLAG 1 (csizeof u8_t) NO_ARRAY 0x14 (offsetof wlfw_cal_download_req_msg_v01_t ''end_valid'') None,
      Elem QMI_UNSIGNED_1_BYTE 1 (csizeof u8_t) NO_ARRAY 0x14 (offsetof wlfw_cal_download_req_msg_v01_t ''end'') None,
      Elem QMI_OPT_FLAG 1 (csizeof u8_t) NO_ARRAY 0x15 (offsetof wlfw_cal_download_req_msg_v01_t ''cal_data_location_valid'') None,
      Elem QMI_UNSIGNED_4_BYTE 1 (csizeof u32_t) NO_ARRAY 0x15 (offsetof wlfw_cal_download_req_msg_v01_t ''cal_data_location'') None,
      Elem QMI_EOTI 0 0 NO_ARRAY 0 0 None]"

definition wlfw_cal_download_resp_msg_v01_ei :: "qmi_elem_info list" where [layout]:
  "wlfw_cal_download_resp_msg_v01_ei =
     [Elem QMI_STRUCT 1 (csizeof qmi_response_type_v01_t) NO_ARRAY 0x02 (offsetof wlfw_cal_download_resp_msg_v01_t ''resp'') (Some qmi_response_type_v01_ei),
      Elem QMI_EOTI 0 0 NO_ARRAY 0 0 None]"

definition wlfw_initiate_cal_update_ind_msg_v01_ei :: "qmi_elem_info list" where [layout]:
  "wlfw_initiate_cal_update_ind_msg_v01_ei =
     [Elem QMI_SIGNED_4_BYTE_ENUM 1 (csizeof enum_t) NO_ARRAY 0x01 (offsetof wlfw_initiate_cal_update_ind_msg_v01_t ''cal_id'') None,
      Elem QMI_UNSIGNED_4_BYTE 1 (csizeof u32_t) NO_ARRAY 0x02 (offsetof wlfw_initiate_cal_update_ind_msg_v01_t ''total_size'') None,
      Elem QMI_OPT_FLAG 1 (csizeof u8_t) NO_ARRAY 0x10 (offsetof wlfw_initiate_cal_update_ind_msg_v01_t ''cal_data_location_valid'') None,
      Elem QMI_UNSIGNED_4_BYTE 1 (csizeof u32_t) NO_ARRAY 0x10 (offsetof wlfw_initiate_cal_update_ind_msg_v01_t ''cal_data_location'') None,
      Elem QMI_EOTI 0 0 NO_ARRAY 0 0 None]"

definition wlfw_cal_update_req_msg_v01_ei :: "qmi_elem_info list" where [layout]:
  "wlfw_cal_update_req_msg_v01_ei =
     [Elem QMI_SIGNED_4_BYTE_ENUM 1 (csizeof enum_t) NO_ARRAY 0x01 (offsetof wlfw_cal_update_req_msg_v01_t ''cal_id'') None,
      Elem QMI_UNSIGNED_4_BYTE 1 (csizeof u32_t) NO_ARRAY 0x02 (offsetof wlfw_cal_update_req_msg_v01_t ''seg_id'') None,
      Elem QMI_EOTI 0 0 NO_ARRAY 0 0 None]"

definition wlfw_cal_update_resp_msg_v01_ei :: "qmi_elem_info list" where [layout]:
  "wlfw_cal_update_resp_msg_v01_ei =
     [Elem QMI_STRUCT 1 (csizeof qmi_response_type_v01_t) NO_ARRAY 0x02 (offsetof wlfw_cal_update_resp_msg_v01_t ''resp'') (Some qmi_response_type_v01_ei),
      Elem QMI_OPT_FLAG 1 (csizeof u8_t) NO_ARRAY 0x10 (offsetof wlfw_cal_update_resp_msg_v01_t ''file_id_valid'') None,
      Elem QMI_SIGNED_4_BYTE_ENUM 1 (csizeof enum_t) NO_ARRAY 0x10 (offsetof wlfw_cal_update_resp_msg_v01_t ''file_id'') None,
      Elem QMI_OPT_FLAG 1 (csizeof u8_t) NO_ARRAY 0x11 (offsetof wlfw_cal_update_resp_msg_v01_t ''total_size_valid'') None,
      Elem QMI_UNSIGNED_4_BYTE 1 (csizeof u32_t) NO_ARRAY 0x11 (offsetof wlfw_cal_update_resp_msg_v01_t ''total_size'') None,
      Elem QMI_OPT_FLAG 1 (csizeof u8_t) NO_ARRAY 0x12 (offsetof wlfw_cal_update_resp_msg_v01_t ''seg_id_valid'') None,
      Elem QMI_UNSIGNED_4_BYTE 1 (csizeof u32_t) NO_ARRAY 0x12 (offsetof wlfw_cal_update_resp_msg_v01_t ''seg_id'') None,
      Elem QMI_OPT_FLAG 1 (csizeof u8_t) NO_ARRAY 0x13 (offsetof wlfw_cal_update_resp_msg_v01_t ''data_valid'') None,
      Elem QMI_DATA_LEN 1 (csizeof u16_t) NO_ARRAY 0x13 (offsetof wlfw_cal_update_resp_msg_v01_t ''data_len'') None,
      Elem QMI_UNSIGNED_1_BYTE QMI_WLFW_MAX_DATA_SIZE_V01 (csizeof u8_t) VAR_LEN_ARRAY 0x13 (offsetof wlfw_cal_update_resp_msg_v01_t ''data'') None,
      Elem QMI_OPT_FLAG 1 (csizeof u8_t) NO_ARRAY 0x14 (offsetof wlfw_cal_update_resp_msg_v01_t ''end_valid'') None,
      Elem QMI_UNSIGNED_1_BYTE 1 (csizeof u8_t) NO_ARRAY 0x14 (offsetof wlfw_cal_update_resp_msg_v01_t ''end'') None,
      Elem QMI_OPT_FLAG 1 (csizeof u8_t) NO_ARRAY 0x15 (offsetof wlfw_cal_update_resp_msg_v01_t ''cal_data_location_valid'') None,
      Elem QMI_UNSIGNED_4_BYTE 1 (csizeof u32_t) NO_ARRAY 0x15 (offsetof wlfw_cal_update_resp_msg_v01_t ''cal_data_location'') None,
      Elem QMI_EOTI 0 0 NO_ARRAY 0 0 None]"

definition wlfw_msa_info_req_msg_v01_ei :: "qmi_elem_info list" where [layout]:
  "wlfw_msa_info_req_msg_v01_ei =
     [Elem QMI_UNSIGNED_8_BYTE 1 (csizeof u64_t) NO_ARRAY 0x01 (offsetof wlfw_msa_info_req_msg_v01_t ''msa_addr'') None,
      Elem QMI_UNSIGNED_4_BYTE 1 (csizeof u32_t) NO_ARRAY 0x02 (offsetof wlfw_msa_info_req_msg_v01_t ''size'') None,
      Elem QMI_EOTI 0 0 NO_ARRAY 0 0 None]"

definition wlfw_msa_info_resp_msg_v01_ei :: "qmi_elem_info list" where [layout]:
  "wlfw_msa_info_resp_msg_v01_ei =
     [Elem QMI_STRUCT 1 (csizeof qmi_response_type_v01_t) NO_ARRAY 0x02 (offsetof wlfw_msa_info_resp_msg_v01_t ''resp'') (Some qmi_response_type_v01_ei),
      Elem QMI_DATA_LEN 1 (csizeof u8_t) NO_ARRAY 0x03 (offsetof wlfw_msa_info_resp_msg_v01_t ''mem_region_info_len'') None,
      Elem QMI_STRUCT QMI_WLFW_MAX_NUM_MEMORY_REGIONS_V01 (csizeof wlfw_memory_region_info_s_v01_t) VAR_LEN_ARRAY 0x03 (offsetof wlfw_msa_info_resp_msg_v01_t ''mem_region_info'') (Some wlfw_memory_region_info_s_v01_ei),
      Elem QMI_EOTI 0 0 NO_ARRAY 0 0 None]"

definition wlfw_msa_ready_req_msg_v01_ei :: "qmi_elem_info list" where [layout]:
  "wlfw_msa_ready_req_msg_v01_ei =
     [Elem QMI_EOTI 0 0 NO_ARRAY 0 0 None]"

definition wlfw_msa_ready_resp_msg_v01_ei :: "qmi_elem_info list" where [layout]:
  "wlfw_msa_ready_resp_msg_v01_ei =
     [Elem QMI_STRUCT 1 (csizeof qmi_response_type_v01_t) NO_ARRAY 0x02 (offsetof wlfw_msa_ready_resp_msg_v01_t ''resp'') (Some qmi_response_type_v01_ei),
      Elem QMI_EOTI 0 0 NO_ARRAY 0 0 None]"

definition wlfw_ini_req_msg_v01_ei :: "qmi_elem_info list" where [layout]:
  "wlfw_ini_req_msg_v01_ei =
     [Elem QMI_OPT_FLAG 1 (csizeof u8_t) NO_ARRAY 0x10 (offsetof wlfw_ini_req_msg_v01_t ''enablefwlog_valid'') None,
      Elem QMI_UNSIGNED_1_BYTE 1 (csizeof u8_t) NO_ARRAY 0x10 (offsetof wlfw_ini_req_msg_v01_t ''enablefwlog'') None,
      Elem QMI_EOTI 0 0 NO_ARRAY 0 0 None]"

definition wlfw_ini_resp_msg_v01_ei :: "qmi_elem_info list" where [layout]:
  "wlfw_ini_resp_msg_v01_ei =
     [Elem QMI_STRUCT 1 (csizeof qmi_response_type_v01_t) NO_ARRAY 0x02 (offsetof wlfw_ini_resp_msg_v01_t ''resp'') (Some qmi_response_type_v01_ei),
      Elem QMI_EOTI 0 0 NO_ARRAY 0 0 None]"

definition wlfw_athdiag_read_req_msg_v01_ei :: "qmi_elem_info list" where [layout]:
  "wlfw_athdiag_read_req_msg_v01_ei =
     [Elem QMI_UNSIGNED_4_BYTE 1 (csizeof u32_t) NO_ARRAY 0x01 (offsetof wlfw_athdiag_read_req_msg_v01_t ''offset'') None,
      Elem QMI_UNSIGNED_4_BYTE 1 (csizeof u32_t) NO_ARRAY 0x02 (offsetof wlfw_athdiag_read_req_msg_v01_t ''mem_type'') None,
      Elem QMI_UNSIGNED_4_BYTE 1 (csizeof u32_t) NO_ARRAY 0x03 (offsetof wlfw_athdiag_read_req_msg_v01_t ''data_len'') None,
      Elem QMI_EOTI 0 0 NO_ARRAY 0 0 None]"

definition wlfw_athdiag_read_resp_msg_v01_ei :: "qmi_elem_info list" where [layout]:
  "wlfw_athdiag_read_resp_msg_v01_ei =
     [Elem QMI_STRUCT 1 (csizeof qmi_response_type_v01_t) NO_ARRAY 0x02 (offsetof wlfw_athdiag_read_resp_msg_v01_t ''resp'') (Some qmi_response_type_v01_ei),
      Elem QMI_OPT_FLAG 1 (csizeof u8_t) NO_ARRAY 0x10 (offsetof wlfw_athdiag_read_resp_msg_v01_t ''data_valid'') None,
      Elem QMI_DATA_LEN 1 (csizeof u16_t) NO_ARRAY 0x10 (offsetof wlfw_athdiag_read_resp_msg_v01_t ''data_len'') None,
      Elem QMI_UNSIGNED_1_BYTE QMI_WLFW_MAX_ATHDIAG_DATA_SIZE_V01 (csizeof u8_t) VAR_LEN_ARRAY 0x10 (offsetof wlfw_athdiag_read_resp_msg_v01_t ''data'') None,
      Elem QMI_EOTI 0 0 NO_ARRAY 0 0 None]"

definition wlfw_athdiag_write_req_msg_v01_ei :: "qmi_elem_info list" where [layout]:
  "wlfw_athdiag_write_req_msg_v01_ei =
     [Elem QMI_UNSIGNED_4_BYTE 1 (csizeof u32_t) NO_ARRAY 0x01 (offsetof wlfw_athdiag_write_req_msg_v01_t ''offset'') None,
      Elem QMI_UNSIGNED_4_BYTE 1 (csizeof u32_t) NO_ARRAY 0x02 (offsetof wlfw_athdiag_write_req_msg_v01_t ''mem_type'') None,
      Elem QMI_DATA_LEN 1 (csizeof u16_t) NO_ARRAY 0x03 (offsetof wlfw_athdiag_write_req_msg_v01_t ''data_len'') None,
      Elem QMI_UNSIGNED_1_BYTE QMI_WLFW_MAX_ATHDIAG_DATA_SIZE_V01 (csizeof u8_t) VAR_LEN_ARRAY 0x03 (offsetof wlfw_athdiag_write_req_msg_v01_t ''data'') None,
      Elem QMI_EOTI 0 0 NO_ARRAY 0 0 None]"

definition wlfw_athdiag_write_resp_msg_v01_ei :: "qmi_elem_info list" where [layout]:
  "wlfw_athdiag_write_resp_msg_v01_ei =
     [Elem QMI_STRUCT 1 (csizeof qmi_response_type_v01_t) NO_ARRAY 0x02 (offsetof wlfw_athdiag_write_resp_msg_v01_t ''resp'') (Some qmi_response_type_v01_ei),
      Elem QMI_EOTI 0 0 NO_ARRAY 0 0 None]"

definition wlfw_vbatt_req_msg_v01_ei :: "qmi_elem_info list" where [layout]:
  "wlfw_vbatt_req_msg_v01_ei =
     [Elem QMI_UNSIGNED_8_BYTE 1 (csizeof u64_t) NO_ARRAY 0x01 (offsetof wlfw_vbatt_req_msg_v01_t ''voltage_uv'') None,
      Elem QMI_EOTI 0 0 NO_ARRAY 0 0 None]"

definition wlfw_vbatt_resp_msg_v01_ei :: "qmi_elem_info list" where [layout]:
  "wlfw_vbatt_resp_msg_v01_ei =
     [Elem QMI_STRUCT 1 (csizeof qmi_response_type_v01_t) NO_ARRAY 0x02 (offsetof wlfw_vbatt_resp_msg_v01_t ''resp'') (Some qmi_response_type_v01_ei),
      Elem QMI_EOTI 0 0 NO_ARRAY 0 0 None]"

definition wlfw_mac_addr_req_msg_v01_ei :: "qmi_elem_info list" where [layout]:
  "wlfw_mac_addr_req_msg_v01_ei =
     [Elem QMI_OPT_FLAG 1 (csizeof u8_t) NO_ARRAY 0x10 (offsetof wlfw_mac_addr_req_msg_v01_t ''mac_addr_valid'') None,
      Elem QMI_UNSIGNED_1_BYTE QMI_WLFW_MAC_ADDR_SIZE_V01 (csizeof u8_t) STATIC_ARRAY 0x10 (offsetof wlfw_mac_addr_req_msg_v01_t ''mac_addr'') None,
      Elem QMI_EOTI 0 0 NO_ARRAY 0 0 None]"

definition wlfw_mac_addr_resp_msg_v01_ei :: "qmi_elem_info list" where [layout]:
  "wlfw_mac_addr_resp_msg_v01_ei =
     [Elem QMI_STRUCT 1 (csizeof qmi_response_type_v01_t) NO_ARRAY 0x02 (offsetof wlfw_mac_addr_resp_msg_v01_t ''resp'') (Some qmi_response_type_v01_ei),
      Elem QMI_EOTI 0 0 NO_ARRAY 0 0 None]"

definition wlfw_host_cap_req_msg_v01_ei :: "qmi_elem_info list" where [layout]:
  "wlfw_host_cap_req_msg_v01_ei =
     [Elem QMI_OPT_FLAG 1 (csizeof u8_t) NO_ARRAY 0x10 (offsetof wlfw_host_cap_req_msg_v01_t ''num_clients_valid'') None,
      Elem QMI_UNSIGNED_4_BYTE 1 (csizeof u32_t) NO_ARRAY 0x10 (offsetof wlfw_host_cap_req_msg_v01_t ''num_clients'') None,
      Elem QMI_OPT_FLAG 1 (csizeof u8_t) NO_ARRAY 0x11 (offsetof wlfw_host_cap_req_msg_v01_t ''wake_msi_valid'') None,
      Elem QMI_UNSIGNED_4_BYTE 1 (csizeof u32_t) NO_ARRAY 0x11 (offsetof wlfw_host_cap_req_msg_v01_t ''wake_msi'') None,
      Elem QMI_OPT_FLAG 1 (csizeof u8_t) NO_ARRAY 0x12 (offsetof wlfw_host_cap_req_msg_v01_t ''gpios_valid'') None,
      Elem QMI_DATA_LEN 1 (csizeof u8_t) NO_ARRAY 0x12 (offsetof wlfw_host_cap_req_msg_v01_t ''gpios_len'') None,
      Elem QMI_UNSIGNED_4_BYTE QMI_WLFW_MAX_NUM_GPIO_V01 (csizeof u32_t) VAR_LEN_ARRAY 0x12 (offsetof wlfw_host_cap_req_msg_v01_t ''gpios'') None,
      Elem QMI_OPT_FLAG 1 (csizeof u8_t) NO_ARRAY 0x13 (offsetof wlfw_host_cap_req_msg_v01_t ''nm_modem_valid'') None,
      Elem QMI_UNSIGNED_1_BYTE 1 (csizeof u8_t) NO_ARRAY 0x13 (offsetof wlfw_host_cap_req_msg_v01_t ''nm_modem'') None,
      Elem QMI_OPT_FLAG 1 (csizeof u8_t) NO_ARRAY 0x14 (offsetof wlfw_host_cap_req_msg_v01_t ''bdf_support_valid'') None,
      Elem QMI_UNSIGNED_1_BYTE 1 (csizeof u8_t) NO_ARRAY 0x14 (offsetof wlfw_host_cap_req_msg_v01_t ''bdf_support'') None,
      Elem QMI_OPT_FLAG 1 (csizeof u8_t) NO_ARRAY 0x15 (offsetof wlfw_host_cap_req_msg_v01_t ''bdf_cache_support_valid'') None,
      Elem QMI_UNSIGNED_1_BYTE 1 (csizeof u8_t) NO_ARRAY 0x15 (offsetof wlfw_host_cap_req_msg_v01_t ''bdf_cache_support'') None,
      Elem QMI_OPT_FLAG 1 (csizeof u8_t) NO_ARRAY 0x16 (offsetof wlfw_host_cap_req_msg_v01_t ''m3_support_valid'') None,
      Elem QMI_UNSIGNED_1_BYTE 1 (csizeof u8_t) NO_ARRAY 0x16 (offsetof wlfw_host_cap_req_msg_v01_t ''m3_support'') None,
      Elem QMI_OPT_FLAG 1 (csizeof u8_t) NO_ARRAY 0x17 (offsetof wlfw_host_cap_req_msg_v01_t ''m3_cache_support_valid'') None,
      Elem QMI_UNSIGNED_1_BYTE 1 (csizeof u8_t) NO_ARRAY 0x17 (offsetof wlfw_host_cap_req_msg_v01_t ''m3_cache_support'') None,
      Elem QMI_OPT_FLAG 1 (csizeof u8_t) NO_ARRAY 0x18 (offsetof wlfw_host_cap_req_msg_v01_t ''cal_filesys_support_valid'') None,
      Elem QMI_UNSIGNED_1_BYTE 1 (csizeof u8_t) NO_ARRAY 0x18 (offsetof wlfw_host_cap_req_msg_v01_t ''cal_filesys_support'') None,
      Elem QMI_OPT_FLAG 1 (csizeof u8_t) NO_ARRAY 0x19 (offsetof wlfw_host_cap_req_msg_v01_t ''cal_cache_support_valid'') None,
      Elem QMI_UNSIGNED_1_BYTE 1 (csizeof u8_t) NO_ARRAY 0x19 (offsetof wlfw_host_cap_req_msg_v01_t ''cal_cache_support'') None,
      Elem QMI_OPT_FLAG 1 (csizeof u8_t) NO_ARRAY 0x1A (offsetof wlfw_host_cap_req_msg_v01_t ''cal_done_valid'') None,
      Elem QMI_UNSIGNED_1_BYTE 1 (csizeof u8_t) NO_ARRAY 0x1A (offsetof wlfw_host_cap_req_msg_v01_t ''cal_done'') None,
      Elem QMI_OPT_FLAG 1 (csizeof u8_t) NO_ARRAY 0x1B (offsetof wlfw_host_cap_req_msg_v01_t ''mem_bucket_valid'') None,
      Elem QMI_UNSIGNED_4_BYTE 1 (csizeof u32_t) NO_ARRAY 0x1B (offsetof wlfw_host_cap_req_msg_v01_t ''mem_bucket'') None,
      Elem QMI_OPT_FLAG 1 (csizeof u8_t) NO_ARRAY 0x1C (offsetof wlfw_host_cap_req_msg_v01_t ''mem_cfg_mode_valid'') None,
      Elem QMI_UNSIGNED_1_BYTE 1 (csizeof u8_t) NO_ARRAY 0x1C (offsetof wlfw_host_cap_req_msg_v01_t ''mem_cfg_mode'') None,
      Elem QMI_OPT_FLAG 1 (csizeof u8_t) NO_ARRAY 0x1D (offsetof wlfw_host_cap_req_msg_v01_t ''cal_duration_valid'') None,
      Elem QMI_UNSIGNED_2_BYTE 1 (csizeof u16_t) NO_ARRAY 0x1D (offsetof wlfw_host_cap_req_msg_v01_t ''cal_duration'') None,
      Elem QMI_OPT_FLAG 1 (csizeof u8_t) NO_ARRAY 0x1E (offsetof wlfw_host_cap_req_msg_v01_t ''platform_name_valid'') None,
      Elem QMI_STRING (QMI_WLFW_MAX_PLATFORM_NAME_LEN_V01 + 1) (csizeof char_t) NO_ARRAY 0x1E (offsetof wlfw_host_cap_req_msg_v01_t ''platform_name'') None,
      Elem QMI_OPT_FLAG 1 (csizeof u8_t) NO_ARRAY 0x1F (offsetof wlfw_host_cap_req_msg_v01_t ''ddr_range_valid'') None,
      Elem QMI_STRUCT QMI_WLFW_MAX_HOST_DDR_RANGE_SIZE_V01 (csizeof wlfw_host_ddr_range_s_v01_t) STATIC_ARRAY 0x1F (offsetof wlfw_host_cap_req_msg_v01_t ''ddr_range'') (Some wlfw_host_ddr_range_s_v01_ei),
      Elem QMI_OPT_FLAG 1 (csizeof u8_t) NO_ARRAY 0x20 (offsetof wlfw_host_cap_req_msg_v01_t ''host_build_type_valid'') None,
      Elem QMI_SIGNED_4_BYTE_ENUM 1 (csizeof enum_t) NO_ARRAY 0x20 (offsetof wlfw_host_cap_req_msg_v01_t ''host_build_type'') None,
      Elem QMI_OPT_FLAG 1 (csizeof u8_t) NO_ARRAY 0x21 (offsetof wlfw_host_cap_req_msg_v01_t ''mlo_capable_valid'') None,
      Elem QMI_UNSIGNED_1_BYTE 1 (csizeof u8_t) NO_ARRAY 0x21 (offsetof wlfw_host_cap_req_msg_v01_t ''mlo_capable'') None,
      Elem QMI_OPT_FLAG 1 (csizeof u8_t) NO_ARRAY 0x22 (offsetof wlfw_host_cap_req_msg_v01_t ''mlo_chip_id_valid'') None,
      Elem QMI_UNSIGNED_2_BYTE 1 (csizeof u16_t) NO_ARRAY 0x22 (offsetof wlfw_host_cap_req_msg_v01_t ''mlo_chip_id'') None,
      Elem QMI_OPT_FLAG 1 (csizeof u8_t) NO_ARRAY 0x23 (offsetof wlfw_host_cap_req_msg_v01_t ''mlo_group_id_valid'') None,
      Elem QMI_UNSIGNED_1_BYTE 1 (csizeof u8_t) NO_ARRAY 0x23 (offsetof wlfw_host_cap_req_msg_v01_t ''mlo_group_id'') None,
      Elem QMI_OPT_FLAG 1 (csizeof u8_t) NO_ARRAY 0x24 (offsetof wlfw_host_cap_req_msg_v01_t ''max_mlo_peer_valid'') None,
      Elem QMI_UNSIGNED_2_BYTE 1 (csizeof u16_t) NO_ARRAY 0x24 (offsetof wlfw_host_cap_req_msg_v01_t ''max_mlo_peer'') None,
      Elem QMI_OPT_FLAG 1 (csizeof u8_t) NO_ARRAY 0x25 (offsetof wlfw_host_cap_req_msg_v01_t ''mlo_num_chips_valid'') None,
      Elem QMI_UNSIGNED_1_BYTE 1 (csizeof u8_t) NO_ARRAY 0x25 (offsetof wlfw_host_cap_req_msg_v01_t ''mlo_num_chips'') None,
      Elem QMI_OPT_FLAG 1 (csizeof u8_t) NO_ARRAY 0x26 (offsetof wlfw_host_cap_req_msg_v01_t ''mlo_chip_info_valid'') None,
      Elem QMI_STRUCT QMI_WLFW_MAX_NUM_MLO_CHIPS_V01 (csizeof wlfw_host_mlo_chip_info_s_v01_t) STATIC_ARRAY 0x26 (offsetof wlfw_host_cap_req_msg_v01_t ''mlo_chip_info'') (Some wlfw_host_mlo_chip_info_s_v01_ei),
      Elem QMI_OPT_FLAG 1 (csizeof u8_t) NO_ARRAY 0x27 (offsetof wlfw_host_cap_req_msg_v01_t ''feature_list_valid'') None,
      Elem QMI_UNSIGNED_8_BYTE 1 (csizeof u64_t) NO_ARRAY 0x27 (offsetof wlfw_host_cap_req_msg_v01_t ''feature_list'') None,
      Elem QMI_OPT_FLAG 1 (csizeof u8_t) NO_ARRAY 0x28 (offsetof wlfw_host_cap_req_msg_v01_t ''num_wlan_clients_valid'') None,
      Elem QMI_UNSIGNED_2_BYTE 1 (csizeof u16_t) NO_ARRAY 0x28 (offsetof wlfw_host_cap_req_msg_v01_t ''num_wlan_clients'') None,
      Elem QMI_OPT_FLAG 1 (csizeof u8_t) NO_ARRAY 0x29 (offsetof wlfw_host_cap_req_msg_v01_t ''num_wlan_vaps_valid'') None,
      Elem QMI_UNSIGNED_1_BYTE 1 (csizeof u8_t) NO_ARRAY 0x29 (offsetof wlfw_host_cap_req_msg_v01_t ''num_wlan_vaps'') None,
      Elem QMI_OPT_FLAG 1 (csizeof u8_t) NO_ARRAY 0x2A (offsetof wlfw_host_cap_req_msg_v01_t ''wake_msi_addr_valid'') None,
      Elem QMI_UNSIGNED_4_BYTE 1 (csizeof u32_t) NO_ARRAY 0x2A (offsetof wlfw_host_cap_req_msg_v01_t ''wake_msi_addr'') None,
      Elem QMI_OPT_FLAG 1 (csizeof u8_t) NO_ARRAY 0x2B (offsetof wlfw_host_cap_req_msg_v01_t ''wlan_enable_delay_valid'') None,
      Elem QMI_UNSIGNED_4_BYTE 1 (csizeof u32_t) NO_ARRAY 0x2B (offsetof wlfw_host_cap_req_msg_v01_t ''wlan_enable_delay'') None,
      Elem QMI_EOTI 0 0 NO_ARRAY 0 0 None]"

definition wlfw_host_cap_resp_msg_v01_ei :: "qmi_elem_info list" where [layout]:
  "wlfw_host_cap_resp_msg_v01_ei =
     [Elem QMI_STRUCT 1 (csizeof qmi_response_type_v01_t) NO_ARRAY 0x02 (offsetof wlfw_host_cap_resp_msg_v01_t ''resp'') (Some qmi_response_type_v01_ei),
      Elem QMI_EOTI 0 0 NO_ARRAY 0 0 None]"

definition wlfw_request_mem_ind_msg_v01_ei :: "qmi_elem_info list" where [layout]:
  "wlfw_request_mem_ind_msg_v01_ei =
     [Elem QMI_DATA_LEN 1 (csizeof u8_t) NO_ARRAY 0x01 (offsetof wlfw_request_mem_ind_msg_v01_t ''mem_seg_len'') None,
      Elem QMI_STRUCT QMI_WLFW_MAX_NUM_MEM_SEG_V01 (csizeof wlfw_mem_seg_s_v01_t) VAR_LEN_ARRAY 0x01 (offsetof wlfw_request_mem_ind_msg_v01_t ''mem_seg'') (Some wlfw_mem_seg_s_v01_ei),
      Elem QMI_EOTI 0 0 NO_ARRAY 0 0 None]"

definition wlfw_respond_mem_req_msg_v01_ei :: "qmi_elem_info list" where [layout]:
  "wlfw_respond_mem_req_msg_v01_ei =
     [Elem QMI_DATA_LEN 1 (csizeof u8_t) NO_ARRAY 0x01 (offsetof wlfw_respond_mem_req_msg_v01_t ''mem_seg_len'') None,
      Elem QMI_STRUCT QMI_WLFW_MAX_NUM_MEM_SEG_V01 (csizeof wlfw_mem_seg_resp_s_v01_t) VAR_LEN_ARRAY 0x01 (offsetof wlfw_respond_mem_req_msg_v01_t ''mem_seg'') (Some wlfw_mem_seg_resp_s_v01_ei),
      Elem QMI_EOTI 0 0 NO_ARRAY 0 0 None]"

definition wlfw_respond_mem_resp_msg_v01_ei :: "qmi_elem_info list" where [layout]:
  "wlfw_respond_mem_resp_msg_v01_ei =
     [Elem QMI_STRUCT 1 (csizeof qmi_response_type_v01_t) NO_ARRAY 0x02 (offsetof wlfw_respond_mem_resp_msg_v01_t ''resp'') (Some qmi_response_type_v01_ei),
      Elem QMI_EOTI 0 0 NO_ARRAY 0 0 None]"

definition wlfw_fw_mem_ready_ind_msg_v01_ei :: "qmi_elem_info list" where [layout]:
  "wlfw_fw_mem_ready_ind_msg_v01_ei =
     [Elem QMI_EOTI 0 0 NO_ARRAY 0 0 None]"

definition wlfw_fw_init_done_ind_msg_v01_ei :: "qmi_elem_info list" where [layout]:
  "wlfw_fw_init_done_ind_msg_v01_ei =
     [Elem QMI_OPT_FLAG 1 (csizeof u8_t) NO_ARRAY 0x10 (offsetof wlfw_fw_init_done_ind_msg_v01_t ''hang_data_addr_offset_valid'') None,
      Elem QMI_UNSIGNED_4_BYTE 1 (csizeof u32_t) NO_ARRAY 0x10 (offsetof wlfw_fw_init_done_ind_msg_v01_t ''hang_data_addr_offset'') None,
      Elem QMI_OPT_FLAG 1 (csizeof u8_t) NO_ARRAY 0x11 (offsetof wlfw_fw_init_done_ind_msg_v01_t ''hang_data_length_valid'') None,
      Elem QMI_UNSIGNED_2_BYTE 1 (csizeof u16_t) NO_ARRAY 0x11 (offsetof wlfw_fw_init_done_ind_msg_v01_t ''hang_data_length'') None,
      Elem QMI_EOTI 0 0 NO_ARRAY 0 0 None]"

definition wlfw_rejuvenate_ind_msg_v01_ei :: "qmi_elem_info list" where [layout]:
  "wlfw_rejuvenate_ind_msg_v01_ei =
     [Elem QMI_OPT_FLAG 1 (csizeof u8_t) NO_ARRAY 0x10 (offsetof wlfw_rejuvenate_ind_msg_v01_t ''cause_for_rejuvenation_valid'') None,
      Elem QMI_UNSIGNED_1_BYTE 1 (csizeof u8_t) NO_ARRAY 0x10 (offsetof wlfw_rejuvenate_ind_msg_v01_t ''cause_for_rejuvenation'') None,
      Elem QMI_OPT_FLAG 1 (csizeof u8_t) NO_ARRAY 0x11 (offsetof wlfw_rejuvenate_ind_msg_v01_t ''requesting_sub_system_valid'') None,
      Elem QMI_UNSIGNED_1_BYTE 1 (csizeof u8_t) NO_ARRAY 0x11 (offsetof wlfw_rejuvenate_ind_msg_v01_t ''requesting_sub_system'') None,
      Elem QMI_OPT_FLAG 1 (csizeof u8_t) NO_ARRAY 0x12 (offsetof wlfw_rejuvenate_ind_msg_v01_t ''line_number_valid'') None,
      Elem QMI_UNSIGNED_2_BYTE 1 (csizeof u16_t) NO_ARRAY 0x12 (offsetof wlfw_rejuvenate_ind_msg_v01_t ''line_number'') None,
      Elem QMI_OPT_FLAG 1 (csizeof u8_t) NO_ARRAY 0x13 (offsetof wlfw_rejuvenate_ind_msg_v01_t ''function_name_valid'') None,
      Elem QMI_STRING (QMI_WLFW_FUNCTION_NAME_LEN_V01 + 1) (csizeof char_t) NO_ARRAY 0x13 (offsetof wlfw_rejuvenate_ind_msg_v01_t ''function_name'') None,
      Elem QMI_EOTI 0 0 NO_ARRAY 0 0 None]"

definition wlfw_rejuvenate_ack_req_msg_v01_ei :: "qmi_elem_info list" where [layout]:
  "wlfw_rejuvenate_ack_req_msg_v01_ei =
     [Elem QMI_EOTI 0 0 NO_ARRAY 0 0 None]"

definition wlfw_rejuvenate_ack_resp_msg_v01_ei :: "qmi_elem_info list" where [layout]:
  "wlfw_rejuvenate_ack_resp_msg_v01_ei =
     [Elem QMI_STRUCT 1 (csizeof qmi_response_type_v01_t) NO_ARRAY 0x02 (offsetof wlfw_rejuvenate_ack_resp_msg_v01_t ''resp'') (Some qmi_response_type_v01_ei),
      Elem QMI_EOTI 0 0 NO_ARRAY 0 0 None]"

definition wlfw_dynamic_feature_mask_req_msg_v01_ei :: "qmi_elem_info list" where [layout]:
  "wlfw_dynamic_feature_mask_req_msg_v01_ei =
     [Elem QMI_OPT_FLAG 1 (csizeof u8_t) NO_ARRAY 0x10 (offsetof wlfw_dynamic_feature_mask_req_msg_v01_t ''mask_valid'') None,
      Elem QMI_UNSIGNED_8_BYTE 1 (csizeof u64_t) NO_ARRAY 0x10 (offsetof wlfw_dynamic_feature_mask_req_msg_v01_t ''mask'') None,
      Elem QMI_EOTI 0 0 NO_ARRAY 0 0 None]"

definition wlfw_dynamic_feature_mask_resp_msg_v01_ei :: "qmi_elem_info list" where [layout]:
  "wlfw_dynamic_feature_mask_resp_msg_v01_ei =
     [Elem QMI_STRUCT 1 (csizeof qmi_response_type_v01_t) NO_ARRAY 0x02 (offsetof wlfw_dynamic_feature_mask_resp_msg_v01_t ''resp'') (Some qmi_response_type_v01_ei),
      Elem QMI_OPT_FLAG 1 (csizeof u8_t) NO_ARRAY 0x10 (offsetof wlfw_dynamic_feature_mask_resp_msg_v01_t ''prev_mask_valid'') None,
      Elem QMI_UNSIGNED_8_BYTE 1 (csizeof u64_t) NO_ARRAY 0x10 (offsetof wlfw_dynamic_feature_mask_resp_msg_v01_t ''prev_mask'') None,
      Elem QMI_OPT_FLAG 1 (csizeof u8_t) NO_ARRAY 0x11 (offsetof wlfw_dynamic_feature_mask_resp_msg_v01_t ''curr_mask_valid'') None,
      Elem QMI_UNSIGNED_8_BYTE 1 (csizeof u64_t) NO_ARRAY 0x11 (offsetof wlfw_dynamic_feature_mask_resp_msg_v01_t ''curr_mask'') None,
      Elem QMI_EOTI 0 0 NO_ARRAY 0 0 None]"

definition wlfw_m3_info_req_msg_v01_ei :: "qmi_elem_info list" where [layout]:
  "wlfw_m3_info_req_msg_v01_ei =
     [Elem QMI_UNSIGNED_8_BYTE 1 (csizeof u64_t) NO_ARRAY 0x01 (offsetof wlfw_m3_info_req_msg_v01_t ''addr'') None,
      Elem QMI_UNSIGNED_4_BYTE 1 (csizeof u32_t) NO_ARRAY 0x02 (offsetof wlfw_m3_info_req_msg_v01_t ''size'') None,
      Elem QMI_EOTI 0 0 NO_ARRAY 0 0 None]"

definition wlfw_m3_info_resp_msg_v01_ei :: "qmi_elem_info list" where [layout]:
  "wlfw_m3_info_resp_msg_v01_ei =
     [Elem QMI_STRUCT 1 (csizeof qmi_response_type_v01_t) NO_ARRAY 0x02 (offsetof wlfw_m3_info_resp_msg_v01_t ''resp'') (Some qmi_response_type_v01_ei),
      Elem QMI_EOTI 0 0 NO_ARRAY 0 0 None]"

definition wlfw_xo_cal_ind_msg_v01_ei :: "qmi_elem_info list" where [layout]:
  "wlfw_xo_cal_ind_msg_v01_ei =
     [Elem QMI_UNSIGNED_1_BYTE 1 (csizeof u8_t) NO_ARRAY 0x01 (offsetof wlfw_xo_cal_ind_msg_v01_t ''xo_cal_data'') None,
      Elem QMI_EOTI 0 0 NO_ARRAY 0 0 None]"

definition wlfw_cal_done_ind_msg_v01_ei :: "qmi_elem_info list" where [layout]:
  "wlfw_cal_done_ind_msg_v01_ei =
     [Elem QMI_OPT_FLAG 1 (csizeof u8_t) NO_ARRAY 0x10 (offsetof wlfw_cal_done_ind_msg_v01_t ''cal_file_upload_size_valid'') None,
      Elem QMI_UNSIGNED_8_BYTE 1 (csizeof u64_t) NO_ARRAY 0x10 (offsetof wlfw_cal_done_ind_msg_v01_t ''cal_file_upload_size'') None,
      Elem QMI_EOTI 0 0 NO_ARRAY 0 0 None]"

definition wlfw_qdss_trace_req_mem_ind_msg_v01_ei :: "qmi_elem_info list" where [layout]:
  "wlfw_qdss_trace_req_mem_ind_msg_v01_ei =
     [Elem QMI_DATA_LEN 1 (csizeof u8_t) NO_ARRAY 0x01 (offsetof wlfw_qdss_trace_req_mem_ind_msg_v01_t ''mem_seg_len'') None,
      Elem QMI_STRUCT QMI_WLFW_MAX_NUM_MEM_SEG_V01 (csizeof wlfw_mem_seg_s_v01_t) VAR_LEN_ARRAY 0x01 (offsetof wlfw_qdss_trace_req_mem_ind_msg_v01_t ''mem_seg'') (Some wlfw_mem_seg_s_v01_ei),
      Elem QMI_EOTI 0 0 NO_ARRAY 0 0 None]"

definition wlfw_qdss_trace_mem_info_req_msg_v01_ei :: "qmi_elem_info list" where [layout]:
  "wlfw_qdss_trace_mem_info_req_msg_v01_ei =
     [Elem QMI_DATA_LEN 1 (csizeof u8_t) NO_ARRAY 0x01 (offsetof wlfw_qdss_trace_mem_info_req_msg_v01_t ''mem_seg_len'') None,
      Elem QMI_STRUCT QMI_WLFW_MAX_NUM_MEM_SEG_V01 (csizeof wlfw_mem_seg_resp_s_v01_t) VAR_LEN_ARRAY 0x01 (offsetof wlfw_qdss_trace_mem_info_req_msg_v01_t ''mem_seg'') (Some wlfw_mem_seg_resp_s_v01_ei),
      Elem QMI_EOTI 0 0 NO_ARRAY 0 0 None]"

definition wlfw_qdss_trace_mem_info_resp_msg_v01_ei :: "qmi_elem_info list" where [layout]:
  "wlfw_qdss_trace_mem_info_resp_msg_v01_ei =
     [Elem QMI_STRUCT 1 (csizeof qmi_response_type_v01_t) NO_ARRAY 0x02 (offsetof wlfw_qdss_trace_mem_info_resp_msg_v01_t ''resp'') (Some qmi_response_type_v01_ei),
      Elem QMI_EOTI 0 0 NO_ARRAY 0 0 None]"

definition wlfw_qdss_trace_save_ind_msg_v01_ei :: "qmi_elem_info list" where [layout]:
  "wlfw_qdss_trace_save_ind_msg_v01_ei =
     [Elem QMI_UNSIGNED_4_BYTE 1 (csizeof u32_t) NO_ARRAY 0x01 (offsetof wlfw_qdss_trace_save_ind_msg_v01_t ''source'') None,
      Elem QMI_UNSIGNED_4_BYTE 1 (csizeof u32_t) NO_ARRAY 0x02 (offsetof wlfw_qdss_trace_save_ind_msg_v01_t ''total_size'') None,
      Elem QMI_OPT_FLAG 1 (csizeof u8_t) NO_ARRAY 0x10 (offsetof wlfw_qdss_trace_save_ind_msg_v01_t ''mem_seg_valid'') None,
      Elem QMI_DATA_LEN 1 (csizeof u8_t) NO_ARRAY 0x10 (offsetof wlfw_qdss_trace_save_ind_msg_v01_t ''mem_seg_len'') None,
      Elem QMI_STRUCT QMI_WLFW_MAX_NUM_MEM_SEG_V01 (csizeof wlfw_mem_seg_resp_s_v01_t) VAR_LEN_ARRAY 0x10 (offsetof wlfw_qdss_trace_save_ind_msg_v01_t ''mem_seg'') (Some wlfw_mem_seg_resp_s_v01_ei),
      Elem QMI_OPT_FLAG 1 (csizeof u8_t) NO_ARRAY 0x11 (offsetof wlfw_qdss_trace_save_ind_msg_v01_t ''file_name_valid'') None,
      Elem QMI_STRING (QMI_WLFW_MAX_STR_LEN_V01 + 1) (csizeof char_t) NO_ARRAY 0x11 (offsetof wlfw_qdss_trace_save_ind_msg_v01_t ''file_name'') None,
      Elem QMI_EOTI 0 0 NO_ARRAY 0 0 None]"

definition wlfw_qdss_trace_data_req_msg_v01_ei :: "qmi_elem_info list" where [layout]:
  "wlfw_qdss_trace_data_req_msg_v01_ei =
     [Elem QMI_UNSIGNED_4_BYTE 1 (csizeof u32_t) NO_ARRAY 0x01 (offsetof wlfw_qdss_trace_data_req_msg_v01_t ''seg_id'') None,
      Elem QMI_EOTI 0 0 NO_ARRAY 0 0 None]"

definition wlfw_qdss_trace_data_resp_msg_v01_ei :: "qmi_elem_info list" where [layout]:
  "wlfw_qdss_trace_data_resp_msg_v01_ei =
     [Elem QMI_STRUCT 1 (csizeof qmi_response_type_v01_t) NO_ARRAY 0x02 (offsetof wlfw_qdss_trace_data_resp_msg_v01_t ''resp'') (Some qmi_response_type_v01_ei),
      Elem QMI_OPT_FLAG 1 (csizeof u8_t) NO_ARRAY 0x10 (offsetof wlfw_qdss_trace_data_resp_msg_v01_t ''total_size_valid'') None,
      Elem QMI_UNSIGNED_4_BYTE 1 (csizeof u32_t) NO_ARRAY 0x10 (offsetof wlfw_qdss_trace_data_resp_msg_v01_t ''total_size'') None,
      Elem QMI_OPT_FLAG 1 (csizeof u8_t) NO_ARRAY 0x11 (offsetof wlfw_qdss_trace_data_resp_msg_v01_t ''seg_id_valid'') None,
      Elem QMI_UNSIGNED_4_BYTE 1 (csizeof u32_t) NO_ARRAY 0x11 (offsetof wlfw_qdss_trace_data_resp_msg_v01_t ''seg_id'') None,
      Elem QMI_OPT_FLAG 1 (csizeof u8_t) NO_ARRAY 0x12 (offsetof wlfw_qdss_trace_data_resp_msg_v01_t ''data_valid'') None,
      Elem QMI_DATA_LEN 1 (csizeof u16_t) NO_ARRAY 0x12 (offsetof wlfw_qdss_trace_data_resp_msg_v01_t ''data_len'') None,
      Elem QMI_UNSIGNED_1_BYTE QMI_WLFW_MAX_DATA_SIZE_V01 (csizeof u8_t) VAR_LEN_ARRAY 0x12 (offsetof wlfw_qdss_trace_data_resp_msg_v01_t ''data'') None,
      Elem QMI_OPT_FLAG 1 (csizeof u8_t) NO_ARRAY 0x13 (offsetof wlfw_qdss_trace_data_resp_msg_v01_t ''end_valid'') None,
      Elem QMI_UNSIGNED_1_BYTE 1 (csizeof u8_t) NO_ARRAY 0x13 (offsetof wlfw_qdss_trace_data_resp_msg_v01_t ''end'') None,
      Elem QMI_EOTI 0 0 NO_ARRAY 0 0 None]"

definition wlfw_qdss_trace_config_download_req_msg_v01_ei :: "qmi_elem_info list" where [layout]:
  "wlfw_qdss_trace_config_download_req_msg_v01_ei =
     [Elem QMI_OPT_FLAG 1 (csizeof u8_t) NO_ARRAY 0x10 (offsetof wlfw_qdss_trace_config_download_req_msg_v01_t ''total_size_valid'') None,
      Elem QMI_UNSIGNED_4_BYTE 1 (csizeof u32_t) NO_ARRAY 0x10 (offsetof wlfw_qdss_trace_config_download_req_msg_v01_t ''total_size'') None,
      Elem QMI_OPT_FLAG 1 (csizeof u8_t) NO_ARRAY 0x11 (offsetof wlfw_qdss_trace_config_download_req_msg_v01_t ''seg_id_valid'') None,
      Elem QMI_UNSIGNED_4_BYTE 1 (csizeof u32_t) NO_ARRAY 0x11 (offsetof wlfw_qdss_trace_config_download_req_msg_v01_t ''seg_id'') None,
      Elem QMI_OPT_FLAG 1 (csizeof u8_t) NO_ARRAY 0x12 (offsetof wlfw_qdss_trace_config_download_req_msg_v01_t ''data_valid'') None,
      Elem QMI_DATA_LEN 1 (csizeof u16_t) NO_ARRAY 0x12 (offsetof wlfw_qdss_trace_config_download_req_msg_v01_t ''data_len'') None,
      Elem QMI_UNSIGNED_1_BYTE QMI_WLFW_MAX_DATA_SIZE_V01 (csizeof u8_t) VAR_LEN_ARRAY 0x12 (offsetof wlfw_qdss_trace_config_download_req_msg_v01_t ''data'') None,
      Elem QMI_OPT_FLAG 1 (csizeof u8_t) NO_ARRAY 0x13 (offsetof wlfw_qdss_trace_config_download_req_msg_v01_t ''end_valid'') None,
      Elem QMI_UNSIGNED_1_BYTE 1 (csizeof u8_t) NO_ARRAY 0x13 (offsetof wlfw_qdss_trace_config_download_req_msg_v01_t ''end'') None,
      Elem QMI_EOTI 0 0 NO_ARRAY 0 0 None]"

definition wlfw_qdss_trace_config_download_resp_msg_v01_ei :: "qmi_elem_info list" where [layout]:
  "wlfw_qdss_trace_config_download_resp_msg_v01_ei =
     [Elem QMI_STRUCT 1 (csizeof qmi_response_type_v01_t) NO_ARRAY 0x02 (offsetof wlfw_qdss_trace_config_download_resp_msg_v01_t ''resp'') (Some qmi_response_type_v01_ei),
      Elem QMI_EOTI 0 0 NO_ARRAY 0 0 None]"

definition wlfw_qdss_trace_mode_req_msg_v01_ei :: "qmi_elem_info list" where [layout]:
  "wlfw_qdss_trace_mode_req_msg_v01_ei =
     [Elem QMI_OPT_FLAG 1 (csizeof u8_t) NO_ARRAY 0x10 (offsetof wlfw_qdss_trace_mode_req_msg_v01_t ''mode_valid'') None,
      Elem QMI_SIGNED_4_BYTE_ENUM 1 (csizeof enum_t) NO_ARRAY 0x10 (offsetof wlfw_qdss_trace_mode_req_msg_v01_t ''mode'') None,
      Elem QMI_OPT_FLAG 1 (csizeof u8_t) NO_ARRAY 0x11 (offsetof wlfw_qdss_trace_mode_req_msg_v01_t ''option_valid'') None,
      Elem QMI_UNSIGNED_8_BYTE 1 (csizeof u64_t) NO_ARRAY 0x11 (offsetof wlfw_qdss_trace_mode_req_msg_v01_t ''option'') None,
      Elem QMI_OPT_FLAG 1 (csizeof u8_t) NO_ARRAY 0x12 (offsetof wlfw_qdss_trace_mode_req_msg_v01_t ''hw_trc_disable_override_valid'') None,
      Elem QMI_SIGNED_4_BYTE_ENUM 1 (csizeof enum_t) NO_ARRAY 0x12 (offsetof wlfw_qdss_trace_mode_req_msg_v01_t ''hw_trc_disable_override'') None,
      Elem QMI_EOTI 0 0 NO_ARRAY 0 0 None]"

definition wlfw_qdss_trace_mode_resp_msg_v01_ei :: "qmi_elem_info list" where [layout]:
  "wlfw_qdss_trace_mode_resp_msg_v01_ei =
     [Elem QMI_STRUCT 1 (csizeof qmi_response_type_v01_t) NO_ARRAY 0x02 (offsetof wlfw_qdss_trace_mode_resp_msg_v01_t ''resp'') (Some qmi_response_type_v01_ei),
      Elem QMI_EOTI 0 0 NO_ARRAY 0 0 None]"

definition wlfw_qdss_trace_free_ind_msg_v01_ei :: "qmi_elem_info list" where [layout]:
  "wlfw_qdss_trace_free_ind_msg_v01_ei =
     [Elem QMI_OPT_FLAG 1 (csizeof u8_t) NO_ARRAY 0x10 (offsetof wlfw_qdss_trace_free_ind_msg_v01_t ''mem_seg_valid'') None,
      Elem QMI_DATA_LEN 1 (csizeof u8_t) NO_ARRAY 0x10 (offsetof wlfw_qdss_trace_free_ind_msg_v01_t ''mem_seg_len'') None,
      Elem QMI_STRUCT QMI_WLFW_MAX_NUM_MEM_SEG_V01 (csizeof wlfw_mem_seg_resp_s_v01_t) VAR_LEN_ARRAY 0x10 (offsetof wlfw_qdss_trace_free_ind_msg_v01_t ''mem_seg'') (Some wlfw_mem_seg_resp_s_v01_ei),
      Elem QMI_EOTI 0 0 NO_ARRAY 0 0 None]"

definition wlfw_shutdown_req_msg_v01_ei :: "qmi_elem_info list" where [layout]:
  "wlfw_shutdown_req_msg_v01_ei =
     [Elem QMI_OPT_FLAG 1 (csizeof u8_t) NO_ARRAY 0x10 (offsetof wlfw_shutdown_req_msg_v01_t ''shutdown_valid'') None,
      Elem QMI_UNSIGNED_1_BYTE 1 (csizeof u8_t) NO_ARRAY 0x10 (offsetof wlfw_shutdown_req_msg_v01_t ''shutdown'') None,
      Elem QMI_EOTI 0 0 NO_ARRAY 0 0 None]"

definition wlfw_shutdown_resp_msg_v01_ei :: "qmi_elem_info list" where [layout]:
  "wlfw_shutdown_resp_msg_v01_ei =
     [Elem QMI_STRUCT 1 (csizeof qmi_response_type_v01_t) NO_ARRAY 0x02 (offsetof wlfw_shutdown_resp_msg_v01_t ''resp'') (Some qmi_response_type_v01_ei),
      Elem QMI_EOTI 0 0 NO_ARRAY 0 0 None]"

definition wlfw_antenna_switch_req_msg_v01_ei :: "qmi_elem_info list" where [layout]:
  "wlfw_antenna_switch_req_msg_v01_ei =
     [Elem QMI_EOTI 0 0 NO_ARRAY 0 0 None]"

definition wlfw_antenna_switch_resp_msg_v01_ei :: "qmi_elem_info list" where [layout]:
  "wlfw_antenna_switch_resp_msg_v01_ei =
     [Elem QMI_STRUCT 1 (csizeof qmi_response_type_v01_t) NO_ARRAY 0x02 (offsetof wlfw_antenna_switch_resp_msg_v01_t ''resp'') (Some qmi_response_type_v01_ei),
      Elem QMI_OPT_FLAG 1 (csizeof u8_t) NO_ARRAY 0x10 (offsetof wlfw_antenna_switch_resp_msg_v01_t ''antenna_valid'') None,
      Elem QMI_UNSIGNED_8_BYTE 1 (csizeof u64_t) NO_ARRAY 0x10 (offsetof wlfw_antenna_switch_resp_msg_v01_t ''antenna'') None,
      Elem QMI_EOTI 0 0 NO_ARRAY 0 0 None]"

definition wlfw_antenna_grant_req_msg_v01_ei :: "qmi_elem_info list" where [layout]:
  "wlfw_antenna_grant_req_msg_v01_ei =
     [Elem QMI_OPT_FLAG 1 (csizeof u8_t) NO_ARRAY 0x10 (offsetof wlfw_antenna_grant_req_msg_v01_t ''grant_valid'') None,
      Elem QMI_UNSIGNED_8_BYTE 1 (csizeof u64_t) NO_ARRAY 0x10 (offsetof wlfw_antenna_grant_req_msg_v01_t ''grant'') None,
      Elem QMI_EOTI 0 0 NO_ARRAY 0 0 None]"

definition wlfw_antenna_grant_resp_msg_v01_ei :: "qmi_elem_info list" where [layout]:
  "wlfw_antenna_grant_resp_msg_v01_ei =
     [Elem QMI_STRUCT 1 (csizeof qmi_response_type_v01_t) NO_ARRAY 0x02 (offsetof wlfw_antenna_grant_resp_msg_v01_t ''resp'') (Some qmi_response_type_v01_ei),
      Elem QMI_EOTI 0 0 NO_ARRAY 0 0 None]"

definition wlfw_wfc_call_status_req_msg_v01_ei :: "qmi_elem_info list" where [layout]:
  "wlfw_wfc_call_status_req_msg_v01_ei =
     [Elem QMI_DATA_LEN 1 (csizeof u16_t) NO_ARRAY 0x01 (offsetof wlfw_wfc_call_status_req_msg_v01_t ''wfc_call_status_len'') None,
      Elem QMI_UNSIGNED_1_BYTE QMI_WLFW_MAX_WFC_CALL_STATUS_DATA_SIZE_V01 (csizeof u8_t) VAR_LEN_ARRAY 0x01 (offsetof wlfw_wfc_call_status_req_msg_v01_t ''wfc_call_status'') None,
      Elem QMI_OPT_FLAG 1 (csizeof u8_t) NO_ARRAY 0x10 (offsetof wlfw_wfc_call_status_req_msg_v01_t ''wfc_call_active_valid'') None,
      Elem QMI_UNSIGNED_1_BYTE 1 (csizeof u8_t) NO_ARRAY 0x10 (offsetof wlfw_wfc_call_status_req_msg_v01_t ''wfc_call_active'') None,
      Elem QMI_OPT_FLAG 1 (csizeof u8_t) NO_ARRAY 0x11 (offsetof wlfw_wfc_call_status_req_msg_v01_t ''all_wfc_calls_held_valid'') None,
      Elem QMI_UNSIGNED_1_BYTE 1 (csizeof u8_t) NO_ARRAY 0x11 (offsetof wlfw_wfc_call_status_req_msg_v01_t ''all_wfc_calls_held'') None,
      Elem QMI_OPT_FLAG 1 (csizeof u8_t) NO_ARRAY 0x12 (offsetof wlfw_wfc_call_status_req_msg_v01_t ''is_wfc_emergency_valid'') None,
      Elem QMI_UNSIGNED_1_BYTE 1 (csizeof u8_t) NO_ARRAY 0x12 (offsetof wlfw_wfc_call_status_req_msg_v01_t ''is_wfc_emergency'') None,
      Elem QMI_OPT_FLAG 1 (csizeof u8_t) NO_ARRAY 0x13 (offsetof wlfw_wfc_call_status_req_msg_v01_t ''twt_ims_start_valid'') None,
      Elem QMI_UNSIGNED_8_BYTE 1 (csizeof u64_t) NO_ARRAY 0x13 (offsetof wlfw_wfc_call_status_req_msg_v01_t ''twt_ims_start'') None,
      Elem QMI_OPT_FLAG 1 (csizeof u8_t) NO_ARRAY 0x14 (offsetof wlfw_wfc_call_status_req_msg_v01_t ''twt_ims_int_valid'') None,
      Elem QMI_UNSIGNED_2_BYTE 1 (csizeof u16_t) NO_ARRAY 0x14 (offsetof wlfw_wfc_call_status_req_msg_v01_t ''twt_ims_int'') None,
      Elem QMI_OPT_FLAG 1 (csizeof u8_t) NO_ARRAY 0x15 (offsetof wlfw_wfc_call_status_req_msg_v01_t ''media_quality_valid'') None,
      Elem QMI_SIGNED_4_BYTE_ENUM 1 (csizeof enum_t) NO_ARRAY 0x15 (offsetof wlfw_wfc_call_status_req_msg_v01_t ''media_quality'') None,
      Elem QMI_EOTI 0 0 NO_ARRAY 0 0 None]"

definition wlfw_wfc_call_status_resp_msg_v01_ei :: "qmi_elem_info list" where [layout]:
  "wlfw_wfc_call_status_resp_msg_v01_ei =
     [Elem QMI_STRUCT 1 (csizeof qmi_response_type_v01_t) NO_ARRAY 0x02 (offsetof wlfw_wfc_call_status_resp_msg_v01_t ''resp'') (Some qmi_response_type_v01_ei),
      Elem QMI_EOTI 0 0 NO_ARRAY 0 0 None]"

definition wlfw_get_info_req_msg_v01_ei :: "qmi_elem_info list" where [layout]:
  "wlfw_get_info_req_msg_v01_ei =
     [Elem QMI_UNSIGNED_1_BYTE 1 (csizeof u8_t) NO_ARRAY 0x01 (offsetof wlfw_get_info_req_msg_v01_t ''type'') None,
      Elem QMI_DATA_LEN 1 (csizeof u16_t) NO_ARRAY 0x02 (offsetof wlfw_get_info_req_msg_v01_t ''data_len'') None,
      Elem QMI_UNSIGNED_1_BYTE QMI_WLFW_MAX_DATA_SIZE_V01 (csizeof u8_t) VAR_LEN_ARRAY 0x02 (offsetof wlfw_get_info_req_msg_v01_t ''data'') None,
      Elem QMI_EOTI 0 0 NO_ARRAY 0 0 None]"

definition wlfw_get_info_resp_msg_v01_ei :: "qmi_elem_info list" where [layout]:
  "wlfw_get_info_resp_msg_v01_ei =
     [Elem QMI_STRUCT 1 (csizeof qmi_response_type_v01_t) NO_ARRAY 0x02 (offsetof wlfw_get_info_resp_msg_v01_t ''resp'') (Some qmi_response_type_v01_ei),
      Elem QMI_EOTI 0 0 NO_ARRAY 0 0 None]"

definition wlfw_respond_get_info_ind_msg_v01_ei :: "qmi_elem_info list" where [layout]:
  "wlfw_respond_get_info_ind_msg_v01_ei =
     [Elem QMI_DATA_LEN 1 (csizeof u16_t) NO_ARRAY 0x01 (offsetof wlfw_respond_get_info_ind_msg_v01_t ''data_len'') None,
      Elem QMI_UNSIGNED_1_BYTE QMI_WLFW_MAX_DATA_SIZE_V01 (csizeof u8_t) VAR_LEN_ARRAY 0x01 (offsetof wlfw_respond_get_info_ind_msg_v01_t ''data'') None,
      Elem QMI_OPT_FLAG 1 (csizeof u8_t) NO_ARRAY 0x10 (offsetof wlfw_respond_get_info_ind_msg_v01_t ''type_valid'') None,
      Elem QMI_UNSIGNED_1_BYTE 1 (csizeof u8_t) NO_ARRAY 0x10 (offsetof wlfw_respond_get_info_ind_msg_v01_t ''type'') None,
      Elem QMI_OPT_FLAG 1 (csizeof u8_t) NO_ARRAY 0x11 (offsetof wlfw_respond_get_info_ind_msg_v01_t ''is_last_valid'') None,
      Elem QMI_UNSIGNED_1_BYTE 1 (csizeof u8_t) NO_ARRAY 0x11 (offsetof wlfw_respond_get_info_ind_msg_v01_t ''is_last'') None,
      Elem QMI_OPT_FLAG 1 (csizeof u8_t) NO_ARRAY 0x12 (offsetof wlfw_respond_get_info_ind_msg_v01_t ''seq_no_valid'') None,
      Elem QMI_UNSIGNED_4_BYTE 1 (csizeof u32_t) NO_ARRAY 0x12 (offsetof wlfw_respond_get_info_ind_msg_v01_t ''seq_no'') None,
      Elem QMI_EOTI 0 0 NO_ARRAY 0 0 None]"

definition wlfw_device_info_req_msg_v01_ei :: "qmi_elem_info list" where [layout]:
  "wlfw_device_info_req_msg_v01_ei =
     [Elem QMI_EOTI 0 0 NO_ARRAY 0 0 None]"

definition wlfw_device_info_resp_msg_v01_ei :: "qmi_elem_info list" where [layout]:
  "wlfw_device_info_resp_msg_v01_ei =
     [Elem QMI_STRUCT 1 (csizeof qmi_response_type_v01_t) NO_ARRAY 0x02 (offsetof wlfw_device_info_resp_msg_v01_t ''resp'') (Some qmi_response_type_v01_ei),
      Elem QMI_OPT_FLAG 1 (csizeof u8_t) NO_ARRAY 0x10 (offsetof wlfw_device_info_resp_msg_v01_t ''bar_addr_valid'') None,
      Elem QMI_UNSIGNED_8_BYTE 1 (csizeof u64_t) NO_ARRAY 0x10 (offsetof wlfw_device_info_resp_msg_v01_t ''bar_addr'') None,
      Elem QMI_OPT_FLAG 1 (csizeof u8_t) NO_ARRAY 0x11 (offsetof wlfw_device_info_resp_msg_v01_t ''bar_size_valid'') None,
      Elem QMI_UNSIGNED_4_BYTE 1 (csizeof u32_t) NO_ARRAY 0x11 (offsetof wlfw_device_info_resp_msg_v01_t ''bar_size'') None,
      Elem QMI_OPT_FLAG 1 (csizeof u8_t) NO_ARRAY 0x12 (offsetof wlfw_device_info_resp_msg_v01_t ''mhi_state_info_addr_valid'') None,
      Elem QMI_UNSIGNED_8_BYTE 1 (csizeof u64_t) NO_ARRAY 0x12 (offsetof wlfw_device_info_resp_msg_v01_t ''mhi_state_info_addr'') None,
      Elem QMI_OPT_FLAG 1 (csizeof u8_t) NO_ARRAY 0x13 (offsetof wlfw_device_info_resp_msg_v01_t ''mhi_state_info_size_valid'') None,
      Elem QMI_UNSIGNED_4_BYTE 1 (csizeof u32_t) NO_ARRAY 0x13 (offsetof wlfw_device_info_resp_msg_v01_t ''mhi_state_info_size'') None,
      Elem QMI_EOTI 0 0 NO_ARRAY 0 0 None]"

definition wlfw_m3_dump_upload_req_ind_msg_v01_ei :: "qmi_elem_info list" where [layout]:
  "wlfw_m3_dump_upload_req_ind_msg_v01_ei =
     [Elem QMI_UNSIGNED_4_BYTE 1 (csizeof u32_t) NO_ARRAY 0x01 (offsetof wlfw_m3_dump_upload_req_ind_msg_v01_t ''pdev_id'') None,
      Elem QMI_UNSIGNED_8_BYTE 1 (csizeof u64_t) NO_ARRAY 0x02 (offsetof wlfw_m3_dump_upload_req_ind_msg_v01_t ''addr'') None,
      Elem QMI_UNSIGNED_8_BYTE 1 (csizeof u64_t) NO_ARRAY 0x03 (offsetof wlfw_m3_dump_upload_req_ind_msg_v01_t ''size'') None,
      Elem QMI_EOTI 0 0 NO_ARRAY 0 0 None]"

definition wlfw_m3_dump_upload_done_req_msg_v01_ei :: "qmi_elem_info list" where [layout]:
  "wlfw_m3_dump_upload_done_req_msg_v01_ei =
     [Elem QMI_UNSIGNED_4_BYTE 1 (csizeof u32_t) NO_ARRAY 0x01 (offsetof wlfw_m3_dump_upload_done_req_msg_v01_t ''pdev_id'') None,
      Elem QMI_UNSIGNED_4_BYTE 1 (csizeof u32_t) NO_ARRAY 0x02 (offsetof wlfw_m3_dump_upload_done_req_msg_v01_t ''status'') None,
      Elem QMI_EOTI 0 0 NO_ARRAY 0 0 None]"

definition wlfw_m3_dump_upload_done_resp_msg_v01_ei :: "qmi_elem_info list" where [layout]:
  "wlfw_m3_dump_upload_done_resp_msg_v01_ei =
     [Elem QMI_STRUCT 1 (csizeof qmi_response_type_v01_t) NO_ARRAY 0x02 (offsetof wlfw_m3_dump_upload_done_resp_msg_v01_t ''resp'') (Some qmi_response_type_v01_ei),
      Elem QMI_EOTI 0 0 NO_ARRAY 0 0 None]"

definition wlfw_soc_wake_req_msg_v01_ei :: "qmi_elem_info list" where [layout]:
  "wlfw_soc_wake_req_msg_v01_ei =
     [Elem QMI_OPT_FLAG 1 (csizeof u8_t) NO_ARRAY 0x10 (offsetof wlfw_soc_wake_req_msg_v01_t ''wake_valid'') None,
      Elem QMI_SIGNED_4_BYTE_ENUM 1 (csizeof enum_t) NO_ARRAY 0x10 (offsetof wlfw_soc_wake_req_msg_v01_t ''wake'') None,
      Elem QMI_EOTI 0 0 NO_ARRAY 0 0 None]"

definition wlfw_soc_wake_resp_msg_v01_ei :: "qmi_elem_info list" where [layout]:
  "wlfw_soc_wake_resp_msg_v01_ei =
     [Elem QMI_STRUCT 1 (csizeof qmi_response_type_v01_t) NO_ARRAY 0x02 (offsetof wlfw_soc_wake_resp_msg_v01_t ''resp'') (Some qmi_response_type_v01_ei),
      Elem QMI_EOTI 0 0 NO_ARRAY 0 0 None]"

definition wlfw_power_save_req_msg_v01_ei :: "qmi_elem_info list" where [layout]:
  "wlfw_power_save_req_msg_v01_ei =
     [Elem QMI_OPT_FLAG 1 (csizeof u8_t) NO_ARRAY 0x10 (offsetof wlfw_power_save_req_msg_v01_t ''power_save_mode_valid'') None,
      Elem QMI_SIGNED_4_BYTE_ENUM 1 (csizeof enum_t) NO_ARRAY 0x10 (offsetof wlfw_power_save_req_msg_v01_t ''power_save_mode'') None,
      Elem QMI_EOTI 0 0 NO_ARRAY 0 0 None]"

definition wlfw_power_save_resp_msg_v01_ei :: "qmi_elem_info list" where [layout]:
  "wlfw_power_save_resp_msg_v01_ei =
     [Elem QMI_STRUCT 1 (csizeof qmi_response_type_v01_t) NO_ARRAY 0x02 (offsetof wlfw_power_save_resp_msg_v01_t ''resp'') (Some qmi_response_type_v01_ei),
      Elem QMI_EOTI 0 0 NO_ARRAY 0 0 None]"

definition wlfw_wfc_call_twt_config_ind_msg_v01_ei :: "qmi_elem_info list" where [layout]:
  "wlfw_wfc_call_twt_config_ind_msg_v01_ei =
     [Elem QMI_OPT_FLAG 1 (csizeof u8_t) NO_ARRAY 0x10 (offsetof wlfw_wfc_call_twt_config_ind_msg_v01_t ''twt_sta_start_valid'') None,
      Elem QMI_UNSIGNED_8_BYTE 1 (csizeof u64_t) NO_ARRAY 0x10 (offsetof wlfw_wfc_call_twt_config_ind_msg_v01_t ''twt_sta_start'') None,
      Elem QMI_OPT_FLAG 1 (csizeof u8_t) NO_ARRAY 0x11 (offsetof wlfw_wfc_call_twt_config_ind_msg_v01_t ''twt_sta_int_valid'') None,
      Elem QMI_UNSIGNED_2_BYTE 1 (csizeof u16_t) NO_ARRAY 0x11 (offsetof wlfw_wfc_call_twt_config_ind_msg_v01_t ''twt_sta_int'') None,
      Elem QMI_OPT_FLAG 1 (csizeof u8_t) NO_ARRAY 0x12 (offsetof wlfw_wfc_call_twt_config_ind_msg_v01_t ''twt_sta_upo_valid'') None,
      Elem QMI_UNSIGNED_2_BYTE 1 (csizeof u16_t) NO_ARRAY 0x12 (offsetof wlfw_wfc_call_twt_config_ind_msg_v01_t ''twt_sta_upo'') None,
      Elem QMI_OPT_FLAG 1 (csizeof u8_t) NO_ARRAY 0x13 (offsetof wlfw_wfc_call_twt_config_ind_msg_v01_t ''twt_sta_sp_valid'') None,
      Elem QMI_UNSIGNED_2_BYTE 1 (csizeof u16_t) NO_ARRAY 0x13 (offsetof wlfw_wfc_call_twt_config_ind_msg_v01_t ''twt_sta_sp'') None,
      Elem QMI_OPT_FLAG 1 (csizeof u8_t) NO_ARRAY 0x14 (offsetof wlfw_wfc_call_twt_config_ind_msg_v01_t ''twt_sta_dl_valid'') None,
      Elem QMI_UNSIGNED_2_BYTE 1 (csizeof u16_t) NO_ARRAY 0x14 (offsetof wlfw_wfc_call_twt_config_ind_msg_v01_t ''twt_sta_dl'') None,
      Elem QMI_OPT_FLAG 1 (csizeof u8_t) NO_ARRAY 0x15 (offsetof wlfw_wfc_call_twt_config_ind_msg_v01_t ''twt_sta_config_changed_valid'') None,
      Elem QMI_UNSIGNED_1_BYTE 1 (csizeof u8_t) NO_ARRAY 0x15 (offsetof wlfw_wfc_call_twt_config_ind_msg_v01_t ''twt_sta_config_changed'') None,
      Elem QMI_EOTI 0 0 NO_ARRAY 0 0 None]"

definition wlfw_qdss_mem_ready_ind_msg_v01_ei :: "qmi_elem_info list" where [layout]:
  "wlfw_qdss_mem_ready_ind_msg_v01_ei =
     [Elem QMI_EOTI 0 0 NO_ARRAY 0 0 None]"

definition wlfw_pcie_gen_switch_req_msg_v01_ei :: "qmi_elem_info list" where [layout]:
  "wlfw_pcie_gen_switch_req_msg_v01_ei =
     [Elem QMI_SIGNED_4_BYTE_ENUM 1 (csizeof enum_t) NO_ARRAY 0x01 (offsetof wlfw_pcie_gen_switch_req_msg_v01_t ''pcie_speed'') None,
      Elem QMI_EOTI 0 0 NO_ARRAY 0 0 None]"

definition wlfw_pcie_gen_switch_resp_msg_v01_ei :: "qmi_elem_info list" where [layout]:
  "wlfw_pcie_gen_switch_resp_msg_v01_ei =
     [Elem QMI_STRUCT 1 (csizeof qmi_response_type_v01_t) NO_ARRAY 0x02 (offsetof wlfw_pcie_gen_switch_resp_msg_v01_t ''resp'') (Some qmi_response_type_v01_ei),
      Elem QMI_EOTI 0 0 NO_ARRAY 0 0 None]"

definition wlfw_m3_dump_upload_segments_req_ind_msg_v01_ei :: "qmi_elem_info list" where [layout]:
  "wlfw_m3_dump_upload_segments_req_ind_msg_v01_ei =
     [Elem QMI_UNSIGNED_4_BYTE 1 (csizeof u32_t) NO_ARRAY 0x01 (offsetof wlfw_m3_dump_upload_segments_req_ind_msg_v01_t ''pdev_id'') None,
      Elem QMI_UNSIGNED_4_BYTE 1 (csizeof u32_t) NO_ARRAY 0x02 (offsetof wlfw_m3_dump_upload_segments_req_ind_msg_v01_t ''no_of_valid_segments'') None,
      Elem QMI_STRUCT QMI_WLFW_MAX_M3_SEGMENTS_SIZE_V01 (csizeof wlfw_m3_segment_info_s_v01_t) STATIC_ARRAY 0x03 (offsetof wlfw_m3_dump_upload_segments_req_ind_msg_v01_t ''m3_segment'') (Some wlfw_m3_segment_info_s_v01_ei),
      Elem QMI_EOTI 0 0 NO_ARRAY 0 0 None]"

definition wlfw_subsys_restart_level_req_msg_v01_ei :: "qmi_elem_info list" where [layout]:
  "wlfw_subsys_restart_level_req_msg_v01_ei =
     [Elem QMI_OPT_FLAG 1 (csizeof u8_t) NO_ARRAY 0x10 (offsetof wlfw_subsys_restart_level_req_msg_v01_t ''restart_level_type_valid'') None,
      Elem QMI_UNSIGNED_1_BYTE 1 (csizeof u8_t) NO_ARRAY 0x10 (offsetof wlfw_subsys_restart_level_req_msg_v01_t ''restart_level_type'') None,
      Elem QMI_EOTI 0 0 NO_ARRAY 0 0 None]"

definition wlfw_subsys_restart_level_resp_msg_v01_ei :: "qmi_elem_info list" where [layout]:
  "wlfw_subsys_restart_level_resp_msg_v01_ei =
     [Elem QMI_STRUCT 1 (csizeof qmi_response_type_v01_t) NO_ARRAY 0x02 (offsetof wlfw_subsys_restart_level_resp_msg_v01_t ''resp'') (Some qmi_response_type_v01_ei),
      Elem QMI_EOTI 0 0 NO_ARRAY 0 0 None]"

section \<open>The table\<close>

text \<open>Each descriptor with the size of the structure it describes.\<close>

definition wlan_messages :: "(qmi_elem_info list \<times> nat) list" where
  "wlan_messages =
     [(wlfw_ce_tgt_pipe_cfg_s_v01_ei, csize wlfw_ce_tgt_pipe_cfg_s_v01_t),
      (wlfw_ce_svc_pipe_cfg_s_v01_ei, csize wlfw_ce_svc_pipe_cfg_s_v01_t),
      (wlfw_shadow_reg_cfg_s_v01_ei, csize wlfw_shadow_reg_cfg_s_v01_t),
      (wlfw_shadow_reg_v2_cfg_s_v01_ei, csize wlfw_shadow_reg_v2_cfg_s_v01_t),
      (wlfw_rri_over_ddr_cfg_s_v01_ei, csize wlfw_rri_over_ddr_cfg_s_v01_t),
      (wlfw_msi_cfg_s_v01_ei, csize wlfw_msi_cfg_s_v01_t),
      (wlfw_memory_region_info_s_v01_ei, csize wlfw_memory_region_info_s_v01_t),
      (wlfw_mem_cfg_s_v01_ei, csize wlfw_mem_cfg_s_v01_t),
      (wlfw_mem_seg_s_v01_ei, csize wlfw_mem_seg_s_v01_t),
      (wlfw_mem_seg_resp_s_v01_ei, csize wlfw_mem_seg_resp_s_v01_t),
      (wlfw_rf_chip_info_s_v01_ei, csize wlfw_rf_chip_info_s_v01_t),
      (wlfw_rf_board_info_s_v01_ei, csize wlfw_rf_board_info_s_v01_t),
      (wlfw_soc_info_s_v01_ei, csize wlfw_soc_info_s_v01_t),
      (wlfw_fw_version_info_s_v01_ei, csize wlfw_fw_version_info_s_v01_t),
      (wlfw_host_ddr_range_s_v01_ei, csize wlfw_host_ddr_range_s_v01_t),
      (wlfw_m3_segment_info_s_v01_ei, csize wlfw_m3_segment_info_s_v01_t),
      (wlfw_dev_mem_info_s_v01_ei, csize wlfw_dev_mem_info_s_v01_t),
      (wlfw_host_mlo_chip_info_s_v01_ei, csize wlfw_host_mlo_chip_info_s_v01_t),
      (wlfw_ind_register_req_msg_v01_ei, csize wlfw_ind_register_req_msg_v01_t),
      (wlfw_ind_register_resp_msg_v01_ei, csize wlfw_ind_register_resp_msg_v01_t),
      (wlfw_fw_ready_ind_msg_v01_ei, 0),
      (wlfw_msa_ready_ind_msg_v01_ei, csize wlfw_msa_ready_ind_msg_v01_t),
      (wlfw_pin_connect_result_ind_msg_v01_ei, csize wlfw_pin_connect_result_ind_msg_v01_t),
      (wlfw_wlan_mode_req_msg_v01_ei, csize wlfw_wlan_mode_req_msg_v01_t),
      (wlfw_wlan_mode_resp_msg_v01_ei, csize wlfw_wlan_mode_resp_msg_v01_t),
      (wlfw_wlan_cfg_req_msg_v01_ei, csize wlfw_wlan_cfg_req_msg_v01_t),
      (wlfw_wlan_cfg_resp_msg_v01_ei, csize wlfw_wlan_cfg_resp_msg_v01_t),
      (wlfw_cap_req_msg_v01_ei, 0),
      (wlfw_cap_resp_msg_v01_ei, csize wlfw_cap_resp_msg_v01_t),
      (wlfw_bdf_download_req_msg_v01_ei, csize wlfw_bdf_download_req_msg_v01_t),
      (wlfw_bdf_download_resp_msg_v01_ei, csize wlfw_bdf_download_resp_msg_v01_t),
      (wlfw_cal_report_req_msg_v01_ei, csize wlfw_cal_report_req_msg_v01_t),
      (wlfw_cal_report_resp_msg_v01_ei, csize wlfw_cal_report_resp_msg_v01_t),
      (wlfw_initiate_cal_download_ind_msg_v01_ei, csize wlfw_initiate_cal_download_ind_msg_v01_t),
      (wlfw_cal_download_req_msg_v01_ei, csize wlfw_cal_download_req_msg_v01_t),
      (wlfw_cal_download_resp_msg_v01_ei, csize wlfw_cal_download_resp_msg_v01_t),
      (wlfw_initiate_cal_update_ind_msg_v01_ei, csize wlfw_initiate_cal_update_ind_msg_v01_t),
      (wlfw_cal_update_req_msg_v01_ei, csize wlfw_cal_update_req_msg_v01_t),
      (wlfw_cal_update_resp_msg_v01_ei, csize wlfw_cal_update_resp_msg_v01_t),
      (wlfw_msa_info_req_msg_v01_ei, csize wlfw_msa_info_req_msg_v01_t),
      (wlfw_msa_info_resp_msg_v01_ei, csize wlfw_msa_info_resp_msg_v01_t),
      (wlfw_msa_ready_req_msg_v01_ei, 0),
      (wlfw_msa_ready_resp_msg_v01_ei, csize wlfw_msa_ready_resp_msg_v01_t),
      (wlfw_ini_req_msg_v01_ei, csize wlfw_ini_req_msg_v01_t),
      (wlfw_ini_resp_msg_v01_ei, csize wlfw_ini_resp_msg_v01_t),
      (wlfw_athdiag_read_req_msg_v01_ei, csize wlfw_athdiag_read_req_msg_v01_t),
      (wlfw_athdiag_read_resp_msg_v01_ei, csize wlfw_athdiag_read_resp_msg_v01_t),
      (wlfw_athdiag_write_req_msg_v01_ei, csize wlfw_athdiag_write_req_msg_v01_t),
      (wlfw_athdiag_write_resp_msg_v01_ei, csize wlfw_athdiag_write_resp_msg_v01_t),
      (wlfw_vbatt_req_msg_v01_ei, csize wlfw_vbatt_req_msg_v01_t),
      (wlfw_vbatt_resp_msg_v01_ei, csize wlfw_vbatt_resp_msg_v01_t),
      (wlfw_mac_addr_req_msg_v01_ei, csize wlfw_mac_addr_req_msg_v01_t),
      (wlfw_mac_addr_resp_msg_v01_ei, csize wlfw_mac_addr_resp_msg_v01_t),
      (wlfw_host_cap_req_msg_v01_ei, csize wlfw_host_cap_req_msg_v01_t),
      (wlfw_host_cap_resp_msg_v01_ei, csize wlfw_host_cap_resp_msg_v01_t),
      (wlfw_request_mem_ind_msg_v01_ei, csize wlfw_request_mem_ind_msg_v01_t),
      (wlfw_respond_mem_req_msg_v01_ei, csize wlfw_respond_mem_req_msg_v01_t),
      (wlfw_respond_mem_resp_msg_v01_ei, csize wlfw_respond_mem_resp_msg_v01_t),
      (wlfw_fw_mem_ready_ind_msg_v01_ei, 0),
      (wlfw_fw_init_done_ind_msg_v01_ei, csize wlfw_fw_init_done_ind_msg_v01_t),
      (wlfw_rejuvenate_ind_msg_v01_ei, csize wlfw_rejuvenate_ind_msg_v01_t),
      (wlfw_rejuvenate_ack_req_msg_v01_ei, 0),
      (wlfw_rejuvenate_ack_resp_msg_v01_ei, csize wlfw_rejuvenate_ack_resp_msg_v01_t),
      (wlfw_dynamic_feature_mask_req_msg_v01_ei, csize wlfw_dynamic_feature_mask_req_msg_v01_t),
      (wlfw_dynamic_feature_mask_resp_msg_v01_ei, csize wlfw_dynamic_feature_mask_resp_msg_v01_t),
      (wlfw_m3_info_req_msg_v01_ei, csize wlfw_m3_info_req_msg_v01_t),
      (wlfw_m3_info_resp_msg_v01_ei, csize wlfw_m3_info_resp_msg_v01_t),
      (wlfw_xo_cal_ind_msg_v01_ei, csize wlfw_xo_cal_ind_msg_v01_t),
      (wlfw_cal_done_ind_msg_v01_ei, csize wlfw_cal_done_ind_msg_v01_t),
      (wlfw_qdss_trace_req_mem_ind_msg_v01_ei, csize wlfw_qdss_trace_req_mem_ind_msg_v01_t),
      (wlfw_qdss_trace_mem_info_req_msg_v01_ei, csize wlfw_qdss_trace_mem_info_req_msg_v01_t),
      (wlfw_qdss_trace_mem_info_resp_msg_v01_ei, csize wlfw_qdss_trace_mem_info_resp_msg_v01_t),
      (wlfw_qdss_trace_save_ind_msg_v01_ei, csize wlfw_qdss_trace_save_ind_msg_v01_t),
      (wlfw_qdss_trace_data_req_msg_v01_ei, csize wlfw_qdss_trace_data_req_msg_v01_t),
      (wlfw_qdss_trace_data_resp_msg_v01_ei, csize wlfw_qdss_trace_data_resp_msg_v01_t),
      (wlfw_qdss_trace_config_download_req_msg_v01_ei, csize wlfw_qdss_trace_config_download_req_msg_v01_t),
      (wlfw_qdss_trace_config_download_resp_msg_v01_ei, csize wlfw_qdss_trace_config_download_resp_msg_v01_t),
      (wlfw_qdss_trace_mode_req_msg_v01_ei, csize wlfw_qdss_trace_mode_req_msg_v01_t),
      (wlfw_qdss_trace_mode_resp_msg_v01_ei, csize wlfw_qdss_trace_mode_resp_msg_v01_t),
      (wlfw_qdss_trace_free_ind_msg_v01_ei, csize wlfw_qdss_trace_free_ind_msg_v01_t),
      (wlfw_shutdown_req_msg_v01_ei, csize wlfw_shutdown_req_msg_v01_t),
      (wlfw_shutdown_resp_msg_v01_ei, csize wlfw_shutdown_resp_msg_v01_t),
      (wlfw_antenna_switch_req_msg_v01_ei, 0),
      (wlfw_antenna_switch_resp_msg_v01_ei, csize wlfw_antenna_switch_resp_msg_v01_t),
      (wlfw_antenna_grant_req_msg_v01_ei, csize wlfw_antenna_grant_req_msg_v01_t),
      (wlfw_antenna_grant_resp_msg_v01_ei, csize wlfw_antenna_grant_resp_msg_v01_t),
      (wlfw_wfc_call_status_req_msg_v01_ei, csize wlfw_wfc_call_status_req_msg_v01_t),
      (wlfw_wfc_call_status_resp_msg_v01_ei, csize wlfw_wfc_call_status_resp_msg_v01_t),
      (wlfw_get_info_req_msg_v01_ei, csize wlfw_get_info_req_msg_v01_t),
      (wlfw_get_info_resp_msg_v01_ei, csize wlfw_get_info_resp_msg_v01_t),
      (wlfw_respond_get_info_ind_msg_v01_ei, csize wlfw_respond_get_info_ind_msg_v01_t),
      (wlfw_device_info_req_msg_v01_ei, 0),
      (wlfw_device_info_resp_msg_v01_ei, csize wlfw_device_info_resp_msg_v01_t),
      (wlfw_m3_dump_upload_req_ind_msg_v01_ei, csize wlfw_m3_dump_upload_req_ind_msg_v01_t),
      (wlfw_m3_dump_upload_done_req_msg_v01_ei, csize wlfw_m3_dump_upload_done_req_msg_v01_t),
      (wlfw_m3_dump_upload_done_resp_msg_v01_ei, csize wlfw_m3_dump_upload_done_resp_msg_v01_t),
      (wlfw_soc_wake_req_msg_v01_ei, csize wlfw_soc_wake_req_msg_v01_t),
      (wlfw_soc_wake_resp_msg_v01_ei, csize wlfw_soc_wake_resp_msg_v01_t),
      (wlfw_power_save_req_msg_v01_ei, csize wlfw_power_save_req_msg_v01_t),
      (wlfw_power_save_resp_msg_v01_ei, csize wlfw_power_save_resp_msg_v01_t),
      (wlfw_wfc_call_twt_config_ind_msg_v01_ei, csize wlfw_wfc_call_twt_config_ind_msg_v01_t),
      (wlfw_qdss_mem_ready_ind_msg_v01_ei, 0),
      (wlfw_pcie_gen_switch_req_msg_v01_ei, csize wlfw_pcie_gen_switch_req_msg_v01_t),
      (wlfw_pcie_gen_switch_resp_msg_v01_ei, csize wlfw_pcie_gen_switch_resp_msg_v01_t),
      (wlfw_m3_dump_upload_segments_req_ind_msg_v01_ei, csize wlfw_m3_dump_upload_segments_req_ind_msg_v01_t),
      (wlfw_subsys_restart_level_req_msg_v01_ei, csize wlfw_subsys_restart_level_req_msg_v01_t),
      (wlfw_subsys_restart_level_resp_msg_v01_ei, csize wlfw_subsys_restart_level_resp_msg_v01_t)]"

lemma wlan_messages_fit: "list_all (\<lambda>(es, n). list_all (elem_fits n) es) wlan_messages"
  by code_simp

end
