(* ===== verification/Qmi_Handlers.thy ===== *)
theory Qmi_Handlers
  imports Qmi_Services Qmi_Wlan
begin

text \<open>
  The dispatch of incoming messages of \<open>qmi_interface.c\<close>, and the handler tables the drivers register with
  \<open>qmi_handle_init\<close>. A table is the array of the source: its last entry \<open>{}\<close> is \<open>no_handler\<close>, where the source has one.
\<close>

abbreviation QMI_REQUEST :: u32 where "QMI_REQUEST \<equiv> 0"
abbreviation QMI_RESPONSE :: u32 where "QMI_RESPONSE \<equiv> 2"
abbreviation QMI_INDICATION :: u32 where "QMI_INDICATION \<equiv> 4"

text \<open>\<open>struct qmi_msg_handler\<close>; \<open>h_fn\<close> tells whether the function pointer is set.\<close>

record qmi_msg_handler =
  h_type :: u32
  h_msg_id :: u32
  h_ei :: "qmi_elem_info list"
  h_decoded_size :: nat
  h_fn :: bool

abbreviation handler :: "u32 \<Rightarrow> u32 \<Rightarrow> qmi_elem_info list \<Rightarrow> nat \<Rightarrow> qmi_msg_handler" where
  "handler t i ei n \<equiv> \<lparr>h_type = t, h_msg_id = i, h_ei = ei, h_decoded_size = n, h_fn = True\<rparr>"

abbreviation no_handler :: qmi_msg_handler where
  "no_handler \<equiv> \<lparr>h_type = 0, h_msg_id = 0, h_ei = [], h_decoded_size = 0, h_fn = False\<rparr>"

section \<open>Dispatch\<close>

text \<open>
  The members of the header of a message, and what happens to a message: it is dropped, a handler runs on the
  transaction id and the decoded structure, or a waiting transaction gets the result of the decoder.
\<close>

definition hdr_type :: "u8 list \<Rightarrow> u32" where
  "hdr_type buf = ucast (buf ! 0)"

definition hdr_txn_id :: "u8 list \<Rightarrow> u16" where
  "hdr_txn_id buf = get16 buf 1"

definition hdr_msg_id :: "u8 list \<Rightarrow> u32" where
  "hdr_msg_id buf = ucast (get16 buf 3)"

datatype qmi_event =
    Dropped
  | Handled u16 "u8 list"
  | Completed u16 "errno + u8 list \<times> u32"

text \<open>The search for a handler stops at the entry without a function; an array that has none is left at its end.\<close>

fun find_handler :: "qmi_msg_handler list \<Rightarrow> u32 \<Rightarrow> u32 \<Rightarrow> qmi_msg_handler option outcome" where
  "find_handler [] t i = Bad_read"
| "find_handler (h # hs) t i =
     (if \<not> h_fn h then Done None
      else if h_type h = t \<and> h_msg_id h = i then Done (Some h)
      else find_handler hs t i)"

definition qmi_invoke_handler :: "bool \<Rightarrow> qmi_msg_handler list option \<Rightarrow> u16 \<Rightarrow> u8 list \<Rightarrow> qmi_event outcome" where
  "qmi_invoke_handler alloc_ok handlers txn_id buf =
     (case handlers of
        None \<Rightarrow> Done Dropped
      | Some hs \<Rightarrow>
          obind (find_handler hs (hdr_type buf) (hdr_msg_id buf)) (\<lambda>found.
            case found of
              None \<Rightarrow> Done Dropped
            | Some h \<Rightarrow>
                if \<not> alloc_ok then Done Dropped
                else
                  (case qmi_decode_message buf (Some (h_ei h)) (Some (replicate (h_decoded_size h) 0)) of
                     Bad_read \<Rightarrow> Bad_read
                   | Bad_write \<Rightarrow> Bad_write
                   | Fail e \<Rightarrow> Done Dropped
                   | Done (dest, n) \<Rightarrow> Done (Handled txn_id dest))))"

text \<open>
  The pending transactions are a map from ids to the descriptor and the structure of the caller, \<open>None\<close> for null
  pointers. Seven bytes are the size of the header.
\<close>

definition qmi_handle_message ::
  "bool \<Rightarrow> qmi_msg_handler list option \<Rightarrow> (u16 \<rightharpoonup> qmi_elem_info list option \<times> u8 list option) \<Rightarrow> u8 list \<Rightarrow>
   qmi_event outcome" where
  "qmi_handle_message alloc_ok handlers txns buf =
     (if length buf < 7 then Done Dropped
      else if hdr_type buf = QMI_RESPONSE then
        (case txns (hdr_txn_id buf) of
           None \<Rightarrow> Done Dropped
         | Some (Some ei, Some dest) \<Rightarrow>
             (case qmi_decode_message buf (Some ei) (Some dest) of
                Bad_read \<Rightarrow> Bad_read
              | Bad_write \<Rightarrow> Bad_write
              | Fail e \<Rightarrow> Done (Completed (hdr_txn_id buf) (Inl e))
              | Done r \<Rightarrow> Done (Completed (hdr_txn_id buf) (Inr r)))
         | Some _ \<Rightarrow> qmi_invoke_handler alloc_ok handlers (hdr_txn_id buf) buf)
      else qmi_invoke_handler alloc_ok handlers (hdr_txn_id buf) buf)"

section \<open>The handler tables\<close>

definition slim_qmi_msg_handlers :: "qmi_msg_handler list" where [layout]:
  "slim_qmi_msg_handlers =
     [handler QMI_RESPONSE 0x0021 slimbus_power_resp_msg_v01_ei (csize slimbus_power_resp_msg_v01_t),
      no_handler]"

definition uaudio_stream_req_handlers :: "qmi_msg_handler list" where [layout]:
  "uaudio_stream_req_handlers =
     [handler QMI_REQUEST 0x0001 qmi_uaudio_stream_req_msg_v01_ei 46]"

definition qmi_memshare_handlers :: "qmi_msg_handler list" where [layout]:
  "qmi_memshare_handlers =
     [handler QMI_REQUEST 0x0022 mem_alloc_generic_req_msg_data_v01_ei (csize mem_alloc_generic_req_msg_v01_t),
      handler QMI_REQUEST 0x0023 mem_free_generic_req_msg_data_v01_ei (csize mem_free_generic_req_msg_v01_t),
      handler QMI_REQUEST 0x0024 mem_query_size_req_msg_data_v01_ei (csize mem_query_size_req_msg_v01_t)]"

definition wlfw_msg_handlers :: "qmi_msg_handler list" where [layout]:
  "wlfw_msg_handlers =
     [handler QMI_INDICATION 0x0021 wlfw_fw_ready_ind_msg_v01_ei (csize (Struct [(''placeholder'', char_t)])),
      handler QMI_INDICATION 0x002b wlfw_msa_ready_ind_msg_v01_ei (csize wlfw_msa_ready_ind_msg_v01_t),
      handler QMI_INDICATION 0x002c wlfw_pin_connect_result_ind_msg_v01_ei (csize wlfw_pin_connect_result_ind_msg_v01_t),
      handler QMI_INDICATION 0x0039 wlfw_rejuvenate_ind_msg_v01_ei (csize wlfw_rejuvenate_ind_msg_v01_t),
      handler QMI_INDICATION 0x003e wlfw_cal_done_ind_msg_v01_ei (csize wlfw_cal_done_ind_msg_v01_t),
      handler QMI_INDICATION 0x0038 wlfw_fw_init_done_ind_msg_v01_ei (csize wlfw_fw_init_done_ind_msg_v01_t),
      handler QMI_INDICATION 0x003f wlfw_qdss_trace_req_mem_ind_msg_v01_ei (csize wlfw_qdss_trace_req_mem_ind_msg_v01_t),
      handler QMI_INDICATION 0x0041 wlfw_qdss_trace_save_ind_msg_v01_ei (csize wlfw_qdss_trace_save_ind_msg_v01_t),
      handler QMI_INDICATION 0x0046 wlfw_qdss_trace_free_ind_msg_v01_ei (csize wlfw_qdss_trace_free_ind_msg_v01_t),
      handler QMI_INDICATION 0x004b wlfw_respond_get_info_ind_msg_v01_ei (csize wlfw_respond_get_info_ind_msg_v01_t),
      handler QMI_INDICATION 0x0054 wlfw_m3_dump_upload_segments_req_ind_msg_v01_ei (csize wlfw_m3_dump_upload_segments_req_ind_msg_v01_t),
      no_handler]"

definition qmi_wlfw_msg_handlers :: "qmi_msg_handler list" where [layout]:
  "qmi_wlfw_msg_handlers =
     [handler QMI_INDICATION 0x0035 wlfw_request_mem_ind_msg_v01_ei (csize wlfw_request_mem_ind_msg_v01_t),
      handler QMI_INDICATION 0x0037 wlfw_fw_mem_ready_ind_msg_v01_ei (csize (Struct [(''placeholder'', char_t)])),
      handler QMI_INDICATION 0x0021 wlfw_fw_ready_ind_msg_v01_ei (csize (Struct [(''placeholder'', char_t)])),
      handler QMI_INDICATION 0x0038 wlfw_fw_init_done_ind_msg_v01_ei (csize wlfw_fw_init_done_ind_msg_v01_t),
      handler QMI_INDICATION 0x002c wlfw_pin_connect_result_ind_msg_v01_ei (csize wlfw_pin_connect_result_ind_msg_v01_t),
      handler QMI_INDICATION 0x003e wlfw_cal_done_ind_msg_v01_ei (csize wlfw_cal_done_ind_msg_v01_t),
      handler QMI_INDICATION 0x003f wlfw_qdss_trace_req_mem_ind_msg_v01_ei (csize wlfw_qdss_trace_req_mem_ind_msg_v01_t),
      handler QMI_INDICATION 0x0041 wlfw_qdss_trace_save_ind_msg_v01_ei (csize wlfw_qdss_trace_save_ind_msg_v01_t),
      handler QMI_INDICATION 0x0046 wlfw_qdss_trace_free_ind_msg_v01_ei (csize wlfw_qdss_trace_free_ind_msg_v01_t),
      handler QMI_INDICATION 0x004b wlfw_respond_get_info_ind_msg_v01_ei (csize wlfw_respond_get_info_ind_msg_v01_t),
      handler QMI_INDICATION 0x0051 wlfw_wfc_call_twt_config_ind_msg_v01_ei (csize wlfw_wfc_call_twt_config_ind_msg_v01_t),
      no_handler]"

definition qmi_ims_msg_handlers :: "qmi_msg_handler list" where [layout]:
  "qmi_ims_msg_handlers =
     [handler QMI_RESPONSE 0x003e ims_private_service_subscribe_for_indications_rsp_msg_v01_ei (csize ims_private_service_subscribe_for_indications_rsp_msg_v01_t),
      handler QMI_INDICATION 0x0040 ims_private_service_wfc_call_status_ind_msg_v01_ei (csize ims_private_service_wfc_call_status_ind_msg_v01_t),
      no_handler]"

definition sysmon_indication_handler :: "qmi_msg_handler list" where [layout]:
  "sysmon_indication_handler =
     [handler QMI_INDICATION 0x0021 qmi_ssctl_indication_ei 0,
      no_handler]"

definition notifier_indication_handler :: "qmi_msg_handler list" where [layout]:
  "notifier_indication_handler =
     [handler QMI_INDICATION 0x0022 qmi_servreg_notif_state_updated_ind_msg_v01_ei (csize qmi_servreg_notif_state_updated_ind_msg_v01_t),
      no_handler]"

definition sensor_handlers :: "qmi_msg_handler list" where [layout]:
  "sensor_handlers =
     [handler QMI_INDICATION 0x0022 ts_temp_report_ind_msg_v01_ei (csize ts_temp_report_ind_msg_v01_t),
      no_handler]"

text \<open>
  Every table, but for the single handler of the USB audio service, which gives a size of its own instead of the
  size of the structure.
\<close>

definition qmi_handler_tables :: "qmi_msg_handler list list" where [layout]:
  "qmi_handler_tables =
     [slim_qmi_msg_handlers, qmi_memshare_handlers, wlfw_msg_handlers, qmi_wlfw_msg_handlers, qmi_ims_msg_handlers,
      sysmon_indication_handler, notifier_indication_handler, sensor_handlers]"

section \<open>Safety\<close>

lemma elem_fits_mono: "elem_fits n e \<Longrightarrow> n \<le> m \<Longrightarrow> elem_fits m e"
  by (cases e) (auto simp: Let_def split: if_splits)

lemma fits_mono: "list_all (elem_fits n) es \<Longrightarrow> n \<le> m \<Longrightarrow> list_all (elem_fits m) es"
  by (auto simp: list_all_iff intro: elem_fits_mono)

lemma handler_tables_fit:
  "list_all (list_all (\<lambda>h. list_all (elem_fits (h_decoded_size h)) (h_ei h))) qmi_handler_tables"
  by code_simp

lemma find_handler_mem: "find_handler hs t i = Done (Some h) \<Longrightarrow> h \<in> set hs"
  by (induction hs t i rule: find_handler.induct) (auto split: if_splits)

lemma find_handler_no_write [simp]: "find_handler hs t i \<noteq> Bad_write"
  by (induction hs t i rule: find_handler.induct) auto

lemma decode_no_write:
  assumes "list_all (elem_fits n) es" "n \<le> length cs"
  shows "qmi_decode_message buf (Some es) (Some cs) \<noteq> Bad_write"
  using decode_message_safe[OF fits_mono[OF assms], of buf] by auto

lemma decode_fits_no_write:
  assumes "list_all (elem_fits n) es" "n \<le> length cs"
  shows "qmi_decode es cs 0 buf src in_len 1 \<noteq> Bad_write"
  using decode_tlvs_safe[OF assms(1), of 0 "\<lparr>ds_cs = cs, ds_src = src, ds_tlv_len = 0, ds_decoded = 0, ds_data_len = 0\<rparr>" buf in_len] assms(2)
  by (auto simp: qmi_decode_def)

lemma invoke_handler_safe:
  assumes "\<And>hs h. handlers = Some hs \<Longrightarrow> h \<in> set hs \<Longrightarrow> list_all (elem_fits (h_decoded_size h)) (h_ei h)"
  shows "qmi_invoke_handler alloc_ok handlers txn_id buf \<noteq> Bad_write"
proof -
  have "qmi_decode_message buf (Some (h_ei h)) (Some (replicate (h_decoded_size h) 0)) \<noteq> Bad_write"
    if "handlers = Some hs" "find_handler hs (hdr_type buf) (hdr_msg_id buf) = Done (Some h)" for hs h
    by (rule decode_no_write[OF assms[OF that(1) find_handler_mem[OF that(2)]]]) simp
  then show ?thesis
    by (auto simp: qmi_invoke_handler_def obind_Bad_write split: option.splits outcome.splits)
qed

lemma handle_message_safe:
  assumes "\<And>hs h. handlers = Some hs \<Longrightarrow> h \<in> set hs \<Longrightarrow> list_all (elem_fits (h_decoded_size h)) (h_ei h)"
    and "\<And>id ei dest. txns id = Some (Some ei, Some dest) \<Longrightarrow> list_all (elem_fits (length dest)) ei"
  shows "qmi_handle_message alloc_ok handlers txns buf \<noteq> Bad_write"
proof -
  have "qmi_decode_message buf (Some ei) (Some dest) \<noteq> Bad_write"
    if "txns (hdr_txn_id buf) = Some (Some ei, Some dest)" for ei dest
    by (rule decode_no_write[OF assms(2)[OF that]]) simp
  then show ?thesis
    using invoke_handler_safe[of handlers, OF assms(1)]
    by (auto simp: qmi_handle_message_def split: option.splits outcome.splits)
qed

section \<open>The tables of the USB audio and memory share services\<close>

lemma uaudio_fields: "find_ei qmi_uaudio_stream_req_msg_v01_ei 0x14 = Done (Some
    [Elem QMI_OPT_FLAG 1 1 NO_ARRAY 0x14 40 None, Elem QMI_UNSIGNED_4_BYTE 1 4 NO_ARRAY 0x14 44 None,
     Elem QMI_EOTI 0 0 NO_ARRAY 0 0 None])"
  by code_simp

lemma uaudio_decode_overruns:
  assumes "length hdr = 7" "length data = 4" "length rest < 2 ^ 31"
  shows "qmi_decode_message (hdr @ [0x14, a, b] @ data @ rest) (Some qmi_uaudio_stream_req_msg_v01_ei)
    (Some (replicate 46 0)) = Bad_write"
proof -
  let ?buf = "hdr @ [0x14, a, b] @ data @ rest" and ?cs = "replicate 46 0 :: u8 list"
  have n: "of_nat (length ?buf) - 7 = (of_nat (7 + length rest) :: u32)" using assms by simp
  have pos: "(0 :: u32) < of_nat (7 + length rest)" using assms(3)
    by (simp add: word_less_nat_alt unat_of_nat take_bit_nat_eq_self del: of_nat_add)
  have r: "read_at ?buf 7 3 = Done [0x14, a, b]"
    using read_at_append[OF assms(1), of "[0x14, a, b]" 3 "data @ rest"] by simp
  have w: "write_at ?cs 40 [1] = Done (replicate 40 0 @ 1 # replicate 5 0)" by (simp add: write_at_def)
  have c: "copy_elems 1 4 (replicate 40 0 @ 1 # replicate 5 0) 44 ?buf 10 = Bad_write"
    by (rule copy_elems_overrun) (use assms in auto)
  have "qmi_decode_tlvs qmi_uaudio_stream_req_msg_v01_ei 0 ?buf (of_nat (7 + length rest))
      \<lparr>ds_cs = ?cs, ds_src = 7, ds_tlv_len = 0, ds_decoded = 0, ds_data_len = 0\<rparr> = Bad_write"
    using pos r w c by (subst qmi_decode_tlvs.simps)
      (simp add: Let_def uaudio_fields decode_enter_def decode_opt_flag_def decode_data_len_def decode_array_len_def
        qmi_decode_elem.simps qmi_decode_basic_elem_def basic_type_def del: of_nat_add append.simps replicate.simps)
  then show ?thesis unfolding qmi_decode_message_def qmi_decode_def n by simp
qed

text \<open>C35. The USB audio service gives the length of the longest message, 46, for the size of the structure of its requests,
  which has 48 bytes. Every request whose first element is the service interval with its four bytes makes the decoder write past
  the memory the dispatcher has allocated, whatever follows in the message and whatever transactions are pending.\<close>

theorem uaudio_request_overruns:
  assumes "length hdr = 7" "hdr_type hdr = QMI_REQUEST" "hdr_msg_id hdr = 1" "length data = 4" "length rest < 2 ^ 31"
  shows "qmi_handle_message True (Some uaudio_stream_req_handlers) txns (hdr @ [0x14, a, b] @ data @ rest) = Bad_write"
proof -
  let ?buf = "hdr @ [0x14, a, b] @ data @ rest"
  have "hdr_type ?buf = 0" "hdr_msg_id ?buf = 1"
    using assms by (simp_all add: hdr_type_def hdr_msg_id_def get16_def nth_append)
  then show ?thesis
    using assms uaudio_decode_overruns[OF assms(1,4,5), of a b]
    by (simp add: qmi_handle_message_def qmi_invoke_handler_def uaudio_stream_req_handlers_def)
qed

theorem uaudio_request_overruns_witness:
  "qmi_handle_message True (Some uaudio_stream_req_handlers) Map.empty
     ([0, 1, 0, 1, 0, 7, 0] @ [0x14, 4, 0] @ [5, 0, 0, 0] @ []) = Bad_write"
  by (rule uaudio_request_overruns) (simp_all add: hdr_type_def hdr_msg_id_def get16_def le16_def)

lemma find_handler_unmatched:
  "list_all h_fn hs \<Longrightarrow> list_all (\<lambda>h. h_type h = t \<longrightarrow> h_msg_id h \<noteq> i) hs \<Longrightarrow> find_handler hs t i = Bad_read"
  by (induction hs) auto

lemma find_handler_terminated: "list_ex (\<lambda>h. \<not> h_fn h) hs \<Longrightarrow> find_handler hs t i \<noteq> Bad_read"
  by (induction hs) auto

lemma handler_tables_terminated:
  "hs \<in> set qmi_handler_tables \<Longrightarrow> hs \<noteq> qmi_memshare_handlers \<Longrightarrow> list_ex (\<lambda>h. \<not> h_fn h) hs"
  by (auto simp: qmi_handler_tables_def slim_qmi_msg_handlers_def wlfw_msg_handlers_def qmi_wlfw_msg_handlers_def
      qmi_ims_msg_handlers_def sysmon_indication_handler_def notifier_indication_handler_def sensor_handlers_def)

text \<open>C38. The tables of the memory share and the USB audio service lack the empty entry that ends a table: every request or
  indication they have no handler for makes the dispatcher read past the end of the table. In every other table the search ends
  inside, for every message.\<close>

theorem unterminated_handler_tables:
  assumes "7 \<le> length buf" "hdr_type buf \<noteq> QMI_RESPONSE"
    and "hs \<in> {qmi_memshare_handlers, uaudio_stream_req_handlers}"
    and "\<forall>h\<in>set hs. (h_type h, h_msg_id h) \<noteq> (hdr_type buf, hdr_msg_id buf)"
    and "hs' \<in> set qmi_handler_tables - {qmi_memshare_handlers}"
  shows "qmi_handle_message alloc_ok (Some hs) txns buf = Bad_read \<and> find_handler hs' t i \<noteq> Bad_read"
proof
  have "list_all h_fn hs" using assms(3) by (auto simp: qmi_memshare_handlers_def uaudio_stream_req_handlers_def)
  then have "find_handler hs (hdr_type buf) (hdr_msg_id buf) = Bad_read"
    using assms(4) by (auto simp: list_all_iff intro!: find_handler_unmatched)
  then show "qmi_handle_message alloc_ok (Some hs) txns buf = Bad_read"
    using assms(1,2) by (simp add: qmi_handle_message_def qmi_invoke_handler_def)
  show "find_handler hs' t i \<noteq> Bad_read"
    using assms(5) by (intro find_handler_terminated handler_tables_terminated) auto
qed

theorem unterminated_handler_tables_witness:
  "qmi_handle_message True (Some qmi_memshare_handlers) Map.empty [0, 1, 0, 0x30, 0, 0, 0] = Bad_read \<and>
   find_handler sensor_handlers 0 0x30 \<noteq> Bad_read"
  by (rule unterminated_handler_tables)
    (simp_all add: hdr_type_def hdr_msg_id_def get16_def le16_def qmi_memshare_handlers_def qmi_handler_tables_def sensor_handlers_def)

end
