(* ===== verification/Spec2Isabelle.thy ===== *)
theory Spec2Isabelle
  imports Cmd_Db Glink_Fifo Qrtr_Ns_Correct Qrtr_Deliver Qmi_Handlers
begin

text \<open>
  Verification of the inter-processor communication stack of the Qualcomm kernel tree, with the command database.

  \<^bold>\<open>The program.\<close> The processors of the SoC share memory. \<open>drivers/soc/qcom/smem.c\<close> (SMEM) is an allocate-only heap of
  numbered items in it. \<open>drivers/rpmsg/qcom_glink_smem.c\<close> (GLINK) puts two ring buffers and their indices into SMEM items,
  one per direction. Transports over such pipes are endpoints of the IPC router \<open>net/qrtr/qrtr.c\<close> (QRTR), which has a socket
  interface for users and forwards packets between nodes; \<open>net/qrtr/ns.c\<close> is its name server, which runs on the control port and
  tells observers which services exist. Services talk QMI, a format of tagged values:
  \<open>drivers/soc/qcom/qmi_encdec.c\<close> encodes a C structure into a message and back, as a table of the service says, and
  \<open>drivers/soc/qcom/qmi_interface.c\<close> hands an incoming message to a waiting transaction or to a handler of the driver. The
  command database, \<open>drivers/soc/qcom/cmd-db.c\<close>, is a read-only table of resources in reserved memory.

  \<^bold>\<open>The theories.\<close>
  \<^item> \<open>Ipc_Prelude\<close>: machine words, error numbers, little-endian bytes, memory, \<open>ALIGN\<close>, and the lemmas on them. \<open>XArray\<close>: the
    containers of the kernel (xarray, radix tree, idr), with the locale \<open>index_map\<close> of their laws, interpreted on the model's operations.
    \<open>Byte_Buf\<close>: computations on byte buffers that record a read or write outside of the buffer. \<open>State_Hoare\<close>: triples for the
    state monad.
  \<^item> \<open>Smem\<close>: every function of \<open>smem.c\<close>, on the bytes of the shared block. \<open>Smem_Heap\<close>: the abstract heap of items, the locale
    \<open>item_heap\<close> with the laws of allocation and lookup, interpreted on private partitions and on the global heap; refinement,
    disjointness of items, bounds, termination of the scans, what the probe establishes, two boundary cases of sizes.
  \<^item> \<open>Glink_Fifo\<close>: the pipe operations and the registration. The locale \<open>byte_pipe\<close> is a bounded queue of bytes; the
    interpretation on the ring buffer gives refinement and delivery in order, other theorems the bounds of every access.
  \<^item> \<open>Qrtr_Base\<close>, \<open>Qrtr_Ns\<close>: control packets; the state, handlers, worker and start of the name server. \<open>Qrtr_Ns_Correct\<close>:
    what an observer was told is what is registered, nobody can register for another node, well-formedness, listings, and
    the situations in which the code falls short.
  \<^item> \<open>Qrtr_Packet\<close>: headers, parsing, checksum; what is sent is what is parsed, for every type of packet, and the
    size a transport is told is right for packets below 2 GiB.
  \<^item> \<open>Qrtr_Router\<close>, \<open>Qrtr_Socket\<close>: the router. Nodes and sockets are objects with reference counts (\<open>r_node\<close>, \<open>r_sock\<close>); each
    function of \<open>qrtr.c\<close> is a computation in the state monad, and following a pointer to a freed object sets \<open>r_bad\<close>.
  \<^item> \<open>Qrtr_Refs\<close>, \<open>Qrtr_Refs_Ports\<close>, \<open>Qrtr_Refs_Flow\<close>, \<open>Qrtr_Refs_Endpoint\<close>, \<open>Qrtr_Refs_Sock\<close>: the invariant of the reference
    counts, relative to what running code holds (a \<open>grip\<close>), and a triple per function. \<open>Qrtr_Reach\<close>: the states reachable
    by calls of users, endpoints and kernel threads, and what holds in all of them: no use after free, bound sockets are
    found, the counters of flows are bounded. \<open>Qrtr_Deliver\<close>: a blocked sender goes on after a resume packet, a user receives what a user of another
    router sent, free ports, and a lost request for confirmation.
  \<^item> \<open>Qmi_Encdec\<close>: the whole encoder and decoder. \<open>Qmi_Safe\<close>: no write outside of the structure or message, and the cases
    the checks miss. \<open>Qmi_Layout\<close>, \<open>Qmi_Services\<close>, \<open>Qmi_Wlan\<close>: the layout rules of C and every message table of the sources, with
    the structures they describe. \<open>Qmi_Handlers\<close>: the dispatch of messages and the handler tables of all drivers; the table of the
    USB audio service with a wrong size, and two tables without an end. This theory composes them: no message makes a service
    other than USB audio write outside of its structures.
  \<^item> \<open>Cmd_Db\<close>: lookups, listing and probe of the command database, and the lookup as the search of a directory.

  \<^bold>\<open>Conventions.\<close> An error \<open>-E\<close> is \<open>Inl E\<close> (or \<open>Some E\<close> where success carries no value). Widths and wrap-around are those of the C
  code on arm64. What other code decides is a parameter: whether an allocation, a transmission or a copy succeeds, indexed by a
  counter; what other threads do during a wait (\<open>wait_rc\<close>) or while a worker is flushed (\<open>flush_rc\<close>). The hypothesis
  \<open>calm_env\<close> says of the latter that they keep the invariant of the reference counts for whatever the waiting call holds. For
  the creation of a socket, the registration of an endpoint, the refill of the backup buffers, \<open>qrtr_endpoint_post\<close>,
  \<open>qrtr_tx_resume\<close> and \<open>qrtr_hello_work\<close> this is proved in \<open>Qrtr_Reach\<close>; for other calls it is an assumption. Locks are not
  modelled as such: a call runs to its end except for its waits. A run of the encoder or decoder ends at its first access outside
  of a buffer; that nothing is written outside of a structure is also proved for a decoder that reads on beyond the message.

  \<^bold>\<open>Waiting.\<close> A sender that sleeps in \<open>qrtr_tx_wait\<close> takes one turn per entry of \<open>wait_rc\<close>: the time that is left, whether it
  looks at its condition by itself (it has just gone to sleep, or woke for no reason), and what other threads do to the state
  meanwhile. It looks at the counter again only in such a turn, when its time is over, or when one of the other threads has
  called \<open>wake_up_all\<close>, which a node counts in \<open>n_wakes\<close>.

  \<^bold>\<open>Bounds.\<close> No definition has fuel. The scans of SMEM follow lengths in shared memory and are partial functions, whose
  termination is the theorem \<open>smem_calls_return\<close>; all other loops have a termination proof. The wait in \<open>qrtr_tx_wait\<close> has one turn per
  entry of \<open>wait_rc\<close>; after the last one a signal ends it.

  \<^bold>\<open>Not modelled.\<close> In the modelled files: logging, debugging output, registration with the driver core and wake-up sources. The rest of the tree is hardware access (clocks, pins, power, USB, PCI, display, graphics, media,
  storage, input, radios), calls into firmware or a hypervisor that are not part of the sources, copies of upstream
  subsystems with the kernel core below them, and the clients of this stack (GLINK channels, the sockets of QMI and what its
  handlers do, transports of QRTR) that are mainly work queues and bus operations.
\<close>

section \<open>The messages of the QMI services\<close>

lemma all_messages_fit:
  assumes "(es, n) \<in> set (service_messages @ wlan_messages)"
  shows "list_all (elem_fits n) es"
  using assms service_messages_fit wlan_messages_fit by (auto simp: list_all_iff)

text \<open>C3. No message from a peer makes the kernel write outside of the structure it is decoded into. This holds for the dispatcher
  with the handler table of every driver but USB audio, or none, while each pending transaction has a descriptor of the sources and
  room for the structure the descriptor is for, laid out by the C rules. It also holds for the decoder with each of these descriptors
  when it reads on beyond the end of the message, whatever bytes are there.\<close>

theorem services_decode_inside:
  assumes "handlers \<in> insert None (Some ` set qmi_handler_tables)"
    and "\<And>id ei dest. txns id = Some (Some ei, Some dest) \<Longrightarrow> \<exists>n \<le> length dest. (ei, n) \<in> set (service_messages @ wlan_messages)"
  shows "qmi_handle_message mem_ok handlers txns buf \<noteq> Bad_write \<and>
    (\<forall>(es, n) \<in> set (service_messages @ wlan_messages). \<forall>cs. n \<le> length cs \<longrightarrow>
      qmi_decode es cs 0 (buf @ beyond) 7 (of_nat (length buf) - 7) 1 \<noteq> Bad_write)"
proof
  show "qmi_handle_message mem_ok handlers txns buf \<noteq> Bad_write"
  proof (rule handle_message_safe)
    show "list_all (elem_fits (h_decoded_size h)) (h_ei h)" if "handlers = Some hs" "h \<in> set hs" for hs h
      using that assms(1) handler_tables_fit by (auto simp: list_all_iff)
    show "list_all (elem_fits (length dest)) ei" if "txns id = Some (Some ei, Some dest)" for id ei dest
      using assms(2)[OF that] by (blast intro: fits_mono all_messages_fit)
  qed
  show "\<forall>(es, n) \<in> set (service_messages @ wlan_messages). \<forall>cs. n \<le> length cs \<longrightarrow>
      qmi_decode es cs 0 (buf @ beyond) 7 (of_nat (length buf) - 7) 1 \<noteq> Bad_write"
    by (intro ballI, clarify) (erule (1) decode_fits_no_write[OF all_messages_fit, THEN notE])
qed

theorem services_decode_inside_witness:
  "qmi_handle_message True (Some slim_qmi_msg_handlers)
     [1 \<mapsto> (Some slimbus_power_resp_msg_v01_ei, Some (replicate (csize slimbus_power_resp_msg_v01_t) 0))]
     [2, 1, 0, 33, 0, 7, 0, 2, 4, 0, 0, 0, 0, 0] \<noteq> Bad_write"
proof (rule services_decode_inside[THEN conjunct1])
  show "Some slim_qmi_msg_handlers \<in> insert None (Some ` set qmi_handler_tables)" by (simp add: qmi_handler_tables_def)
  have "(slimbus_power_resp_msg_v01_ei, csize slimbus_power_resp_msg_v01_t) \<in> set service_messages"
    by (simp add: service_messages_def)
  then show "\<exists>n \<le> length dest. (ei, n) \<in> set (service_messages @ wlan_messages)"
    if "[1 \<mapsto> (Some slimbus_power_resp_msg_v01_ei, Some (replicate (csize slimbus_power_resp_msg_v01_t) (0 :: u8)))] id =
      Some (Some ei, Some dest)" for id :: u16 and ei dest
    using that by (intro exI[of _ "csize slimbus_power_resp_msg_v01_t"]) (auto split: if_splits)
qed

end
